(* ===== verification/TG_Prelude.thy ===== *)
theory TG_Prelude
  imports Main "HOL-Library.AList" "HOL-Library.List_Lexorder" "HOL-Library.Char_ord"
    "HOL-Library.Code_Target_Nat"
begin

text \<open>
  Shared vocabulary of the development: identifiers, points in time and durations, the wrap-around
  arithmetic of atomic counters, the result type of operations that may panic, totals over keyed
  tables, and two interfaces the components are proved against:
  \<^item> \<open>keyed_total\<close>: a table with lookup, update and delete together with a total of
    the weights of its rows (the counters of the task store are such totals);
  \<^item> \<open>op_system\<close>: operations that keep an invariant keep it over every sequence
    of operations.
  Tables that the program iterates over (a concurrent hash map) are association lists with distinct
  keys: the list order is the (unspecified) iteration order.
\<close>

declare map_of_eq_Some_iff [simp del]

named_theorems tg_defs "unfolding equations of the small helper definitions"

section \<open>Types\<close>

type_synonym task_id = string
type_synonym datetime = int   \<comment> \<open>nanoseconds since the epoch\<close>
type_synonym instant = nat    \<comment> \<open>monotonic clock, nanoseconds\<close>
type_synonym duration = nat   \<comment> \<open>nanoseconds\<close>

abbreviation nanos_per_sec :: nat where "nanos_per_sec \<equiv> 1000000000"
abbreviation usize_max :: nat where "usize_max \<equiv> 18446744073709551615"

definition from_secs :: "nat \<Rightarrow> duration" where
  [tg_defs]: "from_secs n = n * nanos_per_sec"

definition from_millis :: "nat \<Rightarrow> duration" where
  [tg_defs]: "from_millis n = n * 1000000"

definition as_secs :: "duration \<Rightarrow> nat" where
  [tg_defs]: "as_secs d = d div nanos_per_sec"

definition as_millis :: "duration \<Rightarrow> nat" where
  [tg_defs]: "as_millis d = d div 1000000"

text \<open>The largest representable duration: \<open>u64::MAX\<close> seconds and 999999999 nanoseconds.\<close>

definition duration_max :: duration where
  "duration_max = usize_max * nanos_per_sec + 999999999"

definition saturating_mul :: "duration \<Rightarrow> nat \<Rightarrow> duration" where
  "saturating_mul d k = min (d * k) duration_max"

text \<open>Results of operations with an error path and a panic path.\<close>

datatype ('e, 'a) rres = ROk 'a | RErr 'e | RPanic

section \<open>Atomic counters\<close>

text \<open>\<open>AtomicUsize::fetch_add\<close> and \<open>fetch_sub\<close> wrap modulo \<open>2 ^ 64\<close>.\<close>

definition usize_mod :: nat where
  "usize_mod = 2 ^ 64"

definition wadd :: "nat \<Rightarrow> nat \<Rightarrow> nat" where
  "wadd a b = (a + b) mod usize_mod"

definition wsub :: "nat \<Rightarrow> nat \<Rightarrow> nat" where
  "wsub a b = (a + (usize_mod - b mod usize_mod)) mod usize_mod"

lemma wadd_small: "a + b < usize_mod \<Longrightarrow> wadd a b = a + b"
  by (simp add: wadd_def)

lemma wsub_small:
  assumes "b \<le> a" and "a < usize_mod"
  shows "wsub a b = a - b"
proof -
  have "b mod usize_mod = b" using assms by simp
  moreover have "a + (usize_mod - b) = (a - b) + usize_mod"
    using assms by simp
  moreover have "a - b < usize_mod" using assms by simp
  ultimately show ?thesis unfolding wsub_def by simp
qed

lemma wsub_wadd_cancel: "a + b < usize_mod \<Longrightarrow> wsub (wadd a b) b = a"
  by (simp add: wadd_small wsub_small)

section \<open>Totals over keyed tables\<close>

abbreviation keys_distinct :: "('k \<times> 'v) list \<Rightarrow> bool" where
  "keys_distinct al \<equiv> distinct (map fst al)"

definition wsum :: "('v \<Rightarrow> nat) \<Rightarrow> ('k \<times> 'v) list \<Rightarrow> nat" where
  "wsum w al = sum_list (map (\<lambda>(_, v). w v) al)"

lemma wsum_Nil [simp]: "wsum w [] = 0"
  by (simp add: wsum_def)

lemma wsum_Cons [simp]: "wsum w (p # al) = w (snd p) + wsum w al"
  by (cases p) (simp add: wsum_def)

lemma wsum_update_None: "map_of al k = None \<Longrightarrow> wsum w (AList.update k v al) = wsum w al + w v"
  by (induction al) (auto split: if_splits)

lemma wsum_update_Some:
  "keys_distinct al \<Longrightarrow> map_of al k = Some v \<Longrightarrow>
     wsum w (AList.update k v' al) + w v = wsum w al + w v'"
  by (induction al) (auto split: if_splits)

lemma wsum_delete:
  "keys_distinct al \<Longrightarrow> map_of al k = Some v \<Longrightarrow> wsum w (AList.delete k al) + w v = wsum w al"
proof (induction al)
  case Nil
  then show ?case by simp
next
  case (Cons p al)
  show ?case
  proof (cases "fst p = k")
    case True
    with Cons.prems have "k \<notin> fst ` set al" by auto
    then have "AList.delete k al = al" by (rule AList.delete_id)
    with True Cons.prems show ?thesis by (cases p) auto
  next
    case False
    with Cons show ?thesis by (cases p) auto
  qed
qed

text \<open>
  The contract of a table whose rows carry a weight. \<open>total\<close> is what an incrementally
  maintained counter has to equal.
\<close>

locale keyed_total =
  fixes lookup :: "'m \<Rightarrow> 'k \<Rightarrow> 'v option"
    and upd :: "'k \<Rightarrow> 'v \<Rightarrow> 'm \<Rightarrow> 'm"
    and del :: "'k \<Rightarrow> 'm \<Rightarrow> 'm"
    and wf :: "'m \<Rightarrow> bool"
    and w :: "'v \<Rightarrow> nat"
    and total :: "'m \<Rightarrow> nat"
  assumes lookup_upd: "lookup (upd k v m) = (lookup m)(k \<mapsto> v)"
    and lookup_del: "lookup (del k m) = (lookup m)(k := None)"
    and wf_upd: "wf m \<Longrightarrow> wf (upd k v m)"
    and wf_del: "wf m \<Longrightarrow> wf (del k m)"
    and total_new: "lookup m k = None \<Longrightarrow> total (upd k v m) = total m + w v"
    and total_repl: "wf m \<Longrightarrow> lookup m k = Some v \<Longrightarrow>
          total (upd k v' m) + w v = total m + w v'"
    and total_del: "wf m \<Longrightarrow> lookup m k = Some v \<Longrightarrow> total (del k m) + w v = total m"
begin

lemma row_le_total: "wf m \<Longrightarrow> lookup m k = Some v \<Longrightarrow> w v \<le> total m"
  using total_del [of m k v] by arith

lemma total_keep: "wf m \<Longrightarrow> lookup m k = Some v \<Longrightarrow> w v' = w v \<Longrightarrow> total (upd k v' m) = total m"
  using total_repl [of m k v v'] by simp

lemma total_retire: "wf m \<Longrightarrow> lookup m k = Some v \<Longrightarrow> w v' = 0 \<Longrightarrow>
    total (upd k v' m) = total m - w v"
  using total_repl [of m k v v'] by simp

lemma total_del_zero: "wf m \<Longrightarrow> lookup m k = Some v \<Longrightarrow> w v = 0 \<Longrightarrow> total (del k m) = total m"
  using total_del [of m k v] by simp

end

interpretation alist: keyed_total map_of AList.update AList.delete keys_distinct w "wsum w" for w
  by unfold_locales
    (simp_all add: AList.update_conv' AList.delete_conv' AList.distinct_update AList.distinct_delete
      wsum_update_None wsum_update_Some wsum_delete)

section \<open>Sequences of operations\<close>

text \<open>
  \<open>run_ops\<close> performs a sequence of operations; \<open>run_ok\<close> says that each operation
  was admissible in the state it ran in (for instance that a generated identifier was fresh).
\<close>

fun run_ops :: "('s \<Rightarrow> 'op \<Rightarrow> 's) \<Rightarrow> 's \<Rightarrow> 'op list \<Rightarrow> 's" where
  "run_ops step s [] = s"
| "run_ops step s (x # xs) = run_ops step (step s x) xs"

fun run_ok :: "('s \<Rightarrow> 'op \<Rightarrow> bool) \<Rightarrow> ('s \<Rightarrow> 'op \<Rightarrow> 's) \<Rightarrow> 's \<Rightarrow> 'op list \<Rightarrow> bool" where
  "run_ok ok step s [] \<longleftrightarrow> True"
| "run_ok ok step s (x # xs) \<longleftrightarrow> ok s x \<and> run_ok ok step (step s x) xs"

lemma foldl_invar:
  "P a \<Longrightarrow> (\<And>b x. P b \<Longrightarrow> x \<in> set xs \<Longrightarrow> P (f b x)) \<Longrightarrow> P (foldl f a xs)"
  by (induction xs arbitrary: a) auto

lemma run_ops_append: "run_ops step s (xs @ ys) = run_ops step (run_ops step s xs) ys"
  by (induction xs arbitrary: s) auto

lemma run_ok_append:
  "run_ok ok step s (xs @ ys) \<longleftrightarrow> run_ok ok step s xs \<and> run_ok ok step (run_ops step s xs) ys"
  by (induction xs arbitrary: s) auto

locale op_system =
  fixes step :: "'s \<Rightarrow> 'op \<Rightarrow> 's"
    and ok :: "'s \<Rightarrow> 'op \<Rightarrow> bool"
    and invar :: "'s \<Rightarrow> bool"
  assumes step_invar: "invar s \<Longrightarrow> ok s x \<Longrightarrow> invar (step s x)"
begin

lemma run_invar: "invar s \<Longrightarrow> run_ok ok step s xs \<Longrightarrow> invar (run_ops step s xs)"
  by (induction xs arbitrary: s) (auto intro: step_invar)

text \<open>A quantity no admissible step increases is bounded by its first value along every run.\<close>

lemma run_preserves:
  assumes "\<And>s x. invar s \<Longrightarrow> ok s x \<Longrightarrow> P s \<Longrightarrow> P (step s x)"
  shows "invar s \<Longrightarrow> run_ok ok step s xs \<Longrightarrow> P s \<Longrightarrow> P (run_ops step s xs)"
  by (induction xs arbitrary: s) (auto intro: assms step_invar)

end

section \<open>Passes over a table\<close>

lemma count_rows:
  assumes "keys_distinct al"
  shows "length (filter (\<lambda>k. case map_of al k of None \<Rightarrow> False | Some v \<Rightarrow> h v)
            (map fst (filter P al))) = length (filter (\<lambda>(k, v). P (k, v) \<and> h v) al)"
proof -
  have "filter (\<lambda>k. case map_of al k of None \<Rightarrow> False | Some v \<Rightarrow> h v) (map fst (filter P al)) =
        map fst (filter (\<lambda>p. h (snd p)) (filter P al))"
    unfolding filter_map using assms
    by (intro arg_cong [of _ _ "map fst"] filter_cong) (auto simp: map_of_is_SomeI)
  then show ?thesis
    by (simp add: split_def conj_commute)
qed

text \<open>
  A pass that collects keys first and then treats them one by one. Treating a key rewrites its
  row by \<open>g\<close> (\<open>None\<close> removes it), and treating it again changes nothing.
\<close>

locale row_pass =
  fixes lookup :: "'s \<Rightarrow> 'k \<Rightarrow> 'v option"
    and treat :: "'s \<Rightarrow> 'k \<Rightarrow> 's"
    and g :: "'v \<Rightarrow> 'v option"
  assumes lookup_treat: "lookup (treat s k) = (lookup s)(k := Option.bind (lookup s k) g)"
    and g_idem: "Option.bind (g v) g = g v"
begin

lemma lookup_pass:
  "lookup (foldl treat s ks) x =
     (if x \<in> set ks then Option.bind (lookup s x) g else lookup s x)"
  by (induction ks arbitrary: s) (auto simp: lookup_treat g_idem)

text \<open>Keys the pass leaves out are the ones whose row \<open>g\<close> would not change.\<close>

lemma lookup_complete_pass:
  assumes "\<And>v. lookup s x = Some v \<Longrightarrow> x \<notin> set ks \<Longrightarrow> g v = Some v"
  shows "lookup (foldl treat s ks) x = Option.bind (lookup s x) g"
  using assms by (cases "lookup s x") (auto simp: lookup_pass)

end

text \<open>A pass that also counts the rows it hits.\<close>

locale counted_pass = row_pass "\<lambda>acc. lookup (fst acc)" treat g
  for lookup :: "'s \<Rightarrow> 'k \<Rightarrow> 'v option" and treat :: "'s \<times> nat \<Rightarrow> 'k \<Rightarrow> 's \<times> nat"
    and g :: "'v \<Rightarrow> 'v option" +
  fixes hit :: "'v \<Rightarrow> bool"
  assumes count_treat: "snd (treat acc k) =
    snd acc + (case lookup (fst acc) k of None \<Rightarrow> 0 | Some v \<Rightarrow> if hit v then 1 else 0)"
begin

lemma count_pass:
  "distinct ks \<Longrightarrow> snd (foldl treat acc ks) =
     snd acc + length (filter (\<lambda>k. case lookup (fst acc) k of None \<Rightarrow> False | Some v \<Rightarrow> hit v) ks)"
proof (induction ks arbitrary: acc)
  case Nil
  then show ?case by simp
next
  case (Cons k ks)
  have "lookup (fst (treat acc k)) x = lookup (fst acc) x" if "x \<in> set ks" for x
    using that Cons.prems lookup_treat [of acc k] by (metis distinct.simps(2) fun_upd_other)
  then have "filter (\<lambda>x. case lookup (fst (treat acc k)) x of None \<Rightarrow> False | Some v \<Rightarrow> hit v) ks =
             filter (\<lambda>x. case lookup (fst acc) x of None \<Rightarrow> False | Some v \<Rightarrow> hit v) ks"
    by (intro filter_cong) auto
  then show ?case using Cons by (simp add: count_treat split: option.splits)
qed

end

section \<open>Lists of results\<close>

text \<open>Collecting results stops at the first error, as the \<open>?\<close> operator in a loop does.\<close>

fun collect_results :: "('e + 'a) list \<Rightarrow> 'e + 'a list" where
  "collect_results [] = Inr []"
| "collect_results (Inl e # _) = Inl e"
| "collect_results (Inr x # rs) =
     (case collect_results rs of Inl e \<Rightarrow> Inl e | Inr xs \<Rightarrow> Inr (x # xs))"

lemma collect_results_map_Inr [simp]: "collect_results (map Inr xs) = Inr xs"
  by (induction xs) auto

lemma collect_results_Inr_iff: "collect_results rs = Inr xs \<longleftrightarrow> rs = map Inr xs"
proof
  show "collect_results rs = Inr xs \<Longrightarrow> rs = map Inr xs"
    by (induction rs arbitrary: xs rule: collect_results.induct) (auto split: sum.splits)
qed simp

lemma collect_results_isr: "(\<exists>xs. collect_results rs = Inr xs) \<longleftrightarrow> (\<forall>r\<in>set rs. \<exists>x. r = Inr x)"
  by (induction rs rule: collect_results.induct) (auto split: sum.splits)

lemma append_Cons_single: "xs @ y # ys = [z] \<longleftrightarrow> xs = [] \<and> ys = [] \<and> y = z"
  by (cases xs) auto

fun join :: "string \<Rightarrow> string list \<Rightarrow> string" where
  "join sep [] = []"
| "join sep [x] = x"
| "join sep (x # y # ys) = x @ sep @ join sep (y # ys)"

lemma set_map_filter: "set (List.map_filter f xs) = {y. \<exists>x\<in>set xs. f x = Some y}"
  by (induction xs) (auto split: option.splits)

lemma filter_map_length_le: "length (List.map_filter f xs) \<le> length xs"
  by (induction xs) (auto split: option.splits)

end
