(* ===== verification/Task_Status.thy ===== *)
theory Task_Status
  imports TG_Prelude
begin

text \<open>
  The task status state machine of \<open>governance/task/status.rs\<close> and its projection to
  the wire status of \<open>protocol/task.rs\<close>.
\<close>

section \<open>Statuses and transitions\<close>

datatype task_status =
    Working | InputRequired | Executing | Completed | Failed | Rejected | Cancelled | Expired

definition is_terminal :: "task_status \<Rightarrow> bool" where
  "is_terminal s \<longleftrightarrow> s \<in> {Completed, Failed, Rejected, Cancelled, Expired}"

definition is_agent_visible :: "task_status \<Rightarrow> bool" where
  "is_agent_visible s \<longleftrightarrow> s \<noteq> Executing"

fun to_sep1686 :: "task_status \<Rightarrow> string" where
  "to_sep1686 Working = ''working''"
| "to_sep1686 Executing = ''working''"
| "to_sep1686 InputRequired = ''input_required''"
| "to_sep1686 Completed = ''completed''"
| "to_sep1686 Failed = ''failed''"
| "to_sep1686 Expired = ''failed''"
| "to_sep1686 Rejected = ''failed''"
| "to_sep1686 Cancelled = ''cancelled''"

definition can_transition_to :: "task_status \<Rightarrow> task_status \<Rightarrow> bool" where
  "can_transition_to from to \<longleftrightarrow>
     (from, to) \<in>
       {(Working, InputRequired), (Working, Failed), (Working, Expired),
        (InputRequired, Executing), (InputRequired, Rejected),
        (InputRequired, Cancelled), (InputRequired, Expired),
        (Executing, Completed), (Executing, Failed)}"

fun display_status :: "task_status \<Rightarrow> string" where
  "display_status Working = ''working''"
| "display_status InputRequired = ''input_required''"
| "display_status Executing = ''executing''"
| "display_status Completed = ''completed''"
| "display_status Failed = ''failed''"
| "display_status Rejected = ''rejected''"
| "display_status Cancelled = ''cancelled''"
| "display_status Expired = ''expired''"

datatype sep1686_status =
    S_Working | S_InputRequired | S_Completed | S_Failed | S_Cancelled

fun sep1686_of :: "task_status \<Rightarrow> sep1686_status" where
  "sep1686_of Working = S_Working"
| "sep1686_of Executing = S_Working"
| "sep1686_of InputRequired = S_InputRequired"
| "sep1686_of Completed = S_Completed"
| "sep1686_of Failed = S_Failed"
| "sep1686_of Rejected = S_Failed"
| "sep1686_of Expired = S_Failed"
| "sep1686_of Cancelled = S_Cancelled"

fun sep1686_is_terminal :: "sep1686_status \<Rightarrow> bool" where
  "sep1686_is_terminal S_Completed = True"
| "sep1686_is_terminal S_Failed = True"
| "sep1686_is_terminal S_Cancelled = True"
| "sep1686_is_terminal _ = False"

fun display_sep1686 :: "sep1686_status \<Rightarrow> string" where
  "display_sep1686 S_Working = ''working''"
| "display_sep1686 S_InputRequired = ''input_required''"
| "display_sep1686 S_Completed = ''completed''"
| "display_sep1686 S_Failed = ''failed''"
| "display_sep1686 S_Cancelled = ''cancelled''"

section \<open>Properties of the machine\<close>

lemma is_terminal_simps [simp]:
  "\<not> is_terminal Working" "\<not> is_terminal InputRequired" "\<not> is_terminal Executing"
  "is_terminal Completed" "is_terminal Failed" "is_terminal Rejected"
  "is_terminal Cancelled" "is_terminal Expired"
  by (simp_all add: is_terminal_def)

lemma can_transition_simps [simp]:
  "can_transition_to Working t \<longleftrightarrow> t = InputRequired \<or> t = Failed \<or> t = Expired"
  "can_transition_to InputRequired t \<longleftrightarrow>
     t = Executing \<or> t = Rejected \<or> t = Cancelled \<or> t = Expired"
  "can_transition_to Executing t \<longleftrightarrow> t = Completed \<or> t = Failed"
  "\<not> can_transition_to Completed t" "\<not> can_transition_to Failed t"
  "\<not> can_transition_to Rejected t" "\<not> can_transition_to Cancelled t"
  "\<not> can_transition_to Expired t"
  by (auto simp: can_transition_to_def)

lemma terminal_no_transition: "is_terminal s \<Longrightarrow> \<not> can_transition_to s t"
  by (cases s) auto

lemma terminal_iff_stuck: "is_terminal s \<longleftrightarrow> (\<forall>t. \<not> can_transition_to s t)"
  by (cases s) auto

text \<open>A rank every transition increases: the machine has no cycles.\<close>

fun status_rank :: "task_status \<Rightarrow> nat" where
  "status_rank Working = 0"
| "status_rank InputRequired = 1"
| "status_rank Executing = 2"
| "status_rank _ = 3"

lemma transition_rank: "can_transition_to s t \<Longrightarrow> status_rank s < status_rank t"
  by (cases s) auto

text \<open>Runs of the machine, as the list of statuses entered.\<close>

fun status_run :: "task_status \<Rightarrow> task_status list \<Rightarrow> bool" where
  "status_run s [] = True"
| "status_run s (t # ts) = (can_transition_to s t \<and> status_run t ts)"

lemma status_run_rank: "status_run s ts \<Longrightarrow> t \<in> set ts \<Longrightarrow> status_rank s < status_rank t"
  by (induction ts arbitrary: s) (auto dest: transition_rank, metis less_trans transition_rank)

lemma status_run_length: "status_run s ts \<Longrightarrow> status_rank s + length ts \<le> 3"
proof (induction ts arbitrary: s)
  case Nil
  show ?case by (cases s) auto
next
  case (Cons t ts)
  then have "status_rank t + length ts \<le> 3" "status_rank s < status_rank t"
    by (auto dest: transition_rank)
  then show ?case by simp
qed

lemma status_run_distinct: "status_run s ts \<Longrightarrow> distinct (s # ts)"
proof (induction ts arbitrary: s)
  case Nil
  show ?case by simp
next
  case (Cons t ts)
  have "distinct (t # ts)" using Cons.prems Cons.IH [of t] by simp
  moreover have "s \<notin> set (t # ts)"
    using status_run_rank [OF Cons.prems] by blast
  ultimately show ?case by simp
qed

end
