(* ===== verification/TG_Json.thy ===== *)
theory TG_Json
  imports TG_Prelude "HOL-Library.Word" "HOL-Library.Multiset"
begin

text \<open>
  JSON values as the program handles them (\<open>serde_json::Value\<close>, objects in insertion
  order), the canonical serialisation of \<open>governance/task/helpers.rs\<close> and the field
  redaction of \<open>governance/approval/redact.rs\<close>.
  The serialiser of the \<open>serde_json\<close> crate, the SHA-256 digest and the duration
  conversion of the \<open>chrono\<close> crate are not part of the repository: they are the fields
  of the record \<open>ext\<close>, an argument of every definition that uses them.
\<close>

text \<open>Membership in the row list is not a useful normal form of a lookup here.\<close>

declare map_of_eq_Some_iff [simp del]

section \<open>Values\<close>

datatype json_number = PosInt "64 word" | NegInt "64 word" | Float "64 word"

datatype json =
    JNull
  | JBool bool
  | JNumber json_number
  | JString string
  | JArray "json list"
  | JObject "(string \<times> json) list"

record ext =
  x_sha256 :: "string \<Rightarrow> string"          \<comment> \<open>hex digest of \<open>sha2::Sha256\<close>\<close>
  x_to_string :: "json \<Rightarrow> string option"  \<comment> \<open>\<open>serde_json::to_string(..).ok()\<close>\<close>
  x_from_std :: "duration \<Rightarrow> int option"  \<comment> \<open>\<open>chrono::Duration::from_std(..).ok()\<close>\<close>
  x_debug_duration :: "duration \<Rightarrow> string"  \<comment> \<open>\<open>Debug\<close> of \<open>Duration\<close>\<close>

definition to_string_or_default :: "ext \<Rightarrow> json \<Rightarrow> string" where
  "to_string_or_default E v = (case x_to_string E v of Some s \<Rightarrow> s | None \<Rightarrow> [])"

definition jget :: "string \<Rightarrow> json \<Rightarrow> json option" where
  "jget k v = (case v of JObject m \<Rightarrow> map_of m k | _ \<Rightarrow> None)"

definition as_str :: "json \<Rightarrow> string option" where
  "as_str v = (case v of JString s \<Rightarrow> Some s | _ \<Rightarrow> None)"

lemma size_obj_member: "(k, v) \<in> set m \<Longrightarrow> size v < size (JObject m)"
  by (induction m) auto

lemma size_arr_member: "v \<in> set xs \<Longrightarrow> size v < size (JArray xs)"
  by (induction xs) auto

section \<open>Canonical serialisation\<close>

definition max_canonical_json_depth :: nat where
  "max_canonical_json_depth = 64"

definition depth_error :: string where
  "depth_error = ''JSON nesting depth exceeds maximum of 64''"

function canonical_json_inner :: "ext \<Rightarrow> json \<Rightarrow> nat \<Rightarrow> string + string" where
  "canonical_json_inner E value depth =
     (if depth > max_canonical_json_depth then Inl depth_error
      else case value of
        JObject m \<Rightarrow>
          (case collect_results
                  (map (\<lambda>(k, v). map_sum id (\<lambda>s. to_string_or_default E (JString k) @ '':'' @ s)
                                 (canonical_json_inner E v (depth + 1)))
                    (sort_key fst m)) of
             Inl e \<Rightarrow> Inl e
           | Inr entries \<Rightarrow> Inr (''{'' @ join '','' entries @ ''}''))
      | JArray arr \<Rightarrow>
          (case collect_results (map (\<lambda>v. canonical_json_inner E v (depth + 1)) arr) of
             Inl e \<Rightarrow> Inl e
           | Inr items \<Rightarrow> Inr (''['' @ join '','' items @ '']''))
      | other \<Rightarrow> Inr (to_string_or_default E other))"
  by pat_completeness auto
termination
  by (relation "measure (\<lambda>(E, v, d). size v)")
    (auto simp: size_obj_member size_arr_member simp del: json.size)

declare canonical_json_inner.simps [simp del]

definition canonical_json :: "ext \<Rightarrow> json \<Rightarrow> string + string" where
  "canonical_json E value = canonical_json_inner E value 0"

section \<open>Depth\<close>

text \<open>Nesting depth: a value inside \<open>n\<close> containers is at depth \<open>n\<close>.\<close>

function json_depth :: "json \<Rightarrow> nat" where
  "json_depth v =
     (case v of
        JObject m \<Rightarrow> foldr max (map (\<lambda>(k, x). Suc (json_depth x)) m) 0
      | JArray xs \<Rightarrow> foldr max (map (\<lambda>x. Suc (json_depth x)) xs) 0
      | _ \<Rightarrow> 0)"
  by pat_completeness auto
termination
  by (relation "measure size") (auto simp: size_obj_member size_arr_member simp del: json.size)

declare json_depth.simps [simp del]

lemma foldr_max_le_iff: "foldr max xs (a::nat) \<le> n \<longleftrightarrow> a \<le> n \<and> (\<forall>x\<in>set xs. x \<le> n)"
  by (induction xs) auto

lemma foldr_max_add_le_iff:
  "d + foldr max xs 0 \<le> (n::nat) \<longleftrightarrow> d \<le> n \<and> (\<forall>x\<in>set xs. d + x \<le> n)"
  by (induction xs) (auto simp: max_def)

lemma json_induct [case_names Obj Arr Leaf]:
  assumes obj: "\<And>m. (\<And>k v. (k, v) \<in> set m \<Longrightarrow> P v) \<Longrightarrow> P (JObject m)"
    and arr: "\<And>xs. (\<And>v. v \<in> set xs \<Longrightarrow> P v) \<Longrightarrow> P (JArray xs)"
    and leaf: "\<And>v. (\<nexists>m. v = JObject m) \<Longrightarrow> (\<nexists>xs. v = JArray xs) \<Longrightarrow> P v"
  shows "P v"
proof (induction v rule: measure_induct_rule [where f = size])
  case (less v)
  show ?case
  proof (cases v)
    case (JObject m)
    have "\<And>k x. (k, x) \<in> set m \<Longrightarrow> P x"
      using less.IH size_obj_member JObject by metis
    with JObject show ?thesis by (simp add: obj)
  next
    case (JArray xs)
    have "\<And>x. x \<in> set xs \<Longrightarrow> P x"
      using less.IH size_arr_member JArray by metis
    with JArray show ?thesis by (simp add: arr)
  qed (auto intro: leaf)
qed

lemma canonical_inner_obj:
  "canonical_json_inner E (JObject m) d =
     (if d > max_canonical_json_depth then Inl depth_error
      else case collect_results
                  (map (\<lambda>(k, v). map_sum id (\<lambda>s. to_string_or_default E (JString k) @ '':'' @ s)
                                 (canonical_json_inner E v (d + 1)))
                    (sort_key fst m)) of
             Inl e \<Rightarrow> Inl e
           | Inr entries \<Rightarrow> Inr (''{'' @ join '','' entries @ ''}''))"
  by (subst canonical_json_inner.simps) (rule if_cong [OF refl refl], simp only: json.case)

lemma canonical_inner_arr:
  "canonical_json_inner E (JArray xs) d =
     (if d > max_canonical_json_depth then Inl depth_error
      else case collect_results (map (\<lambda>v. canonical_json_inner E v (d + 1)) xs) of
             Inl e \<Rightarrow> Inl e
           | Inr items \<Rightarrow> Inr (''['' @ join '','' items @ '']''))"
  by (subst canonical_json_inner.simps) (rule if_cong [OF refl refl], simp only: json.case)

lemma canonical_inner_leaf:
  "(\<nexists>m. v = JObject m) \<Longrightarrow> (\<nexists>xs. v = JArray xs) \<Longrightarrow>
   canonical_json_inner E v d =
     (if d > max_canonical_json_depth then Inl depth_error else Inr (to_string_or_default E v))"
  by (subst canonical_json_inner.simps) (cases v, auto)

lemma json_depth_obj: "json_depth (JObject m) = foldr max (map (\<lambda>(k, x). Suc (json_depth x)) m) 0"
  by (subst json_depth.simps) (simp only: json.case)

lemma json_depth_arr: "json_depth (JArray xs) = foldr max (map (\<lambda>x. Suc (json_depth x)) xs) 0"
  by (subst json_depth.simps) (simp only: json.case)

lemma json_depth_leaf: "(\<nexists>m. v = JObject m) \<Longrightarrow> (\<nexists>xs. v = JArray xs) \<Longrightarrow> json_depth v = 0"
  by (subst json_depth.simps) (cases v, auto)

lemma isr_iff_not_isl: "(\<exists>x. r = Inr x) \<longleftrightarrow> \<not> isl r"
  by (cases r) auto

lemma collect_results_not_isl: "\<not> isl (collect_results rs) \<longleftrightarrow> (\<forall>r\<in>set rs. \<not> isl r)"
  using collect_results_isr [of rs] by (simp add: isr_iff_not_isl)

lemma isl_map_sum [simp]: "isl (map_sum f g r) = isl r"
  by (cases r) auto

lemma isl_case_Inr:
  "isl (case r of Inl e \<Rightarrow> Inl e | Inr x \<Rightarrow> Inr (f x)) = isl r"
  by (cases r) auto

lemma canonical_inner_isr:
  "\<not> isl (canonical_json_inner E v d) \<longleftrightarrow> d + json_depth v \<le> max_canonical_json_depth"
proof (induction v arbitrary: d rule: json_induct)
  case (Obj m)
  have *: "\<not> isl (canonical_json_inner E x (d + 1)) \<longleftrightarrow>
             d + Suc (json_depth x) \<le> max_canonical_json_depth"
    if "(k, x) \<in> set m" for k x
    using Obj [OF that, of "d + 1"] by simp
  have "\<not> isl (canonical_json_inner E (JObject m) d) \<longleftrightarrow>
      d \<le> max_canonical_json_depth \<and>
      (\<forall>(k, x)\<in>set m. \<not> isl (canonical_json_inner E x (d + 1)))"
    by (auto simp: canonical_inner_obj isl_case_Inr collect_results_not_isl)
  also have "\<dots> \<longleftrightarrow> d \<le> max_canonical_json_depth \<and>
      (\<forall>(k, x)\<in>set m. d + Suc (json_depth x) \<le> max_canonical_json_depth)"
    using * by blast
  also have "\<dots> \<longleftrightarrow> d + json_depth (JObject m) \<le> max_canonical_json_depth"
    by (auto simp: json_depth_obj foldr_max_add_le_iff)
  finally show ?case .
next
  case (Arr xs)
  have *: "\<not> isl (canonical_json_inner E x (d + 1)) \<longleftrightarrow>
             d + Suc (json_depth x) \<le> max_canonical_json_depth"
    if "x \<in> set xs" for x
    using Arr [OF that, of "d + 1"] by simp
  have "\<not> isl (canonical_json_inner E (JArray xs) d) \<longleftrightarrow>
      d \<le> max_canonical_json_depth \<and>
      (\<forall>x\<in>set xs. \<not> isl (canonical_json_inner E x (d + 1)))"
    by (auto simp: canonical_inner_arr isl_case_Inr collect_results_not_isl)
  also have "\<dots> \<longleftrightarrow> d \<le> max_canonical_json_depth \<and>
      (\<forall>x\<in>set xs. d + Suc (json_depth x) \<le> max_canonical_json_depth)"
    using * by blast
  also have "\<dots> \<longleftrightarrow> d + json_depth (JArray xs) \<le> max_canonical_json_depth"
    by (auto simp: json_depth_arr foldr_max_add_le_iff)
  finally show ?case .
next
  case (Leaf v)
  then show ?case by (simp add: canonical_inner_leaf json_depth_leaf)
qed

text \<open>Every error of the serialiser is the depth error.\<close>

lemma collect_results_Inl: "collect_results rs = Inl e \<Longrightarrow> Inl e \<in> set rs"
  by (induction rs rule: collect_results.induct) (auto split: sum.splits)

lemma canonical_inner_error: "canonical_json_inner E v d = Inl e \<Longrightarrow> e = depth_error"
proof (induction v arbitrary: d e rule: json_induct)
  case (Obj m)
  then show ?case
    by (fastforce simp: canonical_inner_obj map_sum_def split: if_splits sum.splits
        dest!: collect_results_Inl)
next
  case (Arr xs)
  then show ?case
    by (fastforce simp: canonical_inner_arr split: if_splits sum.splits
        dest!: collect_results_Inl)
next
  case (Leaf v)
  then show ?case by (simp add: canonical_inner_leaf split: if_splits)
qed

section \<open>Independence of the key order\<close>

text \<open>
  \<open>json_equiv\<close> relates values that differ only in the order of object keys, at any
  level. Keys of one object are distinct, as in any \<open>serde_json::Map\<close>.
\<close>

inductive json_equiv :: "json \<Rightarrow> json \<Rightarrow> bool" where
  equiv_refl: "json_equiv v v"
| equiv_arr: "list_all2 json_equiv xs ys \<Longrightarrow> json_equiv (JArray xs) (JArray ys)"
| equiv_obj: "keys_distinct m \<Longrightarrow> list_all2 (rel_prod (=) json_equiv) m m' \<Longrightarrow> mset m'' = mset m' \<Longrightarrow>
     json_equiv (JObject m) (JObject m'')"

lemma insort_key_rel:
  "list_all2 (rel_prod (=) R) xs ys \<Longrightarrow> rel_prod (=) R p q \<Longrightarrow>
   list_all2 (rel_prod (=) R) (insort_key fst p xs) (insort_key fst q ys)"
proof (induction rule: list_all2_induct)
  case Nil
  then show ?case by simp
next
  case (Cons x xs y ys)
  then have "fst x = fst y" "fst p = fst q"
    by (auto simp: rel_prod_sel)
  with Cons show ?case by simp
qed

lemma sort_key_rel:
  "list_all2 (rel_prod (=) R) xs ys \<Longrightarrow>
   list_all2 (rel_prod (=) R) (sort_key fst xs) (sort_key fst ys)"
  by (induction rule: list_all2_induct) (auto intro: insort_key_rel simp: sort_key_def)

lemma keys_distinct_inj: "keys_distinct m \<Longrightarrow> inj_on fst (set m)"
  by (simp add: distinct_map)

lemma keys_rel: "list_all2 (rel_prod (=) R) xs ys \<Longrightarrow> map fst xs = map fst ys"
  by (induction rule: list_all2_induct) (auto simp: rel_prod_sel)

lemma sort_key_mset:
  assumes "keys_distinct m" and "mset m' = mset m"
  shows "sort_key fst m' = sort_key fst m"
proof (rule sort_key_inj_key_eq)
  show "mset m' = mset (sort_key fst m)" using assms by simp
  have "set m' = set m" using assms(2) by (metis set_mset_mset)
  then show "inj_on fst (set m')" using keys_distinct_inj [OF assms(1)] by simp
  show "sorted (map fst (sort_key fst m))" by simp
qed

lemma map_eq_of_list_all2: "list_all2 (\<lambda>p q. f p = f q) xs ys \<Longrightarrow> map f xs = map f ys"
  by (induction rule: list_all2_induct) auto

lemma canonical_inner_equiv:
  "json_equiv v w \<Longrightarrow> canonical_json_inner E v d = canonical_json_inner E w d"
proof (induction arbitrary: d rule: json_equiv.induct)
  case (equiv_refl v)
  show ?case ..
next
  case (equiv_arr xs ys)
  then have "map (\<lambda>v. canonical_json_inner E v (d + 1)) xs =
      map (\<lambda>v. canonical_json_inner E v (d + 1)) ys"
    by (induction rule: list_all2_induct) auto
  then show ?case by (simp only: canonical_inner_arr)
next
  case (equiv_obj m m' m'')
  let ?entry = "\<lambda>(k, v). map_sum id (\<lambda>s. to_string_or_default E (JString k) @ '':'' @ s)
                  (canonical_json_inner E v (d + 1))"
  have rel: "list_all2 (rel_prod (=) (\<lambda>v w. \<forall>d. canonical_json_inner E v d =
      canonical_json_inner E w d)) m m'"
    using equiv_obj.IH by (rule list_all2_mono) (auto simp: rel_prod_sel)
  from keys_rel [OF rel] have "keys_distinct m'" using equiv_obj.hyps(1) by simp
  then have sorted_eq: "sort_key fst m'' = sort_key fst m'"
    using equiv_obj.hyps(2) by (rule sort_key_mset)
  have "list_all2 (\<lambda>p q. ?entry p = ?entry q) (sort_key fst m) (sort_key fst m')"
    using sort_key_rel [OF rel] by (rule list_all2_mono) (auto simp: rel_prod_sel)
  then have "map ?entry (sort_key fst m) = map ?entry (sort_key fst m')"
    by (rule map_eq_of_list_all2)
  then show ?case by (simp only: canonical_inner_obj sorted_eq)
qed

section \<open>Field redaction\<close>

text \<open>\<open>str::split\<close> on one character: always at least one part.\<close>

fun split_on :: "char \<Rightarrow> string \<Rightarrow> string list" where
  "split_on c [] = [[]]"
| "split_on c (x # xs) =
     (if x = c then [] # split_on c xs
      else case split_on c xs of p # ps \<Rightarrow> (x # p) # ps | [] \<Rightarrow> [[x]])"

lemma split_on_not_Nil [simp]: "split_on c s \<noteq> []"
  by (induction s) (auto split: list.splits)

definition redacted :: json where
  "redacted = JString ''[REDACTED]''"

fun redact_path :: "json \<Rightarrow> string list \<Rightarrow> json" where
  "redact_path value [] = value"
| "redact_path value [key] =
     (case value of
        JObject m \<Rightarrow> if key \<in> fst ` set m then JObject (AList.update key redacted m) else value
      | _ \<Rightarrow> value)"
| "redact_path value (key # rest) =
     (case value of
        JObject m \<Rightarrow>
          (case map_of m key of
             Some child \<Rightarrow> JObject (AList.update key (redact_path child rest) m)
           | None \<Rightarrow> value)
      | _ \<Rightarrow> value)"

definition redact_fields :: "json \<Rightarrow> string list \<Rightarrow> json" where
  "redact_fields value flds =
     (if flds = [] then value
      else foldl (\<lambda>v field. redact_path v (split_on (CHR ''.'') field)) value flds)"

text \<open>Reading a dotted path.\<close>

fun jlookup :: "json \<Rightarrow> string list \<Rightarrow> json option" where
  "jlookup v [] = Some v"
| "jlookup v (k # ks) = (case jget k v of Some c \<Rightarrow> jlookup c ks | None \<Rightarrow> None)"

definition path_hidden :: "json \<Rightarrow> string list \<Rightarrow> bool" where
  "path_hidden v p \<longleftrightarrow> jlookup v p = None \<or> jlookup v p = Some redacted"

lemma redact_path_hides: "p \<noteq> [] \<Longrightarrow> path_hidden (redact_path v p) p"
proof (induction v p rule: redact_path.induct)
  case (1 v)
  then show ?case by simp
next
  case (2 v key)
  show ?case
    by (cases v) (auto simp: path_hidden_def jget_def AList.update_conv'
        split: option.splits dest: map_of_SomeD intro: rev_image_eqI)
next
  case (3 v key k ks)
  show ?case
  proof (cases v)
    case (JObject m)
    show ?thesis
    proof (cases "map_of m key")
      case None
      with JObject show ?thesis by (simp add: path_hidden_def jget_def)
    next
      case (Some child)
      then show ?thesis using "3.IH" [OF JObject Some] JObject
        by (auto simp: path_hidden_def jget_def AList.update_conv')
    qed
  qed (auto simp: path_hidden_def jget_def)
qed

lemma redact_path_redacted [simp]: "redact_path redacted p = redacted"
  by (cases "(redacted, p)" rule: redact_path.cases) (auto simp: redacted_def)

lemma path_hidden_Cons:
  "path_hidden v (k # ks) \<longleftrightarrow> (\<forall>c. jget k v = Some c \<longrightarrow> path_hidden c ks)"
  by (auto simp: path_hidden_def split: option.splits)

lemma path_hidden_redacted [simp]: "path_hidden redacted p"
  by (cases p) (auto simp: path_hidden_def redacted_def jget_def)

text \<open>A hidden path stays hidden under any further redaction.\<close>

lemma redact_path_keeps_hidden: "path_hidden v p \<Longrightarrow> path_hidden (redact_path v q) p"
proof (induction v q arbitrary: p rule: redact_path.induct)
  case (1 v)
  then show ?case by simp
next
  case (2 v key)
  show ?case
  proof (cases p)
    case Nil
    with 2 have "v = redacted" by (simp add: path_hidden_def)
    then show ?thesis by (simp only: redact_path_redacted path_hidden_redacted)
  next
    case (Cons k ks)
    with 2 show ?thesis
      by (cases v) (auto simp: path_hidden_Cons jget_def AList.update_conv')
  qed
next
  case (3 v key r rs)
  show ?case
  proof (cases p)
    case Nil
    with 3 have "v = redacted" by (simp add: path_hidden_def)
    then show ?thesis by (simp only: redact_path_redacted path_hidden_redacted)
  next
    case (Cons k ks)
    with 3 show ?thesis
      by (cases v) (auto simp: path_hidden_Cons jget_def AList.update_conv' split: option.splits)
  qed
qed

lemma redact_fold_keeps_hidden:
  "path_hidden v p \<Longrightarrow>
   path_hidden (foldl (\<lambda>v f. redact_path v (split_on (CHR ''.'') f)) v flds) p"
  by (induction flds arbitrary: v) (auto intro: redact_path_keeps_hidden)

lemma redact_fold_hides:
  "f \<in> set flds \<Longrightarrow>
   path_hidden (foldl (\<lambda>v f. redact_path v (split_on (CHR ''.'') f)) v flds)
     (split_on (CHR ''.'') f)"
proof (induction flds arbitrary: v)
  case Nil
  then show ?case by simp
next
  case (Cons g gs)
  show ?case
  proof (cases "f = g")
    case True
    have "path_hidden (redact_path v (split_on (CHR ''.'') g)) (split_on (CHR ''.'') g)"
      by (rule redact_path_hides) simp
    then show ?thesis using True by (simp add: redact_fold_keeps_hidden)
  next
    case False
    with Cons show ?thesis by simp
  qed
qed

text \<open>Paths that diverge from the redacted one are untouched.\<close>

fun diverge :: "string list \<Rightarrow> string list \<Rightarrow> bool" where
  "diverge [] _ = False"
| "diverge _ [] = False"
| "diverge (a # as) (b # bs) = (if a = b then diverge as bs else True)"

lemma redact_path_frame: "diverge q p \<Longrightarrow> jlookup (redact_path v q) p = jlookup v p"
proof (induction v q arbitrary: p rule: redact_path.induct)
  case (1 v)
  then show ?case by simp
next
  case (2 v key)
  then obtain k ks where "p = k # ks" "k \<noteq> key"
    by (cases p) (auto split: if_splits)
  then show ?case by (cases v) (auto simp: jget_def AList.update_conv')
next
  case (3 v key r rs)
  then obtain k ks where p: "p = k # ks" by (cases p) auto
  show ?case
  proof (cases "k = key")
    case True
    with "3.prems" p have "diverge (r # rs) ks" by simp
    then show ?thesis using "3.IH" True p
      by (cases v) (auto simp: jget_def AList.update_conv' split: option.splits)
  next
    case False
    then show ?thesis using p
      by (cases v) (auto simp: jget_def AList.update_conv' split: option.splits)
  qed
qed

end
