(* ===== verification/Task_Core.thy ===== *)
theory Task_Core
  imports Task_Status TG_Json
begin

text \<open>
  Tasks: the types of \<open>governance/task/types.rs\<close> and \<open>error.rs\<close>, the request
  hash and poll interval of \<open>helpers.rs\<close>, and the operations of \<open>Task\<close>.
  Clock readings are arguments: one reading per operation.
\<close>

section \<open>Types\<close>

record principal =
  p_app_name :: string
  p_user_id :: "string option"
  p_session_id :: "string option"
  p_namespace :: string
  p_service_account :: string
  p_roles :: "string list"

definition principal_new :: "string \<Rightarrow> principal" where
  "principal_new app = \<lparr>p_app_name = app, p_user_id = None, p_session_id = None,
     p_namespace = ''default'', p_service_account = ''default'', p_roles = []\<rparr>"

definition principal_from_policy ::
  "string \<Rightarrow> string \<Rightarrow> string \<Rightarrow> string list \<Rightarrow> principal" where
  "principal_from_policy app ns sa roles = \<lparr>p_app_name = app, p_user_id = None,
     p_session_id = None, p_namespace = ns, p_service_account = sa, p_roles = roles\<rparr>"

definition rate_limit_key :: "principal \<Rightarrow> string" where
  "rate_limit_key p =
     (case (p_user_id p, p_session_id p) of
        (Some user, Some session) \<Rightarrow> p_app_name p @ '':'' @ user @ '':'' @ session
      | (Some user, None) \<Rightarrow> p_app_name p @ '':'' @ user
      | (None, Some session) \<Rightarrow> p_app_name p @ ''::'' @ session
      | (None, None) \<Rightarrow> p_app_name p)"

datatype json_rpc_id = IdNumber int | IdString string | IdNull

record tool_call_request =
  r_method :: string
  r_name :: string
  r_arguments :: json
  r_mcp_request_id :: json_rpc_id

record tool_call_result =
  res_content :: json
  res_is_error :: bool

datatype approval_decision = AD_Approved | AD_Rejected "string option"

record approval_record =
  a_decision :: approval_decision
  a_decided_by :: string
  a_decided_at :: datetime
  a_valid_until :: datetime
  a_metadata :: "json option"

datatype failure_stage =
    PreHitlInspection | ApprovalTimeout | ApprovalRejected | PolicyDrift | PostHitlInspection
  | TransformDrift | UpstreamError | ServiceShutdown | InvalidTaskState

record failure_info =
  f_stage :: failure_stage
  f_reason :: string
  f_retriable :: bool

record task_transition_rec =
  tr_from :: task_status
  tr_to :: task_status
  tr_at :: datetime
  tr_reason :: "string option"

datatype timeout_action = TA_Deny | TA_Approve

record task =
  t_id :: task_id
  t_original_request :: tool_call_request
  t_pre_approval_transformed :: tool_call_request
  t_request_hash :: string
  t_principal :: principal
  t_created_at :: datetime
  t_ttl :: duration
  t_expires_at :: datetime
  t_poll_interval :: duration
  t_status :: task_status
  t_status_message :: "string option"
  t_transitions :: "task_transition_rec list"
  t_approval :: "approval_record option"
  t_result :: "tool_call_result option"
  t_failure :: "failure_info option"
  t_on_timeout :: timeout_action

datatype task_error =
    TE_NotFound task_id
  | TE_Expired task_id
  | TE_AlreadyTerminal task_id task_status
  | TE_InvalidTransition task_id task_status task_status
  | TE_ConcurrentModification task_id task_status task_status
  | TE_RateLimited string duration
  | TE_CapacityExceeded
  | TE_ResultNotReady task_id
  | TE_Internal string

section \<open>Hash and poll interval\<close>

definition hash_preimage :: "ext \<Rightarrow> tool_call_request \<Rightarrow> string + string" where
  "hash_preimage E r =
     map_sum id (\<lambda>args. r_method r @ r_name r @ args) (canonical_json E (r_arguments r))"

definition hash_request :: "ext \<Rightarrow> tool_call_request \<Rightarrow> string + string" where
  "hash_request E r = map_sum id (x_sha256 E) (hash_preimage E r)"

definition compute_poll_interval :: "duration \<Rightarrow> duration" where
  "compute_poll_interval remaining =
     (let secs = as_secs remaining in
      if secs \<le> 60 then from_secs 2
      else if secs \<le> 300 then from_secs 5
      else if secs \<le> 900 then from_secs 10
      else from_secs 30)"

section \<open>Task operations\<close>

definition max_ttl_clamp :: int where
  "max_ttl_clamp = 30 * 24 * 3600 * 1000000000"   \<comment> \<open>\<open>chrono::Duration::days(30)\<close>\<close>

definition task_new ::
  "ext \<Rightarrow> task_id \<Rightarrow> datetime \<Rightarrow> tool_call_request \<Rightarrow> tool_call_request \<Rightarrow> principal \<Rightarrow> duration \<Rightarrow>
   timeout_action \<Rightarrow> string + task" where
  "task_new E new_id now original transformed princ ttl on_timeout =
     (let chrono_ttl = (case x_from_std E ttl of Some d \<Rightarrow> d | None \<Rightarrow> max_ttl_clamp);
          expires_at = now + chrono_ttl
      in case hash_request E transformed of
           Inl e \<Rightarrow> Inl e
         | Inr h \<Rightarrow> Inr
             \<lparr>t_id = new_id, t_original_request = original,
              t_pre_approval_transformed = transformed, t_request_hash = h,
              t_principal = princ, t_created_at = now, t_ttl = ttl, t_expires_at = expires_at,
              t_poll_interval = compute_poll_interval ttl, t_status = Working,
              t_status_message = None, t_transitions = [], t_approval = None, t_result = None,
              t_failure = None, t_on_timeout = on_timeout\<rparr>)"

definition is_expired :: "datetime \<Rightarrow> task \<Rightarrow> bool" where
  "is_expired now t \<longleftrightarrow> now > t_expires_at t"

definition remaining_ttl :: "datetime \<Rightarrow> task \<Rightarrow> duration" where
  "remaining_ttl now t = (if now \<ge> t_expires_at t then 0 else nat (t_expires_at t - now))"

definition task_transition ::
  "datetime \<Rightarrow> task_status \<Rightarrow> string option \<Rightarrow> task \<Rightarrow> task_error + task" where
  "task_transition now new_status reason t =
     (if is_terminal (t_status t) then Inl (TE_AlreadyTerminal (t_id t) (t_status t))
      else if \<not> can_transition_to (t_status t) new_status then
        Inl (TE_InvalidTransition (t_id t) (t_status t) new_status)
      else Inr (t\<lparr>t_transitions := t_transitions t @
                    [\<lparr>tr_from = t_status t, tr_to = new_status, tr_at = now, tr_reason = reason\<rparr>],
                  t_status := new_status,
                  t_poll_interval := compute_poll_interval (remaining_ttl now t)\<rparr>))"

definition task_transition_if ::
  "datetime \<Rightarrow> task_status \<Rightarrow> task_status \<Rightarrow> string option \<Rightarrow> task \<Rightarrow> task_error + task" where
  "task_transition_if now expected new_status reason t =
     (if t_status t \<noteq> expected
      then Inl (TE_ConcurrentModification (t_id t) expected (t_status t))
      else task_transition now new_status reason t)"

section \<open>The audit trail\<close>

text \<open>
  The recorded transitions form a path of the state machine from \<open>Working\<close> to the
  current status. A row \<open>Expired\<close> to \<open>Expired\<close> is the record of an automatic
  approval after expiry.
\<close>

fun trail :: "task_status \<Rightarrow> task_transition_rec list \<Rightarrow> task_status \<Rightarrow> bool" where
  "trail s [] e \<longleftrightarrow> s = e"
| "trail s (x # xs) e \<longleftrightarrow> tr_from x = s \<and>
     (can_transition_to s (tr_to x) \<or> (s = Expired \<and> tr_to x = Expired)) \<and> trail (tr_to x) xs e"

lemma trail_snoc:
  "trail s (xs @ [x]) e \<longleftrightarrow>
     trail s xs (tr_from x) \<and> tr_to x = e \<and>
     (can_transition_to (tr_from x) e \<or> (tr_from x = Expired \<and> e = Expired))"
  by (induction xs arbitrary: s) auto

definition task_wf :: "task \<Rightarrow> bool" where
  "task_wf t \<longleftrightarrow> trail Working (t_transitions t) (t_status t)"

text \<open>What a task operation never changes.\<close>

definition same_request :: "task \<Rightarrow> task \<Rightarrow> bool" where
  "same_request t t' \<longleftrightarrow>
     t_id t' = t_id t \<and> t_original_request t' = t_original_request t \<and>
     t_pre_approval_transformed t' = t_pre_approval_transformed t \<and>
     t_request_hash t' = t_request_hash t \<and> t_principal t' = t_principal t \<and>
     t_created_at t' = t_created_at t \<and> t_ttl t' = t_ttl t \<and>
     t_expires_at t' = t_expires_at t \<and> t_on_timeout t' = t_on_timeout t"

lemma same_request_refl [simp, intro]: "same_request t t"
  by (simp add: same_request_def)

lemma same_request_trans: "same_request t u \<Longrightarrow> same_request u v \<Longrightarrow> same_request t v"
  by (simp add: same_request_def)

lemma same_request_D: "same_request t t' \<Longrightarrow> t_id t' = t_id t \<and> t_principal t' = t_principal t"
  by (simp add: same_request_def)

lemma task_transition_Inr:
  assumes "task_transition now st reason t = Inr t'"
  shows "can_transition_to (t_status t) st" and "\<not> is_terminal (t_status t)"
    and "t_status t' = st" and "same_request t t'"
    and "t_approval t' = t_approval t" and "t_result t' = t_result t" and "t_failure t' = t_failure t"
    and "t_transitions t' = t_transitions t @
      [\<lparr>tr_from = t_status t, tr_to = st, tr_at = now, tr_reason = reason\<rparr>]"
  using assms by (auto simp: task_transition_def same_request_def split: if_splits)

lemma task_transition_ok:
  "can_transition_to (t_status t) st \<Longrightarrow> \<exists>t'. task_transition now st reason t = Inr t'"
  using terminal_no_transition by (auto simp: task_transition_def)

lemma task_transition_wf:
  "task_wf t \<Longrightarrow> task_transition now st reason t = Inr t' \<Longrightarrow> task_wf t'"
  using task_transition_Inr [of now st reason t t'] by (simp add: task_wf_def trail_snoc)

lemma task_new_Inr:
  assumes "task_new E i now orig tr p ttl ot = Inr t"
  shows "t_id t = i" and "t_status t = Working" and "t_principal t = p" and "t_ttl t = ttl"
    and "t_transitions t = []" and "t_original_request t = orig"
    and "t_pre_approval_transformed t = tr" and "hash_request E tr = Inr (t_request_hash t)"
    and "t_approval t = None" and "t_result t = None" and "t_failure t = None"
    and "t_on_timeout t = ot" and "t_created_at t = now"
  using assms by (auto simp: task_new_def Let_def split: sum.splits)

lemma task_new_wf: "task_new E i now orig tr p ttl ot = Inr t \<Longrightarrow> task_wf t"
  using task_new_Inr [of E i now orig tr p ttl ot t] by (simp add: task_wf_def)

text \<open>The statuses a trail goes through, without the automatic-approval rows, are a run.\<close>

lemma trail_run:
  "trail s xs e \<Longrightarrow> status_run s (map tr_to (filter (\<lambda>x. tr_from x \<noteq> Expired) xs))"
proof (induction xs arbitrary: s)
  case Nil
  then show ?case by simp
next
  case (Cons x xs)
  then have IH: "status_run (tr_to x) (map tr_to (filter (\<lambda>x. tr_from x \<noteq> Expired) xs))"
    by auto
  show ?case
  proof (cases "s = Expired")
    case True
    with Cons.prems have "tr_from x = Expired" "tr_to x = Expired" by auto
    with IH True show ?thesis by simp
  next
    case False
    with Cons.prems IH show ?thesis by auto
  qed
qed

lemma compute_poll_interval_bounds:
  "from_secs 2 \<le> compute_poll_interval d \<and> compute_poll_interval d \<le> from_secs 30"
  by (simp add: compute_poll_interval_def Let_def from_secs_def)

lemma compute_poll_interval_mono: "d \<le> d' \<Longrightarrow> compute_poll_interval d \<le> compute_poll_interval d'"
proof -
  assume "d \<le> d'"
  then have "as_secs d \<le> as_secs d'" by (simp add: as_secs_def div_le_mono)
  then show ?thesis by (auto simp: compute_poll_interval_def Let_def from_secs_def)
qed

end
