(* ===== verification/TG_Error.thy ===== *)
theory TG_Error
  imports Task_Core
begin

text \<open>
  The error type of the gateway (\<open>error/mod.rs\<close>) and its rendering as a JSON-RPC error
  (\<open>error/jsonrpc.rs\<close>): codes, type names, gate and tool fields, and the details that
  may leave the process.
\<close>

section \<open>Numbers in messages\<close>

fun show_nat :: "nat \<Rightarrow> string" where
  "show_nat n = (if n < 10 then [char_of (48 + n)] else show_nat (n div 10) @ [char_of (48 + n mod 10)])"

declare show_nat.simps [simp del]

definition show_int :: "int \<Rightarrow> string" where
  "show_int i = (if i < 0 then ''-'' @ show_nat (nat (- i)) else show_nat (nat i))"

definition debug_opt_nat :: "nat option \<Rightarrow> string" where
  "debug_opt_nat v = (case v of None \<Rightarrow> ''None'' | Some n \<Rightarrow> ''Some('' @ show_nat n @ '')'')"

section \<open>Errors\<close>

datatype tg_error =
    ParseError string
  | InvalidRequest string
  | InvalidParams string
  | UpstreamConnectionFailed string string     \<comment> \<open>url, reason\<close>
  | UpstreamTimeout string nat                 \<comment> \<open>url, seconds\<close>
  | UpstreamFailure int string                 \<comment> \<open>code, message\<close>
  | ToolNotExposed string string               \<comment> \<open>tool, source\<close>
  | GovernanceRuleDenied string "string option"
  | PolicyDenied string "string option" "string option"  \<comment> \<open>tool, policy, reason\<close>
  | TaskNotFound string
  | TaskExpired string
  | TaskCancelled string
  | TaskResultNotReady string
  | ApprovalRejectedErr string "string option" "string option"  \<comment> \<open>tool, by, workflow\<close>
  | ApprovalTimeoutErr string nat "string option"  \<comment> \<open>tool, seconds, workflow\<close>
  | TaskRequired string string                 \<comment> \<open>tool, hint\<close>
  | PolicyDriftErr string string               \<comment> \<open>tool, task\<close>
  | TransformDriftErr string string            \<comment> \<open>tool, task\<close>
  | RateLimited "nat option"
  | ServiceUnavailable string
  | InternalError string                       \<comment> \<open>correlation id\<close>

definition q :: "string \<Rightarrow> string" where
  "q s = CHR 0x27 # s @ [CHR 0x27]"   \<comment> \<open>single quotes\<close>

fun error_to_string :: "tg_error \<Rightarrow> string" where
  "error_to_string (ParseError d) = ''Invalid JSON: '' @ d"
| "error_to_string (InvalidRequest d) = ''Invalid JSON-RPC request: '' @ d"
| "error_to_string (InvalidParams d) = ''Invalid parameters: '' @ d"
| "error_to_string (UpstreamConnectionFailed _ _) = ''Cannot connect to MCP server''"
| "error_to_string (UpstreamTimeout _ _) = ''MCP server did not respond in time''"
| "error_to_string (UpstreamFailure _ m) = ''MCP server error: '' @ m"
| "error_to_string (ToolNotExposed t _) = ''Tool '' @ q t @ '' is not available''"
| "error_to_string (GovernanceRuleDenied t _) = ''Tool '' @ q t @ '' is denied by governance rules''"
| "error_to_string (PolicyDenied t _ _) = ''Policy denied access to tool '' @ q t"
| "error_to_string (TaskNotFound i) = ''Task '' @ q i @ '' not found''"
| "error_to_string (TaskExpired i) = ''Task '' @ q i @ '' has expired''"
| "error_to_string (TaskCancelled i) = ''Task '' @ q i @ '' was cancelled''"
| "error_to_string (TaskResultNotReady i) = ''Task '' @ q i @ '' result not ready''"
| "error_to_string (ApprovalRejectedErr t _ _) = ''Approval rejected for tool '' @ q t"
| "error_to_string (ApprovalTimeoutErr t n _) =
     ''Approval timeout for tool '' @ q t @ '' after '' @ show_nat n @ ''s''"
| "error_to_string (TaskRequired t _) = ''Task metadata required for tool '' @ q t"
| "error_to_string (PolicyDriftErr t _) = ''Policy changed since approval for tool '' @ q t"
| "error_to_string (TransformDriftErr t _) = ''Request transform changed since approval for tool '' @ q t"
| "error_to_string (RateLimited n) =
     ''Too many requests. Retry after '' @ debug_opt_nat n @ '' seconds''"
| "error_to_string (ServiceUnavailable _) = ''Service temporarily unavailable''"
| "error_to_string (InternalError c) = ''Internal error. Reference: '' @ c"

fun to_jsonrpc_code :: "tg_error \<Rightarrow> int" where
  "to_jsonrpc_code (ParseError _) = -32700"
| "to_jsonrpc_code (InvalidRequest _) = -32600"
| "to_jsonrpc_code (InvalidParams _) = -32602"
| "to_jsonrpc_code (InternalError _) = -32603"
| "to_jsonrpc_code (UpstreamConnectionFailed _ _) = -32000"
| "to_jsonrpc_code (UpstreamTimeout _ _) = -32001"
| "to_jsonrpc_code (UpstreamFailure _ _) = -32002"
| "to_jsonrpc_code (PolicyDenied _ _ _) = -32003"
| "to_jsonrpc_code (TaskNotFound _) = -32602"
| "to_jsonrpc_code (TaskExpired _) = -32005"
| "to_jsonrpc_code (TaskCancelled _) = -32006"
| "to_jsonrpc_code (TaskResultNotReady _) = -32020"
| "to_jsonrpc_code (ApprovalRejectedErr _ _ _) = -32007"
| "to_jsonrpc_code (ApprovalTimeoutErr _ _ _) = -32008"
| "to_jsonrpc_code (PolicyDriftErr _ _) = -32011"
| "to_jsonrpc_code (TransformDriftErr _ _) = -32012"
| "to_jsonrpc_code (RateLimited _) = -32009"
| "to_jsonrpc_code (ServiceUnavailable _) = -32013"
| "to_jsonrpc_code (GovernanceRuleDenied _ _) = -32014"
| "to_jsonrpc_code (ToolNotExposed _ _) = -32015"
| "to_jsonrpc_code (TaskRequired _ _) = -32600"

fun error_type_name :: "tg_error \<Rightarrow> string" where
  "error_type_name (ParseError _) = ''parse_error''"
| "error_type_name (InvalidRequest _) = ''invalid_request''"
| "error_type_name (InvalidParams _) = ''invalid_params''"
| "error_type_name (UpstreamConnectionFailed _ _) = ''upstream_connection_failed''"
| "error_type_name (UpstreamTimeout _ _) = ''upstream_timeout''"
| "error_type_name (UpstreamFailure _ _) = ''upstream_error''"
| "error_type_name (ToolNotExposed _ _) = ''tool_not_exposed''"
| "error_type_name (GovernanceRuleDenied _ _) = ''governance_rule_denied''"
| "error_type_name (PolicyDenied _ _ _) = ''policy_denied''"
| "error_type_name (TaskNotFound _) = ''task_not_found''"
| "error_type_name (TaskExpired _) = ''task_expired''"
| "error_type_name (TaskCancelled _) = ''task_cancelled''"
| "error_type_name (TaskResultNotReady _) = ''task_result_not_ready''"
| "error_type_name (ApprovalRejectedErr _ _ _) = ''approval_rejected''"
| "error_type_name (ApprovalTimeoutErr _ _ _) = ''approval_timeout''"
| "error_type_name (PolicyDriftErr _ _) = ''policy_drift''"
| "error_type_name (TransformDriftErr _ _) = ''transform_drift''"
| "error_type_name (RateLimited _) = ''rate_limited''"
| "error_type_name (ServiceUnavailable _) = ''service_unavailable''"
| "error_type_name (InternalError _) = ''internal_error''"
| "error_type_name (TaskRequired _ _) = ''task_required''"

definition retry_after :: "tg_error \<Rightarrow> nat option" where
  "retry_after e = (case e of RateLimited n \<Rightarrow> n | _ \<Rightarrow> None)"

definition error_gate :: "tg_error \<Rightarrow> string option" where
  "error_gate e =
     (case e of
        ToolNotExposed _ _ \<Rightarrow> Some ''visibility''
      | GovernanceRuleDenied _ _ \<Rightarrow> Some ''governance''
      | PolicyDenied _ _ _ \<Rightarrow> Some ''policy''
      | ApprovalRejectedErr _ _ _ \<Rightarrow> Some ''approval''
      | ApprovalTimeoutErr _ _ _ \<Rightarrow> Some ''approval''
      | PolicyDriftErr _ _ \<Rightarrow> Some ''policy''
      | TransformDriftErr _ _ \<Rightarrow> Some ''policy''
      | _ \<Rightarrow> None)"

definition error_tool :: "tg_error \<Rightarrow> string option" where
  "error_tool e =
     (case e of
        ToolNotExposed t _ \<Rightarrow> Some t
      | GovernanceRuleDenied t _ \<Rightarrow> Some t
      | PolicyDenied t _ _ \<Rightarrow> Some t
      | ApprovalRejectedErr t _ _ \<Rightarrow> Some t
      | ApprovalTimeoutErr t _ _ \<Rightarrow> Some t
      | PolicyDriftErr t _ \<Rightarrow> Some t
      | TransformDriftErr t _ \<Rightarrow> Some t
      | TaskRequired t _ \<Rightarrow> Some t
      | _ \<Rightarrow> None)"

fun safe_details :: "tg_error \<Rightarrow> string option" where
  "safe_details (ToolNotExposed _ _) = None"
| "safe_details (GovernanceRuleDenied _ _) = None"
| "safe_details (PolicyDenied _ _ _) = None"
| "safe_details (PolicyDriftErr _ _) = None"
| "safe_details (TransformDriftErr _ _) = None"
| "safe_details (ApprovalRejectedErr _ who _) = map_option (\<lambda>b. ''Rejected by: '' @ b) who"
| "safe_details (ApprovalTimeoutErr _ n _) = Some (''Timeout after '' @ show_nat n @ ''s'')"
| "safe_details (UpstreamConnectionFailed _ _) = None"
| "safe_details (UpstreamTimeout _ n) = Some (''Timeout after '' @ show_nat n @ ''s'')"
| "safe_details (UpstreamFailure c _) = Some (''Upstream error code: '' @ show_int c)"
| "safe_details (TaskNotFound _) = None"
| "safe_details (TaskExpired i) = Some (''Task '' @ i @ '' expired'')"
| "safe_details (TaskCancelled _) = None"
| "safe_details (TaskResultNotReady i) = Some (''Task '' @ i @ '' result pending'')"
| "safe_details (RateLimited n) = map_option (\<lambda>s. ''Retry after '' @ show_nat s @ ''s'') n"
| "safe_details (ServiceUnavailable r) = Some r"
| "safe_details (ParseError d) = Some d"
| "safe_details (InvalidRequest d) = Some d"
| "safe_details (InvalidParams d) = Some d"
| "safe_details (TaskRequired _ h) = Some h"
| "safe_details (InternalError _) = None"

record error_data =
  ed_correlation_id :: string
  ed_gate :: "string option"
  ed_tool :: "string option"
  ed_details :: "string option"
  ed_error_type :: string
  ed_retry_after :: "nat option"

record jsonrpc_error =
  je_code :: int
  je_message :: string
  je_data :: "error_data option"

definition to_jsonrpc_error :: "string \<Rightarrow> tg_error \<Rightarrow> jsonrpc_error" where
  "to_jsonrpc_error correlation_id e =
     \<lparr>je_code = to_jsonrpc_code e, je_message = error_to_string e,
      je_data = Some \<lparr>ed_correlation_id = correlation_id, ed_gate = error_gate e,
        ed_tool = error_tool e, ed_details = safe_details e, ed_error_type = error_type_name e,
        ed_retry_after = retry_after e\<rparr>\<rparr>"

section \<open>What a client learns\<close>

text \<open>
  The parts of an error a client may see. Source, rule, policy and deny reason, workflow, upstream
  address and task of a drift are internal.
\<close>

fun public_part :: "tg_error \<Rightarrow> tg_error" where
  "public_part (UpstreamConnectionFailed _ _) = UpstreamConnectionFailed [] []"
| "public_part (UpstreamTimeout _ n) = UpstreamTimeout [] n"
| "public_part (ToolNotExposed t _) = ToolNotExposed t []"
| "public_part (GovernanceRuleDenied t _) = GovernanceRuleDenied t None"
| "public_part (PolicyDenied t _ _) = PolicyDenied t None None"
| "public_part (ApprovalRejectedErr t who _) = ApprovalRejectedErr t who None"
| "public_part (ApprovalTimeoutErr t n _) = ApprovalTimeoutErr t n None"
| "public_part (PolicyDriftErr t _) = PolicyDriftErr t []"
| "public_part (TransformDriftErr t _) = TransformDriftErr t []"
| "public_part e = e"


end
