(* ===== verification/Pipeline.thy ===== *)
theory Pipeline
  imports TG_Error
begin

text \<open>
  The approval pipeline of \<open>governance/pipeline.rs\<close>: inspector chain, validation of the
  approval, re-evaluation of the policy, comparison with the approved hash, and the upstream call.
  Inspectors, the policy engine and the upstream client are behind traits or services: they are
  arguments, and so are the outcomes only the run time decides (a timeout, a failed worker).
  Operations that may reach the upstream return the request they sent, if any.
\<close>

section \<open>Types and configuration\<close>

datatype pipeline_result =
    P_Success tool_call_result
  | P_Failure failure_stage string bool   \<comment> \<open>stage, reason, retriable\<close>

definition is_success :: "pipeline_result \<Rightarrow> bool" where
  "is_success r = (case r of P_Success _ \<Rightarrow> True | _ \<Rightarrow> False)"

datatype pipeline_error =
    PE_InspectionRejected string string
  | PE_InternalError string
  | PE_InspectorTimeout string nat
  | PE_SerializationError string

fun pipeline_error_to_string :: "pipeline_error \<Rightarrow> string" where
  "pipeline_error_to_string (PE_InspectionRejected i r) = ''Inspector '' @ q i @ '' rejected: '' @ r"
| "pipeline_error_to_string (PE_InternalError d) = ''Internal pipeline error: '' @ d"
| "pipeline_error_to_string (PE_InspectorTimeout i n) =
     ''Inspector '' @ q i @ '' timed out after '' @ show_nat n @ ''s''"
| "pipeline_error_to_string (PE_SerializationError d) = ''Serialization error: '' @ d"

record pre_hitl_result =
  ph_transformed_request :: tool_call_request
  ph_request_hash :: string

datatype transform_drift_mode = Strict | Permissive

record pipeline_config =
  pc_approval_validity :: duration
  pc_execution_timeout :: duration
  pc_inspector_timeout :: duration
  pc_transform_drift_mode :: transform_drift_mode

definition pipeline_config_default :: pipeline_config where
  "pipeline_config_default = \<lparr>pc_approval_validity = from_secs 300,
     pc_execution_timeout = from_secs 30, pc_inspector_timeout = from_secs 30,
     pc_transform_drift_mode = Strict\<rparr>"

text \<open>The first argument prints a duration (\<open>Debug\<close>).\<close>

definition pipeline_config_validate :: "(duration \<Rightarrow> string) \<Rightarrow> pipeline_config \<Rightarrow> string + unit" where
  "pipeline_config_validate dbg c =
     (if pc_inspector_timeout c > pc_execution_timeout c
      then Inl (''inspector_timeout ('' @ dbg (pc_inspector_timeout c) @
                '') must be <= execution_timeout ('' @ dbg (pc_execution_timeout c) @ '')'')
      else if pc_approval_validity c = 0 then Inl ''approval_validity must be > 0''
      else Inr ())"

text \<open>
  An environment variable is absent, or present with its text; \<open>parse\<close> is
  \<open>str::parse\<close> for the target type.
\<close>

definition parse_env_warn :: "(string \<Rightarrow> 'a option) \<Rightarrow> string option \<Rightarrow> 'a \<Rightarrow> 'a" where
  "parse_env_warn parse var dflt =
     (case var of
        Some val \<Rightarrow> (case parse val of Some parsed \<Rightarrow> parsed | None \<Rightarrow> dflt)
      | None \<Rightarrow> dflt)"

definition pipeline_config_from_env ::
  "(duration \<Rightarrow> string) \<Rightarrow> (string \<Rightarrow> nat option) \<Rightarrow> (string \<Rightarrow> string) \<Rightarrow> (string \<Rightarrow> string option) \<Rightarrow>
   pipeline_config" where
  "pipeline_config_from_env dbg parse_u64 to_lowercase env =
     (let c = \<lparr>pc_approval_validity =
                 from_secs (parse_env_warn parse_u64 (env ''THOUGHTGATE_APPROVAL_VALIDITY_SECS'') 300),
               pc_execution_timeout =
                 from_secs (parse_env_warn parse_u64 (env ''THOUGHTGATE_EXECUTION_TIMEOUT_SECS'') 30),
               pc_inspector_timeout =
                 from_secs (parse_env_warn parse_u64 (env ''THOUGHTGATE_INSPECTOR_TIMEOUT_SECS'') 30),
               pc_transform_drift_mode =
                 (case env ''THOUGHTGATE_TRANSFORM_DRIFT_MODE'' of
                    Some s \<Rightarrow> if to_lowercase s = ''permissive'' then Permissive else Strict
                  | None \<Rightarrow> Strict)\<rparr>
      in case pipeline_config_validate dbg c of Inl _ \<Rightarrow> pipeline_config_default | Inr _ \<Rightarrow> c)"

section \<open>Inspectors\<close>

text \<open>What one call of an inspector under a timeout can come to.\<close>

datatype inspection =
    I_Timeout
  | I_Error string
  | I_Approve
  | I_Modify string   \<comment> \<open>new bytes\<close>
  | I_Reject string   \<comment> \<open>status\<close>

record inspector =
  insp_name :: string
  insp_inspect :: "string \<Rightarrow> string \<Rightarrow> inspection"   \<comment> \<open>URI, bytes\<close>

text \<open>JSON encoding of the request, URI check of the \<open>http\<close> crate and JSON decoding.\<close>

record codec =
  cd_to_vec :: "json \<Rightarrow> string + string"
  cd_uri_error :: "string \<Rightarrow> string option"
  cd_parse_partial :: "string \<Rightarrow> string + (string \<times> json)"

definition call_bytes :: "codec \<Rightarrow> tool_call_request \<Rightarrow> string + string" where
  "call_bytes C r =
     cd_to_vec C (JObject [(''name'', JString (r_name r)), (''arguments'', r_arguments r)])"

definition run_inspector ::
  "codec \<Rightarrow> pipeline_config \<Rightarrow> inspector \<Rightarrow> tool_call_request \<Rightarrow> pipeline_error + tool_call_request" where
  "run_inspector C cfg insp current =
     (case call_bytes C current of
        Inl e \<Rightarrow> Inl (PE_SerializationError e)
      | Inr bytes \<Rightarrow>
          let uri = ''/'' @ r_method current in
          case cd_uri_error C uri of
            Some e \<Rightarrow> Inl (PE_InternalError e)
          | None \<Rightarrow>
              (case insp_inspect insp uri bytes of
                 I_Timeout \<Rightarrow> Inl (PE_InspectorTimeout (insp_name insp) (as_secs (pc_inspector_timeout cfg)))
               | I_Error e \<Rightarrow> Inl (PE_InternalError (''Inspector '' @ q (insp_name insp) @ '' error: '' @ e))
               | I_Approve \<Rightarrow> Inr current
               | I_Modify new_bytes \<Rightarrow>
                   (case cd_parse_partial C new_bytes of
                      Inl e \<Rightarrow> Inl (PE_SerializationError
                                (''Inspector '' @ q (insp_name insp) @ '' returned invalid JSON: '' @ e))
                    | Inr (name, arguments) \<Rightarrow>
                        Inr (current\<lparr>r_name := name, r_arguments := arguments\<rparr>))
               | I_Reject status \<Rightarrow>
                   Inl (PE_InspectionRejected (insp_name insp) (''Rejected with status '' @ status))))"

fun run_inspector_chain ::
  "codec \<Rightarrow> pipeline_config \<Rightarrow> inspector list \<Rightarrow> tool_call_request \<Rightarrow>
   pipeline_error + tool_call_request" where
  "run_inspector_chain C cfg [] current = Inr current"
| "run_inspector_chain C cfg (i # is) current =
     (case run_inspector C cfg i current of
        Inl e \<Rightarrow> Inl e
      | Inr r \<Rightarrow> run_inspector_chain C cfg is r)"

section \<open>Policy\<close>

record approval_grant =
  g_task_id :: string
  g_approved_by :: string
  g_approved_at :: int   \<comment> \<open>seconds\<close>

record policy_principal =
  pp_app_name :: string
  pp_namespace :: string
  pp_service_account :: string
  pp_roles :: "string list"

datatype policy_resource = PR_ToolCall string string | PR_McpMethod string string

record policy_request =
  pq_principal :: policy_principal
  pq_resource :: policy_resource
  pq_context :: "approval_grant option option"   \<comment> \<open>\<open>PolicyContext\<close> holds one optional grant\<close>

datatype policy_action = PA_Forward | PA_Approve duration | PA_Reject string

definition build_policy_request ::
  "tool_call_request \<Rightarrow> principal \<Rightarrow> approval_grant option \<Rightarrow> policy_request" where
  "build_policy_request r p grant =
     \<lparr>pq_principal = \<lparr>pp_app_name = p_app_name p, pp_namespace = p_namespace p,
        pp_service_account = p_service_account p, pp_roles = p_roles p\<rparr>,
      pq_resource = PR_ToolCall (r_name r) ''default'',
      pq_context = map_option Some grant\<rparr>"

text \<open>The engine runs on a worker: \<open>Inl\<close> is a worker that failed.\<close>

type_synonym policy_engine = "policy_request \<Rightarrow> string + policy_action"

definition check_policy_drift :: "policy_engine \<Rightarrow> tool_call_request \<Rightarrow> principal \<Rightarrow> string + unit" where
  "check_policy_drift evaluate r p =
     (case evaluate (build_policy_request r p None) of
        Inl e \<Rightarrow> Inl (''Policy re-evaluation task failed: '' @ e)
      | Inr PA_Forward \<Rightarrow> Inr ()
      | Inr (PA_Approve _) \<Rightarrow> Inr ()
      | Inr (PA_Reject reason) \<Rightarrow> Inl reason)"

section \<open>Upstream\<close>

record mcp_request =
  mq_id :: "json_rpc_id option"
  mq_method :: string
  mq_params :: "json option"

definition to_mcp_request :: "tool_call_request \<Rightarrow> mcp_request" where
  "to_mcp_request r =
     (let full = JObject [(''name'', JString (r_name r)), (''arguments'', r_arguments r)] in
      \<lparr>mq_id = (case r_mcp_request_id r of IdNull \<Rightarrow> None | i \<Rightarrow> Some i),
       mq_method = r_method r,
       mq_params =
         (if r_method r = ''tools/call'' then Some full
          else if r_method r = ''resources/read'' \<or> r_method r = ''resources/subscribe''
          then Some (JObject [(''uri'', JString (r_name r))])
          else if r_method r = ''prompts/get'' then
            (if r_arguments r = JNull \<or> r_arguments r = JObject []
             then Some (JObject [(''name'', JString (r_name r))])
             else Some full)
          else Some full)\<rparr>)"

record mcp_response =
  mr_result :: "json option"
  mr_error :: "jsonrpc_error option"

datatype upstream_outcome = U_Timeout | U_Error tg_error | U_Response mcp_response

definition classify_upstream_error :: "tg_error \<Rightarrow> bool \<times> string" where
  "classify_upstream_error e =
     (case e of
        UpstreamTimeout _ _ \<Rightarrow> (True, ''Upstream timed out'')
      | UpstreamConnectionFailed _ reason \<Rightarrow> (True, ''Connection failed: '' @ reason)
      | UpstreamFailure _ message \<Rightarrow> (False, message)
      | _ \<Rightarrow> (False, error_to_string e))"

definition is_retriable_error :: "int \<Rightarrow> bool" where
  "is_retriable_error code \<longleftrightarrow> code \<in> {-32000, -32001, -32013}"

type_synonym upstream = "mcp_request \<Rightarrow> upstream_outcome"

definition forward_to_upstream ::
  "upstream \<Rightarrow> tool_call_request \<Rightarrow> mcp_request option \<times> pipeline_result" where
  "forward_to_upstream forward r =
     (let mcp = to_mcp_request r in
      (Some mcp,
       case forward mcp of
         U_Response resp \<Rightarrow>
           (case mr_error resp of
              Some err \<Rightarrow> P_Failure UpstreamError (je_message err) (is_retriable_error (je_code err))
            | None \<Rightarrow> P_Success \<lparr>res_content = (case mr_result resp of Some v \<Rightarrow> v | None \<Rightarrow> JNull),
                                 res_is_error = False\<rparr>)
       | U_Error e \<Rightarrow>
           (let (retriable, reason) = classify_upstream_error e
            in P_Failure UpstreamError reason retriable)
       | U_Timeout \<Rightarrow> P_Failure UpstreamError ''Upstream request timed out'' True))"

section \<open>The phases after an approval\<close>

record pipeline =
  pl_ext :: ext
  pl_codec :: codec
  pl_inspectors :: "inspector list"
  pl_policy_engine :: policy_engine
  pl_upstream :: upstream
  pl_config :: pipeline_config

definition validate_approval ::
  "datetime \<Rightarrow> task \<Rightarrow> approval_record \<Rightarrow> pipeline_result + unit" where
  "validate_approval now t a =
     (if now > a_valid_until a then Inl (P_Failure ApprovalTimeout ''Approval has expired'' False)
      else if t_status t \<noteq> Executing
      then Inl (P_Failure InvalidTaskState
                  (''Task in invalid state: '' @ display_status (t_status t)) False)
      else Inr ())"

definition reevaluate_policy ::
  "policy_engine \<Rightarrow> task \<Rightarrow> approval_record \<Rightarrow> pipeline_result + unit" where
  "reevaluate_policy evaluate t a =
     (let grant = \<lparr>g_task_id = t_id t, g_approved_by = a_decided_by a,
                   g_approved_at = a_decided_at a div 1000000000\<rparr>
      in case evaluate (build_policy_request (t_pre_approval_transformed t) (t_principal t) (Some grant)) of
           Inl e \<Rightarrow> Inl (P_Failure PolicyDrift (''Policy re-evaluation task failed: '' @ e) False)
         | Inr PA_Forward \<Rightarrow> Inr ()
         | Inr (PA_Approve _) \<Rightarrow> Inr ()
         | Inr (PA_Reject _) \<Rightarrow>
             Inl (P_Failure PolicyDrift ''Policy changed - request no longer permitted'' False))"

definition post_approval_amber :: "pipeline \<Rightarrow> task \<Rightarrow> pipeline_result + tool_call_request" where
  "post_approval_amber P t =
     (case run_inspector_chain (pl_codec P) (pl_config P) (pl_inspectors P) (t_original_request t) of
        Inl (PE_InspectionRejected insp reason) \<Rightarrow>
          Inl (P_Failure PostHitlInspection (''Inspector '' @ q insp @ '' rejected: '' @ reason) False)
      | Inl e \<Rightarrow> Inl (P_Failure PostHitlInspection (pipeline_error_to_string e) True)
      | Inr transformed \<Rightarrow>
          (case hash_request (pl_ext P) transformed of
             Inl e \<Rightarrow> Inl (P_Failure TransformDrift
                             (''Failed to hash transformed request: '' @ e) False)
           | Inr new_hash \<Rightarrow>
               if new_hash \<noteq> t_request_hash t then
                 (case pc_transform_drift_mode (pl_config P) of
                    Strict \<Rightarrow> Inl (P_Failure TransformDrift
                                    ''Request transformed differently than at approval time'' False)
                  | Permissive \<Rightarrow> Inr (t_pre_approval_transformed t))
               else Inr transformed))"

definition execute_approved ::
  "pipeline \<Rightarrow> datetime \<Rightarrow> task \<Rightarrow> approval_record \<Rightarrow> mcp_request option \<times> pipeline_result" where
  "execute_approved P now t a =
     (case validate_approval now t a of
        Inl f \<Rightarrow> (None, f)
      | Inr _ \<Rightarrow>
          (case reevaluate_policy (pl_policy_engine P) t a of
             Inl f \<Rightarrow> (None, f)
           | Inr _ \<Rightarrow>
               (case post_approval_amber P t of
                  Inl f \<Rightarrow> (None, f)
                | Inr final_request \<Rightarrow> forward_to_upstream (pl_upstream P) final_request)))"

definition pre_approval_amber :: "pipeline \<Rightarrow> tool_call_request \<Rightarrow> pipeline_error + pre_hitl_result" where
  "pre_approval_amber P request =
     (case run_inspector_chain (pl_codec P) (pl_config P) (pl_inspectors P) request of
        Inl e \<Rightarrow> Inl e
      | Inr transformed \<Rightarrow>
          (case hash_request (pl_ext P) transformed of
             Inl e \<Rightarrow> Inl (PE_InternalError (''Failed to hash request: '' @ e))
           | Inr h \<Rightarrow> Inr \<lparr>ph_transformed_request = transformed, ph_request_hash = h\<rparr>))"

section \<open>Properties\<close>

lemma pipeline_config_from_env_valid:
  "pipeline_config_validate dbg (pipeline_config_from_env dbg parse lower env) = Inr ()"
  by (auto simp: pipeline_config_from_env_def Let_def pipeline_config_default_def
      pipeline_config_validate_def from_secs_def split: sum.splits)

text \<open>Inspectors may rewrite name and arguments, never the method or the request identifier.\<close>

lemma run_inspector_keeps:
  "run_inspector C cfg i r = Inr r' \<Longrightarrow> r_method r' = r_method r \<and> r_mcp_request_id r' = r_mcp_request_id r"
  by (auto simp: run_inspector_def Let_def split: sum.splits option.splits inspection.splits prod.splits)

lemma run_inspector_chain_keeps:
  "run_inspector_chain C cfg is r = Inr r' \<Longrightarrow>
     r_method r' = r_method r \<and> r_mcp_request_id r' = r_mcp_request_id r"
  by (induction "is" arbitrary: r) (auto dest!: run_inspector_keeps split: sum.splits)

lemma run_inspector_chain_append:
  "run_inspector_chain C cfg (is @ js) r =
     (case run_inspector_chain C cfg is r of Inl e \<Rightarrow> Inl e | Inr r' \<Rightarrow> run_inspector_chain C cfg js r')"
  by (induction "is" arbitrary: r) (auto split: sum.splits)

lemma validate_approval_Inr:
  "validate_approval now t a = Inr u \<longleftrightarrow> now \<le> a_valid_until a \<and> t_status t = Executing"
  by (auto simp: validate_approval_def)

definition grant_of :: "task \<Rightarrow> approval_record \<Rightarrow> approval_grant" where
  "grant_of t a = \<lparr>g_task_id = t_id t, g_approved_by = a_decided_by a,
     g_approved_at = a_decided_at a div 1000000000\<rparr>"

definition permits :: "policy_engine \<Rightarrow> task \<Rightarrow> approval_record \<Rightarrow> bool" where
  "permits evaluate t a \<longleftrightarrow>
     (case evaluate (build_policy_request (t_pre_approval_transformed t) (t_principal t)
                       (Some (grant_of t a))) of
        Inr PA_Forward \<Rightarrow> True | Inr (PA_Approve _) \<Rightarrow> True | _ \<Rightarrow> False)"

lemma reevaluate_policy_Inr: "reevaluate_policy ev t a = Inr u \<longleftrightarrow> permits ev t a"
  by (auto simp: reevaluate_policy_def permits_def grant_of_def Let_def
      split: sum.splits policy_action.splits)

lemma post_approval_amber_Inr:
  assumes "post_approval_amber P t = Inr r"
  shows "\<exists>r'. run_inspector_chain (pl_codec P) (pl_config P) (pl_inspectors P) (t_original_request t) =
      Inr r' \<and> (r = r' \<and> hash_request (pl_ext P) r = Inr (t_request_hash t) \<or>
      r = t_pre_approval_transformed t \<and> pc_transform_drift_mode (pl_config P) = Permissive)"
  using assms by (auto simp: post_approval_amber_def
      split: sum.splits if_splits transform_drift_mode.splits pipeline_error.splits)

lemma forward_to_upstream_fst: "fst (forward_to_upstream u r) = Some (to_mcp_request r)"
  by (simp add: forward_to_upstream_def Let_def)

lemma execute_approved_cases:
  obtains (refused) f where "execute_approved P now t a = (None, f)"
      "validate_approval now t a = Inl f \<or> reevaluate_policy (pl_policy_engine P) t a = Inl f \<or>
       post_approval_amber P t = Inl f"
  | (sent) r where "execute_approved P now t a = forward_to_upstream (pl_upstream P) r"
      "validate_approval now t a = Inr ()" "reevaluate_policy (pl_policy_engine P) t a = Inr ()"
      "post_approval_amber P t = Inr r"
  by (cases "validate_approval now t a"; cases "reevaluate_policy (pl_policy_engine P) t a";
      cases "post_approval_amber P t") (simp_all add: execute_approved_def)


definition demo_pipeline :: pipeline where
  "demo_pipeline =
     \<lparr>pl_ext = \<lparr>x_sha256 = (\<lambda>s. s), x_to_string = (\<lambda>_. Some ''{}''), x_from_std = (\<lambda>d. Some (int d)),
     x_debug_duration = (\<lambda>_. ''60s'')\<rparr>,
      pl_codec = \<lparr>cd_to_vec = (\<lambda>_. Inr ''{}''), cd_uri_error = (\<lambda>_. None),
                  cd_parse_partial = (\<lambda>_. Inr (''y'', JNull))\<rparr>,
      pl_inspectors = [\<lparr>insp_name = ''i'', insp_inspect = (\<lambda>_ _. I_Modify ''z'')\<rparr>],
      pl_policy_engine = (\<lambda>_. Inr PA_Forward),
      pl_upstream = (\<lambda>_. U_Response \<lparr>mr_result = Some (JBool True), mr_error = None\<rparr>),
      pl_config = pipeline_config_default\<rparr>"

definition demo_request :: tool_call_request where
  "demo_request = \<lparr>r_method = ''tools/call'', r_name = ''x'', r_arguments = JNull,
                   r_mcp_request_id = IdNull\<rparr>"

definition demo_task :: task where
  "demo_task =
     \<lparr>t_id = ''1'', t_original_request = demo_request,
      t_pre_approval_transformed = demo_request\<lparr>r_name := ''y''\<rparr>,
      t_request_hash = ''tools/cally{}'', t_principal = principal_new ''a'', t_created_at = 0,
      t_ttl = 100, t_expires_at = 100, t_poll_interval = 1, t_status = Executing,
      t_status_message = None, t_transitions = [], t_approval = None, t_result = None,
      t_failure = None, t_on_timeout = TA_Deny\<rparr>"

definition demo_approval :: approval_record where
  "demo_approval = \<lparr>a_decision = AD_Approved, a_decided_by = ''bob'', a_decided_at = 0,
                    a_valid_until = 60, a_metadata = None\<rparr>"


text \<open>An execution reaches the upstream exactly if it ends in success or in the stage
  \<open>UpstreamError\<close>: every other failure leaves the upstream untouched.\<close>

lemma execute_approved_sent_iff:
  "(\<exists>m. fst (execute_approved P now t a) = Some m) \<longleftrightarrow>
   (case snd (execute_approved P now t a) of
      P_Success _ \<Rightarrow> True | P_Failure stage _ _ \<Rightarrow> stage = UpstreamError)"
proof (cases rule: execute_approved_cases [of P now t a])
  case (refused f)
  then have "\<exists>st why b. f = P_Failure st why b \<and> st \<noteq> UpstreamError"
    by (auto simp: validate_approval_def reevaluate_policy_def post_approval_amber_def Let_def
        split: sum.splits if_splits policy_action.splits pipeline_error.splits
          transform_drift_mode.splits)
  then show ?thesis using refused(1) by auto
next
  case (sent r)
  then show ?thesis
    by (auto simp: forward_to_upstream_def Let_def
        split: upstream_outcome.splits option.splits prod.splits)
qed

text \<open>With inspectors that behave at execution as they did before the approval, no drift is
  detected: if the request passed the first inspection and the task was made from its outcome, a
  valid approval and a permitting policy always lead to the upstream, and what is sent is exactly
  the request the approver saw.\<close>

lemma approved_request_executed:
  assumes "pre_approval_amber P request = Inr pre"
    and "t_original_request t = request"
    and "t_request_hash t = ph_request_hash pre"
    and "now \<le> a_valid_until a" and "t_status t = Executing" and "permits (pl_policy_engine P) t a"
  shows "execute_approved P now t a = forward_to_upstream (pl_upstream P) (ph_transformed_request pre) \<and>
    fst (execute_approved P now t a) = Some (to_mcp_request (ph_transformed_request pre))"
proof -
  from assms(1) have "run_inspector_chain (pl_codec P) (pl_config P) (pl_inspectors P) request =
      Inr (ph_transformed_request pre)"
    "hash_request (pl_ext P) (ph_transformed_request pre) = Inr (ph_request_hash pre)"
    by (auto simp: pre_approval_amber_def split: sum.splits)
  then have "post_approval_amber P t = Inr (ph_transformed_request pre)"
    using assms(2,3) by (simp add: post_approval_amber_def)
  moreover have "validate_approval now t a = Inr ()" "reevaluate_policy (pl_policy_engine P) t a = Inr ()"
    using assms(4-6) by (simp_all add: validate_approval_Inr reevaluate_policy_Inr)
  ultimately show ?thesis by (simp add: execute_approved_def forward_to_upstream_fst)
qed

end
