(* ===== verification/Task_Store.thy ===== *)
theory Task_Store
  imports Task_Core
begin

text \<open>
  The in-memory task store of \<open>governance/task/store.rs\<close>: its state, every operation that
  changes it, and the invariant that ties the atomic counters and the principal index to the
  tasks. Each operation of the store works on one entry under that entry's lock (or on an atomic
  counter), so an operation is one step here; the sequences of operations are arbitrary.
\<close>

section \<open>State\<close>

record store_config =
  c_default_ttl :: duration
  c_max_ttl :: duration
  c_min_ttl :: duration
  c_cleanup_interval :: duration
  c_max_pending_per_principal :: nat
  c_max_pending_global :: nat
  c_terminal_grace_period :: duration
  c_max_pending_bytes :: nat

text \<open>The argument is the parsed value of \<open>THOUGHTGATE_MAX_PENDING_BYTES\<close>, if any.\<close>

definition store_config_default :: "nat option \<Rightarrow> store_config" where
  "store_config_default env_bytes =
     \<lparr>c_default_ttl = from_secs 600, c_max_ttl = from_secs 86400, c_min_ttl = from_secs 60,
      c_cleanup_interval = from_secs 60, c_max_pending_per_principal = 10,
      c_max_pending_global = 1000, c_terminal_grace_period = from_secs 3600,
      c_max_pending_bytes = (case env_bytes of Some n \<Rightarrow> n | None \<Rightarrow> 256 * 1024 * 1024)\<rparr>"

record task_entry =
  e_task :: task
  e_terminal_at :: "datetime option"
  e_notified :: nat   \<comment> \<open>calls of \<open>notify_waiters\<close>\<close>
  e_bytes :: nat      \<comment> \<open>\<open>estimated_bytes\<close>\<close>

record store_metrics =
  m_tasks_pending :: nat
  m_completed :: "(string \<times> string) list"

record task_store =
  s_tasks :: "(task_id \<times> task_entry) list"
  s_by_principal :: "(string \<times> task_id list) list"
  s_config :: store_config
  s_pending_count :: nat
  s_pending_by_principal :: "(string \<times> nat) list"
  s_pending_bytes :: nat
  s_metrics :: "store_metrics option"

definition store_new :: "store_config \<Rightarrow> task_store" where
  "store_new cfg = \<lparr>s_tasks = [], s_by_principal = [], s_config = cfg, s_pending_count = 0,
     s_pending_by_principal = [], s_pending_bytes = 0, s_metrics = None\<rparr>"

definition store_with_metrics :: "store_config \<Rightarrow> task_store" where
  "store_with_metrics cfg = \<lparr>s_tasks = [], s_by_principal = [], s_config = cfg,
     s_pending_count = 0, s_pending_by_principal = [], s_pending_bytes = 0,
     s_metrics = Some \<lparr>m_tasks_pending = 0, m_completed = []\<rparr>\<rparr>"

section \<open>Operations\<close>

definition set_gauge :: "nat \<Rightarrow> task_store \<Rightarrow> task_store" where
  "set_gauge n s = s\<lparr>s_metrics := map_option (\<lambda>m. m\<lparr>m_tasks_pending := n\<rparr>) (s_metrics s)\<rparr>"

definition decrement_principal :: "string \<Rightarrow> (string \<times> nat) list \<Rightarrow> (string \<times> nat) list" where
  "decrement_principal key al =
     (case map_of al key of
        None \<Rightarrow> al
      | Some prev \<Rightarrow>
          let al' = AList.update key (wsub prev 1) al in
          if prev = 1 \<and> map_of al' key = Some 0 then AList.delete key al' else al')"

definition decrement_pending_counters :: "task \<Rightarrow> nat \<Rightarrow> task_store \<Rightarrow> task_store" where
  "decrement_pending_counters t bytes s =
     (let new_count = wsub (s_pending_count s) 1;
          s1 = s\<lparr>s_pending_count := new_count, s_pending_bytes := wsub (s_pending_bytes s) bytes\<rparr>;
          s2 = set_gauge new_count s1
      in s2\<lparr>s_pending_by_principal :=
              decrement_principal (rate_limit_key (t_principal t)) (s_pending_by_principal s2)\<rparr>)"

definition principal_count :: "task_store \<Rightarrow> string \<Rightarrow> nat" where
  "principal_count s key = (case map_of (s_pending_by_principal s) key of None \<Rightarrow> 0 | Some n \<Rightarrow> n)"

definition set_principal_count :: "string \<Rightarrow> nat \<Rightarrow> task_store \<Rightarrow> task_store" where
  "set_principal_count key n s =
     s\<lparr>s_pending_by_principal := AList.update key n (s_pending_by_principal s)\<rparr>"

text \<open>The two reservations of \<open>create\<close>: a global slot, then a slot of the principal.\<close>

definition reserve :: "string \<Rightarrow> task_store \<Rightarrow> task_store" where
  "reserve key s = set_principal_count key (wadd (principal_count s key) 1)
     (s\<lparr>s_pending_count := wadd (s_pending_count s) 1\<rparr>)"

text \<open>Undo of both reservations, as every error exit of \<open>create\<close> does it.\<close>

definition rollback :: "string \<Rightarrow> task_store \<Rightarrow> task_store" where
  "rollback key s =
     (let s1 = set_principal_count key (wsub (principal_count s key) 1) s
      in s1\<lparr>s_pending_count := wsub (s_pending_count s1) 1\<rparr>)"

definition estimate_bytes :: "ext \<Rightarrow> json \<Rightarrow> nat" where
  "estimate_bytes E args =
     wadd (case x_to_string E args of None \<Rightarrow> 200 | Some str \<Rightarrow> length str) 200"

definition insert_entry :: "task_id \<Rightarrow> task_entry \<Rightarrow> string \<Rightarrow> task_store \<Rightarrow> task_store" where
  "insert_entry k e key s =
     (let ids = (case map_of (s_by_principal s) key of None \<Rightarrow> [] | Some l \<Rightarrow> l)
      in s\<lparr>s_tasks := AList.update k e (s_tasks s),
           s_by_principal := AList.update key (ids @ [k]) (s_by_principal s)\<rparr>)"

definition clamp :: "nat \<Rightarrow> nat \<Rightarrow> nat \<Rightarrow> nat" where
  "clamp lo hi x = (if x < lo then lo else if x > hi then hi else x)"

text \<open>
  \<open>TaskStore::create\<close>. Without interference the compare-exchange loop succeeds at its
  first iteration. \<open>Duration::clamp\<close> panics when the lower bound exceeds the upper one,
  after both reservations were made.
\<close>

definition create ::
  "ext \<Rightarrow> task_id \<Rightarrow> datetime \<Rightarrow> tool_call_request \<Rightarrow> tool_call_request \<Rightarrow> principal \<Rightarrow>
   duration option \<Rightarrow> timeout_action \<Rightarrow> task_store \<Rightarrow> task_store \<times> (task_error, task) rres" where
  "create E new_id now original transformed princ ttl_opt on_timeout s =
     (let cfg = s_config s in
      if s_pending_count s \<ge> c_max_pending_global cfg then (s, RErr TE_CapacityExceeded)
      else
        let key = rate_limit_key princ;
            prev = principal_count s key;
            s2 = reserve key s
        in if prev \<ge> c_max_pending_per_principal cfg
           then (rollback key s2, RErr (TE_RateLimited key (from_secs 60)))
           else if c_min_ttl cfg > c_max_ttl cfg then (s2, RPanic)
           else
             let ttl = clamp (c_min_ttl cfg) (c_max_ttl cfg)
                         (case ttl_opt of Some d \<Rightarrow> d | None \<Rightarrow> c_default_ttl cfg)
             in case task_new E new_id now original transformed princ ttl on_timeout of
                  Inl e \<Rightarrow> (rollback key s2, RErr (TE_Internal e))
                | Inr t \<Rightarrow>
                    let est = estimate_bytes E (r_arguments (t_original_request t)) in
                    if wadd (s_pending_bytes s2) est > c_max_pending_bytes cfg
                    then (rollback key s2, RErr TE_CapacityExceeded)
                    else
                      let s3 = s2\<lparr>s_pending_bytes := wadd (s_pending_bytes s2) est\<rparr>;
                          s4 = insert_entry (t_id t)
                                 \<lparr>e_task = t, e_terminal_at = None, e_notified = 0, e_bytes = est\<rparr>
                                 key s3
                      in (set_gauge (s_pending_count s4) s4, ROk t))"

definition get :: "task_id \<Rightarrow> task_store \<Rightarrow> task_error + task" where
  "get k s = (case map_of (s_tasks s) k of None \<Rightarrow> Inl (TE_NotFound k) | Some e \<Rightarrow> Inr (e_task e))"

definition put_entry :: "task_id \<Rightarrow> task_entry \<Rightarrow> task_store \<Rightarrow> task_store" where
  "put_entry k e s = s\<lparr>s_tasks := AList.update k e (s_tasks s)\<rparr>"

text \<open>
  The tail shared by the operations that may end a task: a task that became terminal gets its
  timestamp, the counters are released and the waiters are woken.
\<close>

definition settle :: "datetime \<Rightarrow> task_id \<Rightarrow> task_entry \<Rightarrow> task \<Rightarrow> task_store \<Rightarrow> task_store" where
  "settle now k e t s =
     (if \<not> is_terminal (t_status (e_task e)) \<and> is_terminal (t_status t)
      then decrement_pending_counters t (e_bytes e)
             (put_entry k (e\<lparr>e_task := t, e_terminal_at := Some now,
                             e_notified := Suc (e_notified e)\<rparr>) s)
      else put_entry k (e\<lparr>e_task := t\<rparr>) s)"

definition transition ::
  "datetime \<Rightarrow> task_id \<Rightarrow> task_status \<Rightarrow> string option \<Rightarrow> task_store \<Rightarrow>
   task_store \<times> (task_error + task)" where
  "transition now k new_status reason s =
     (case map_of (s_tasks s) k of
        None \<Rightarrow> (s, Inl (TE_NotFound k))
      | Some e \<Rightarrow>
          (case task_transition now new_status reason (e_task e) of
             Inl err \<Rightarrow> (s, Inl err)
           | Inr t \<Rightarrow> (settle now k e t s, Inr t)))"

definition transition_if ::
  "datetime \<Rightarrow> task_id \<Rightarrow> task_status \<Rightarrow> task_status \<Rightarrow> string option \<Rightarrow> task_store \<Rightarrow>
   task_store \<times> (task_error + task)" where
  "transition_if now k expected new_status reason s =
     (case map_of (s_tasks s) k of
        None \<Rightarrow> (s, Inl (TE_NotFound k))
      | Some e \<Rightarrow>
          (case task_transition_if now expected new_status reason (e_task e) of
             Inl err \<Rightarrow> (s, Inl err)
           | Inr t \<Rightarrow> (settle now k e t s, Inr t)))"

definition decision_transition :: "approval_decision \<Rightarrow> task_status \<times> string option" where
  "decision_transition decision =
     (case decision of
        AD_Approved \<Rightarrow> (Executing, Some ''Approved'')
      | AD_Rejected why \<Rightarrow> (Rejected, case why of Some w \<Rightarrow> Some w | None \<Rightarrow> Some ''Rejected''))"

definition approval_of ::
  "ext \<Rightarrow> datetime \<Rightarrow> approval_decision \<Rightarrow> string \<Rightarrow> duration \<Rightarrow> approval_record" where
  "approval_of E now decision decided_by valid_for =
     \<lparr>a_decision = decision, a_decided_by = decided_by, a_decided_at = now,
      a_valid_until = now + (case x_from_std E valid_for of Some d \<Rightarrow> d | None \<Rightarrow> 0),
      a_metadata = None\<rparr>"

definition record_approval ::
  "ext \<Rightarrow> datetime \<Rightarrow> task_id \<Rightarrow> approval_decision \<Rightarrow> string \<Rightarrow> duration \<Rightarrow> task_store \<Rightarrow>
   task_store \<times> (task_error + task)" where
  "record_approval E now k decision decided_by valid_for s =
     (case map_of (s_tasks s) k of
        None \<Rightarrow> (s, Inl (TE_NotFound k))
      | Some e \<Rightarrow>
          if t_status (e_task e) \<noteq> InputRequired
          then (s, Inl (TE_ConcurrentModification k InputRequired (t_status (e_task e))))
          else
            let t1 = (e_task e)\<lparr>t_approval :=
                        Some (approval_of E now decision decided_by valid_for)\<rparr>
            in case task_transition now (fst (decision_transition decision))
                      (snd (decision_transition decision)) t1 of
                 Inl err \<Rightarrow> (put_entry k (e\<lparr>e_task := t1\<rparr>) s, Inl err)
               | Inr t \<Rightarrow> (settle now k e t s, Inr t))"

definition complete ::
  "datetime \<Rightarrow> task_id \<Rightarrow> tool_call_result \<Rightarrow> task_store \<Rightarrow> task_store \<times> (task_error + task)" where
  "complete now k result s =
     (case map_of (s_tasks s) k of
        None \<Rightarrow> (s, Inl (TE_NotFound k))
      | Some e \<Rightarrow>
          if t_status (e_task e) \<noteq> Executing
          then (s, Inl (TE_ConcurrentModification k Executing (t_status (e_task e))))
          else
            let t1 = (e_task e)\<lparr>t_result := Some result\<rparr> in
            case task_transition now Completed (Some ''Execution completed'') t1 of
              Inl err \<Rightarrow> (put_entry k (e\<lparr>e_task := t1\<rparr>) s, Inl err)
            | Inr t \<Rightarrow> (settle now k e t s, Inr t))"

definition auto_approve_reason :: string where
  "auto_approve_reason = ''Auto-approved after expiration; executed successfully''"

definition record_auto_approve_result ::
  "datetime \<Rightarrow> task_id \<Rightarrow> tool_call_result \<Rightarrow> approval_record \<Rightarrow> task_store \<Rightarrow>
   task_store \<times> (task_error + unit)" where
  "record_auto_approve_result now k result approval s =
     (case map_of (s_tasks s) k of
        None \<Rightarrow> (s, Inl (TE_NotFound k))
      | Some e \<Rightarrow>
          let t = e_task e;
              t' = t\<lparr>t_result := Some result, t_approval := Some approval,
                     t_transitions := t_transitions t @
                       [\<lparr>tr_from = Expired, tr_to = Expired, tr_at = now,
                         tr_reason = Some auto_approve_reason\<rparr>]\<rparr>
          in (put_entry k (e\<lparr>e_task := t'\<rparr>) s, Inr ()))"

definition fail_task ::
  "datetime \<Rightarrow> task_id \<Rightarrow> failure_info \<Rightarrow> task_store \<Rightarrow> task_store \<times> (task_error + task)" where
  "fail_task now k failure s =
     (case map_of (s_tasks s) k of
        None \<Rightarrow> (s, Inl (TE_NotFound k))
      | Some e \<Rightarrow>
          if is_terminal (t_status (e_task e))
          then (s, Inl (TE_AlreadyTerminal k (t_status (e_task e))))
          else
            let t1 = (e_task e)\<lparr>t_failure := Some failure\<rparr> in
            case task_transition now Failed (Some (f_reason failure)) t1 of
              Inl err \<Rightarrow> (put_entry k (e\<lparr>e_task := t1\<rparr>) s, Inl err)
            | Inr t \<Rightarrow> (settle now k e t s, Inr t))"

definition cancel :: "datetime \<Rightarrow> task_id \<Rightarrow> task_store \<Rightarrow> task_store \<times> (task_error + task)" where
  "cancel now k s =
     (case map_of (s_tasks s) k of
        None \<Rightarrow> (s, Inl (TE_NotFound k))
      | Some e \<Rightarrow>
          let st = t_status (e_task e) in
          if st \<noteq> InputRequired then
            (if is_terminal st then
               (if st = Cancelled then (s, Inr (e_task e))
                else (s, Inl (TE_AlreadyTerminal k st)))
             else (s, Inl (TE_InvalidTransition k st Cancelled)))
          else
            case task_transition now Cancelled (Some ''Cancelled by agent'') (e_task e) of
              Inl err \<Rightarrow> (s, Inl err)
            | Inr t \<Rightarrow> (settle now k e t s, Inr t))"

text \<open>\<open>expire_overdue\<close>: the identifiers are collected first, then expired one by one.\<close>

definition overdue_ids :: "datetime \<Rightarrow> task_store \<Rightarrow> task_id list" where
  "overdue_ids now s =
     map (\<lambda>(k, e). t_id (e_task e))
       (filter (\<lambda>(k, e). \<not> is_terminal (t_status (e_task e)) \<and> now > t_expires_at (e_task e))
         (s_tasks s))"

definition record_completed :: "string \<Rightarrow> string \<Rightarrow> task_store \<Rightarrow> task_store" where
  "record_completed kind outcome s =
     s\<lparr>s_metrics := map_option (\<lambda>m. m\<lparr>m_completed := m_completed m @ [(kind, outcome)]\<rparr>)
                      (s_metrics s)\<rparr>"

definition expire_one :: "datetime \<Rightarrow> task_store \<times> nat \<Rightarrow> task_id \<Rightarrow> task_store \<times> nat" where
  "expire_one now acc k =
     (let (s, n) = acc in
      case map_of (s_tasks s) k of
        None \<Rightarrow> (s, n)
      | Some e \<Rightarrow>
          if \<not> is_terminal (t_status (e_task e)) \<and> now > t_expires_at (e_task e) then
            (case task_transition now Expired (Some ''TTL exceeded'') (e_task e) of
               Inl err \<Rightarrow> (s, n)
             | Inr t \<Rightarrow> (record_completed ''approval'' ''expired'' (settle now k e t s), Suc n))
          else (s, n))"

definition expire_overdue :: "datetime \<Rightarrow> task_store \<Rightarrow> task_store \<times> nat" where
  "expire_overdue now s = foldl (expire_one now) (s, 0) (overdue_ids now s)"

definition drop_from_index :: "string \<Rightarrow> task_id \<Rightarrow> (string \<times> task_id list) list \<Rightarrow>
  (string \<times> task_id list) list" where
  "drop_from_index key k al =
     (case map_of al key of
        None \<Rightarrow> al
      | Some ids \<Rightarrow>
          let ids' = filter (\<lambda>i. i \<noteq> k) ids in
          if ids' = [] then AList.delete key al else AList.update key ids' al)"

definition remove_task :: "task_store \<Rightarrow> task_id \<Rightarrow> task_store" where
  "remove_task s k =
     (case map_of (s_tasks s) k of
        None \<Rightarrow> s
      | Some e \<Rightarrow> s\<lparr>s_tasks := AList.delete k (s_tasks s),
                    s_by_principal := drop_from_index (rate_limit_key (t_principal (e_task e))) k
                                        (s_by_principal s)\<rparr>)"

definition removable_ids :: "ext \<Rightarrow> datetime \<Rightarrow> task_store \<Rightarrow> task_id list" where
  "removable_ids E now s =
     (let grace = (case x_from_std E (c_terminal_grace_period (s_config s)) of
                     Some d \<Rightarrow> d | None \<Rightarrow> 0)
      in map (\<lambda>(k, e). t_id (e_task e))
           (filter (\<lambda>(k, e). case e_terminal_at e of
                               Some at \<Rightarrow> now - at > grace | None \<Rightarrow> False) (s_tasks s)))"

definition cleanup_terminal :: "ext \<Rightarrow> datetime \<Rightarrow> task_store \<Rightarrow> task_store \<times> nat" where
  "cleanup_terminal E now s =
     (let ids = removable_ids E now s in (foldl remove_task s ids, length ids))"

definition list_for_principal :: "principal \<Rightarrow> nat \<Rightarrow> nat \<Rightarrow> task_store \<Rightarrow> task list" where
  "list_for_principal princ offset limit s =
     (case map_of (s_by_principal s) (rate_limit_key princ) of
        None \<Rightarrow> []
      | Some ids \<Rightarrow>
          let tasks = List.map_filter (\<lambda>i. map_option e_task (map_of (s_tasks s) i)) ids
          in take limit (drop offset (sort_key (\<lambda>t. - t_created_at t) tasks)))"

definition shutdown_failure :: "string \<Rightarrow> failure_info" where
  "shutdown_failure reason =
     \<lparr>f_stage = ServiceShutdown, f_reason = reason, f_retriable = True\<rparr>"

definition pending_ids :: "task_store \<Rightarrow> task_id list" where
  "pending_ids s =
     map (\<lambda>(k, e). t_id (e_task e))
       (filter (\<lambda>(k, e). \<not> is_terminal (t_status (e_task e))) (s_tasks s))"

definition fail_one :: "datetime \<Rightarrow> failure_info \<Rightarrow> task_store \<times> nat \<Rightarrow> task_id \<Rightarrow> task_store \<times> nat" where
  "fail_one now failure acc k =
     (let (s, n) = acc; (s', r) = fail_task now k failure s
      in (s', case r of Inl _ \<Rightarrow> n | Inr _ \<Rightarrow> Suc n))"

definition fail_all_pending :: "datetime \<Rightarrow> string \<Rightarrow> task_store \<Rightarrow> task_store \<times> nat" where
  "fail_all_pending now reason s =
     foldl (fail_one now (shutdown_failure reason)) (s, 0) (pending_ids s)"

end
