(* ===== verification/Task_Store_Inv.thy ===== *)
theory Task_Store_Inv
  imports Task_Store
begin

text \<open>
  The invariant of the task store and its preservation by every operation: the counters equal
  totals over the table of tasks (through the contract \<open>keyed_total\<close>), the limits of the
  configuration hold, the principal index and the table describe the same tasks, and every task
  carries a valid audit trail.
\<close>

section \<open>The invariant\<close>

definition pend :: "task_entry \<Rightarrow> nat" where
  "pend e = (if is_terminal (t_status (e_task e)) then 0 else 1)"

definition pend_key :: "string \<Rightarrow> task_entry \<Rightarrow> nat" where
  "pend_key key e =
     (if \<not> is_terminal (t_status (e_task e)) \<and> rate_limit_key (t_principal (e_task e)) = key
      then 1 else 0)"

definition pend_bytes :: "task_entry \<Rightarrow> nat" where
  "pend_bytes e = (if is_terminal (t_status (e_task e)) then 0 else e_bytes e)"

definition entry_ok :: "task_id \<Rightarrow> task_entry \<Rightarrow> bool" where
  "entry_ok k e \<longleftrightarrow> t_id (e_task e) = k \<and> task_wf (e_task e) \<and>
     (e_terminal_at e \<noteq> None \<longleftrightarrow> is_terminal (t_status (e_task e))) \<and>
     (is_terminal (t_status (e_task e)) \<longrightarrow> 0 < e_notified e)"

definition entries_ok :: "task_store \<Rightarrow> bool" where
  "entries_ok s \<longleftrightarrow> keys_distinct (s_tasks s) \<and>
     (\<forall>k e. map_of (s_tasks s) k = Some e \<longrightarrow> entry_ok k e)"

definition counters_ok :: "task_store \<Rightarrow> bool" where
  "counters_ok s \<longleftrightarrow> keys_distinct (s_pending_by_principal s) \<and>
     s_pending_count s = wsum pend (s_tasks s) \<and>
     (\<forall>key. principal_count s key = wsum (pend_key key) (s_tasks s)) \<and>
     s_pending_bytes s = wsum pend_bytes (s_tasks s)"

definition limits_ok :: "task_store \<Rightarrow> bool" where
  "limits_ok s \<longleftrightarrow> s_pending_count s \<le> c_max_pending_global (s_config s) \<and>
     (\<forall>key. principal_count s key \<le> c_max_pending_per_principal (s_config s)) \<and>
     s_pending_bytes s \<le> c_max_pending_bytes (s_config s)"

definition index_ok :: "task_store \<Rightarrow> bool" where
  "index_ok s \<longleftrightarrow> keys_distinct (s_by_principal s) \<and>
     (\<forall>key ids. map_of (s_by_principal s) key = Some ids \<longrightarrow> ids \<noteq> [] \<and> distinct ids \<and>
        (\<forall>i\<in>set ids. \<exists>e. map_of (s_tasks s) i = Some e \<and>
            rate_limit_key (t_principal (e_task e)) = key)) \<and>
     (\<forall>k e. map_of (s_tasks s) k = Some e \<longrightarrow>
        (\<exists>ids. map_of (s_by_principal s) (rate_limit_key (t_principal (e_task e))) = Some ids \<and>
               k \<in> set ids))"

definition gauge_ok :: "task_store \<Rightarrow> bool" where
  "gauge_ok s \<longleftrightarrow> (\<forall>m. s_metrics s = Some m \<longrightarrow> m_tasks_pending m = s_pending_count s)"

text \<open>Counter limits are machine integers; the bounds of the time to live are ordered.\<close>

definition config_ok :: "store_config \<Rightarrow> bool" where
  "config_ok cfg \<longleftrightarrow> c_max_pending_global cfg < usize_mod \<and>
     c_max_pending_per_principal cfg < usize_mod \<and> c_max_pending_bytes cfg < usize_mod \<and>
     c_min_ttl cfg \<le> c_max_ttl cfg"

definition store_inv :: "task_store \<Rightarrow> bool" where
  "store_inv s \<longleftrightarrow> config_ok (s_config s) \<and> entries_ok s \<and> counters_ok s \<and> limits_ok s \<and>
     index_ok s \<and> gauge_ok s"

lemma store_inv_new: "config_ok cfg \<Longrightarrow> store_inv (store_new cfg)"
  by (simp add: store_inv_def store_new_def entries_ok_def counters_ok_def limits_ok_def index_ok_def
      gauge_ok_def principal_count_def)

lemma store_inv_with_metrics: "config_ok cfg \<Longrightarrow> store_inv (store_with_metrics cfg)"
  by (simp add: store_inv_def store_with_metrics_def entries_ok_def counters_ok_def limits_ok_def
      index_ok_def gauge_ok_def principal_count_def)

lemma entry_ofD: "store_inv s \<Longrightarrow> map_of (s_tasks s) k = Some e \<Longrightarrow> entry_ok k e"
  by (simp add: store_inv_def entries_ok_def)

section \<open>Replacing one entry\<close>

text \<open>Two versions of one entry that count alike and index alike.\<close>

definition same_slot :: "task_entry \<Rightarrow> task_entry \<Rightarrow> bool" where
  "same_slot e e' \<longleftrightarrow> t_principal (e_task e') = t_principal (e_task e) \<and> e_bytes e' = e_bytes e"

lemma put_entry_simps [simp]:
  "s_config (put_entry k e s) = s_config s"
  "s_by_principal (put_entry k e s) = s_by_principal s"
  "s_pending_count (put_entry k e s) = s_pending_count s"
  "s_pending_by_principal (put_entry k e s) = s_pending_by_principal s"
  "s_pending_bytes (put_entry k e s) = s_pending_bytes s"
  "s_metrics (put_entry k e s) = s_metrics s"
  "s_tasks (put_entry k e s) = AList.update k e (s_tasks s)"
  "principal_count (put_entry k e s) = principal_count s"
  by (simp_all add: put_entry_def principal_count_def fun_eq_iff)

lemma entries_ok_put:
  "entries_ok s \<Longrightarrow> entry_ok k e \<Longrightarrow> entries_ok (put_entry k e s)"
  by (simp add: entries_ok_def AList.distinct_update AList.update_conv')

lemma index_okD:
  assumes "index_ok s"
  shows "keys_distinct (s_by_principal s)"
    and "map_of (s_by_principal s) key = Some ids \<Longrightarrow> ids \<noteq> [] \<and> distinct ids"
    and "map_of (s_by_principal s) key = Some ids \<Longrightarrow> i \<in> set ids \<Longrightarrow>
           \<exists>e. map_of (s_tasks s) i = Some e \<and> rate_limit_key (t_principal (e_task e)) = key"
    and "map_of (s_tasks s) k = Some e \<Longrightarrow>
           \<exists>ids. map_of (s_by_principal s) (rate_limit_key (t_principal (e_task e))) = Some ids \<and>
               k \<in> set ids"
  using assms unfolding index_ok_def by blast+

lemma index_okI:
  assumes "keys_distinct (s_by_principal s)"
    and "\<And>key ids. map_of (s_by_principal s) key = Some ids \<Longrightarrow> ids \<noteq> [] \<and> distinct ids"
    and "\<And>key ids i. map_of (s_by_principal s) key = Some ids \<Longrightarrow> i \<in> set ids \<Longrightarrow>
           \<exists>e. map_of (s_tasks s) i = Some e \<and> rate_limit_key (t_principal (e_task e)) = key"
    and "\<And>k e. map_of (s_tasks s) k = Some e \<Longrightarrow>
           \<exists>ids. map_of (s_by_principal s) (rate_limit_key (t_principal (e_task e))) = Some ids \<and>
               k \<in> set ids"
  shows "index_ok s"
  using assms unfolding index_ok_def by blast

lemma index_ok_put:
  assumes idx: "index_ok s" and old: "map_of (s_tasks s) k = Some e" and slot: "same_slot e e'"
  shows "index_ok (put_entry k e' s)"
proof (rule index_okI, unfold put_entry_simps)
  show "keys_distinct (s_by_principal s)" by (rule index_okD(1) [OF idx])
  show "ids \<noteq> [] \<and> distinct ids" if "map_of (s_by_principal s) key = Some ids" for key ids
    using that by (rule index_okD(2) [OF idx])
  show "\<exists>e. map_of (AList.update k e' (s_tasks s)) i = Some e \<and>
            rate_limit_key (t_principal (e_task e)) = key"
    if "map_of (s_by_principal s) key = Some ids" "i \<in> set ids" for key ids i
    using index_okD(3) [OF idx that] old slot
    by (cases "i = k") (auto simp: AList.update_conv' same_slot_def)
  show "\<exists>ids. map_of (s_by_principal s) (rate_limit_key (t_principal (e_task x))) = Some ids \<and>
               i \<in> set ids"
    if "map_of (AList.update k e' (s_tasks s)) i = Some x" for i x
  proof (cases "i = k")
    case True
    with that have "x = e'" by (simp add: AList.update_conv')
    then show ?thesis using index_okD(4) [OF idx old] slot True by (simp add: same_slot_def)
  next
    case False
    with that have "map_of (s_tasks s) i = Some x" by (simp add: AList.update_conv')
    then show ?thesis by (rule index_okD(4) [OF idx])
  qed
qed

lemma store_inv_keep:
  assumes inv: "store_inv s" and old: "map_of (s_tasks s) k = Some e"
    and slot: "same_slot e e'" and ok: "entry_ok k e'"
    and st: "is_terminal (t_status (e_task e')) = is_terminal (t_status (e_task e))"
  shows "store_inv (put_entry k e' s)"
proof -
  have kd: "keys_distinct (s_tasks s)"
    using inv by (simp add: store_inv_def entries_ok_def)
  have w: "pend e' = pend e" "pend_key key e' = pend_key key e" "pend_bytes e' = pend_bytes e" for key
    using st slot by (simp_all add: pend_def pend_key_def pend_bytes_def same_slot_def)
  have tot: "wsum f (AList.update k e' (s_tasks s)) = wsum f (s_tasks s)" if "f e' = f e" for f
    using alist.total_keep [OF kd old, of f e'] that by simp
  show ?thesis
    using inv entries_ok_put [OF _ ok, of s] index_ok_put [OF _ old slot]
    by (auto simp: store_inv_def counters_ok_def limits_ok_def gauge_ok_def tot w)
qed

section \<open>Releasing the counters of an entry\<close>

lemma set_gauge_simps [simp]:
  "s_config (set_gauge n s) = s_config s" "s_tasks (set_gauge n s) = s_tasks s"
  "s_by_principal (set_gauge n s) = s_by_principal s"
  "s_pending_count (set_gauge n s) = s_pending_count s"
  "s_pending_by_principal (set_gauge n s) = s_pending_by_principal s"
  "s_pending_bytes (set_gauge n s) = s_pending_bytes s"
  "principal_count (set_gauge n s) = principal_count s"
  "s_metrics (set_gauge n s) = map_option (\<lambda>m. m\<lparr>m_tasks_pending := n\<rparr>) (s_metrics s)"
  by (simp_all add: set_gauge_def principal_count_def fun_eq_iff)

lemma decrement_principal_spec:
  assumes kd: "keys_distinct al" and n: "map_of al key = Some n" and pos: "0 < n"
    and small: "n < usize_mod"
  shows "keys_distinct (decrement_principal key al)"
    and "(case map_of (decrement_principal key al) key of None \<Rightarrow> 0 | Some m \<Rightarrow> m) = n - 1"
    and "k' \<noteq> key \<Longrightarrow> map_of (decrement_principal key al) k' = map_of al k'"
proof -
  have "wsub n 1 = n - 1" using pos small by (simp add: wsub_small)
  then show "keys_distinct (decrement_principal key al)"
    and "(case map_of (decrement_principal key al) key of None \<Rightarrow> 0 | Some m \<Rightarrow> m) = n - 1"
    and "k' \<noteq> key \<Longrightarrow> map_of (decrement_principal key al) k' = map_of al k'"
    using kd n by (auto simp: decrement_principal_def Let_def AList.update_conv' AList.delete_conv'
        AList.distinct_update AList.distinct_delete)
qed

lemma store_inv_retire:
  assumes inv: "store_inv s" and old: "map_of (s_tasks s) k = Some e"
    and slot: "same_slot e e'" and ok: "entry_ok k e'"
    and live: "\<not> is_terminal (t_status (e_task e))"
    and dead: "is_terminal (t_status (e_task e'))"
    and b: "bytes = e_bytes e"
  shows "store_inv (decrement_pending_counters (e_task e') bytes (put_entry k e' s))"
proof -
  let ?key = "rate_limit_key (t_principal (e_task e'))"
  let ?s' = "decrement_pending_counters (e_task e') bytes (put_entry k e' s)"
  from inv have cfg: "config_ok (s_config s)" and ent: "entries_ok s" and cnt: "counters_ok s"
    and lim: "limits_ok s" and idx: "index_ok s" and gau: "gauge_ok s"
    by (simp_all add: store_inv_def)
  have kd: "keys_distinct (s_tasks s)" using ent by (simp add: entries_ok_def)
  have key: "?key = rate_limit_key (t_principal (e_task e))" using slot by (simp add: same_slot_def)
  have w0: "pend e' = 0" "pend_key x e' = 0" "pend_bytes e' = 0" for x
    using dead by (simp_all add: pend_def pend_key_def pend_bytes_def)
  have w1: "pend e = 1" "pend_key x e = (if x = ?key then 1 else 0)" "pend_bytes e = bytes" for x
    using live b key by (auto simp: pend_def pend_key_def pend_bytes_def)
  have tot: "wsum f (AList.update k e' (s_tasks s)) = wsum f (s_tasks s) - f e" if "f e' = 0" for f
    using alist.total_retire [OF kd old, of f e'] that by simp
  have le: "f e \<le> wsum f (s_tasks s)" for f
    using alist.row_le_total [OF kd old, of f] .
  have cnt1: "1 \<le> s_pending_count s" "s_pending_count s < usize_mod"
    using cnt lim cfg le [of pend] w1 by (auto simp: counters_ok_def limits_ok_def config_ok_def)
  have bts: "bytes \<le> s_pending_bytes s" "s_pending_bytes s < usize_mod"
    using cnt lim cfg le [of pend_bytes] w1
    by (auto simp: counters_ok_def limits_ok_def config_ok_def)
  have pk: "1 \<le> principal_count s ?key" "principal_count s ?key < usize_mod"
    using cnt lim cfg le [of "pend_key ?key"] w1
    by (auto simp: counters_ok_def limits_ok_def config_ok_def intro: le_less_trans)
  then obtain n where n: "map_of (s_pending_by_principal s) ?key = Some n" "0 < n" "n < usize_mod"
    "principal_count s ?key = n"
    by (auto simp: principal_count_def split: option.splits)
  have kdp: "keys_distinct (s_pending_by_principal s)" using cnt by (simp add: counters_ok_def)
  note dp = decrement_principal_spec [OF kdp n(1-3)]
  have sc: "s_pending_count ?s' = s_pending_count s - 1"
    "s_pending_bytes ?s' = s_pending_bytes s - bytes"
    "s_pending_by_principal ?s' = decrement_principal ?key (s_pending_by_principal s)"
    "s_tasks ?s' = AList.update k e' (s_tasks s)" "s_config ?s' = s_config s"
    "s_by_principal ?s' = s_by_principal s"
    using cnt1 bts by (simp_all add: decrement_pending_counters_def Let_def wsub_small)
  have pc: "principal_count ?s' x = principal_count s x - (if x = ?key then 1 else 0)" for x
    using dp(2) dp(3) [of x] n(4) sc(3)
    by (cases "x = ?key") (simp_all add: principal_count_def)
  have "counters_ok ?s'"
    using cnt dp(1) by (simp add: counters_ok_def sc pc tot w0 w1)
  moreover have "limits_ok ?s'"
    using lim by (auto simp: limits_ok_def sc pc intro: le_trans [OF diff_le_self])
  moreover have "entries_ok ?s'"
    using entries_ok_put [OF ent ok] by (simp add: entries_ok_def sc)
  moreover have "index_ok ?s'"
    using index_ok_put [OF idx old slot] unfolding index_ok_def put_entry_simps sc .
  moreover have "gauge_ok ?s'"
    using sc(1) by (auto simp: gauge_ok_def decrement_pending_counters_def Let_def)
  ultimately show ?thesis using cfg by (simp add: store_inv_def sc)
qed

section \<open>Operations on one entry\<close>

lemma entry_ok_settled:
  assumes "entry_ok k e" and "task_wf t" and "t_id t = t_id (e_task e)"
  shows "is_terminal (t_status t) \<Longrightarrow>
           entry_ok k (e\<lparr>e_task := t, e_terminal_at := Some now, e_notified := Suc (e_notified e)\<rparr>)"
    and "is_terminal (t_status t) = is_terminal (t_status (e_task e)) \<Longrightarrow> entry_ok k (e\<lparr>e_task := t\<rparr>)"
  using assms by (auto simp: entry_ok_def)

lemma settle_inv:
  assumes inv: "store_inv s" and old: "map_of (s_tasks s) k = Some e"
    and wf: "task_wf t" and same: "same_request (e_task e) t"
    and live: "\<not> is_terminal (t_status (e_task e))"
  shows "store_inv (settle now k e t s)"
proof -
  have ok: "entry_ok k e" using inv old by (rule entry_ofD)
  have id: "t_id t = t_id (e_task e)" "t_principal t = t_principal (e_task e)"
    using same by (simp_all add: same_request_def)
  note eok = entry_ok_settled [OF ok wf id(1)]
  show ?thesis
  proof (cases "is_terminal (t_status t)")
    case True
    let ?e' = "e\<lparr>e_task := t, e_terminal_at := Some now, e_notified := Suc (e_notified e)\<rparr>"
    have "store_inv (decrement_pending_counters (e_task ?e') (e_bytes e) (put_entry k ?e' s))"
      using inv old True live eok(1) id by (intro store_inv_retire) (auto simp: same_slot_def)
    with True live show ?thesis by (simp add: settle_def)
  next
    case False
    have "store_inv (put_entry k (e\<lparr>e_task := t\<rparr>) s)"
      using inv old False live eok(2) id by (intro store_inv_keep) (auto simp: same_slot_def)
    with False show ?thesis by (simp add: settle_def)
  qed
qed

text \<open>An update of the task's own data that leaves status, trail and identity alone.\<close>

lemma store_inv_note:
  assumes "store_inv s" and "map_of (s_tasks s) k = Some e"
    and "t_status t = t_status (e_task e)" and "task_wf t" and "same_request (e_task e) t"
  shows "store_inv (put_entry k (e\<lparr>e_task := t\<rparr>) s)"
proof (rule store_inv_keep [OF assms(1,2)])
  show "same_slot e (e\<lparr>e_task := t\<rparr>)"
    using assms(5) by (simp add: same_slot_def same_request_def)
  show "entry_ok k (e\<lparr>e_task := t\<rparr>)"
    using entry_ofD [OF assms(1,2)] assms(3-5) by (simp add: entry_ok_def same_request_def)
  show "is_terminal (t_status (e_task (e\<lparr>e_task := t\<rparr>))) = is_terminal (t_status (e_task e))"
    using assms(3) by simp
qed

lemma transition_settle_inv:
  assumes inv: "store_inv s" and old: "map_of (s_tasks s) k = Some e"
    and tr: "task_transition now st reason t1 = Inr t"
    and t1: "t_status t1 = t_status (e_task e)" "t_transitions t1 = t_transitions (e_task e)"
      "same_request (e_task e) t1"
  shows "store_inv (settle now k e t s)"
proof -
  note f = task_transition_Inr [OF tr]
  have "task_wf t1"
    using entry_ofD [OF inv old] t1 by (simp add: entry_ok_def task_wf_def)
  then have "task_wf t" using tr by (rule task_transition_wf)
  moreover have "same_request (e_task e) t" using t1(3) f(4) by (rule same_request_trans)
  moreover have "\<not> is_terminal (t_status (e_task e))" using f(2) t1(1) by simp
  ultimately show ?thesis using inv old by (intro settle_inv)
qed

lemma transition_inv: "store_inv s \<Longrightarrow> store_inv (fst (transition now k st reason s))"
  by (auto simp: transition_def split: option.splits sum.splits intro: transition_settle_inv)

lemma transition_if_inv: "store_inv s \<Longrightarrow> store_inv (fst (transition_if now k ex st reason s))"
  by (auto simp: transition_if_def task_transition_if_def split: option.splits sum.splits if_splits
      intro: transition_settle_inv)

lemma cancel_inv: "store_inv s \<Longrightarrow> store_inv (fst (cancel now k s))"
  by (auto simp: cancel_def Let_def split: option.splits sum.splits intro: transition_settle_inv)

text \<open>
  The operations that write a field before they transition: if the transition is refused the
  field stays written, and the invariant holds in either case.
\<close>

lemma noted_transition_inv:
  assumes "store_inv s" and "map_of (s_tasks s) k = Some e"
    and "t_status t1 = t_status (e_task e)" and "t_transitions t1 = t_transitions (e_task e)"
    and "same_request (e_task e) t1"
  shows "store_inv (fst (case task_transition now st reason t1 of
             Inl err \<Rightarrow> (put_entry k (e\<lparr>e_task := t1\<rparr>) s, Inl err)
           | Inr t \<Rightarrow> (settle now k e t s, Inr t)))"
proof (cases "task_transition now st reason t1")
  case (Inl err)
  have "task_wf t1"
    using entry_ofD [OF assms(1,2)] assms(3,4) by (simp add: entry_ok_def task_wf_def)
  then show ?thesis using Inl store_inv_note [OF assms(1,2,3) _ assms(5)] by simp
next
  case (Inr t)
  then show ?thesis using transition_settle_inv [OF assms(1,2) Inr assms(3-5)] by simp
qed

lemma complete_inv: "store_inv s \<Longrightarrow> store_inv (fst (complete now k r s))"
  unfolding complete_def Let_def
  by (auto split: option.splits intro!: noted_transition_inv simp: same_request_def)

lemma fail_task_inv: "store_inv s \<Longrightarrow> store_inv (fst (fail_task now k f s))"
  unfolding fail_task_def Let_def
  by (auto split: option.splits intro!: noted_transition_inv simp: same_request_def)

lemma record_approval_inv: "store_inv s \<Longrightarrow> store_inv (fst (record_approval E now k d by vf s))"
  unfolding record_approval_def Let_def
  by (auto split: option.splits intro!: noted_transition_inv simp: same_request_def)

lemma record_auto_approve_result_inv:
  assumes inv: "store_inv s"
    and exp: "\<And>e. map_of (s_tasks s) k = Some e \<Longrightarrow> t_status (e_task e) = Expired"
  shows "store_inv (fst (record_auto_approve_result now k r a s))"
proof (cases "map_of (s_tasks s) k")
  case None
  then show ?thesis using inv by (simp add: record_auto_approve_result_def)
next
  case (Some e)
  then have "t_status (e_task e) = Expired" "task_wf (e_task e)"
    using exp entry_ofD [OF inv Some] by (simp_all add: entry_ok_def)
  then show ?thesis using Some inv
    by (auto simp: record_auto_approve_result_def Let_def task_wf_def trail_snoc same_request_def
        intro!: store_inv_note)
qed

section \<open>Creation\<close>

text \<open>What a creation may assume: the identifier is new and the sizes fit a machine word.\<close>

definition create_ok :: "ext \<Rightarrow> task_id \<Rightarrow> tool_call_request \<Rightarrow> task_store \<Rightarrow> bool" where
  "create_ok E new_id original s \<longleftrightarrow> map_of (s_tasks s) new_id = None \<and>
     (case x_to_string E (r_arguments original) of None \<Rightarrow> 200 | Some str \<Rightarrow> length str) + 200 +
       c_max_pending_bytes (s_config s) < usize_mod"

lemma store_inv_frame:
  assumes inv: "store_inv s" and "s_config s' = s_config s" and "s_tasks s' = s_tasks s"
    and "s_by_principal s' = s_by_principal s" and "s_pending_count s' = s_pending_count s"
    and "s_pending_bytes s' = s_pending_bytes s" and "keys_distinct (s_pending_by_principal s')"
    and "principal_count s' = principal_count s" and "gauge_ok s'"
  shows "store_inv s'"
proof -
  have "entries_ok s' = entries_ok s" "index_ok s' = index_ok s" "limits_ok s' = limits_ok s"
    using assms by (simp_all add: entries_ok_def index_ok_def limits_ok_def)
  moreover have "counters_ok s \<Longrightarrow> counters_ok s'"
    using assms by (simp add: counters_ok_def)
  ultimately show ?thesis using assms by (simp add: store_inv_def)
qed

lemma store_inv_same_counts:
  assumes inv: "store_inv s" and kd: "keys_distinct pbp"
    and pc: "\<And>key. (case map_of pbp key of None \<Rightarrow> 0 | Some n \<Rightarrow> n) = principal_count s key"
  shows "store_inv (s\<lparr>s_pending_by_principal := pbp\<rparr>)"
proof -
  have "gauge_ok s" using inv by (simp add: store_inv_def)
  then show ?thesis
    by (intro store_inv_frame [OF inv]) (simp_all add: kd pc gauge_ok_def principal_count_def fun_eq_iff)
qed

lemma principal_count_upd [simp]:
  "principal_count (s\<lparr>s_pending_count := n\<rparr>) = principal_count s"
  by (simp add: principal_count_def fun_eq_iff)

lemma rollback_reserve:
  assumes "s_pending_count s < c_max_pending_global (s_config s)" and inv: "store_inv s"
  shows "rollback key (reserve key s) =
    s\<lparr>s_pending_by_principal :=
        AList.update key (principal_count s key) (s_pending_by_principal s)\<rparr>"
proof -
  have small: "s_pending_count s + 1 < usize_mod" "principal_count s key < usize_mod"
    using assms by (auto simp: store_inv_def config_ok_def limits_ok_def intro: le_less_trans)
  have "wsub (wadd (s_pending_count s) 1) 1 = s_pending_count s"
    using small by (simp add: wsub_wadd_cancel)
  moreover have "wsub (wadd (principal_count s key) 1) 1 = principal_count s key"
  proof (cases "principal_count s key + 1 < usize_mod")
    case True
    then show ?thesis by (rule wsub_wadd_cancel)
  next
    case False
    with small have "principal_count s key + 1 = usize_mod" by simp
    then show ?thesis by (simp add: wadd_def wsub_def usize_mod_def)
  qed
  ultimately show ?thesis
    by (simp add: rollback_def reserve_def set_principal_count_def principal_count_def Let_def
        AList.update_conv')
qed

lemma rollback_reserve_inv:
  assumes inv: "store_inv s" and "s_pending_count s < c_max_pending_global (s_config s)"
  shows "store_inv (rollback key (reserve key s))"
proof -
  have "keys_distinct (s_pending_by_principal s)"
    using inv by (simp add: store_inv_def counters_ok_def)
  then show ?thesis
    unfolding rollback_reserve [OF assms(2,1)]
    by (intro store_inv_same_counts inv)
      (auto simp: AList.distinct_update AList.update_conv' principal_count_def)
qed

lemma index_ok_insert:
  assumes idx: "index_ok s" and new: "map_of (s_tasks s) k = None"
    and key: "rate_limit_key (t_principal (e_task e)) = key"
    and bp: "s_by_principal s' = s_by_principal (insert_entry k e key s)"
    and ts: "s_tasks s' = AList.update k e (s_tasks s)"
  shows "index_ok s'"
proof -
  let ?old = "case map_of (s_by_principal s) key of None \<Rightarrow> [] | Some l \<Rightarrow> l"
  have bp': "s_by_principal s' = AList.update key (?old @ [k]) (s_by_principal s)"
    using bp by (simp add: insert_entry_def Let_def)
  have mem: "\<exists>e. map_of (s_tasks s) i = Some e \<and> rate_limit_key (t_principal (e_task e)) = key"
    if "i \<in> set ?old" for i
    using that index_okD(3) [OF idx, of key] by (cases "map_of (s_by_principal s) key") auto
  have old: "distinct ?old"
    using index_okD(2) [OF idx, of key] by (cases "map_of (s_by_principal s) key") simp_all
  have fresh: "k \<notin> set ?old" using mem [of k] new by (metis option.distinct(1))
  show ?thesis
  proof (rule index_okI)
    show "keys_distinct (s_by_principal s')"
      using index_okD(1) [OF idx] by (simp add: bp' AList.distinct_update)
  next
    fix x ids assume "map_of (s_by_principal s') x = Some ids"
    then show "ids \<noteq> [] \<and> distinct ids"
      using index_okD(2) [OF idx, of x ids] old fresh by (auto simp: bp' AList.update_conv' split: if_splits)
  next
    fix x ids i assume *: "map_of (s_by_principal s') x = Some ids" "i \<in> set ids"
    show "\<exists>e. map_of (s_tasks s') i = Some e \<and> rate_limit_key (t_principal (e_task e)) = x"
    proof (cases "x = key")
      case True
      with * have "i = k \<or> i \<in> set ?old" by (auto simp: bp' AList.update_conv')
      then show ?thesis using fresh mem key True by (auto simp: ts AList.update_conv')
    next
      case False
      with * have "map_of (s_by_principal s) x = Some ids" by (simp add: bp' AList.update_conv')
      then show ?thesis using index_okD(3) [OF idx _ *(2)] new by (force simp: ts AList.update_conv')
    qed
  next
    fix i x assume *: "map_of (s_tasks s') i = Some x"
    show "\<exists>ids. map_of (s_by_principal s') (rate_limit_key (t_principal (e_task x))) = Some ids \<and>
               i \<in> set ids"
    proof (cases "i = k")
      case True
      with * key show ?thesis by (simp add: bp' ts AList.update_conv')
    next
      case False
      with * have "map_of (s_tasks s) i = Some x" by (simp add: ts AList.update_conv')
      from index_okD(4) [OF idx this] show ?thesis
        by (auto simp: bp' AList.update_conv')
    qed
  qed
qed

lemma create_insert_inv:
  assumes inv: "store_inv s" and room: "s_pending_count s < c_max_pending_global (s_config s)"
    and proom: "principal_count s key < c_max_pending_per_principal (s_config s)"
    and broom: "s_pending_bytes s + est \<le> c_max_pending_bytes (s_config s)"
    and new: "map_of (s_tasks s) k = None"
    and t: "t_id t = k" "task_wf t" "t_status t = Working" "rate_limit_key (t_principal t) = key"
  defines "e \<equiv> \<lparr>e_task = t, e_terminal_at = None, e_notified = 0, e_bytes = est\<rparr>"
  defines "s4 \<equiv> insert_entry k e key
             ((reserve key s)\<lparr>s_pending_bytes := s_pending_bytes s + est\<rparr>)"
  shows "store_inv (set_gauge (s_pending_count s4) s4)"
proof -
  let ?s' = "set_gauge (s_pending_count s4) s4"
  from inv have cfg: "config_ok (s_config s)" and ent: "entries_ok s" and cnt: "counters_ok s"
    and lim: "limits_ok s" and idx: "index_ok s"
    by (simp_all add: store_inv_def)
  have small: "s_pending_count s + 1 < usize_mod" "principal_count s key + 1 < usize_mod"
    using room proom cfg by (auto simp: config_ok_def)
  have sc: "s_config s4 = s_config s" "s_tasks s4 = AList.update k e (s_tasks s)"
    "s_pending_count s4 = s_pending_count s + 1" "s_pending_bytes s4 = s_pending_bytes s + est"
    "s_pending_by_principal s4 =
       AList.update key (principal_count s key + 1) (s_pending_by_principal s)"
    "s_by_principal s4 = s_by_principal (insert_entry k e key s)"
    using small by (simp_all add: s4_def insert_entry_def reserve_def set_principal_count_def Let_def
        wadd_small)
  have pc: "principal_count s4 x = principal_count s x + (if x = key then 1 else 0)" for x
    by (simp add: principal_count_def sc AList.update_conv')
  have w: "pend e = 1" "pend_key x e = (if x = key then 1 else 0)" "pend_bytes e = est" for x
    using t by (auto simp: e_def pend_def pend_key_def pend_bytes_def)
  have "counters_ok ?s'"
    using cnt by (simp add: counters_ok_def sc pc w alist.total_new [OF new] AList.distinct_update)
  moreover have "limits_ok ?s'"
    using lim room proom broom by (auto simp: limits_ok_def sc pc)
  moreover have "entry_ok k e"
    using t by (simp add: entry_ok_def e_def)
  then have "entries_ok ?s'"
    using entries_ok_put [OF ent, of k e] by (simp add: entries_ok_def sc)
  moreover have "index_ok ?s'"
    using t(4) sc(2,6) by (intro index_ok_insert [OF idx new, of e key]) (simp_all add: e_def)
  moreover have "gauge_ok ?s'" by (auto simp: gauge_ok_def)
  ultimately show ?thesis using cfg by (simp add: store_inv_def sc)
qed

lemma estimate_small:
  assumes "create_ok E i orig s" and "store_inv s"
  shows "wadd (s_pending_bytes s) (estimate_bytes E (r_arguments orig)) =
           s_pending_bytes s + estimate_bytes E (r_arguments orig)"
proof (rule wadd_small)
  have "s_pending_bytes s \<le> c_max_pending_bytes (s_config s)"
    using assms(2) by (simp add: store_inv_def limits_ok_def)
  then show "s_pending_bytes s + estimate_bytes E (r_arguments orig) < usize_mod"
    using assms(1) by (auto simp: create_ok_def estimate_bytes_def wadd_small)
qed

lemma create_inv:
  assumes inv: "store_inv s" and ok: "create_ok E i orig s"
  shows "store_inv (fst (create E i now orig tr p ttl ot s))"
proof -
  let ?key = "rate_limit_key p"
  let ?ttl = "clamp (c_min_ttl (s_config s)) (c_max_ttl (s_config s))
                (case ttl of Some d \<Rightarrow> d | None \<Rightarrow> c_default_ttl (s_config s))"
  have nopanic: "\<not> c_max_ttl (s_config s) < c_min_ttl (s_config s)"
    using inv by (simp add: store_inv_def config_ok_def)
  show ?thesis
  proof (cases "s_pending_count s < c_max_pending_global (s_config s)")
    case False
    then show ?thesis using inv by (simp add: create_def Let_def)
  next
    case room: True
    note rb = rollback_reserve_inv [OF inv room, of ?key]
    have rsv: "s_pending_bytes (reserve ?key s) = s_pending_bytes s"
      by (simp add: reserve_def set_principal_count_def)
    show ?thesis
    proof (cases "task_new E i now orig tr p ?ttl ot")
      case (Inl e)
      then show ?thesis using room nopanic rb by (auto simp: create_def Let_def)
    next
      case (Inr t)
      note tn = task_new_Inr [OF Inr]
      have ins: "store_inv (fst (create E i now orig tr p ttl ot s))"
        if "principal_count s ?key < c_max_pending_per_principal (s_config s)"
          "s_pending_bytes s + estimate_bytes E (r_arguments orig) \<le> c_max_pending_bytes (s_config s)"
        using create_insert_inv [OF inv room that(1,2), of i t] task_new_wf [OF Inr] tn ok that room
          nopanic Inr estimate_small [OF ok inv] rsv
        by (simp add: create_def Let_def create_ok_def)
      then show ?thesis
        using room nopanic rb Inr tn estimate_small [OF ok inv] rsv
        by (cases "principal_count s ?key < c_max_pending_per_principal (s_config s)";
            cases "s_pending_bytes s + estimate_bytes E (r_arguments orig)
                     \<le> c_max_pending_bytes (s_config s)")
          (simp_all add: create_def Let_def)
    qed
  qed
qed

section \<open>Bulk operations\<close>

lemma record_completed_inv:
  assumes inv: "store_inv s"
  shows "store_inv (record_completed kind outcome s)"
proof -
  have "gauge_ok s" "keys_distinct (s_pending_by_principal s)"
    using inv by (simp_all add: store_inv_def counters_ok_def)
  then show ?thesis
    by (intro store_inv_frame [OF inv])
      (auto simp: record_completed_def gauge_ok_def principal_count_def fun_eq_iff)
qed

lemma expire_one_inv: "store_inv (fst acc) \<Longrightarrow> store_inv (fst (expire_one now acc k))"
  by (auto simp: expire_one_def Let_def split: option.splits sum.splits prod.splits
      intro!: record_completed_inv intro: transition_settle_inv)

lemma expire_overdue_inv: "store_inv s \<Longrightarrow> store_inv (fst (expire_overdue now s))"
  unfolding expire_overdue_def
  by (rule foldl_invar [where P = "\<lambda>acc. store_inv (fst acc)"]) (simp_all add: expire_one_inv)

lemma fail_one_inv: "store_inv (fst acc) \<Longrightarrow> store_inv (fst (fail_one now f acc k))"
  using fail_task_inv [of "fst acc" now k f]
  by (cases acc) (auto simp: fail_one_def split: prod.splits)

lemma fail_all_pending_inv: "store_inv s \<Longrightarrow> store_inv (fst (fail_all_pending now reason s))"
  unfolding fail_all_pending_def
  by (rule foldl_invar [where P = "\<lambda>acc. store_inv (fst acc)"]) (simp_all add: fail_one_inv)

lemma drop_from_index_lookup:
  "map_of (drop_from_index key k al) x =
     (if x = key
      then (case map_of al key of None \<Rightarrow> None
            | Some ids \<Rightarrow> if filter (\<lambda>i. i \<noteq> k) ids = [] then None
                         else Some (filter (\<lambda>i. i \<noteq> k) ids))
      else map_of al x)"
  by (auto simp: drop_from_index_def Let_def AList.delete_conv' AList.update_conv' split: option.splits)

lemma drop_from_index_distinct: "keys_distinct al \<Longrightarrow> keys_distinct (drop_from_index key k al)"
  by (auto simp: drop_from_index_def Let_def AList.distinct_update AList.distinct_delete
      split: option.splits)

lemma remove_index_ok:
  assumes idx: "index_ok s" and old: "map_of (s_tasks s) k = Some e"
  shows "index_ok (remove_task s k)"
proof (rule index_okI)
  let ?key = "rate_limit_key (t_principal (e_task e))"
  have s': "s_tasks (remove_task s k) = AList.delete k (s_tasks s)"
    "s_by_principal (remove_task s k) = drop_from_index ?key k (s_by_principal s)"
    using old by (simp_all add: remove_task_def)
  show "keys_distinct (s_by_principal (remove_task s k))"
    using index_okD(1) [OF idx] by (simp add: s' drop_from_index_distinct)
  fix x ids assume x: "map_of (s_by_principal (remove_task s k)) x = Some ids"
  then obtain old_ids where o: "map_of (s_by_principal s) x = Some old_ids"
      "ids = (if x = ?key then filter (\<lambda>i. i \<noteq> k) old_ids else old_ids)" "x = ?key \<Longrightarrow> ids \<noteq> []"
    by (auto simp: s' drop_from_index_lookup split: if_splits option.splits)
  then show "ids \<noteq> [] \<and> distinct ids"
    using index_okD(2) [OF idx o(1)] by auto
  fix i assume i: "i \<in> set ids"
  then have "i \<in> set old_ids" using o(2) by (auto split: if_splits)
  from index_okD(3) [OF idx o(1) this] obtain e' where
    e': "map_of (s_tasks s) i = Some e'" "rate_limit_key (t_principal (e_task e')) = x" by blast
  moreover have "i \<noteq> k" using i o(2) e' old by (auto split: if_splits)
  ultimately show "\<exists>e. map_of (s_tasks (remove_task s k)) i = Some e \<and>
      rate_limit_key (t_principal (e_task e)) = x"
    by (simp add: s' AList.delete_conv')
next
  let ?key = "rate_limit_key (t_principal (e_task e))"
  have s': "s_tasks (remove_task s k) = AList.delete k (s_tasks s)"
    "s_by_principal (remove_task s k) = drop_from_index ?key k (s_by_principal s)"
    using old by (simp_all add: remove_task_def)
  fix i x assume "map_of (s_tasks (remove_task s k)) i = Some x"
  then have i: "i \<noteq> k" "map_of (s_tasks s) i = Some x"
    by (auto simp: s' AList.delete_conv' split: if_splits)
  from index_okD(4) [OF idx i(2)] i(1) show "\<exists>ids. map_of (s_by_principal (remove_task s k))
      (rate_limit_key (t_principal (e_task x))) = Some ids \<and> i \<in> set ids"
    by (auto simp: s' drop_from_index_lookup filter_empty_conv)
qed

lemma remove_task_inv:
  assumes inv: "store_inv s"
    and dead: "\<And>e. map_of (s_tasks s) k = Some e \<Longrightarrow> is_terminal (t_status (e_task e))"
  shows "store_inv (remove_task s k)"
proof (cases "map_of (s_tasks s) k")
  case None
  then show ?thesis using inv by (simp add: remove_task_def)
next
  case (Some e)
  let ?s = "remove_task s k"
  have sc: "s_config ?s = s_config s" "s_tasks ?s = AList.delete k (s_tasks s)"
    "s_pending_count ?s = s_pending_count s" "s_pending_bytes ?s = s_pending_bytes s"
    "s_pending_by_principal ?s = s_pending_by_principal s" "s_metrics ?s = s_metrics s"
    "principal_count ?s = principal_count s"
    using Some by (simp_all add: remove_task_def principal_count_def fun_eq_iff)
  have kd: "keys_distinct (s_tasks s)" using inv by (simp add: store_inv_def entries_ok_def)
  have "wsum f (AList.delete k (s_tasks s)) = wsum f (s_tasks s)" if "f e = 0" for f
    using alist.total_del_zero [OF kd Some, of f] that by simp
  moreover have "pend e = 0" "pend_key x e = 0" "pend_bytes e = 0" for x
    using dead [OF Some] by (simp_all add: pend_def pend_key_def pend_bytes_def)
  ultimately have "counters_ok s \<Longrightarrow> counters_ok ?s" by (simp add: counters_ok_def sc)
  moreover have "entries_ok s \<Longrightarrow> entries_ok ?s"
    by (auto simp: entries_ok_def sc AList.distinct_delete AList.delete_conv' split: if_splits)
  moreover have "limits_ok s \<Longrightarrow> limits_ok ?s" "gauge_ok s \<Longrightarrow> gauge_ok ?s"
    by (simp_all add: limits_ok_def gauge_ok_def sc)
  ultimately show ?thesis using inv remove_index_ok [OF _ Some] by (simp add: store_inv_def sc)
qed

lemma remove_all_inv:
  "store_inv s \<Longrightarrow> (\<And>k e. k \<in> set ks \<Longrightarrow> map_of (s_tasks s) k = Some e \<Longrightarrow>
      is_terminal (t_status (e_task e))) \<Longrightarrow> store_inv (foldl remove_task s ks)"
proof (induction ks arbitrary: s)
  case Nil
  then show ?case by simp
next
  case (Cons k ks)
  have "store_inv (remove_task s k)"
    using Cons.prems(2) [of k] by (intro remove_task_inv [OF Cons.prems(1)]) simp
  moreover have "is_terminal (t_status (e_task e))"
    if "k' \<in> set ks" "map_of (s_tasks (remove_task s k)) k' = Some e" for k' e
    using that Cons.prems(2) [of k' e]
    by (auto simp: remove_task_def AList.delete_conv' split: option.splits if_splits)
  ultimately show ?case using Cons.IH by simp
qed

lemma removable_terminal:
  assumes inv: "store_inv s" and "k \<in> set (removable_ids E now s)"
    and e: "map_of (s_tasks s) k = Some e"
  shows "is_terminal (t_status (e_task e))"
proof -
  from assms(2) obtain k' e' where m: "(k', e') \<in> set (s_tasks s)" "t_id (e_task e') = k"
    "e_terminal_at e' \<noteq> None"
    by (auto simp: removable_ids_def Let_def split: option.splits)
  have kd: "keys_distinct (s_tasks s)" using inv by (simp add: store_inv_def entries_ok_def)
  with m have "map_of (s_tasks s) k' = Some e'" by simp
  then have ok: "entry_ok k' e'" using inv entry_ofD by blast
  with m have "k' = k" by (simp add: entry_ok_def)
  with \<open>map_of (s_tasks s) k' = Some e'\<close> e ok m(3) show ?thesis by (simp add: entry_ok_def)
qed

lemma cleanup_terminal_inv: "store_inv s \<Longrightarrow> store_inv (fst (cleanup_terminal E now s))"
  unfolding cleanup_terminal_def Let_def fst_conv
  by (rule remove_all_inv) (auto intro: removable_terminal)

end
