(* ===== verification/Task_Store_Props.thy ===== *)
theory Task_Store_Props
  imports Task_Store_Inv
begin

text \<open>
  The store as a system of operations: sequences of operations keep the invariant (through the
  contract \<open>op_system\<close>), every task evolves along the state machine, and the exact
  effect of the operations that work on many tasks.
\<close>

section \<open>Operations as data\<close>

datatype store_op =
    OpCreate ext task_id datetime tool_call_request tool_call_request principal
      "duration option" timeout_action
  | OpTransition datetime task_id task_status "string option"
  | OpTransitionIf datetime task_id task_status task_status "string option"
  | OpRecordApproval ext datetime task_id approval_decision string duration
  | OpComplete datetime task_id tool_call_result
  | OpAutoApprove datetime task_id tool_call_result approval_record
  | OpFail datetime task_id failure_info
  | OpCancel datetime task_id
  | OpExpireOverdue datetime
  | OpCleanup ext datetime
  | OpFailAll datetime string

fun store_step :: "task_store \<Rightarrow> store_op \<Rightarrow> task_store" where
  "store_step s (OpCreate E i now orig tr p ttl ot) = fst (create E i now orig tr p ttl ot s)"
| "store_step s (OpTransition now k st why) = fst (transition now k st why s)"
| "store_step s (OpTransitionIf now k ex st why) = fst (transition_if now k ex st why s)"
| "store_step s (OpRecordApproval E now k d who vf) = fst (record_approval E now k d who vf s)"
| "store_step s (OpComplete now k r) = fst (complete now k r s)"
| "store_step s (OpAutoApprove now k r a) = fst (record_auto_approve_result now k r a s)"
| "store_step s (OpFail now k f) = fst (fail_task now k f s)"
| "store_step s (OpCancel now k) = fst (cancel now k s)"
| "store_step s (OpExpireOverdue now) = fst (expire_overdue now s)"
| "store_step s (OpCleanup E now) = fst (cleanup_terminal E now s)"
| "store_step s (OpFailAll now why) = fst (fail_all_pending now why s)"

text \<open>
  What the callers respect: generated identifiers are fresh and sizes fit a machine word; the
  engine records an automatic approval only for a task it found expired.
\<close>

fun store_op_ok :: "task_store \<Rightarrow> store_op \<Rightarrow> bool" where
  "store_op_ok s (OpCreate E i now orig tr p ttl ot) \<longleftrightarrow> create_ok E i orig s"
| "store_op_ok s (OpAutoApprove now k r a) \<longleftrightarrow>
     (case map_of (s_tasks s) k of None \<Rightarrow> True | Some e \<Rightarrow> t_status (e_task e) = Expired)"
| "store_op_ok s _ \<longleftrightarrow> True"

lemma store_step_inv: "store_inv s \<Longrightarrow> store_op_ok s x \<Longrightarrow> store_inv (store_step s x)"
  by (cases x)
    (auto intro: create_inv transition_inv transition_if_inv record_approval_inv complete_inv
      record_auto_approve_result_inv fail_task_inv cancel_inv expire_overdue_inv
      cleanup_terminal_inv fail_all_pending_inv split: option.splits)

interpretation store_sys: op_system store_step store_op_ok store_inv
  by unfold_locales (rule store_step_inv)

section \<open>Evolution of one task\<close>

text \<open>
  What later versions of an entry keep of earlier ones: the request, its hash, its principal and
  its expiry never change; the status only advances; a terminal status is final, and a terminal
  entry that did not expire is never written again; the approval is fixed once execution starts.
\<close>

definition evolves :: "task_entry \<Rightarrow> task_entry \<Rightarrow> bool" where
  "evolves e e' \<longleftrightarrow> same_request (e_task e) (e_task e') \<and>
     status_rank (t_status (e_task e)) \<le> status_rank (t_status (e_task e')) \<and>
     (is_terminal (t_status (e_task e)) \<longrightarrow> t_status (e_task e') = t_status (e_task e) \<and>
        (t_status (e_task e) \<noteq> Expired \<longrightarrow> e' = e)) \<and>
     (t_status (e_task e) = Executing \<longrightarrow> t_approval (e_task e') = t_approval (e_task e) \<and>
        t_status (e_task e') \<in> {Executing, Completed, Failed})"

lemma evolves_refl [simp, intro]: "evolves e e"
  by (simp add: evolves_def)

lemma evolves_trans: "evolves e1 e2 \<Longrightarrow> evolves e2 e3 \<Longrightarrow> evolves e1 e3"
  unfolding evolves_def
  by (cases "t_status (e_task e1)")
    (elim conjE; intro conjI; (erule (1) same_request_trans)?; auto)+

lemma evolves_transition:
  assumes "task_transition now st why t1 = Inr t" and "t_status t1 = t_status (e_task e)"
    and "same_request (e_task e) t1"
    and "t_status (e_task e) = Executing \<Longrightarrow> t_approval t1 = t_approval (e_task e)"
    and "e_task e' = t"
  shows "evolves e e'"
proof -
  note f = task_transition_Inr [OF assms(1)]
  have "same_request (e_task e) t" using assms(3) f(4) by (rule same_request_trans)
  then show ?thesis
    using f assms transition_rank [OF f(1)] by (auto simp: evolves_def less_imp_le)
qed

definition keeps :: "task_id \<Rightarrow> task_store \<Rightarrow> task_store \<Rightarrow> bool" where
  "keeps k s s' \<longleftrightarrow>
     (case map_of (s_tasks s) k of
        None \<Rightarrow> map_of (s_tasks s') k = None
      | Some e \<Rightarrow>
          (case map_of (s_tasks s') k of
             None \<Rightarrow> True
           | Some e' \<Rightarrow> evolves e e'))"

lemma keeps_refl [simp, intro]: "keeps k s s"
  by (simp add: keeps_def split: option.splits)

lemma keeps_trans: "keeps k s1 s2 \<Longrightarrow> keeps k s2 s3 \<Longrightarrow> keeps k s1 s3"
  by (auto simp: keeps_def split: option.splits intro: evolves_trans)

lemma keeps_same: "s_tasks s' = s_tasks s \<Longrightarrow> keeps k s s'"
  by (simp add: keeps_def split: option.splits)

lemma keeps_put:
  "map_of (s_tasks s) x = Some e \<Longrightarrow> evolves e e' \<Longrightarrow> s_tasks s' = AList.update x e' (s_tasks s) \<Longrightarrow>
   keeps k s s'"
  by (auto simp: keeps_def AList.update_conv' split: option.splits)

lemma settle_tasks:
  "\<exists>e'. e_task e' = t \<and> s_tasks (settle now k e t s) = AList.update k e' (s_tasks s)"
proof (cases "\<not> is_terminal (t_status (e_task e)) \<and> is_terminal (t_status t)")
  case True
  let ?e' = "e\<lparr>e_task := t, e_terminal_at := Some now, e_notified := Suc (e_notified e)\<rparr>"
  have "s_tasks (settle now k e t s) = AList.update k ?e' (s_tasks s)"
    using True by (simp add: settle_def decrement_pending_counters_def Let_def)
  then show ?thesis by (intro exI [of _ ?e']) simp
next
  case False
  have "s_tasks (settle now k e t s) = AList.update k (e\<lparr>e_task := t\<rparr>) (s_tasks s)"
    using False by (auto simp: settle_def)
  then show ?thesis by (intro exI [of _ "e\<lparr>e_task := t\<rparr>"]) simp
qed

lemma keeps_settle:
  assumes "map_of (s_tasks s) x = Some e" and "task_transition now st why t1 = Inr t"
    and "t_status t1 = t_status (e_task e)" and "same_request (e_task e) t1"
    and "t_status (e_task e) = Executing \<Longrightarrow> t_approval t1 = t_approval (e_task e)"
  shows "keeps k s (settle now x e t s)"
proof -
  obtain e' where "e_task e' = t" "s_tasks (settle now x e t s) = AList.update x e' (s_tasks s)"
    using settle_tasks by blast
  then show ?thesis
    using assms evolves_transition [OF assms(2-4)] by (intro keeps_put [of s x e e']) auto
qed

lemma keeps_noted:
  assumes "map_of (s_tasks s) x = Some e" and "t_status t1 = t_status (e_task e)"
    and "same_request (e_task e) t1" and "\<not> is_terminal (t_status (e_task e))"
    and "t_status (e_task e) = Executing \<Longrightarrow> t_approval t1 = t_approval (e_task e)"
  shows "keeps k s (fst (case task_transition now st why t1 of
             Inl err \<Rightarrow> (put_entry x (e\<lparr>e_task := t1\<rparr>) s, Inl err)
           | Inr t \<Rightarrow> (settle now x e t s, Inr t)))"
proof (cases "task_transition now st why t1")
  case (Inl err)
  have "evolves e (e\<lparr>e_task := t1\<rparr>)" using assms by (auto simp: evolves_def)
  then show ?thesis using Inl assms(1) by (auto intro: keeps_put)
next
  case (Inr t)
  then show ?thesis using assms keeps_settle [OF assms(1) Inr assms(2,3)] by simp
qed

lemma auto_approve_keeps:
  assumes "store_op_ok s (OpAutoApprove now x r a)"
  shows "keeps k s (fst (record_auto_approve_result now x r a s))"
proof (cases "map_of (s_tasks s) x")
  case None
  then show ?thesis by (simp add: record_auto_approve_result_def)
next
  case (Some e)
  then have "t_status (e_task e) = Expired" using assms by simp
  moreover define t where "t = (e_task e)\<lparr>t_result := Some r, t_approval := Some a,
      t_transitions := t_transitions (e_task e) @ [\<lparr>tr_from = Expired, tr_to = Expired,
        tr_at = now, tr_reason = Some auto_approve_reason\<rparr>]\<rparr>"
  ultimately have "evolves e (e\<lparr>e_task := t\<rparr>)"
    by (simp add: evolves_def same_request_def)
  moreover have "s_tasks (fst (record_auto_approve_result now x r a s)) =
      AList.update x (e\<lparr>e_task := t\<rparr>) (s_tasks s)"
    using Some by (simp add: record_auto_approve_result_def Let_def t_def)
  ultimately show ?thesis using Some by (intro keeps_put)
qed

lemma expire_one_keeps: "keeps k (fst acc) (fst (expire_one now acc x))"
proof -
  have rc: "keeps k s (record_completed a b s') = keeps k s s'" for s s' a b
    by (simp add: keeps_def record_completed_def split: option.splits)
  show ?thesis
    by (auto simp: expire_one_def Let_def rc split: option.splits sum.splits prod.splits
        intro: keeps_settle)
qed

lemma fail_task_keeps: "keeps k s (fst (fail_task now x f s))"
  unfolding fail_task_def Let_def
  by (auto split: option.splits intro!: keeps_noted simp: same_request_def)

lemma fail_one_keeps: "keeps k (fst acc) (fst (fail_one now f acc x))"
  using fail_task_keeps [of k "fst acc" now x f]
  by (cases acc) (auto simp: fail_one_def split: prod.splits)

lemma remove_task_keeps: "keeps k s (remove_task s x)"
  by (auto simp: remove_task_def keeps_def AList.delete_conv' split: option.splits)

fun creates :: "store_op \<Rightarrow> task_id \<Rightarrow> bool" where
  "creates (OpCreate E i now orig tr p ttl ot) k \<longleftrightarrow> i = k"
| "creates _ k \<longleftrightarrow> False"

lemma rollback_reserve_tasks [simp]:
  "s_tasks (reserve key s) = s_tasks s" "s_tasks (rollback key s) = s_tasks s"
  by (simp_all add: reserve_def rollback_def set_principal_count_def Let_def)

lemma create_keeps:
  assumes "k \<noteq> i"
  shows "keeps k s (fst (create E i now orig tr p ttl ot s))"
  using assms task_new_Inr(1) [of E i now orig tr p]
  by (auto simp: create_def Let_def insert_entry_def keeps_def AList.update_conv'
      split: option.splits sum.splits)

lemma bulk_keeps:
  "keeps k s (fst (expire_overdue now s))" "keeps k s (fst (fail_all_pending now why s))"
  "keeps k s (fst (cleanup_terminal E now s))"
proof -
  have "keeps k s (fst (foldl (expire_one now) (s, 0) ks))" for ks
    by (rule foldl_invar [where P = "\<lambda>acc. keeps k s (fst acc)"])
      (auto intro: keeps_trans expire_one_keeps)
  then show "keeps k s (fst (expire_overdue now s))" by (simp add: expire_overdue_def)
  have "keeps k s (fst (foldl (fail_one now f) (s, 0) ks))" for ks f
    by (rule foldl_invar [where P = "\<lambda>acc. keeps k s (fst acc)"])
      (auto intro: keeps_trans fail_one_keeps)
  then show "keeps k s (fst (fail_all_pending now why s))" by (simp add: fail_all_pending_def)
  have "keeps k s (foldl remove_task s ks)" for ks
    by (rule foldl_invar [where P = "keeps k s"]) (auto intro: keeps_trans remove_task_keeps)
  then show "keeps k s (fst (cleanup_terminal E now s))" by (simp add: cleanup_terminal_def Let_def)
qed

lemma store_step_keeps:
  assumes "store_op_ok s x" and "\<not> creates x k"
  shows "keeps k s (store_step s x)"
proof (cases x)
  case (OpTransition now i st why)
  then show ?thesis
    by (auto simp: transition_def split: option.splits sum.splits intro: keeps_settle)
next
  case (OpTransitionIf now i ex st why)
  then show ?thesis
    by (auto simp: transition_if_def task_transition_if_def
        split: option.splits sum.splits if_splits intro: keeps_settle)
next
  case (OpCancel now i)
  then show ?thesis
    by (auto simp: cancel_def Let_def split: option.splits sum.splits intro: keeps_settle)
next
  case (OpComplete now i r)
  then show ?thesis
    by (auto simp: complete_def Let_def same_request_def split: option.splits intro!: keeps_noted)
next
  case (OpRecordApproval E now i d who vf)
  then show ?thesis
    by (auto simp: record_approval_def Let_def same_request_def split: option.splits
        intro!: keeps_noted)
qed (use assms in \<open>auto intro: create_keeps auto_approve_keeps fail_task_keeps bulk_keeps\<close>)

lemma store_run_keeps:
  "run_ok store_op_ok store_step s xs \<Longrightarrow> (\<And>x. x \<in> set xs \<Longrightarrow> \<not> creates x k) \<Longrightarrow>
     keeps k s (run_ops store_step s xs)"
proof (induction xs arbitrary: s)
  case Nil
  then show ?case by simp
next
  case (Cons x xs)
  then have "keeps k s (store_step s x)" by (intro store_step_keeps) auto
  moreover have "keeps k (store_step s x) (run_ops store_step (store_step s x) xs)"
    using Cons by simp
  ultimately show ?case by (auto intro: keeps_trans)
qed

section \<open>Exact effect of the bulk operations\<close>

definition ended :: "datetime \<Rightarrow> task \<Rightarrow> task_entry \<Rightarrow> task_entry" where
  "ended now t e = e\<lparr>e_task := t, e_terminal_at := Some now, e_notified := Suc (e_notified e)\<rparr>"

definition due :: "datetime \<Rightarrow> task_entry \<Rightarrow> bool" where
  "due now e \<longleftrightarrow> t_status (e_task e) \<in> {Working, InputRequired} \<and> now > t_expires_at (e_task e)"

definition expired_row :: "datetime \<Rightarrow> task_entry \<Rightarrow> task_entry" where
  "expired_row now e =
     (if due now e then
        (case task_transition now Expired (Some ''TTL exceeded'') (e_task e) of
           Inl err \<Rightarrow> e | Inr t \<Rightarrow> ended now t e)
      else e)"

definition failed_row :: "datetime \<Rightarrow> failure_info \<Rightarrow> task_entry \<Rightarrow> task_entry" where
  "failed_row now f e =
     (let t1 = (e_task e)\<lparr>t_failure := Some f\<rparr> in
      if is_terminal (t_status (e_task e)) then e
      else case task_transition now Failed (Some (f_reason f)) t1 of
             Inl err \<Rightarrow> e\<lparr>e_task := t1\<rparr> | Inr t \<Rightarrow> ended now t e)"

lemma settle_end_tasks:
  "\<not> is_terminal (t_status (e_task e)) \<Longrightarrow> is_terminal (t_status t) \<Longrightarrow>
   s_tasks (settle now k e t s) = AList.update k (ended now t e) (s_tasks s)"
  by (simp add: settle_def ended_def decrement_pending_counters_def Let_def)

lemma record_completed_tasks [simp]: "s_tasks (record_completed a b s) = s_tasks s"
  by (simp add: record_completed_def)

lemma due_transition:
  "due now e \<Longrightarrow> \<exists>t. task_transition now Expired why (e_task e) = Inr t \<and> t_status t = Expired \<and>
     \<not> is_terminal (t_status (e_task e))"
  by (auto simp: due_def task_transition_def)

lemma expire_one_due:
  assumes "map_of (s_tasks s) k = Some e"
  shows "s_tasks (fst (expire_one now (s, n) k)) =
           (if due now e then AList.update k (expired_row now e) (s_tasks s) else s_tasks s)"
    and "snd (expire_one now (s, n) k) = (if due now e then Suc n else n)"
proof -
  have nd: "t_status (e_task e) = Executing \<or> is_terminal (t_status (e_task e)) \<or>
              \<not> now > t_expires_at (e_task e)" if "\<not> due now e"
    using that by (cases "t_status (e_task e)") (auto simp: due_def)
  show "s_tasks (fst (expire_one now (s, n) k)) =
           (if due now e then AList.update k (expired_row now e) (s_tasks s) else s_tasks s)"
    and "snd (expire_one now (s, n) k) = (if due now e then Suc n else n)"
    using assms due_transition [of now e "Some ''TTL exceeded''"] nd
    by (cases "due now e"; force simp: expire_one_def expired_row_def settle_end_tasks
        task_transition_def due_def)+
qed

interpretation expire_pass: counted_pass "\<lambda>s. map_of (s_tasks s)" "expire_one now"
  "\<lambda>e. Some (expired_row now e)" "due now" for now
proof
  show "map_of (s_tasks (fst (expire_one now acc k))) =
    (map_of (s_tasks (fst acc)))(k := Option.bind (map_of (s_tasks (fst acc)) k)
       (\<lambda>e. Some (expired_row now e)))" for acc k
  proof (cases "map_of (s_tasks (fst acc)) k")
    case None
    then show ?thesis by (cases acc) (auto simp: expire_one_def)
  next
    case (Some e)
    then show ?thesis using expire_one_due(1) [OF Some, of now "snd acc"]
      by (auto simp: AList.update_conv' expired_row_def)
  qed
  show "Option.bind (Some (expired_row now e)) (\<lambda>e. Some (expired_row now e)) =
          Some (expired_row now e)" for e
    using due_transition [of now e "Some ''TTL exceeded''"]
    by (auto simp: expired_row_def ended_def due_def)
  show "snd (expire_one now acc k) = snd acc +
      (case map_of (s_tasks (fst acc)) k of None \<Rightarrow> 0 | Some v \<Rightarrow> if due now v then 1 else 0)" for acc k
    using expire_one_due(2) [of "fst acc" k _ now "snd acc"]
    by (cases acc) (auto simp: expire_one_def split: option.splits)
qed

definition failable :: "task_entry \<Rightarrow> bool" where
  "failable e \<longleftrightarrow> t_status (e_task e) \<in> {Working, Executing}"

lemma fail_one_row:
  assumes "map_of (s_tasks s) k = Some e"
  shows "map_of (s_tasks (fst (fail_one now f (s, n) k))) =
           (map_of (s_tasks s))(k \<mapsto> failed_row now f e)"
    and "snd (fail_one now f (s, n) k) =
           (if failable e then Suc n else n)"
  using assms
  by (cases "t_status (e_task e)";
      force simp: fail_one_def fail_task_def failed_row_def Let_def task_transition_def
        settle_end_tasks AList.update_conv' failable_def)+

lemma failed_row_idem: "failed_row now f (failed_row now f e) = failed_row now f e"
  by (cases "t_status (e_task e)") (simp_all add: failed_row_def Let_def task_transition_def ended_def)

interpretation fail_pass: counted_pass "\<lambda>s. map_of (s_tasks s)" "fail_one now f"
  "\<lambda>e. Some (failed_row now f e)" failable for now f
proof
  show "map_of (s_tasks (fst (fail_one now f acc k))) =
    (map_of (s_tasks (fst acc)))(k := Option.bind (map_of (s_tasks (fst acc)) k)
       (\<lambda>e. Some (failed_row now f e)))" for acc k
  proof (cases "map_of (s_tasks (fst acc)) k")
    case None
    then show ?thesis by (cases acc) (auto simp: fail_one_def fail_task_def)
  next
    case (Some e)
    then show ?thesis using fail_one_row(1) [OF Some, of now f "snd acc"] by simp
  qed
  show "Option.bind (Some (failed_row now f e)) (\<lambda>e. Some (failed_row now f e)) =
          Some (failed_row now f e)" for e
    by (simp add: failed_row_idem)
  show "snd (fail_one now f acc k) = snd acc + (case map_of (s_tasks (fst acc)) k of None \<Rightarrow> 0
      | Some v \<Rightarrow> if failable v then 1 else 0)" for acc k
    using fail_one_row(2) [of "fst acc" k _ now f "snd acc"]
    by (cases acc) (auto simp: fail_one_def fail_task_def split: option.splits)
qed

interpretation remove_pass: row_pass "\<lambda>s. map_of (s_tasks s)" remove_task "\<lambda>e. None"
  by unfold_locales (auto simp: remove_task_def AList.delete_conv' split: option.splits)

text \<open>The identifiers a pass collects are keys of the table.\<close>

lemma ids_are_keys:
  assumes "store_inv s"
  shows "map (\<lambda>(k, e). t_id (e_task e)) (filter P (s_tasks s)) = map fst (filter P (s_tasks s))"
    and "distinct (map fst (filter P (s_tasks s)))"
    and "keys_distinct (s_tasks s)"
    and "k \<in> set (map fst (filter P (s_tasks s))) \<longleftrightarrow>
           (\<exists>e. map_of (s_tasks s) k = Some e \<and> P (k, e))"
proof -
  have kd: "keys_distinct (s_tasks s)" and
    ok: "\<And>k e. map_of (s_tasks s) k = Some e \<Longrightarrow> t_id (e_task e) = k"
    using assms by (auto simp: store_inv_def entries_ok_def entry_ok_def)
  have "t_id (e_task e) = k" if "(k, e) \<in> set (s_tasks s)" for k e
    using ok [of k e] map_of_is_SomeI [OF kd that] by simp
  then show "map (\<lambda>(k, e). t_id (e_task e)) (filter P (s_tasks s)) = map fst (filter P (s_tasks s))"
    by auto
  show "keys_distinct (s_tasks s)" by (rule kd)
  then show "distinct (map fst (filter P (s_tasks s)))" by (rule distinct_map_filter)
  show "k \<in> set (map fst (filter P (s_tasks s))) \<longleftrightarrow>
           (\<exists>e. map_of (s_tasks s) k = Some e \<and> P (k, e))"
    using kd by (force simp: map_of_is_SomeI dest: map_of_SomeD)
qed

lemma expire_overdue_rows:
  assumes inv: "store_inv s"
  shows "map_of (s_tasks (fst (expire_overdue now s))) k =
           map_option (expired_row now) (map_of (s_tasks s) k)"
    and "snd (expire_overdue now s) = length (filter (\<lambda>(k, e). due now e) (s_tasks s))"
proof -
  let ?P = "\<lambda>(k, e). \<not> is_terminal (t_status (e_task e)) \<and> now > t_expires_at (e_task e)"
  note keys = ids_are_keys [OF inv]
  have ids: "overdue_ids now s = map fst (filter ?P (s_tasks s))"
    using keys(1) [of ?P] by (simp add: overdue_ids_def case_prod_unfold)
  have "Some (expired_row now e) = Some e"
    if "map_of (s_tasks s) k = Some e" "k \<notin> set (overdue_ids now s)" for e
    using that keys(4) [of k ?P] unfolding ids
    by (auto simp: expired_row_def due_def)
  then show "map_of (s_tasks (fst (expire_overdue now s))) k =
      map_option (expired_row now) (map_of (s_tasks s) k)"
    using expire_pass.lookup_complete_pass [of "(s, 0)" k "overdue_ids now s" now]
    by (cases "map_of (s_tasks s) k") (simp_all add: expire_overdue_def)
  have "(\<lambda>(k, e). ?P (k, e) \<and> due now e) = (\<lambda>(k::task_id, e). due now e)"
    by (auto simp: due_def fun_eq_iff)
  then show "snd (expire_overdue now s) = length (filter (\<lambda>(k, e). due now e) (s_tasks s))"
    using expire_pass.count_pass [of "overdue_ids now s" now "(s, 0)"] keys(2) [of ?P]
      count_rows [OF keys(3), of "due now" ?P]
    by (simp add: expire_overdue_def ids)
qed

lemma fail_all_pending_rows:
  assumes inv: "store_inv s"
  shows "map_of (s_tasks (fst (fail_all_pending now why s))) k =
           map_option (failed_row now (shutdown_failure why)) (map_of (s_tasks s) k)"
    and "snd (fail_all_pending now why s) =
           length (filter (\<lambda>(k, e). failable e) (s_tasks s))"
proof -
  let ?P = "\<lambda>(k, e). \<not> is_terminal (t_status (e_task e))"
  note keys = ids_are_keys [OF inv]
  have ids: "pending_ids s = map fst (filter ?P (s_tasks s))"
    using keys(1) [of ?P] by (simp add: pending_ids_def case_prod_unfold)
  have "Some (failed_row now (shutdown_failure why) e) = Some e"
    if "map_of (s_tasks s) k = Some e" "k \<notin> set (pending_ids s)" for e
    using that keys(4) [of k ?P] unfolding ids by (auto simp: failed_row_def)
  then show "map_of (s_tasks (fst (fail_all_pending now why s))) k =
      map_option (failed_row now (shutdown_failure why)) (map_of (s_tasks s) k)"
    using fail_pass.lookup_complete_pass [of "(s, 0)" k "pending_ids s" now "shutdown_failure why"]
    by (cases "map_of (s_tasks s) k") (simp_all add: fail_all_pending_def)
  have "(\<lambda>(k, e). ?P (k, e) \<and> failable e) = (\<lambda>(k::task_id, e). failable e)"
    by (auto simp: fun_eq_iff failable_def)
  then show "snd (fail_all_pending now why s) =
      length (filter (\<lambda>(k, e). failable e) (s_tasks s))"
    using fail_pass.count_pass [of "pending_ids s" now "shutdown_failure why" "(s, 0)"]
      keys(2) [of ?P] count_rows [OF keys(3), of failable ?P]
    by (simp add: fail_all_pending_def ids)
qed

definition past_grace :: "ext \<Rightarrow> datetime \<Rightarrow> store_config \<Rightarrow> task_entry \<Rightarrow> bool" where
  "past_grace E now cfg e \<longleftrightarrow>
     (case e_terminal_at e of
        None \<Rightarrow> False
      | Some at \<Rightarrow> now - at >
          (case x_from_std E (c_terminal_grace_period cfg) of Some d \<Rightarrow> d | None \<Rightarrow> 0))"

lemma cleanup_terminal_rows:
  assumes inv: "store_inv s"
  shows "map_of (s_tasks (fst (cleanup_terminal E now s))) k =
           (case map_of (s_tasks s) k of None \<Rightarrow> None
            | Some e \<Rightarrow> if past_grace E now (s_config s) e then None else Some e)"
    and "snd (cleanup_terminal E now s) =
           length (filter (\<lambda>(k, e). past_grace E now (s_config s) e) (s_tasks s))"
proof -
  let ?P = "\<lambda>(k, e). past_grace E now (s_config s) e"
  note keys = ids_are_keys [OF inv]
  have ids: "removable_ids E now s = map fst (filter ?P (s_tasks s))"
    using keys(1) [of ?P]
    by (simp add: removable_ids_def past_grace_def case_prod_unfold Let_def)
  show "map_of (s_tasks (fst (cleanup_terminal E now s))) k =
           (case map_of (s_tasks s) k of None \<Rightarrow> None
            | Some e \<Rightarrow> if past_grace E now (s_config s) e then None else Some e)"
    using keys(4) [of k ?P]
    by (auto simp: cleanup_terminal_def Let_def ids remove_pass.lookup_pass split: option.splits)
  show "snd (cleanup_terminal E now s) = length (filter ?P (s_tasks s))"
    by (simp add: cleanup_terminal_def Let_def ids)
qed

end
