(* ===== verification/Store_Theorems.thy ===== *)
theory Store_Theorems
  imports Task_Store_Props
begin

text \<open>
  The theorems about the task store: what its counters, its index and its tasks look like after
  every sequence of operations, and what each operation does on every branch. A small concrete
  store serves the witnesses.
\<close>

section \<open>A concrete store\<close>

definition demo_ext :: ext where
  "demo_ext = \<lparr>x_sha256 = (\<lambda>x. x), x_to_string = (\<lambda>_. Some ''{}''), x_from_std = (\<lambda>d. Some (int d)),
     x_debug_duration = (\<lambda>_. ''60s'')\<rparr>"

definition demo_cfg :: store_config where
  "demo_cfg = (store_config_default None)\<lparr>c_max_pending_per_principal := 2\<rparr>"

definition demo_req :: tool_call_request where
  "demo_req = \<lparr>r_method = ''tools/call'', r_name = ''x'', r_arguments = JNull,
               r_mcp_request_id = IdNumber 1\<rparr>"

definition demo_create :: "task_id \<Rightarrow> datetime \<Rightarrow> store_op" where
  "demo_create i now = OpCreate demo_ext i now demo_req demo_req (principal_new ''a'') None TA_Deny"

definition demo_ops :: "store_op list" where
  "demo_ops = [demo_create ''1'' 0, demo_create ''2'' 5,
     OpTransition 6 ''1'' InputRequired None, OpTransition 7 ''2'' InputRequired None,
     OpRecordApproval demo_ext 8 ''1'' AD_Approved ''bob'' 100]"

definition demo_store :: task_store where
  "demo_store = run_ops store_step (store_with_metrics demo_cfg) demo_ops"

section \<open>Shared facts\<close>

lemma wsum_pend: "wsum pend al = length (filter (\<lambda>(k, e). \<not> is_terminal (t_status (e_task e))) al)"
  by (induction al) (auto simp: pend_def)

lemma wsum_pend_key:
  "wsum (pend_key key) al =
     length (filter (\<lambda>(k, e). \<not> is_terminal (t_status (e_task e)) \<and>
                             rate_limit_key (t_principal (e_task e)) = key) al)"
  by (induction al) (auto simp: pend_key_def)

lemma wsum_pend_bytes:
  "wsum pend_bytes al =
     sum_list (map (\<lambda>(k, e). e_bytes e) (filter (\<lambda>(k, e). \<not> is_terminal (t_status (e_task e))) al))"
  by (induction al) (auto simp: pend_bytes_def)

text \<open>The stores a process can be in: a fresh store and any admissible operations on it.\<close>

definition reachable_store :: "store_config \<Rightarrow> task_store \<Rightarrow> bool" where
  "reachable_store cfg s \<longleftrightarrow> config_ok cfg \<and>
     (\<exists>ops. run_ok store_op_ok store_step (store_with_metrics cfg) ops \<and>
            s = run_ops store_step (store_with_metrics cfg) ops)"

lemma reachable_inv: "reachable_store cfg s \<Longrightarrow> store_inv s"
  unfolding reachable_store_def
  by (elim conjE exE) (simp add: store_sys.run_invar [OF store_inv_with_metrics])

lemma reachable_step: "reachable_store cfg s \<Longrightarrow> store_op_ok s x \<Longrightarrow> reachable_store cfg (store_step s x)"
  unfolding reachable_store_def
  by (elim conjE exE, intro conjI, assumption, rule_tac x = "ops @ [x]" in exI)
    (simp add: run_ops_append run_ok_append)

lemma reachable_demo: "reachable_store demo_cfg demo_store"
  unfolding reachable_store_def demo_store_def
  by (intro conjI exI [of _ demo_ops] refl) code_simp+

lemma inv_entryD:
  assumes "store_inv s" and "map_of (s_tasks s) k = Some e"
  shows "t_id (e_task e) = k" and "task_wf (e_task e)"
    and "e_terminal_at e \<noteq> None \<longleftrightarrow> is_terminal (t_status (e_task e))"
  using entry_ofD [OF assms] by (simp_all add: entry_ok_def)

section \<open>Counters, limits and index\<close>



lemma index_rows:
  assumes inv: "store_inv s"
  defines "rows key \<equiv> (case map_of (s_by_principal s) key of None \<Rightarrow> []
     | Some ids \<Rightarrow> List.map_filter (\<lambda>i. map_option e_task (map_of (s_tasks s) i)) ids)"
  shows "distinct (map t_id (rows key))"
    and "set (rows key) = {t. \<exists>k e. map_of (s_tasks s) k = Some e \<and> e_task e = t \<and>
                      rate_limit_key (t_principal t) = key}"
proof -
  have idx: "index_ok s" using inv by (simp add: store_inv_def)
  have "distinct (map t_id (rows key)) \<and> set (rows key) =
     {t. \<exists>k e. map_of (s_tasks s) k = Some e \<and> e_task e = t \<and> rate_limit_key (t_principal t) = key}"
  proof (cases "map_of (s_by_principal s) key")
    case None
    then show ?thesis using index_okD(4) [OF idx] by (fastforce simp: rows_def)
  next
    case (Some ids)
    have "\<forall>i\<in>set ids. \<exists>e. map_of (s_tasks s) i = Some e" using index_okD(3) [OF idx Some] by blast
    then have "map t_id (List.map_filter (\<lambda>i. map_option e_task (map_of (s_tasks s) i)) ids) = ids"
      using inv_entryD(1) [OF inv] by (induction ids) auto
    moreover have "distinct ids" using index_okD(2) [OF idx Some] by simp
    moreover have "set (rows key) = {e_task e | i e. i \<in> set ids \<and> map_of (s_tasks s) i = Some e}"
      using Some by (auto simp: rows_def set_map_filter)
    moreover have "i \<in> set ids \<and> map_of (s_tasks s) i = Some e \<longleftrightarrow>
        map_of (s_tasks s) i = Some e \<and> rate_limit_key (t_principal (e_task e)) = key" for i e
      using index_okD(3) [OF idx Some, of i] index_okD(4) [OF idx, of i e] Some by auto
    ultimately show ?thesis using Some by (auto simp: rows_def)
  qed
  then show "distinct (map t_id (rows key))"
    and "set (rows key) = {t. \<exists>k e. map_of (s_tasks s) k = Some e \<and> e_task e = t \<and>
                      rate_limit_key (t_principal t) = key}" by auto
qed

text \<open>In every reachable store the principal index and the task table describe the same
  tasks: asking for the tasks of a principal returns a window (offset, limit) of one list that
  holds exactly the stored tasks with that rate-limit key, each once, newest first.\<close>

lemma list_for_principal_exact:
  assumes "reachable_store cfg s"
  shows "\<exists>l. (\<forall>offset limit. list_for_principal p offset limit s = take limit (drop offset l)) \<and>
     distinct (map t_id l) \<and> sorted (map (\<lambda>t. - t_created_at t) l) \<and>
     set l = {t. \<exists>k e. map_of (s_tasks s) k = Some e \<and> e_task e = t \<and>
                      rate_limit_key (t_principal t) = rate_limit_key p}"
proof -
  let ?rows = "case map_of (s_by_principal s) (rate_limit_key p) of None \<Rightarrow> []
     | Some ids \<Rightarrow> List.map_filter (\<lambda>i. map_option e_task (map_of (s_tasks s) i)) ids"
  note rows = index_rows [OF reachable_inv [OF assms], of "rate_limit_key p"]
  have "list_for_principal p offset limit s =
      take limit (drop offset (sort_key (\<lambda>t. - t_created_at t) ?rows))" for offset limit
    by (simp add: list_for_principal_def Let_def split: option.splits)
  moreover have "distinct (map t_id (sort_key (\<lambda>t. - t_created_at t) ?rows))"
    using rows(1) by (simp add: distinct_map)
  ultimately show ?thesis
    using rows(2) by (intro exI [of _ "sort_key (\<lambda>t. - t_created_at t) ?rows"]) simp
qed

section \<open>The life of a task\<close>

text \<open>C8: Whatever admissible operations run after a task reached a state, as long as its
  identifier is not generated again: the task is either gone or still carries the same request,
  transformed request, hash, principal, time to live and expiry; its status only advances; a
  terminal status is final and, unless the task expired, nothing of the entry is ever written
  again; the approval of an executing task is fixed.\<close>

theorem task_evolution:
  assumes "run_ok store_op_ok store_step s ops" and "\<forall>x\<in>set ops. \<not> creates x k"
    and "map_of (s_tasks s) k = Some e"
    and "map_of (s_tasks (run_ops store_step s ops)) k = Some e'"
  shows "same_request (e_task e) (e_task e') \<and>
    status_rank (t_status (e_task e)) \<le> status_rank (t_status (e_task e')) \<and>
    (is_terminal (t_status (e_task e)) \<longrightarrow> t_status (e_task e') = t_status (e_task e)) \<and>
    (is_terminal (t_status (e_task e)) \<and> t_status (e_task e) \<noteq> Expired \<longrightarrow> e' = e) \<and>
    (t_status (e_task e) = Executing \<longrightarrow> t_approval (e_task e') = t_approval (e_task e))"
  using store_run_keeps [OF assms(1), of k] assms(2-4) by (auto simp: keeps_def evolves_def)

definition demo_tail :: "store_op list" where
  "demo_tail = [OpComplete 9 ''1'' \<lparr>res_content = JNull, res_is_error = False\<rparr>,
     OpCancel 10 ''1'', OpFail 11 ''1'' (shutdown_failure ''x''), OpExpireOverdue 700000000000]"

theorem task_evolution_witness:
  "\<exists>e e'. map_of (s_tasks demo_store) ''1'' = Some e \<and>
     map_of (s_tasks (run_ops store_step demo_store demo_tail)) ''1'' = Some e' \<and>
     t_status (e_task e) = Executing \<and> t_status (e_task e') = Completed \<and>
     t_approval (e_task e') = t_approval (e_task e)"
proof -
  have run: "run_ok store_op_ok store_step demo_store demo_tail" "\<forall>x\<in>set demo_tail. \<not> creates x ''1''"
    by code_simp+
  have "map_option (t_status \<circ> e_task) (map_of (s_tasks demo_store) ''1'') = Some Executing"
    "map_option (t_status \<circ> e_task)
      (map_of (s_tasks (run_ops store_step demo_store demo_tail)) ''1'') = Some Completed"
    by code_simp+
  then obtain e e' where e: "map_of (s_tasks demo_store) ''1'' = Some e"
    "map_of (s_tasks (run_ops store_step demo_store demo_tail)) ''1'' = Some e'"
    "t_status (e_task e) = Executing" "t_status (e_task e') = Completed" by auto
  then show ?thesis using task_evolution [OF run e(1,2)] by blast
qed

text \<open>In every reachable store each task carries a complete audit trail: its recorded
  transitions form a path of the state machine from \<open>Working\<close> to its status, apart from
  records of automatic approvals there are at most three of them, and no status is entered twice.
  A task has a terminal timestamp exactly when its status is terminal.\<close>

lemma audit_trail:
  assumes "reachable_store cfg s" and "map_of (s_tasks s) k = Some e"
  shows "trail Working (t_transitions (e_task e)) (t_status (e_task e)) \<and>
    length (filter (\<lambda>x. tr_from x \<noteq> Expired) (t_transitions (e_task e))) \<le> 3 \<and>
    distinct (Working # map tr_to (filter (\<lambda>x. tr_from x \<noteq> Expired) (t_transitions (e_task e)))) \<and>
    (e_terminal_at e \<noteq> None \<longleftrightarrow> is_terminal (t_status (e_task e)))"
proof -
  note d = inv_entryD [OF reachable_inv [OF assms(1)] assms(2)]
  have tr: "trail Working (t_transitions (e_task e)) (t_status (e_task e))"
    using d(2) by (simp add: task_wf_def)
  from status_run_length [OF trail_run [OF this]] status_run_distinct [OF trail_run [OF this]] tr d(3)
  show ?thesis by simp
qed

section \<open>Creation\<close>

text \<open>What an unsuccessful creation leaves: the same tasks and the same counts.\<close>

definition unreserved :: "task_store \<Rightarrow> task_store \<Rightarrow> bool" where
  "unreserved s s' \<longleftrightarrow> s_tasks s' = s_tasks s \<and> s_by_principal s' = s_by_principal s \<and>
     s_pending_count s' = s_pending_count s \<and> s_pending_bytes s' = s_pending_bytes s \<and>
     principal_count s' = principal_count s \<and> s_metrics s' = s_metrics s"

lemma unreserved_rollback:
  assumes "store_inv s" and "s_pending_count s < c_max_pending_global (s_config s)"
  shows "unreserved s (rollback key (reserve key s))"
  unfolding rollback_reserve [OF assms(2,1)] unreserved_def
  by (auto simp: principal_count_def fun_eq_iff AList.update_conv')

lemma unreserved_refl: "unreserved s s"
  by (simp add: unreserved_def)

definition requested_ttl :: "store_config \<Rightarrow> duration option \<Rightarrow> duration" where
  "requested_ttl cfg ttl_opt = (case ttl_opt of Some d \<Rightarrow> d | None \<Rightarrow> c_default_ttl cfg)"

definition stored ::
  "task \<Rightarrow> nat \<Rightarrow> string \<Rightarrow> task_store \<Rightarrow> task_store" where
  "stored t est key s =
     (let s4 = insert_entry (t_id t) \<lparr>e_task = t, e_terminal_at = None, e_notified = 0, e_bytes = est\<rparr>
                 key ((reserve key s)\<lparr>s_pending_bytes := s_pending_bytes s + est\<rparr>)
      in set_gauge (s_pending_count s4) s4)"

lemma create_unfold:
  assumes inv: "store_inv s" and ok: "create_ok E i orig s"
  shows "create E i now orig tr p ttl_opt ot s =
    (if s_pending_count s \<ge> c_max_pending_global (s_config s) then (s, RErr TE_CapacityExceeded)
     else if principal_count s (rate_limit_key p) \<ge> c_max_pending_per_principal (s_config s)
     then (rollback (rate_limit_key p) (reserve (rate_limit_key p) s),
           RErr (TE_RateLimited (rate_limit_key p) (from_secs 60)))
     else case task_new E i now orig tr p
                 (clamp (c_min_ttl (s_config s)) (c_max_ttl (s_config s))
                    (requested_ttl (s_config s) ttl_opt)) ot of
            Inl e \<Rightarrow> (rollback (rate_limit_key p) (reserve (rate_limit_key p) s), RErr (TE_Internal e))
          | Inr t \<Rightarrow>
              if s_pending_bytes s + estimate_bytes E (r_arguments orig) > c_max_pending_bytes (s_config s)
              then (rollback (rate_limit_key p) (reserve (rate_limit_key p) s), RErr TE_CapacityExceeded)
              else (stored t (estimate_bytes E (r_arguments orig)) (rate_limit_key p) s, ROk t))"
proof -
  have "\<not> c_max_ttl (s_config s) < c_min_ttl (s_config s)"
    using inv by (simp add: store_inv_def config_ok_def)
  moreover have "s_pending_bytes (reserve key s) = s_pending_bytes s" for key
    by (simp add: reserve_def set_principal_count_def)
  ultimately show ?thesis
    using estimate_small [OF ok inv]
    by (auto simp: create_def Let_def requested_ttl_def stored_def task_new_Inr(6)
        split: sum.splits)
qed

lemma stored_simps:
  assumes "s_pending_count s + 1 < usize_mod" and "principal_count s key + 1 < usize_mod"
  shows "map_of (s_tasks (stored t est key s)) (t_id t) =
      Some \<lparr>e_task = t, e_terminal_at = None, e_notified = 0, e_bytes = est\<rparr>"
    and "s_pending_count (stored t est key s) = s_pending_count s + 1"
    and "principal_count (stored t est key s) key = principal_count s key + 1"
    and "s_pending_bytes (stored t est key s) = s_pending_bytes s + est"
  using assms
  by (simp_all add: stored_def Let_def insert_entry_def reserve_def set_principal_count_def
      principal_count_def wadd_small AList.update_conv')

lemma task_new_Inl: "task_new E i now orig tr p ttl ot = Inl e \<longleftrightarrow> hash_request E tr = Inl e"
  by (auto simp: task_new_def Let_def split: sum.splits)

text \<open>C14: A refused creation gives back every reservation: tasks, index, counters and gauge are
  as before. The checks are made in the order global slot, slot of the principal, canonical form
  of the arguments (nesting depth), bytes, and each has its own error. Creation never panics.\<close>

theorem create_refused:
  assumes "store_inv s" and "create_ok E i original s"
    and "\<forall>t. snd (create E i now original transformed p ttl_opt ot s) \<noteq> ROk t"
  shows "unreserved s (fst (create E i now original transformed p ttl_opt ot s)) \<and>
     snd (create E i now original transformed p ttl_opt ot s) = RErr
        (if s_pending_count s \<ge> c_max_pending_global (s_config s) then TE_CapacityExceeded
         else if principal_count s (rate_limit_key p) \<ge> c_max_pending_per_principal (s_config s)
         then TE_RateLimited (rate_limit_key p) (from_secs 60)
         else case hash_request E transformed of
                Inl e \<Rightarrow> TE_Internal e | Inr _ \<Rightarrow> TE_CapacityExceeded)"
  using assms(3) unfolding create_unfold [OF assms(1,2)]
  by (auto simp: unreserved_refl unreserved_rollback [OF assms(1)] task_new_Inl
      dest: task_new_Inr(8) split: sum.splits if_splits)

theorem create_refused_witness:
  "unreserved demo_store (fst (create demo_ext ''3'' 20 demo_req demo_req (principal_new ''a'') None
      TA_Deny demo_store)) \<and>
   snd (create demo_ext ''3'' 20 demo_req demo_req (principal_new ''a'') None TA_Deny demo_store) =
     RErr (TE_RateLimited ''a'' (from_secs 60))"
proof -
  have ok: "create_ok demo_ext ''3'' demo_req demo_store" by code_simp
  have "snd (create demo_ext ''3'' 20 demo_req demo_req (principal_new ''a'') None TA_Deny demo_store) =
     RErr (TE_RateLimited ''a'' (from_secs 60))" by code_simp
  then show ?thesis
    using create_refused [OF reachable_inv [OF reachable_demo] ok,
        of 20 demo_req "principal_new ''a''" None TA_Deny] by simp
qed

text \<open>Creation succeeds exactly when a global slot and a slot of the principal are free, the
  transformed arguments have a canonical form and the bytes fit. The created task is
  \<open>Working\<close> with an empty trail, is stored under its identifier, is bound to the hash of
  the transformed request, takes one slot of each counter, and its time to live is the requested
  (or default) one clamped to the configured bounds.\<close>

lemma create_accepted:
  assumes "store_inv s" and "create_ok E i original s"
    and "s_pending_count s < c_max_pending_global (s_config s)"
    and "principal_count s (rate_limit_key p) < c_max_pending_per_principal (s_config s)"
    and "hash_request E transformed = Inr h"
    and "s_pending_bytes s + estimate_bytes E (r_arguments original) \<le> c_max_pending_bytes (s_config s)"
  shows "\<exists>t s'. create E i now original transformed p ttl_opt ot s = (s', ROk t) \<and> get i s' = Inr t \<and>
     t_id t = i \<and> t_status t = Working \<and> t_transitions t = [] \<and> t_principal t = p \<and>
     t_original_request t = original \<and> t_pre_approval_transformed t = transformed \<and>
     t_request_hash t = h \<and> t_created_at t = now \<and>
     t_ttl t = max (c_min_ttl (s_config s)) (min (c_max_ttl (s_config s)) (requested_ttl (s_config s) ttl_opt)) \<and>
     s_pending_count s' = s_pending_count s + 1 \<and>
     principal_count s' (rate_limit_key p) = principal_count s (rate_limit_key p) + 1 \<and>
     s_pending_bytes s' = s_pending_bytes s + estimate_bytes E (r_arguments original)"
proof -
  let ?ttl = "clamp (c_min_ttl (s_config s)) (c_max_ttl (s_config s)) (requested_ttl (s_config s) ttl_opt)"
  have cfg: "config_ok (s_config s)" using assms(1) by (simp add: store_inv_def)
  then have small: "s_pending_count s + 1 < usize_mod" "principal_count s (rate_limit_key p) + 1 < usize_mod"
    using assms(3,4) by (auto simp: config_ok_def)
  obtain t where t: "task_new E i now original transformed p ?ttl ot = Inr t"
    using assms(5) task_new_Inl [of E i now original transformed p ?ttl ot]
    by (cases "task_new E i now original transformed p ?ttl ot") auto
  note f = task_new_Inr [OF t]
  have "?ttl = max (c_min_ttl (s_config s)) (min (c_max_ttl (s_config s)) (requested_ttl (s_config s) ttl_opt))"
    using cfg by (auto simp: clamp_def config_ok_def)
  moreover have "create E i now original transformed p ttl_opt ot s =
      (stored t (estimate_bytes E (r_arguments original)) (rate_limit_key p) s, ROk t)"
    unfolding create_unfold [OF assms(1,2)] using assms(3,4,6) t by simp
  ultimately show ?thesis
    using f assms(5) stored_simps [OF small, of t] by (simp add: get_def)
qed

end
