(* ===== verification/Store_Theorems2.thy ===== *)
theory Store_Theorems2
  imports Store_Theorems
begin

text \<open>
  Theorems on the operations of the task store that decide, end and remove tasks.
\<close>

section \<open>Decisions and cancellation\<close>

lemma record_approval_success:
  assumes "record_approval E now k d who valid_for s = (s', Inr t)"
  obtains e e' where "map_of (s_tasks s) k = Some e" and "s' = settle now k e t s"
    and "e_task e' = t" and "s_tasks s' = AList.update k e' (s_tasks s)"
    and "t_status t = fst (decision_transition d)" and "t_status t \<noteq> InputRequired"
    and "t_approval t = Some (approval_of E now d who valid_for)"
proof -
  from assms obtain e t1 where e: "map_of (s_tasks s) k = Some e"
    and t1: "t1 = (e_task e)\<lparr>t_approval := Some (approval_of E now d who valid_for)\<rparr>"
    and tr: "task_transition now (fst (decision_transition d)) (snd (decision_transition d)) t1 = Inr t"
    and s': "s' = settle now k e t s"
    by (auto simp: record_approval_def Let_def split: option.splits if_splits sum.splits)
  note f = task_transition_Inr [OF tr]
  obtain e' where e': "e_task e' = t" "s_tasks s' = AList.update k e' (s_tasks s)"
    using settle_tasks s' by blast
  have "t_status t \<noteq> InputRequired" using f(3) by (cases d) (auto simp: decision_transition_def)
  then show thesis using that e e' s' f(3,5) t1 by simp
qed

text \<open>A decision is recorded at most once. When recording a decision succeeds, the stored task
  holds exactly that decision, made by that person, is executing if it was an approval and
  rejected otherwise, and every later decision on the task is refused and changes nothing.\<close>

lemma decision_recorded_once:
  assumes "record_approval E now k d who valid_for s = (s', Inr t)"
  shows "get k s' = Inr t \<and>
    t_status t = (case d of AD_Approved \<Rightarrow> Executing | AD_Rejected _ \<Rightarrow> Rejected) \<and>
    t_approval t = Some \<lparr>a_decision = d, a_decided_by = who, a_decided_at = now,
      a_valid_until = now + (case x_from_std E valid_for of Some n \<Rightarrow> n | None \<Rightarrow> 0),
      a_metadata = None\<rparr> \<and>
    record_approval E' now' k d' who' valid_for' s' =
      (s', Inl (TE_ConcurrentModification k InputRequired (t_status t)))"
  using assms
  by (rule record_approval_success)
    (cases d, auto simp: record_approval_def get_def AList.update_conv' decision_transition_def
        approval_of_def split: option.splits)

text \<open>Cancelling works exactly on tasks that wait for a decision and is idempotent: a second
  cancellation returns the same task and leaves the store as it is. On every other status it
  changes nothing and returns the error of that status.\<close>

lemma cancel_spec:
  assumes "map_of (s_tasks s) k = Some e"
  shows "case t_status (e_task e) of
      InputRequired \<Rightarrow> \<exists>s' t. cancel now k s = (s', Inr t) \<and> t_status t = Cancelled \<and>
        get k s' = Inr t \<and> same_request (e_task e) t \<and> cancel now' k s' = (s', Inr t)
    | Cancelled \<Rightarrow> cancel now k s = (s, Inr (e_task e))
    | Working \<Rightarrow> cancel now k s = (s, Inl (TE_InvalidTransition k Working Cancelled))
    | Executing \<Rightarrow> cancel now k s = (s, Inl (TE_InvalidTransition k Executing Cancelled))
    | st \<Rightarrow> cancel now k s = (s, Inl (TE_AlreadyTerminal k st))"
proof (cases "t_status (e_task e) = InputRequired")
  case True
  then obtain t where tr: "task_transition now Cancelled (Some ''Cancelled by agent'') (e_task e) = Inr t"
    using task_transition_ok [of "e_task e" Cancelled] by auto
  note f = task_transition_Inr [OF tr]
  obtain e' where e': "e_task e' = t" "s_tasks (settle now k e t s) = AList.update k e' (s_tasks s)"
    using settle_tasks by blast
  have "cancel now k s = (settle now k e t s, Inr t)"
    using assms True tr by (simp add: cancel_def)
  moreover have "cancel now' k (settle now k e t s) = (settle now k e t s, Inr t)"
    using e' f(3) by (simp add: cancel_def AList.update_conv')
  ultimately show ?thesis using True e' f by (simp add: get_def AList.update_conv')
next
  case False
  then show ?thesis using assms by (cases "t_status (e_task e)") (simp_all add: cancel_def)
qed

section \<open>Bulk operations\<close>

lemma expired_row_unfold:
  "expired_row now e =
     (if due now e
      then e\<lparr>e_task := (e_task e)\<lparr>t_status := Expired,
               t_transitions := t_transitions (e_task e) @
                 [\<lparr>tr_from = t_status (e_task e), tr_to = Expired, tr_at = now,
                   tr_reason = Some ''TTL exceeded''\<rparr>],
               t_poll_interval := from_secs 2\<rparr>,
             e_terminal_at := Some now, e_notified := Suc (e_notified e)\<rparr>
      else e)"
proof (cases "due now e")
  case True
  then have "can_transition_to (t_status (e_task e)) Expired" "\<not> is_terminal (t_status (e_task e))"
    "compute_poll_interval (remaining_ttl now (e_task e)) = from_secs 2"
    by (auto simp: due_def remaining_ttl_def compute_poll_interval_def as_secs_def)
  then show ?thesis using True by (simp add: expired_row_def task_transition_def ended_def)
qed (simp add: expired_row_def)

text \<open>Expiring overdue tasks ends exactly the tasks that are \<open>Working\<close> or
  \<open>InputRequired\<close> and past their expiry: each gets status \<open>Expired\<close>, the
  terminal timestamp and one wake-up of its waiters; every other task, in particular one that is
  executing, stays as it is. The returned number is the number of tasks expired.\<close>

lemma expire_overdue_exact:
  assumes "reachable_store cfg s"
  shows "map_of (s_tasks (fst (expire_overdue now s))) k =
     (case map_of (s_tasks s) k of None \<Rightarrow> None | Some e \<Rightarrow>
        Some (if t_status (e_task e) \<in> {Working, InputRequired} \<and> now > t_expires_at (e_task e)
              then e\<lparr>e_task := (e_task e)\<lparr>t_status := Expired,
                       t_transitions := t_transitions (e_task e) @
                         [\<lparr>tr_from = t_status (e_task e), tr_to = Expired, tr_at = now,
                           tr_reason = Some ''TTL exceeded''\<rparr>],
                       t_poll_interval := from_secs 2\<rparr>,
                     e_terminal_at := Some now, e_notified := Suc (e_notified e)\<rparr>
              else e)) \<and>
   snd (expire_overdue now s) =
     length (filter (\<lambda>(k, e). t_status (e_task e) \<in> {Working, InputRequired} \<and>
                             now > t_expires_at (e_task e)) (s_tasks s))"
proof
  note rows = expire_overdue_rows [OF reachable_inv [OF assms]]
  show "map_of (s_tasks (fst (expire_overdue now s))) k =
     (case map_of (s_tasks s) k of None \<Rightarrow> None | Some e \<Rightarrow>
        Some (if t_status (e_task e) \<in> {Working, InputRequired} \<and> now > t_expires_at (e_task e)
              then e\<lparr>e_task := (e_task e)\<lparr>t_status := Expired,
                       t_transitions := t_transitions (e_task e) @
                         [\<lparr>tr_from = t_status (e_task e), tr_to = Expired, tr_at = now,
                           tr_reason = Some ''TTL exceeded''\<rparr>],
                       t_poll_interval := from_secs 2\<rparr>,
                     e_terminal_at := Some now, e_notified := Suc (e_notified e)\<rparr>
              else e))"
    unfolding rows(1) expired_row_unfold due_def by (cases "map_of (s_tasks s) k") simp_all
  show "snd (expire_overdue now s) =
     length (filter (\<lambda>(k, e). t_status (e_task e) \<in> {Working, InputRequired} \<and>
                             now > t_expires_at (e_task e)) (s_tasks s))"
    unfolding rows(2) due_def by simp
qed

text \<open>Failing all pending tasks at shutdown fails the tasks that are \<open>Working\<close> or
  \<open>Executing\<close>. A task that waits for a decision does not become terminal: it keeps its
  status, its trail and its slots, only the failure is written into it, and it is not counted in
  the returned number.\<close>

lemma fail_all_pending_exact:
  assumes "reachable_store cfg s" and "map_of (s_tasks s) k = Some e"
  shows "(\<exists>e'. map_of (s_tasks (fst (fail_all_pending now why s))) k = Some e' \<and>
     (case t_status (e_task e) of
        InputRequired \<Rightarrow> e' = e\<lparr>e_task := (e_task e)\<lparr>t_failure := Some (shutdown_failure why)\<rparr>\<rparr>
      | Working \<Rightarrow> t_status (e_task e') = Failed \<and> e_terminal_at e' = Some now \<and>
          t_failure (e_task e') = Some (shutdown_failure why)
      | Executing \<Rightarrow> t_status (e_task e') = Failed \<and> e_terminal_at e' = Some now \<and>
          t_failure (e_task e') = Some (shutdown_failure why)
      | _ \<Rightarrow> e' = e)) \<and>
    snd (fail_all_pending now why s) =
     length (filter (\<lambda>(k, e). t_status (e_task e) \<in> {Working, Executing}) (s_tasks s))"
proof -
  note rows = fail_all_pending_rows [OF reachable_inv [OF assms(1)]]
  have "map_of (s_tasks (fst (fail_all_pending now why s))) k =
      Some (failed_row now (shutdown_failure why) e)"
    using rows(1) assms(2) by simp
  moreover have "snd (fail_all_pending now why s) =
      length (filter (\<lambda>(k, e). t_status (e_task e) \<in> {Working, Executing}) (s_tasks s))"
    unfolding rows(2) failable_def by simp
  ultimately show ?thesis
    by (cases "t_status (e_task e)")
      (simp_all add: failed_row_def Let_def task_transition_def ended_def)
qed

text \<open>Cleanup removes exactly the tasks that have been terminal for longer than the grace
  period, whatever else is stored; no task that is still pending is ever removed, and the returned
  number is the number of tasks removed.\<close>

lemma cleanup_terminal_exact:
  assumes "reachable_store cfg s"
  shows "map_of (s_tasks (fst (cleanup_terminal E now s))) k =
     (case map_of (s_tasks s) k of None \<Rightarrow> None | Some e \<Rightarrow>
        if is_terminal (t_status (e_task e)) \<and>
           now - the (e_terminal_at e) >
             (case x_from_std E (c_terminal_grace_period (s_config s)) of Some d \<Rightarrow> d | None \<Rightarrow> 0)
        then None else Some e) \<and>
   snd (cleanup_terminal E now s) = length (filter (\<lambda>(k, e). past_grace E now (s_config s) e) (s_tasks s))"
proof -
  note inv = reachable_inv [OF assms]
  have "past_grace E now (s_config s) e \<longleftrightarrow> is_terminal (t_status (e_task e)) \<and>
      now - the (e_terminal_at e) >
        (case x_from_std E (c_terminal_grace_period (s_config s)) of Some d \<Rightarrow> d | None \<Rightarrow> 0)"
    if "map_of (s_tasks s) k = Some e" for e
    using inv_entryD(3) [OF inv that] by (cases "e_terminal_at e") (simp_all add: past_grace_def)
  then show ?thesis
    using cleanup_terminal_rows [OF inv, of E now] by (cases "map_of (s_tasks s) k") simp_all
qed

end
