(* ===== verification/Scheduler.thy ===== *)
theory Scheduler
  imports Store_Theorems2 TG_Error "HOL-Library.Product_Lexorder"
begin

text \<open>
  The approval adapter contract of \<open>governance/approval/mod.rs\<close> and the polling scheduler of
  \<open>governance/approval/scheduler.rs\<close>. The external messaging service is behind the
  \<open>ApprovalAdapter\<close> trait: what it answers is an argument. \<open>poll_next\<close> suspends
  while it waits for the adapter, so it is split there: \<open>poll_begin\<close> takes a task out of the
  queue, \<open>poll_finish\<close> treats the answer, and the pair in between is the poll in flight.
\<close>

declare map_of_eq_Some_iff [simp del]

section \<open>Adapter types\<close>

record approval_request =
  aq_task_id :: task_id
  aq_tool_name :: string
  aq_tool_arguments :: json
  aq_principal :: principal
  aq_expires_at :: datetime
  aq_created_at :: datetime
  aq_correlation_id :: string
  aq_redact_fields :: "string list"

record approval_reference =
  ar_task_id :: task_id
  ar_external_id :: string
  ar_channel :: string
  ar_posted_at :: datetime
  ar_next_poll_at :: instant
  ar_poll_count :: "32 word"

datatype poll_decision = PollApproved | PollRejected

datatype decision_method = DM_Reaction string | DM_Reply string

definition dquote :: string where
  "dquote = [CHR 0x22]"

text \<open>\<open>byte_len\<close> is \<open>str::len\<close>, the length in bytes; \<open>take\<close> counts characters.\<close>

fun decision_description :: "(string \<Rightarrow> nat) \<Rightarrow> decision_method \<Rightarrow> string" where
  "decision_description byte_len (DM_Reaction emoji) = '':'' @ emoji @ '': reaction''"
| "decision_description byte_len (DM_Reply txt) =
     (let preview = take 30 txt in
      if byte_len txt > 30 then ''reply '' @ dquote @ preview @ ''...'' @ dquote
      else ''reply '' @ dquote @ preview @ dquote)"

record poll_result =
  po_decision :: poll_decision
  po_decided_by :: string
  po_decided_at :: datetime
  po_method :: decision_method

datatype adapter_error =
    AE_PostFailed string bool
  | AE_PollFailed string bool
  | AE_RateLimited duration
  | AE_InvalidToken
  | AE_ChannelNotFound string
  | AE_MessageNotFound string

fun adapter_is_retriable :: "adapter_error \<Rightarrow> bool" where
  "adapter_is_retriable (AE_PostFailed _ retriable) = retriable"
| "adapter_is_retriable (AE_PollFailed _ retriable) = retriable"
| "adapter_is_retriable (AE_RateLimited _) = True"
| "adapter_is_retriable AE_InvalidToken = False"
| "adapter_is_retriable (AE_ChannelNotFound _) = False"
| "adapter_is_retriable (AE_MessageNotFound _) = False"

section \<open>Configuration\<close>

record polling_config =
  po_base_interval :: duration
  po_max_interval :: duration
  po_max_concurrent :: nat
  po_approval_valid_for :: duration

definition polling_config_default :: polling_config where
  "polling_config_default = \<lparr>po_base_interval = from_secs 5, po_max_interval = from_secs 30,
     po_max_concurrent = 100, po_approval_valid_for = from_secs 60\<rparr>"

definition env_parsed :: "(string \<Rightarrow> 'a option) \<Rightarrow> string option \<Rightarrow> 'a option" where
  "env_parsed parse v = Option.bind v parse"

definition polling_config_from_env ::
  "(string \<Rightarrow> nat option) \<Rightarrow> (string \<Rightarrow> string option) \<Rightarrow> polling_config" where
  "polling_config_from_env parse env =
     \<lparr>po_base_interval =
        (case env_parsed parse (env ''THOUGHTGATE_APPROVAL_POLL_INTERVAL_SECS'') of
           Some n \<Rightarrow> from_secs n | None \<Rightarrow> from_secs 5),
      po_max_interval =
        (case env_parsed parse (env ''THOUGHTGATE_APPROVAL_POLL_MAX_INTERVAL_SECS'') of
           Some n \<Rightarrow> from_secs n | None \<Rightarrow> from_secs 30),
      po_max_concurrent =
        (case env_parsed parse (env ''THOUGHTGATE_MAX_CONCURRENT_POLLS'') of
           Some n \<Rightarrow> n | None \<Rightarrow> 100),
      po_approval_valid_for = from_secs 60\<rparr>"

definition backoff_interval :: "polling_config \<Rightarrow> 32 word \<Rightarrow> duration" where
  "backoff_interval cfg poll_count =
     (let factor = 2 ^ min (unat poll_count) 3;
          interval = saturating_mul (po_base_interval cfg) factor
      in min interval (po_max_interval cfg))"

section \<open>State and operations\<close>

record scheduler =
  sc_pending :: "(instant \<times> task_id) list"   \<comment> \<open>keys of a \<open>BTreeMap\<close>, in order\<close>
  sc_references :: "(task_id \<times> approval_reference) list"
  sc_config :: polling_config
  sc_store :: task_store

type_synonym flight = "(task_id \<times> approval_reference) option"

definition scheduler_new :: "task_store \<Rightarrow> polling_config \<Rightarrow> scheduler" where
  "scheduler_new store cfg =
     \<lparr>sc_pending = [], sc_references = [], sc_config = cfg, sc_store = store\<rparr>"

text \<open>Inserting a reference and its due time, as \<open>submit\<close> and \<open>reschedule\<close> do.\<close>

definition reschedule :: "task_id \<Rightarrow> approval_reference \<Rightarrow> scheduler \<Rightarrow> scheduler" where
  "reschedule k r s =
     s\<lparr>sc_references := AList.update k r (sc_references s),
       sc_pending := insort_insert (ar_next_poll_at r, k) (sc_pending s)\<rparr>"

text \<open>\<open>post\<close> is the adapter's answer to the posted request.\<close>

definition submit ::
  "(approval_request \<Rightarrow> adapter_error + approval_reference) \<Rightarrow> approval_request \<Rightarrow> scheduler \<Rightarrow>
   scheduler \<times> (adapter_error + unit)" where
  "submit post request s =
     (if length (sc_references s) \<ge> po_max_concurrent (sc_config s)
      then (s, Inl (AE_RateLimited (from_secs 5)))
      else case post request of
             Inl e \<Rightarrow> (s, Inl e)
           | Inr reference \<Rightarrow> (reschedule (ar_task_id reference) reference s, Inr ()))"

definition drop_reference :: "task_id \<Rightarrow> scheduler \<Rightarrow> scheduler" where
  "drop_reference k s = s\<lparr>sc_references := AList.delete k (sc_references s)\<rparr>"

definition get_next_due ::
  "instant \<Rightarrow> scheduler \<Rightarrow> scheduler \<times> (task_id \<times> approval_reference) option" where
  "get_next_due now s =
     (case sc_pending s of
        [] \<Rightarrow> (s, None)
      | (next_poll_at, k) # rest \<Rightarrow>
          if next_poll_at > now then (s, None)
          else (s\<lparr>sc_pending := rest\<rparr>, map_option (Pair k) (map_of (sc_references s) k)))"

definition poll_begin :: "instant \<Rightarrow> datetime \<Rightarrow> scheduler \<Rightarrow> scheduler \<times> flight" where
  "poll_begin now_i now s =
     (case get_next_due now_i s of
        (s1, None) \<Rightarrow> (s1, None)
      | (s1, Some (k, reference)) \<Rightarrow>
          (case get k (sc_store s1) of
             Inl _ \<Rightarrow> (drop_reference k s1, None)
           | Inr t \<Rightarrow>
               if is_terminal (t_status t) then (drop_reference k s1, None)
               else if is_expired now t then
                 ((drop_reference k s1)\<lparr>sc_store :=
                    fst (transition now k Expired (Some ''TTL exceeded'') (sc_store s1))\<rparr>, None)
               else (s1, Some (k, reference))))"

definition reschedule_with_backoff ::
  "instant \<Rightarrow> task_id \<Rightarrow> approval_reference \<Rightarrow> scheduler \<Rightarrow> scheduler" where
  "reschedule_with_backoff now_i k r s =
     reschedule k (r\<lparr>ar_next_poll_at :=
                      now_i + backoff_interval (sc_config s) (ar_poll_count r)\<rparr>) s"

definition decision_of :: "(string \<Rightarrow> nat) \<Rightarrow> poll_result \<Rightarrow> approval_decision" where
  "decision_of byte_len pr =
     (case po_decision pr of
        PollApproved \<Rightarrow> AD_Approved
      | PollRejected \<Rightarrow> AD_Rejected (Some (''Rejected via '' @
          decision_description byte_len (po_method pr) @ '' by '' @ po_decided_by pr)))"

definition handle_decision ::
  "ext \<Rightarrow> (string \<Rightarrow> nat) \<Rightarrow> datetime \<Rightarrow> task_id \<Rightarrow> poll_result \<Rightarrow> scheduler \<Rightarrow> scheduler" where
  "handle_decision E byte_len now k pr s =
     (let s1 = drop_reference k s
      in s1\<lparr>sc_store := fst (record_approval E now k (decision_of byte_len pr) (po_decided_by pr)
                              (po_approval_valid_for (sc_config s1)) (sc_store s1))\<rparr>)"

definition poll_finish ::
  "ext \<Rightarrow> (string \<Rightarrow> nat) \<Rightarrow> instant \<Rightarrow> datetime \<Rightarrow> task_id \<Rightarrow> approval_reference \<Rightarrow>
   adapter_error + poll_result option \<Rightarrow> scheduler \<Rightarrow> scheduler" where
  "poll_finish E byte_len now_i now k reference outcome s =
     (let bumped = reference\<lparr>ar_poll_count := ar_poll_count reference + 1\<rparr> in
      case outcome of
        Inr (Some poll_result) \<Rightarrow> handle_decision E byte_len now k poll_result s
      | Inr None \<Rightarrow> reschedule_with_backoff now_i k bumped s
      | Inl (AE_RateLimited after) \<Rightarrow>
          reschedule k (bumped\<lparr>ar_next_poll_at := now_i + after\<rparr>) s
      | Inl (AE_MessageNotFound _) \<Rightarrow> drop_reference k s
      | Inl e \<Rightarrow> if adapter_is_retriable e then reschedule_with_backoff now_i k bumped s
                else drop_reference k s)"

text \<open>An uninterrupted \<open>poll_next\<close>.\<close>

definition poll_next ::
  "ext \<Rightarrow> (string \<Rightarrow> nat) \<Rightarrow> instant \<Rightarrow> datetime \<Rightarrow>
   (approval_reference \<Rightarrow> adapter_error + poll_result option) \<Rightarrow> scheduler \<Rightarrow> scheduler" where
  "poll_next E byte_len now_i now poll s =
     (case poll_begin now_i now s of
        (s1, None) \<Rightarrow> s1
      | (s1, Some (k, r)) \<Rightarrow> poll_finish E byte_len now_i now k r (poll r) s1)"

text \<open>\<open>cancel\<close> and \<open>drain_pending\<close> also return what the adapter is told to cancel.\<close>

definition sched_cancel :: "task_id \<Rightarrow> scheduler \<Rightarrow> scheduler \<times> approval_reference list" where
  "sched_cancel k s =
     (case map_of (sc_references s) k of
        None \<Rightarrow> (s, [])
      | Some r \<Rightarrow> (drop_reference k s, [r]))"

definition drain_one :: "scheduler \<times> approval_reference list \<Rightarrow> task_id \<Rightarrow>
  scheduler \<times> approval_reference list" where
  "drain_one acc k =
     (case map_of (sc_references (fst acc)) k of
        None \<Rightarrow> acc
      | Some r \<Rightarrow> (drop_reference k (fst acc), snd acc @ [r]))"

definition drain_pending :: "scheduler \<Rightarrow> scheduler \<times> approval_reference list" where
  "drain_pending s = foldl drain_one (s, []) (map fst (sc_references s))"

text \<open>The periodic sweep of \<open>run\<close> and its final sweep and drain.\<close>

definition sweep :: "datetime \<Rightarrow> scheduler \<Rightarrow> scheduler" where
  "sweep now s = s\<lparr>sc_store := fst (expire_overdue now (sc_store s))\<rparr>"

definition run_shutdown :: "datetime \<Rightarrow> scheduler \<Rightarrow> scheduler \<times> approval_reference list" where
  "run_shutdown now s = drain_pending (sweep now s)"

section \<open>The scheduler loop\<close>

text \<open>
  One step of the loop or of the task store beside it. The loop selects, in this order, over
  shutdown, the sweep timer and \<open>poll_next\<close>; a sweep that becomes due while a poll is in
  flight drops the suspended \<open>poll_next\<close> (\<open>loop_interrupt\<close>). The first argument
  says whether that may happen.
\<close>

inductive loop_step :: "bool \<Rightarrow> scheduler \<times> flight \<Rightarrow> scheduler \<times> flight \<Rightarrow> bool"
  for drops :: bool where
  loop_begin: "loop_step drops (s, None) (poll_begin now_i now s)"
| loop_finish: "loop_step drops (s, Some (k, r)) (poll_finish E byte_len now_i now k r answer s, None)"
| loop_sweep: "loop_step drops (s, None) (sweep now s, None)"
| loop_interrupt: "drops \<Longrightarrow> loop_step drops (s, Some x) (sweep now s, None)"
| loop_store: "loop_step drops (s, f) (s\<lparr>sc_store := store_step (sc_store s) x\<rparr>, f)"

text \<open>The loop together with the calls made by other components.\<close>

inductive sched_step :: "bool \<Rightarrow> scheduler \<times> flight \<Rightarrow> scheduler \<times> flight \<Rightarrow> bool"
  for drops :: bool where
  step_loop: "loop_step drops c c' \<Longrightarrow> sched_step drops c c'"
| step_submit: "sched_step drops (s, f) (fst (submit post request s), f)"
| step_cancel: "sched_step drops (s, f) (fst (sched_cancel k s), f)"

section \<open>No approval is forgotten\<close>

definition queued :: "scheduler \<Rightarrow> task_id \<Rightarrow> approval_reference \<Rightarrow> bool" where
  "queued s k r \<longleftrightarrow> (ar_next_poll_at r, k) \<in> set (sc_pending s)"

definition sched_ok :: "scheduler \<times> flight \<Rightarrow> bool" where
  "sched_ok c \<longleftrightarrow> keys_distinct (sc_references (fst c)) \<and>
     sorted (sc_pending (fst c)) \<and> distinct (sc_pending (fst c)) \<and>
     (\<forall>k r. map_of (sc_references (fst c)) k = Some r \<longrightarrow>
        queued (fst c) k r \<or> map_option fst (snd c) = Some k)"

lemma sched_ok_new: "sched_ok (scheduler_new store cfg, None)"
  by (simp add: sched_ok_def scheduler_new_def)

lemma reschedule_simps [simp]:
  "sc_references (reschedule k r s) = AList.update k r (sc_references s)"
  "sc_pending (reschedule k r s) = insort_insert (ar_next_poll_at r, k) (sc_pending s)"
  "sc_store (reschedule k r s) = sc_store s" "sc_config (reschedule k r s) = sc_config s"
  by (simp_all add: reschedule_def)

lemma drop_reference_simps [simp]:
  "sc_references (drop_reference k s) = AList.delete k (sc_references s)"
  "sc_pending (drop_reference k s) = sc_pending s"
  "sc_store (drop_reference k s) = sc_store s" "sc_config (drop_reference k s) = sc_config s"
  by (simp_all add: drop_reference_def)

lemma reschedule_ok:
  assumes "sched_ok (s, f)" and "f' = f \<or> map_option fst f = Some k"
  shows "sched_ok (reschedule k r s, f')"
  using assms
  by (auto simp: sched_ok_def queued_def AList.update_conv' AList.distinct_update set_insort_insert
      sorted_insort_insert distinct_insort_insert)

lemma drop_ok:
  assumes "sched_ok (s, f)" and "f' = f \<or> map_option fst f = Some k"
  shows "sched_ok (drop_reference k s, f')"
  using assms
  by (auto simp: sched_ok_def queued_def AList.delete_conv' AList.distinct_delete)

lemma store_ok: "sched_ok (s, f) \<Longrightarrow> sched_ok (s\<lparr>sc_store := st\<rparr>, f)"
  by (simp add: sched_ok_def queued_def)

lemma submit_ok: "sched_ok (s, f) \<Longrightarrow> sched_ok (fst (submit post request s), f)"
  by (auto simp: submit_def intro: reschedule_ok split: sum.splits)

lemma sched_cancel_ok: "sched_ok (s, f) \<Longrightarrow> sched_ok (fst (sched_cancel k s), f)"
  by (auto simp: sched_cancel_def intro: drop_ok split: option.splits)

lemma poll_finish_ok:
  assumes "sched_ok (s, Some (k, r))"
  shows "sched_ok (poll_finish E bl ni n k r a s, None)"
  using assms
  by (auto simp: poll_finish_def reschedule_with_backoff_def handle_decision_def Let_def
      intro!: reschedule_ok [OF assms] drop_ok [OF assms] store_ok
      split: sum.splits option.splits adapter_error.splits)

lemma get_next_due_ok:
  assumes "sched_ok (s, None)" and "get_next_due now s = (s1, f)"
  shows "sched_ok (s1, f) \<and> sc_references s1 = sc_references s \<and> sc_store s1 = sc_store s"
  using assms
  by (auto simp: get_next_due_def sched_ok_def queued_def split: list.splits if_splits prod.splits)
    (metis option.distinct(1))+

lemma poll_begin_ok:
  assumes "sched_ok (s, None)"
  shows "sched_ok (poll_begin ni n s)"
proof (cases "get_next_due ni s")
  case (Pair s1 f)
  note g = get_next_due_ok [OF assms Pair]
  show ?thesis
  proof (cases f)
    case None
    then show ?thesis using g Pair by (simp add: poll_begin_def)
  next
    case (Some x)
    obtain k r where x: "x = (k, r)" by (cases x)
    have d: "sched_ok (drop_reference k s1, None)"
      using g Some x by (intro drop_ok [of s1 f]) auto
    then show ?thesis
      using g Pair Some x store_ok [OF d] by (auto simp: poll_begin_def split: sum.splits)
  qed
qed

lemma loop_step_ok: "loop_step False c c' \<Longrightarrow> sched_ok c \<Longrightarrow> sched_ok c'"
  by (induction rule: loop_step.induct)
    (auto simp: sweep_def intro: poll_begin_ok poll_finish_ok store_ok)

lemma sched_step_ok: "sched_step False c c' \<Longrightarrow> sched_ok c \<Longrightarrow> sched_ok c'"
  by (induction rule: sched_step.induct) (auto intro: loop_step_ok submit_ok sched_cancel_ok)


definition demo_reference :: approval_reference where
  "demo_reference = \<lparr>ar_task_id = ''2'', ar_external_id = ''ts'', ar_channel = ''c'',
     ar_posted_at = 0, ar_next_poll_at = 5, ar_poll_count = 0\<rparr>"

definition demo_approval_request :: approval_request where
  "demo_approval_request = \<lparr>aq_task_id = ''2'', aq_tool_name = ''x'', aq_tool_arguments = JNull,
     aq_principal = principal_new ''a'', aq_expires_at = 0, aq_created_at = 0,
     aq_correlation_id = ''c'', aq_redact_fields = []\<rparr>"

definition demo_sched :: scheduler where
  "demo_sched = fst (submit (\<lambda>_. Inr demo_reference) demo_approval_request
     (scheduler_new demo_store polling_config_default))"

lemma demo_sched_reach:
  "(sched_step d)\<^sup>*\<^sup>* (scheduler_new demo_store polling_config_default, None) (demo_sched, None)"
  unfolding demo_sched_def by (rule r_into_rtranclp) (rule step_submit)

lemma demo_sched_ref: "map_of (sc_references demo_sched) ''2'' = Some demo_reference"
  by (simp add: demo_sched_def submit_def scheduler_new_def polling_config_default_def
      demo_reference_def)


text \<open>
  A forgotten approval: the reference is kept, but it is neither queued nor in flight.
\<close>

definition forgotten :: "scheduler \<times> flight \<Rightarrow> task_id \<Rightarrow> bool" where
  "forgotten c k \<longleftrightarrow> (\<exists>r. map_of (sc_references (fst c)) k = Some r) \<and>
     k \<notin> snd ` set (sc_pending (fst c)) \<and> map_option fst (snd c) \<noteq> Some k"

lemma poll_begin_forgotten:
  assumes "forgotten (s, None) k"
  shows "forgotten (poll_begin ni n s) k"
  using assms
  by (auto simp: forgotten_def poll_begin_def get_next_due_def AList.delete_conv'
      split: list.splits sum.splits option.splits)

lemma poll_finish_forgotten:
  assumes "forgotten (s, Some (x, r)) k"
  shows "forgotten (poll_finish E bl ni n x r a s, None) k"
  using assms
  by (auto simp: forgotten_def poll_finish_def reschedule_with_backoff_def handle_decision_def Let_def
      AList.delete_conv' AList.update_conv' set_insort_insert
      split: sum.splits option.splits adapter_error.splits)

lemma forgotten_store: "forgotten (s\<lparr>sc_store := st\<rparr>, f) k = forgotten (s, f) k"
  by (simp add: forgotten_def)

lemma forgotten_land: "forgotten (s, f) k \<Longrightarrow> forgotten (s, None) k"
  by (simp add: forgotten_def)

lemma loop_step_forgotten: "loop_step d c c' \<Longrightarrow> forgotten c k \<Longrightarrow> forgotten c' k"
  by (induction rule: loop_step.induct)
    (auto intro: poll_begin_forgotten poll_finish_forgotten forgotten_land simp: sweep_def
      forgotten_store)

text \<open>C12: An approval that is once neither queued nor in flight is never polled again by the
  scheduler loop, whatever the adapter answers and however long it runs: its decision is lost and
  its reference occupies a slot of the queue. A sweep that drops a poll in flight leads to such a
  state (the witness), while the task still waits for the decision.\<close>

theorem forgotten_forever:
  assumes "(loop_step drops)\<^sup>*\<^sup>* c c'" and "forgotten c k"
  shows "forgotten c' k"
  using assms by (induction rule: rtranclp_induct) (auto intro: loop_step_forgotten)

definition demo_in_flight :: "scheduler \<times> flight" where
  "demo_in_flight = poll_begin 6 20 demo_sched"

theorem forgotten_forever_witness:
  "sched_step True (demo_sched, None) demo_in_flight \<and>
   sched_step True demo_in_flight (sweep 30 (fst demo_in_flight), None) \<and>
   forgotten (sweep 30 (fst demo_in_flight), None) ''2'' \<and>
   forgotten (poll_begin 1000 30 (sweep 30 (fst demo_in_flight))) ''2'' \<and>
   map_option (t_status \<circ> e_task)
     (map_of (s_tasks (sc_store (sweep 30 (fst demo_in_flight)))) ''2'') = Some InputRequired"
proof -
  have "case snd demo_in_flight of Some _ \<Rightarrow> True | None \<Rightarrow> False" by code_simp
  then obtain y where "snd demo_in_flight = Some y" by (auto split: option.splits)
  then have x: "demo_in_flight = (fst demo_in_flight, Some y)" by (metis prod.collapse)
  have "forgotten (sweep 30 (fst demo_in_flight), None) ''2''"
  proof -
    have "case map_of (sc_references (sweep 30 (fst demo_in_flight))) ''2'' of
        Some _ \<Rightarrow> True | None \<Rightarrow> False" "sc_pending (sweep 30 (fst demo_in_flight)) = []"
      by code_simp+
    then show ?thesis by (auto simp: forgotten_def split: option.splits)
  qed
  moreover have "sched_step True demo_in_flight (sweep 30 (fst demo_in_flight), None)"
    by (subst x) (intro step_loop loop_interrupt, simp)
  moreover have "sched_step True (demo_sched, None) demo_in_flight"
    unfolding demo_in_flight_def by (intro step_loop loop_begin)
  moreover have "(loop_step True)\<^sup>*\<^sup>* (sweep 30 (fst demo_in_flight), None)
      (poll_begin 1000 30 (sweep 30 (fst demo_in_flight)))"
    by (intro r_into_rtranclp loop_begin)
  moreover have "map_option (t_status \<circ> e_task)
     (map_of (s_tasks (sc_store (sweep 30 (fst demo_in_flight)))) ''2'') = Some InputRequired"
    by code_simp
  ultimately show ?thesis using forgotten_forever by blast
qed

section \<open>Decisions\<close>

lemma settle_lookup:
  assumes "map_of (s_tasks (settle now x e0 t s)) k = Some e"
  shows "map_of (s_tasks s) k = Some e \<or> x = k \<and> e_task e = t"
  using settle_tasks [of t now x e0 s] assms by (auto simp: AList.update_conv' split: if_splits)

lemma transition_lookup:
  assumes "map_of (s_tasks (fst (transition now x st why s))) k = Some e"
  shows "map_of (s_tasks s) k = Some e \<or> x = k \<and> t_status (e_task e) = st"
  using assms
  by (auto simp: transition_def split: option.splits sum.splits
      dest!: settle_lookup dest: task_transition_Inr(3))

lemma record_approval_lookup:
  assumes "map_of (s_tasks (fst (record_approval E now x d who vf s))) k = Some e"
  shows "map_of (s_tasks s) k = Some e \<or>
    x = k \<and> t_status (e_task e) = fst (decision_transition d) \<and>
    t_approval (e_task e) = Some (approval_of E now d who vf)"
proof (cases "record_approval E now x d who vf s")
  case (Pair s' r)
  show ?thesis
  proof (cases r)
    case (Inl err)
    have "s' = s" using Pair Inl
      by (cases d) (auto simp: record_approval_def Let_def task_transition_def decision_transition_def
          split: option.splits if_splits)
    then show ?thesis using assms Pair by simp
  next
    case (Inr t)
    from Pair [unfolded Inr] show ?thesis
    proof (rule record_approval_success)
      fix e0 e' assume "s' = settle now x e0 t s"
        "t_status t = fst (decision_transition d)" "t_approval t = Some (approval_of E now d who vf)"
      moreover from this(1) have "map_of (s_tasks s) k = Some e \<or> x = k \<and> e_task e = t"
        using assms Pair settle_lookup by simp
      ultimately show ?thesis by auto
    qed
  qed
qed

lemma poll_begin_store:
  assumes "poll_begin ni n s = (s1, f)"
    and "map_of (s_tasks (sc_store s1)) k = Some e"
  shows "map_of (s_tasks (sc_store s)) k = Some e \<or> t_status (e_task e) = Expired"
    and "sc_config s1 = sc_config s"
    and "f = Some (x, r) \<Longrightarrow> map_of (sc_references s) x = Some r"
  using assms
  by (auto simp: poll_begin_def get_next_due_def dest: transition_lookup
      split: list.splits prod.splits if_splits option.splits sum.splits)

text \<open>The scheduler starts the execution of a task only on the adapter's word: if a poll moves
  a task to \<open>Executing\<close>, the adapter answered for that task's reference with an approval, and
  the recorded approval names who approved and expires after the configured validity.\<close>

lemma poll_next_executing:
  assumes "map_option (t_status \<circ> e_task) (map_of (s_tasks (sc_store s)) k) \<noteq> Some Executing"
    and "map_of (s_tasks (sc_store (poll_next E byte_len now_i now poll s))) k = Some e"
    and "t_status (e_task e) = Executing"
  shows "\<exists>r pr a. map_of (sc_references s) k = Some r \<and> poll r = Inr (Some pr) \<and>
    po_decision pr = PollApproved \<and> t_approval (e_task e) = Some a \<and>
    a_decided_by a = po_decided_by pr \<and> a_decision a = AD_Approved \<and>
    a_valid_until a = now + (case x_from_std E (po_approval_valid_for (sc_config s)) of
                               Some d \<Rightarrow> d | None \<Rightarrow> 0)"
proof -
  obtain s1 f where b: "poll_begin now_i now s = (s1, f)" by (cases "poll_begin now_i now s")
  have old: "map_of (s_tasks (sc_store s1)) k \<noteq> Some e"
    using poll_begin_store(1) [OF b] assms(1,3) by fastforce
  then obtain x r where f: "f = Some (x, r)"
    using assms(2) b by (cases f) (auto simp: poll_next_def)
  then have fin: "map_of (s_tasks (sc_store (poll_finish E byte_len now_i now x r (poll r) s1))) k = Some e"
    using assms(2) b by (simp add: poll_next_def)
  then obtain pr where pr: "poll r = Inr (Some pr)"
    using old by (auto simp: poll_finish_def reschedule_with_backoff_def Let_def
        split: sum.splits option.splits adapter_error.splits if_splits)
  have x: "x = k \<and> t_status (e_task e) = fst (decision_transition (decision_of byte_len pr)) \<and>
      t_approval (e_task e) = Some (approval_of E now (decision_of byte_len pr) (po_decided_by pr)
        (po_approval_valid_for (sc_config s1)))"
    using record_approval_lookup [of E now x "decision_of byte_len pr" "po_decided_by pr"] fin old
    by (auto simp: pr poll_finish_def handle_decision_def Let_def)
  moreover have "po_decision pr = PollApproved"
    using x assms(3) by (cases "po_decision pr") (auto simp: decision_of_def decision_transition_def)
  moreover have "map_of (sc_references s) x = Some r" "sc_config s1 = sc_config s"
    using b f by (auto simp: poll_begin_def get_next_due_def
        split: list.splits prod.splits if_splits option.splits sum.splits)
  ultimately show ?thesis using pr by (auto simp: approval_of_def decision_of_def)
qed

section \<open>Backoff and shutdown\<close>

lemma backoff_mono:
  assumes "unat c \<le> unat d"
  shows "backoff_interval cfg c \<le> backoff_interval cfg d"
proof -
  have "(2::nat) ^ min (unat c) 3 \<le> 2 ^ min (unat d) 3"
    using assms by (intro power_increasing) auto
  then show ?thesis
    unfolding backoff_interval_def saturating_mul_def Let_def
    by (intro min.mono mult_le_mono2 order_refl)
qed

text \<open>The delay before the next poll never exceeds the configured maximum, is never below the
  base interval unless the maximum is, does not decrease with the number of polls, and stays the
  same after the third poll.\<close>

lemma backoff_bounds:
  assumes "po_base_interval cfg \<le> duration_max" and "unat c \<le> unat d"
  shows "backoff_interval cfg c \<le> po_max_interval cfg \<and>
    min (po_base_interval cfg) (po_max_interval cfg) \<le> backoff_interval cfg c \<and>
    backoff_interval cfg c \<le> backoff_interval cfg d \<and>
    (3 \<le> unat d \<longrightarrow> backoff_interval cfg d = backoff_interval cfg 3)"
proof (intro conjI impI)
  show "backoff_interval cfg c \<le> po_max_interval cfg" by (simp add: backoff_interval_def Let_def)
  have "po_base_interval cfg \<le> saturating_mul (po_base_interval cfg) (2 ^ n)" for n
    using assms(1) by (simp add: saturating_mul_def)
  then show "min (po_base_interval cfg) (po_max_interval cfg) \<le> backoff_interval cfg c"
    by (simp add: backoff_interval_def Let_def min.coboundedI1)
  show "backoff_interval cfg c \<le> backoff_interval cfg d" using assms(2) by (rule backoff_mono)
  show "backoff_interval cfg d = backoff_interval cfg 3" if "3 \<le> unat d"
    using that by (simp add: backoff_interval_def Let_def min_def)
qed

lemma drain_all:
  "keys_distinct (sc_references s) \<Longrightarrow>
   foldl drain_one (s, acc) (map fst (sc_references s)) =
     (s\<lparr>sc_references := []\<rparr>, acc @ map snd (sc_references s))"
proof (induction "sc_references s" arbitrary: s acc)
  case Nil
  then show ?case by simp
next
  case (Cons p ps)
  obtain k r where p: "p = (k, r)" by (cases p)
  have refs: "sc_references s = (k, r) # ps" using Cons.hyps(2) p by simp
  then have "AList.delete k (sc_references s) = ps"
    using Cons.prems by (auto simp: AList.delete_id)
  then have d: "drop_reference k s = s\<lparr>sc_references := ps\<rparr>" by (simp add: drop_reference_def)
  have "drain_one (s, acc) k = (s\<lparr>sc_references := ps\<rparr>, acc @ [r])"
    using refs d by (simp add: drain_one_def)
  then show ?case
    using Cons.hyps(1) [of "s\<lparr>sc_references := ps\<rparr>" "acc @ [r]"] Cons.prems refs by simp
qed

text \<open>Shutting the scheduler down empties its reference table and tells the adapter to cancel
  every approval that was still posted, each exactly once.\<close>

lemma run_shutdown_drains:
  assumes "(sched_step False)\<^sup>*\<^sup>* (scheduler_new store cfg, None) (s, f)"
  shows "sc_references (fst (run_shutdown now s)) = [] \<and>
    snd (run_shutdown now s) = map snd (sc_references s)"
proof -
  have "sched_ok (s, f)"
    using assms by (induction rule: rtranclp_induct) (auto intro: sched_ok_new sched_step_ok)
  then have "keys_distinct (sc_references (sweep now s))" by (simp add: sched_ok_def sweep_def)
  from drain_all [OF this, of "[]"] show ?thesis
    by (simp add: run_shutdown_def drain_pending_def) (simp add: sweep_def)
qed

end
