(* ===== verification/Engine.thy ===== *)
theory Engine
  imports Pipeline Scheduler "HOL-Library.Sublist"
begin

text \<open>
  The approval engine of \<open>governance/engine.rs\<close>: it starts approvals (inspection, task,
  posting) and runs an approved request when the client asks for its result. The engine owns the
  scheduler and with it the task store, the pipeline, and the set of tasks being executed.
  Metrics are not modelled.
\<close>

declare map_of_eq_Some_iff [simp del]

section \<open>Configuration and errors\<close>

record engine_config =
  ec_approval_timeout :: duration
  ec_on_timeout :: timeout_action
  ec_execution_timeout :: duration

definition engine_config_default :: engine_config where
  "engine_config_default = \<lparr>ec_approval_timeout = from_secs 600, ec_on_timeout = TA_Deny,
     ec_execution_timeout = from_secs 30\<rparr>"

definition engine_config_from_env ::
  "(string \<Rightarrow> nat option) \<Rightarrow> (string \<Rightarrow> string) \<Rightarrow> (string \<Rightarrow> string option) \<Rightarrow> engine_config" where
  "engine_config_from_env parse to_lowercase env =
     \<lparr>ec_approval_timeout =
        (case env_parsed parse (env ''THOUGHTGATE_APPROVAL_TIMEOUT_SECS'') of
           Some n \<Rightarrow> from_secs n | None \<Rightarrow> from_secs 600),
      ec_on_timeout =
        (case env ''THOUGHTGATE_ON_TIMEOUT'' of
           Some s \<Rightarrow> if to_lowercase s = ''approve'' then TA_Approve else TA_Deny
         | None \<Rightarrow> TA_Deny),
      ec_execution_timeout =
        (case env_parsed parse (env ''THOUGHTGATE_EXECUTION_TIMEOUT_SECS'') of
           Some n \<Rightarrow> from_secs n | None \<Rightarrow> from_secs 30)\<rparr>"

fun task_error_to_string :: "ext \<Rightarrow> task_error \<Rightarrow> string" where
  "task_error_to_string E (TE_NotFound i) = ''Task '' @ q i @ '' not found''"
| "task_error_to_string E (TE_Expired i) = ''Task '' @ q i @ '' has expired''"
| "task_error_to_string E (TE_AlreadyTerminal i st) =
     ''Task '' @ q i @ '' is already in terminal state '' @ q (display_status st)"
| "task_error_to_string E (TE_InvalidTransition i a b) =
     ''Invalid transition for task '' @ q i @ '': '' @ display_status a @ '' -> '' @ display_status b"
| "task_error_to_string E (TE_ConcurrentModification i a b) =
     ''Concurrent modification of task '' @ q i @ '': expected '' @ display_status a @
     '', found '' @ display_status b"
| "task_error_to_string E (TE_RateLimited p d) =
     ''Rate limit exceeded for principal '' @ q p @ '', retry after '' @ x_debug_duration E d"
| "task_error_to_string E TE_CapacityExceeded = ''Global task capacity exceeded''"
| "task_error_to_string E (TE_ResultNotReady i) = ''Result not ready for task '' @ q i"
| "task_error_to_string E (TE_Internal d) = ''Internal error: '' @ d"

fun adapter_error_to_string :: "ext \<Rightarrow> adapter_error \<Rightarrow> string" where
  "adapter_error_to_string E (AE_PostFailed r _) = ''Failed to post approval request: '' @ r"
| "adapter_error_to_string E (AE_PollFailed r _) = ''Failed to poll for decision: '' @ r"
| "adapter_error_to_string E (AE_RateLimited d) = ''Rate limited, retry after '' @ x_debug_duration E d"
| "adapter_error_to_string E AE_InvalidToken = ''Invalid or expired authentication token''"
| "adapter_error_to_string E (AE_ChannelNotFound c) = ''Channel not found: '' @ c"
| "adapter_error_to_string E (AE_MessageNotFound t) = ''Message not found: '' @ t"

datatype engine_error =
    EE_TaskCreation string
  | EE_PostFailed string
  | EE_TaskNotFound task_id
  | EE_InvalidState task_id task_status
  | EE_Internal string

fun engine_error_to_string :: "engine_error \<Rightarrow> string" where
  "engine_error_to_string (EE_TaskCreation d) = ''Task creation failed: '' @ d"
| "engine_error_to_string (EE_PostFailed d) = ''Approval post failed: '' @ d"
| "engine_error_to_string (EE_TaskNotFound i) = ''Task not found: '' @ i"
| "engine_error_to_string (EE_InvalidState i st) =
     ''Task '' @ i @ '' in invalid state: '' @ display_status st"
| "engine_error_to_string (EE_Internal d) = ''Internal error: '' @ d"

definition engine_error_of :: "ext \<Rightarrow> task_error \<Rightarrow> engine_error" where
  "engine_error_of E err =
     (case err of
        TE_NotFound i \<Rightarrow> EE_TaskNotFound i
      | TE_InvalidTransition i from _ \<Rightarrow> EE_InvalidState i from
      | other \<Rightarrow> EE_Internal (task_error_to_string E other))"

record approval_start_result =
  as_task_id :: task_id
  as_status :: task_status
  as_poll_interval :: duration

section \<open>State\<close>

record approval_engine =
  en_sched :: scheduler
  en_pipeline :: pipeline
  en_config :: engine_config
  en_executing :: "task_id list"   \<comment> \<open>a set\<close>

abbreviation en_store :: "approval_engine \<Rightarrow> task_store" where
  "en_store en \<equiv> sc_store (en_sched en)"

definition with_store :: "task_store \<Rightarrow> approval_engine \<Rightarrow> approval_engine" where
  "with_store st en = en\<lparr>en_sched := (en_sched en)\<lparr>sc_store := st\<rparr>\<rparr>"

definition engine_new ::
  "task_store \<Rightarrow> ext \<Rightarrow> codec \<Rightarrow> upstream \<Rightarrow> policy_engine \<Rightarrow> engine_config \<Rightarrow> approval_engine" where
  "engine_new store E C up cedar cfg =
     \<lparr>en_sched = scheduler_new store
        \<lparr>po_base_interval = from_secs 5, po_max_interval = from_secs 30, po_max_concurrent = 100,
         po_approval_valid_for = from_secs 60\<rparr>,
      en_pipeline = \<lparr>pl_ext = E, pl_codec = C, pl_inspectors = [], pl_policy_engine = cedar,
        pl_upstream = up, pl_config = pipeline_config_default\<lparr>pc_approval_validity := from_secs 300,
          pc_execution_timeout := ec_execution_timeout cfg\<rparr>\<rparr>,
      en_config = cfg, en_executing = []\<rparr>"

section \<open>Starting an approval\<close>

text \<open>\<open>new_id\<close> is the generated task identifier, \<open>cid\<close> the correlation identifier;
  \<open>post\<close> is what the adapter answers.\<close>

definition start_approval ::
  "task_id \<Rightarrow> string \<Rightarrow> datetime \<Rightarrow> (approval_request \<Rightarrow> adapter_error + approval_reference) \<Rightarrow>
   tool_call_request \<Rightarrow> principal \<Rightarrow> duration option \<Rightarrow> timeout_action option \<Rightarrow> string list \<Rightarrow>
   approval_engine \<Rightarrow> approval_engine \<times> (engine_error, approval_start_result) rres" where
  "start_approval new_id cid now post request princ workflow_timeout on_timeout_override
     redactions en =
     (let E = pl_ext (en_pipeline en) in
      case pre_approval_amber (en_pipeline en) request of
        Inl e \<Rightarrow> (en, RErr (EE_Internal (''Pre-approval phase failed: '' @ pipeline_error_to_string e)))
      | Inr pre \<Rightarrow>
          let ttl = (case workflow_timeout of Some d \<Rightarrow> d
                     | None \<Rightarrow> ec_approval_timeout (en_config en));
              action = (case on_timeout_override of Some a \<Rightarrow> a | None \<Rightarrow> ec_on_timeout (en_config en))
          in case create E new_id now request (ph_transformed_request pre) princ (Some ttl) action
                    (en_store en) of
               (st, RPanic) \<Rightarrow> (with_store st en, RPanic)
             | (st, RErr e) \<Rightarrow> (with_store st en, RErr (EE_TaskCreation (task_error_to_string E e)))
             | (st, ROk t) \<Rightarrow>
                 (case transition now (t_id t) InputRequired None st of
                    (st1, Inl e) \<Rightarrow>
                      (with_store st1 en, RErr (EE_Internal (''Failed to transition task: '' @
                         task_error_to_string E e)))
                  | (st1, Inr _) \<Rightarrow>
                      let areq = \<lparr>aq_task_id = t_id t, aq_tool_name = r_name request,
                            aq_tool_arguments = r_arguments request, aq_principal = princ,
                            aq_expires_at = t_expires_at t, aq_created_at = t_created_at t,
                            aq_correlation_id = cid, aq_redact_fields = redactions\<rparr>;
                          en1 = with_store st1 en
                      in case submit post areq (en_sched en1) of
                           (sc, Inl e) \<Rightarrow> (en1\<lparr>en_sched := sc\<rparr>,
                                          RErr (EE_PostFailed (adapter_error_to_string E e)))
                         | (sc, Inr _) \<Rightarrow> (en1\<lparr>en_sched := sc\<rparr>,
                                          ROk \<lparr>as_task_id = t_id t, as_status = InputRequired,
                                               as_poll_interval = t_poll_interval t\<rparr>)))"

section \<open>Executing on a request for the result\<close>

text \<open>
  A pipeline run under the engine's time limit: \<open>None\<close> means it finished in time,
  \<open>Some reached\<close> that the limit struck, with \<open>reached\<close> telling whether the upstream
  call had been started.
\<close>

type_synonym elapsed = "bool option"

definition run_limited ::
  "pipeline \<Rightarrow> datetime \<Rightarrow> elapsed \<Rightarrow> task \<Rightarrow> approval_record \<Rightarrow>
   mcp_request option \<times> pipeline_result option" where
  "run_limited P now el t a =
     (case el of
        None \<Rightarrow> (fst (execute_approved P now t a), Some (snd (execute_approved P now t a)))
      | Some reached \<Rightarrow> (if reached then fst (execute_approved P now t a) else None, None))"

definition run_pipeline_with_timeout ::
  "approval_engine \<Rightarrow> datetime \<Rightarrow> elapsed \<Rightarrow> task \<Rightarrow> approval_record \<Rightarrow>
   mcp_request option \<times> pipeline_result" where
  "run_pipeline_with_timeout en now el t a =
     (case run_limited (en_pipeline en) now el t a of
        (sent, Some result) \<Rightarrow> (sent, result)
      | (sent, None) \<Rightarrow>
          (sent, P_Failure UpstreamError
             (''Pipeline execution timed out after '' @
              show_nat (as_secs (ec_execution_timeout (en_config en))) @ ''s'') True))"

definition map_pipeline_failure ::
  "engine_config \<Rightarrow> failure_stage \<Rightarrow> string \<Rightarrow> task \<Rightarrow> tg_error" where
  "map_pipeline_failure cfg stage reason t =
     (let tool = r_name (t_original_request t) in
      case stage of
        ApprovalTimeout \<Rightarrow> ApprovalTimeoutErr tool (as_secs (ec_approval_timeout cfg)) None
      | ApprovalRejected \<Rightarrow> ApprovalRejectedErr tool (map_option a_decided_by (t_approval t)) None
      | PolicyDrift \<Rightarrow> PolicyDriftErr tool (t_id t)
      | TransformDrift \<Rightarrow> TransformDriftErr tool (t_id t)
      | UpstreamError \<Rightarrow>
          if sublist ''timeout'' reason \<or> sublist ''timed out'' reason
          then UpstreamTimeout ''unknown'' (as_secs (ec_execution_timeout cfg))
          else UpstreamFailure (-32002) reason
      | _ \<Rightarrow> ServiceUnavailable reason)"

definition handle_pipeline_result ::
  "datetime \<Rightarrow> engine_config \<Rightarrow> pipeline_result \<Rightarrow> task_id \<Rightarrow> task \<Rightarrow> task_store \<Rightarrow>
   task_store \<times> (tg_error + tool_call_result)" where
  "handle_pipeline_result now cfg pr k t st =
     (case pr of
        P_Success result \<Rightarrow> (fst (complete now k result st), Inr result)
      | P_Failure stage reason retriable \<Rightarrow>
          (fst (fail_task now k \<lparr>f_stage = stage, f_reason = reason, f_retriable = retriable\<rparr> st),
           Inl (map_pipeline_failure cfg stage reason t)))"

definition auto_approval :: "ext \<Rightarrow> engine_config \<Rightarrow> datetime \<Rightarrow> approval_record" where
  "auto_approval E cfg now =
     \<lparr>a_decision = AD_Approved, a_decided_by = ''system:auto-approve'', a_decided_at = now,
      a_valid_until = now + (case x_from_std E (ec_execution_timeout cfg) of Some d \<Rightarrow> d | None \<Rightarrow> 0),
      a_metadata = Some (JObject [(''auto_approve'', JBool True),
        (''reason'', JString ''timeout with on_timeout: approve'')])\<rparr>"

definition busy_error :: tg_error where
  "busy_error = ServiceUnavailable ''Task execution already in progress''"

definition handle_expired_task ::
  "datetime \<Rightarrow> elapsed \<Rightarrow> task_id \<Rightarrow> task \<Rightarrow> approval_engine \<Rightarrow>
   approval_engine \<times> mcp_request option \<times> (tg_error + tool_call_result)" where
  "handle_expired_task now el k t en =
     (case t_on_timeout t of
        TA_Deny \<Rightarrow> (en, None, Inl (ApprovalTimeoutErr (r_name (t_original_request t)) (as_secs (t_ttl t)) None))
      | TA_Approve \<Rightarrow>
          if k \<in> set (en_executing en) then (en, None, Inl busy_error)
          else
            let a = auto_approval (pl_ext (en_pipeline en)) (en_config en) now in
            case run_limited (en_pipeline en) now el (t\<lparr>t_status := Executing\<rparr>) a of
              (sent, None) \<Rightarrow>
                (en, sent, Inl (ServiceUnavailable (''Auto-approved task execution timed out after '' @
                   show_nat (as_secs (ec_execution_timeout (en_config en))) @ ''s'')))
            | (sent, Some (P_Success result)) \<Rightarrow>
                (with_store (fst (record_auto_approve_result now k result a (en_store en))) en, sent, Inr result)
            | (sent, Some (P_Failure _ reason _)) \<Rightarrow>
                (en, sent, Inl (ServiceUnavailable (''Auto-approved task execution failed: '' @ reason))))"

text \<open>
  What the first read of the task decides: an immediate answer, the treatment of an expired task,
  or an execution. The read comes before the guard is taken.
\<close>

datatype dispatch = D_Return "tg_error + tool_call_result" | D_Expired task | D_Execute task

definition execute_dispatch :: "ext \<Rightarrow> task_id \<Rightarrow> task_store \<Rightarrow> dispatch" where
  "execute_dispatch E k st =
     (case get k st of
        Inl (TE_NotFound i) \<Rightarrow> D_Return (Inl (TaskNotFound i))
      | Inl other \<Rightarrow> D_Return (Inl (ServiceUnavailable (task_error_to_string E other)))
      | Inr t \<Rightarrow>
          (case t_status t of
             InputRequired \<Rightarrow> D_Return (Inl (TaskResultNotReady k))
           | Working \<Rightarrow> D_Return (Inl (TaskResultNotReady k))
           | Executing \<Rightarrow> D_Execute t
           | Rejected \<Rightarrow> D_Return (Inl (ApprovalRejectedErr (r_name (t_original_request t))
                                         (map_option a_decided_by (t_approval t)) None))
           | Expired \<Rightarrow> D_Expired t
           | Failed \<Rightarrow> D_Return (Inl (ServiceUnavailable
                         (case t_failure t of Some f \<Rightarrow> f_reason f | None \<Rightarrow> ''Task failed'')))
           | Cancelled \<Rightarrow> D_Return (Inl (TaskCancelled k))
           | Completed \<Rightarrow>
               (case t_result t of
                  Some result \<Rightarrow> D_Return (Inr result)
                | None \<Rightarrow> D_Return (Inl (ServiceUnavailable ''Task completed but no result available'')))))"

definition no_approval_error :: tg_error where
  "no_approval_error = ServiceUnavailable ''Task approved but no approval record''"

text \<open>A call that is not interleaved with others: guard taken and released within the call.\<close>

definition execute_on_result ::
  "datetime \<Rightarrow> elapsed \<Rightarrow> task_id \<Rightarrow> approval_engine \<Rightarrow>
   approval_engine \<times> mcp_request option \<times> (tg_error + tool_call_result)" where
  "execute_on_result now el k en =
     (case execute_dispatch (pl_ext (en_pipeline en)) k (en_store en) of
        D_Return r \<Rightarrow> (en, None, r)
      | D_Expired t \<Rightarrow> handle_expired_task now el k t en
      | D_Execute t \<Rightarrow>
          if k \<in> set (en_executing en) then (en, None, Inl busy_error)
          else
            (case t_approval t of
               None \<Rightarrow> (en, None, Inl no_approval_error)
             | Some a \<Rightarrow>
                 let (sent, pr) = run_pipeline_with_timeout en now el t a;
                     (st, r) = handle_pipeline_result now (en_config en) pr k t (en_store en)
                 in (with_store st en, sent, r)))"

end
