(* ===== verification/Engine_Once.thy ===== *)
theory Engine_Once
  imports Engine
begin

text \<open>
  How often an approved request reaches the upstream. Calls of \<open>execute_on_result\<close> for one
  task run concurrently: a call reads the task, takes the guard (an entry in the set of executing
  tasks), runs the pipeline, writes the outcome and releases the guard. Other components change
  the store in between.
\<close>

declare map_of_eq_Some_iff [simp del]

section \<open>Interleaved calls\<close>

text \<open>The Boolean tells an automatic approval after expiry from a regular execution.\<close>

datatype phase =
    Got bool task                                \<comment> \<open>read, guard not yet taken\<close>
  | Running bool task approval_record            \<comment> \<open>guard taken\<close>
  | Finishing bool task approval_record "pipeline_result option"   \<comment> \<open>pipeline done or timed out\<close>

record conf =
  cf_store :: task_store
  cf_guard :: bool
  cf_callers :: "phase list"
  cf_sent :: "mcp_request list"

fun active :: "phase \<Rightarrow> bool" where
  "active (Got _ _) = False"
| "active (Running _ _ _) = True"
| "active (Finishing _ _ _ _) = True"

definition finish_effect ::
  "approval_engine \<Rightarrow> datetime \<Rightarrow> task_id \<Rightarrow> bool \<Rightarrow> task \<Rightarrow> approval_record \<Rightarrow> pipeline_result option \<Rightarrow>
   task_store \<Rightarrow> task_store" where
  "finish_effect en now k auto t a pro st =
     (if auto then
        (case pro of
           Some (P_Success result) \<Rightarrow> fst (record_auto_approve_result now k result a st)
         | _ \<Rightarrow> st)
      else fst (handle_pipeline_result now (en_config en)
             (case pro of
                Some pr \<Rightarrow> pr
              | None \<Rightarrow> P_Failure UpstreamError (''Pipeline execution timed out after '' @
                  show_nat (as_secs (ec_execution_timeout (en_config en))) @ ''s'') True) k t st))"

definition reads :: "approval_engine \<Rightarrow> task_id \<Rightarrow> task_store \<Rightarrow> bool \<Rightarrow> task \<Rightarrow> bool" where
  "reads en k st auto t \<longleftrightarrow>
     (case execute_dispatch (pl_ext (en_pipeline en)) k st of
        D_Execute t' \<Rightarrow> \<not> auto \<and> t' = t
      | D_Expired t' \<Rightarrow> auto \<and> t' = t \<and> t_on_timeout t = TA_Approve
      | D_Return _ \<Rightarrow> False)"

definition approval_for :: "approval_engine \<Rightarrow> datetime \<Rightarrow> bool \<Rightarrow> task \<Rightarrow> approval_record option" where
  "approval_for en now auto t =
     (if auto then Some (auto_approval (pl_ext (en_pipeline en)) (en_config en) now) else t_approval t)"

text \<open>
  One step of the calls for task \<open>k\<close>. With \<open>atomic\<close> a call reads the task and takes
  the guard in one step; the code takes two steps. Calls that are answered at once change nothing
  and have no rule.
\<close>

inductive exec_step :: "bool \<Rightarrow> approval_engine \<Rightarrow> task_id \<Rightarrow> conf \<Rightarrow> conf \<Rightarrow> bool"
  for atomic :: bool and en :: approval_engine and k :: task_id where
  read: "\<not> atomic \<Longrightarrow> reads en k (cf_store c) auto t \<Longrightarrow>
    exec_step atomic en k c (c\<lparr>cf_callers := cf_callers c @ [Got auto t]\<rparr>)"
| acquire: "cf_callers c = xs @ Got auto t # ys \<Longrightarrow> \<not> cf_guard c \<Longrightarrow> approval_for en now auto t = Some a \<Longrightarrow>
    exec_step atomic en k c (c\<lparr>cf_callers := xs @ Running auto t a # ys, cf_guard := True\<rparr>)"
| refuse: "cf_callers c = xs @ Got auto t # ys \<Longrightarrow> cf_guard c \<or> approval_for en now auto t = None \<Longrightarrow>
    exec_step atomic en k c (c\<lparr>cf_callers := xs @ ys\<rparr>)"
| read_acquire: "atomic \<Longrightarrow> reads en k (cf_store c) auto t \<Longrightarrow> \<not> cf_guard c \<Longrightarrow>
    approval_for en now auto t = Some a \<Longrightarrow>
    exec_step atomic en k c (c\<lparr>cf_callers := cf_callers c @ [Running auto t a], cf_guard := True\<rparr>)"
| run: "cf_callers c = xs @ Running auto t a # ys \<Longrightarrow>
    run_limited (en_pipeline en) now el (if auto then t\<lparr>t_status := Executing\<rparr> else t) a = (sent, pro) \<Longrightarrow>
    exec_step atomic en k c (c\<lparr>cf_callers := xs @ Finishing auto t a pro # ys,
      cf_sent := cf_sent c @ (case sent of None \<Rightarrow> [] | Some m \<Rightarrow> [m])\<rparr>)"
| finish: "cf_callers c = xs @ Finishing auto t a pro # ys \<Longrightarrow>
    exec_step atomic en k c (c\<lparr>cf_callers := xs @ ys, cf_guard := False,
      cf_store := finish_effect en now k auto t a pro (cf_store c)\<rparr>)"
| other: "store_op_ok (cf_store c) x \<Longrightarrow> \<not> creates x k \<Longrightarrow>
    exec_step atomic en k c (c\<lparr>cf_store := store_step (cf_store c) x\<rparr>)"

definition conf_init :: "task_store \<Rightarrow> conf" where
  "conf_init st = \<lparr>cf_store = st, cf_guard = False, cf_callers = [], cf_sent = []\<rparr>"

section \<open>Mutual exclusion\<close>

definition exclusive :: "conf \<Rightarrow> bool" where
  "exclusive c \<longleftrightarrow> length (filter active (cf_callers c)) = (if cf_guard c then 1 else 0)"

lemma exclusive_step: "exec_step atomic en k c c' \<Longrightarrow> exclusive c \<Longrightarrow> exclusive c'"
  by (induction rule: exec_step.induct) (auto simp: exclusive_def split: if_splits)

text \<open>At most one call executes a task at any time, however calls, other store operations and
  the pipeline interleave, and the guard is held exactly while one does.\<close>

lemma execution_exclusive:
  assumes "(exec_step atomic en k)\<^sup>*\<^sup>* (conf_init st) c"
  shows "length (filter active (cf_callers c)) = (if cf_guard c then 1 else 0)"
proof -
  have "exclusive (conf_init st)" by (simp add: conf_init_def exclusive_def)
  with assms have "exclusive c" by (induction rule: rtranclp_induct) (auto intro: exclusive_step)
  then show ?thesis by (simp add: exclusive_def)
qed

section \<open>At most once\<close>

text \<open>The task has left the approval phase; it has left it for good.\<close>

definition late :: "task_id \<Rightarrow> task_store \<Rightarrow> bool" where
  "late k st \<longleftrightarrow> (case map_of (s_tasks st) k of None \<Rightarrow> True
     | Some e \<Rightarrow> t_status (e_task e) = Executing \<or> is_terminal (t_status (e_task e)))"

definition over :: "task_id \<Rightarrow> task_store \<Rightarrow> bool" where
  "over k st \<longleftrightarrow> (case map_of (s_tasks st) k of None \<Rightarrow> True
     | Some e \<Rightarrow> is_terminal (t_status (e_task e)))"

definition denies :: "task_id \<Rightarrow> task_store \<Rightarrow> bool" where
  "denies k st \<longleftrightarrow> (case map_of (s_tasks st) k of None \<Rightarrow> True
     | Some e \<Rightarrow> t_on_timeout (e_task e) = TA_Deny)"

lemma keeps_late: "keeps k s s' \<Longrightarrow> late k s \<Longrightarrow> late k s'"
  by (auto simp: keeps_def late_def evolves_def split: option.splits)

lemma keeps_over: "keeps k s s' \<Longrightarrow> over k s \<Longrightarrow> over k s'"
  by (auto simp: keeps_def over_def evolves_def split: option.splits)

lemma keeps_denies: "keeps k s s' \<Longrightarrow> denies k s \<Longrightarrow> denies k s'"
  by (auto simp: keeps_def denies_def evolves_def same_request_def split: option.splits)

lemma finish_regular_cases:
  obtains r where "finish_effect en now k False t a pro st = fst (complete now k r st)"
  | f where "finish_effect en now k False t a pro st = fst (fail_task now k f st)"
proof -
  define pr where "pr = (case pro of Some pr \<Rightarrow> pr
      | None \<Rightarrow> P_Failure UpstreamError (''Pipeline execution timed out after '' @
          show_nat (as_secs (ec_execution_timeout (en_config en))) @ ''s'') True)"
  have "finish_effect en now k False t a pro st =
      fst (handle_pipeline_result now (en_config en) pr k t st)"
    by (simp add: finish_effect_def pr_def)
  then show thesis
    using that by (cases pr) (simp_all add: handle_pipeline_result_def)
qed

lemma complete_over: "late k st \<Longrightarrow> over k (fst (complete now k r st))"
  by (fastforce simp: late_def over_def complete_def Let_def task_transition_def AList.update_conv'
      settle_end_tasks ended_def split: option.splits)

lemma fail_over: "late k st \<Longrightarrow> over k (fst (fail_task now k f st))"
  by (fastforce simp: late_def over_def fail_task_def task_transition_def AList.update_conv'
      settle_end_tasks ended_def Let_def split: option.splits)

lemma finish_over: "late k st \<Longrightarrow> over k (finish_effect en now k False t a pro st)"
  by (rule finish_regular_cases [of en now k t a pro st]) (simp_all add: complete_over fail_over)

lemma complete_keeps: "keeps k st (fst (complete now k r st))"
  using store_step_keeps [of st "OpComplete now k r" k] by simp

lemma finish_keeps: "keeps k st (finish_effect en now k False t a pro st)"
  by (rule finish_regular_cases [of en now k t a pro st]) (simp_all add: complete_keeps fail_task_keeps)

lemma reads_denied:
  assumes "reads en k st auto t" and "denies k st"
  shows "\<not> auto" and "late k st" and "\<not> over k st"
  using assms
  by (auto simp: reads_def denies_def late_def over_def execute_dispatch_def get_def
      split: option.splits dispatch.splits task_status.splits)

definition once_ok :: "task_id \<Rightarrow> conf \<Rightarrow> bool" where
  "once_ok k c \<longleftrightarrow> denies k (cf_store c) \<and>
     ((cf_callers c = [] \<and> \<not> cf_guard c \<and> (cf_sent c = [] \<or> length (cf_sent c) = 1 \<and> over k (cf_store c))) \<or>
      (\<exists>t a. cf_callers c = [Running False t a] \<and> cf_guard c \<and> cf_sent c = [] \<and> late k (cf_store c)) \<or>
      (\<exists>t a pro. cf_callers c = [Finishing False t a pro] \<and> cf_guard c \<and> length (cf_sent c) \<le> 1 \<and>
         late k (cf_store c)))"

lemma once_step: "exec_step True en k c c' \<Longrightarrow> once_ok k c \<Longrightarrow> once_ok k c'"
proof (induction rule: exec_step.induct)
  case (acquire c xs auto t ys now a)
  then show ?case by (auto simp: once_ok_def append_Cons_single)
next
  case (refuse c xs auto t ys now)
  then show ?case by (auto simp: once_ok_def append_Cons_single)
next
  case (read_acquire c auto t now a)
  then show ?case using reads_denied [of en k "cf_store c" auto t] by (auto simp: once_ok_def)
next
  case (run c xs auto t a ys now el sent pro)
  then show ?case by (auto simp: once_ok_def append_Cons_single split: option.splits)
next
  case (finish c xs auto t a pro ys now)
  have late: "late k (cf_store c)" "\<not> auto" "xs = []" "ys = []" "length (cf_sent c) \<le> 1"
    "denies k (cf_store c)"
    using finish by (auto simp: once_ok_def append_Cons_single)
  have "over k (finish_effect en now k auto t a pro (cf_store c))"
    "denies k (finish_effect en now k auto t a pro (cf_store c))"
    using late finish_over finish_keeps keeps_denies by (auto, blast)
  then show ?case using late by (cases "cf_sent c") (auto simp: once_ok_def)
next
  case (other c x)
  then have "keeps k (cf_store c) (store_step (cf_store c) x)" by (intro store_step_keeps)
  then show ?case using other keeps_late keeps_over keeps_denies by (auto simp: once_ok_def)
qed simp


section \<open>The guard is taken too late\<close>

definition once_engine :: approval_engine where
  "once_engine = engine_new demo_store demo_ext (pl_codec demo_pipeline) (pl_upstream demo_pipeline)
     (\<lambda>_. Inr PA_Forward) engine_config_default"

definition once_task :: task where
  "once_task = (case map_of (s_tasks demo_store) ''1'' of Some e \<Rightarrow> e_task e)"

definition once_approval :: approval_record where
  "once_approval = \<lparr>a_decision = AD_Approved, a_decided_by = ''bob'', a_decided_at = 8,
                    a_valid_until = 108, a_metadata = None\<rparr>"

lemma once_task_read: "reads once_engine ''1'' demo_store False once_task"
proof -
  have "case map_of (s_tasks demo_store) ''1'' of Some e \<Rightarrow> t_status (e_task e) = Executing | None \<Rightarrow> False"
    by code_simp
  then show ?thesis
    by (auto simp: reads_def execute_dispatch_def get_def once_task_def split: option.splits)
qed

lemma once_task_approval: "t_approval once_task = Some once_approval"
  by code_simp

definition once_sent :: mcp_request where
  "once_sent = \<lparr>mq_id = Some (IdNumber 1), mq_method = ''tools/call'',
     mq_params = Some (JObject [(''name'', JString ''x''), (''arguments'', JNull)])\<rparr>"

lemma once_run:
  "run_limited (en_pipeline once_engine) 50 None once_task once_approval =
     (Some once_sent, Some (P_Success \<lparr>res_content = JBool True, res_is_error = False\<rparr>))"
  by code_simp

text \<open>C10: The code reads the task before it takes the guard, and execution is not at most once:
  there is an interleaving of two calls in which the second, having read the task while it was
  executing, takes the guard after the first has completed the task and sends the request again.\<close>

theorem executed_twice:
  "\<exists>c. (exec_step False once_engine ''1'')\<^sup>*\<^sup>* (conf_init demo_store) c \<and>
     cf_sent c = [once_sent, once_sent]"
proof -
  let ?step = "exec_step False once_engine ''1''"
  let ?t = once_task and ?a = once_approval
  let ?pro = "Some (P_Success \<lparr>res_content = JBool True, res_is_error = False\<rparr>)"
  let ?st = "finish_effect once_engine 51 ''1'' False ?t ?a ?pro demo_store"
  have acq: "approval_for once_engine 50 False ?t = Some ?a"
    by (simp add: approval_for_def once_task_approval)
  have run: "run_limited (en_pipeline once_engine) 50 None
      (if False then ?t\<lparr>t_status := Executing\<rparr> else ?t) ?a = (Some once_sent, ?pro)"
    by (simp add: once_run)
  define c0 where "c0 = conf_init demo_store"
  define c1 where "c1 = c0\<lparr>cf_callers := cf_callers c0 @ [Got False ?t]\<rparr>"
  define c2 where "c2 = c1\<lparr>cf_callers := cf_callers c1 @ [Got False ?t]\<rparr>"
  define c3 where "c3 = c2\<lparr>cf_callers := [Running False ?t ?a, Got False ?t], cf_guard := True\<rparr>"
  define c4 where "c4 = c3\<lparr>cf_callers := [Finishing False ?t ?a ?pro, Got False ?t],
      cf_sent := cf_sent c3 @ (case Some once_sent of None \<Rightarrow> [] | Some m \<Rightarrow> [m])\<rparr>"
  define c5 where "c5 = c4\<lparr>cf_callers := [] @ [Got False ?t], cf_guard := False,
      cf_store := finish_effect once_engine 51 ''1'' False ?t ?a ?pro (cf_store c4)\<rparr>"
  define c6 where "c6 = c5\<lparr>cf_callers := [] @ Running False ?t ?a # [], cf_guard := True\<rparr>"
  define c7 where "c7 = c6\<lparr>cf_callers := [] @ Finishing False ?t ?a ?pro # [],
      cf_sent := cf_sent c6 @ (case Some once_sent of None \<Rightarrow> [] | Some m \<Rightarrow> [m])\<rparr>"
  note defs = c0_def c1_def c2_def c3_def c4_def c5_def c6_def c7_def conf_init_def
  have s1: "?step c0 c1" unfolding c1_def
    by (rule read) (simp_all add: c0_def conf_init_def once_task_read)
  have s2: "?step c1 c2" unfolding c2_def
    by (rule read) (simp_all add: c0_def c1_def conf_init_def once_task_read)
  have s3: "?step c2 c3" unfolding c3_def
    using acquire [of c2 "[]" False ?t "[Got False ?t]" once_engine 50 ?a False "''1''"] acq
    by (simp add: defs)
  have s4: "?step c3 c4" unfolding c4_def
    using exec_step.run [of c3 "[]" False ?t ?a "[Got False ?t]" once_engine 50 None _ _ False "''1''", OF _ run]
    by (simp add: defs)
  have s5: "?step c4 c5" unfolding c5_def by (rule finish) (simp add: c4_def)
  have s6: "?step c5 c6" unfolding c6_def by (rule acquire [OF _ _ acq]) (simp_all add: c5_def)
  have s7: "?step c6 c7" unfolding c7_def by (rule exec_step.run [OF _ run]) (simp add: c6_def)
  have "?step\<^sup>*\<^sup>* c0 c7"
    by (intro converse_rtranclp_into_rtranclp [of ?step, OF s1] converse_rtranclp_into_rtranclp [of ?step, OF s2]
        converse_rtranclp_into_rtranclp [of ?step, OF s3] converse_rtranclp_into_rtranclp [of ?step, OF s4]
        converse_rtranclp_into_rtranclp [of ?step, OF s5] converse_rtranclp_into_rtranclp [of ?step, OF s6]
        converse_rtranclp_into_rtranclp [of ?step, OF s7] rtranclp.rtrancl_refl)
  moreover have "cf_sent c7 = [once_sent, once_sent]" by (simp add: defs)
  ultimately show ?thesis unfolding c0_def by blast
qed



end
