(* ===== verification/Config_Schema.thy ===== *)
theory Config_Schema
  imports TG_Error
begin

text \<open>
  The configuration of \<open>config/schema.rs\<close> as far as it governs requests: sources and what
  they expose, governance rules, approval workflows. Patterns are those of the \<open>glob\<close> crate,
  which is an argument: when a pattern is malformed, and what it matches. A compiled pattern is
  determined by its text. The error type is that of \<open>config/error.rs\<close>.
\<close>

section \<open>Patterns\<close>

record globs =
  gl_error :: "string \<Rightarrow> string option"        \<comment> \<open>error of \<open>Pattern::new\<close>, if any\<close>
  gl_matches :: "string \<Rightarrow> string \<Rightarrow> bool"     \<comment> \<open>pattern, text\<close>

datatype glob_pattern = Pattern string

definition pattern_new :: "globs \<Rightarrow> string \<Rightarrow> string + glob_pattern" where
  "pattern_new G p = (case gl_error G p of Some e \<Rightarrow> Inl e | None \<Rightarrow> Inr (Pattern p))"

fun pattern_matches :: "globs \<Rightarrow> glob_pattern \<Rightarrow> string \<Rightarrow> bool" where
  "pattern_matches G (Pattern p) s = gl_matches G p s"

text \<open>What \<open>Pattern::new(p).map(|p| p.matches(s)).unwrap_or(false)\<close> computes.\<close>

definition matches_text :: "globs \<Rightarrow> string \<Rightarrow> string \<Rightarrow> bool" where
  "matches_text G p s = (case pattern_new G p of Inr c \<Rightarrow> pattern_matches G c s | Inl _ \<Rightarrow> False)"

section \<open>Types\<close>

datatype expose_config =
    ExposeAll
  | Allowlist "string list" "glob_pattern list"
  | Blocklist "string list" "glob_pattern list"

record source =
  so_id :: string
  so_url :: string
  so_prefix :: "string option"
  so_expose :: "expose_config option"
  so_enabled :: bool
  so_description :: "string option"

definition source_expose :: "source \<Rightarrow> expose_config" where
  "source_expose s = (case so_expose s of Some e \<Rightarrow> e | None \<Rightarrow> ExposeAll)"

datatype action = Forward | Approve | Deny | Policy

fun display_action :: "action \<Rightarrow> string" where
  "display_action Forward = ''forward''"
| "display_action Approve = ''approve''"
| "display_action Deny = ''deny''"
| "display_action Policy = ''policy''"

datatype source_filter = Single string | Multiple "string list"

fun filter_matches :: "source_filter \<Rightarrow> string \<Rightarrow> bool" where
  "filter_matches (Single i) s \<longleftrightarrow> i = s"
| "filter_matches (Multiple is) s \<longleftrightarrow> list_ex (\<lambda>i. i = s) is"

record rule =
  ru_pattern :: string
  ru_action :: action
  ru_source :: "source_filter option"
  ru_policy_id :: "string option"
  ru_approval :: "string option"
  ru_description :: "string option"
  ru_compiled :: "glob_pattern option"

record governance =
  gv_default_action :: action
  gv_rules :: "rule list"

record match_result =
  mt_action :: action
  mt_policy_id :: "string option"
  mt_approval_workflow :: "string option"
  mt_matched_rule :: "string option"

datatype approval_destination =
  Slack string "string option" "string list option"   \<comment> \<open>channel, token variable, mentions\<close>

record human_workflow =
  hw_destination :: approval_destination
  hw_timeout :: "duration option"
  hw_on_timeout :: "timeout_action option"
  hw_blocking_timeout :: "duration option"
  hw_redact_fields :: "string list option"

record cedar_config =
  ced_policies :: "string list"
  ced_schema :: "string option"

record otlp_config =
  ot_endpoint :: string
  ot_protocol :: string
  ot_headers :: "(string \<times> string) list"

record sampling_config =
  sa_strategy :: string
  sa_success_sample_rate :: "64 word"   \<comment> \<open>the bits of an \<open>f64\<close>\<close>

record batch_config =
  bc_max_queue_size :: nat
  bc_max_export_batch_size :: nat
  bc_scheduled_delay_ms :: nat
  bc_export_timeout_ms :: nat

record telemetry_config =
  te_enabled :: bool
  te_otlp :: "otlp_config option"
  te_sampling :: "sampling_config option"
  te_batch :: "batch_config option"
  te_resource :: "(string \<times> string) list option"
  te_propagate_upstream :: "bool option"

record config =
  cf_schema :: nat
  cf_sources :: "source list"
  cf_governance :: governance
  cf_approval :: "(string \<times> human_workflow) list option"
  cf_cedar :: "cedar_config option"
  cf_telemetry :: "telemetry_config option"

datatype config_error =
    CE_NoSourcesDefined
  | CE_V02SingleSourceOnly nat
  | CE_V02McpOnly string
  | CE_DuplicateSourceId string
  | CE_ReservedPrefix string
  | CE_DuplicatePrefix string
  | CE_MissingPolicyId string
  | CE_UndefinedWorkflow string string             \<comment> \<open>workflow, pattern\<close>
  | CE_MissingApprovalWorkflow string nat          \<comment> \<open>pattern, number of workflows\<close>
  | CE_InvalidGlobPattern string string            \<comment> \<open>pattern, message\<close>
  | CE_UndefinedSourceInRule string string         \<comment> \<open>source, pattern\<close>
  | CE_InvalidUrl string string
  | CE_InvalidWorkflowTimeout string string nat    \<comment> \<open>workflow, field, seconds\<close>
  | CE_InvalidSourceId string string               \<comment> \<open>identifier, reason\<close>
  | CE_PolicyFileNotFound string
  | CE_MissingEnvVar string string                 \<comment> \<open>variable, field\<close>
  | CE_InvalidSampleRate "64 word"
  | CE_InvalidOtlpEndpoint string string
  | CE_UnknownOtlpProtocol string
  | CE_UnknownSamplingStrategy string
  | CE_InvalidQueueSize nat
  | CE_InvalidBatchDelay nat
  | CE_InvalidExportBatchSize nat nat
  | CE_InvalidExportTimeout nat
  | CE_UnsupportedSchemaVersion nat
  | CE_ParseError string
  | CE_IoError string
  | CE_ConfigFileNotFound "string list"
  | CE_EmptyConfigFile

section \<open>Operations\<close>

definition get_source :: "config \<Rightarrow> string \<Rightarrow> source option" where
  "get_source c i = find (\<lambda>s. so_id s = i) (cf_sources c)"

definition get_workflow :: "config \<Rightarrow> string \<Rightarrow> human_workflow option" where
  "get_workflow c n = (case cf_approval c of None \<Rightarrow> None | Some m \<Rightarrow> map_of m n)"

definition is_visible :: "globs \<Rightarrow> expose_config \<Rightarrow> string \<Rightarrow> bool" where
  "is_visible G e tool =
     (case e of
        ExposeAll \<Rightarrow> True
      | Allowlist tools compiled \<Rightarrow>
          if compiled \<noteq> [] then list_ex (\<lambda>p. pattern_matches G p tool) compiled
          else list_ex (\<lambda>p. matches_text G p tool) tools
      | Blocklist tools compiled \<Rightarrow>
          if compiled \<noteq> [] then \<not> list_ex (\<lambda>p. pattern_matches G p tool) compiled
          else \<not> list_ex (\<lambda>p. matches_text G p tool) tools)"

definition rule_matches :: "globs \<Rightarrow> rule \<Rightarrow> string \<Rightarrow> string \<Rightarrow> bool" where
  "rule_matches G r tool source_id =
     ((case ru_source r of None \<Rightarrow> True | Some f \<Rightarrow> filter_matches f source_id) \<and>
      (case ru_compiled r of
         Some p \<Rightarrow> pattern_matches G p tool
       | None \<Rightarrow> matches_text G (ru_pattern r) tool))"

fun governance_evaluate_rules :: "globs \<Rightarrow> rule list \<Rightarrow> action \<Rightarrow> string \<Rightarrow> string \<Rightarrow> match_result" where
  "governance_evaluate_rules G [] dflt tool source_id =
     \<lparr>mt_action = dflt, mt_policy_id = None, mt_approval_workflow = None, mt_matched_rule = None\<rparr>"
| "governance_evaluate_rules G (r # rs) dflt tool source_id =
     (if rule_matches G r tool source_id
      then \<lparr>mt_action = ru_action r, mt_policy_id = ru_policy_id r,
            mt_approval_workflow = ru_approval r, mt_matched_rule = Some (ru_pattern r)\<rparr>
      else governance_evaluate_rules G rs dflt tool source_id)"

definition governance_evaluate :: "globs \<Rightarrow> governance \<Rightarrow> string \<Rightarrow> string \<Rightarrow> match_result" where
  "governance_evaluate G g tool source_id =
     governance_evaluate_rules G (gv_rules g) (gv_default_action g) tool source_id"

definition requires_approval_engine :: "config \<Rightarrow> bool" where
  "requires_approval_engine c =
     (if gv_default_action (cf_governance c) \<in> {Approve, Policy} then True
      else list_ex (\<lambda>r. ru_action r \<in> {Approve, Policy}) (gv_rules (cf_governance c)))"

text \<open>Compilation caches the patterns; a configuration that fails to compile is abandoned.\<close>

definition compile_text :: "globs \<Rightarrow> string \<Rightarrow> config_error + glob_pattern" where
  "compile_text G p =
     (case pattern_new G p of Inl e \<Rightarrow> Inl (CE_InvalidGlobPattern p e) | Inr c \<Rightarrow> Inr c)"

definition compile_rule :: "globs \<Rightarrow> rule \<Rightarrow> config_error + rule" where
  "compile_rule G r = map_sum id (\<lambda>c. r\<lparr>ru_compiled := Some c\<rparr>) (compile_text G (ru_pattern r))"

definition compile_expose :: "globs \<Rightarrow> expose_config \<Rightarrow> config_error + expose_config" where
  "compile_expose G e =
     (case e of
        ExposeAll \<Rightarrow> Inr ExposeAll
      | Allowlist tools _ \<Rightarrow> map_sum id (Allowlist tools) (collect_results (map (compile_text G) tools))
      | Blocklist tools _ \<Rightarrow> map_sum id (Blocklist tools) (collect_results (map (compile_text G) tools)))"

definition compile_source :: "globs \<Rightarrow> source \<Rightarrow> config_error + source" where
  "compile_source G s =
     (case so_expose s of
        None \<Rightarrow> Inr s
      | Some e \<Rightarrow> map_sum id (\<lambda>e'. s\<lparr>so_expose := Some e'\<rparr>) (compile_expose G e))"

definition compile_patterns :: "globs \<Rightarrow> config \<Rightarrow> config_error + config" where
  "compile_patterns G c =
     (case collect_results (map (compile_rule G) (gv_rules (cf_governance c))) of
        Inl e \<Rightarrow> Inl e
      | Inr rs \<Rightarrow>
          (case collect_results (map (compile_source G) (cf_sources c)) of
             Inl e \<Rightarrow> Inl e
           | Inr ss \<Rightarrow> Inr (c\<lparr>cf_governance := (cf_governance c)\<lparr>gv_rules := rs\<rparr>, cf_sources := ss\<rparr>)))"

definition default_approval_timeout :: duration where
  "default_approval_timeout = from_secs 600"

definition timeout_or_default :: "human_workflow \<Rightarrow> duration" where
  "timeout_or_default w = (case hw_timeout w of Some d \<Rightarrow> d | None \<Rightarrow> default_approval_timeout)"

definition on_timeout_or_default :: "human_workflow \<Rightarrow> timeout_action" where
  "on_timeout_or_default w = (case hw_on_timeout w of Some a \<Rightarrow> a | None \<Rightarrow> TA_Deny)"

definition blocking_timeout_or_default :: "human_workflow \<Rightarrow> duration" where
  "blocking_timeout_or_default w =
     (case hw_blocking_timeout w of
        Some d \<Rightarrow> d
      | None \<Rightarrow> (case hw_timeout w of Some d \<Rightarrow> d | None \<Rightarrow> from_secs 300))"

section \<open>Compiled and uncompiled configurations agree\<close>

text \<open>A configuration as it is parsed: nothing cached.\<close>

definition uncompiled :: "config \<Rightarrow> bool" where
  "uncompiled c \<longleftrightarrow> (\<forall>r\<in>set (gv_rules (cf_governance c)). ru_compiled r = None) \<and>
     (\<forall>s\<in>set (cf_sources c). case so_expose s of
        Some (Allowlist _ cs) \<Rightarrow> cs = [] | Some (Blocklist _ cs) \<Rightarrow> cs = [] | _ \<Rightarrow> True)"

lemma compile_text_Inr:
  "compile_text G p = Inr c \<Longrightarrow> pattern_matches G c s = matches_text G p s"
  by (auto simp: compile_text_def matches_text_def split: sum.splits)

lemma compile_texts_Inr:
  assumes "collect_results (map (compile_text G) ps) = Inr cs"
  shows "list_ex (\<lambda>c. pattern_matches G c s) cs = list_ex (\<lambda>p. matches_text G p s) ps"
    and "cs = [] \<longleftrightarrow> ps = []"
proof -
  have eq: "map (compile_text G) ps = map Inr cs" using assms by (simp add: collect_results_Inr_iff)
  then show "list_ex (\<lambda>c. pattern_matches G c s) cs = list_ex (\<lambda>p. matches_text G p s) ps"
    by (induction ps arbitrary: cs) (auto simp: compile_text_Inr)
  from eq show "cs = [] \<longleftrightarrow> ps = []" by (metis map_is_Nil_conv)
qed

lemma compile_rule_Inr:
  assumes "compile_rule G r = Inr r'" and "ru_compiled r = None"
  shows "rule_matches G r' tool i = rule_matches G r tool i"
    and "ru_action r' = ru_action r" "ru_policy_id r' = ru_policy_id r"
    and "ru_approval r' = ru_approval r" "ru_pattern r' = ru_pattern r"
proof -
  obtain c where c: "compile_text G (ru_pattern r) = Inr c" "r' = r\<lparr>ru_compiled := Some c\<rparr>"
    using assms(1) by (cases "compile_text G (ru_pattern r)") (auto simp: compile_rule_def)
  then show "rule_matches G r' tool i = rule_matches G r tool i"
    and "ru_action r' = ru_action r" "ru_policy_id r' = ru_policy_id r"
    and "ru_approval r' = ru_approval r" "ru_pattern r' = ru_pattern r"
    using assms(2) compile_text_Inr [OF c(1)] by (simp_all add: rule_matches_def)
qed

lemma compile_rules_evaluate:
  "map (compile_rule G) rs = map Inr rs' \<Longrightarrow> \<forall>r\<in>set rs. ru_compiled r = None \<Longrightarrow>
     governance_evaluate_rules G rs' d tool i = governance_evaluate_rules G rs d tool i"
  by (induction rs arbitrary: rs') (auto simp: compile_rule_Inr)

definition uncompiled_expose :: "expose_config \<Rightarrow> bool" where
  "uncompiled_expose e \<longleftrightarrow> (case e of ExposeAll \<Rightarrow> True | Allowlist _ cs \<Rightarrow> cs = [] | Blocklist _ cs \<Rightarrow> cs = [])"

lemma compile_expose_Inr:
  assumes "compile_expose G e = Inr e'" and "uncompiled_expose e"
  shows "is_visible G e' tool = is_visible G e tool"
proof (cases e)
  case ExposeAll
  then show ?thesis using assms by (simp add: compile_expose_def)
next
  case (Allowlist tools cs)
  then obtain cs' where "collect_results (map (compile_text G) tools) = Inr cs'" "e' = Allowlist tools cs'"
    using assms by (cases "collect_results (map (compile_text G) tools)") (auto simp: compile_expose_def)
  then show ?thesis
    using compile_texts_Inr [of G tools cs'] Allowlist assms(2)
    by (auto simp: is_visible_def uncompiled_expose_def)
next
  case (Blocklist tools cs)
  then obtain cs' where "collect_results (map (compile_text G) tools) = Inr cs'" "e' = Blocklist tools cs'"
    using assms by (cases "collect_results (map (compile_text G) tools)") (auto simp: compile_expose_def)
  then show ?thesis
    using compile_texts_Inr [of G tools cs'] Blocklist assms(2)
    by (auto simp: is_visible_def uncompiled_expose_def)
qed

lemma compile_source_Inr:
  assumes "compile_source G s = Inr s'" and "uncompiled_expose (source_expose s)"
  shows "so_id s' = so_id s" "so_enabled s' = so_enabled s"
    "is_visible G (source_expose s') tool = is_visible G (source_expose s) tool"
proof (atomize (full), cases "so_expose s")
  case None
  then show "so_id s' = so_id s \<and> so_enabled s' = so_enabled s \<and>
      is_visible G (source_expose s') tool = is_visible G (source_expose s) tool"
    using assms by (simp add: compile_source_def)
next
  case (Some e)
  then obtain e' where "compile_expose G e = Inr e'" "s' = s\<lparr>so_expose := Some e'\<rparr>"
    using assms by (cases "compile_expose G e") (auto simp: compile_source_def)
  then show "so_id s' = so_id s \<and> so_enabled s' = so_enabled s \<and>
      is_visible G (source_expose s') tool = is_visible G (source_expose s) tool"
    using compile_expose_Inr [of G e e'] assms(2) Some by (simp add: source_expose_def)
qed

lemma compile_sources_find:
  "map (compile_source G) ss = map Inr ss' \<Longrightarrow> \<forall>s\<in>set ss. uncompiled_expose (source_expose s) \<Longrightarrow>
     map_option (\<lambda>s. (so_enabled s, is_visible G (source_expose s) tool)) (find (\<lambda>s. so_id s = i) ss') =
     map_option (\<lambda>s. (so_enabled s, is_visible G (source_expose s) tool)) (find (\<lambda>s. so_id s = i) ss)"
  by (induction ss arbitrary: ss') (auto simp: compile_source_Inr)


definition demo_globs :: globs where
  "demo_globs = \<lparr>gl_error = (\<lambda>p. if p = ''['' then Some ''bad'' else None),
                 gl_matches = (\<lambda>p s. p = ''*'' \<or> p = s)\<rparr>"

definition demo_config :: config where
  "demo_config = \<lparr>cf_schema = 1,
     cf_sources = [\<lparr>so_id = ''s'', so_url = ''u'', so_prefix = None,
        so_expose = Some (Blocklist [''secret''] []), so_enabled = True, so_description = None\<rparr>],
     cf_governance = \<lparr>gv_default_action = Deny,
        gv_rules = [\<lparr>ru_pattern = ''read'', ru_action = Forward, ru_source = None, ru_policy_id = None,
                     ru_approval = None, ru_description = None, ru_compiled = None\<rparr>,
                    \<lparr>ru_pattern = ''write'', ru_action = Approve, ru_source = None, ru_policy_id = None,
                     ru_approval = None, ru_description = None, ru_compiled = None\<rparr>]\<rparr>,
     cf_approval = None, cf_cedar = None, cf_telemetry = None\<rparr>"


end
