(* ===== verification/Config_Loader.thy ===== *)
theory Config_Loader
  imports Config_Schema
begin

text \<open>
  Loading and validation of the configuration (\<open>config/loader.rs\<close>): search for the file,
  substitution of environment variables, the validation rules in the order the program checks them,
  and loading as a whole. The file system, the environment, the YAML parser, the URL parser and the
  glob patterns are fields of \<open>loader_env\<close>. Texts are UTF-8 bytes.
\<close>

section \<open>Texts\<close>

text \<open>The encodings of the characters with the Unicode property White Space.\<close>

definition ws_seqs :: "string list" where
  "ws_seqs = map (\<lambda>n. [char_of n]) [9, 10, 11, 12, 13, 32 :: nat] @
     map (map char_of) ([[0xC2, 0x85], [0xC2, 0xA0], [0xE1, 0x9A, 0x80], [0xE2, 0x80, 0xA8], [0xE2, 0x80, 0xA9],
       [0xE2, 0x80, 0xAF], [0xE2, 0x81, 0x9F], [0xE3, 0x80, 0x80]] @
       map (\<lambda>n. [0xE2, 0x80, 0x80 + n]) [0 ..< 11 :: nat])"

lemma ws_seqs_nonempty: "w \<in> set ws_seqs \<Longrightarrow> w \<noteq> []"
  by (auto simp: ws_seqs_def)

function strip_prefixes :: "string list \<Rightarrow> string \<Rightarrow> string" where
  "strip_prefixes ws s =
     (case find (\<lambda>w. w \<noteq> [] \<and> take (length w) s = w) ws of
        None \<Rightarrow> s
      | Some w \<Rightarrow> strip_prefixes ws (drop (length w) s))"
  by auto
termination
proof (relation "measure (\<lambda>(ws, s). length s)")
  fix ws s w assume "find (\<lambda>w. w \<noteq> [] \<and> take (length w) s = w) ws = Some w"
  then have "w \<noteq> []" "take (length w) s = w" by (auto simp: find_Some_iff)
  then have "0 < length w" "s \<noteq> []" by auto
  then show "((ws, drop (length w) s), ws, s) \<in> measure (\<lambda>(ws, s). length s)" by simp
qed simp

declare strip_prefixes.simps [simp del]

definition trim :: "string \<Rightarrow> string" where
  "trim s = rev (strip_prefixes (map rev ws_seqs) (rev (strip_prefixes ws_seqs s)))"

text \<open>\<open>str::replace\<close>: every occurrence, from the left, without overlaps.\<close>

function replace_all :: "string \<Rightarrow> string \<Rightarrow> string \<Rightarrow> string" where
  "replace_all pat rep s =
     (case s of
        [] \<Rightarrow> []
      | c # cs \<Rightarrow>
          if pat \<noteq> [] \<and> take (length pat) s = pat then rep @ replace_all pat rep (drop (length pat) s)
          else c # replace_all pat rep cs)"
  by auto
termination by (relation "measure (\<lambda>(pat, rep, s). length s)") auto

declare replace_all.simps [simp del]

section \<open>Substitution of environment variables\<close>

definition in_range :: "char \<Rightarrow> char \<Rightarrow> char \<Rightarrow> bool" where
  "in_range a b c \<longleftrightarrow> (of_char a :: nat) \<le> of_char c \<and> (of_char c :: nat) \<le> of_char b"

definition is_alpha :: "char \<Rightarrow> bool" where
  "is_alpha c \<longleftrightarrow> in_range (CHR ''A'') (CHR ''Z'') c \<or> in_range (CHR ''a'') (CHR ''z'') c"

definition is_digit :: "char \<Rightarrow> bool" where
  "is_digit c \<longleftrightarrow> in_range (CHR ''0'') (CHR ''9'') c"

text \<open>The pattern \<open>\<dollar>\<lbrace>name\<rbrace>\<close> or \<open>\<dollar>\<lbrace>name:-default\<rbrace>\<close> at the
  start of a text: matched text, name, default.\<close>

definition match_var :: "string \<Rightarrow> (string \<times> string \<times> string option) option" where
  "match_var s =
     (if take 2 s = ''${'' then
        let nm = takeWhile (\<lambda>c. is_alpha c \<or> is_digit c \<or> c = CHR ''_'') (drop 2 s);
            rest = drop (2 + length nm) s
        in if nm = [] \<or> is_digit (hd nm) then None
           else if take 1 rest = ''}'' then Some (take (3 + length nm) s, nm, None)
           else if take 2 rest = '':-'' then
             (let dflt = takeWhile (\<lambda>c. c \<noteq> CHR ''}'') (drop 2 rest)
              in if take 1 (drop (2 + length dflt) rest) = ''}''
                 then Some (take (5 + length nm + length dflt) s, nm, Some dflt) else None)
           else None
      else None)"

lemma match_var_nonempty: "match_var s = Some (full, nm, d) \<Longrightarrow> s \<noteq> [] \<and> full \<noteq> []"
  by (auto simp: match_var_def Let_def split: if_splits)

function env_matches :: "string \<Rightarrow> (string \<times> string \<times> string option) list" where
  "env_matches s =
     (case s of
        [] \<Rightarrow> []
      | c # cs \<Rightarrow>
          (case match_var s of
             None \<Rightarrow> env_matches cs
           | Some (full, nm, d) \<Rightarrow> (full, nm, d) # env_matches (drop (length full) s)))"
  by auto
termination
proof (relation "measure length")
  fix s c cs x full y nm d
  assume "s = c # cs" "match_var s = Some x" "(full, y) = x" "(nm, d) = y"
  then have "full \<noteq> []" using match_var_nonempty by blast
  then show "(drop (length full) s, s) \<in> measure length" using \<open>s = c # cs\<close> by (cases full) auto
qed auto

declare env_matches.simps [simp del]

fun substitute_all ::
  "(string \<Rightarrow> string option) \<Rightarrow> (string \<times> string \<times> string option) list \<Rightarrow> string \<Rightarrow> string list \<Rightarrow>
   string \<times> string list" where
  "substitute_all env [] result errors = (result, errors)"
| "substitute_all env ((full, nm, dflt) # ms) result errors =
     (case env nm of
        Some v \<Rightarrow> substitute_all env ms (replace_all full v result) errors
      | None \<Rightarrow>
          (case dflt of
             Some v \<Rightarrow> substitute_all env ms (replace_all full v result) errors
           | None \<Rightarrow> substitute_all env ms result (errors @ [nm])))"

definition substitute_env_vars :: "(string \<Rightarrow> string option) \<Rightarrow> string \<Rightarrow> config_error + string" where
  "substitute_env_vars env content =
     (case substitute_all env (env_matches content) content [] of
        (result, []) \<Rightarrow> Inr result
      | (_, v # _) \<Rightarrow> Inl (CE_MissingEnvVar v ''configuration''))"

section \<open>Validation\<close>

record version =
  v_major :: nat
  v_minor :: nat
  v_patch :: nat

datatype validation_warning =
    PolicyIdWithoutPolicyAction string
  | PatternMatchesNothing string
  | PerWorkflowSlackNotSupported string

record loader_env =
  le_env :: "string \<Rightarrow> string option"
  le_exists :: "string \<Rightarrow> bool"
  le_read :: "string \<Rightarrow> string + string"
  le_yaml :: "string \<Rightarrow> string + config"
  le_url_ok :: "string \<Rightarrow> bool"
  le_globs :: globs

fun first_error :: "('a \<Rightarrow> config_error option) \<Rightarrow> 'a list \<Rightarrow> config_error option" where
  "first_error f [] = None"
| "first_error f (x # xs) = (case f x of Some e \<Rightarrow> Some e | None \<Rightarrow> first_error f xs)"

fun first_duplicate :: "string list \<Rightarrow> string list \<Rightarrow> string option" where
  "first_duplicate seen [] = None"
| "first_duplicate seen (x # xs) = (if x \<in> set seen then Some x else first_duplicate (x # seen) xs)"

definition check_version :: "version \<Rightarrow> config \<Rightarrow> config_error option" where
  "check_version v c =
     (if v_major v = 0 \<and> v_minor v = 2 \<and> length (cf_sources c) \<noteq> 1
      then Some (CE_V02SingleSourceOnly (length (cf_sources c))) else None)"

definition is_id_char :: "char \<Rightarrow> bool" where
  "is_id_char c \<longleftrightarrow> is_alpha c \<or> is_digit c \<or> c \<in> {CHR ''.'', CHR ''_'', CHR ''-''}"

definition check_source_id :: "source \<Rightarrow> config_error option" where
  "check_source_id s =
     (let i = so_id s in
      if i = [] then Some (CE_InvalidSourceId i ''source ID must not be empty'')
      else if trim i \<noteq> i then
        Some (CE_InvalidSourceId i ''source ID must not have leading or trailing whitespace'')
      else if \<not> list_all is_id_char i then
        Some (CE_InvalidSourceId i ''source ID must contain only [a-zA-Z0-9._-]'')
      else None)"

definition check_url :: "loader_env \<Rightarrow> source \<Rightarrow> config_error option" where
  "check_url E s =
     (if le_url_ok E (so_url s) then None else Some (CE_InvalidUrl (so_url s) ''invalid URL format''))"

definition check_rule_workflow :: "string list \<Rightarrow> rule \<Rightarrow> config_error option" where
  "check_rule_workflow workflow_names r =
     (if ru_action r \<noteq> Approve then None
      else case ru_approval r of
        Some w \<Rightarrow> if w \<in> set workflow_names then None else Some (CE_UndefinedWorkflow w (ru_pattern r))
      | None \<Rightarrow>
          if length workflow_names \<noteq> 1
          then Some (CE_MissingApprovalWorkflow (ru_pattern r) (length workflow_names)) else None)"

fun filter_sources :: "source_filter \<Rightarrow> string list" where
  "filter_sources (Single i) = [i]"
| "filter_sources (Multiple is) = is"

definition check_rule :: "loader_env \<Rightarrow> string list \<Rightarrow> string list \<Rightarrow> rule \<Rightarrow> config_error option" where
  "check_rule E seen_ids workflow_names r =
     (if ru_action r = Policy \<and> ru_policy_id r = None then Some (CE_MissingPolicyId (ru_pattern r))
      else case check_rule_workflow workflow_names r of
        Some e \<Rightarrow> Some e
      | None \<Rightarrow>
          (case pattern_new (le_globs E) (ru_pattern r) of
             Inl e \<Rightarrow> Some (CE_InvalidGlobPattern (ru_pattern r) e)
           | Inr _ \<Rightarrow>
               (case ru_source r of
                  None \<Rightarrow> None
                | Some f \<Rightarrow> first_error
                    (\<lambda>i. if i \<in> set seen_ids then None else Some (CE_UndefinedSourceInRule i (ru_pattern r)))
                    (filter_sources f))))"

fun expose_patterns :: "expose_config \<Rightarrow> string list option" where
  "expose_patterns ExposeAll = None"
| "expose_patterns (Allowlist tools _) = Some tools"
| "expose_patterns (Blocklist tools _) = Some tools"

definition check_expose :: "loader_env \<Rightarrow> source \<Rightarrow> config_error option" where
  "check_expose E s =
     (case expose_patterns (source_expose s) of
        None \<Rightarrow> None
      | Some ps \<Rightarrow> first_error
          (\<lambda>p. case pattern_new (le_globs E) p of
                 Inl e \<Rightarrow> Some (CE_InvalidGlobPattern p (''invalid expose pattern for source '' @ q (so_id s) @ '': '' @ e))
               | Inr _ \<Rightarrow> None) ps)"

definition check_workflow :: "string \<times> human_workflow \<Rightarrow> config_error option" where
  "check_workflow nw =
     (case nw of (n, w) \<Rightarrow>
        (case hw_timeout w of
           Some d \<Rightarrow>
             if as_secs d < 5 then Some (CE_InvalidWorkflowTimeout n ''timeout'' (as_secs d))
             else (case hw_blocking_timeout w of
                     Some b \<Rightarrow> if as_secs b < 5 then Some (CE_InvalidWorkflowTimeout n ''blocking_timeout'' (as_secs b))
                               else None
                   | None \<Rightarrow> None)
         | None \<Rightarrow>
             (case hw_blocking_timeout w of
                Some b \<Rightarrow> if as_secs b < 5 then Some (CE_InvalidWorkflowTimeout n ''blocking_timeout'' (as_secs b))
                          else None
              | None \<Rightarrow> None)))"

definition check_cedar :: "loader_env \<Rightarrow> config \<Rightarrow> config_error option" where
  "check_cedar E c =
     (case cf_cedar c of
        None \<Rightarrow> None
      | Some ced \<Rightarrow> first_error (\<lambda>p. if le_exists E p then None else Some (CE_PolicyFileNotFound p))
          (ced_policies ced @ (case ced_schema ced of Some p \<Rightarrow> [p] | None \<Rightarrow> [])))"

text \<open>\<open>(0.0..=1.0).contains(&x)\<close> on the bits of an \<open>f64\<close>: positive up to one, or
  negative zero.\<close>

definition in_unit_interval :: "64 word \<Rightarrow> bool" where
  "in_unit_interval x \<longleftrightarrow> x \<le> 0x3FF0000000000000 \<or> x = 0x8000000000000000"

definition check_sampling :: "sampling_config \<Rightarrow> config_error option" where
  "check_sampling s =
     (if \<not> in_unit_interval (sa_success_sample_rate s) then Some (CE_InvalidSampleRate (sa_success_sample_rate s))
      else if sa_strategy s \<noteq> ''head'' \<and> sa_strategy s \<noteq> ''tail''
      then Some (CE_UnknownSamplingStrategy (sa_strategy s)) else None)"

definition check_otlp :: "loader_env \<Rightarrow> otlp_config \<Rightarrow> config_error option" where
  "check_otlp E ot =
     (if \<not> le_url_ok E (ot_endpoint ot) then Some (CE_InvalidOtlpEndpoint (ot_endpoint ot) ''invalid URL format'')
      else if ot_protocol ot \<noteq> ''http/protobuf'' \<and> ot_protocol ot \<noteq> ''grpc''
      then Some (CE_UnknownOtlpProtocol (ot_protocol ot)) else None)"

definition check_batch :: "batch_config \<Rightarrow> config_error option" where
  "check_batch b =
     (if bc_max_queue_size b = 0 then Some (CE_InvalidQueueSize (bc_max_queue_size b))
      else if bc_scheduled_delay_ms b < 100 then Some (CE_InvalidBatchDelay (bc_scheduled_delay_ms b))
      else if bc_max_export_batch_size b = 0 \<or> bc_max_export_batch_size b > bc_max_queue_size b
      then Some (CE_InvalidExportBatchSize (bc_max_export_batch_size b) (bc_max_queue_size b))
      else if bc_export_timeout_ms b < 100 then Some (CE_InvalidExportTimeout (bc_export_timeout_ms b))
      else None)"

definition opt_check :: "('a \<Rightarrow> config_error option) \<Rightarrow> 'a option \<Rightarrow> config_error option" where
  "opt_check f x = Option.bind x f"

definition or_else :: "config_error option \<Rightarrow> config_error option \<Rightarrow> config_error option" where
  "or_else a b = (case a of Some e \<Rightarrow> Some e | None \<Rightarrow> b)"

definition check_telemetry :: "loader_env \<Rightarrow> telemetry_config \<Rightarrow> config_error option" where
  "check_telemetry E t =
     or_else (opt_check check_sampling (te_sampling t))
       (or_else (opt_check (check_otlp E) (te_otlp t)) (opt_check check_batch (te_batch t)))"

definition workflows :: "config \<Rightarrow> (string \<times> human_workflow) list" where
  "workflows c = (case cf_approval c of Some ws \<Rightarrow> ws | None \<Rightarrow> [])"

definition rule_warnings :: "rule \<Rightarrow> validation_warning list" where
  "rule_warnings r =
     (if ru_policy_id r \<noteq> None \<and> ru_action r \<noteq> Policy then [PolicyIdWithoutPolicyAction (ru_pattern r)] else [])"

definition workflow_warnings :: "string \<times> human_workflow \<Rightarrow> validation_warning list" where
  "workflow_warnings nw =
     (case hw_destination (snd nw) of
        Slack channel token_env mention \<Rightarrow>
          if token_env \<noteq> None \<or> mention \<noteq> None \<or> channel \<noteq> ''#approvals''
          then [PerWorkflowSlackNotSupported (fst nw)] else [])"

definition validate :: "loader_env \<Rightarrow> version \<Rightarrow> config \<Rightarrow> config_error + validation_warning list" where
  "validate E v c =
     (let ids = map so_id (cf_sources c);
          rules = gv_rules (cf_governance c);
          err =
            or_else (if cf_schema c \<noteq> 1 then Some (CE_UnsupportedSchemaVersion (cf_schema c)) else None)
           (or_else (if cf_sources c = [] then Some CE_NoSourcesDefined else None)
           (or_else (check_version v c)
           (or_else (map_option CE_DuplicateSourceId (first_duplicate [] ids))
           (or_else (first_error (\<lambda>i. if take 1 i = ''_'' then Some (CE_ReservedPrefix i) else None) ids)
           (or_else (first_error check_source_id (cf_sources c))
           (or_else (map_option CE_DuplicatePrefix
                       (first_duplicate [] (List.map_filter so_prefix (cf_sources c))))
           (or_else (first_error (check_url E) (cf_sources c))
           (or_else (first_error (check_rule E ids (map fst (workflows c))) rules)
           (or_else (first_error (check_expose E) (cf_sources c))
           (or_else (first_error check_workflow (workflows c))
           (or_else (check_cedar E c)
                    (opt_check (check_telemetry E) (cf_telemetry c)))))))))))))
      in case err of
           Some e \<Rightarrow> Inl e
         | None \<Rightarrow> Inr (concat (map rule_warnings rules) @ concat (map workflow_warnings (workflows c))))"

section \<open>Loading\<close>

definition default_config_paths :: "loader_env \<Rightarrow> string list" where
  "default_config_paths E =
     (case le_env E ''THOUGHTGATE_CONFIG'' of Some p \<Rightarrow> [p] | None \<Rightarrow> []) @
     [''/etc/thoughtgate/config.yaml'', ''./config.yaml'']"

definition find_config_file :: "loader_env \<Rightarrow> string option \<Rightarrow> config_error + string" where
  "find_config_file E explicit_path =
     (case explicit_path of
        Some p \<Rightarrow> if le_exists E p then Inr p else Inl (CE_ConfigFileNotFound [p])
      | None \<Rightarrow>
          (case find (le_exists E) (default_config_paths E) of
             Some p \<Rightarrow> Inr p
           | None \<Rightarrow> Inl (CE_ConfigFileNotFound (default_config_paths E))))"

definition load_config :: "loader_env \<Rightarrow> string \<Rightarrow> config_error + config" where
  "load_config E path =
     (case le_read E path of
        Inl e \<Rightarrow> Inl (CE_IoError e)
      | Inr contents \<Rightarrow>
          if trim contents = [] then Inl CE_EmptyConfigFile
          else (case substitute_env_vars (le_env E) contents of
                  Inl e \<Rightarrow> Inl e
                | Inr contents' \<Rightarrow>
                    (case le_yaml E contents' of Inl e \<Rightarrow> Inl (CE_ParseError e) | Inr c \<Rightarrow> Inr c)))"

definition load_and_validate ::
  "loader_env \<Rightarrow> string \<Rightarrow> version \<Rightarrow> config_error + config \<times> validation_warning list" where
  "load_and_validate E path v =
     (case load_config E path of
        Inl e \<Rightarrow> Inl e
      | Inr c \<Rightarrow>
          (case validate E v c of
             Inl e \<Rightarrow> Inl e
           | Inr ws \<Rightarrow>
               (case compile_patterns (le_globs E) c of Inl e \<Rightarrow> Inl e | Inr c' \<Rightarrow> Inr (c', ws))))"

section \<open>What validation guarantees\<close>

lemma or_else_None [simp]: "or_else a b = None \<longleftrightarrow> a = None \<and> b = None"
  by (simp add: or_else_def split: option.splits)

lemma first_error_None [simp]: "first_error f xs = None \<longleftrightarrow> (\<forall>x\<in>set xs. f x = None)"
  by (induction xs) (auto split: option.splits)

lemma first_duplicate_None: "first_duplicate seen xs = None \<longleftrightarrow> distinct xs \<and> set xs \<inter> set seen = {}"
  by (induction xs arbitrary: seen) auto

lemma opt_check_None [simp]: "opt_check f x = None \<longleftrightarrow> (\<forall>y. x = Some y \<longrightarrow> f y = None)"
  by (cases x) (auto simp: opt_check_def)

lemma strip_prefixes_id: "(\<And>w. w \<in> set ws \<Longrightarrow> w \<noteq> [] \<Longrightarrow> take (length w) s \<noteq> w) \<Longrightarrow> strip_prefixes ws s = s"
  by (subst strip_prefixes.simps) (auto simp: find_None_iff split: option.splits dest!: find_Some_iff [THEN iffD1])

lemma ws_seqs_foreign: "list_all (\<lambda>w. w \<noteq> [] \<and> \<not> is_id_char (hd w) \<and> \<not> is_id_char (last w)) ws_seqs"
  by code_simp

lemma no_foreign_prefix:
  assumes "list_all P s" and "w \<noteq> []" and "\<not> P (hd w)"
  shows "take (length w) s \<noteq> w"
proof
  assume "take (length w) s = w"
  then have "hd w \<in> set (take (length w) s)" using assms(2) by (metis hd_in_set)
  then show False using assms(1,3) by (auto simp: list_all_iff dest: in_set_takeD)
qed

lemma trim_id_chars:
  assumes "list_all is_id_char i"
  shows "trim i = i"
proof -
  have "strip_prefixes ws_seqs i = i"
    using no_foreign_prefix [OF assms] ws_seqs_foreign by (intro strip_prefixes_id) (auto simp: list_all_iff)
  moreover have "strip_prefixes (map rev ws_seqs) (rev i) = rev i"
  proof (rule strip_prefixes_id)
    fix w assume "w \<in> set (map rev ws_seqs)" "w \<noteq> []"
    then have "\<not> is_id_char (hd w)" using ws_seqs_foreign by (auto simp: list_all_iff hd_rev)
    then show "take (length w) (rev i) \<noteq> w" using \<open>w \<noteq> []\<close> assms
      by (intro no_foreign_prefix [where P = is_id_char]) (auto simp: list_all_iff)
  qed
  ultimately show ?thesis by (simp add: trim_def)
qed

abbreviation glob_ok :: "loader_env \<Rightarrow> string \<Rightarrow> bool" where
  "glob_ok E p \<equiv> \<not> isl (pattern_new (le_globs E) p)"

definition source_ok :: "loader_env \<Rightarrow> source \<Rightarrow> bool" where
  "source_ok E s \<longleftrightarrow> so_id s \<noteq> [] \<and> hd (so_id s) \<noteq> CHR ''_'' \<and> list_all is_id_char (so_id s) \<and>
     le_url_ok E (so_url s) \<and>
     (\<forall>ps. expose_patterns (source_expose s) = Some ps \<longrightarrow> (\<forall>p\<in>set ps. glob_ok E p))"

definition rule_ok :: "loader_env \<Rightarrow> config \<Rightarrow> rule \<Rightarrow> bool" where
  "rule_ok E c r \<longleftrightarrow> glob_ok E (ru_pattern r) \<and>
     (ru_action r = Policy \<longrightarrow> ru_policy_id r \<noteq> None) \<and>
     (ru_action r = Approve \<longrightarrow>
       (case ru_approval r of Some w \<Rightarrow> get_workflow c w \<noteq> None | None \<Rightarrow> length (workflows c) = 1)) \<and>
     (\<forall>f. ru_source r = Some f \<longrightarrow> (\<forall>i\<in>set (filter_sources f). get_source c i \<noteq> None))"

definition workflow_ok :: "human_workflow \<Rightarrow> bool" where
  "workflow_ok w \<longleftrightarrow> timeout_or_default w \<ge> from_secs 5 \<and> blocking_timeout_or_default w \<ge> from_secs 5"

definition telemetry_ok :: "loader_env \<Rightarrow> telemetry_config \<Rightarrow> bool" where
  "telemetry_ok E t \<longleftrightarrow>
     (\<forall>s. te_sampling t = Some s \<longrightarrow> in_unit_interval (sa_success_sample_rate s) \<and> sa_strategy s \<in> {''head'', ''tail''}) \<and>
     (\<forall>ot. te_otlp t = Some ot \<longrightarrow> le_url_ok E (ot_endpoint ot) \<and> ot_protocol ot \<in> {''http/protobuf'', ''grpc''}) \<and>
     (\<forall>b. te_batch t = Some b \<longrightarrow> 100 \<le> bc_scheduled_delay_ms b \<and> 100 \<le> bc_export_timeout_ms b \<and>
        0 < bc_max_export_batch_size b \<and> bc_max_export_batch_size b \<le> bc_max_queue_size b)"

definition config_ok :: "loader_env \<Rightarrow> version \<Rightarrow> config \<Rightarrow> bool" where
  "config_ok E v c \<longleftrightarrow> cf_schema c = 1 \<and> cf_sources c \<noteq> [] \<and>
     (v_major v = 0 \<and> v_minor v = 2 \<longrightarrow> length (cf_sources c) = 1) \<and>
     distinct (map so_id (cf_sources c)) \<and> distinct (List.map_filter so_prefix (cf_sources c)) \<and>
     (\<forall>s\<in>set (cf_sources c). source_ok E s) \<and>
     (\<forall>r\<in>set (gv_rules (cf_governance c)). rule_ok E c r) \<and>
     (\<forall>(n, w)\<in>set (workflows c). workflow_ok w) \<and>
     (\<forall>ced. cf_cedar c = Some ced \<longrightarrow>
        (\<forall>p\<in>set (ced_policies ced) \<union> set_option (ced_schema ced). le_exists E p)) \<and>
     (\<forall>t. cf_telemetry c = Some t \<longrightarrow> telemetry_ok E t)"

lemma get_workflow_None: "get_workflow c w = None \<longleftrightarrow> w \<notin> fst ` set (workflows c)"
  by (auto simp: get_workflow_def workflows_def map_of_eq_None_iff split: option.splits)

lemma get_source_None: "get_source c i = None \<longleftrightarrow> i \<notin> so_id ` set (cf_sources c)"
  by (auto simp: get_source_def find_None_iff)

lemma check_rule_None:
  "check_rule E (map so_id (cf_sources c)) (map fst (workflows c)) r = None \<longleftrightarrow> rule_ok E c r"
  by (auto simp: check_rule_def check_rule_workflow_def rule_ok_def get_workflow_None get_source_None isl_def
      split: option.splits sum.splits if_splits)

lemma check_source_None:
  "check_source_id s = None \<and> \<not> take 1 (so_id s) = ''_'' \<and> check_url E s = None \<and> check_expose E s = None \<longleftrightarrow>
   source_ok E s"
  using trim_id_chars [of "so_id s"]
  by (cases "so_id s") (auto simp: check_source_id_def check_url_def check_expose_def source_ok_def Let_def isl_def
      split: option.splits sum.splits if_splits)

lemma as_secs_five: "as_secs d < 5 \<longleftrightarrow> d < from_secs 5"
  by (simp add: tg_defs div_less_iff_less_mult)

lemma check_workflow_None: "check_workflow (n, w) = None \<longleftrightarrow> workflow_ok w"
  by (auto simp: check_workflow_def workflow_ok_def timeout_or_default_def blocking_timeout_or_default_def as_secs_five
      default_approval_timeout_def from_secs_def split: option.splits if_splits)

lemma check_cedar_None:
  "check_cedar E c = None \<longleftrightarrow> (\<forall>ced. cf_cedar c = Some ced \<longrightarrow>
     (\<forall>p\<in>set (ced_policies ced) \<union> set_option (ced_schema ced). le_exists E p))"
  by (auto simp: check_cedar_def split: option.splits if_splits)

lemma check_sampling_None:
  "check_sampling s = None \<longleftrightarrow>
     in_unit_interval (sa_success_sample_rate s) \<and> sa_strategy s \<in> {''head'', ''tail''}"
  unfolding check_sampling_def by simp

lemma check_otlp_None:
  "check_otlp E ot = None \<longleftrightarrow> le_url_ok E (ot_endpoint ot) \<and> ot_protocol ot \<in> {''http/protobuf'', ''grpc''}"
  unfolding check_otlp_def by simp

lemma check_batch_None:
  "check_batch b = None \<longleftrightarrow> 100 \<le> bc_scheduled_delay_ms b \<and> 100 \<le> bc_export_timeout_ms b \<and>
     0 < bc_max_export_batch_size b \<and> bc_max_export_batch_size b \<le> bc_max_queue_size b"
  unfolding check_batch_def by (auto simp: not_less)

lemma check_telemetry_None: "check_telemetry E t = None \<longleftrightarrow> telemetry_ok E t"
  unfolding check_telemetry_def telemetry_ok_def or_else_None opt_check_None check_sampling_None check_otlp_None
    check_batch_None ..

lemma error_case_Inr: "(\<exists>ws. (case err of Some e \<Rightarrow> Inl e | None \<Rightarrow> Inr w) = Inr ws) \<longleftrightarrow> err = None"
  by (simp split: option.split)

lemma validate_Inr:
  "(\<exists>ws. validate E v c = Inr ws) \<longleftrightarrow> config_ok E v c"
proof -
  let ?ids = "map so_id (cf_sources c)"
  have *: "(\<exists>ws. validate E v c = Inr ws) \<longleftrightarrow>
      cf_schema c = 1 \<and> cf_sources c \<noteq> [] \<and> check_version v c = None \<and> first_duplicate [] ?ids = None \<and>
      (\<forall>s\<in>set (cf_sources c). take 1 (so_id s) \<noteq> ''_'') \<and> (\<forall>s\<in>set (cf_sources c). check_source_id s = None) \<and>
      first_duplicate [] (List.map_filter so_prefix (cf_sources c)) = None \<and>
      (\<forall>s\<in>set (cf_sources c). check_url E s = None) \<and>
      (\<forall>r\<in>set (gv_rules (cf_governance c)). check_rule E ?ids (map fst (workflows c)) r = None) \<and>
      (\<forall>s\<in>set (cf_sources c). check_expose E s = None) \<and>
      (\<forall>nw\<in>set (workflows c). check_workflow nw = None) \<and> check_cedar E c = None \<and>
      (\<forall>t. cf_telemetry c = Some t \<longrightarrow> check_telemetry E t = None)"
    unfolding validate_def Let_def error_case_Inr or_else_None by simp
  have v: "check_version v c = None \<longleftrightarrow> (v_major v = 0 \<and> v_minor v = 2 \<longrightarrow> length (cf_sources c) = 1)"
    by (auto simp: check_version_def)
  have w: "(\<forall>nw\<in>set (workflows c). check_workflow nw = None) \<longleftrightarrow> (\<forall>(n, w)\<in>set (workflows c). workflow_ok w)"
    by (auto simp: check_workflow_None)
  have s: "(\<forall>s\<in>set (cf_sources c). source_ok E s) \<longleftrightarrow>
      (\<forall>s\<in>set (cf_sources c). take 1 (so_id s) \<noteq> ''_'') \<and> (\<forall>s\<in>set (cf_sources c). check_source_id s = None) \<and>
      (\<forall>s\<in>set (cf_sources c). check_url E s = None) \<and> (\<forall>s\<in>set (cf_sources c). check_expose E s = None)"
    unfolding check_source_None [symmetric] by blast
  show ?thesis
    unfolding * config_ok_def v w s check_rule_None check_cedar_None check_telemetry_None first_duplicate_None
    by simp blast
qed

lemma compile_text_isr: "glob_ok E p \<Longrightarrow> \<exists>x. compile_text (le_globs E) p = Inr x"
  by (auto simp: compile_text_def isl_def split: sum.splits)

lemma compile_source_isr: "source_ok E s \<Longrightarrow> \<exists>x. compile_source (le_globs E) s = Inr x"
proof -
  assume "source_ok E s"
  then have "\<exists>xs. collect_results (map (compile_text (le_globs E)) ps) = Inr xs"
    if "expose_patterns (source_expose s) = Some ps" for ps
    using that by (auto simp: collect_results_isr source_ok_def intro!: compile_text_isr)
  then show ?thesis
    by (cases "source_expose s")
       (fastforce simp: compile_source_def compile_expose_def source_expose_def split: option.splits)+
qed

lemma validated_compiles: "config_ok E v c \<Longrightarrow> \<exists>c'. compile_patterns (le_globs E) c = Inr c'"
proof -
  assume ok: "config_ok E v c"
  have "\<exists>x. compile_rule (le_globs E) r = Inr x" if "r \<in> set (gv_rules (cf_governance c))" for r
    using ok that compile_text_isr [of E "ru_pattern r"]
    by (auto simp: compile_rule_def config_ok_def rule_ok_def)
  then obtain rs where "collect_results (map (compile_rule (le_globs E)) (gv_rules (cf_governance c))) = Inr rs"
    using collect_results_isr [of "map (compile_rule (le_globs E)) (gv_rules (cf_governance c))"] by auto
  moreover obtain ss where "collect_results (map (compile_source (le_globs E)) (cf_sources c)) = Inr ss"
    using collect_results_isr [of "map (compile_source (le_globs E)) (cf_sources c)"] ok compile_source_isr
    by (fastforce simp: config_ok_def)
  ultimately show ?thesis by (simp add: compile_patterns_def)
qed

text \<open>C28: Validation implements the declarative specification of a usable configuration, and a
  configuration that passes it always compiles: once the file is read, substituted and parsed, loading
  succeeds exactly when the parsed configuration is usable, its result is then the compiled form of
  that configuration, and otherwise its error is the one of validation, never one of compilation. In a
  usable configuration identifiers and prefixes are unique and well formed, every pattern compiles,
  every approval rule names a defined workflow (or there is exactly one), every source a rule names
  exists, every workflow waits at least five seconds, every policy file exists and the telemetry
  settings are in range.\<close>

theorem validation_refines_spec:
  assumes "load_config E path = Inr c"
  shows "case load_and_validate E path v of
      Inr (c', ws) \<Rightarrow> config_ok E v c \<and> compile_patterns (le_globs E) c = Inr c'
    | Inl e \<Rightarrow> \<not> config_ok E v c \<and> validate E v c = Inl e"
proof (cases "validate E v c")
  case (Inl e)
  then have "\<not> config_ok E v c" unfolding validate_Inr [symmetric] by simp
  with Inl show ?thesis by (simp add: load_and_validate_def assms)
next
  case (Inr ws)
  then have "config_ok E v c" unfolding validate_Inr [symmetric] by blast
  with Inr validated_compiles [OF this] show ?thesis by (auto simp: load_and_validate_def assms)
qed

definition demo_loader :: loader_env where
  "demo_loader = \<lparr>le_env = (\<lambda>n. if n = ''PATTERN'' then Some ''write'' else None),
     le_exists = (\<lambda>p. p = ''./config.yaml''),
     le_read = (\<lambda>p. if p = ''./config.yaml'' then Inr ''tool: ${PATTERN}'' else Inl ''not found''),
     le_yaml = (\<lambda>t. if t = ''tool: write''
        then Inr (demo_config\<lparr>cf_approval := Some [(''review'',
               \<lparr>hw_destination = Slack ''#approvals'' None None, hw_timeout = None, hw_on_timeout = None,
                hw_blocking_timeout = None, hw_redact_fields = None\<rparr>)]\<rparr>)
        else Inl ''syntax''),
     le_url_ok = (\<lambda>u. u \<noteq> []), le_globs = demo_globs\<rparr>"

theorem validation_refines_spec_witness:
  "\<exists>c c' ws. load_config demo_loader ''./config.yaml'' = Inr c \<and>
     load_and_validate demo_loader ''./config.yaml'' \<lparr>v_major = 0, v_minor = 2, v_patch = 0\<rparr> = Inr (c', ws) \<and>
     config_ok demo_loader \<lparr>v_major = 0, v_minor = 2, v_patch = 0\<rparr> c"
proof -
  let ?v = "\<lparr>v_major = 0, v_minor = 2, v_patch = 0\<rparr>"
  have "case load_config demo_loader ''./config.yaml'' of Inr _ \<Rightarrow> True | Inl _ \<Rightarrow> False"
    and r: "case load_and_validate demo_loader ''./config.yaml'' ?v of Inr _ \<Rightarrow> True | Inl _ \<Rightarrow> False"
    by code_simp+
  then obtain c where c: "load_config demo_loader ''./config.yaml'' = Inr c" by (auto split: sum.splits)
  from validation_refines_spec [OF this, of ?v] r c show ?thesis by (auto split: sum.splits)
qed

end
