(* ===== verification/Engine_Flow.thy ===== *)
theory Engine_Flow
  imports Engine
begin

text \<open>
  Theorems on the approval engine: what starting an approval leaves behind, what a request for the
  result returns and sends in every state of the task, and the blocking wait.
\<close>

declare map_of_eq_Some_iff [simp del]

section \<open>Starting an approval\<close>

lemma create_ROk:
  assumes inv: "store_inv s" and ok: "create_ok E i orig s"
    and cr: "create E i now orig tr p ttl ot s = (s', ROk t)"
  shows "\<exists>d est. task_new E i now orig tr p d ot = Inr t \<and> s' = stored t est (rate_limit_key p) s \<and>
     s_pending_count s + 1 < usize_mod \<and> principal_count s (rate_limit_key p) + 1 < usize_mod"
proof -
  have "config_ok (s_config s)" using inv by (simp add: store_inv_def)
  then show ?thesis
    using cr unfolding create_unfold [OF inv ok]
    by (auto simp: config_ok_def split: if_splits sum.splits)
qed

lemma transition_input_required:
  assumes "map_of (s_tasks st) k = Some e" and "t_status (e_task e) = Working"
  shows "\<exists>t. task_transition now InputRequired why (e_task e) = Inr t \<and>
     transition now k InputRequired why st = (put_entry k (e\<lparr>e_task := t\<rparr>) st, Inr t) \<and>
     t_status t = InputRequired \<and> same_request (e_task e) t"
proof -
  obtain t where t: "task_transition now InputRequired why (e_task e) = Inr t"
    using task_transition_ok [of "e_task e" InputRequired now why] assms(2) by auto
  with task_transition_Inr [OF t] assms show ?thesis
    by (auto simp: transition_def settle_def)
qed

lemma submit_store [simp]: "sc_store (fst (submit post rq s)) = sc_store s"
  by (simp add: submit_def split: sum.splits)

lemma submit_Inr:
  "submit post rq s = (s', Inr u) \<Longrightarrow> \<exists>r. post rq = Inr r \<and> s' = reschedule (ar_task_id r) r s"
  by (auto simp: submit_def split: if_splits sum.splits)

text \<open>The state after a task was created and moved to \<open>InputRequired\<close>.\<close>

lemma created_waiting:
  assumes inv: "store_inv s" and ok: "create_ok E i orig s"
    and cr: "create E i now orig tr p ttl ot s = (s1, ROk t)"
    and tr: "transition now (t_id t) InputRequired None s1 = (s2, Inr t1)"
  shows "t_id t = i \<and> get i s2 = Inr t1 \<and> t_status t1 = InputRequired \<and> t_original_request t1 = orig \<and>
     t_pre_approval_transformed t1 = tr \<and> hash_request E tr = Inr (t_request_hash t1) \<and>
     t_on_timeout t1 = ot \<and> s_pending_count s2 = s_pending_count s + 1"
proof -
  obtain d est where n: "task_new E i now orig tr p d ot = Inr t"
    "s1 = stored t est (rate_limit_key p) s"
    "s_pending_count s + 1 < usize_mod" "principal_count s (rate_limit_key p) + 1 < usize_mod"
    using create_ROk [OF inv ok cr] by blast
  note f = task_new_Inr [OF n(1)] and st = stored_simps [OF n(3,4), of t est, folded n(2)]
  from transition_input_required [OF st(1), of now None] tr f st(2) show ?thesis
    by (auto simp: same_request_def get_def AList.update_conv')
qed

text \<open>What \<open>start_approval\<close> did when it returned a start result or a posting error.\<close>

lemma start_approval_posted:
  assumes "start_approval i cid now post rq p wt ov rf en = (en', res)"
    and "res = ROk r \<or> res = RErr (EE_PostFailed d)"
  obtains pre ttl act st t st1 t1 areq where
    "pre_approval_amber (en_pipeline en) rq = Inr pre"
    "create (pl_ext (en_pipeline en)) i now rq (ph_transformed_request pre) p ttl act (en_store en) = (st, ROk t)"
    "transition now (t_id t) InputRequired None st = (st1, Inr t1)"
    "en_sched en' = fst (submit post areq ((en_sched en)\<lparr>sc_store := st1\<rparr>))"
    "aq_task_id areq = t_id t"
    "case snd (submit post areq ((en_sched en)\<lparr>sc_store := st1\<rparr>)) of
       Inr _ \<Rightarrow> res = ROk \<lparr>as_task_id = t_id t, as_status = InputRequired, as_poll_interval = t_poll_interval t\<rparr>
     | Inl e \<Rightarrow> res = RErr (EE_PostFailed (adapter_error_to_string (pl_ext (en_pipeline en)) e))"
proof -
  let ?E = "pl_ext (en_pipeline en)"
  let ?ttl = "Some (case wt of Some d \<Rightarrow> d | None \<Rightarrow> ec_approval_timeout (en_config en))"
  let ?act = "case ov of Some a \<Rightarrow> a | None \<Rightarrow> ec_on_timeout (en_config en)"
  note def = assms(1) [unfolded start_approval_def Let_def]
  obtain pre where pre: "pre_approval_amber (en_pipeline en) rq = Inr pre"
    using def assms(2) by (cases "pre_approval_amber (en_pipeline en) rq") auto
  let ?create = "create ?E i now rq (ph_transformed_request pre) p ?ttl ?act (en_store en)"
  obtain st t where cr: "?create = (st, ROk t)"
    using def assms(2) pre by (cases "?create"; cases "snd ?create") auto
  let ?trans = "transition now (t_id t) InputRequired None st"
  obtain st1 t1 where tr: "?trans = (st1, Inr t1)"
    using def assms(2) pre cr by (cases "?trans"; cases "snd ?trans") auto
  define areq where "areq = \<lparr>aq_task_id = t_id t, aq_tool_name = r_name rq,
      aq_tool_arguments = r_arguments rq, aq_principal = p, aq_expires_at = t_expires_at t,
      aq_created_at = t_created_at t, aq_correlation_id = cid, aq_redact_fields = rf\<rparr>"
  obtain sc u where sub: "submit post areq ((en_sched en)\<lparr>sc_store := st1\<rparr>) = (sc, u)"
    by (cases "submit post areq ((en_sched en)\<lparr>sc_store := st1\<rparr>)")
  show thesis
  proof (rule that [OF pre cr tr])
    show "en_sched en' = fst (submit post areq ((en_sched en)\<lparr>sc_store := st1\<rparr>))"
      using def pre cr tr sub by (cases u) (auto simp: with_store_def areq_def)
    show "aq_task_id areq = t_id t" by (simp add: areq_def)
    show "case snd (submit post areq ((en_sched en)\<lparr>sc_store := st1\<rparr>)) of
       Inr _ \<Rightarrow> res = ROk \<lparr>as_task_id = t_id t, as_status = InputRequired, as_poll_interval = t_poll_interval t\<rparr>
     | Inl e \<Rightarrow> res = RErr (EE_PostFailed (adapter_error_to_string ?E e))"
      using def pre cr tr sub by (cases u) (auto simp: with_store_def areq_def)
  qed
qed

text \<open>When starting an approval succeeds, the returned identifier names a stored task that
  waits for a decision on exactly this request, is bound to the hash of the inspected request, takes
  one slot, and is queued for polling; nothing has been sent upstream. (The adapter's reference is
  for the task that was posted.)\<close>

lemma start_approval_success:
  assumes "store_inv (en_store en)" and "create_ok (pl_ext (en_pipeline en)) i request (en_store en)"
    and "start_approval i cid now post request p timeout action redactions en = (en', ROk r)"
    and "\<forall>areq ref. post areq = Inr ref \<longrightarrow> ar_task_id ref = aq_task_id areq"
  shows "as_task_id r = i \<and> as_status r = InputRequired \<and>
    (\<exists>t pre. get i (en_store en') = Inr t \<and> t_status t = InputRequired \<and> t_original_request t = request \<and>
       pre_approval_amber (en_pipeline en) request = Inr pre \<and>
       t_pre_approval_transformed t = ph_transformed_request pre \<and>
       t_request_hash t = ph_request_hash pre) \<and>
    s_pending_count (en_store en') = s_pending_count (en_store en) + 1 \<and>
    (\<exists>ref. map_of (sc_references (en_sched en')) i = Some ref \<and> queued (en_sched en') i ref)"
proof (rule start_approval_posted [OF assms(3)])
  show "ROk r = ROk r \<or> ROk r = RErr (EE_PostFailed undefined)" by simp
  fix pre ttl act st t st1 t1 areq
  assume pre: "pre_approval_amber (en_pipeline en) request = Inr pre"
    and cr: "create (pl_ext (en_pipeline en)) i now request (ph_transformed_request pre) p ttl act
              (en_store en) = (st, ROk t)"
    and tr: "transition now (t_id t) InputRequired None st = (st1, Inr t1)"
    and sch: "en_sched en' = fst (submit post areq ((en_sched en)\<lparr>sc_store := st1\<rparr>))"
    and aq: "aq_task_id areq = t_id t"
    and res: "case snd (submit post areq ((en_sched en)\<lparr>sc_store := st1\<rparr>)) of
       Inr _ \<Rightarrow> ROk r = ROk \<lparr>as_task_id = t_id t, as_status = InputRequired, as_poll_interval = t_poll_interval t\<rparr>
     | Inl e \<Rightarrow> ROk r = RErr (EE_PostFailed (adapter_error_to_string (pl_ext (en_pipeline en)) e))"
  note w = created_waiting [OF assms(1,2) cr tr]
  from res obtain u where u: "submit post areq ((en_sched en)\<lparr>sc_store := st1\<rparr>) = (en_sched en', Inr u)"
    using sch by (cases "submit post areq ((en_sched en)\<lparr>sc_store := st1\<rparr>)") (auto split: sum.splits)
  obtain ref where ref: "post areq = Inr ref"
    "en_sched en' = reschedule (ar_task_id ref) ref ((en_sched en)\<lparr>sc_store := st1\<rparr>)"
    using submit_Inr [OF u] by blast
  have k: "ar_task_id ref = i" using assms(4) ref(1) aq w by simp
  have "hash_request (pl_ext (en_pipeline en)) (ph_transformed_request pre) = Inr (ph_request_hash pre)"
    using pre by (auto simp: pre_approval_amber_def split: sum.splits)
  then have "t_request_hash t1 = ph_request_hash pre" using w by simp
  moreover have "queued (en_sched en') i ref" "map_of (sc_references (en_sched en')) i = Some ref"
    using ref(2) k by (simp_all add: queued_def set_insort_insert AList.update_conv')
  moreover have "as_task_id r = i" "as_status r = InputRequired" using res u w by simp_all
  ultimately show ?thesis using w pre ref(2) by simp
qed

text \<open>When posting the approval fails, the task that was already created is left behind: it
  still waits for a decision nobody was asked for, and keeps its slot.\<close>

lemma start_approval_post_failure:
  assumes "store_inv (en_store en)" and "create_ok (pl_ext (en_pipeline en)) i request (en_store en)"
    and "start_approval i cid now post request p timeout action redactions en =
           (en', RErr (EE_PostFailed d))"
  shows "(\<exists>t. get i (en_store en') = Inr t \<and> t_status t = InputRequired) \<and>
    s_pending_count (en_store en') = s_pending_count (en_store en) + 1 \<and>
    sc_references (en_sched en') = sc_references (en_sched en)"
proof (rule start_approval_posted [OF assms(3)])
  show "RErr (EE_PostFailed d) = ROk undefined \<or> RErr (EE_PostFailed d) = RErr (EE_PostFailed d)" by simp
  fix pre ttl act st t st1 t1 areq
  assume cr: "create (pl_ext (en_pipeline en)) i now request (ph_transformed_request pre) p ttl act
              (en_store en) = (st, ROk t)"
    and tr: "transition now (t_id t) InputRequired None st = (st1, Inr t1)"
    and sch: "en_sched en' = fst (submit post areq ((en_sched en)\<lparr>sc_store := st1\<rparr>))"
    and res: "case snd (submit post areq ((en_sched en)\<lparr>sc_store := st1\<rparr>)) of
       Inr _ \<Rightarrow> RErr (EE_PostFailed d) = ROk \<lparr>as_task_id = t_id t, as_status = InputRequired, as_poll_interval = t_poll_interval t\<rparr>
     | Inl e \<Rightarrow> RErr (EE_PostFailed d) = RErr (EE_PostFailed (adapter_error_to_string (pl_ext (en_pipeline en)) e))"
  note w = created_waiting [OF assms(1,2) cr tr]
  have "en_sched en' = (en_sched en)\<lparr>sc_store := st1\<rparr>"
    using sch res by (auto simp: submit_def split: sum.splits if_splits)
  then show ?thesis using w by simp
qed

definition flow_engine :: approval_engine where
  "flow_engine = engine_new (store_with_metrics demo_cfg) demo_ext (pl_codec demo_pipeline)
     (pl_upstream demo_pipeline) (\<lambda>_. Inr PA_Forward) engine_config_default"

definition flow_post :: "approval_request \<Rightarrow> adapter_error + approval_reference" where
  "flow_post aq = Inr \<lparr>ar_task_id = aq_task_id aq, ar_external_id = ''ts'', ar_channel = ''c'',
     ar_posted_at = 0, ar_next_poll_at = 5, ar_poll_count = 0\<rparr>"

definition flow_start ::
  "(approval_request \<Rightarrow> adapter_error + approval_reference) \<Rightarrow> timeout_action option \<Rightarrow>
   approval_engine \<times> (engine_error, approval_start_result) rres" where
  "flow_start post act = start_approval ''7'' ''cid'' 0 post demo_req (principal_new ''a'') None act [] flow_engine"

lemma flow_inv:
  "store_inv (en_store flow_engine)" "create_ok (pl_ext (en_pipeline flow_engine)) ''7'' demo_req (en_store flow_engine)"
proof -
  have "config_ok demo_cfg" by code_simp
  moreover have "en_store flow_engine = store_with_metrics demo_cfg"
    by (simp add: flow_engine_def engine_new_def scheduler_new_def)
  ultimately show "store_inv (en_store flow_engine)" by (simp add: store_inv_with_metrics)
  show "create_ok (pl_ext (en_pipeline flow_engine)) ''7'' demo_req (en_store flow_engine)" by code_simp
qed

section \<open>Asking for the result\<close>

lemma execute_approved_cong:
  assumes "same_request t t'" and "t_status t' = t_status t"
  shows "execute_approved P now t' a = execute_approved P now t a"
proof -
  have "validate_approval now t' a = validate_approval now t a"
    using assms by (simp add: validate_approval_def)
  moreover have "reevaluate_policy ev t' a = reevaluate_policy ev t a" for ev
    using assms by (simp add: reevaluate_policy_def same_request_def)
  moreover have "post_approval_amber P t' = post_approval_amber P t"
  proof -
    have "t_original_request t' = t_original_request t" "t_request_hash t' = t_request_hash t"
      "t_pre_approval_transformed t' = t_pre_approval_transformed t"
      using assms by (simp_all add: same_request_def)
    then show ?thesis unfolding post_approval_amber_def by presburger
  qed
  ultimately show ?thesis by (simp add: execute_approved_def cong: sum.case_cong)
qed

lemma complete_row:
  assumes "map_of (s_tasks st) k = Some e" and "t_status (e_task e) = Executing"
  shows "\<exists>e'. map_of (s_tasks (fst (complete now k r st))) k = Some e' \<and>
    t_status (e_task e') = Completed \<and> t_result (e_task e') = Some r \<and> same_request (e_task e) (e_task e')"
  using assms
  by (simp add: complete_def Let_def task_transition_def settle_end_tasks AList.update_conv' ended_def
      same_request_def)

lemma fail_row:
  assumes "map_of (s_tasks st) k = Some e" and "t_status (e_task e) = Executing"
  shows "\<exists>e'. map_of (s_tasks (fst (fail_task now k f st))) k = Some e' \<and>
    t_status (e_task e') = Failed \<and> t_failure (e_task e') = Some f \<and> same_request (e_task e) (e_task e')"
  using assms
  by (simp add: fail_task_def Let_def task_transition_def settle_end_tasks AList.update_conv' ended_def
      same_request_def)

lemma with_store_simps [simp]:
  "en_store (with_store st en) = st" "en_pipeline (with_store st en) = en_pipeline en"
  "en_config (with_store st en) = en_config en" "en_executing (with_store st en) = en_executing en"
  by (simp_all add: with_store_def)

lemma execute_on_result_executing:
  assumes "map_of (s_tasks (en_store en)) k = Some e" and "k \<notin> set (en_executing en)"
    and "t_status (e_task e) = Executing" and "t_approval (e_task e) = Some a"
  shows "\<exists>e' r. execute_on_result now el k en =
      (with_store (fst (handle_pipeline_result now (en_config en)
          (snd (run_pipeline_with_timeout en now el (e_task e) a)) k (e_task e) (en_store en))) en,
       fst (run_pipeline_with_timeout en now el (e_task e) a), r) \<and>
    map_of (s_tasks (fst (handle_pipeline_result now (en_config en)
          (snd (run_pipeline_with_timeout en now el (e_task e) a)) k (e_task e) (en_store en)))) k = Some e' \<and>
    same_request (e_task e) (e_task e') \<and>
    (case r of Inr res \<Rightarrow> t_status (e_task e') = Completed \<and> t_result (e_task e') = Some res
     | Inl _ \<Rightarrow> t_status (e_task e') = Failed)"
proof -
  obtain sent pr where run: "run_pipeline_with_timeout en now el (e_task e) a = (sent, pr)" by fastforce
  have d: "execute_dispatch (pl_ext (en_pipeline en)) k (en_store en) = D_Execute (e_task e)"
    using assms by (simp add: execute_dispatch_def get_def)
  show ?thesis
  proof (cases pr)
    case (P_Success res)
    with complete_row [OF assms(1,3), of now res] assms run d show ?thesis
      by (auto simp: execute_on_result_def handle_pipeline_result_def)
  next
    case (P_Failure st why b)
    with fail_row [OF assms(1,3)] assms run d show ?thesis
      by (auto simp: execute_on_result_def handle_pipeline_result_def)
  qed
qed

text \<open>Asking for the result of a task that is neither executing nor expired sends nothing and
  changes nothing; an expired task whose timeout action is to deny is answered with a timeout error.
  Executing a task always ends it: it is completed with the returned result, or failed when an error
  is returned, and a second request is answered from the stored outcome without sending again.\<close>

lemma execute_on_result_effects:
  assumes "map_of (s_tasks (en_store en)) k = Some e" and "k \<notin> set (en_executing en)"
  shows "(t_status (e_task e) \<notin> {Executing, Expired} \<longrightarrow>
      (\<exists>r. execute_on_result now el k en = (en, None, r))) \<and>
    (t_status (e_task e) = Expired \<and> t_on_timeout (e_task e) = TA_Deny \<longrightarrow>
       execute_on_result now el k en = (en, None,
         Inl (ApprovalTimeoutErr (r_name (t_original_request (e_task e))) (as_secs (t_ttl (e_task e))) None))) \<and>
    (t_status (e_task e) = Executing \<and> t_approval (e_task e) \<noteq> None \<longrightarrow>
       (\<exists>en' sent r r'. execute_on_result now el k en = (en', sent, r) \<and>
          execute_on_result now' el' k en' = (en', None, r') \<and>
          (case r of Inr res \<Rightarrow> r' = Inr res | Inl _ \<Rightarrow> isl r')))"
proof (intro conjI impI)
  show "\<exists>r. execute_on_result now el k en = (en, None, r)" if "t_status (e_task e) \<notin> {Executing, Expired}"
    using that assms by (cases "t_status (e_task e)")
      (auto simp: execute_on_result_def execute_dispatch_def get_def split: option.splits)
  show "execute_on_result now el k en = (en, None,
         Inl (ApprovalTimeoutErr (r_name (t_original_request (e_task e))) (as_secs (t_ttl (e_task e))) None))"
    if "t_status (e_task e) = Expired \<and> t_on_timeout (e_task e) = TA_Deny"
    using that assms
    by (simp add: execute_on_result_def execute_dispatch_def get_def handle_expired_task_def)
  assume ex: "t_status (e_task e) = Executing \<and> t_approval (e_task e) \<noteq> None"
  then obtain a where a: "t_approval (e_task e) = Some a" by auto
  from execute_on_result_executing [OF assms conjunct1 [OF ex] a, of now el] obtain e' r where
    r: "execute_on_result now el k en = (with_store (fst (handle_pipeline_result now (en_config en)
          (snd (run_pipeline_with_timeout en now el (e_task e) a)) k (e_task e) (en_store en))) en,
       fst (run_pipeline_with_timeout en now el (e_task e) a), r)"
    and e': "map_of (s_tasks (fst (handle_pipeline_result now (en_config en)
          (snd (run_pipeline_with_timeout en now el (e_task e) a)) k (e_task e) (en_store en)))) k = Some e'"
    and st: "case r of Inr res \<Rightarrow> t_status (e_task e') = Completed \<and> t_result (e_task e') = Some res
     | Inl _ \<Rightarrow> t_status (e_task e') = Failed"
    by blast
  let ?en = "with_store (fst (handle_pipeline_result now (en_config en)
          (snd (run_pipeline_with_timeout en now el (e_task e) a)) k (e_task e) (en_store en))) en"
  have "\<exists>r'. execute_on_result now' el' k ?en = (?en, None, r') \<and>
      (case r of Inr res \<Rightarrow> r' = Inr res | Inl _ \<Rightarrow> isl r')"
    using e' st by (cases r)
      (auto simp: execute_on_result_def execute_dispatch_def get_def with_store_def split: sum.splits)
  then show "\<exists>en' sent r r'. execute_on_result now el k en = (en', sent, r) \<and>
          execute_on_result now' el' k en' = (en', None, r') \<and>
          (case r of Inr res \<Rightarrow> r' = Inr res | Inl _ \<Rightarrow> isl r')"
    using r by blast
qed

definition result_engine :: approval_engine where
  "result_engine = engine_new demo_store demo_ext (pl_codec demo_pipeline)
     (pl_upstream demo_pipeline) (\<lambda>_. Inr PA_Forward) engine_config_default"

section \<open>Automatic approval after expiry\<close>

lemma auto_row:
  assumes "map_of (s_tasks st) k = Some e"
  shows "\<exists>e'. map_of (s_tasks (fst (record_auto_approve_result now k res a st))) k = Some e' \<and>
    t_status (e_task e') = t_status (e_task e) \<and> same_request (e_task e) (e_task e') \<and>
    t_result (e_task e') = Some res"
  using assms by (simp add: record_auto_approve_result_def Let_def AList.update_conv' same_request_def)

lemma auto_approve_call:
  assumes "map_of (s_tasks (en_store en)) k = Some e" and "k \<notin> set (en_executing en)"
    and "t_status (e_task e) = Expired" and "t_on_timeout (e_task e) = TA_Approve"
    and "execute_approved (en_pipeline en) now ((e_task e)\<lparr>t_status := Executing\<rparr>)
           (auto_approval (pl_ext (en_pipeline en)) (en_config en) now) = (Some m, P_Success res)"
  shows "\<exists>e' st. execute_on_result now None k en = (with_store st en, Some m, Inr res) \<and>
     map_of (s_tasks st) k = Some e' \<and> t_status (e_task e') = Expired \<and>
     t_on_timeout (e_task e') = TA_Approve \<and> same_request (e_task e) (e_task e') \<and>
     t_result (e_task e') = Some res"
proof -
  have "execute_on_result now None k en = (with_store (fst (record_auto_approve_result now k res
      (auto_approval (pl_ext (en_pipeline en)) (en_config en) now) (en_store en))) en, Some m, Inr res)"
    using assms
    by (simp add: execute_on_result_def execute_dispatch_def get_def handle_expired_task_def Let_def
        run_limited_def)
  moreover from auto_row [OF assms(1), of now res "auto_approval (pl_ext (en_pipeline en)) (en_config en) now"]
  obtain e' where "map_of (s_tasks (fst (record_auto_approve_result now k res
      (auto_approval (pl_ext (en_pipeline en)) (en_config en) now) (en_store en)))) k = Some e'"
    "t_status (e_task e') = t_status (e_task e)" "same_request (e_task e) (e_task e')"
    "t_result (e_task e') = Some res" by blast
  moreover from this(3) have "t_on_timeout (e_task e') = TA_Approve"
    using assms(4) by (simp add: same_request_def)
  ultimately show ?thesis using assms(3) by auto
qed

text \<open>An expired task whose timeout action is to approve is executed anew each time its result
  is asked for: although the first successful execution is recorded on the task, it stays
  \<open>Expired\<close>, the recorded result is not consulted, and the second request sends the call
  upstream again.\<close>

lemma auto_approve_executes_again:
  assumes "map_of (s_tasks (en_store en)) k = Some e" and "k \<notin> set (en_executing en)"
    and "t_status (e_task e) = Expired" and "t_on_timeout (e_task e) = TA_Approve"
    and "execute_approved (en_pipeline en) now1 ((e_task e)\<lparr>t_status := Executing\<rparr>)
           (auto_approval (pl_ext (en_pipeline en)) (en_config en) now1) = (Some m, P_Success res)"
    and "execute_approved (en_pipeline en) now2 ((e_task e)\<lparr>t_status := Executing\<rparr>)
           (auto_approval (pl_ext (en_pipeline en)) (en_config en) now2) = (Some m, P_Success res)"
  shows "\<exists>en1 en2. execute_on_result now1 None k en = (en1, Some m, Inr res) \<and>
     (\<exists>t. get k (en_store en1) = Inr t \<and> t_result t = Some res) \<and>
     execute_on_result now2 None k en1 = (en2, Some m, Inr res)"
proof -
  from auto_approve_call [OF assms(1-5)] obtain e' st where
    1: "execute_on_result now1 None k en = (with_store st en, Some m, Inr res)"
    "map_of (s_tasks st) k = Some e'" "t_status (e_task e') = Expired"
    "t_on_timeout (e_task e') = TA_Approve" "same_request (e_task e) (e_task e')"
    "t_result (e_task e') = Some res" by auto
  have "same_request ((e_task e)\<lparr>t_status := Executing\<rparr>) ((e_task e')\<lparr>t_status := Executing\<rparr>)"
    using 1(5) by (simp add: same_request_def)
  then have "execute_approved (en_pipeline en) now2 ((e_task e')\<lparr>t_status := Executing\<rparr>)
      (auto_approval (pl_ext (en_pipeline en)) (en_config en) now2) = (Some m, P_Success res)"
    using execute_approved_cong [of "(e_task e)\<lparr>t_status := Executing\<rparr>" "(e_task e')\<lparr>t_status := Executing\<rparr>"] assms(6)
    by simp
  with auto_approve_call [of "with_store st en" k e' now2 m res] 1 assms(2)
  show ?thesis by (auto simp: get_def)
qed

definition auto_engine :: approval_engine where
  "auto_engine = with_store (fst (expire_overdue 700000000000 (en_store (fst (flow_start flow_post (Some TA_Approve))))))
     (fst (flow_start flow_post (Some TA_Approve)))"

section \<open>Waiting for the result\<close>

text \<open>
  One round of the blocking wait: the clock at the top of the loop, the clock at the heartbeat
  check, and the answer of \<open>execute_on_result\<close> in that round.
\<close>

record wait_round =
  wr_now :: instant
  wr_beat_now :: instant
  wr_answer :: "tg_error + tool_call_result"

definition timeout_result :: "nat \<Rightarrow> string \<Rightarrow> tool_call_result" where
  "timeout_result secs tool =
     \<lparr>res_content = JArray [JObject [(''type'', JString ''text''),
        (''text'', JString (''Approval timed out after '' @ show_nat secs @ ''s for tool '' @ q tool @
          ''. The request was sent to the approval channel but no response was received. '' @
          ''The tool call was NOT executed. You may retry.''))]],
      res_is_error = True\<rparr>"

text \<open>The loop over its rounds; the result is the number of heartbeats sent and the returned value,
  \<open>None\<close> while it still waits. \<open>has_tx\<close> tells whether a progress channel was given.\<close>

fun wait_loop ::
  "instant \<Rightarrow> duration \<Rightarrow> string \<Rightarrow> duration \<Rightarrow> bool \<Rightarrow> instant \<Rightarrow> wait_round list \<Rightarrow>
   nat \<times> (tg_error + tool_call_result) option" where
  "wait_loop deadline timeout tool heartbeat has_tx last_beat [] = (0, None)"
| "wait_loop deadline timeout tool heartbeat has_tx last_beat (w # ws) =
     (if wr_now w \<ge> deadline then (0, Some (Inr (timeout_result (as_secs timeout) tool)))
      else
        let beat = has_tx \<and> wr_beat_now w - last_beat \<ge> heartbeat;
            sent = (if beat then 1 else 0);
            last' = (if beat then wr_beat_now w else last_beat)
        in case wr_answer w of
             Inr result \<Rightarrow> (sent, Some (Inr result))
           | Inl (TaskResultNotReady _) \<Rightarrow>
               (let (n, r) = wait_loop deadline timeout tool heartbeat has_tx last' ws in (sent + n, r))
           | Inl (ApprovalTimeoutErr tool' secs _) \<Rightarrow> (sent, Some (Inr (timeout_result secs tool')))
           | Inl e \<Rightarrow> (sent, Some (Inl e)))"

definition wait_and_execute ::
  "instant \<Rightarrow> string \<Rightarrow> duration \<Rightarrow> duration \<Rightarrow> bool \<Rightarrow> wait_round list \<Rightarrow>
   nat \<times> (tg_error + tool_call_result) option" where
  "wait_and_execute start tool timeout heartbeat has_tx rounds =
     wait_loop (start + timeout) timeout tool heartbeat has_tx start rounds"

definition settles :: "instant \<Rightarrow> wait_round \<Rightarrow> bool" where
  "settles deadline w \<longleftrightarrow> wr_now w \<ge> deadline \<or> (case wr_answer w of Inl (TaskResultNotReady _) \<Rightarrow> False | _ \<Rightarrow> True)"

lemma wait_loop_returns:
  "snd (wait_loop d t tool hb tx lb ws) =
     (case filter (settles d) ws of
        [] \<Rightarrow> None
      | w # _ \<Rightarrow> Some (if wr_now w \<ge> d then Inr (timeout_result (as_secs t) tool)
                     else case wr_answer w of
                            Inr r \<Rightarrow> Inr r
                          | Inl (ApprovalTimeoutErr tool' secs _) \<Rightarrow> Inr (timeout_result secs tool')
                          | Inl e \<Rightarrow> Inl e))"
proof (induction ws arbitrary: lb)
  case Nil
  then show ?case by simp
next
  case (Cons w ws)
  show ?case
  proof (cases "settles d w")
    case True
    then show ?thesis
      by (cases "wr_now w \<ge> d")
        (auto simp: settles_def Let_def split: sum.splits tg_error.splits)
  next
    case False
    then obtain i where "wr_answer w = Inl (TaskResultNotReady i)" "\<not> wr_now w \<ge> d"
      by (auto simp: settles_def split: sum.splits tg_error.splits)
    then show ?thesis using False Cons.IH
      by (simp add: Let_def case_prod_beta)
  qed
qed

text \<open>The blocking wait returns exactly when a round comes in which the deadline has passed or
  the task has an outcome, and the first such round decides: a passed deadline or an approval timeout
  gives an error result that says so, every other outcome is passed on unchanged.\<close>

lemma wait_and_execute_result:
  "snd (wait_and_execute start tool timeout heartbeat has_tx rounds) =
     (case filter (settles (start + timeout)) rounds of
        [] \<Rightarrow> None
      | w # _ \<Rightarrow> Some (if wr_now w \<ge> start + timeout then Inr (timeout_result (as_secs timeout) tool)
                     else case wr_answer w of
                            Inr r \<Rightarrow> Inr r
                          | Inl (ApprovalTimeoutErr tool' secs _) \<Rightarrow> Inr (timeout_result secs tool')
                          | Inl e \<Rightarrow> Inl e))"
  unfolding wait_and_execute_def by (rule wait_loop_returns)

end
