(* ===== verification/Evaluator.thy ===== *)
theory Evaluator
  imports Config_Schema Engine_Flow
begin

text \<open>
  The gate evaluator of \<open>governance/evaluator.rs\<close> with the request and response types of
  \<open>governance/api.rs\<close>: visibility (gate 1), governance rules (gate 2), Cedar policy
  (gate 3), approval (gate 4). The evaluator shares one task store with the approval engine or with
  the scheduler of the legacy path; \<open>backend\<close> says which of them is configured and carries
  the store. Metrics and spans are not modelled.
\<close>

declare map_of_eq_Some_iff [simp del]

section \<open>Types\<close>

datatype profile = Production | Development

datatype stream_direction = AgentToServer | ServerToAgent

datatype message_type = MT_Request | MT_Response | MT_Notification

record evaluate_request =
  eq_server_id :: string
  eq_direction :: stream_direction
  eq_method :: string
  eq_id :: "json_rpc_id option"
  eq_params :: "json option"
  eq_message_type :: message_type
  eq_profile :: profile

datatype governance_decision = GD_Forward | GD_Deny | GD_PendingApproval

datatype deny_source = DS_Visibility | DS_GovernanceRule | DS_CedarPolicy

record evaluate_response =
  es_decision :: governance_decision
  es_task_id :: "string option"
  es_policy_id :: "string option"
  es_reason :: "string option"
  es_poll_interval_ms :: "nat option"
  es_timeout_secs :: "nat option"
  es_shutdown :: bool
  es_deny_source :: "deny_source option"

record eval_trace =
  et_gate1 :: "string option"
  et_gate2 :: "string option"
  et_gate2_rule_id :: "string option"
  et_gate3 :: "string option"
  et_gate3_policy_id :: "string option"
  et_gate4 :: "string option"

definition eval_trace_default :: eval_trace where
  "eval_trace_default = \<lparr>et_gate1 = None, et_gate2 = None, et_gate2_rule_id = None, et_gate3 = None,
     et_gate3_policy_id = None, et_gate4 = None\<rparr>"

text \<open>The Cedar engine decides on these requests; the clock context it also gets is part of the
  argument that stands for it.\<close>

datatype cedar_resource = CR_ToolCall string string json | CR_McpMethod string string

record cedar_request =
  cq_principal :: policy_principal
  cq_resource :: cedar_resource
  cq_policy_id :: string
  cq_source_id :: string

datatype cedar_decision = CD_Permit "string list" | CD_Forbid string "string list"

datatype backend = WithEngine approval_engine | WithScheduler scheduler | StoreOnly task_store

fun backend_store :: "backend \<Rightarrow> task_store" where
  "backend_store (WithEngine en) = en_store en"
| "backend_store (WithScheduler sc) = sc_store sc"
| "backend_store (StoreOnly st) = st"

fun set_backend_store :: "task_store \<Rightarrow> backend \<Rightarrow> backend" where
  "set_backend_store st (WithEngine en) = WithEngine (with_store st en)"
| "set_backend_store st (WithScheduler sc) = WithScheduler (sc\<lparr>sc_store := st\<rparr>)"
| "set_backend_store st (StoreOnly _) = StoreOnly st"

record evaluator =
  ev_config :: config
  ev_cedar_engine :: "(cedar_request \<Rightarrow> cedar_decision) option"
  ev_principal :: principal
  ev_profile :: profile
  ev_backend :: backend
  ev_ext :: ext
  ev_globs :: globs

text \<open>What one evaluation takes from its surroundings: identifiers, the clock, the adapter.\<close>

record eval_env =
  vv_task_id :: task_id
  vv_correlation_id :: string
  vv_now :: datetime
  vv_post :: "approval_request \<Rightarrow> adapter_error + approval_reference"

section \<open>Helpers\<close>

definition method_requires_gates :: "string \<Rightarrow> bool" where
  "method_requires_gates m \<longleftrightarrow>
     m \<in> {''tools/call'', ''resources/read'', ''resources/subscribe'', ''prompts/get''}"

definition extract_resource_name :: "string \<Rightarrow> json option \<Rightarrow> string option" where
  "extract_resource_name m params =
     (case params of
        None \<Rightarrow> None
      | Some p \<Rightarrow>
          if m = ''tools/call'' then Option.bind (jget ''name'' p) as_str
          else if m = ''resources/read'' \<or> m = ''resources/subscribe'' then Option.bind (jget ''uri'' p) as_str
          else if m = ''prompts/get'' then Option.bind (jget ''name'' p) as_str
          else None)"

definition extract_arguments :: "json option \<Rightarrow> json" where
  "extract_arguments params =
     (case Option.bind params (jget ''arguments'') of Some a \<Rightarrow> a | None \<Rightarrow> JObject [])"

definition forward :: "string option \<Rightarrow> evaluate_response" where
  "forward reason = \<lparr>es_decision = GD_Forward, es_task_id = None, es_policy_id = None,
     es_reason = reason, es_poll_interval_ms = None, es_timeout_secs = None, es_shutdown = False,
     es_deny_source = None\<rparr>"

definition deny :: "string option \<Rightarrow> string option \<Rightarrow> deny_source \<Rightarrow> evaluate_response" where
  "deny reason policy_id src = \<lparr>es_decision = GD_Deny, es_task_id = None, es_policy_id = policy_id,
     es_reason = reason, es_poll_interval_ms = None, es_timeout_secs = None, es_shutdown = False,
     es_deny_source = Some src\<rparr>"

definition pending :: "task_id \<Rightarrow> string option \<Rightarrow> nat \<Rightarrow> nat option \<Rightarrow> evaluate_response" where
  "pending k policy_id poll_ms timeout_secs = \<lparr>es_decision = GD_PendingApproval, es_task_id = Some k,
     es_policy_id = policy_id, es_reason = None, es_poll_interval_ms = Some poll_ms,
     es_timeout_secs = timeout_secs, es_shutdown = False, es_deny_source = None\<rparr>"

definition em_dash :: string where
  "em_dash = [CHR 0xE2, CHR 0x80, CHR 0x94]"

section \<open>Gate 4\<close>

text \<open>Results are the evaluator after the call, the trace and the response; \<open>None\<close> stands for
  a panic of the task store (its bounds for the time to live are out of order).\<close>

type_synonym gate_result = "evaluator \<times> eval_trace \<times> evaluate_response option"

definition default_approval_ttl_secs :: nat where
  "default_approval_ttl_secs = 300"

definition default_poll_interval_ms :: nat where
  "default_poll_interval_ms = as_millis (from_secs 5)"

definition start_approval_engine ::
  "eval_env \<Rightarrow> approval_engine \<Rightarrow> tool_call_request \<Rightarrow> string option \<Rightarrow> human_workflow option \<Rightarrow> principal \<Rightarrow>
   evaluator \<Rightarrow> eval_trace \<Rightarrow> gate_result" where
  "start_approval_engine V en request policy_id wflow p ev trace =
     (let (en', res) = start_approval (vv_task_id V) (vv_correlation_id V) (vv_now V) (vv_post V) request p
            (map_option timeout_or_default wflow) (map_option on_timeout_or_default wflow)
            (case Option.bind wflow hw_redact_fields of Some fs \<Rightarrow> fs | None \<Rightarrow> []) en;
          ev' = ev\<lparr>ev_backend := WithEngine en'\<rparr>
      in case res of
           RPanic \<Rightarrow> (ev', trace, None)
         | RErr e \<Rightarrow> (ev', trace, Some (deny (Some (''Approval workflow failed: '' @ engine_error_to_string e))
                                       policy_id DS_GovernanceRule))
         | ROk r \<Rightarrow>
             let timeout_secs = (case get (as_task_id r) (en_store en') of
                                   Inr t \<Rightarrow> Some (as_secs (t_ttl t)) | Inl _ \<Rightarrow> None)
             in (ev', trace\<lparr>et_gate4 := Some ''started''\<rparr>,
                 Some (pending (as_task_id r) policy_id (as_millis (as_poll_interval r)) timeout_secs)))"

definition legacy_submit ::
  "eval_env \<Rightarrow> string \<Rightarrow> json option \<Rightarrow> task \<Rightarrow> principal \<Rightarrow> string list \<Rightarrow> ext \<Rightarrow> backend \<Rightarrow>
   backend \<times> adapter_error option" where
  "legacy_submit V resource_name params t p redactions E b =
     (case b of
        WithScheduler sc \<Rightarrow>
          let areq = \<lparr>aq_task_id = t_id t, aq_tool_name = resource_name,
                aq_tool_arguments = extract_arguments params, aq_principal = p,
                aq_expires_at = t_expires_at t, aq_created_at = vv_now V,
                aq_correlation_id = t_id t, aq_redact_fields = redactions\<rparr>
          in (case submit (vv_post V) areq sc of
                (sc', Inr _) \<Rightarrow> (WithScheduler sc', None)
              | (sc', Inl e) \<Rightarrow>
                  (WithScheduler (sc'\<lparr>sc_store := fst (transition (vv_now V) (t_id t) Failed
                     (Some (''Scheduler submission failed: '' @ adapter_error_to_string E e))
                     (sc_store sc'))\<rparr>), Some e))
      | _ \<Rightarrow> (b, None))"

definition start_approval_legacy ::
  "eval_env \<Rightarrow> evaluate_request \<Rightarrow> string \<Rightarrow> tool_call_request \<Rightarrow> string option \<Rightarrow> human_workflow option \<Rightarrow>
   principal \<Rightarrow> evaluator \<Rightarrow> eval_trace \<Rightarrow> gate_result" where
  "start_approval_legacy V req resource_name request policy_id wflow p ev trace =
     (let E = ev_ext ev; b = ev_backend ev in
      case create E (vv_task_id V) (vv_now V) request request p
             (Some (from_secs default_approval_ttl_secs)) TA_Deny (backend_store b) of
        (st, RPanic) \<Rightarrow> (ev\<lparr>ev_backend := set_backend_store st b\<rparr>, trace, None)
      | (st, RErr e) \<Rightarrow>
          (ev\<lparr>ev_backend := set_backend_store st b\<rparr>, trace,
           Some (deny (Some (''Failed to create approval task: '' @ task_error_to_string E e)) policy_id
                   DS_GovernanceRule))
      | (st, ROk t) \<Rightarrow>
          (case transition (vv_now V) (t_id t) InputRequired None st of
             (st1, Inl e) \<Rightarrow>
               (ev\<lparr>ev_backend := set_backend_store st1 b\<rparr>, trace,
                Some (deny (Some (''Task transition failed: '' @ task_error_to_string E e)) policy_id
                        DS_GovernanceRule))
           | (st1, Inr _) \<Rightarrow>
               let (b', failed) = legacy_submit V resource_name (eq_params req) t p
                      (case Option.bind wflow hw_redact_fields of Some fs \<Rightarrow> fs | None \<Rightarrow> []) E
                      (set_backend_store st1 b);
                   ev' = ev\<lparr>ev_backend := b'\<rparr>
               in case failed of
                    Some e \<Rightarrow>
                      (ev', trace, Some (deny (Some (''Approval submission failed: '' @
                         adapter_error_to_string E e)) policy_id DS_GovernanceRule))
                  | None \<Rightarrow>
                      (ev', trace\<lparr>et_gate4 := Some ''started''\<rparr>,
                       Some (pending (t_id t) policy_id default_poll_interval_ms
                               (Some default_approval_ttl_secs)))))"

definition gate_start_approval ::
  "eval_env \<Rightarrow> evaluate_request \<Rightarrow> string \<Rightarrow> string option \<Rightarrow> string option \<Rightarrow> principal \<Rightarrow>
   evaluator \<Rightarrow> eval_trace \<Rightarrow> gate_result" where
  "gate_start_approval V req resource_name policy_id approval_workflow p ev trace =
     (if ev_profile ev = Development
      then (ev, trace, Some (forward (Some (''WOULD_REQUIRE_APPROVAL for '' @ q resource_name @ '' '' @
              em_dash @ '' auto-forwarding in dev mode''))))
      else
        let request = \<lparr>r_method = eq_method req, r_name = resource_name,
              r_arguments = extract_arguments (eq_params req),
              r_mcp_request_id = (case eq_id req of Some i \<Rightarrow> i | None \<Rightarrow> IdNull)\<rparr>;
            wflow = Option.bind approval_workflow (get_workflow (ev_config ev))
        in case ev_backend ev of
             WithEngine en \<Rightarrow> start_approval_engine V en request policy_id wflow p ev trace
           | _ \<Rightarrow> start_approval_legacy V req resource_name request policy_id wflow p ev trace)"

section \<open>Gate 3\<close>

definition cedar_request_of :: "evaluate_request \<Rightarrow> string \<Rightarrow> string \<Rightarrow> principal \<Rightarrow> cedar_request" where
  "cedar_request_of req resource_name pid p =
     \<lparr>cq_principal = \<lparr>pp_app_name = p_app_name p, pp_namespace = p_namespace p,
        pp_service_account = p_service_account p, pp_roles = p_roles p\<rparr>,
      cq_resource = (if eq_method req = ''tools/call''
        then CR_ToolCall resource_name (eq_server_id req) (extract_arguments (eq_params req))
        else CR_McpMethod (eq_method req) (eq_server_id req)),
      cq_policy_id = pid, cq_source_id = eq_server_id req\<rparr>"

definition evaluate_cedar ::
  "eval_env \<Rightarrow> evaluate_request \<Rightarrow> string \<Rightarrow> string option \<Rightarrow> string option \<Rightarrow> principal \<Rightarrow>
   evaluator \<Rightarrow> eval_trace \<Rightarrow> gate_result" where
  "evaluate_cedar V req resource_name policy_id approval_workflow p ev trace =
     (case ev_cedar_engine ev of
        None \<Rightarrow>
          if ev_profile ev = Development
          then (ev, trace, Some (forward (Some (''No Cedar engine configured '' @ em_dash @
                  '' forwarding in dev mode''))))
          else (ev, trace, Some (deny (Some ''Cedar engine not configured'') None DS_CedarPolicy))
      | Some evaluate_v2 \<Rightarrow>
          let pid = (case policy_id of Some i \<Rightarrow> i | None \<Rightarrow> ''default'');
              trace1 = trace\<lparr>et_gate3_policy_id := Some pid\<rparr>
          in case evaluate_v2 (cedar_request_of req resource_name pid p) of
               CD_Permit _ \<Rightarrow>
                 gate_start_approval V req resource_name (Some pid) approval_workflow p ev
                   (trace1\<lparr>et_gate3 := Some ''allow''\<rparr>)
             | CD_Forbid reason _ \<Rightarrow>
                 let trace2 = trace1\<lparr>et_gate3 := Some ''deny''\<rparr> in
                 if ev_profile ev = Development
                 then (ev, trace2, Some (forward (Some (''WOULD_DENY: Cedar forbid '' @ em_dash @ '' '' @ reason))))
                 else (ev, trace2, Some (deny (Some reason) (Some pid) DS_CedarPolicy)))"

section \<open>All gates\<close>

definition evaluate_with_principal ::
  "eval_env \<Rightarrow> evaluate_request \<Rightarrow> principal option \<Rightarrow> evaluator \<Rightarrow> gate_result" where
  "evaluate_with_principal V req principal_override ev =
     (let p = (case principal_override of Some p \<Rightarrow> p | None \<Rightarrow> ev_principal ev);
          trace = eval_trace_default
      in if eq_message_type req \<noteq> MT_Request \<or> eq_direction req \<noteq> AgentToServer
         then (ev, trace, Some (forward None))
         else if \<not> method_requires_gates (eq_method req) then (ev, trace, Some (forward None))
         else case extract_resource_name (eq_method req) (eq_params req) of
                None \<Rightarrow> (ev, trace, Some (forward None))
              | Some name \<Rightarrow>
                  (case get_source (ev_config ev) (eq_server_id req) of
                     None \<Rightarrow>
                       (ev, trace\<lparr>et_gate1 := Some ''block''\<rparr>,
                        Some (deny (Some (''Source '' @ q (eq_server_id req) @ '' not found in configuration''))
                                None DS_Visibility))
                   | Some src \<Rightarrow>
                       if \<not> so_enabled src then
                         (ev, trace\<lparr>et_gate1 := Some ''block''\<rparr>,
                          Some (deny (Some (''Source '' @ q (eq_server_id req) @ '' is disabled'')) None DS_Visibility))
                       else if \<not> is_visible (ev_globs ev) (source_expose src) name then
                         (ev, trace\<lparr>et_gate1 := Some ''block''\<rparr>,
                          Some (deny (Some (''Resource '' @ q name @ '' not exposed on source '' @
                            q (eq_server_id req))) None DS_Visibility))
                       else
                         let m = governance_evaluate (ev_globs ev) (cf_governance (ev_config ev)) name
                                   (eq_server_id req);
                             trace1 = trace\<lparr>et_gate1 := Some ''pass'', et_gate2_rule_id := mt_matched_rule m,
                                            et_gate2 := Some (display_action (mt_action m))\<rparr>
                         in case mt_action m of
                              Forward \<Rightarrow> (ev, trace1, Some (forward None))
                            | Deny \<Rightarrow> (ev, trace1, Some (deny (Some (''Denied by governance rule for '' @ q name))
                                        (mt_policy_id m) DS_GovernanceRule))
                            | Policy \<Rightarrow> evaluate_cedar V req name (mt_policy_id m) (mt_approval_workflow m) p ev trace1
                            | Approve \<Rightarrow> gate_start_approval V req name (mt_policy_id m) (mt_approval_workflow m) p ev
                                          trace1))"

definition evaluate :: "eval_env \<Rightarrow> evaluate_request \<Rightarrow> evaluator \<Rightarrow> gate_result" where
  "evaluate V req ev = evaluate_with_principal V req None ev"

section \<open>Properties\<close>

lemma decision_simps [simp]:
  "es_decision (forward why) = GD_Forward" "es_decision (deny why pid src) = GD_Deny"
  "es_decision (pending k pid ms ts) = GD_PendingApproval" "es_task_id (pending k pid ms ts) = Some k"
  by (simp_all add: forward_def deny_def pending_def)

text \<open>In production the approval gate never forwards.\<close>

lemma start_approval_engine_decision:
  "start_approval_engine V en rq pid w p ev tr = (ev', tr', Some resp) \<Longrightarrow> es_decision resp \<noteq> GD_Forward"
  by (auto simp: start_approval_engine_def Let_def split: prod.splits rres.splits)

lemma start_approval_legacy_decision:
  "start_approval_legacy V req n rq pid w p ev tr = (ev', tr', Some resp) \<Longrightarrow> es_decision resp \<noteq> GD_Forward"
  by (auto simp: start_approval_legacy_def Let_def split: prod.splits rres.splits sum.splits option.splits)

lemma gate_start_approval_decision:
  assumes "gate_start_approval V req n pid w p ev tr = (ev', tr', Some resp)" and "ev_profile ev = Production"
  shows "es_decision resp \<noteq> GD_Forward"
  using assms start_approval_engine_decision start_approval_legacy_decision
  by (fastforce simp: gate_start_approval_def Let_def split: backend.splits)

lemma evaluate_cedar_decision:
  assumes "evaluate_cedar V req n pid w p ev tr = (ev', tr', Some resp)" and "ev_profile ev = Production"
  shows "es_decision resp \<noteq> GD_Forward"
  using assms
  by (auto simp: evaluate_cedar_def Let_def split: option.splits cedar_decision.splits
      dest: gate_start_approval_decision)

definition gated :: "evaluate_request \<Rightarrow> string \<Rightarrow> bool" where
  "gated req name \<longleftrightarrow> eq_message_type req = MT_Request \<and> eq_direction req = AgentToServer \<and>
     method_requires_gates (eq_method req) \<and> extract_resource_name (eq_method req) (eq_params req) = Some name"

definition rule_for :: "evaluator \<Rightarrow> evaluate_request \<Rightarrow> string \<Rightarrow> match_result" where
  "rule_for ev req name =
     governance_evaluate (ev_globs ev) (cf_governance (ev_config ev)) name (eq_server_id req)"

definition gate1_passes :: "evaluator \<Rightarrow> evaluate_request \<Rightarrow> string \<Rightarrow> bool" where
  "gate1_passes ev req name \<longleftrightarrow>
     (case get_source (ev_config ev) (eq_server_id req) of
        None \<Rightarrow> False
      | Some src \<Rightarrow> so_enabled src \<and> is_visible (ev_globs ev) (source_expose src) name)"

lemma evaluate_blocked:
  assumes "gated req name" and "\<not> gate1_passes ev req name"
  shows "\<exists>tr resp. evaluate_with_principal V req po ev = (ev, tr, Some resp) \<and> es_decision resp = GD_Deny"
  using assms
  by (cases "get_source (ev_config ev) (eq_server_id req)")
    (simp_all add: gated_def gate1_passes_def evaluate_with_principal_def Let_def)

definition later_gates ::
  "eval_env \<Rightarrow> evaluate_request \<Rightarrow> string \<Rightarrow> principal option \<Rightarrow> evaluator \<Rightarrow> eval_trace \<Rightarrow> gate_result" where
  "later_gates V req name po ev tr =
     (case mt_action (rule_for ev req name) of
        Forward \<Rightarrow> (ev, tr, Some (forward None))
      | Deny \<Rightarrow> (ev, tr, Some (deny (Some (''Denied by governance rule for '' @ q name))
                    (mt_policy_id (rule_for ev req name)) DS_GovernanceRule))
      | Policy \<Rightarrow> evaluate_cedar V req name (mt_policy_id (rule_for ev req name))
                    (mt_approval_workflow (rule_for ev req name))
                    (case po of Some p \<Rightarrow> p | None \<Rightarrow> ev_principal ev) ev tr
      | Approve \<Rightarrow> gate_start_approval V req name (mt_policy_id (rule_for ev req name))
                    (mt_approval_workflow (rule_for ev req name))
                    (case po of Some p \<Rightarrow> p | None \<Rightarrow> ev_principal ev) ev tr)"

lemma evaluate_passed:
  assumes "gated req name" and "gate1_passes ev req name"
  shows "\<exists>tr. evaluate_with_principal V req po ev = later_gates V req name po ev tr"
proof
  obtain src where "get_source (ev_config ev) (eq_server_id req) = Some src" "so_enabled src"
    "is_visible (ev_globs ev) (source_expose src) name"
    using assms(2) by (auto simp: gate1_passes_def split: option.splits)
  then show "evaluate_with_principal V req po ev = later_gates V req name po ev
      (eval_trace_default\<lparr>et_gate1 := Some ''pass'', et_gate2_rule_id := mt_matched_rule (rule_for ev req name),
         et_gate2 := Some (display_action (mt_action (rule_for ev req name)))\<rparr>)"
    using assms(1)
    by (simp add: gated_def evaluate_with_principal_def Let_def later_gates_def rule_for_def
        split: action.split)
qed

lemma production_forward_iff:
  assumes "ev_profile ev = Production" and "gated req name"
    and "evaluate_with_principal V req po ev = (ev', tr, Some resp)"
  shows "es_decision resp = GD_Forward \<longleftrightarrow>
    gate1_passes ev req name \<and> mt_action (rule_for ev req name) = Forward"
proof (cases "gate1_passes ev req name")
  case False
  then show ?thesis using evaluate_blocked [OF assms(2) False, of V po] assms(3) by auto
next
  case True
  then obtain tr1 where "later_gates V req name po ev tr1 = (ev', tr, Some resp)"
    using evaluate_passed [OF assms(2) True, of V po] assms(3) by auto
  then show ?thesis
    using True assms(1) gate_start_approval_decision evaluate_cedar_decision
    by (cases "mt_action (rule_for ev req name)") (auto simp: later_gates_def)
qed

text \<open>C3: Complete mediation in production: a request of a governed method that names its resource
  is forwarded if and only if its source is known and enabled, exposes the resource, and the first
  matching governance rule (or the default) says forward.\<close>

theorem forward_iff_rule_forwards:
  assumes "ev_profile ev = Production" and "gated req name"
    and "evaluate_with_principal V req po ev = (ev', tr, Some resp)"
  shows "es_decision resp = GD_Forward \<longleftrightarrow>
    gate1_passes ev req name \<and> mt_action (rule_for ev req name) = Forward"
  by (rule production_forward_iff [OF assms])

definition demo_env :: eval_env where
  "demo_env = \<lparr>vv_task_id = ''9'', vv_correlation_id = ''c'', vv_now = 0, vv_post = flow_post\<rparr>"

definition demo_evaluator :: "backend \<Rightarrow> evaluator" where
  "demo_evaluator b = \<lparr>ev_config = demo_config, ev_cedar_engine = None, ev_principal = principal_new ''a'',
     ev_profile = Production, ev_backend = b, ev_ext = demo_ext, ev_globs = demo_globs\<rparr>"

definition demo_call :: "string \<Rightarrow> evaluate_request" where
  "demo_call tool = \<lparr>eq_server_id = ''s'', eq_direction = AgentToServer, eq_method = ''tools/call'',
     eq_id = Some (IdNumber 1), eq_params = Some (JObject [(''name'', JString tool)]),
     eq_message_type = MT_Request, eq_profile = Production\<rparr>"

theorem forward_iff_rule_forwards_witness:
  "\<exists>ev' tr resp. evaluate_with_principal demo_env (demo_call ''read'') None
     (demo_evaluator (StoreOnly (store_with_metrics demo_cfg))) = (ev', tr, Some resp) \<and>
     es_decision resp = GD_Forward"
proof -
  let ?ev = "demo_evaluator (StoreOnly (store_with_metrics demo_cfg))"
  let ?r = "evaluate_with_principal demo_env (demo_call ''read'') None ?ev"
  have 1: "ev_profile ?ev = Production" "gated (demo_call ''read'') ''read''"
    and 2: "gate1_passes ?ev (demo_call ''read'') ''read''"
      "mt_action (rule_for ?ev (demo_call ''read'') ''read'') = Forward"
    by code_simp+
  have "case snd (snd ?r) of Some _ \<Rightarrow> True | None \<Rightarrow> False" by code_simp
  then obtain ev' tr resp where r: "?r = (ev', tr, Some resp)"
    by (cases ?r) (auto split: option.splits)
  from forward_iff_rule_forwards [OF 1 r] 2 r show ?thesis by blast
qed


definition demo_unnamed :: evaluate_request where
  "demo_unnamed = (demo_call ''secret'')\<lparr>eq_params := Some (JObject [(''name'', JArray [JString ''secret''])])\<rparr>"


section \<open>Requests that wait for an approval\<close>

definition request_of :: "evaluate_request \<Rightarrow> string \<Rightarrow> tool_call_request" where
  "request_of req name = \<lparr>r_method = eq_method req, r_name = name,
     r_arguments = extract_arguments (eq_params req),
     r_mcp_request_id = (case eq_id req of Some i \<Rightarrow> i | None \<Rightarrow> IdNull)\<rparr>"

definition waits_for :: "tool_call_request \<Rightarrow> task_id \<Rightarrow> task_store \<Rightarrow> bool" where
  "waits_for rq k st \<longleftrightarrow> (\<exists>t. get k st = Inr t \<and> t_status t = InputRequired \<and> t_original_request t = rq)"

lemma start_approval_waits:
  assumes "store_inv (en_store en)" and "create_ok (pl_ext (en_pipeline en)) i rq (en_store en)"
    and "start_approval i cid now post rq p wt ov rf en = (en', ROk r)"
  shows "as_task_id r = i \<and> waits_for rq i (en_store en')"
proof (rule start_approval_posted [OF assms(3)])
  show "ROk r = ROk r \<or> ROk r = RErr (EE_PostFailed undefined)" by simp
  fix pre ttl act st t st1 t1 areq
  assume cr: "create (pl_ext (en_pipeline en)) i now rq (ph_transformed_request pre) p ttl act
              (en_store en) = (st, ROk t)"
    and tr: "transition now (t_id t) InputRequired None st = (st1, Inr t1)"
    and sch: "en_sched en' = fst (submit post areq ((en_sched en)\<lparr>sc_store := st1\<rparr>))"
    and res: "case snd (submit post areq ((en_sched en)\<lparr>sc_store := st1\<rparr>)) of
       Inr _ \<Rightarrow> ROk r = ROk \<lparr>as_task_id = t_id t, as_status = InputRequired, as_poll_interval = t_poll_interval t\<rparr>
     | Inl e \<Rightarrow> ROk r = RErr (EE_PostFailed (adapter_error_to_string (pl_ext (en_pipeline en)) e))"
  note w = created_waiting [OF assms(1,2) cr tr]
  have "as_task_id r = t_id t" using res by (auto split: sum.splits)
  then show ?thesis using w sch by (auto simp: waits_for_def)
qed

lemma set_backend_store_simps [simp]:
  "backend_store (set_backend_store st b) = st"
  by (cases b) simp_all

lemma submit_store_eq: "submit post rq s = (s', r) \<Longrightarrow> sc_store s' = sc_store s"
  using submit_store [of post rq s] by simp

lemma legacy_submit_None:
  "legacy_submit V n ps t p rf E b = (b', None) \<Longrightarrow> backend_store b' = backend_store b"
  by (auto simp: legacy_submit_def Let_def split: backend.splits prod.splits sum.splits
      dest: submit_store_eq)

lemma legacy_submit_Some:
  assumes "legacy_submit V n ps t p rf E b = (b', Some e)"
    and "get (t_id t) (backend_store b) = Inr t1" and "t_status t1 = InputRequired"
  shows "backend_store b' = backend_store b"
proof -
  obtain sc sc' areq where b: "b = WithScheduler sc"
    "submit (vv_post V) areq sc = (sc', Inl e)"
    "b' = WithScheduler (sc'\<lparr>sc_store := fst (transition (vv_now V) (t_id t) Failed
                     (Some (''Scheduler submission failed: '' @ adapter_error_to_string E e)) (sc_store sc'))\<rparr>)"
    using assms(1) by (auto simp: legacy_submit_def Let_def split: backend.splits prod.splits sum.splits)
  have st: "sc_store sc' = sc_store sc"
    using b(2) by (rule submit_store_eq)
  have "fst (transition now (t_id t) Failed why (sc_store sc)) = sc_store sc" for now why
    using assms(2,3) b(1)
    by (auto simp: transition_def get_def task_transition_def split: option.splits)
  then show ?thesis using b st by simp
qed

text \<open>How the legacy path ends once the task is stored.\<close>

lemma start_approval_legacy_cases:
  assumes inv: "store_inv (backend_store (ev_backend ev))"
    and ok: "create_ok (ev_ext ev) (vv_task_id V) rq (backend_store (ev_backend ev))"
    and st: "start_approval_legacy V req n rq pid w p ev tr = (ev', tr', Some resp)"
  shows "(es_decision resp = GD_PendingApproval \<longrightarrow> es_task_id resp = Some (vv_task_id V) \<and>
            waits_for rq (vv_task_id V) (backend_store (ev_backend ev'))) \<and>
         ((\<exists>e. es_reason resp = Some (''Approval submission failed: '' @ e)) \<longrightarrow>
            waits_for rq (vv_task_id V) (backend_store (ev_backend ev')))"
proof (cases "create (ev_ext ev) (vv_task_id V) (vv_now V) rq rq p
    (Some (from_secs default_approval_ttl_secs)) TA_Deny (backend_store (ev_backend ev))")
  case (Pair s1 r)
  show ?thesis
  proof (cases r)
    case (ROk t)
    note cr = Pair [unfolded ROk]
    show ?thesis
    proof (cases "transition (vv_now V) (t_id t) InputRequired None s1")
      case tr: (Pair s2 r2)
      show ?thesis
      proof (cases r2)
        case (Inr t1)
        note w = created_waiting [OF inv ok cr tr [unfolded Inr]]
        obtain b' f where sub: "legacy_submit V n (eq_params req) t p
            (case Option.bind w hw_redact_fields of Some fs \<Rightarrow> fs | None \<Rightarrow> []) (ev_ext ev)
            (set_backend_store s2 (ev_backend ev)) = (b', f)" by fastforce
        have "backend_store b' = s2"
          using sub legacy_submit_None legacy_submit_Some w by (cases f) fastforce+
        then show ?thesis
          using st cr tr Inr sub w
          by (cases f) (auto simp: start_approval_legacy_def Let_def waits_for_def)
      next
        case (Inl e)
        then show ?thesis using st cr tr
          by (auto simp: start_approval_legacy_def Let_def deny_def)
      qed
    qed
  next
    case (RErr e)
    then show ?thesis using st Pair by (auto simp: start_approval_legacy_def Let_def deny_def)
  next
    case RPanic
    then show ?thesis using st Pair by (auto simp: start_approval_legacy_def Let_def)
  qed
qed

lemma gate_start_approval_waits:
  assumes "store_inv (backend_store (ev_backend ev))"
    and "create_ok (ev_ext ev) (vv_task_id V) (request_of req name) (backend_store (ev_backend ev))"
    and "\<forall>en. ev_backend ev = WithEngine en \<longrightarrow> pl_ext (en_pipeline en) = ev_ext ev"
    and "gate_start_approval V req name pid w p ev tr = (ev', tr', Some resp)"
    and "es_decision resp = GD_PendingApproval"
  shows "es_task_id resp = Some (vv_task_id V) \<and>
    waits_for (request_of req name) (vv_task_id V) (backend_store (ev_backend ev'))"
proof -
  have prod: "ev_profile ev \<noteq> Development"
    using assms(4,5) by (auto simp: gate_start_approval_def)
  show ?thesis
  proof (cases "\<exists>en. ev_backend ev = WithEngine en")
    case True
    then obtain en where en: "ev_backend ev = WithEngine en" by blast
    have ok: "store_inv (en_store en)"
      "create_ok (pl_ext (en_pipeline en)) (vv_task_id V) (request_of req name) (en_store en)"
      using assms(1-3) en by auto
    have "start_approval_engine V en (request_of req name) pid
        (Option.bind w (get_workflow (ev_config ev))) p ev tr = (ev', tr', Some resp)"
      using assms(4) prod en by (simp add: gate_start_approval_def Let_def request_of_def)
    then show ?thesis
      using assms(5) start_approval_waits [OF ok]
      by (auto simp: start_approval_engine_def Let_def split: prod.splits rres.splits)
  next
    case False
    then have "start_approval_legacy V req name (request_of req name) pid
        (Option.bind w (get_workflow (ev_config ev))) p ev tr = (ev', tr', Some resp)"
      using assms(4) prod by (auto simp: gate_start_approval_def Let_def request_of_def split: backend.splits)
    from start_approval_legacy_cases [OF assms(1,2) this] assms(5) show ?thesis by blast
  qed
qed

lemma pending_backed:
  assumes "store_inv (backend_store (ev_backend ev))"
    and "create_ok (ev_ext ev) (vv_task_id V) (request_of req name) (backend_store (ev_backend ev))"
    and "\<forall>en. ev_backend ev = WithEngine en \<longrightarrow> pl_ext (en_pipeline en) = ev_ext ev"
    and "gated req name"
    and "evaluate_with_principal V req po ev = (ev', tr, Some resp)"
    and "es_decision resp = GD_PendingApproval"
  shows "gate1_passes ev req name \<and>
    (mt_action (rule_for ev req name) = Approve \<or>
     mt_action (rule_for ev req name) = Policy \<and>
       (\<exists>cedar pid p ids. ev_cedar_engine ev = Some cedar \<and>
          cedar (cedar_request_of req name pid p) = CD_Permit ids)) \<and>
    es_task_id resp = Some (vv_task_id V) \<and>
    waits_for (request_of req name) (vv_task_id V) (backend_store (ev_backend ev'))"
proof -
  have g1: "gate1_passes ev req name"
    using evaluate_blocked [OF assms(4), of ev V po] assms(5,6) by auto
  then obtain tr1 where lg: "later_gates V req name po ev tr1 = (ev', tr, Some resp)"
    using evaluate_passed [OF assms(4) g1, of V po] assms(5) by auto
  note waits = gate_start_approval_waits [OF assms(1-3) _ assms(6)]
  show ?thesis
  proof (cases "mt_action (rule_for ev req name)")
    case Approve
    with lg waits g1 show ?thesis by (auto simp: later_gates_def)
  next
    case Policy
    then have ce: "evaluate_cedar V req name (mt_policy_id (rule_for ev req name))
        (mt_approval_workflow (rule_for ev req name)) (case po of Some p \<Rightarrow> p | None \<Rightarrow> ev_principal ev) ev tr1 =
        (ev', tr, Some resp)"
      using lg by (simp add: later_gates_def)
    with assms(6) waits Policy g1 show ?thesis
      by (auto simp: evaluate_cedar_def Let_def split: option.splits cedar_decision.splits if_splits)
  qed (use lg assms(6) in \<open>auto simp: later_gates_def\<close>)
qed

text \<open>C13: A pending answer is backed by a task: if the evaluator answers that a request waits for
  approval, the request passed gate 1, its rule asks for approval (or for the policy, and the policy
  engine permits it), and the returned identifier names a stored task that waits for a decision on
  exactly this request.\<close>

theorem pending_approval_backed:
  assumes "store_inv (backend_store (ev_backend ev))"
    and "create_ok (ev_ext ev) (vv_task_id V) (request_of req name) (backend_store (ev_backend ev))"
    and "\<forall>en. ev_backend ev = WithEngine en \<longrightarrow> pl_ext (en_pipeline en) = ev_ext ev"
    and "gated req name"
    and "evaluate_with_principal V req po ev = (ev', tr, Some resp)"
    and "es_decision resp = GD_PendingApproval"
  shows "gate1_passes ev req name \<and>
    (mt_action (rule_for ev req name) = Approve \<or>
     mt_action (rule_for ev req name) = Policy \<and>
       (\<exists>cedar pid p ids. ev_cedar_engine ev = Some cedar \<and>
          cedar (cedar_request_of req name pid p) = CD_Permit ids)) \<and>
    es_task_id resp = Some (vv_task_id V) \<and>
    waits_for (request_of req name) (vv_task_id V) (backend_store (ev_backend ev'))"
  using assms by (rule pending_backed)

theorem pending_approval_backed_witness:
  "\<exists>ev' tr resp. evaluate_with_principal demo_env (demo_call ''write'') None
     (demo_evaluator (WithEngine flow_engine)) = (ev', tr, Some resp) \<and>
     es_task_id resp = Some ''9'' \<and>
     waits_for (request_of (demo_call ''write'') ''write'') ''9'' (backend_store (ev_backend ev'))"
proof -
  let ?ev = "demo_evaluator (WithEngine flow_engine)"
  let ?r = "evaluate_with_principal demo_env (demo_call ''write'') None ?ev"
  have b: "ev_backend ?ev = WithEngine flow_engine" "ev_ext ?ev = demo_ext"
    by (simp_all add: demo_evaluator_def)
  have 1: "store_inv (backend_store (ev_backend ?ev))" using flow_inv(1) by (simp add: b)
  have 2: "create_ok (ev_ext ?ev) (vv_task_id demo_env) (request_of (demo_call ''write'') ''write'')
      (backend_store (ev_backend ?ev))" by code_simp
  have e: "pl_ext (en_pipeline flow_engine) = demo_ext" by (simp add: flow_engine_def engine_new_def)
  have 3: "\<forall>en. ev_backend ?ev = WithEngine en \<longrightarrow> pl_ext (en_pipeline en) = ev_ext ?ev"
    by (simp add: b e)
  have 4: "gated (demo_call ''write'') ''write''" by code_simp
  have "case snd (snd ?r) of Some resp \<Rightarrow> es_decision resp = GD_PendingApproval | None \<Rightarrow> False" by code_simp
  then obtain ev' tr resp where r: "?r = (ev', tr, Some resp)" "es_decision resp = GD_PendingApproval"
    by (cases ?r) (auto split: option.splits)
  from pending_approval_backed [OF 1 2 3 4 r] r show ?thesis by (auto simp: demo_env_def)
qed

text \<open>On the legacy path a failed submission to the scheduler is answered with a denial, but the
  task cannot be moved from \<open>InputRequired\<close> to \<open>Failed\<close>: it is left waiting for a
  decision and keeps its slot.\<close>

lemma legacy_submission_failure:
  assumes "store_inv (backend_store (ev_backend ev))"
    and "create_ok (ev_ext ev) (vv_task_id V) rq (backend_store (ev_backend ev))"
    and "start_approval_legacy V req name rq pid w p ev tr = (ev', tr', Some resp)"
    and "es_reason resp = Some (''Approval submission failed: '' @ e)"
  shows "waits_for rq (vv_task_id V) (backend_store (ev_backend ev'))"
  using start_approval_legacy_cases [OF assms(1-3)] assms(4) by blast

end
