(* ===== verification/Task_Handlers.thy ===== *)
theory Task_Handlers
  imports Evaluator
begin

text \<open>
  The handlers of the \<open>tasks/*\<close> methods (\<open>governance/handlers.rs\<close>) with the wire
  types of \<open>protocol/task.rs\<close> and \<open>protocol/methods.rs\<close>, and the dispatch of
  the proxy (\<open>mcp_handler/task_methods.rs\<close>) that checks who asks. Decoding of parameters
  and encoding of results is derived by the \<open>serde\<close> crate: the record \<open>wire\<close>
  stands for it. The identity of the caller comes from files and environment variables and is an
  argument.
\<close>

declare map_of_eq_Some_iff [simp del]

section \<open>Wire types\<close>

record task_metadata =
  md_task_id :: task_id
  md_status :: sep1686_status
  md_status_message :: "string option"
  md_poll_interval :: "nat option"

record task_list_entry =
  tl_task_id :: task_id
  tl_status :: sep1686_status
  tl_created_at :: datetime
  tl_tool_name :: string

record tasks_list_response =
  lr_tasks :: "task_list_entry list"
  lr_next_cursor :: "string option"

record tasks_cancel_response =
  cr_task_id :: task_id
  cr_status :: sep1686_status

section \<open>Decimal cursors\<close>

text \<open>\<open>str::parse::<usize>\<close>: an optional plus sign, at least one digit, no overflow.\<close>

definition digit_of :: "char \<Rightarrow> nat option" where
  "digit_of c = (let n = of_char c in if 48 \<le> n \<and> n \<le> (57 :: nat) then Some (n - 48) else None)"

fun parse_digits :: "nat \<Rightarrow> string \<Rightarrow> nat option" where
  "parse_digits acc [] = Some acc"
| "parse_digits acc (c # cs) =
     (case digit_of c of
        None \<Rightarrow> None
      | Some d \<Rightarrow> if acc * 10 + d \<le> usize_max then parse_digits (acc * 10 + d) cs else None)"

definition parse_usize :: "string \<Rightarrow> nat option" where
  "parse_usize s =
     (let ds = (case s of c # cs \<Rightarrow> if c = CHR ''+'' then cs else s | [] \<Rightarrow> [])
      in if ds = [] then None else parse_digits 0 ds)"

section \<open>Handlers\<close>

fun debug_stage :: "failure_stage \<Rightarrow> string" where
  "debug_stage PreHitlInspection = ''PreHitlInspection''"
| "debug_stage ApprovalTimeout = ''ApprovalTimeout''"
| "debug_stage ApprovalRejected = ''ApprovalRejected''"
| "debug_stage PolicyDrift = ''PolicyDrift''"
| "debug_stage PostHitlInspection = ''PostHitlInspection''"
| "debug_stage TransformDrift = ''TransformDrift''"
| "debug_stage UpstreamError = ''UpstreamError''"
| "debug_stage ServiceShutdown = ''ServiceShutdown''"
| "debug_stage InvalidTaskState = ''InvalidTaskState''"

definition task_to_metadata :: "task \<Rightarrow> task_metadata" where
  "task_to_metadata t =
     \<lparr>md_task_id = t_id t, md_status = sep1686_of (t_status t), md_status_message = t_status_message t,
      md_poll_interval = (if is_terminal (t_status t) then None else Some (as_millis (t_poll_interval t)))\<rparr>"

definition handle_tasks_get :: "task_id \<Rightarrow> task_store \<Rightarrow> task_error + task_metadata" where
  "handle_tasks_get k st = (case get k st of Inl e \<Rightarrow> Inl e | Inr t \<Rightarrow> Inr (task_to_metadata t))"

definition error_content :: "task \<Rightarrow> json" where
  "error_content t =
     (case t_failure t of
        Some f \<Rightarrow> JObject [(''error'', JString (f_reason f)), (''stage'', JString (debug_stage (f_stage f))),
                          (''retriable'', JBool (f_retriable f))]
      | None \<Rightarrow>
          (case t_approval t of
             Some a \<Rightarrow>
               (case a_decision a of
                  AD_Rejected why \<Rightarrow>
                    JObject [(''error'', JString (case why of Some r \<Rightarrow> r | None \<Rightarrow> ''Request rejected'')),
                             (''decided_by'', JString (a_decided_by a))]
                | _ \<Rightarrow> JObject [(''error'', JString ''Task did not complete successfully'')])
           | None \<Rightarrow>
               JObject [(''error'', JString (''Task ended in '' @ display_status (t_status t) @ '' state''))]))"

definition handle_tasks_result :: "task_id \<Rightarrow> task_store \<Rightarrow> task_error + tool_call_result" where
  "handle_tasks_result k st =
     (case get k st of
        Inl e \<Rightarrow> Inl e
      | Inr t \<Rightarrow>
          if \<not> is_terminal (t_status t) then Inl (TE_ResultNotReady k)
          else (case t_result t of
                  Some r \<Rightarrow> Inr \<lparr>res_content = res_content r, res_is_error = res_is_error r\<rparr>
                | None \<Rightarrow> Inr \<lparr>res_content = error_content t, res_is_error = True\<rparr>))"

definition page_size :: nat where
  "page_size = 20"

definition list_entry :: "task \<Rightarrow> task_list_entry" where
  "list_entry t = \<lparr>tl_task_id = t_id t, tl_status = sep1686_of (t_status t), tl_created_at = t_created_at t,
     tl_tool_name = r_name (t_original_request t)\<rparr>"

definition handle_tasks_list :: "string option \<Rightarrow> principal \<Rightarrow> task_store \<Rightarrow> tasks_list_response" where
  "handle_tasks_list cursor p st =
     (let offset = (case Option.bind cursor parse_usize of Some n \<Rightarrow> n | None \<Rightarrow> 0);
          tasks = list_for_principal p offset (page_size + 1) st;
          has_more = length tasks > page_size
      in \<lparr>lr_tasks = map list_entry (take page_size tasks),
          lr_next_cursor = (if has_more then Some (show_nat (offset + page_size)) else None)\<rparr>)"

definition handle_tasks_cancel ::
  "datetime \<Rightarrow> task_id \<Rightarrow> task_store \<Rightarrow> task_store \<times> (task_error + tasks_cancel_response)" where
  "handle_tasks_cancel now k st =
     (case cancel now k st of
        (st', Inl e) \<Rightarrow> (st', Inl e)
      | (st', Inr _) \<Rightarrow> (st', Inr \<lparr>cr_task_id = k, cr_status = S_Cancelled\<rparr>))"

section \<open>Pages of the task list\<close>

lemma digit_of_show: "n < 10 \<Longrightarrow> digit_of (char_of (48 + n)) = Some n"
  by (simp add: digit_of_def Let_def)

lemma parse_digits_append:
  "parse_digits acc (xs @ ys) = Option.bind (parse_digits acc xs) (\<lambda>a. parse_digits a ys)"
  by (induction acc xs rule: parse_digits.induct) (auto split: option.splits)

lemma parse_digits_show_nat: "n \<le> usize_max \<Longrightarrow> parse_digits 0 (show_nat n) = Some n"
proof (induction n rule: show_nat.induct)
  case (1 n)
  show ?case
  proof (cases "n < 10")
    case True
    then show ?thesis by (simp add: show_nat.simps [of n] digit_of_show)
  next
    case False
    with 1 have "parse_digits 0 (show_nat (n div 10)) = Some (n div 10)" by simp
    with False \<open>n \<le> usize_max\<close> show ?thesis
      by (simp add: show_nat.simps [of n] parse_digits_append digit_of_show)
  qed
qed

lemma show_nat_digit: "c \<in> set (show_nat n) \<Longrightarrow> c \<noteq> CHR ''+''"
proof (induction n rule: show_nat.induct)
  case (1 n)
  have g: "char_of (48 + d) \<noteq> CHR ''+''" if "d < 10" for d :: nat
  proof
    assume eq: "char_of (48 + d) = CHR ''+''"
    have "digit_of (CHR ''+'') = None" by code_simp
    with digit_of_show [OF that] show False by (simp add: eq)
  qed
  show ?case using 1 g [of n] g [of "n mod 10"]
    by (cases "n < 10") (auto simp: show_nat.simps [of n] simp del: char_of_eq_iff)
qed

lemma show_nat_nonempty: "show_nat n \<noteq> []"
  by (subst show_nat.simps) simp

lemma parse_show_usize: "n \<le> usize_max \<Longrightarrow> parse_usize (show_nat n) = Some n"
  using parse_digits_show_nat [of n] show_nat_nonempty [of n] show_nat_digit [of "hd (show_nat n)" n]
  by (cases "show_nat n") (auto simp: parse_usize_def)

text \<open>A client that follows the cursors, for at most the given number of requests.\<close>

fun list_pages :: "nat \<Rightarrow> string option \<Rightarrow> principal \<Rightarrow> task_store \<Rightarrow> task_list_entry list option" where
  "list_pages 0 cursor p st = None"
| "list_pages (Suc n) cursor p st =
     (let r = handle_tasks_list cursor p st in
      case lr_next_cursor r of
        None \<Rightarrow> Some (lr_tasks r)
      | Some c \<Rightarrow> map_option (\<lambda>rest. lr_tasks r @ rest) (list_pages n (Some c) p st))"

lemma list_pages_from:
  assumes l: "\<And>offset limit. list_for_principal p offset limit st = take limit (drop offset l)"
    and "length l \<le> usize_max"
    and "(case Option.bind cursor parse_usize of Some n \<Rightarrow> n | None \<Rightarrow> 0) = offset"
    and "offset \<le> length l" and "length l < offset + page_size * n"
  shows "list_pages n cursor p st = Some (map list_entry (drop offset l))"
  using assms(3-5)
proof (induction n arbitrary: cursor offset)
  case (Suc n)
  let ?r = "handle_tasks_list cursor p st"
  have r: "?r = \<lparr>lr_tasks = map list_entry (take page_size (drop offset l)),
      lr_next_cursor = (if page_size < length l - offset then Some (show_nat (offset + page_size)) else None)\<rparr>"
    using Suc.prems(1) by (simp add: handle_tasks_list_def l Let_def min_def)
  show ?case
  proof (cases "page_size < length l - offset")
    case True
    then have "Option.bind (Some (show_nat (offset + page_size))) parse_usize = Some (offset + page_size)"
      using assms(2) by (simp add: parse_show_usize)
    then have "list_pages n (Some (show_nat (offset + page_size))) p st =
        Some (map list_entry (drop (offset + page_size) l))"
      using True Suc.prems(3) by (intro Suc.IH) auto
    then show ?thesis using True
      by (simp add: r Let_def flip: map_append)
        (simp add: append_take_drop_id drop_drop add.commute flip: map_append drop_drop)
  next
    case False
    then show ?thesis by (simp add: r Let_def)
  qed
qed simp

lemma rows_length_le:
  assumes "distinct (map t_id l)"
    and "set l \<subseteq> {t. \<exists>k e. map_of (s_tasks s) k = Some e \<and> e_task e = t}"
  shows "length l \<le> length (s_tasks s)"
proof -
  have "set l \<subseteq> set (map (e_task \<circ> snd) (s_tasks s))"
    using assms(2) by (force dest: map_of_SomeD)
  then have "card (set l) \<le> card (set (map (e_task \<circ> snd) (s_tasks s)))" by (intro card_mono) auto
  also have "\<dots> \<le> length (s_tasks s)" by (metis card_length length_map)
  finally show ?thesis using assms(1) distinct_card [of l] by (simp add: distinct_map)
qed

text \<open>C31: A client that starts without a cursor and follows the cursors of the answers gets, in every
  reachable store and within \<open>n div 20 + 1\<close> requests for a table of \<open>n\<close> tasks, exactly
  the stored tasks with the rate-limit key of its principal, each once, newest first.\<close>

theorem list_pages_complete:
  assumes "reachable_store cfg s" and "length (s_tasks s) \<le> usize_max"
  shows "\<exists>l. list_pages (length (s_tasks s) div page_size + 1) None p s = Some (map list_entry l) \<and>
     distinct (map t_id l) \<and> sorted (map (\<lambda>t. - t_created_at t) l) \<and>
     set l = {t. \<exists>k e. map_of (s_tasks s) k = Some e \<and> e_task e = t \<and>
                      rate_limit_key (t_principal t) = rate_limit_key p}"
proof -
  obtain l where l: "\<forall>offset limit. list_for_principal p offset limit s = take limit (drop offset l)"
    "distinct (map t_id l)" "sorted (map (\<lambda>t. - t_created_at t) l)"
    "set l = {t. \<exists>k e. map_of (s_tasks s) k = Some e \<and> e_task e = t \<and>
                      rate_limit_key (t_principal t) = rate_limit_key p}"
    using list_for_principal_exact [OF assms(1), of p] by blast
  have "length l \<le> length (s_tasks s)" using l(2,4) by (intro rows_length_le) auto
  moreover have "length (s_tasks s) < page_size * (length (s_tasks s) div page_size + 1)"
    by (simp add: page_size_def)
  ultimately have "list_pages (length (s_tasks s) div page_size + 1) None p s = Some (map list_entry (drop 0 l))"
    using l(1) assms(2) by (intro list_pages_from) auto
  with l show ?thesis by auto
qed

theorem list_pages_complete_witness:
  "\<exists>l. list_pages 1 None (principal_new ''a'') demo_store = Some (map list_entry l) \<and>
     sorted (map (\<lambda>t. - t_created_at t) l) \<and> map t_id l = [''2'', ''1'']"
proof -
  have n: "length (s_tasks demo_store) \<le> usize_max" "length (s_tasks demo_store) div page_size + 1 = 1"
    by code_simp+
  have "map_option (map tl_task_id) (list_pages 1 None (principal_new ''a'') demo_store) = Some [''2'', ''1'']"
    by code_simp
  moreover have e: "tl_task_id \<circ> list_entry = t_id" by (simp add: fun_eq_iff list_entry_def)
  moreover obtain l where "list_pages 1 None (principal_new ''a'') demo_store = Some (map list_entry l)"
    "sorted (map (\<lambda>t. - t_created_at t) l)"
    using list_pages_complete [OF reachable_demo n(1), of "principal_new ''a''"] unfolding n(2) by blast
  ultimately show ?thesis by (intro exI [of _ l]) (simp del: list_pages.simps)
qed

end
