(* ===== verification/Task_Methods.thy ===== *)
theory Task_Methods
  imports Task_Handlers
begin

text \<open>
  The dispatch of the \<open>tasks/*\<close> methods in the proxy
  (\<open>thoughtgate-proxy/src/mcp_handler/task_methods.rs\<close>): decoding, the check that the caller
  owns the task, the handler or the approval engine, and the conversion of errors. The proxy holds
  one task store, shared with the approval engine if there is one (\<open>backend\<close>). What
  \<open>serde\<close> derives and the identity inferred from the environment are arguments.
\<close>

declare map_of_eq_Some_iff [simp del]

section \<open>Types\<close>

datatype task_method = TM_Get | TM_Result | TM_List | TM_Cancel

datatype task_response =
    TR_Metadata task_metadata
  | TR_Result tool_call_result
  | TR_List tasks_list_response
  | TR_Cancel tasks_cancel_response

record wire =
  w_task_id :: "task_method \<Rightarrow> json \<Rightarrow> string + task_id"
  w_cursor :: "json \<Rightarrow> string + string option"
  w_encode :: "task_response \<Rightarrow> string + json"

text \<open>Outcome of inferring the principal on a worker thread.\<close>

datatype identity = Id_Principal policy_principal | Id_Error string | Id_Panic string

definition caller_principal :: "policy_principal \<Rightarrow> principal" where
  "caller_principal p =
     principal_from_policy (pp_app_name p) (pp_namespace p) (pp_service_account p) (pp_roles p)"

definition infer_principal_or_error :: "identity \<Rightarrow> tg_error + policy_principal" where
  "infer_principal_or_error i =
     (case i of
        Id_Principal p \<Rightarrow> Inr p
      | Id_Panic e \<Rightarrow> Inl (ServiceUnavailable (''Principal inference task failed: '' @ e))
      | Id_Error e \<Rightarrow> Inl (PolicyDenied [] None (Some (''Identity unavailable: '' @ e))))"

section \<open>Operations\<close>

fun task_error_to_thoughtgate :: "task_error \<Rightarrow> tg_error" where
  "task_error_to_thoughtgate (TE_NotFound k) = TaskNotFound k"
| "task_error_to_thoughtgate (TE_Expired k) = TaskExpired k"
| "task_error_to_thoughtgate (TE_AlreadyTerminal k st) =
     InvalidParams (''Cannot cancel task '' @ k @ '': already in terminal status '' @ q (display_status st))"
| "task_error_to_thoughtgate (TE_InvalidTransition k a b) =
     InvalidRequest (''Invalid task transition for '' @ k @ '': '' @ display_status a @ '' -> '' @ display_status b)"
| "task_error_to_thoughtgate (TE_ConcurrentModification k a b) =
     InvalidRequest (''Concurrent modification of task '' @ k @ '': expected '' @ display_status a @
       '', found '' @ display_status b)"
| "task_error_to_thoughtgate (TE_RateLimited _ d) = RateLimited (Some (as_secs d))"
| "task_error_to_thoughtgate (TE_ResultNotReady k) = TaskResultNotReady k"
| "task_error_to_thoughtgate TE_CapacityExceeded = ServiceUnavailable ''Task capacity exceeded''"
| "task_error_to_thoughtgate (TE_Internal d) = ServiceUnavailable (''Internal task error: '' @ d)"

definition verify_task_principal :: "identity \<Rightarrow> task_id \<Rightarrow> task_store \<Rightarrow> tg_error + unit" where
  "verify_task_principal who k st =
     (case who of
        Id_Principal p \<Rightarrow>
          (case get k st of
             Inl e \<Rightarrow> Inl (task_error_to_thoughtgate e)
           | Inr t \<Rightarrow> if t_principal t \<noteq> caller_principal p then Inl (TaskNotFound k) else Inr ())
      | _ \<Rightarrow> Inl (TaskNotFound k))"

fun method_name :: "task_method \<Rightarrow> string" where
  "method_name TM_Get = ''tasks/get''"
| "method_name TM_Result = ''tasks/result''"
| "method_name TM_List = ''tasks/list''"
| "method_name TM_Cancel = ''tasks/cancel''"

definition respond ::
  "wire \<Rightarrow> task_method \<Rightarrow> mcp_request \<Rightarrow> task_response \<Rightarrow> tg_error + (json_rpc_id option \<times> json)" where
  "respond W m request r =
     (case w_encode W r of
        Inr v \<Rightarrow> Inr (mq_id request, v)
      | Inl e \<Rightarrow> Inl (ServiceUnavailable (''Failed to serialize '' @ method_name m @ '' response: '' @ e)))"

type_synonym method_result =
  "backend \<times> mcp_request option \<times> (tg_error + (json_rpc_id option \<times> json))"

definition handle_owned ::
  "wire \<Rightarrow> datetime \<Rightarrow> elapsed \<Rightarrow> task_method \<Rightarrow> mcp_request \<Rightarrow> task_id \<Rightarrow> backend \<Rightarrow> method_result" where
  "handle_owned W now el m request k b =
     (case m of
        TM_Cancel \<Rightarrow>
          (case handle_tasks_cancel now k (backend_store b) of
             (st, Inl e) \<Rightarrow> (set_backend_store st b, None, Inl (task_error_to_thoughtgate e))
           | (st, Inr r) \<Rightarrow> (set_backend_store st b, None, respond W m request (TR_Cancel r)))
      | TM_Result \<Rightarrow>
          (case b of
             WithEngine en \<Rightarrow>
               (case execute_on_result now el k en of
                  (en', sent, Inl e) \<Rightarrow> (WithEngine en', sent, Inl e)
                | (en', sent, Inr r) \<Rightarrow> (WithEngine en', sent, respond W m request (TR_Result r)))
           | _ \<Rightarrow>
               (b, None,
                case handle_tasks_result k (backend_store b) of
                  Inl e \<Rightarrow> Inl (task_error_to_thoughtgate e)
                | Inr r \<Rightarrow> respond W m request (TR_Result r)))
      | _ \<Rightarrow>
          (b, None,
           case handle_tasks_get k (backend_store b) of
             Inl e \<Rightarrow> Inl (task_error_to_thoughtgate e)
           | Inr r \<Rightarrow> respond W m request (TR_Metadata r)))"

definition handle_task_method ::
  "wire \<Rightarrow> identity \<Rightarrow> datetime \<Rightarrow> elapsed \<Rightarrow> task_method \<Rightarrow> mcp_request \<Rightarrow> backend \<Rightarrow> method_result" where
  "handle_task_method W who now el m request b =
     (let params = (case mq_params request of Some p \<Rightarrow> p | None \<Rightarrow> JObject []);
          invalid = (\<lambda>e. InvalidParams (''Invalid '' @ method_name m @ '' params: '' @ e))
      in if m = TM_List then
           (b, None,
            case w_cursor W params of
              Inl e \<Rightarrow> Inl (invalid e)
            | Inr cursor \<Rightarrow>
                (case infer_principal_or_error who of
                   Inl e \<Rightarrow> Inl e
                 | Inr p \<Rightarrow> respond W m request
                     (TR_List (handle_tasks_list cursor (caller_principal p) (backend_store b)))))
         else
           (case w_task_id W m params of
              Inl e \<Rightarrow> (b, None, Inl (invalid e))
            | Inr k \<Rightarrow>
                (case verify_task_principal who k (backend_store b) of
                   Inl e \<Rightarrow> (b, None, Inl e)
                 | Inr _ \<Rightarrow> handle_owned W now el m request k b)))"

section \<open>Isolation\<close>

definition owns :: "identity \<Rightarrow> task \<Rightarrow> bool" where
  "owns who t \<longleftrightarrow> (\<exists>p. who = Id_Principal p \<and> t_principal t = caller_principal p)"

lemma verify_not_owner:
  assumes "\<And>t. get k st = Inr t \<Longrightarrow> \<not> owns who t"
  shows "verify_task_principal who k st = Inl (TaskNotFound k)"
  using assms by (cases who; cases "map_of (s_tasks st) k")
    (auto simp: verify_task_principal_def owns_def get_def)

lemma verify_owner: "get k st = Inr t \<Longrightarrow> owns who t \<Longrightarrow> verify_task_principal who k st = Inr ()"
  by (auto simp: verify_task_principal_def owns_def)

text \<open>C29: Isolation of principals: a caller that does not own a task (or whose identity cannot be
  inferred) gets from \<open>tasks/get\<close>, \<open>tasks/result\<close> and \<open>tasks/cancel\<close>
  the answer "not found", the very answer a store without the task gives, nothing is sent upstream
  and the state is unchanged; for the owner the request reaches the handler.\<close>

theorem task_isolation:
  assumes "m \<noteq> TM_List"
    and "w_task_id W m (case mq_params request of Some p \<Rightarrow> p | None \<Rightarrow> JObject []) = Inr k"
    and "get k (backend_store b) = Inr t"
  shows "if owns who t
    then handle_task_method W who now el m request b = handle_owned W now el m request k b
    else handle_task_method W who now el m request b = (b, None, Inl (TaskNotFound k)) \<and>
      (\<forall>b0. map_of (s_tasks (backend_store b0)) k = None \<longrightarrow>
        handle_task_method W who now el m request b0 = (b0, None, Inl (TaskNotFound k)))"
proof (cases "owns who t")
  case True
  then show ?thesis using assms by (simp add: handle_task_method_def verify_owner)
next
  case False
  then have "verify_task_principal who k (backend_store b) = Inl (TaskNotFound k)"
    using assms(3) by (intro verify_not_owner) simp
  moreover have "verify_task_principal who k (backend_store b0) = Inl (TaskNotFound k)"
    if "map_of (s_tasks (backend_store b0)) k = None" for b0
    using that by (intro verify_not_owner) (simp add: get_def)
  ultimately show ?thesis using False assms(1,2) by (simp add: handle_task_method_def)
qed

definition demo_wire :: wire where
  "demo_wire = \<lparr>w_task_id = \<lambda>_ p. (case Option.bind (jget ''taskId'' p) as_str of
       Some k \<Rightarrow> Inr k | None \<Rightarrow> Inl ''missing field''),
     w_cursor = \<lambda>p. Inr (Option.bind (jget ''cursor'' p) as_str),
     w_encode = \<lambda>_. Inr JNull\<rparr>"

definition demo_cancel :: mcp_request where
  "demo_cancel = \<lparr>mq_id = Some (IdNumber 7), mq_method = ''tasks/cancel'',
     mq_params = Some (JObject [(''taskId'', JString ''2'')])\<rparr>"

definition demo_caller :: "string \<Rightarrow> identity" where
  "demo_caller app = Id_Principal \<lparr>pp_app_name = app, pp_namespace = ''default'', pp_service_account = ''default'',
     pp_roles = []\<rparr>"

theorem task_isolation_witness:
  "handle_task_method demo_wire (demo_caller ''b'') 9 None TM_Cancel demo_cancel (StoreOnly demo_store) =
     (StoreOnly demo_store, None, Inl (TaskNotFound ''2''))"
proof -
  have 2: "w_task_id demo_wire TM_Cancel (case mq_params demo_cancel of Some p \<Rightarrow> p | None \<Rightarrow> JObject []) = Inr ''2''"
    by code_simp
  have "case get ''2'' demo_store of Inr t \<Rightarrow> p_app_name (t_principal t) = ''a'' | Inl _ \<Rightarrow> False" by code_simp
  then obtain t where t: "get ''2'' (backend_store (StoreOnly demo_store)) = Inr t" "p_app_name (t_principal t) = ''a''"
    by (auto split: sum.splits)
  then have "\<not> owns (demo_caller ''b'') t"
    by (auto simp: owns_def demo_caller_def caller_principal_def principal_from_policy_def)
  with task_isolation [OF _ 2 t(1), of "demo_caller ''b''" 9 None] show ?thesis by simp
qed

end
