(* ===== verification/Jsonrpc.thy ===== *)
theory Jsonrpc
  imports Task_Methods
begin

text \<open>
  Parsing, classification and routing of JSON-RPC messages: \<open>transport/jsonrpc.rs\<close>,
  \<open>jsonrpc.rs\<close> and \<open>transport/router.rs\<close>. Reading bytes and filling the raw request
  is the work of \<open>serde_json\<close> and of code that \<open>serde\<close> derives: the record
  \<open>reader\<close> stands for it. The counter of correlation identifiers is state that parsing
  threads through.
\<close>

declare map_of_eq_Some_iff [simp del]

unbundle bit_operations_syntax

section \<open>Correlation identifiers\<close>

text \<open>128 bits: the prefix of the process above, the counter below, with the version and variant
  bits of a UUID of version 4 written over both.\<close>

definition fast_correlation_id :: "64 word \<Rightarrow> 64 word \<Rightarrow> 128 word" where
  "fast_correlation_id pfx counter =
     (let combined = push_bit 64 (ucast pfx) OR ucast counter;
          combined = (combined AND NOT (push_bit 76 0xF)) OR push_bit 76 0x4
      in (combined AND NOT (push_bit 62 0x3)) OR push_bit 62 0x2)"

section \<open>Types\<close>

fun display_id :: "json_rpc_id \<Rightarrow> string" where
  "display_id (IdNumber n) = show_int n"
| "display_id (IdString s) = s"
| "display_id IdNull = ''null''"

fun as_i64 :: "json_number \<Rightarrow> int option" where
  "as_i64 (PosInt n) = (if uint n < 2 ^ 63 then Some (uint n) else None)"
| "as_i64 (NegInt n) = Some (sint n)"
| "as_i64 (Float _) = None"

fun as_u64 :: "json_number \<Rightarrow> nat option" where
  "as_u64 (PosInt n) = Some (unat n)"
| "as_u64 (NegInt _) = None"
| "as_u64 (Float _) = None"

text \<open>\<open>Serialize\<close> and \<open>Deserialize\<close> of an identifier, and \<open>parse_id\<close>.\<close>

fun id_to_value :: "json_rpc_id \<Rightarrow> json" where
  "id_to_value (IdNumber n) = JNumber (if n < 0 then NegInt (word_of_int n) else PosInt (word_of_int n))"
| "id_to_value (IdString s) = JString s"
| "id_to_value IdNull = JNull"

fun parse_id :: "json \<Rightarrow> json_rpc_id option" where
  "parse_id (JNumber n) = map_option IdNumber (as_i64 n)"
| "parse_id (JString s) = Some (IdString s)"
| "parse_id JNull = Some IdNull"
| "parse_id _ = None"

record raw_request =
  rw_jsonrpc :: "string option"
  rw_id :: "json_rpc_id option"
  rw_method :: "string option"
  rw_params :: "json option"

text \<open>A parsed request is the request the other components see, with its task metadata (the time to
  live of \<open>params.task\<close>, if any) and its correlation identifier.\<close>

record parsed_request = mcp_request +
  mq_task_metadata :: "duration option option"
  mq_correlation_id :: "128 word"

definition is_notification :: "'a mcp_request_scheme \<Rightarrow> bool" where
  "is_notification r \<longleftrightarrow> mq_id r = None"

definition is_task_augmented :: "parsed_request \<Rightarrow> bool" where
  "is_task_augmented r \<longleftrightarrow> mq_task_metadata r \<noteq> None"

text \<open>The wire form of a request that is forwarded: absent fields are left out.\<close>

definition to_jsonrpc_request :: "'a mcp_request_scheme \<Rightarrow> json" where
  "to_jsonrpc_request r =
     JObject ([(''jsonrpc'', JString ''2.0'')] @
       (case mq_id r of Some i \<Rightarrow> [(''id'', id_to_value i)] | None \<Rightarrow> []) @
       [(''method'', JString (mq_method r))] @
       (case mq_params r of Some p \<Rightarrow> [(''params'', p)] | None \<Rightarrow> []))"

datatype batch_item = BI_Valid parsed_request | BI_Invalid "json_rpc_id option" tg_error

datatype parsed_requests = Single parsed_request | Batch "batch_item list"

text \<open>What \<open>serde_json\<close> answers: for a single request the error says whether it is a syntax error
  (or the end of the input) or a structural one.\<close>

record reader =
  rd_raw :: "string \<Rightarrow> (bool \<times> string) + raw_request"
  rd_array :: "string \<Rightarrow> string + json list"
  rd_value :: "string \<Rightarrow> string + json"
  rd_from_value :: "json \<Rightarrow> string + raw_request"

section \<open>Parsing\<close>

definition max_ttl_ms :: nat where
  "max_ttl_ms = 24 * 60 * 60 * 1000"

definition extract_task_metadata :: "json option \<Rightarrow> duration option option" where
  "extract_task_metadata params =
     Option.bind params (\<lambda>p. Option.bind (jget ''task'' p) (\<lambda>t.
       Some (map_option (\<lambda>ms. from_millis (min ms max_ttl_ms))
         (Option.bind (jget ''ttl'' t) (\<lambda>v. case v of JNumber n \<Rightarrow> as_u64 n | _ \<Rightarrow> None)))))"

text \<open>Results carry the counter after the call.\<close>

definition parse_single_from_raw ::
  "64 word \<Rightarrow> raw_request \<Rightarrow> 64 word \<Rightarrow> 64 word \<times> (tg_error + parsed_request)" where
  "parse_single_from_raw pfx raw ctr =
     (case rw_jsonrpc raw of
        None \<Rightarrow> (ctr, Inl (InvalidRequest ''Missing required field: jsonrpc''))
      | Some v \<Rightarrow>
          if v \<noteq> ''2.0'' then
            (ctr, Inl (InvalidRequest (''Invalid jsonrpc version: expected \"2.0\", got \"'' @ v @ ''\"'')))
          else
            (case rw_method raw of
               None \<Rightarrow> (ctr, Inl (InvalidRequest ''Missing required field: method''))
             | Some m \<Rightarrow>
                 (ctr + 1,
                  Inr \<lparr>mq_id = rw_id raw, mq_method = m, mq_params = rw_params raw,
                       mq_task_metadata = extract_task_metadata (rw_params raw),
                       mq_correlation_id = fast_correlation_id pfx ctr\<rparr>)))"

definition parse_single_request ::
  "reader \<Rightarrow> 64 word \<Rightarrow> json \<Rightarrow> 64 word \<Rightarrow> 64 word \<times> (tg_error + parsed_request)" where
  "parse_single_request R pfx v ctr =
     (case rd_from_value R v of
        Inl e \<Rightarrow> (ctr, Inl (InvalidRequest (''Invalid JSON-RPC structure: '' @ e)))
      | Inr raw \<Rightarrow> parse_single_from_raw pfx raw ctr)"

definition item_id :: "json \<Rightarrow> json_rpc_id option" where
  "item_id item = Option.bind (jget ''id'' item) parse_id"

fun parse_batch_items ::
  "reader \<Rightarrow> 64 word \<Rightarrow> json list \<Rightarrow> 64 word \<Rightarrow> 64 word \<times> batch_item list" where
  "parse_batch_items R pfx [] ctr = (ctr, [])"
| "parse_batch_items R pfx (item # items) ctr =
     (let (ctr1, res) = parse_single_request R pfx item ctr;
          entry = (case res of Inr request \<Rightarrow> BI_Valid request | Inl e \<Rightarrow> BI_Invalid (item_id item) e);
          (ctr2, rest) = parse_batch_items R pfx items ctr1
      in (ctr2, entry # rest))"

definition is_ascii_whitespace :: "char \<Rightarrow> bool" where
  "is_ascii_whitespace c \<longleftrightarrow> c \<in> {CHR '' '', CHR 0x09, CHR 0x0A, CHR 0x0C, CHR 0x0D}"

definition parse_jsonrpc ::
  "reader \<Rightarrow> 64 word \<Rightarrow> string \<Rightarrow> 64 word \<Rightarrow> 64 word \<times> (tg_error + parsed_requests)" where
  "parse_jsonrpc R pfx bytes ctr =
     (case find (\<lambda>b. \<not> is_ascii_whitespace b) bytes of
        None \<Rightarrow> (ctr, Inl (ParseError ''Invalid JSON: empty input''))
      | Some first_byte \<Rightarrow>
          if first_byte = CHR ''{'' then
            (case rd_raw R bytes of
               Inl (syntax, e) \<Rightarrow>
                 (ctr, Inl (if syntax then ParseError (''Invalid JSON: '' @ e)
                            else InvalidRequest (''Invalid JSON-RPC structure: '' @ e)))
             | Inr raw \<Rightarrow>
                 (case parse_single_from_raw pfx raw ctr of
                    (ctr', Inl e) \<Rightarrow> (ctr', Inl e)
                  | (ctr', Inr r) \<Rightarrow> (ctr', Inr (Single r))))
          else if first_byte = CHR ''['' then
            (case rd_array R bytes of
               Inl e \<Rightarrow> (ctr, Inl (ParseError (''Invalid JSON: '' @ e)))
             | Inr arr \<Rightarrow>
                 if arr = [] then (ctr, Inl (InvalidRequest ''Empty batch is not allowed''))
                 else (let (ctr', items) = parse_batch_items R pfx arr ctr in (ctr', Inr (Batch items))))
          else
            (case rd_value R bytes of
               Inl e \<Rightarrow> (ctr, Inl (ParseError (''Invalid JSON: '' @ e)))
             | Inr _ \<Rightarrow> (ctr, Inl (InvalidRequest ''Request must be an object or array''))))"

section \<open>Classification\<close>

datatype message_kind =
    MK_Request json_rpc_id string
  | MK_Response json_rpc_id
  | MK_Notification string

datatype classify_error = InvalidVersion | InvalidId | Unclassifiable

definition classify_jsonrpc :: "json \<Rightarrow> classify_error + message_kind" where
  "classify_jsonrpc v =
     (if Option.bind (jget ''jsonrpc'' v) as_str \<noteq> Some ''2.0'' then Inl InvalidVersion
      else
        let meth = Option.bind (jget ''method'' v) as_str in
        case jget ''id'' v of
          Some i \<Rightarrow>
            (case parse_id i of
               None \<Rightarrow> Inl InvalidId
             | Some i \<Rightarrow>
                 (case meth of Some m \<Rightarrow> Inr (MK_Request i m) | None \<Rightarrow> Inr (MK_Response i)))
        | None \<Rightarrow>
            (case meth of Some m \<Rightarrow> Inr (MK_Notification m) | None \<Rightarrow> Inl Unclassifiable))"

section \<open>Routing\<close>

definition task_id_prefix :: string where
  "task_id_prefix = ''tg_''"

definition is_thoughtgate_owned :: "task_id \<Rightarrow> bool" where
  "is_thoughtgate_owned k \<longleftrightarrow> take (length task_id_prefix) k = task_id_prefix"

datatype route_target =
    PolicyEvaluation parsed_request
  | TaskHandler task_method parsed_request
  | PassThrough parsed_request
  | InitializeHandler parsed_request

definition parse_task_method :: "string \<Rightarrow> task_method option" where
  "parse_task_method m =
     (if m = ''tasks/get'' then Some TM_Get
      else if m = ''tasks/result'' then Some TM_Result
      else if m = ''tasks/list'' then Some TM_List
      else if m = ''tasks/cancel'' then Some TM_Cancel
      else None)"

definition starts_with :: "string \<Rightarrow> string \<Rightarrow> bool" where
  "starts_with p s \<longleftrightarrow> take (length p) s = p"

definition route :: "parsed_request \<Rightarrow> route_target" where
  "route r =
     (let m = mq_method r in
      if m = ''initialize'' then InitializeHandler r
      else case parse_task_method m of
        Some tm \<Rightarrow>
          if tm \<noteq> TM_List \<and>
             \<not> (case Option.bind (Option.bind (mq_params r) (jget ''taskId'')) as_str of
                  Some k \<Rightarrow> is_thoughtgate_owned k | None \<Rightarrow> False)
          then PassThrough r
          else TaskHandler tm r
      | None \<Rightarrow>
          if starts_with ''tools/'' m \<or> starts_with ''resources/'' m \<or> starts_with ''prompts/'' m
          then PolicyEvaluation r
          else PassThrough r)"

section \<open>Correlation identifiers are unique\<close>

lemma push_bit_128: "bit (push_bit m (a :: 128 word)) n \<longleftrightarrow> m \<le> n \<and> n < 128 \<and> bit a (n - m)"
  by (auto simp: bit_push_bit_iff)

lemmas correlation_bits = fast_correlation_id_def Let_def bit_or_iff bit_and_iff bit_not_iff push_bit_128
  bit_ucast_iff

lemma correlation_low_bits: "n < 62 \<Longrightarrow> bit (fast_correlation_id pfx ctr) n \<longleftrightarrow> bit ctr n"
  by (simp only: correlation_bits) (auto simp: bit_imp_le_length)

text \<open>Version and variant bits of a UUID of version 4.\<close>

definition is_uuid_v4 :: "128 word \<Rightarrow> bool" where
  "is_uuid_v4 u \<longleftrightarrow> \<not> bit u 79 \<and> bit u 78 \<and> \<not> bit u 77 \<and> \<not> bit u 76 \<and> bit u 63 \<and> \<not> bit u 62"

lemma correlation_uuid: "is_uuid_v4 (fast_correlation_id pfx ctr)"
  by (simp only: correlation_bits is_uuid_v4_def) (simp add: bit_numeral_rec)

lemma word_lt_62_bits:
  assumes "unat (c :: 64 word) < 2 ^ 62" and "62 \<le> n"
  shows "\<not> bit c n"
proof
  assume b: "bit c n"
  have "bit (unat c) n" using b by (simp add: bit_unsigned_iff)
  moreover have "unat c = take_bit 62 (unat c)" using assms(1) by (simp add: take_bit_nat_eq_self)
  ultimately have "bit (take_bit 62 (unat c)) n" by simp
  with assms(2) show False by (simp add: bit_take_bit_iff)
qed

lemma correlation_inj:
  assumes "fast_correlation_id pfx c = fast_correlation_id pfx d" "unat c < 2 ^ 62" "unat d < 2 ^ 62"
  shows "c = d"
proof (rule bit_word_eqI)
  fix n assume "n < LENGTH(64)"
  show "bit c n \<longleftrightarrow> bit d n"
    using correlation_low_bits [of n pfx c] correlation_low_bits [of n pfx d] assms
      word_lt_62_bits [of c n] word_lt_62_bits [of d n]
    by (cases "n < 62") auto
qed

text \<open>The requests of a message, and of a stream of messages parsed one after the other.\<close>

fun valid_items :: "batch_item list \<Rightarrow> parsed_request list" where
  "valid_items [] = []"
| "valid_items (BI_Valid r # es) = r # valid_items es"
| "valid_items (BI_Invalid _ _ # es) = valid_items es"

fun requests_of :: "tg_error + parsed_requests \<Rightarrow> parsed_request list" where
  "requests_of (Inl _) = []"
| "requests_of (Inr (Single r)) = [r]"
| "requests_of (Inr (Batch es)) = valid_items es"

fun parse_stream :: "reader \<Rightarrow> 64 word \<Rightarrow> string list \<Rightarrow> 64 word \<Rightarrow> parsed_request list" where
  "parse_stream R pfx [] ctr = []"
| "parse_stream R pfx (bytes # msgs) ctr =
     (let (ctr', res) = parse_jsonrpc R pfx bytes ctr in requests_of res @ parse_stream R pfx msgs ctr')"

definition numbered :: "64 word \<Rightarrow> 64 word \<Rightarrow> 64 word \<Rightarrow> parsed_request list \<Rightarrow> bool" where
  "numbered pfx ctr ctr' rs \<longleftrightarrow> ctr' = ctr + of_nat (length rs) \<and>
     map mq_correlation_id rs = map (\<lambda>i. fast_correlation_id pfx (ctr + of_nat i)) [0..<length rs]"

lemma numbered_Nil: "numbered pfx ctr ctr []"
  by (simp add: numbered_def)

lemma numbered_append:
  assumes "numbered pfx a b xs" and "numbered pfx b c ys"
  shows "numbered pfx a c (xs @ ys)"
proof -
  have "map (\<lambda>i. fast_correlation_id pfx (a + of_nat i)) [length xs..<length xs + length ys] =
      map (\<lambda>i. fast_correlation_id pfx (b + of_nat i)) [0..<length ys]"
    using assms(1) by (intro nth_equalityI) (auto simp: numbered_def add.assoc)
  moreover have "[0..<length (xs @ ys)] = [0..<length xs] @ [length xs..<length xs + length ys]"
    using upt_add_eq_append [of 0 "length xs" "length ys"] by simp
  ultimately show ?thesis using assms by (simp only: numbered_def map_append) (simp add: add.assoc)
qed

lemma numbered_single:
  "parse_single_from_raw pfx raw ctr = (ctr', res) \<Longrightarrow>
   numbered pfx ctr ctr' (case res of Inr r \<Rightarrow> [r] | Inl _ \<Rightarrow> [])"
  by (auto simp: parse_single_from_raw_def numbered_def split: option.splits if_splits)

lemma numbered_request:
  "parse_single_request R pfx v ctr = (ctr', res) \<Longrightarrow>
   numbered pfx ctr ctr' (case res of Inr r \<Rightarrow> [r] | Inl _ \<Rightarrow> [])"
  by (cases "rd_from_value R v") (auto simp: parse_single_request_def numbered_Nil intro: numbered_single)

lemma numbered_items: "parse_batch_items R pfx items ctr = (ctr', es) \<Longrightarrow> numbered pfx ctr ctr' (valid_items es)"
proof (induction items arbitrary: ctr ctr' es)
  case (Cons item items)
  obtain c1 res where 1: "parse_single_request R pfx item ctr = (c1, res)" by fastforce
  obtain c2 rest where 2: "parse_batch_items R pfx items c1 = (c2, rest)" by fastforce
  have "numbered pfx ctr c2 ((case res of Inr r \<Rightarrow> [r] | Inl _ \<Rightarrow> []) @ valid_items rest)"
    using numbered_append [OF numbered_request [OF 1] Cons.IH [OF 2]] .
  moreover have "ctr' = c2" "valid_items es = (case res of Inr r \<Rightarrow> [r] | Inl _ \<Rightarrow> []) @ valid_items rest"
    using Cons.prems 1 2 by (auto split: sum.splits)
  ultimately show ?case by simp
qed (simp add: numbered_Nil)

lemma numbered_message: "parse_jsonrpc R pfx bytes ctr = (ctr', res) \<Longrightarrow> numbered pfx ctr ctr' (requests_of res)"
  using numbered_single numbered_items
  by (auto simp: parse_jsonrpc_def numbered_Nil split: option.splits if_splits sum.splits prod.splits)
    (metis sum.simps(5,6))+

lemma numbered_stream: "\<exists>ctr'. numbered pfx ctr ctr' (parse_stream R pfx msgs ctr)"
proof (induction msgs arbitrary: ctr)
  case (Cons b msgs)
  obtain c res where 1: "parse_jsonrpc R pfx b ctr = (c, res)" by fastforce
  with Cons.IH [of c] numbered_append [OF numbered_message [OF 1]] show ?case by auto
qed (use numbered_Nil in auto)

text \<open>Over any stream of messages a process parses (single requests and batches, valid and
  invalid), up to \<open>2 ^ 62\<close> requests, every request gets a correlation identifier with the version
  and variant bits of a UUID of version 4, and no two requests share one.\<close>

lemma correlation_ids_unique:
  assumes "length (parse_stream R pfx msgs 0) \<le> 2 ^ 62"
  shows "distinct (map mq_correlation_id (parse_stream R pfx msgs 0)) \<and>
    (\<forall>r\<in>set (parse_stream R pfx msgs 0). is_uuid_v4 (mq_correlation_id r))"
proof -
  let ?rs = "parse_stream R pfx msgs 0"
  have ids: "map mq_correlation_id ?rs = map (\<lambda>i. fast_correlation_id pfx (of_nat i)) [0..<length ?rs]"
    using numbered_stream [of pfx 0 R msgs] by (auto simp: numbered_def)
  have "inj_on (\<lambda>i. fast_correlation_id pfx (of_nat i)) {0..<length ?rs}"
  proof (rule inj_onI)
    fix i j assume ij: "i \<in> {0..<length ?rs}" "j \<in> {0..<length ?rs}"
      "fast_correlation_id pfx (of_nat i) = fast_correlation_id pfx (of_nat j)"
    have u: "unat (of_nat n :: 64 word) = n \<and> n < 2 ^ 62" if "n \<in> {0..<length ?rs}" for n
    proof
      show "n < 2 ^ 62" using that assms by simp
      then show "unat (of_nat n :: 64 word) = n" by (simp add: unsigned_of_nat take_bit_nat_eq_self)
    qed
    note i = u [OF ij(1)] and j = u [OF ij(2)]
    have "unat (of_nat i :: 64 word) < 2 ^ 62" "unat (of_nat j :: 64 word) < 2 ^ 62"
      unfolding i [THEN conjunct1] j [THEN conjunct1] using i j by blast+
    from correlation_inj [OF ij(3) this]
    have "unat (of_nat i :: 64 word) = unat (of_nat j :: 64 word)" by (rule arg_cong)
    then show "i = j" unfolding i [THEN conjunct1] j [THEN conjunct1] .
  qed
  then have "distinct (map mq_correlation_id ?rs)" unfolding ids by (simp add: distinct_map)
  moreover have "is_uuid_v4 (mq_correlation_id r)" if "r \<in> set ?rs" for r
  proof -
    from that have "mq_correlation_id r \<in> set (map mq_correlation_id ?rs)" by simp
    then show ?thesis unfolding ids using correlation_uuid by auto
  qed
  ultimately show ?thesis by blast
qed

section \<open>Requests survive the wire\<close>

text \<open>Behaviour of derived deserialisation on objects: an absent or null field is \<open>None\<close>
  (a null identifier is kept), a text field must be a string, an identifier must be valid, unknown
  fields are ignored.\<close>

definition text_field_ok :: "json option \<Rightarrow> bool" where
  "text_field_ok v \<longleftrightarrow> (case v of None \<Rightarrow> True | Some JNull \<Rightarrow> True | Some (JString _) \<Rightarrow> True | _ \<Rightarrow> False)"

definition fields_ok :: "(string \<times> json) list \<Rightarrow> bool" where
  "fields_ok m \<longleftrightarrow> text_field_ok (map_of m ''jsonrpc'') \<and> text_field_ok (map_of m ''method'') \<and>
     (case map_of m ''id'' of None \<Rightarrow> True | Some i \<Rightarrow> parse_id i \<noteq> None)"

definition raw_of :: "(string \<times> json) list \<Rightarrow> raw_request" where
  "raw_of m = \<lparr>rw_jsonrpc = Option.bind (map_of m ''jsonrpc'') as_str,
     rw_id = Option.bind (map_of m ''id'') parse_id, rw_method = Option.bind (map_of m ''method'') as_str,
     rw_params = (if map_of m ''params'' = Some JNull then None else map_of m ''params'')\<rparr>"

definition reads_objects :: "reader \<Rightarrow> bool" where
  "reads_objects R \<longleftrightarrow>
     (\<forall>m. if fields_ok m then rd_from_value R (JObject m) = Inr (raw_of m)
          else \<exists>e. rd_from_value R (JObject m) = Inl e)"

fun id_in_range :: "json_rpc_id \<Rightarrow> bool" where
  "id_in_range (IdNumber n) \<longleftrightarrow> - (2 ^ 63) \<le> n \<and> n < 2 ^ 63"
| "id_in_range _ \<longleftrightarrow> True"

lemma id_roundtrip: "id_in_range i \<Longrightarrow> parse_id (id_to_value i) = Some i"
proof (cases i)
  case (IdNumber n)
  assume r: "id_in_range i"
  show ?thesis
  proof (cases "n < 0")
    case True
    then have "sint (word_of_int n :: 64 word) = n"
      using r IdNumber by (simp add: sint_sbintrunc' signed_take_bit_int_eq_self)
    with True IdNumber show ?thesis by simp
  next
    case False
    then have "uint (word_of_int n :: 64 word) = n"
      using r IdNumber by (simp add: uint_word_of_int take_bit_int_eq_self)
    with False IdNumber r show ?thesis by simp
  qed
qed simp_all


definition demo_reader :: reader where
  "demo_reader = \<lparr>rd_raw = \<lambda>_. Inl (True, []), rd_array = \<lambda>_. Inr [JNull, JObject [(''jsonrpc'', JString ''2.0''),
       (''method'', JString ''ping'')], JObject [(''jsonrpc'', JString ''2.0''), (''method'', JString ''x'')]],
     rd_value = \<lambda>_. Inl [],
     rd_from_value = \<lambda>v. (case v of JObject m \<Rightarrow> if fields_ok m then Inr (raw_of m) else Inl ''invalid'' | _ \<Rightarrow> Inl ''type'')\<rparr>"

lemma demo_reads: "reads_objects demo_reader"
  by (simp add: reads_objects_def demo_reader_def)


text \<open>The two readers of messages agree: an object that parses as a request is classified, by the
  classifier of the stdio transport, as a request with the same identifier and method, or as a
  notification if it has no identifier; an object that does not parse is never classified as one.\<close>

lemma classify_agrees_with_parse:
  assumes "reads_objects R"
  shows "(case snd (parse_single_request R pfx (JObject m) ctr) of
      Inr r \<Rightarrow> classify_jsonrpc (JObject m) =
        (case mq_id r of Some i \<Rightarrow> Inr (MK_Request i (mq_method r)) | None \<Rightarrow> Inr (MK_Notification (mq_method r)))
    | Inl _ \<Rightarrow> (\<forall>i n. classify_jsonrpc (JObject m) \<noteq> Inr (MK_Request i n) \<and>
        classify_jsonrpc (JObject m) \<noteq> Inr (MK_Notification n)))"
proof (cases "fields_ok m")
  case True
  then have "rd_from_value R (JObject m) = Inr (raw_of m)" using assms by (auto simp: reads_objects_def)
  with True show ?thesis
    by (auto simp: parse_single_request_def parse_single_from_raw_def raw_of_def classify_jsonrpc_def jget_def
        fields_ok_def Let_def split: option.splits sum.splits if_splits)
next
  case False
  then obtain e where "rd_from_value R (JObject m) = Inl e" using assms unfolding reads_objects_def by metis
  with False show ?thesis
    by (auto simp: parse_single_request_def classify_jsonrpc_def jget_def fields_ok_def text_field_ok_def
        as_str_def Let_def split: option.splits json.splits if_splits)
qed

end
