(* ===== verification/Stdio_Framing.thy ===== *)
theory Stdio_Framing
  imports Config_Loader Jsonrpc
begin

text \<open>
  Framing of the stdio transport (\<open>thoughtgate/src/error.rs\<close>, \<open>shim/ndjson.rs\<close> and the reader of
  \<open>shim/proxy/helpers.rs\<close>): the framing errors, the parser of one line, the check for smuggled
  messages, and the bounded line reader. Text is a string of bytes; a stream is the list of buffers
  that reading it will give. The JSON parser of \<open>serde_json\<close> is an argument.
\<close>

declare map_of_eq_Some_iff [simp del]

section \<open>Errors\<close>

datatype framing_error =
    FE_MessageTooLarge nat
  | FE_MalformedJson string
  | FE_MissingVersion
  | FE_UnsupportedVersion string
  | FE_UnsupportedBatch
  | FE_Io string

fun framing_error_to_string :: "framing_error \<Rightarrow> string" where
  "framing_error_to_string (FE_MessageTooLarge n) = ''Message exceeds maximum size of '' @ show_nat n @ '' bytes''"
| "framing_error_to_string (FE_MalformedJson r) = ''Malformed JSON: '' @ r"
| "framing_error_to_string FE_MissingVersion = ''Missing required jsonrpc field''"
| "framing_error_to_string (FE_UnsupportedVersion v) = ''Unsupported JSON-RPC version: '' @ v"
| "framing_error_to_string FE_UnsupportedBatch = ''JSON-RPC batch requests (arrays) are not supported''"
| "framing_error_to_string (FE_Io e) = ''IO error: '' @ e"

fun framing_error_type :: "framing_error \<Rightarrow> string" where
  "framing_error_type (FE_MessageTooLarge _) = ''message_too_large''"
| "framing_error_type (FE_MalformedJson _) = ''malformed_json''"
| "framing_error_type FE_MissingVersion = ''missing_version''"
| "framing_error_type (FE_UnsupportedVersion _) = ''unsupported_version''"
| "framing_error_type FE_UnsupportedBatch = ''unsupported_batch''"
| "framing_error_type (FE_Io _) = ''io_error''"

section \<open>One line\<close>

definition max_message_bytes :: nat where
  "max_message_bytes = 10 * 1024 * 1024"

record stdio_message =
  sm_kind :: message_kind
  sm_params :: "json option"
  sm_raw :: string

definition parse_stdio_message :: "(string \<Rightarrow> string + json) \<Rightarrow> string \<Rightarrow> framing_error + stdio_message" where
  "parse_stdio_message from_str line =
     (if length line > max_message_bytes then Inl (FE_MessageTooLarge max_message_bytes)
      else if trim line = [] then Inl (FE_MalformedJson ''empty message'')
      else case from_str (trim line) of
             Inl e \<Rightarrow> Inl (FE_MalformedJson e)
           | Inr v \<Rightarrow>
               (case v of
                  JArray _ \<Rightarrow> Inl FE_UnsupportedBatch
                | _ \<Rightarrow>
                    (case classify_jsonrpc v of
                       Inl InvalidVersion \<Rightarrow>
                         (case Option.bind (jget ''jsonrpc'' v) as_str of
                            Some u \<Rightarrow> Inl (FE_UnsupportedVersion u)
                          | None \<Rightarrow> Inl FE_MissingVersion)
                     | Inl InvalidId \<Rightarrow> Inl (FE_MalformedJson ''invalid id field'')
                     | Inl Unclassifiable \<Rightarrow> Inl (FE_MalformedJson ''message has neither id nor method'')
                     | Inr kind \<Rightarrow> Inr \<lparr>sm_kind = kind, sm_params = jget ''params'' v, sm_raw = line\<rparr>)))"

abbreviation newline :: char where
  "newline \<equiv> CHR 0x0A"

definition detect_smuggling :: "(string \<Rightarrow> string + json) \<Rightarrow> string \<Rightarrow> bool" where
  "detect_smuggling from_str raw =
     list_ex (\<lambda>segment. segment \<noteq> [] \<and>
        (case from_str segment of Inr v \<Rightarrow> jget ''jsonrpc'' v \<noteq> None | Inl _ \<Rightarrow> False))
       (tl (split_on newline raw))"

section \<open>The bounded reader\<close>

text \<open>What a reader still has to give: buffers, or an error; an empty buffer is the end of the file.\<close>

datatype chunk = Data string | Broken string

definition position :: "string \<Rightarrow> nat option" where
  "position b = (let n = length (takeWhile (\<lambda>c. c \<noteq> newline) b) in if n < length b then Some n else None)"

definition consume :: "nat \<Rightarrow> string \<Rightarrow> chunk list \<Rightarrow> chunk list" where
  "consume n b cs = (if n < length b then Data (drop n b) # cs else cs)"

text \<open>\<open>patience\<close> is the number of buffers that arrive before the drain times out.\<close>

fun drain_until_newline :: "nat \<Rightarrow> chunk list \<Rightarrow> chunk list" where
  "drain_until_newline 0 cs = cs"
| "drain_until_newline (Suc n) [] = []"
| "drain_until_newline (Suc n) (Broken e # cs) = cs"
| "drain_until_newline (Suc n) (Data b # cs) =
     (if b = [] then Data b # cs
      else case position b of
             Some pos \<Rightarrow> consume (pos + 1) b cs
           | None \<Rightarrow> drain_until_newline n cs)"

fun bounded_read_line ::
  "nat \<Rightarrow> nat \<Rightarrow> string \<Rightarrow> nat \<Rightarrow> chunk list \<Rightarrow> (framing_error + nat) \<times> string \<times> chunk list" where
  "bounded_read_line patience max_bytes buf sofar [] = (Inr sofar, buf, [])"
| "bounded_read_line patience max_bytes buf sofar (Broken e # cs) = (Inl (FE_Io e), buf, cs)"
| "bounded_read_line patience max_bytes buf sofar (Data b # cs) =
     (if b = [] then (Inr sofar, buf, Data b # cs)
      else case position b of
             Some pos \<Rightarrow>
               let to_consume = pos + 1 in
               if sofar + to_consume > max_bytes then (Inl (FE_MessageTooLarge max_bytes), buf, consume to_consume b cs)
               else (Inr (sofar + to_consume), buf @ take to_consume b, consume to_consume b cs)
           | None \<Rightarrow>
               if sofar + length b > max_bytes
               then (Inl (FE_MessageTooLarge max_bytes), buf, drain_until_newline patience cs)
               else bounded_read_line patience max_bytes (buf @ b) (sofar + length b) cs)"

section \<open>Reading is independent of the buffers\<close>

fun chunk_bytes :: "chunk \<Rightarrow> string" where
  "chunk_bytes (Data b) = b"
| "chunk_bytes (Broken _) = []"

definition stream_bytes :: "chunk list \<Rightarrow> string" where
  "stream_bytes cs = concat (map chunk_bytes cs)"

text \<open>A stream without errors before its end.\<close>

definition sound_stream :: "chunk list \<Rightarrow> bool" where
  "sound_stream cs \<longleftrightarrow> list_all (\<lambda>c. chunk_bytes c \<noteq> []) cs"

text \<open>The specification: the next line of a text, with its newline, and what follows.\<close>

definition next_line :: "string \<Rightarrow> string \<times> string" where
  "next_line bs =
     (let n = length (takeWhile (\<lambda>c. c \<noteq> newline) bs) + 1 in (take n bs, drop n bs))"

lemma stream_simps [simp]:
  "stream_bytes [] = []" "stream_bytes (c # cs) = chunk_bytes c @ stream_bytes cs"
  "sound_stream []" "sound_stream (c # cs) \<longleftrightarrow> chunk_bytes c \<noteq> [] \<and> sound_stream cs"
  by (simp_all add: stream_bytes_def sound_stream_def)

lemma position_cases:
  obtains (none) "position b = None" "newline \<notin> set b"
  | (some) u v where "b = u @ newline # v" "newline \<notin> set u" "position b = Some (length u)"
proof (cases "newline \<in> set b")
  case True
  then obtain u v where uv: "b = u @ newline # v" "newline \<notin> set u" by (meson split_list_first)
  then have "takeWhile (\<lambda>c. c \<noteq> newline) b = u" by (simp add: takeWhile_tail)
      (metis takeWhile_eq_all_conv)
  with uv some show thesis by (simp add: position_def Let_def)
next
  case False
  then have "takeWhile (\<lambda>c. c \<noteq> newline) b = b" by (auto simp: takeWhile_eq_all_conv)
  with False none show thesis by (simp add: position_def Let_def)
qed

lemma next_line_simps:
  "newline \<notin> set u \<Longrightarrow> next_line (u @ newline # v) = (u @ [newline], v)"
  "newline \<notin> set u \<Longrightarrow> next_line u = (u, [])"
proof -
  assume u: "newline \<notin> set u"
  then have t: "takeWhile (\<lambda>c. c \<noteq> newline) u = u" by (auto simp: takeWhile_eq_all_conv)
  then have "takeWhile (\<lambda>c. c \<noteq> newline) (u @ newline # v) = u"
    using u by (subst takeWhile_append2) auto
  then show "next_line (u @ newline # v) = (u @ [newline], v)" by (simp add: next_line_def Let_def)
  show "next_line u = (u, [])" unfolding next_line_def t Let_def by simp
qed

lemma next_line_append:
  "newline \<notin> set u \<Longrightarrow> next_line (u @ w) = (u @ fst (next_line w), snd (next_line w))"
  by (simp add: next_line_def Let_def takeWhile_append)

lemma consume_sound:
  assumes "sound_stream cs" and "b = u @ newline # v"
  shows "sound_stream (consume (length u + 1) b cs)" "stream_bytes (consume (length u + 1) b cs) = v @ stream_bytes cs"
  using assms by (auto simp: consume_def)

lemma drain_sound_stream:
  assumes "sound_stream cs" and "length cs \<le> patience"
  shows "sound_stream (drain_until_newline patience cs) \<and>
    stream_bytes (drain_until_newline patience cs) = snd (next_line (stream_bytes cs))"
  using assms
proof (induction patience cs rule: drain_until_newline.induct)
  case (4 n b cs)
  show ?case
  proof (cases rule: position_cases [of b])
    case none
    with 4 show ?thesis by (simp add: next_line_append)
  next
    case (some u v)
    have "next_line (u @ newline # (v @ stream_bytes cs)) = (u @ [newline], v @ stream_bytes cs)"
      using some(2) by (rule next_line_simps)
    with 4 some show ?thesis using consume_sound [of cs b u v] by simp
  qed
qed (auto simp: next_line_def)

text \<open>Where a line ends does not depend on how the stream is cut.\<close>

definition reads_next :: "nat \<Rightarrow> string \<Rightarrow> (framing_error + nat) \<times> string \<times> chunk list \<Rightarrow> bool" where
  "reads_next mx bs res \<longleftrightarrow>
     (case res of
        (r, line, cs') \<Rightarrow>
          sound_stream cs' \<and> stream_bytes cs' = snd (next_line bs) \<and>
          (if length (fst (next_line bs)) \<le> mx
           then r = Inr (length (fst (next_line bs))) \<and> line = fst (next_line bs)
           else r = Inl (FE_MessageTooLarge mx)))"

lemma bounded_read_line_spec:
  assumes "sound_stream cs" and "length cs \<le> patience" and "sofar = length buf" and "length buf \<le> mx"
    and "newline \<notin> set buf"
  shows "reads_next mx (buf @ stream_bytes cs) (bounded_read_line patience mx buf sofar cs)"
  using assms
proof (induction patience mx buf sofar cs rule: bounded_read_line.induct)
  case (1 patience mx buf sofar)
  then show ?case by (simp add: next_line_simps reads_next_def)
next
  case (3 patience mx buf sofar b cs)
  show ?case
  proof (cases rule: position_cases [of b])
    case none
    have nl: "newline \<notin> set (buf @ b)" using none(2) 3 by simp
    have b: "b \<noteq> []" "length cs \<le> patience" "sound_stream cs" using 3 by auto
    show ?thesis
    proof (cases "sofar + length b > mx")
      case True
      then show ?thesis
        using drain_sound_stream [OF b(3,2)] none b 3 next_line_append [OF nl, of "stream_bytes cs"]
        by (simp add: reads_next_def)
    next
      case False
      then have "reads_next mx ((buf @ b) @ stream_bytes cs)
          (bounded_read_line patience mx (buf @ b) (sofar + length b) cs)"
        by (intro 3) (use none b nl 3 in auto)
      with False none b show ?thesis by simp
    qed
  next
    case (some u v)
    have "newline \<notin> set (buf @ u)" using some 3 by simp
    from next_line_simps(1) [OF this, of "v @ stream_bytes cs"]
    have "next_line (buf @ b @ stream_bytes cs) = (buf @ u @ [newline], v @ stream_bytes cs)"
      using some by simp
    with 3 some show ?thesis using consume_sound [of cs b u v] by (simp add: Let_def reads_next_def)
  qed
qed auto

text \<open>What the reader gives never has a newline but at its end.\<close>

lemma bounded_read_line_newline:
  assumes "bounded_read_line patience mx buf sofar cs = (Inr n, line, cs')" and "newline \<notin> set buf"
  shows "newline \<notin> set (butlast line)"
  using assms
proof (induction patience mx buf sofar cs rule: bounded_read_line.induct)
  case (3 patience mx buf sofar b cs)
  show ?case
  proof (cases rule: position_cases [of b])
    case none
    with 3 show ?thesis by (auto simp: in_set_butlastD split: if_splits)
  next
    case (some u v)
    with 3 show ?thesis by (auto simp: Let_def butlast_append split: if_splits)
  qed
qed (auto dest: in_set_butlastD)

definition demo_stream :: "chunk list" where
  "demo_stream = [Data ''ab'', Data (''cd'' @ [newline] @ ''e''), Data ''f'']"

section \<open>Smuggling\<close>

lemma split_on_single: "c \<notin> set s \<Longrightarrow> split_on c s = [s]"
  by (induction s) auto

lemma split_on_last:
  assumes "c \<notin> set (butlast s)"
  shows "set (tl (split_on c s)) \<subseteq> {[]}"
proof (cases "c \<in> set s")
  case True
  with assms have s: "s = butlast s @ [c]" by (induction s) (auto split: if_splits)
  have "set (tl (split_on c (u @ [c]))) \<subseteq> {[]}" if "c \<notin> set u" for u
    using that by (induction u) (auto split: list.splits)
  with assms s show ?thesis by metis
next
  case False
  then show ?thesis by (simp add: split_on_single)
qed

text \<open>The check for smuggled messages never fires in the shim: no line that the reader gives, whatever
  it holds and however the JSON parser answers, is found to carry a second message, because a line
  ends at its first newline.\<close>

lemma smuggling_check_vacuous:
  assumes "bounded_read_line patience max_bytes [] 0 cs = (Inr n, line, cs')"
  shows "\<not> detect_smuggling from_str line"
proof -
  have "newline \<notin> set (butlast line)" using bounded_read_line_newline [OF assms] by simp
  from split_on_last [OF this] show ?thesis by (auto simp: detect_smuggling_def list_ex_iff)
qed

end
