(* ===== verification/Governance_Service.thy ===== *)
theory Governance_Service
  imports Evaluator Task_Store_Props
begin

text \<open>
  The HTTP service the stdio shims talk to (\<open>governance/service.rs\<close>, with the status and revalidation
  answers of \<open>governance/api.rs\<close>): evaluation, heartbeats and the registry of shims, the shutdown
  flag, task status and revalidation. The evaluator carries the task store it shares with the service.
  A handler that panics gives no answer. Spans are not modelled; the Cedar engine is an argument.
\<close>

declare map_of_eq_Some_iff [simp del]

section \<open>Answers\<close>

datatype approval_outcome = AO_Approved | AO_Rejected | AO_Expired | AO_Cancelled

record task_status_response =
  ts_task_id :: string
  ts_status :: task_status
  ts_decision :: "approval_outcome option"
  ts_reason :: "string option"

record revalidate_response =
  rv_allowed :: bool
  rv_drift_detected :: bool
  rv_reason :: "string option"

section \<open>State\<close>

record governance_service =
  gs_shutdown :: bool
  gs_shims :: "(string \<times> instant) list"
  gs_evaluator :: "evaluator option"   \<comment> \<open>with the task store; none in stub mode\<close>

definition governance_service_new :: governance_service where
  "governance_service_new = \<lparr>gs_shutdown = False, gs_shims = [], gs_evaluator = None\<rparr>"

definition with_evaluator :: "evaluator \<Rightarrow> governance_service" where
  "with_evaluator ev = \<lparr>gs_shutdown = False, gs_shims = [], gs_evaluator = Some ev\<rparr>"

definition is_shutdown :: "governance_service \<Rightarrow> bool" where
  "is_shutdown S = gs_shutdown S"

definition trigger_shutdown :: "governance_service \<Rightarrow> governance_service" where
  "trigger_shutdown S = S\<lparr>gs_shutdown := True\<rparr>"

definition stale_shim_threshold :: duration where
  "stale_shim_threshold = from_secs 15"

text \<open>The difference of instants saturates at zero.\<close>

definition cleanup_stale_shims :: "instant \<Rightarrow> governance_service \<Rightarrow> governance_service" where
  "cleanup_stale_shims now S =
     S\<lparr>gs_shims := filter (\<lambda>(_, last_seen). now - last_seen < stale_shim_threshold) (gs_shims S)\<rparr>"

section \<open>Handlers\<close>

definition stub_response :: "bool \<Rightarrow> evaluate_response" where
  "stub_response shutdown = (forward None)\<lparr>es_shutdown := shutdown\<rparr>"

definition evaluate_handler ::
  "eval_env \<Rightarrow> evaluate_request \<Rightarrow> governance_service \<Rightarrow> governance_service \<times> evaluate_response option" where
  "evaluate_handler V req S =
     (let shutdown = gs_shutdown S in
      case gs_evaluator S of
        Some ev \<Rightarrow>
          (case evaluate V req ev of
             (ev', _, r) \<Rightarrow> (S\<lparr>gs_evaluator := Some ev'\<rparr>, map_option (\<lambda>resp. resp\<lparr>es_shutdown := shutdown\<rparr>) r))
      | None \<Rightarrow> (S, Some (stub_response shutdown)))"

text \<open>\<open>now\<close> is read when the shim is registered, \<open>later\<close> when stale ones are removed.\<close>

definition heartbeat_handler ::
  "instant \<Rightarrow> instant \<Rightarrow> string \<Rightarrow> governance_service \<Rightarrow> governance_service \<times> bool" where
  "heartbeat_handler now later server_id S =
     (let S1 = S\<lparr>gs_shims := AList.update server_id now (gs_shims S)\<rparr>;
          S2 = cleanup_stale_shims later S1
      in (S2, gs_shutdown S2))"

definition shutdown_handler :: "governance_service \<Rightarrow> governance_service" where
  "shutdown_handler S = S\<lparr>gs_shutdown := True\<rparr>"

definition outcome_of :: "task \<Rightarrow> approval_outcome option \<times> string option" where
  "outcome_of t =
     (case t_approval t of
        Some a \<Rightarrow>
          (case a_decision a of
             AD_Approved \<Rightarrow> (Some AO_Approved, None)
           | AD_Rejected reason \<Rightarrow> (Some AO_Rejected, reason))
      | None \<Rightarrow>
          (case t_status t of
             Expired \<Rightarrow> (Some AO_Expired, None)
           | Cancelled \<Rightarrow> (Some AO_Cancelled, None)
           | _ \<Rightarrow> (None, None)))"

definition not_found :: nat where
  "not_found = 404"

definition task_status_handler :: "string \<Rightarrow> governance_service \<Rightarrow> nat + task_status_response" where
  "task_status_handler k S =
     (case gs_evaluator S of
        None \<Rightarrow> Inl not_found
      | Some ev \<Rightarrow>
          (case get k (backend_store (ev_backend ev)) of
             Inl _ \<Rightarrow> Inl not_found
           | Inr t \<Rightarrow>
               (case outcome_of t of
                  (decision, reason) \<Rightarrow>
                    Inr \<lparr>ts_task_id = k, ts_status = t_status t, ts_decision = decision, ts_reason = reason\<rparr>)))"

text \<open>\<open>evaluate_v1\<close> is the Cedar engine's answer to a policy request.\<close>

definition revalidate_handler ::
  "policy_engine \<Rightarrow> string \<Rightarrow> governance_service \<Rightarrow> nat + revalidate_response" where
  "revalidate_handler evaluate_v1 k S =
     (case gs_evaluator S of
        None \<Rightarrow> Inl not_found
      | Some ev \<Rightarrow>
          (case get k (backend_store (ev_backend ev)) of
             Inl _ \<Rightarrow> Inl not_found
           | Inr t \<Rightarrow>
               (case ev_cedar_engine ev of
                  None \<Rightarrow> Inr \<lparr>rv_allowed = True, rv_drift_detected = False, rv_reason = None\<rparr>
                | Some _ \<Rightarrow>
                    (case check_policy_drift evaluate_v1 (t_pre_approval_transformed t) (t_principal t) of
                       Inr _ \<Rightarrow> Inr \<lparr>rv_allowed = True, rv_drift_detected = False, rv_reason = None\<rparr>
                     | Inl reason \<Rightarrow>
                         Inr \<lparr>rv_allowed = False, rv_drift_detected = True, rv_reason = Some reason\<rparr>))))"

definition healthz_handler :: json where
  "healthz_handler = JObject [(''status'', JString ''ok'')]"

section \<open>The router\<close>

datatype service_call =
    SC_Evaluate eval_env evaluate_request
  | SC_Heartbeat instant instant string
  | SC_Shutdown
  | SC_TaskStatus string
  | SC_Revalidate policy_engine string
  | SC_Healthz

datatype service_answer =
    SA_Evaluate "evaluate_response option"
  | SA_Heartbeat bool
  | SA_Ok
  | SA_TaskStatus "nat + task_status_response"
  | SA_Revalidate "nat + revalidate_response"
  | SA_Json json

fun governance_router :: "service_call \<Rightarrow> governance_service \<Rightarrow> governance_service \<times> service_answer" where
  "governance_router (SC_Evaluate V req) S = (case evaluate_handler V req S of (S', r) \<Rightarrow> (S', SA_Evaluate r))"
| "governance_router (SC_Heartbeat now later i) S =
     (case heartbeat_handler now later i S of (S', b) \<Rightarrow> (S', SA_Heartbeat b))"
| "governance_router SC_Shutdown S = (shutdown_handler S, SA_Ok)"
| "governance_router (SC_TaskStatus k) S = (S, SA_TaskStatus (task_status_handler k S))"
| "governance_router (SC_Revalidate evaluate_v1 k) S = (S, SA_Revalidate (revalidate_handler evaluate_v1 k S))"
| "governance_router SC_Healthz S = (S, SA_Json healthz_handler)"

text \<open>A sequence of requests, with the answer to each.\<close>

fun serve :: "service_call list \<Rightarrow> governance_service \<Rightarrow> governance_service \<times> service_answer list" where
  "serve [] S = (S, [])"
| "serve (c # cs) S =
     (case governance_router c S of (S', a) \<Rightarrow> (case serve cs S' of (S'', as) \<Rightarrow> (S'', a # as)))"

section \<open>Shutdown reaches every shim\<close>

text \<open>Whether an answer tells the shim to stop, for the answers that can.\<close>

fun tells_shutdown :: "service_answer \<Rightarrow> bool" where
  "tells_shutdown (SA_Evaluate (Some resp)) = es_shutdown resp"
| "tells_shutdown (SA_Heartbeat b) = b"
| "tells_shutdown _ = True"

lemma tells_shutdown_evaluate [simp]: "tells_shutdown (SA_Evaluate (map_option (es_shutdown_update (\<lambda>_. True)) r))"
  by (cases r) simp_all

lemma router_shutdown:
  "governance_router c S = (S', a) \<Longrightarrow> gs_shutdown S \<Longrightarrow> gs_shutdown S' \<and> tells_shutdown a"
  by (cases c) (auto simp: evaluate_handler_def heartbeat_handler_def shutdown_handler_def cleanup_stale_shims_def
      stub_response_def Let_def split: option.splits prod.splits)

lemma serve_shutdown:
  "serve cs S = (S', as) \<Longrightarrow> gs_shutdown S \<Longrightarrow> gs_shutdown S' \<and> (\<forall>a \<in> set as. tells_shutdown a)"
proof (induction cs arbitrary: S as)
  case (Cons c cs)
  then show ?case using router_shutdown [of c S] by (force split: prod.splits)
qed simp

section \<open>The registry\<close>

lemma heartbeat_registry:
  assumes "heartbeat_handler now later i S = (S', b)" and "keys_distinct (gs_shims S)"
  shows "keys_distinct (gs_shims S') \<and>
    (\<forall>(j, seen) \<in> set (gs_shims S'). later - seen < stale_shim_threshold) \<and>
    (later - now < stale_shim_threshold \<longrightarrow> map_of (gs_shims S') i = Some now)"
proof (intro conjI impI)
  let ?m = "AList.update i now (gs_shims S)"
  have S': "gs_shims S' = filter (\<lambda>(_, last_seen). later - last_seen < stale_shim_threshold) ?m"
    using assms(1) by (auto simp: heartbeat_handler_def cleanup_stale_shims_def Let_def)
  have d: "distinct (map fst ?m)" using assms(2) by (simp add: distinct_update)
  then show "keys_distinct (gs_shims S')" by (simp add: S' distinct_map_filter)
  show "\<forall>(j, seen) \<in> set (gs_shims S'). later - seen < stale_shim_threshold" by (auto simp: S')
  assume "later - now < stale_shim_threshold"
  moreover have "(i, now) \<in> set ?m" by (rule map_of_SomeD) (simp add: AList.update_conv')
  ultimately have "(i, now) \<in> set (gs_shims S')" by (simp add: S')
  moreover have "distinct (map fst (gs_shims S'))" using d by (simp add: S' distinct_map_filter)
  ultimately show "map_of (gs_shims S') i = Some now" by simp
qed

section \<open>What a status tells\<close>

text \<open>\<open>Approved\<close> is reported exactly for a task with an approving record.\<close>

lemma status_approved_iff:
  "(\<exists>r. task_status_handler k S = Inr r \<and> ts_decision r = Some AO_Approved) \<longleftrightarrow>
   (\<exists>ev t a. gs_evaluator S = Some ev \<and> get k (backend_store (ev_backend ev)) = Inr t \<and>
      t_approval t = Some a \<and> a_decision a = AD_Approved)"
  by (auto simp: task_status_handler_def outcome_of_def
      split: option.splits sum.splits prod.splits approval_decision.splits task_status.splits)

text \<open>A task that failed before a decision is reported as undecided.\<close>

lemma status_failed_undecided:
  assumes "gs_evaluator S = Some ev" and "get k (backend_store (ev_backend ev)) = Inr t"
    and "t_status t = Failed" and "t_approval t = None"
  shows "\<exists>r. task_status_handler k S = Inr r \<and> ts_decision r = None"
  using assms by (auto simp: task_status_handler_def outcome_of_def)

end
