(* ===== verification/List_Filtering.thy ===== *)
theory List_Filtering
  imports Evaluator
begin

text \<open>
  Filtering of \<open>tools/list\<close>, \<open>resources/list\<close> and \<open>prompts/list\<close> answers
  (\<open>governance/list_filtering.rs\<close>): items that the source does not expose are removed, and the
  remaining tools are annotated with \<open>execution.taskSupport\<close>. The operations return the new
  list (the program changes it in place) and the number of removed items.
\<close>

declare map_of_eq_Some_iff [simp del]

section \<open>Operations\<close>

text \<open>\<open>Map::remove\<close> of \<open>serde_json\<close> with insertion order: the last entry takes the
  place of the removed one.\<close>

definition swap_remove :: "string \<Rightarrow> (string \<times> json) list \<Rightarrow> (string \<times> json) list" where
  "swap_remove k m =
     (if k \<notin> fst ` set m then m
      else if fst (last m) = k then butlast m
      else map (\<lambda>e. if fst e = k then last m else e) (butlast m))"

definition filter_by_visibility ::
  "globs \<Rightarrow> json list \<Rightarrow> config \<Rightarrow> string \<Rightarrow> string \<Rightarrow> json list \<times> nat" where
  "filter_by_visibility G items cfg source_id key_field =
     (case get_source cfg source_id of
        Some src \<Rightarrow>
          let expose = source_expose src;
              kept = filter (\<lambda>item. case Option.bind (jget key_field item) as_str of
                               Some name \<Rightarrow> is_visible G expose name | None \<Rightarrow> False) items
          in (kept, length items - length kept)
      | None \<Rightarrow> ([], length items))"

definition strip_task_support :: "json \<Rightarrow> json" where
  "strip_task_support tool =
     (case tool of
        JObject obj \<Rightarrow>
          (case map_of obj ''execution'' of
             Some (JObject exec_obj) \<Rightarrow>
               JObject (AList.update ''execution'' (JObject (swap_remove ''taskSupport'' exec_obj)) obj)
           | _ \<Rightarrow> tool)
      | _ \<Rightarrow> tool)"

definition annotate_tool :: "globs \<Rightarrow> config \<Rightarrow> string \<Rightarrow> bool \<Rightarrow> json \<Rightarrow> json" where
  "annotate_tool G cfg source_id upstream_supports_tasks tool =
     (case Option.bind (jget ''name'' tool) as_str of
        None \<Rightarrow> tool
      | Some tool_name \<Rightarrow>
          (if mt_action (governance_evaluate G (cf_governance cfg) tool_name source_id) \<in> {Approve, Policy}
           then (case tool of
                   JObject obj \<Rightarrow> JObject (AList.update ''execution''
                     (JObject [(''taskSupport'', JString ''optional'')]) obj)
                 | _ \<Rightarrow> tool)
           else if \<not> upstream_supports_tasks
           then strip_task_support tool
           else tool))"

definition filter_and_annotate_tools ::
  "globs \<Rightarrow> json list \<Rightarrow> config \<Rightarrow> string \<Rightarrow> bool \<Rightarrow> json list \<times> nat" where
  "filter_and_annotate_tools G tools cfg source_id upstream_supports_tasks =
     (let (kept, filtered_count) = filter_by_visibility G tools cfg source_id ''name''
      in (map (annotate_tool G cfg source_id upstream_supports_tasks) kept, filtered_count))"

definition filter_resources_by_visibility :: "globs \<Rightarrow> json list \<Rightarrow> config \<Rightarrow> string \<Rightarrow> json list \<times> nat" where
  "filter_resources_by_visibility G resources cfg source_id =
     filter_by_visibility G resources cfg source_id ''uri''"

definition filter_prompts_by_visibility :: "globs \<Rightarrow> json list \<Rightarrow> config \<Rightarrow> string \<Rightarrow> json list \<times> nat" where
  "filter_prompts_by_visibility G prompts cfg source_id =
     filter_by_visibility G prompts cfg source_id ''name''"

section \<open>What filtering keeps\<close>

abbreviation item_name :: "json \<Rightarrow> string option" where
  "item_name item \<equiv> Option.bind (jget ''name'' item) as_str"

lemma map_of_swap_remove:
  assumes "distinct (map fst m)"
  shows "map_of (swap_remove k m) = (map_of m)(k := None)"
proof (cases "k \<in> fst ` set m")
  case False
  then show ?thesis by (auto simp: swap_remove_def fun_eq_iff map_of_eq_None_iff)
next
  case True
  then have "m \<noteq> []" by auto
  then obtain xs k' v' where m: "m = xs @ [(k', v')]" by (cases m rule: rev_cases) auto
  have d: "distinct (map fst xs)" "k' \<notin> fst ` set xs" using assms m by auto
  show ?thesis
  proof (cases "k' = k")
    case True
    then show ?thesis using d m
      by (auto simp: swap_remove_def fun_eq_iff map_add_def map_of_eq_None_iff split: option.splits)
  next
    case False
    with True m have "k \<in> fst ` set xs" by auto
    then obtain as v bs where xs: "xs = as @ (k, v) # bs" by (force dest: split_list)
    let ?f = "\<lambda>e. if fst e = k then (k', v') else e"
    have k: "map_of as k = None" "map_of bs k = None" "map_of as k' = None" "map_of bs k' = None"
      using d xs by (auto simp: map_of_eq_None_iff)
    have "map ?f zs = zs" if "map_of zs k = None" for zs using that by (induction zs) auto
    then have "map ?f as = as" "map ?f bs = bs" using k by auto
    with k have "map_of (map ?f xs) x = ((map_of xs)(k := None, k' \<mapsto> v')) x" for x
      using False xs by (auto simp: map_add_def split: option.splits)
    moreover have "swap_remove k m = map ?f xs" using \<open>k \<in> fst ` set xs\<close> False m by (simp add: swap_remove_def)
    ultimately show ?thesis using m k xs False by (auto simp: fun_eq_iff map_add_def split: option.splits)
  qed
qed

lemma jget_annotate: "k \<noteq> ''execution'' \<Longrightarrow> jget k (annotate_tool G cfg src up tool) = jget k tool"
  by (auto simp: annotate_tool_def strip_task_support_def jget_def AList.update_conv'
      split: option.splits json.splits)

lemma item_name_annotate [simp]: "item_name (annotate_tool G cfg src up tool) = item_name tool"
  by (simp add: jget_annotate)

lemma filtered_names:
  assumes "get_source cfg source_id = Some src"
  shows "map item_name (fst (filter_and_annotate_tools G tools cfg source_id up)) =
    filter (\<lambda>n. \<exists>name. n = Some name \<and> is_visible G (source_expose src) name) (map item_name tools)"
proof -
  have "filter (\<lambda>n. \<exists>name. n = Some name \<and> is_visible G e name) (map item_name tools) =
      map item_name (filter (\<lambda>item. case item_name item of Some name \<Rightarrow> is_visible G e name | None \<Rightarrow> False) tools)"
    for e by (induction tools) (auto split: option.splits)
  then show ?thesis using assms
    by (simp add: filter_and_annotate_tools_def filter_by_visibility_def Let_def comp_def)
qed

lemma deny_source_simps [simp]:
  "es_deny_source (forward why) = None" "es_deny_source (deny why pid src) = Some src"
  "es_deny_source (pending k pid ms ts) = None"
  by (simp_all add: forward_def deny_def pending_def)

lemma start_approval_engine_deny_source:
  "start_approval_engine V en rq pid w p ev tr = (ev', tr', Some resp) \<Longrightarrow> es_deny_source resp \<noteq> Some DS_Visibility"
  by (auto simp: start_approval_engine_def Let_def split: prod.splits rres.splits)

lemma start_approval_legacy_deny_source:
  "start_approval_legacy V req n rq pid w p ev tr = (ev', tr', Some resp) \<Longrightarrow> es_deny_source resp \<noteq> Some DS_Visibility"
  by (auto simp: start_approval_legacy_def Let_def split: prod.splits rres.splits sum.splits option.splits)

lemma gate_start_approval_deny_source:
  "gate_start_approval V req n pid w p ev tr = (ev', tr', Some resp) \<Longrightarrow> es_deny_source resp \<noteq> Some DS_Visibility"
  using start_approval_engine_deny_source start_approval_legacy_deny_source
  by (auto simp: gate_start_approval_def Let_def split: if_splits backend.splits)

lemma evaluate_cedar_deny_source:
  "evaluate_cedar V req n pid w p ev tr = (ev', tr', Some resp) \<Longrightarrow> es_deny_source resp \<noteq> Some DS_Visibility"
  using gate_start_approval_deny_source
  by (auto simp: evaluate_cedar_def Let_def split: if_splits option.splits cedar_decision.splits)

lemma gates_deny_source:
  assumes "gated req name" and "evaluate_with_principal V req po ev = (ev', tr, Some resp)"
  shows "es_deny_source resp = Some DS_Visibility \<longleftrightarrow> \<not> gate1_passes ev req name"
proof (cases "gate1_passes ev req name")
  case True
  obtain tr1 where "later_gates V req name po ev tr1 = (ev', tr, Some resp)"
    using evaluate_passed [OF assms(1) True, of V po] assms(2) by auto
  then show ?thesis using True gate_start_approval_deny_source evaluate_cedar_deny_source
    by (cases "mt_action (rule_for ev req name)") (auto simp: later_gates_def)
next
  case False
  then show ?thesis using assms
    by (cases "get_source (ev_config ev) (eq_server_id req)")
      (auto simp: gated_def gate1_passes_def evaluate_with_principal_def Let_def split: if_splits)
qed

section \<open>Listing and calling agree\<close>

abbreviation task_support :: "json \<Rightarrow> json option" where
  "task_support tool \<equiv> Option.bind (jget ''execution'' tool) (jget ''taskSupport'')"

lemma strip_task_support_none:
  assumes "\<forall>m. jget ''execution'' tool = Some (JObject m) \<longrightarrow> keys_distinct m"
  shows "task_support (strip_task_support tool) = None"
proof (cases "jget ''execution'' tool")
  case None
  then show ?thesis by (auto simp: strip_task_support_def jget_def split: json.splits option.splits)
next
  case (Some v)
  then obtain obj where t: "tool = JObject obj" "map_of obj ''execution'' = Some v"
    by (cases tool) (auto simp: jget_def)
  show ?thesis
  proof (cases "\<exists>m. v = JObject m")
    case True
    then obtain m where v: "v = JObject m" by blast
    then have "map_of (swap_remove ''taskSupport'' m) = (map_of m)(''taskSupport'' := None)"
      using assms Some by (simp add: map_of_swap_remove)
    then show ?thesis by (simp add: strip_task_support_def jget_def t v AList.update_conv')
  next
    case False
    then have "strip_task_support tool = tool" by (auto simp: strip_task_support_def t split: json.splits)
    moreover have "jget ''taskSupport'' v = None" using False by (cases v) (auto simp: jget_def)
    ultimately show ?thesis by (simp add: Some)
  qed
qed

lemma annotate_task_support:
  assumes "item_name tool = Some name"
    and "\<forall>m. jget ''execution'' tool = Some (JObject m) \<longrightarrow> keys_distinct m"
  shows "task_support (annotate_tool G cfg src up tool) =
    (if mt_action (governance_evaluate G (cf_governance cfg) name src) \<in> {Approve, Policy}
     then Some (JString ''optional'') else if up then task_support tool else None)"
proof -
  obtain obj where [simp]: "tool = JObject obj"
    using assms(1) by (cases tool) (auto simp: jget_def)
  let ?a = "mt_action (governance_evaluate G (cf_governance cfg) name src)"
  consider (announce) "?a \<in> {Approve, Policy}" | (keep) "?a \<notin> {Approve, Policy}" up
    | (strip) "?a \<notin> {Approve, Policy}" "\<not> up" by blast
  then show ?thesis
  proof cases
    case announce
    with assms(1) show ?thesis by (simp add: annotate_tool_def jget_def AList.update_conv')
  next
    case keep
    with assms(1) show ?thesis by (simp add: annotate_tool_def)
  next
    case strip
    then have a: "annotate_tool G cfg src up tool = strip_task_support tool"
      using assms(1) by (simp add: annotate_tool_def)
    have "task_support (strip_task_support tool) = None"
      using assms(2) by (simp add: strip_task_support_none)
    with strip a show ?thesis by simp
  qed
qed

lemma in_filtered:
  assumes "get_source cfg source_id = Some src"
  shows "t \<in> set (fst (filter_and_annotate_tools G tools cfg source_id up)) \<longleftrightarrow>
    (\<exists>tool\<in>set tools. \<exists>name. t = annotate_tool G cfg source_id up tool \<and> item_name tool = Some name \<and>
       is_visible G (source_expose src) name)"
  using assms
  by (auto simp: filter_and_annotate_tools_def filter_by_visibility_def Let_def split: option.splits)

text \<open>C30: The tool list and the gates agree. With an enabled source, a tool the upstream offers is
  in the filtered list exactly if a call of it is not denied for visibility; the names keep the
  order of the upstream's list; and a listed tool is announced with optional task support if the rule
  that a call of it meets leads to an approval or to the policy engine, and otherwise keeps no
  annotation unless the upstream supports tasks.\<close>

theorem listing_agrees_with_gates:
  assumes src: "get_source (ev_config ev) (eq_server_id req) = Some src" "so_enabled src"
    and req: "gated req name" "evaluate_with_principal V req po ev = (ev', tr, Some resp)"
    and tools: "Some name \<in> set (map item_name tools)"
      "\<forall>t\<in>set tools. \<forall>m. jget ''execution'' t = Some (JObject m) \<longrightarrow> keys_distinct m"
    and listed: "fst (filter_and_annotate_tools (ev_globs ev) tools (ev_config ev) (eq_server_id req) up) = listed"
  shows "(Some name \<in> set (map item_name listed) \<longleftrightarrow> es_deny_source resp \<noteq> Some DS_Visibility) \<and>
    map item_name listed =
      filter (\<lambda>n. \<exists>x. n = Some x \<and> is_visible (ev_globs ev) (source_expose src) x) (map item_name tools) \<and>
    (\<forall>t\<in>set listed. item_name t = Some name \<longrightarrow>
      (if mt_action (rule_for ev req name) \<in> {Approve, Policy} then task_support t = Some (JString ''optional'')
       else up \<or> task_support t = None))"
proof (intro conjI ballI impI)
  show names: "map item_name listed =
      filter (\<lambda>n. \<exists>x. n = Some x \<and> is_visible (ev_globs ev) (source_expose src) x) (map item_name tools)"
    unfolding listed [symmetric] by (rule filtered_names [OF src(1)])
  have "gate1_passes ev req name \<longleftrightarrow> is_visible (ev_globs ev) (source_expose src) name"
    using src by (simp add: gate1_passes_def)
  with names tools(1) show "Some name \<in> set (map item_name listed) \<longleftrightarrow> es_deny_source resp \<noteq> Some DS_Visibility"
    unfolding gates_deny_source [OF req] names by simp
next
  fix t assume "t \<in> set listed" and n: "item_name t = Some name"
  then obtain tool where "tool \<in> set tools" and t: "t = annotate_tool (ev_globs ev) (ev_config ev) (eq_server_id req) up tool"
    unfolding listed [symmetric] in_filtered [OF src(1)] by blast
  with n tools(2) show "if mt_action (rule_for ev req name) \<in> {Approve, Policy}
      then task_support t = Some (JString ''optional'') else up \<or> task_support t = None"
    by (subst (1 2) t, subst (1 2) annotate_task_support) (auto simp: rule_for_def)
qed

definition demo_tools :: "json list" where
  "demo_tools = [JObject [(''name'', JString ''secret'')],
     JObject [(''name'', JString ''write''), (''execution'', JObject [(''taskSupport'', JString ''required'')])],
     JObject [(''title'', JString ''no name'')]]"

theorem listing_agrees_with_gates_witness:
  "\<exists>t. fst (filter_and_annotate_tools demo_globs demo_tools demo_config ''s'' False) = [t] \<and>
     item_name t = Some ''write'' \<and> task_support t = Some (JString ''optional'')"
proof -
  let ?ev = "demo_evaluator (StoreOnly demo_store)"
  let ?req = "demo_call ''write''"
  let ?l = "fst (filter_and_annotate_tools (ev_globs ?ev) demo_tools (ev_config ?ev) (eq_server_id ?req) False)"
  have s: "case get_source (ev_config ?ev) (eq_server_id ?req) of Some src \<Rightarrow> so_enabled src | None \<Rightarrow> False" by code_simp
  then obtain src where src: "get_source (ev_config ?ev) (eq_server_id ?req) = Some src" "so_enabled src"
    by (auto split: option.splits)
  have g: "gated ?req ''write''" by code_simp
  have "case snd (snd (evaluate_with_principal demo_env ?req None ?ev)) of Some _ \<Rightarrow> True | None \<Rightarrow> False" by code_simp
  then obtain ev' tr resp where r: "evaluate_with_principal demo_env ?req None ?ev = (ev', tr, Some resp)"
    by (cases "evaluate_with_principal demo_env ?req None ?ev") (auto split: option.splits)
  have t: "Some ''write'' \<in> set (map item_name demo_tools)" by code_simp
  have d: "\<forall>t\<in>set demo_tools. \<forall>m. jget ''execution'' t = Some (JObject m) \<longrightarrow> keys_distinct m"
    by (simp add: demo_tools_def jget_def)
  have a: "mt_action (rule_for ?ev ?req ''write'') = Approve" by code_simp
  have l: "map item_name ?l = [Some ''write'']" by code_simp
  then obtain t where "?l = [t]" "item_name t = Some ''write''" by (cases ?l) auto
  with listing_agrees_with_gates [OF src g r t d refl, of False] a have "task_support t = Some (JString ''optional'')"
    by simp
  with \<open>?l = [t]\<close> \<open>item_name t = _\<close> show ?thesis by (simp add: demo_evaluator_def demo_call_def)
qed

end
