(* ===== verification/Stdio_Shim.thy ===== *)
theory Stdio_Shim
  imports Stdio_Framing Governance_Service List_Filtering
begin

text \<open>
  The stdio shim (\<open>thoughtgate/src/shim/proxy\<close>): the loop that carries messages from the agent to the
  server under the decisions of the governance service, with the wait for an approval; the loop
  from the server to the agent with the filter of listings; heartbeats, the wait for the service and
  the shutdown of the server. The answers of the service, the clocks and whether a write succeeds are
  arguments; so are \<open>serde_json\<close>, the check of UTF-8 and the reader of trace contexts. Metrics, spans and
  logging are not modelled.
\<close>

declare map_of_eq_Some_iff [simp del]

section \<open>Types\<close>

datatype stdio_error =
    SE_UnknownAgentType string
  | SE_ConfigNotFound string
  | SE_ConfigLocked string
  | SE_ConfigParseError string string
  | SE_ConfigWriteError string string
  | SE_ServerSpawnError string string
  | SE_Framing string stream_direction framing_error
  | SE_GovernanceUnavailable
  | SE_StdioIo string

record shim =
  sh_server_id :: string
  sh_profile :: profile
  sh_from_str :: "string \<Rightarrow> string + json"
  sh_to_string :: "json \<Rightarrow> string"
  sh_utf8 :: "string \<Rightarrow> bool"
  sh_valid_trace :: "(string \<times> json) list \<Rightarrow> bool"  \<comment> \<open>the propagator finds a valid remote context\<close>
  sh_config :: "config option"
  sh_globs :: globs

text \<open>What is written, line by line.\<close>

datatype shim_out =
    To_Server string
  | To_Agent_Raw string
  | To_Agent_Json json
  | To_Agent_Error json_rpc_id jsonrpc_error

text \<open>An answer over HTTP: its status and, when asked for, its body.\<close>

datatype 'a http_reply = HR_NotSent string | HR_Response nat "string + 'a"

definition http_success :: "nat \<Rightarrow> bool" where
  "http_success st \<longleftrightarrow> 200 \<le> st \<and> st < 300"

section \<open>Helpers\<close>

definition default_approval_poll_ms :: nat where "default_approval_poll_ms = 5000"
definition min_approval_poll_ms :: nat where "min_approval_poll_ms = 100"
definition max_approval_poll_ms :: nat where "max_approval_poll_ms = 30000"
definition max_poll_cycles :: nat where "max_poll_cycles = 720"
definition progress_heartbeat :: duration where "progress_heartbeat = from_secs 15"

definition is_passthrough :: "string \<Rightarrow> bool" where
  "is_passthrough m \<longleftrightarrow>
     m \<in> {''initialize'', ''initialized'', ''notifications/cancelled'', ''notifications/progress'',
          ''notifications/resources/updated'', ''notifications/resources/list_changed'',
          ''notifications/tools/list_changed'', ''notifications/prompts/list_changed'', ''ping'', ''pong''}"

definition format_error_response :: "json_rpc_id \<Rightarrow> tg_error \<Rightarrow> string \<Rightarrow> shim_out" where
  "format_error_response i e correlation_id = To_Agent_Error i (to_jsonrpc_error correlation_id e)"

definition format_deny_response :: "json_rpc_id \<Rightarrow> string \<Rightarrow> string option \<Rightarrow> shim_out" where
  "format_deny_response i server_id policy_id = format_error_response i (PolicyDenied [] policy_id None) server_id"

definition format_timeout_tool_response :: "json_rpc_id \<Rightarrow> string \<Rightarrow> shim_out" where
  "format_timeout_tool_response i tool_name = To_Agent_Json (JObject
     [(''jsonrpc'', JString ''2.0''), (''id'', id_to_value i),
      (''result'', JObject
         [(''content'', JArray [JObject [(''type'', JString ''text''),
             (''text'', JString (''Approval timed out for tool '' @ q tool_name @
                ''. The request was sent to the approval channel but no response was received. '' @
                ''The tool call was NOT executed. You may retry.''))]]),
          (''isError'', JBool True)])])"

fun method_from_kind :: "message_kind \<Rightarrow> string" where
  "method_from_kind (MK_Request _ m) = m"
| "method_from_kind (MK_Notification m) = m"
| "method_from_kind (MK_Response _) = ''response''"

fun message_type_from_kind :: "message_kind \<Rightarrow> message_type" where
  "message_type_from_kind (MK_Request _ _) = MT_Request"
| "message_type_from_kind (MK_Response _) = MT_Response"
| "message_type_from_kind (MK_Notification _) = MT_Notification"

fun id_from_kind :: "message_kind \<Rightarrow> json_rpc_id option" where
  "id_from_kind (MK_Request i _) = Some i"
| "id_from_kind (MK_Response i) = Some i"
| "id_from_kind (MK_Notification _) = None"

definition extract_tool_name :: "json option \<Rightarrow> string option" where
  "extract_tool_name params = Option.bind params (\<lambda>p. Option.bind (jget ''name'' p) as_str)"

definition params_field :: "json option \<Rightarrow> (string \<times> json) list" where
  "params_field params = (case params of Some p \<Rightarrow> [(''params'', p)] | None \<Rightarrow> [])"

fun rebuild_message_with_params :: "message_kind \<Rightarrow> json option \<Rightarrow> json" where
  "rebuild_message_with_params (MK_Request i m) params =
     JObject ([(''jsonrpc'', JString ''2.0''), (''id'', id_to_value i), (''method'', JString m)] @ params_field params)"
| "rebuild_message_with_params (MK_Notification m) params =
     JObject ([(''jsonrpc'', JString ''2.0''), (''method'', JString m)] @ params_field params)"
| "rebuild_message_with_params (MK_Response i) params =
     JObject [(''jsonrpc'', JString ''2.0''), (''id'', id_to_value i)]"

text \<open>The trace fields of \<open>_meta\<close> (\<open>telemetry/propagation.rs\<close>): the parameters without them and
  whether a valid context was there.\<close>

definition strip_meta :: "(string \<times> json) list \<Rightarrow> (string \<times> json) list" where
  "strip_meta meta = swap_remove ''baggage'' (swap_remove ''tracestate'' (swap_remove ''traceparent'' meta))"

definition extract_context_from_meta ::
  "((string \<times> json) list \<Rightarrow> bool) \<Rightarrow> json option \<Rightarrow> bool \<Rightarrow> json option \<times> bool" where
  "extract_context_from_meta valid_trace params propagate_upstream =
     (case params of
        None \<Rightarrow> (None, False)
      | Some p \<Rightarrow>
          (case jget ''_meta'' p of
             Some (JObject meta) \<Rightarrow>
               (if propagate_upstream then Some p
                else (case p of
                        JObject obj \<Rightarrow>
                          Some (JObject (if strip_meta meta = [] then swap_remove ''_meta'' obj
                                         else AList.update ''_meta'' (JObject (strip_meta meta)) obj))
                      | _ \<Rightarrow> Some p),
                valid_trace meta)
           | _ \<Rightarrow> (Some p, False)))"

definition is_list_response :: "string \<Rightarrow> bool" where
  "is_list_response m \<longleftrightarrow> m \<in> {''tools/list'', ''resources/list'', ''prompts/list''}"

text \<open>Replace the array under a key of \<open>result\<close>.\<close>

definition update_result_list :: "string \<Rightarrow> (json list \<Rightarrow> json list) \<Rightarrow> json \<Rightarrow> json option" where
  "update_result_list key f response =
     (case response of
        JObject obj \<Rightarrow>
          (case map_of obj ''result'' of
             Some (JObject res) \<Rightarrow>
               (case map_of res key of
                  Some (JArray xs) \<Rightarrow>
                    Some (JObject (AList.update ''result'' (JObject (AList.update key (JArray (f xs)) res)) obj))
                | _ \<Rightarrow> None)
           | _ \<Rightarrow> None)
      | _ \<Rightarrow> None)"

definition filter_list_response :: "shim \<Rightarrow> string \<Rightarrow> string \<Rightarrow> config \<Rightarrow> json option" where
  "filter_list_response S raw_json m cfg =
     (case sh_from_str S raw_json of
        Inl _ \<Rightarrow> None
      | Inr response \<Rightarrow>
          if m = ''tools/list'' then
            update_result_list ''tools''
              (\<lambda>xs. fst (filter_and_annotate_tools (sh_globs S) xs cfg (sh_server_id S) False)) response
          else if m = ''resources/list'' then
            update_result_list ''resources''
              (\<lambda>xs. fst (filter_resources_by_visibility (sh_globs S) xs cfg (sh_server_id S))) response
          else if m = ''prompts/list'' then
            update_result_list ''prompts''
              (\<lambda>xs. fst (filter_prompts_by_visibility (sh_globs S) xs cfg (sh_server_id S))) response
          else None)"

definition revalidate_before_forward :: "revalidate_response http_reply \<Rightarrow> string + bool" where
  "revalidate_before_forward reply =
     (case reply of
        HR_NotSent e \<Rightarrow> Inl e
      | HR_Response st body \<Rightarrow>
          if st = 404 then Inr True
          else if \<not> http_success st then Inr True
          else (case body of Inl e \<Rightarrow> Inl e | Inr r \<Rightarrow> Inr (rv_allowed r)))"

section \<open>Waiting for an approval\<close>

datatype approval_poll_result =
    AP_Approved | AP_Rejected "string option" | AP_Expired | AP_Cancelled | AP_Timeout | AP_Error | AP_Shutdown

text \<open>By cycle: the clock at the head of the loop, after the sleep and after a progress message, whether
  the shutdown signal comes before the sleep ends, and the answer of the service.\<close>

record poll_env =
  pe_clock :: "nat \<Rightarrow> instant"
  pe_wake :: "nat \<Rightarrow> instant"
  pe_beat :: "nat \<Rightarrow> instant"
  pe_shutdown :: "nat \<Rightarrow> bool"
  pe_status :: "nat \<Rightarrow> task_status_response http_reply"

definition progress_message :: "string \<Rightarrow> shim_out" where
  "progress_message task_id = To_Agent_Json (JObject
     [(''jsonrpc'', JString ''2.0''), (''method'', JString ''notifications/progress''),
      (''params'', JObject [(''progressToken'', JString (''blocking-'' @ task_id)),
         (''progress'', JNumber (PosInt 0)), (''total'', JNumber (PosInt 1)),
         (''message'', JString ''Awaiting approval...'')])])"

definition outcome_result :: "task_status_response \<Rightarrow> approval_poll_result option" where
  "outcome_result r =
     (case ts_decision r of
        Some AO_Approved \<Rightarrow> Some AP_Approved
      | Some AO_Rejected \<Rightarrow> Some (AP_Rejected (ts_reason r))
      | Some AO_Expired \<Rightarrow> Some AP_Expired
      | Some AO_Cancelled \<Rightarrow> Some AP_Cancelled
      | None \<Rightarrow> None)"

text \<open>What one answer decides; \<open>None\<close> goes round again.\<close>

definition poll_answer :: "profile \<Rightarrow> task_status_response http_reply \<Rightarrow> approval_poll_result option" where
  "poll_answer prof reply =
     (case reply of
        HR_NotSent _ \<Rightarrow> if prof = Production then Some AP_Error else None
      | HR_Response st body \<Rightarrow>
          if \<not> http_success st then None
          else (case body of Inl _ \<Rightarrow> None | Inr r \<Rightarrow> outcome_result r))"

text \<open>The loop; the result keeps the number of cycles.\<close>

partial_function (option) poll_loop ::
  "profile \<Rightarrow> poll_env \<Rightarrow> string \<Rightarrow> instant option \<Rightarrow> nat \<Rightarrow> instant \<Rightarrow> shim_out list \<Rightarrow>
   (shim_out list \<times> nat \<times> approval_poll_result) option" where
  "poll_loop prof E task_id deadline cycle last_heartbeat out =
     (if (case deadline of Some dl \<Rightarrow> pe_clock E cycle \<ge> dl | None \<Rightarrow> cycle \<ge> max_poll_cycles)
      then Some (out, cycle, AP_Timeout)
      else if pe_shutdown E cycle then Some (out, cycle + 1, AP_Shutdown)
      else
        let beat = (pe_wake E cycle - last_heartbeat \<ge> progress_heartbeat);
            out1 = (if beat then out @ [progress_message task_id] else out);
            last1 = (if beat then pe_beat E cycle else last_heartbeat)
        in case poll_answer prof (pe_status E cycle) of
             Some r \<Rightarrow> Some (out1, cycle + 1, r)
           | None \<Rightarrow> poll_loop prof E task_id deadline (cycle + 1) last1 out1)"

definition poll_approval_status ::
  "profile \<Rightarrow> poll_env \<Rightarrow> string \<Rightarrow> instant option \<Rightarrow> instant \<Rightarrow> (shim_out list \<times> nat \<times> approval_poll_result) option" where
  "poll_approval_status prof E task_id deadline start = poll_loop prof E task_id deadline 0 start []"

section \<open>Requests in flight\<close>

text \<open>The keys are identifiers; the code prints them as JSON, which is injective.\<close>

record pending_request =
  pr_method :: string
  pr_sent_at :: instant

record pending_requests =
  pq_outbound :: "(json_rpc_id \<times> pending_request) list"
  pq_inbound :: "(json_rpc_id \<times> pending_request) list"

definition pending_requests_default :: pending_requests where
  "pending_requests_default = \<lparr>pq_outbound = [], pq_inbound = []\<rparr>"

section \<open>From the agent to the server\<close>

text \<open>What the handling of one line takes from its surroundings.\<close>

record line_env =
  ln_shutdown :: bool                     \<comment> \<open>the signal is there before the next line\<close>
  ln_meanwhile :: "pending_requests \<Rightarrow> pending_requests"  \<comment> \<open>what the other loop did to the requests in flight\<close>
  ln_evaluate :: "evaluate_request \<Rightarrow> evaluate_response http_reply"
  ln_poll :: "string \<Rightarrow> poll_env"
  ln_revalidate :: "string \<Rightarrow> revalidate_response http_reply"
  ln_now :: instant
  ln_sent_at :: instant
  ln_correlation_id :: string
  ln_stdin :: "string + unit"             \<comment> \<open>writing and flushing the server's input\<close>
  ln_stdout :: "string + unit"

datatype line_flow = Next | Stop | Abort stdio_error

text \<open>Output, requests in flight, whether the shutdown signal was sent, and how the loop goes on; none if
  the wait for an approval does not end.\<close>

type_synonym line_result = "(shim_out list \<times> pending_requests \<times> bool \<times> line_flow) option"

definition answer :: "line_env \<Rightarrow> json_rpc_id option \<Rightarrow> (json_rpc_id \<Rightarrow> shim_out) \<Rightarrow> shim_out list \<times> line_flow" where
  "answer L i line =
     (case i of
        None \<Rightarrow> ([], Next)
      | Some i \<Rightarrow> ([line i], case ln_stdout L of Inr _ \<Rightarrow> Next | Inl e \<Rightarrow> Abort (SE_StdioIo e)))"

definition write_server :: "shim \<Rightarrow> line_env \<Rightarrow> string \<Rightarrow> shim_out list \<times> line_flow" where
  "write_server S L bs =
     ([To_Server bs],
      case ln_stdin L of Inr _ \<Rightarrow> Next | Inl e \<Rightarrow> Abort (SE_Framing (sh_server_id S) AgentToServer (FE_Io e)))"

definition forward_tracked ::
  "shim \<Rightarrow> line_env \<Rightarrow> stdio_message \<Rightarrow> string \<Rightarrow> pending_requests \<Rightarrow> shim_out list \<times> pending_requests \<times> line_flow" where
  "forward_tracked S L msg forward_bytes reqs =
     (case write_server S L forward_bytes of
        (out, fl) \<Rightarrow>
          (out,
           (case (fl, id_from_kind (sm_kind msg)) of
              (Next, Some i) \<Rightarrow> reqs\<lparr>pq_outbound := AList.update i
                  \<lparr>pr_method = method_from_kind (sm_kind msg), pr_sent_at = ln_sent_at L\<rparr> (pq_outbound reqs)\<rparr>
            | _ \<Rightarrow> reqs),
           fl))"

definition forward_allowed :: "shim \<Rightarrow> line_env \<Rightarrow> string \<Rightarrow> bool" where
  "forward_allowed S L task_id =
     (case revalidate_before_forward (ln_revalidate L task_id) of
        Inr allowed \<Rightarrow> allowed
      | Inl _ \<Rightarrow> sh_profile S \<noteq> Production)"

definition or_empty :: "string option \<Rightarrow> string" where
  "or_empty s = (case s of Some t \<Rightarrow> t | None \<Rightarrow> [])"

text \<open>What an outcome of the wait does.\<close>

definition handle_outcome ::
  "shim \<Rightarrow> line_env \<Rightarrow> stdio_message \<Rightarrow> string \<Rightarrow> string \<Rightarrow> pending_requests \<Rightarrow> approval_poll_result \<Rightarrow>
   shim_out list \<times> pending_requests \<times> line_flow" where
  "handle_outcome S L msg forward_bytes task_id reqs outcome =
     (let i = id_from_kind (sm_kind msg);
          tool = extract_tool_name (sm_params msg);
          fail = (\<lambda>e. case answer L i (\<lambda>i. format_error_response i e (ln_correlation_id L)) of (out, fl) \<Rightarrow> (out, reqs, fl))
      in case outcome of
           AP_Approved \<Rightarrow>
             if forward_allowed S L task_id then forward_tracked S L msg forward_bytes reqs
             else fail (PolicyDriftErr (or_empty tool) task_id)
         | AP_Rejected _ \<Rightarrow> fail (ApprovalRejectedErr (or_empty tool) None None)
         | AP_Expired \<Rightarrow> fail (TaskExpired task_id)
         | AP_Cancelled \<Rightarrow> fail (TaskCancelled task_id)
         | AP_Timeout \<Rightarrow>
             (case answer L i (\<lambda>i. format_timeout_tool_response i (case tool of Some n \<Rightarrow> n | None \<Rightarrow> ''unknown'')) of
                (out, fl) \<Rightarrow> (out, reqs, fl))
         | AP_Error \<Rightarrow> fail (ServiceUnavailable ''Approval poll failed'')
         | AP_Shutdown \<Rightarrow> ([], reqs, Stop))"

definition from_millis :: "nat \<Rightarrow> duration" where
  "from_millis n = n * 1000000"

definition poll_interval_of :: "evaluate_response \<Rightarrow> duration" where
  "poll_interval_of resp =
     from_millis (max min_approval_poll_ms (min max_approval_poll_ms
       (case es_poll_interval_ms resp of Some ms \<Rightarrow> ms | None \<Rightarrow> default_approval_poll_ms)))"

definition handle_governance ::
  "shim \<Rightarrow> line_env \<Rightarrow> stdio_message \<Rightarrow> string \<Rightarrow> pending_requests \<Rightarrow> evaluate_response \<Rightarrow> line_result" where
  "handle_governance S L msg forward_bytes reqs resp =
     (let sent = es_shutdown resp;
          i = id_from_kind (sm_kind msg);
          deny = (\<lambda>pid. case answer L i (\<lambda>i. format_deny_response i (sh_server_id S) pid) of
                          (out, fl) \<Rightarrow> Some (out, reqs, sent, fl))
      in case es_decision resp of
           GD_Forward \<Rightarrow> (case forward_tracked S L msg forward_bytes reqs of (out, p, fl) \<Rightarrow> Some (out, p, sent, fl))
         | GD_Deny \<Rightarrow> deny (es_policy_id resp)
         | GD_PendingApproval \<Rightarrow>
             (case es_task_id resp of
                None \<Rightarrow> deny None
              | Some task_id \<Rightarrow>
                  let E = ln_poll L task_id;
                      E1 = E\<lparr>pe_shutdown := (\<lambda>c. sent \<or> pe_shutdown E c)\<rparr>;
                      deadline = map_option (\<lambda>t. ln_now L + from_secs t) (es_timeout_secs resp)
                  in Option.bind (poll_approval_status (sh_profile S) E1 task_id deadline (ln_now L))
                       (\<lambda>(progress, _, outcome).
                          case handle_outcome S L msg forward_bytes task_id reqs outcome of
                            (out, p, fl) \<Rightarrow> Some (progress @ out, p, sent, fl))))"

definition dev_forward :: evaluate_response where
  "dev_forward = \<lparr>es_decision = GD_Forward, es_task_id = None, es_policy_id = None, es_reason = None,
     es_poll_interval_ms = None, es_timeout_secs = None, es_shutdown = False, es_deny_source = None\<rparr>"

definition eval_request_of :: "shim \<Rightarrow> stdio_message \<Rightarrow> json option \<Rightarrow> evaluate_request" where
  "eval_request_of S msg params = \<lparr>eq_server_id = sh_server_id S, eq_direction = AgentToServer,
     eq_method = method_from_kind (sm_kind msg), eq_id = id_from_kind (sm_kind msg), eq_params = params,
     eq_message_type = message_type_from_kind (sm_kind msg), eq_profile = sh_profile S\<rparr>"

definition govern :: "shim \<Rightarrow> line_env \<Rightarrow> stdio_message \<Rightarrow> string \<Rightarrow> pending_requests \<Rightarrow> line_result" where
  "govern S L msg raw reqs =
     (case extract_context_from_meta (sh_valid_trace S) (sm_params msg) False of
        (stripped, had_trace) \<Rightarrow>
          let forward_bytes = (if had_trace
                then sh_to_string S (rebuild_message_with_params (sm_kind msg) stripped) @ [newline] else raw);
              failed = (if sh_profile S = Production
                then (case answer L (id_from_kind (sm_kind msg)) (\<lambda>i. format_deny_response i (sh_server_id S) None) of
                        (out, fl) \<Rightarrow> Some (out, reqs, False, fl))
                else handle_governance S L msg forward_bytes reqs dev_forward)
          in case ln_evaluate L (eval_request_of S msg stripped) of
               HR_NotSent _ \<Rightarrow> failed
             | HR_Response _ (Inl _) \<Rightarrow> failed
             | HR_Response _ (Inr resp) \<Rightarrow> handle_governance S L msg forward_bytes reqs resp)"

definition a2s_line :: "shim \<Rightarrow> line_env \<Rightarrow> string \<Rightarrow> pending_requests \<Rightarrow> line_result" where
  "a2s_line S L raw reqs =
     (let skip = Some ([], reqs, False, Next) in
      if \<not> sh_utf8 S raw then skip
      else if trim raw = [] then skip
      else case parse_stdio_message (sh_from_str S) raw of
             Inl _ \<Rightarrow> skip
           | Inr msg \<Rightarrow>
               if detect_smuggling (sh_from_str S) raw \<and> sh_profile S = Production then skip
               else if is_passthrough (method_from_kind (sm_kind msg)) then
                 (case write_server S L raw of (out, fl) \<Rightarrow> Some (out, reqs, False, fl))
               else govern S L msg raw reqs)"

text \<open>The loop. A shutdown signal the line itself caused ends it before the next line.\<close>

partial_function (option) agent_to_server ::
  "shim \<Rightarrow> nat \<Rightarrow> (nat \<Rightarrow> line_env) \<Rightarrow> nat \<Rightarrow> pending_requests \<Rightarrow> chunk list \<Rightarrow> shim_out list \<Rightarrow>
   (shim_out list \<times> pending_requests \<times> (stdio_error + unit)) option" where
  "agent_to_server S patience env i reqs cs out =
     (if ln_shutdown (env i) then Some (out, reqs, Inr ())
      else case bounded_read_line patience max_message_bytes [] 0 cs of
             (r, raw, cs') \<Rightarrow>
               (case r of
                  Inl (FE_MessageTooLarge _) \<Rightarrow> agent_to_server S patience env (i + 1) reqs cs' out
                | Inl e \<Rightarrow> Some (out, reqs, Inl (SE_Framing (sh_server_id S) AgentToServer e))
                | Inr n \<Rightarrow>
                    if n = 0 then Some (out, reqs, Inr ())
                    else Option.bind (a2s_line S (env i) raw (ln_meanwhile (env i) reqs))
                      (\<lambda>(o1, reqs1, sent, fl).
                         case fl of
                           Next \<Rightarrow> if sent then Some (out @ o1, reqs1, Inr ())
                                   else agent_to_server S patience env (i + 1) reqs1 cs' (out @ o1)
                         | Stop \<Rightarrow> Some (out @ o1, reqs1, Inr ())
                         | Abort e \<Rightarrow> Some (out @ o1, reqs1, Inl e))))"

section \<open>From the server to the agent\<close>

definition s2a_line :: "shim \<Rightarrow> instant \<Rightarrow> string \<Rightarrow> pending_requests \<Rightarrow> shim_out list \<times> pending_requests" where
  "s2a_line S now raw reqs =
     (if \<not> sh_utf8 S raw then ([To_Agent_Raw raw], reqs)
      else if trim raw = [] then ([], reqs)
      else case parse_stdio_message (sh_from_str S) raw of
             Inl _ \<Rightarrow> ([To_Agent_Raw raw], reqs)
           | Inr msg \<Rightarrow>
               (case sm_kind msg of
                  MK_Response i \<Rightarrow>
                    (let reqs1 = reqs\<lparr>pq_outbound := AList.delete i (pq_outbound reqs)\<rparr>;
                         filtered = (case (map_of (pq_outbound reqs) i, sh_config S) of
                             (Some req, Some cfg) \<Rightarrow>
                               if is_list_response (pr_method req) then filter_list_response S raw (pr_method req) cfg else None
                           | _ \<Rightarrow> None)
                     in case filtered of
                          Some v \<Rightarrow> ([To_Agent_Json v], reqs1)
                        | None \<Rightarrow> ([To_Agent_Raw raw], reqs1))
                | MK_Request i m \<Rightarrow>
                    ([To_Agent_Raw raw],
                     reqs\<lparr>pq_inbound := AList.update i \<lparr>pr_method = m, pr_sent_at = now\<rparr> (pq_inbound reqs)\<rparr>)
                | MK_Notification _ \<Rightarrow> ([To_Agent_Raw raw], reqs)))"

text \<open>\<open>env i\<close>: the shutdown signal, the other loop's changes, the clock and the write of the \<open>i\<close>-th round.\<close>

partial_function (option) server_to_agent ::
  "shim \<Rightarrow> nat \<Rightarrow> (nat \<Rightarrow> line_env) \<Rightarrow> nat \<Rightarrow> pending_requests \<Rightarrow> chunk list \<Rightarrow> shim_out list \<Rightarrow>
   (shim_out list \<times> pending_requests \<times> (stdio_error + unit)) option" where
  "server_to_agent S patience env i reqs cs out =
     (if ln_shutdown (env i) then Some (out, reqs, Inr ())
      else case bounded_read_line patience max_message_bytes [] 0 cs of
             (r, raw, cs') \<Rightarrow>
               (case r of
                  Inl (FE_MessageTooLarge _) \<Rightarrow> server_to_agent S patience env (i + 1) reqs cs' out
                | Inl e \<Rightarrow> Some (out, reqs, Inl (SE_Framing (sh_server_id S) ServerToAgent e))
                | Inr n \<Rightarrow>
                    if n = 0 then Some (out, reqs, Inr ())
                    else (case s2a_line S (ln_sent_at (env i)) raw (ln_meanwhile (env i) reqs) of
                            (o1, reqs1) \<Rightarrow>
                              (case ln_stdout (env i) of
                                 Inr _ \<Rightarrow> server_to_agent S patience env (i + 1) reqs1 cs' (out @ o1)
                               | Inl e \<Rightarrow>
                                   if o1 = [] then server_to_agent S patience env (i + 1) reqs1 cs' out
                                   else Some (out @ o1, reqs1, Inl (SE_StdioIo e))))))"

section \<open>Heartbeats, readiness, shutdown\<close>

definition healthz_initial_backoff_ms :: nat where "healthz_initial_backoff_ms = 50"
definition healthz_max_backoff_ms :: nat where "healthz_max_backoff_ms = 2000"
definition healthz_max_attempts :: nat where "healthz_max_attempts = 20"

definition healthy :: "unit http_reply \<Rightarrow> bool" where
  "healthy reply = (case reply of HR_Response st _ \<Rightarrow> http_success st | HR_NotSent _ \<Rightarrow> False)"

text \<open>The sleeps between the attempts, in milliseconds, and the result.\<close>

fun healthz_attempts ::
  "(nat \<Rightarrow> unit http_reply) \<Rightarrow> nat \<Rightarrow> nat \<Rightarrow> nat \<Rightarrow> nat list \<times> (stdio_error + unit)" where
  "healthz_attempts reply 0 attempt delay = ([], Inl SE_GovernanceUnavailable)"
| "healthz_attempts reply (Suc n) attempt delay =
     (if healthy (reply attempt) then ([], Inr ())
      else if attempt < healthz_max_attempts then
        (case healthz_attempts reply n (attempt + 1) (min (delay * 2) healthz_max_backoff_ms) of
           (sleeps, r) \<Rightarrow> (delay # sleeps, r))
      else healthz_attempts reply n (attempt + 1) delay)"

definition poll_governance_healthz :: "(nat \<Rightarrow> unit http_reply) \<Rightarrow> nat list \<times> (stdio_error + unit)" where
  "poll_governance_healthz reply = healthz_attempts reply healthz_max_attempts 1 healthz_initial_backoff_ms"

text \<open>One round of the heartbeat: the shutdown signal, or the answer to a heartbeat.\<close>

datatype tick = Tick_Shutdown | Tick_Reply "bool http_reply"

text \<open>Whether the loop sent the shutdown signal when it ended; none while it runs.\<close>

fun heartbeat_loop :: "tick list \<Rightarrow> bool option" where
  "heartbeat_loop [] = None"
| "heartbeat_loop (Tick_Shutdown # _) = Some False"
| "heartbeat_loop (Tick_Reply (HR_NotSent _) # _) = Some True"
| "heartbeat_loop (Tick_Reply (HR_Response _ (Inl _)) # ts) = heartbeat_loop ts"
| "heartbeat_loop (Tick_Reply (HR_Response _ (Inr stop)) # ts) = (if stop then Some True else heartbeat_loop ts)"

datatype wait_result = W_Exited "int option" | W_Failed string | W_Elapsed

datatype signal = Sigterm | Sigkill

definition exit_code :: "int option \<Rightarrow> int" where
  "exit_code c = (case c of Some n \<Rightarrow> n | None \<Rightarrow> -1)"

text \<open>The results of the waits after closing the input, after \<open>SIGTERM\<close> and after \<open>SIGKILL\<close>; the signals
  that are sent and the exit code.\<close>

definition shutdown_server ::
  "nat option \<Rightarrow> wait_result \<Rightarrow> wait_result \<Rightarrow> (string + int option) \<Rightarrow> signal list \<times> (stdio_error + int)" where
  "shutdown_server pid closed terminated killed =
     (case closed of
        W_Exited c \<Rightarrow> ([], Inr (exit_code c))
      | _ \<Rightarrow>
          let sent = (case pid of Some _ \<Rightarrow> [Sigterm] | None \<Rightarrow> []) in
          (case terminated of
             W_Exited c \<Rightarrow> (sent, Inr (exit_code c))
           | _ \<Rightarrow> (sent @ [Sigkill], case killed of Inr c \<Rightarrow> Inr (exit_code c) | Inl e \<Rightarrow> Inl (SE_StdioIo e))))"

end
