(* ===== verification/Stdio_Theorems.thy ===== *)
theory Stdio_Theorems
  imports Stdio_Shim
begin

text \<open>
  What the shim guarantees: the wait for an approval ends, a message reaches the server only with the
  consent of the governance service, and, through the contract of that service (locale
  \<open>governance_contract\<close>, interpreted by its handlers), only under a forwarding rule or an approval of
  that very request; reading is independent of buffering; and how reused identifiers escape the filter
  of listings.
\<close>

declare map_of_eq_Some_iff [simp del]

section \<open>The wait for an approval\<close>

lemma poll_answer_approved:
  "poll_answer prof reply = Some AP_Approved \<Longrightarrow>
   \<exists>st r. reply = HR_Response st (Inr r) \<and> http_success st \<and> ts_decision r = Some AO_Approved"
  by (auto simp: poll_answer_def outcome_result_def split: http_reply.splits if_splits sum.splits option.splits
      approval_outcome.splits)

lemma progress_not_server [simp]: "To_Server b \<noteq> progress_message k" "progress_message k \<noteq> To_Server b"
  by (simp_all add: progress_message_def)

definition wait_sound :: "poll_env \<Rightarrow> shim_out list \<Rightarrow> shim_out list \<times> nat \<times> approval_poll_result \<Rightarrow> bool" where
  "wait_sound E out res \<longleftrightarrow>
     (case res of
        (out', n, r) \<Rightarrow>
          (\<forall>b. To_Server b \<in> set out' \<longrightarrow> To_Server b \<in> set out) \<and>
          (r = AP_Approved \<longrightarrow> (\<exists>c st s. pe_status E c = HR_Response st (Inr s) \<and> http_success st \<and>
             ts_decision s = Some AO_Approved)))"

lemma wait_sound_simps [simp]:
  "wait_sound E out (out, n, r) \<longleftrightarrow>
     (r = AP_Approved \<longrightarrow> (\<exists>c st s. pe_status E c = HR_Response st (Inr s) \<and> http_success st \<and>
        ts_decision s = Some AO_Approved))"
  "wait_sound E (out @ [progress_message k]) res \<longleftrightarrow> wait_sound E out res"
  "wait_sound E out (out @ [progress_message k], n, r) \<longleftrightarrow> wait_sound E out (out, n, r)"
  by (auto simp: wait_sound_def split: prod.splits)

lemma poll_loop_result:
  assumes "poll_loop prof E k dl c hb out = Some res"
  shows "wait_sound E out res"
proof (rule poll_loop.raw_induct [OF _ assms])
  fix loop prof E k dl c hb out res
  assume ih: "\<And>prof E k dl c hb out res. loop prof E k dl c hb out = Some res \<Longrightarrow> wait_sound E out res"
    and body: "(if case dl of None \<Rightarrow> max_poll_cycles \<le> c | Some dl \<Rightarrow> dl \<le> pe_clock E c
      then Some (out, c, AP_Timeout)
      else if pe_shutdown E c then Some (out, c + 1, AP_Shutdown)
      else let beat = progress_heartbeat \<le> pe_wake E c - hb;
               out1 = if beat then out @ [progress_message k] else out;
               last1 = if beat then pe_beat E c else hb
           in case poll_answer prof (pe_status E c) of
                None \<Rightarrow> loop prof E k dl (c + 1) last1 out1
              | Some r \<Rightarrow> Some (out1, c + 1, r)) = Some res"
  consider "res = (out, c, AP_Timeout)" | "res = (out, c + 1, AP_Shutdown)"
    | r where "poll_answer prof (pe_status E c) = Some r" "res \<in> {(out, c + 1, r), (out @ [progress_message k], c + 1, r)}"
    | last1 out1 where "loop prof E k dl (c + 1) last1 out1 = Some res" "out1 \<in> {out, out @ [progress_message k]}"
    using body by (fastforce simp: Let_def split: if_split_asm option.split_asm)
  then show "wait_sound E out res"
    by cases (auto dest: ih, (blast dest: poll_answer_approved)+)
qed

text \<open>Each cycle takes at least \<open>step\<close>.\<close>

lemma poll_loop_cycles:
  "max_poll_cycles - c = d \<Longrightarrow> c \<le> max_poll_cycles \<Longrightarrow>
   \<exists>out' n r. poll_loop prof E k None c hb out = Some (out', n, r) \<and> n \<le> max_poll_cycles"
proof (induction d arbitrary: c hb out)
  case 0
  then show ?case by (subst poll_loop.simps) simp
next
  case (Suc d)
  then have "max_poll_cycles - (c + 1) = d" "c + 1 \<le> max_poll_cycles" by auto
  from Suc.IH [OF this] this(2) show ?case
    by (subst poll_loop.simps) (auto simp: Let_def split: option.splits)
qed

lemma ceil_step:
  assumes "0 < (x::nat)" and "0 < s" and "y \<le> x - s"
  shows "(y + s - 1) div s + 1 \<le> (x + s - 1) div s"
proof -
  have e: "(y + s - 1) div s + 1 = (y + s - 1 + s) div s"
    by (subst div_add_self2) (use assms(2) in simp_all)
  show ?thesis
  proof (cases "y = 0")
    case True
    have "1 * s \<le> x + s - 1" using assms by simp
    then have "1 \<le> (x + s - 1) div s" using assms(2) by (simp add: less_eq_div_iff_mult_less_eq)
    with True assms(2) show ?thesis by simp
  next
    case False
    then have "y + s - 1 + s \<le> x + s - 1" using assms(3) by linarith
    then show ?thesis unfolding e by (rule div_le_mono)
  qed
qed

lemma poll_loop_deadline:
  assumes "\<forall>c. pe_clock E c + s \<le> pe_clock E (c + 1)" and "0 < s"
  shows "dl - pe_clock E c = x \<Longrightarrow>
   \<exists>out' n r. poll_loop prof E k (Some dl) c hb out = Some (out', n, r) \<and> n \<le> c + (x + s - 1) div s"
proof (induction x arbitrary: c hb out rule: less_induct)
  case (less x)
  show ?case
  proof (cases "dl \<le> pe_clock E c")
    case True
    then show ?thesis by (subst poll_loop.simps) simp
  next
    case False
    let ?y = "dl - pe_clock E (c + 1)"
    have y: "?y \<le> x - s" "0 < x" using assms(1) [rule_format, of c] False less.prems by linarith+
    then have "?y < x" using assms(2) by simp
    note ih = less.IH [OF this refl]
    note bound = ceil_step [OF y(2) assms(2) y(1)]
    have one: "1 \<le> (x + s - 1) div s" using bound by linarith
    show ?thesis
    proof (cases "pe_shutdown E c \<or> (\<exists>r. poll_answer prof (pe_status E c) = Some r)")
      case True
      with False one show ?thesis by (subst poll_loop.simps) (auto simp: Let_def)
    next
      case go: False
      let ?beat = "progress_heartbeat \<le> pe_wake E c - hb"
      obtain out' n r where "poll_loop prof E k (Some dl) (c + 1) (if ?beat then pe_beat E c else hb)
          (if ?beat then out @ [progress_message k] else out) = Some (out', n, r)" "n \<le> c + 1 + (?y + s - 1) div s"
        using ih by blast
      with go False bound show ?thesis
        by (subst poll_loop.simps) (auto simp: Let_def)
    qed
  qed
qed

lemma poll_interval_bounds:
  "from_millis 100 \<le> poll_interval_of resp" "poll_interval_of resp \<le> from_millis 30000"
  by (simp_all add: poll_interval_of_def from_millis_def min_approval_poll_ms_def max_approval_poll_ms_def)

lemma wait_returns:
  assumes "\<forall>c. pe_clock E c + poll_interval_of resp \<le> pe_clock E (c + 1)"
  shows "\<exists>out n r. poll_approval_status prof E k deadline start = Some (out, n, r) \<and>
    (case deadline of
       None \<Rightarrow> n \<le> max_poll_cycles
     | Some dl \<Rightarrow> n \<le> (dl - pe_clock E 0 + from_millis 100 - 1) div from_millis 100)"
proof (cases deadline)
  case None
  then show ?thesis using poll_loop_cycles [of 0 max_poll_cycles] by (simp add: poll_approval_status_def)
next
  case (Some dl)
  have "\<forall>c. pe_clock E c + from_millis 100 \<le> pe_clock E (c + 1)"
    using assms poll_interval_bounds(1) [of resp] by (meson add_left_mono order_trans)
  moreover have "0 < from_millis 100" by (simp add: from_millis_def)
  ultimately show ?thesis
    using poll_loop_deadline [of E "from_millis 100" dl 0, OF _ _ refl] Some by (simp add: poll_approval_status_def)
qed

text \<open>C36: Waiting for an approval ends: if every cycle sleeps for the poll interval the shim derives from the
  service's hint (whatever the hint is), the wait returns a result, after at most 720 cycles without a
  deadline, and otherwise after at most one cycle per 100 milliseconds until the deadline.\<close>

theorem approval_wait_returns:
  assumes "\<forall>c. pe_clock E c + poll_interval_of resp \<le> pe_clock E (c + 1)"
  shows "\<exists>out n r. poll_approval_status prof E k deadline start = Some (out, n, r) \<and>
    (case deadline of
       None \<Rightarrow> n \<le> max_poll_cycles
     | Some dl \<Rightarrow> n \<le> (dl - pe_clock E 0 + from_millis 100 - 1) div from_millis 100)"
  using assms by (rule wait_returns)

definition demo_poll :: poll_env where
  "demo_poll = \<lparr>pe_clock = (\<lambda>c. c * from_millis 5000), pe_wake = (\<lambda>c. (c + 1) * from_millis 5000),
     pe_beat = (\<lambda>c. (c + 1) * from_millis 5000), pe_shutdown = (\<lambda>_. False),
     pe_status = (\<lambda>c. HR_Response 200 (Inr \<lparr>ts_task_id = ''9'', ts_status = InputRequired,
        ts_decision = (if c < 3 then None else Some AO_Approved), ts_reason = None\<rparr>))\<rparr>"

theorem approval_wait_returns_witness:
  "\<exists>out n r. poll_approval_status Production demo_poll ''9'' (Some (from_secs 60)) 0 = Some (out, n, r) \<and> n \<le> 600"
proof -
  have "\<forall>c. pe_clock demo_poll c + poll_interval_of dev_forward \<le> pe_clock demo_poll (c + 1)"
    by (simp add: demo_poll_def poll_interval_of_def dev_forward_def default_approval_poll_ms_def
        min_approval_poll_ms_def max_approval_poll_ms_def algebra_simps)
  from approval_wait_returns [OF this, of Production "''9''" "Some (from_secs 60)" 0]
  show ?thesis by (auto simp: demo_poll_def from_millis_def from_secs_def)
qed

section \<open>Nothing reaches the server without consent\<close>

text \<open>The request the shim asks about, and the bytes it forwards, for a message.\<close>

definition stripped_params :: "shim \<Rightarrow> stdio_message \<Rightarrow> json option" where
  "stripped_params S msg = fst (extract_context_from_meta (sh_valid_trace S) (sm_params msg) False)"

definition asked :: "shim \<Rightarrow> stdio_message \<Rightarrow> evaluate_request" where
  "asked S msg = eval_request_of S msg (stripped_params S msg)"

definition forwarded_bytes :: "shim \<Rightarrow> stdio_message \<Rightarrow> string \<Rightarrow> string" where
  "forwarded_bytes S msg raw =
     (if snd (extract_context_from_meta (sh_valid_trace S) (sm_params msg) False)
      then sh_to_string S (rebuild_message_with_params (sm_kind msg) (stripped_params S msg)) @ [newline] else raw)"

text \<open>The service answered to forward, or a poll reported the approval of its task and revalidation did
  not object.\<close>

definition consented :: "shim \<Rightarrow> line_env \<Rightarrow> evaluate_request \<Rightarrow> bool" where
  "consented S L req \<longleftrightarrow>
     (\<exists>st resp. ln_evaluate L req = HR_Response st (Inr resp) \<and>
        (es_decision resp = GD_Forward \<or>
         es_decision resp = GD_PendingApproval \<and>
           (\<exists>k c st' s. es_task_id resp = Some k \<and> pe_status (ln_poll L k) c = HR_Response st' (Inr s) \<and>
              http_success st' \<and> ts_decision s = Some AO_Approved \<and> forward_allowed S L k)))"

definition carried :: "shim \<Rightarrow> line_env \<Rightarrow> string \<Rightarrow> string \<Rightarrow> bool" where
  "carried S L raw b \<longleftrightarrow>
     (\<exists>msg. parse_stdio_message (sh_from_str S) raw = Inr msg \<and>
        (is_passthrough (method_from_kind (sm_kind msg)) \<and> b = raw \<or>
         consented S L (asked S msg) \<and> b = forwarded_bytes S msg raw))"

lemma answer_server:
  "answer L i line = (out, fl) \<Longrightarrow> To_Server b \<in> set out \<Longrightarrow> \<exists>j. line j = To_Server b"
  by (auto simp: answer_def split: option.splits)

lemma answer_format:
  "answer L i (\<lambda>i. format_error_response i e c) = (out, fl) \<Longrightarrow> To_Server b \<notin> set out"
  "answer L i (\<lambda>i. format_deny_response i s pid) = (out, fl) \<Longrightarrow> To_Server b \<notin> set out"
  "answer L i (\<lambda>i. format_timeout_tool_response i n) = (out, fl) \<Longrightarrow> To_Server b \<notin> set out"
  by (auto dest: answer_server simp: format_error_response_def format_deny_response_def format_timeout_tool_response_def)

lemma forward_tracked_out: "forward_tracked S L msg fb reqs = (out, p, fl) \<Longrightarrow> out = [To_Server fb]"
  by (auto simp: forward_tracked_def write_server_def)

lemma handle_outcome_server:
  assumes "handle_outcome S L msg fb k reqs r = (out, p, fl)" and "To_Server b \<in> set out"
  shows "r = AP_Approved \<and> forward_allowed S L k \<and> b = fb"
proof (cases r)
  case AP_Approved
  with assms show ?thesis
    by (cases "forward_allowed S L k")
      (auto simp: handle_outcome_def Let_def dest: answer_format split: prod.splits
        dest!: forward_tracked_out)
qed (use assms in \<open>auto simp: handle_outcome_def Let_def dest: answer_format split: prod.splits\<close>)

lemma handle_governance_server:
  assumes "handle_governance S L msg fb reqs resp = Some (out, p, sent, fl)" and "To_Server b \<in> set out"
  shows "b = fb \<and> (es_decision resp = GD_Forward \<or>
    es_decision resp = GD_PendingApproval \<and>
      (\<exists>k c st s. es_task_id resp = Some k \<and> pe_status (ln_poll L k) c = HR_Response st (Inr s) \<and>
         http_success st \<and> ts_decision s = Some AO_Approved \<and> forward_allowed S L k))"
proof (cases "es_decision resp")
  case GD_Forward
  with assms show ?thesis
    by (auto simp: handle_governance_def Let_def split: prod.splits dest!: forward_tracked_out)
next
  case GD_Deny
  with assms show ?thesis
    by (auto simp: handle_governance_def Let_def split: prod.splits dest: answer_format)
next
  case GD_PendingApproval
  show ?thesis
  proof (cases "es_task_id resp")
    case None
    with GD_PendingApproval assms show ?thesis
      by (auto simp: handle_governance_def Let_def split: prod.splits dest: answer_format)
  next
    case (Some k)
    let ?E = "(ln_poll L k)\<lparr>pe_shutdown := (\<lambda>c. es_shutdown resp \<or> pe_shutdown (ln_poll L k) c)\<rparr>"
    obtain pr n r o1 where w: "poll_approval_status (sh_profile S) ?E k
          (map_option (\<lambda>t. ln_now L + from_secs t) (es_timeout_secs resp)) (ln_now L) = Some (pr, n, r)"
        "handle_outcome S L msg fb k reqs r = (o1, p, fl)" "out = pr @ o1"
      using assms(1) GD_PendingApproval Some
      by (auto simp: handle_governance_def Let_def split: prod.splits Option.bind_splits)
    from poll_loop_result [OF w(1) [unfolded poll_approval_status_def]]
    have pr: "To_Server b \<notin> set pr"
      "r = AP_Approved \<Longrightarrow> \<exists>c st s. pe_status (ln_poll L k) c = HR_Response st (Inr s) \<and> http_success st \<and>
         ts_decision s = Some AO_Approved"
      by (auto simp: wait_sound_def)
    with assms(2) w(3) have "To_Server b \<in> set o1" by simp
    from handle_outcome_server [OF w(2) this] pr(2) GD_PendingApproval Some show ?thesis by blast
  qed
qed

lemma govern_server:
  assumes "govern S L msg raw reqs = Some (out, p, sent, fl)" and "To_Server b \<in> set out"
    and "sh_profile S = Production"
  shows "consented S L (asked S msg) \<and> b = forwarded_bytes S msg raw"
proof -
  obtain st resp where e: "ln_evaluate L (asked S msg) = HR_Response st (Inr resp)"
      "handle_governance S L msg (forwarded_bytes S msg raw) reqs resp = Some (out, p, sent, fl)"
    using assms
    by (auto simp: govern_def asked_def stripped_params_def forwarded_bytes_def Let_def cong: if_cong
        split: prod.splits http_reply.splits sum.splits dest: answer_format)
  from handle_governance_server [OF e(2) assms(2)] e(1) show ?thesis unfolding consented_def by blast
qed

lemma a2s_line_server:
  assumes "a2s_line S L raw reqs = Some (out, p, sent, fl)" and "To_Server b \<in> set out"
    and "sh_profile S = Production"
  shows "carried S L raw b"
proof -
  obtain msg where m: "parse_stdio_message (sh_from_str S) raw = Inr msg"
      "is_passthrough (method_from_kind (sm_kind msg)) \<and> b = raw \<or>
       govern S L msg raw reqs = Some (out, p, sent, fl)"
    using assms(1,2)
    by (auto simp: a2s_line_def Let_def write_server_def split: if_splits sum.splits prod.splits)
  with govern_server [OF _ assms(2,3)] show ?thesis unfolding carried_def by blast
qed

text \<open>The same for the whole loop.\<close>

definition all_carried :: "shim \<Rightarrow> (nat \<Rightarrow> line_env) \<Rightarrow> shim_out list \<Rightarrow> shim_out list \<Rightarrow> bool" where
  "all_carried S env out out' \<longleftrightarrow>
     (\<forall>b. To_Server b \<in> set out' \<longrightarrow> To_Server b \<in> set out \<or> (\<exists>i raw. carried S (env i) raw b))"

lemma all_carried_step:
  assumes "a2s_line S (env i) raw reqs = Some (o1, p, sent, fl)" and "sh_profile S = Production"
  shows "all_carried S env out (out @ o1)"
    and "all_carried S env (out @ o1) out' \<Longrightarrow> all_carried S env out out'"
  using a2s_line_server [OF assms(1) _ assms(2)] by (auto simp: all_carried_def)

lemma all_carried_refl [simp]: "all_carried S env out out"
  by (simp add: all_carried_def)

lemma agent_to_server_carried:
  assumes "agent_to_server S patience env i reqs cs out = Some res"
  shows "sh_profile S = Production \<longrightarrow> all_carried S env out (fst res)"
proof (rule agent_to_server.raw_induct [OF _ assms], goal_cases)
  case (1 loop S patience env i reqs cs out res)
  show ?case
  proof
    assume prod: "sh_profile S = Production"
    note ih = 1(1) [THEN mp, OF _ prod]
    from 1(2) show "all_carried S env out (fst res)"
      by (auto split: if_split_asm prod.split_asm sum.split_asm framing_error.split_asm Option.bind_split_asm
          line_flow.split_asm dest!: ih dest: all_carried_step [OF _ prod])
  qed
qed

section \<open>The contract of the governance service\<close>

text \<open>By round of the loop and, for a status, by poll: the answers, what a forwarding answer means, for
  which request a task was opened, and which tasks were approved.\<close>

locale governance_contract =
  fixes evaluate :: "nat \<Rightarrow> evaluate_request \<Rightarrow> evaluate_response option"
    and status :: "nat \<Rightarrow> nat \<Rightarrow> string \<Rightarrow> nat + task_status_response"
    and free_to_pass :: "nat \<Rightarrow> evaluate_request \<Rightarrow> bool"
    and opened :: "nat \<Rightarrow> evaluate_request \<Rightarrow> string \<Rightarrow> bool"
    and approved :: "nat \<Rightarrow> string \<Rightarrow> bool"
  assumes forward_free: "evaluate i req = Some resp \<Longrightarrow> es_decision resp = GD_Forward \<Longrightarrow> free_to_pass i req"
    and pending_opened: "evaluate i req = Some resp \<Longrightarrow> es_decision resp = GD_PendingApproval \<Longrightarrow>
      es_task_id resp = Some k \<Longrightarrow> opened i req k"
    and status_approved: "status i c k = Inr s \<Longrightarrow> ts_decision s = Some AO_Approved \<Longrightarrow> approved i k"
begin

lemma consented_granted:
  assumes "\<And>req st resp. ln_evaluate L req = HR_Response st (Inr resp) \<Longrightarrow> evaluate i req = Some resp"
    and "\<And>k c st s. pe_status (ln_poll L k) c = HR_Response st (Inr s) \<Longrightarrow> status i c k = Inr s"
    and "consented S L req"
  shows "free_to_pass i req \<or> (\<exists>k. opened i req k \<and> approved i k)"
  using assms(3) forward_free pending_opened status_approved unfolding consented_def by (metis assms(1,2))

lemma mediated:
  assumes "\<And>i req st resp. ln_evaluate (env i) req = HR_Response st (Inr resp) \<Longrightarrow> evaluate i req = Some resp"
    and "\<And>i k c st s. pe_status (ln_poll (env i) k) c = HR_Response st (Inr s) \<Longrightarrow> status i c k = Inr s"
    and "sh_profile S = Production"
    and "agent_to_server S patience env 0 reqs cs [] = Some (out, reqs', r)" and "To_Server b \<in> set out"
  shows "\<exists>i raw msg. parse_stdio_message (sh_from_str S) raw = Inr msg \<and>
    (is_passthrough (method_from_kind (sm_kind msg)) \<and> b = raw \<or>
     b = forwarded_bytes S msg raw \<and>
       (free_to_pass i (asked S msg) \<or> (\<exists>k. opened i (asked S msg) k \<and> approved i k)))"
proof -
  obtain i raw where "carried S (env i) raw b"
    using agent_to_server_carried [OF assms(4)] assms(3,5) by (auto simp: all_carried_def)
  then obtain msg where m: "parse_stdio_message (sh_from_str S) raw = Inr msg"
      "is_passthrough (method_from_kind (sm_kind msg)) \<and> b = raw \<or>
       consented S (env i) (asked S msg) \<and> b = forwarded_bytes S msg raw"
    unfolding carried_def by blast
  have "consented S (env i) req \<Longrightarrow> free_to_pass i req \<or> (\<exists>k. opened i req k \<and> approved i k)" for req
    using assms(1,2) by (rule consented_granted)
  with m show ?thesis by blast
qed

end

text \<open>What the service's handlers mean by their answers.\<close>

definition rule_forwards :: "governance_service \<Rightarrow> evaluate_request \<Rightarrow> bool" where
  "rule_forwards Sv req \<longleftrightarrow>
     (case gs_evaluator Sv of
        None \<Rightarrow> True
      | Some ev \<Rightarrow> ev_profile ev = Production \<longrightarrow>
          (\<forall>name. gated req name \<longrightarrow> gate1_passes ev req name \<and> mt_action (rule_for ev req name) = Forward))"

definition ready_for :: "eval_env \<Rightarrow> evaluator \<Rightarrow> evaluate_request \<Rightarrow> string \<Rightarrow> bool" where
  "ready_for V ev req name \<longleftrightarrow>
     store_inv (backend_store (ev_backend ev)) \<and>
     create_ok (ev_ext ev) (vv_task_id V) (request_of req name) (backend_store (ev_backend ev)) \<and>
     (case ev_backend ev of WithEngine en \<Rightarrow> pl_ext (en_pipeline en) = ev_ext ev | _ \<Rightarrow> True)"

definition opened_for :: "eval_env \<Rightarrow> governance_service \<Rightarrow> evaluate_request \<Rightarrow> string \<Rightarrow> bool" where
  "opened_for V Sv req k \<longleftrightarrow>
     (\<exists>ev ev'. gs_evaluator Sv = Some ev \<and> gs_evaluator (fst (evaluate_handler V req Sv)) = Some ev' \<and>
        (\<forall>name. gated req name \<longrightarrow> ready_for V ev req name \<longrightarrow>
           gate1_passes ev req name \<and> waits_for (request_of req name) k (backend_store (ev_backend ev'))))"

definition approved_in :: "governance_service \<Rightarrow> string \<Rightarrow> bool" where
  "approved_in Sv k \<longleftrightarrow>
     (\<exists>ev t a. gs_evaluator Sv = Some ev \<and> get k (backend_store (ev_backend ev)) = Inr t \<and>
        t_approval t = Some a \<and> a_decision a = AD_Approved)"

lemma evaluate_handler_forward:
  assumes "snd (evaluate_handler V req Sv) = Some resp" and "es_decision resp = GD_Forward"
  shows "rule_forwards Sv req"
proof (cases "gs_evaluator Sv")
  case (Some ev)
  obtain ev' tr r where e: "evaluate_with_principal V req None ev = (ev', tr, r)"
    by (cases "evaluate_with_principal V req None ev")
  with assms Some obtain resp0 where "r = Some resp0" "es_decision resp0 = GD_Forward"
    by (auto simp: evaluate_handler_def evaluate_def Let_def)
  with production_forward_iff [of ev req _ V None ev' tr resp0] e Some show ?thesis by (auto simp: rule_forwards_def)
qed (simp add: rule_forwards_def)

lemma evaluate_handler_pending:
  assumes "snd (evaluate_handler V req Sv) = Some resp" and "es_decision resp = GD_PendingApproval"
    and "es_task_id resp = Some k"
  shows "opened_for V Sv req k"
proof (cases "gs_evaluator Sv")
  case None
  with assms show ?thesis by (auto simp: evaluate_handler_def stub_response_def Let_def forward_def)
next
  case (Some ev)
  obtain ev' tr r where e: "evaluate_with_principal V req None ev = (ev', tr, r)"
    by (cases "evaluate_with_principal V req None ev")
  with assms Some obtain resp0 where r: "r = Some resp0" "es_decision resp0 = GD_PendingApproval" "es_task_id resp0 = Some k"
    by (auto simp: evaluate_handler_def evaluate_def Let_def)
  have "gate1_passes ev req name \<and> waits_for (request_of req name) k (backend_store (ev_backend ev'))"
    if "gated req name" "ready_for V ev req name" for name
    using pending_backed [of ev V req name None ev' tr resp0] that e r
    by (cases "ev_backend ev") (auto simp: ready_for_def)
  with Some e show ?thesis by (auto simp: opened_for_def evaluate_handler_def evaluate_def Let_def)
qed

interpretation service: governance_contract
  "\<lambda>i req. snd (evaluate_handler (V i) req (Sv i))" "\<lambda>i c k. task_status_handler k (Sw i c)"
  "\<lambda>i. rule_forwards (Sv i)" "\<lambda>i. opened_for (V i) (Sv i)" "\<lambda>i k. \<exists>c. approved_in (Sw i c) k"
  for V Sv Sw
proof
  fix i c k s
  assume "task_status_handler k (Sw i c) = Inr s" "ts_decision s = Some AO_Approved"
  then show "\<exists>c. approved_in (Sw i c) k" using status_approved_iff unfolding approved_in_def by blast
qed (simp_all add: evaluate_handler_forward evaluate_handler_pending)

text \<open>A production shim in front of the governance service governs the whole session: whatever the agent
  sends and however the stream is cut, each line written to the server is a passthrough line, taken
  over unchanged, or comes from one parsed message for whose request either the rules of the service
  forward (for a call that names its resource: gate 1 passes and the rule is to forward), or the
  service opened a task for exactly this request and some poll found an approving decision on this task.
  The answers the shim gets are those of the service's handlers, in any of its states.\<close>

lemma stdio_session_governed:
  assumes "sh_profile S = Production"
    and "\<forall>i req st resp. ln_evaluate (env i) req = HR_Response st (Inr resp) \<longrightarrow>
      snd (evaluate_handler (V i) req (Sv i)) = Some resp"
    and "\<forall>i k c st s. pe_status (ln_poll (env i) k) c = HR_Response st (Inr s) \<longrightarrow>
      task_status_handler k (Sw i c) = Inr s"
    and "agent_to_server S patience env 0 reqs cs [] = Some (out, reqs', r)" and "To_Server b \<in> set out"
  shows "\<exists>i raw msg. parse_stdio_message (sh_from_str S) raw = Inr msg \<and>
    (is_passthrough (method_from_kind (sm_kind msg)) \<and> b = raw \<or>
     b = forwarded_bytes S msg raw \<and>
       (rule_forwards (Sv i) (asked S msg) \<or>
        (\<exists>k. opened_for (V i) (Sv i) (asked S msg) k \<and> (\<exists>c. approved_in (Sw i c) k))))"
  by (rule service.mediated [where env = env and V = V and Sv = Sv and Sw = Sw, OF _ _ assms(1,4,5)])
    (use assms(2,3) in blast)+

definition demo_shim :: shim where
  "demo_shim = \<lparr>sh_server_id = ''s'', sh_profile = Production,
     sh_from_str = (\<lambda>t. if t = ''ping'' then Inr (JObject [(''jsonrpc'', JString ''2.0''), (''method'', JString ''ping'')])
       else Inr (JObject [(''jsonrpc'', JString ''2.0''), (''id'', JNumber (PosInt 1)), (''method'', JString ''tools/call''),
         (''params'', JObject [(''name'', JString t)])])),
     sh_to_string = (\<lambda>_. []), sh_utf8 = (\<lambda>_. True), sh_valid_trace = (\<lambda>_. False),
     sh_config = None, sh_globs = demo_globs\<rparr>"

definition demo_service :: governance_service where
  "demo_service = with_evaluator (demo_evaluator (StoreOnly (store_with_metrics demo_cfg)))"

definition demo_line_env :: line_env where
  "demo_line_env = \<lparr>ln_shutdown = False, ln_meanwhile = id,
     ln_evaluate = (\<lambda>req. case snd (evaluate_handler demo_env req demo_service) of
        Some resp \<Rightarrow> HR_Response 200 (Inr resp) | None \<Rightarrow> HR_NotSent []),
     ln_poll = (\<lambda>k. \<lparr>pe_clock = (\<lambda>c. c), pe_wake = (\<lambda>c. c), pe_beat = (\<lambda>c. c), pe_shutdown = (\<lambda>_. False),
        pe_status = (\<lambda>c. HR_NotSent [])\<rparr>),
     ln_revalidate = (\<lambda>_. HR_NotSent []), ln_now = 0, ln_sent_at = 0, ln_correlation_id = ''c'',
     ln_stdin = Inr (), ln_stdout = Inr ()\<rparr>"

section \<open>The loop is a loop over lines\<close>

text \<open>The specification: the lines of a text, handled one after the other; oversized ones are skipped.\<close>

function text_lines :: "string \<Rightarrow> string list" where
  "text_lines bs = (if bs = [] then [] else fst (next_line bs) # text_lines (snd (next_line bs)))"
  by auto
termination by (relation "measure length") (auto simp: next_line_def Let_def)

declare text_lines.simps [simp del]

fun a2s_lines ::
  "shim \<Rightarrow> (nat \<Rightarrow> line_env) \<Rightarrow> nat \<Rightarrow> pending_requests \<Rightarrow> string list \<Rightarrow> shim_out list \<Rightarrow>
   (shim_out list \<times> pending_requests \<times> (stdio_error + unit)) option" where
  "a2s_lines S env i reqs [] out = Some (out, reqs, Inr ())"
| "a2s_lines S env i reqs (line # rest) out =
     (if ln_shutdown (env i) then Some (out, reqs, Inr ())
      else if length line > max_message_bytes then a2s_lines S env (i + 1) reqs rest out
      else case a2s_line S (env i) line (ln_meanwhile (env i) reqs) of
             None \<Rightarrow> None
           | Some (o1, reqs1, sent, fl) \<Rightarrow>
               (case fl of
                  Next \<Rightarrow> if sent then Some (out @ o1, reqs1, Inr ()) else a2s_lines S env (i + 1) reqs1 rest (out @ o1)
                | Stop \<Rightarrow> Some (out @ o1, reqs1, Inr ())
                | Abort e \<Rightarrow> Some (out @ o1, reqs1, Inl e)))"

lemma next_line_shrinks: "bs \<noteq> [] \<Longrightarrow> fst (next_line bs) \<noteq> [] \<and> length (snd (next_line bs)) < length bs"
  by (auto simp: next_line_def Let_def)

lemma consume_length: "length (consume n b cs) \<le> Suc (length cs)"
  by (simp add: consume_def)

lemma drain_length: "length (drain_until_newline n cs) \<le> length cs"
proof (induction n cs rule: drain_until_newline.induct)
  case (4 n b cs)
  then show ?case using consume_length [of _ b cs] by (auto split: option.splits intro: le_SucI)
qed auto

lemma read_length: "length (snd (snd (bounded_read_line patience mx buf n cs))) \<le> length cs"
proof (induction patience mx buf n cs rule: bounded_read_line.induct)
  case (3 patience mx buf n b cs)
  then show ?case using consume_length [of _ b cs] drain_length [of patience cs]
    by (auto simp: Let_def split: option.splits intro: le_SucI)
qed auto

lemma agent_to_server_lines:
  assumes "sound_stream cs" and "length cs \<le> patience"
  shows "agent_to_server S patience env i reqs cs out =
    a2s_lines S env i reqs (text_lines (stream_bytes cs)) out"
  using assms
proof (induction "length (stream_bytes cs)" arbitrary: i reqs cs out rule: less_induct)
  case less
  show ?case
  proof (cases "stream_bytes cs = []")
    case True
    then have "cs = []" using less.prems(1) by (cases cs) auto
    with True show ?thesis by (subst agent_to_server.simps) (simp add: text_lines.simps)
  next
    case False
    obtain r raw cs' where read: "bounded_read_line patience max_message_bytes [] 0 cs = (r, raw, cs')"
      by (cases "bounded_read_line patience max_message_bytes [] 0 cs")
    have "reads_next max_message_bytes (stream_bytes cs) (r, raw, cs')"
      using bounded_read_line_spec [OF less.prems, of 0 "[]" max_message_bytes] read by simp
    then have cs': "sound_stream cs'" "stream_bytes cs' = snd (next_line (stream_bytes cs))"
      and r: "if length (fst (next_line (stream_bytes cs))) \<le> max_message_bytes
        then r = Inr (length (fst (next_line (stream_bytes cs)))) \<and> raw = fst (next_line (stream_bytes cs))
        else r = Inl (FE_MessageTooLarge max_message_bytes)"
      by (simp_all add: reads_next_def)
    have short: "length (stream_bytes cs') < length (stream_bytes cs)"
      using next_line_shrinks [OF False] cs'(2) by simp
    have pat: "length cs' \<le> patience" using read_length [of patience max_message_bytes "[]" 0 cs] read less.prems(2) by simp
    note ih = less.hyps [OF short cs'(1) pat]
    have tl: "text_lines (stream_bytes cs) = fst (next_line (stream_bytes cs)) # text_lines (stream_bytes cs')"
      using False cs'(2) by (simp add: text_lines.simps [of "stream_bytes cs"])
    show ?thesis
      using r next_line_shrinks [OF False]
      by (subst agent_to_server.simps)
        (auto simp: read tl ih split: option.splits Option.bind_splits line_flow.splits if_splits prod.splits)
  qed
qed



section \<open>The loop ends\<close>

definition sleeps :: "line_env \<Rightarrow> bool" where
  "sleeps L \<longleftrightarrow> (\<forall>req st resp k c. ln_evaluate L req = HR_Response st (Inr resp) \<longrightarrow>
     pe_clock (ln_poll L k) c + poll_interval_of resp \<le> pe_clock (ln_poll L k) (c + 1))"

lemma handle_governance_returns:
  assumes "\<forall>k c. pe_clock (ln_poll L k) c + poll_interval_of resp \<le> pe_clock (ln_poll L k) (c + 1)"
  shows "handle_governance S L msg fb reqs resp \<noteq> None"
proof -
  have "poll_approval_status prof ((ln_poll L k)\<lparr>pe_shutdown := f\<rparr>) k dl start = None \<Longrightarrow> False" for prof k f dl start
    using wait_returns [of "(ln_poll L k)\<lparr>pe_shutdown := f\<rparr>" resp prof k dl start] assms by auto
  then show ?thesis
    by (auto simp: handle_governance_def Let_def split: governance_decision.splits option.splits prod.splits
        Option.bind_splits)
qed

lemma a2s_line_returns: "sleeps L \<Longrightarrow> a2s_line S L raw reqs \<noteq> None"
proof -
  assume "sleeps L"
  then have "handle_governance S L msg fb reqs resp \<noteq> None" if "ln_evaluate L req = HR_Response st (Inr resp)"
    for msg fb resp req st using handle_governance_returns that by (auto simp: sleeps_def)
  moreover have "handle_governance S L msg fb reqs dev_forward \<noteq> None" for msg fb
    by (cases "forward_tracked S L msg fb reqs") (simp add: handle_governance_def dev_forward_def Let_def)
  ultimately have "govern S L msg raw reqs \<noteq> None" for msg
    by (auto simp: govern_def Let_def split: prod.splits http_reply.splits sum.splits)
  then show ?thesis by (auto simp: a2s_line_def Let_def split: sum.splits prod.splits)
qed

lemma a2s_lines_returns: "\<forall>i. sleeps (env i) \<Longrightarrow> a2s_lines S env i reqs ls out \<noteq> None"
proof (induction S env i reqs ls out rule: a2s_lines.induct)
  case (2 S env i reqs line rest out)
  then obtain o1 reqs1 sent fl where l: "a2s_line S (env i) line (ln_meanwhile (env i) reqs) = Some (o1, reqs1, sent, fl)"
    using a2s_line_returns [of "env i" S line "ln_meanwhile (env i) reqs"] by (cases "a2s_line S (env i) line (ln_meanwhile (env i) reqs)") auto
  with 2 show ?case by (cases fl) simp_all
qed simp

text \<open>The loop from the agent to the server ends on every text, whatever its lines are and whatever the
  service answers: it never hangs in the wait for an approval as long as a cycle of that wait takes the
  poll interval.\<close>

lemma agent_loop_returns:
  assumes "sound_stream cs" and "length cs \<le> patience" and "\<forall>i. sleeps (env i)"
  shows "\<exists>out reqs' r. agent_to_server S patience env 0 reqs cs [] = Some (out, reqs', r)"
  using a2s_lines_returns [OF assms(3)] agent_to_server_lines [OF assms(1,2)] by auto

section \<open>Listings\<close>

text \<open>An answer with a list of tools is filtered exactly if its identifier is on record for \<open>tools/list\<close>.\<close>

lemma tools_answer_filtered_iff:
  assumes "sh_utf8 S raw" and "trim raw \<noteq> []"
    and "parse_stdio_message (sh_from_str S) raw = Inr msg" and "sm_kind msg = MK_Response i"
    and "sh_config S = Some cfg" and "sh_from_str S raw = Inr (JObject obj)"
    and "map_of obj ''result'' = Some (JObject res)" and "map_of res ''tools'' = Some (JArray ts)"
    and "map_of res ''resources'' = None" and "map_of res ''prompts'' = None"
  shows "fst (s2a_line S now raw reqs) =
    (if map_option pr_method (map_of (pq_outbound reqs) i) = Some ''tools/list''
     then [To_Agent_Json (JObject (AList.update ''result'' (JObject (AList.update ''tools''
             (JArray (fst (filter_and_annotate_tools (sh_globs S) ts cfg (sh_server_id S) False))) res)) obj))]
     else [To_Agent_Raw raw])"
  using assms
  by (auto simp: s2a_line_def Let_def is_list_response_def filter_list_response_def update_result_list_def
      split: option.splits)

lemma forward_tracked_records:
  "forward_tracked S L msg fb reqs = (out, reqs', fl) \<Longrightarrow> ln_stdin L = Inr u \<Longrightarrow> id_from_kind (sm_kind msg) = Some i \<Longrightarrow>
   map_option pr_method (map_of (pq_outbound reqs') i) = Some (method_from_kind (sm_kind msg))"
  by (auto simp: forward_tracked_def write_server_def AList.update_conv')

text \<open>An agent that reuses an identifier escapes the filter of listings: after a \<open>tools/list\<close> request
  and, before its answer, a \<open>prompts/list\<close> request with the same identifier are forwarded, the answer
  with the list of tools is passed to the agent as it is, with every tool the configuration hides.\<close>

lemma reused_id_unfiltered:
  assumes "sm_kind m1 = MK_Request i ''tools/list''" and "sm_kind m2 = MK_Request i ''prompts/list''"
    and "forward_tracked S L1 m1 b1 reqs = (out1, reqs1, fl1)"
    and "forward_tracked S L2 m2 b2 reqs1 = (out2, reqs2, fl2)" and "ln_stdin L2 = Inr ()"
    and "sh_utf8 S raw" and "trim raw \<noteq> []"
    and "parse_stdio_message (sh_from_str S) raw = Inr msg" and "sm_kind msg = MK_Response i"
    and "sh_config S = Some cfg" and "sh_from_str S raw = Inr (JObject obj)"
    and "map_of obj ''result'' = Some (JObject res)" and "map_of res ''tools'' = Some (JArray ts)"
    and "map_of res ''resources'' = None" and "map_of res ''prompts'' = None"
  shows "fst (s2a_line S now raw reqs2) = [To_Agent_Raw raw]"
proof -
  have "map_option pr_method (map_of (pq_outbound reqs2) i) = Some ''prompts/list''"
    using forward_tracked_records [OF assms(4,5)] assms(2) by simp
  then show ?thesis unfolding tools_answer_filtered_iff [OF assms(6-15)] by auto
qed

definition demo_listing :: json where
  "demo_listing = JObject [(''jsonrpc'', JString ''2.0''), (''id'', JNumber (PosInt 1)),
     (''result'', JObject [(''tools'', JArray [JObject [(''name'', JString ''secret'')]])])]"

definition list_shim :: shim where
  "list_shim = demo_shim\<lparr>sh_from_str := (\<lambda>_. Inr demo_listing), sh_config := Some demo_config\<rparr>"

definition list_request :: "string \<Rightarrow> stdio_message" where
  "list_request m = \<lparr>sm_kind = MK_Request (IdNumber 1) m, sm_params = None, sm_raw = []\<rparr>"

section \<open>Rebuilt responses\<close>

text \<open>A response whose parameters carry a trace context loses its result: the rebuilt message has none.\<close>

lemma rebuilt_response_empty:
  "jget ''result'' (rebuild_message_with_params (MK_Response i) ps) = None"
  "jget ''error'' (rebuild_message_with_params (MK_Response i) ps) = None"
  by (simp_all add: jget_def)

section \<open>Readiness\<close>

lemma healthz_delay_bound:
  "delay \<le> healthz_max_backoff_ms \<Longrightarrow>
   (\<forall>d \<in> set (fst (healthz_attempts reply n a delay)). d \<le> healthz_max_backoff_ms) \<and>
   length (fst (healthz_attempts reply n a delay)) \<le> n"
proof (induction n arbitrary: a delay)
  case (Suc n)
  have "min (delay * 2) healthz_max_backoff_ms \<le> healthz_max_backoff_ms" by simp
  note ih = Suc.IH [OF this, of "a + 1"] Suc.IH [OF Suc.prems, of "a + 1"]
  show ?case
    using ih Suc.prems
    by (cases "healthz_attempts reply n (a + 1) (min (delay * 2) healthz_max_backoff_ms)") (auto simp: le_SucI)
qed simp

end
