(* ===== verification/Wrap_Files.thy ===== *)
theory Wrap_Files
  imports TG_Json "HOL-Library.Sublist"
begin

text \<open>
  The files the wrapper works on: paths as \<open>std::path\<close> reads them, the calls of \<open>std::fs\<close> it uses, and
  the three helpers of \<open>thoughtgate/src/wrap/config_adapter/helpers.rs\<close> that read, write and back up a
  configuration. A file system is a list of files together with the faults the next calls meet, one
  per call; a write that fails may leave anything in the file it was writing to. Missing directories and
  permissions are such faults. Paths are absolute or relative strings separated by slashes.
\<close>

declare map_of_eq_Some_iff [simp del]

section \<open>Sums\<close>

lemma map_sum_Inr_iff: "map_sum f g x = Inr y \<longleftrightarrow> (\<exists>z. x = Inr z \<and> y = g z)"
  by (cases x) auto

lemma map_sum_Inl_iff: "map_sum f g x = Inl y \<longleftrightarrow> (\<exists>z. x = Inl z \<and> y = f z)"
  by (cases x) auto

section \<open>Paths\<close>

text \<open>A path read from its end, without trailing slashes and trailing \<open>.\<close> components.\<close>

fun strip_rev :: "string \<Rightarrow> string" where
  "strip_rev [] = []"
| "strip_rev (c # s) =
     (if c = CHR ''/'' then strip_rev s
      else if c = CHR ''.'' \<and> s \<noteq> [] \<and> hd s = CHR ''/'' then strip_rev (tl s)
      else c # s)"

definition rev_name :: "string \<Rightarrow> string" where
  "rev_name p = takeWhile (\<lambda>c. c \<noteq> CHR ''/'') (strip_rev (rev p))"

definition file_name :: "string \<Rightarrow> string option" where
  "file_name p = (if rev_name p \<in> {'''', ''.'', ''..''} then None else Some (rev (rev_name p)))"

definition dir_part :: "string \<Rightarrow> string" where
  "dir_part p = rev (dropWhile (\<lambda>c. c \<noteq> CHR ''/'') (strip_rev (rev p)))"

definition stem_of :: "string \<Rightarrow> string" where
  "stem_of name =
     (let before = rev (tl (dropWhile (\<lambda>c. c \<noteq> CHR ''.'') (rev name)))
      in if CHR ''.'' \<in> set name \<and> before \<noteq> [] then before else name)"

definition with_extension :: "string \<Rightarrow> string \<Rightarrow> string" where
  "with_extension p ext =
     (case file_name p of None \<Rightarrow> p | Some name \<Rightarrow> dir_part p @ stem_of name @ ''.'' @ ext)"

definition path_join :: "string \<Rightarrow> string \<Rightarrow> string" where
  "path_join d n = (if d = [] \<or> last d = CHR ''/'' then d @ n else d @ ''/'' @ n)"

section \<open>File system\<close>

datatype io_error = IoNotFound | IoOther string

datatype fault = NoFault | Fault string "string option"

record fs =
  fs_files :: "(string \<times> string) list"
  fs_faults :: "fault list"

definition take_fault :: "fs \<Rightarrow> fault \<times> fs" where
  "take_fault s = (case fs_faults s of [] \<Rightarrow> (NoFault, s) | f # fs \<Rightarrow> (f, s\<lparr>fs_faults := fs\<rparr>))"

definition fs_file :: "string \<Rightarrow> fs \<Rightarrow> string option" where
  "fs_file p s = map_of (fs_files s) p"

definition put_file :: "string \<Rightarrow> string \<Rightarrow> fs \<Rightarrow> fs" where
  "put_file p b s = s\<lparr>fs_files := AList.update p b (fs_files s)\<rparr>"

definition leave :: "string \<Rightarrow> string option \<Rightarrow> fs \<Rightarrow> fs" where
  "leave p left s = (case left of None \<Rightarrow> s | Some b \<Rightarrow> put_file p b s)"

definition fs_exists :: "string \<Rightarrow> fs \<Rightarrow> fs \<times> bool" where
  "fs_exists p s =
     (case take_fault s of (Fault _ _, s) \<Rightarrow> (s, False) | (NoFault, s) \<Rightarrow> (s, fs_file p s \<noteq> None))"

definition fs_read :: "string \<Rightarrow> fs \<Rightarrow> fs \<times> (io_error + string)" where
  "fs_read p s =
     (case take_fault s of
        (Fault e _, s) \<Rightarrow> (s, Inl (IoOther e))
      | (NoFault, s) \<Rightarrow> (s, case fs_file p s of None \<Rightarrow> Inl IoNotFound | Some b \<Rightarrow> Inr b))"

definition fs_write :: "string \<Rightarrow> string \<Rightarrow> fs \<Rightarrow> fs \<times> (io_error + unit)" where
  "fs_write p b s =
     (case take_fault s of
        (Fault e left, s) \<Rightarrow> (leave p left s, Inl (IoOther e))
      | (NoFault, s) \<Rightarrow> (put_file p b s, Inr ()))"

definition fs_rename :: "string \<Rightarrow> string \<Rightarrow> fs \<Rightarrow> fs \<times> (io_error + unit)" where
  "fs_rename a b s =
     (case take_fault s of
        (Fault e _, s) \<Rightarrow> (s, Inl (IoOther e))
      | (NoFault, s) \<Rightarrow>
          (case fs_file a s of
             None \<Rightarrow> (s, Inl IoNotFound)
           | Some c \<Rightarrow> (s\<lparr>fs_files := AList.update b c (AList.delete a (fs_files s))\<rparr>, Inr ())))"

definition fs_remove :: "string \<Rightarrow> fs \<Rightarrow> fs \<times> (io_error + unit)" where
  "fs_remove p s =
     (case take_fault s of
        (Fault e _, s) \<Rightarrow> (s, Inl (IoOther e))
      | (NoFault, s) \<Rightarrow>
          if fs_file p s = None then (s, Inl IoNotFound)
          else (s\<lparr>fs_files := AList.delete p (fs_files s)\<rparr>, Inr ()))"

definition fs_copy :: "string \<Rightarrow> string \<Rightarrow> fs \<Rightarrow> fs \<times> (io_error + unit)" where
  "fs_copy a b s =
     (case take_fault s of
        (Fault e left, s) \<Rightarrow> (leave b left s, Inl (IoOther e))
      | (NoFault, s) \<Rightarrow>
          (case fs_file a s of None \<Rightarrow> (s, Inl IoNotFound) | Some c \<Rightarrow> (put_file b c s, Inr ())))"

section \<open>What one call does to the files\<close>

named_theorems fs_simps "effect of the calls of the file system on the files"

lemma fs_file_put [fs_simps]: "fs_file k (put_file p b s) = (if k = p then Some b else fs_file k s)"
  by (simp add: fs_file_def put_file_def AList.update_conv')

lemma fs_file_leave: "k \<noteq> p \<Longrightarrow> fs_file k (leave p left s) = fs_file k s"
  by (simp add: leave_def fs_simps split: option.splits)

lemma fs_file_faults [fs_simps]: "fs_file k (s\<lparr>fs_faults := x\<rparr>) = fs_file k s"
  by (simp add: fs_file_def)

lemma take_fault_file: "take_fault s = (f, s') \<Longrightarrow> fs_file k s' = fs_file k s"
  by (auto simp: take_fault_def fs_simps split: list.splits)

lemma fs_exists_file: "fs_exists p s = (s', r) \<Longrightarrow> fs_file k s' = fs_file k s"
  by (auto simp: fs_exists_def take_fault_file split: prod.splits fault.splits)

lemma fs_exists_true: "fs_exists p s = (s', True) \<Longrightarrow> fs_file p s \<noteq> None"
  by (auto simp: fs_exists_def take_fault_file split: prod.splits fault.splits)

lemma fs_read_file: "fs_read p s = (s', r) \<Longrightarrow> fs_file k s' = fs_file k s"
  by (auto simp: fs_read_def take_fault_file split: prod.splits fault.splits)

lemma fs_read_ok: "fs_read p s = (s', Inr b) \<Longrightarrow> fs_file p s = Some b"
  by (auto simp: fs_read_def take_fault_file split: prod.splits fault.splits option.splits)

lemma fs_write_ok: "fs_write p b s = (s', Inr u) \<Longrightarrow> fs_file k s' = (if k = p then Some b else fs_file k s)"
  by (auto simp: fs_write_def take_fault_file fs_simps split: prod.splits fault.splits)

lemma fs_write_frame: "fs_write p b s = (s', r) \<Longrightarrow> k \<noteq> p \<Longrightarrow> fs_file k s' = fs_file k s"
  by (auto simp: fs_write_def take_fault_file fs_simps fs_file_leave split: prod.splits fault.splits)

lemma fs_rename_ok:
  "fs_rename a b s = (s', Inr u) \<Longrightarrow>
   fs_file k s' = (if k = b then fs_file a s else if k = a then None else fs_file k s)"
  by (auto simp: fs_rename_def fs_file_def AList.update_conv' AList.delete_conv'
      take_fault_file [unfolded fs_file_def] split: prod.splits fault.splits option.splits)

lemma fs_rename_err: "fs_rename a b s = (s', Inl e) \<Longrightarrow> fs_file k s' = fs_file k s"
  by (auto simp: fs_rename_def take_fault_file split: prod.splits fault.splits option.splits)

lemma fs_remove_frame: "fs_remove p s = (s', r) \<Longrightarrow> k \<noteq> p \<Longrightarrow> fs_file k s' = fs_file k s"
  by (auto simp: fs_remove_def fs_file_def AList.delete_conv' take_fault_file [unfolded fs_file_def]
      split: prod.splits fault.splits if_splits)

lemma fs_remove_fst: "k \<noteq> p \<Longrightarrow> fs_file k (fst (fs_remove p s)) = fs_file k s"
  by (rule fs_remove_frame [OF prod.collapse [symmetric]])

lemma fs_copy_ok:
  "fs_copy a b s = (s', Inr u) \<Longrightarrow> fs_file k s' = (if k = b then fs_file a s else fs_file k s)"
  by (auto simp: fs_copy_def take_fault_file fs_simps
      split: prod.splits fault.splits option.splits)

lemma fs_copy_frame: "fs_copy a b s = (s', r) \<Longrightarrow> k \<noteq> b \<Longrightarrow> fs_file k s' = fs_file k s"
  by (auto simp: fs_copy_def take_fault_file fs_simps fs_file_leave
      split: prod.splits fault.splits option.splits)

section \<open>Without faults\<close>

text \<open>No call introduces a fault.\<close>

named_theorems calm "calls on a file system without faults leave it without faults"

lemma take_fault_calm: "fs_faults s = [] \<Longrightarrow> take_fault s = (NoFault, s)"
  by (simp add: take_fault_def)

lemma put_file_faults [simp]: "fs_faults (put_file p b s) = fs_faults s"
  by (simp add: put_file_def)

lemma fs_exists_calm [calm]: "fs_exists p s = (s', r) \<Longrightarrow> fs_faults s = [] \<Longrightarrow> fs_faults s' = []"
  by (simp add: fs_exists_def take_fault_calm)

lemma fs_read_calm [calm]: "fs_read p s = (s', r) \<Longrightarrow> fs_faults s = [] \<Longrightarrow> fs_faults s' = []"
  by (simp add: fs_read_def take_fault_calm)

lemma fs_write_calm [calm]: "fs_write p b s = (s', r) \<Longrightarrow> fs_faults s = [] \<Longrightarrow> fs_faults s' = []"
  by (auto simp: fs_write_def take_fault_calm)

lemma fs_rename_calm [calm]: "fs_rename a b s = (s', r) \<Longrightarrow> fs_faults s = [] \<Longrightarrow> fs_faults s' = []"
  by (auto simp: fs_rename_def take_fault_calm split: option.splits)

lemma fs_remove_calm [calm]: "fs_remove p s = (s', r) \<Longrightarrow> fs_faults s = [] \<Longrightarrow> fs_faults s' = []"
  by (auto simp: fs_remove_def take_fault_calm split: if_splits)

lemma fs_remove_fst_calm [calm]: "fs_faults s = [] \<Longrightarrow> fs_faults (fst (fs_remove p s)) = []"
  by (rule fs_remove_calm [OF prod.collapse [symmetric]])

lemma fs_copy_calm [calm]: "fs_copy a b s = (s', r) \<Longrightarrow> fs_faults s = [] \<Longrightarrow> fs_faults s' = []"
  by (auto simp: fs_copy_def take_fault_calm split: option.splits)

lemma fs_copy_calm_ok: "fs_faults s = [] \<Longrightarrow> fs_file a s \<noteq> None \<Longrightarrow> \<exists>s'. fs_copy a b s = (s', Inr ())"
  by (auto simp: fs_copy_def take_fault_calm)

end
