(* ===== verification/Wrap_Config.thy ===== *)
theory Wrap_Config
  imports Wrap_Files Evaluator
begin

text \<open>
  The agents' configuration files and their adapters
  (\<open>thoughtgate/src/wrap/config_adapter/{mod,env,helpers,adapters}.rs\<close>): which agent a command starts,
  the expansion of variables, reading the MCP servers of a configuration, pointing every server at the
  shim, detecting that this was done before, and restoring the backup. The parser and the printer of
  \<open>serde_json\<close>, the check of UTF-8 and the directories and variables of the process are fields of an
  environment.
\<close>

declare map_of_eq_Some_iff [simp del]

section \<open>Types\<close>

datatype agent_type = AT_ClaudeDesktop | AT_ClaudeCode | AT_Cursor | AT_VsCode | AT_Windsurf | AT_Zed | AT_Custom

record mcp_server_entry =
  me_id :: string
  me_command :: string
  me_args :: "string list"
  me_env :: "(string \<times> string) list option"
  me_enabled :: bool

record shim_options =
  so_server_id :: string
  so_governance_endpoint :: string
  so_profile :: profile
  so_config_path :: "string option"

datatype wrap_error =
    WE_NotFound string
  | WE_Parse string
  | WE_Write string
  | WE_Locked
  | WE_AlreadyManaged
  | WE_NoServers
  | WE_UndefinedEnvVar string
  | WE_Io io_error

record wrap_env =
  we_var :: "string \<Rightarrow> string option"
  we_cwd :: "string option"
  we_home_dir :: "string option"
  we_config_dir :: "string option"
  we_utf8 :: "string \<Rightarrow> bool"
  we_parse :: "string \<Rightarrow> string + json"
  we_pretty :: "json \<Rightarrow> string + string"

section \<open>Agent detection\<close>

definition contains :: "string \<Rightarrow> string \<Rightarrow> bool" where
  "contains s pat \<longleftrightarrow> sublist pat s"

definition detect_agent_type :: "string \<Rightarrow> agent_type option" where
  "detect_agent_type command =
     (case file_name command of
        None \<Rightarrow> None
      | Some basename \<Rightarrow>
          if contains basename ''Claude'' \<and> contains command ''.app'' then Some AT_ClaudeDesktop
          else if basename = ''claude-code'' \<or> basename = ''claude'' then Some AT_ClaudeCode
          else if basename = ''claude-desktop'' then Some AT_ClaudeDesktop
          else if basename = ''cursor'' then Some AT_Cursor
          else if basename = ''code'' \<or> basename = ''code-insiders'' then Some AT_VsCode
          else if basename = ''windsurf'' then Some AT_Windsurf
          else if basename = ''zed'' then Some AT_Zed
          else None)"

section \<open>Expansion of variables\<close>

text \<open>\<open>str::split_once\<close> at the two characters \<open>:-\<close>.\<close>

fun split_default :: "string \<Rightarrow> (string \<times> string) option" where
  "split_default [] = None"
| "split_default (c # cs) =
     (if c = CHR '':'' \<and> cs \<noteq> [] \<and> hd cs = CHR ''-'' then Some ([], tl cs)
      else map_option (\<lambda>(a, b). (c # a, b)) (split_default cs))"

definition expand_var_with_default :: "(string \<Rightarrow> string option) \<Rightarrow> string \<Rightarrow> wrap_error + string" where
  "expand_var_with_default var var_spec =
     (case split_default var_spec of
        Some (var_name, default_value) \<Rightarrow>
          (case var var_name of
             Some v \<Rightarrow> if v \<noteq> [] then Inr v else Inr default_value
           | None \<Rightarrow> Inr default_value)
      | None \<Rightarrow> (case var var_spec of Some v \<Rightarrow> Inr v | None \<Rightarrow> Inl (WE_UndefinedEnvVar var_spec)))"

definition expand_reference :: "(string \<Rightarrow> string option) \<Rightarrow> bool \<Rightarrow> string \<Rightarrow> wrap_error + string" where
  "expand_reference var require_env_prefix var_content =
     (if require_env_prefix then
        if take 4 var_content = ''env:'' then expand_var_with_default var (drop 4 var_content)
        else Inr (''${'' @ var_content @ ''}'')
      else expand_var_with_default var var_content)"

lemma length_after_close: "length (tl (dropWhile P (tl cs))) \<le> length cs"
proof -
  have "length (dropWhile P (tl cs)) \<le> length (tl cs)" by (rule length_dropWhile_le)
  then show ?thesis by (simp add: le_diff_conv)
qed

function expand_vars :: "(string \<Rightarrow> string option) \<Rightarrow> bool \<Rightarrow> string \<Rightarrow> wrap_error + string" where
  "expand_vars var req [] = Inr []"
| "expand_vars var req (c # cs) =
     (if c = CHR ''$'' \<and> cs \<noteq> [] \<and> hd cs = CHR ''{'' then
        let var_content = takeWhile (\<lambda>x. x \<noteq> CHR ''}'') (tl cs);
            close = dropWhile (\<lambda>x. x \<noteq> CHR ''}'') (tl cs)
        in if close = [] then Inr (''${'' @ var_content)
           else (case expand_reference var req var_content of
                   Inl e \<Rightarrow> Inl e
                 | Inr v \<Rightarrow> map_sum id (append v) (expand_vars var req (tl close)))
      else map_sum id (Cons c) (expand_vars var req cs))"
  by pat_completeness auto

termination
  by (relation "measure (\<lambda>(var, req, s). length s)")
    (auto simp: less_Suc_eq_le length_after_close simp del: length_tl)

definition expand_dollar_brace :: "wrap_env \<Rightarrow> string \<Rightarrow> wrap_error + string" where
  "expand_dollar_brace E input = expand_vars (we_var E) False input"

definition expand_env_colon :: "wrap_env \<Rightarrow> string \<Rightarrow> wrap_error + string" where
  "expand_env_colon E input = expand_vars (we_var E) True input"

definition expand_server_entry_env ::
  "(string \<Rightarrow> wrap_error + string) \<Rightarrow> mcp_server_entry \<Rightarrow> wrap_error + mcp_server_entry" where
  "expand_server_entry_env expander entry =
     (case expander (me_command entry) of
        Inl e \<Rightarrow> Inl e
      | Inr command \<Rightarrow>
          (case collect_results (map expander (me_args entry)) of
             Inl e \<Rightarrow> Inl e
           | Inr args \<Rightarrow> Inr (entry\<lparr>me_command := command, me_args := args\<rparr>)))"

section \<open>Reading and writing a configuration\<close>

definition atomic_write :: "string \<Rightarrow> string \<Rightarrow> fs \<Rightarrow> fs \<times> (io_error + unit)" where
  "atomic_write path content s =
     (let temp_path = with_extension path ''tmp'' in
      case fs_write temp_path content s of
        (s, Inl e) \<Rightarrow> (s, Inl e)
      | (s, Inr _) \<Rightarrow>
          (case fs_rename temp_path path s of
             (s, Inl e) \<Rightarrow> (fst (fs_remove temp_path s), Inl e)
           | (s, Inr _) \<Rightarrow> (s, Inr ())))"

text \<open>Text that is not UTF-8 is an error of the read, of kind \<open>InvalidData\<close>.\<close>

definition read_to_string :: "wrap_env \<Rightarrow> string \<Rightarrow> fs \<Rightarrow> fs \<times> (io_error + string)" where
  "read_to_string E path s =
     (case fs_read path s of
        (s, Inl e) \<Rightarrow> (s, Inl e)
      | (s, Inr b) \<Rightarrow>
          (s, if we_utf8 E b then Inr b else Inl (IoOther ''stream did not contain valid UTF-8'')))"

definition read_config :: "wrap_env \<Rightarrow> string \<Rightarrow> fs \<Rightarrow> fs \<times> (wrap_error + json)" where
  "read_config E path s =
     (case read_to_string E path s of
        (s, Inl e) \<Rightarrow> (s, Inl (case e of IoNotFound \<Rightarrow> WE_NotFound path | _ \<Rightarrow> WE_Io e))
      | (s, Inr content) \<Rightarrow> (s, map_sum WE_Parse id (we_parse E content)))"

fun io_text :: "io_error \<Rightarrow> string" where
  "io_text IoNotFound = ''No such file or directory (os error 2)''"
| "io_text (IoOther e) = e"

definition write_config :: "wrap_env \<Rightarrow> string \<Rightarrow> json \<Rightarrow> fs \<Rightarrow> fs \<times> (wrap_error + unit)" where
  "write_config E path v s =
     (case we_pretty E v of
        Inl e \<Rightarrow> (s, Inl (WE_Write e))
      | Inr content \<Rightarrow> map_prod id (map_sum (\<lambda>e. WE_Write (io_text e)) id) (atomic_write path content s))"

definition backup_suffix :: string where
  "backup_suffix = ''.thoughtgate-backup''"

definition backup_config :: "string \<Rightarrow> fs \<Rightarrow> fs \<times> (wrap_error + string)" where
  "backup_config config_path s =
     (let backup_path = config_path @ backup_suffix in
      case fs_read config_path s of
        (s, Inl e) \<Rightarrow> (s, Inl (WE_Io e))
      | (s, Inr original) \<Rightarrow>
          (case atomic_write backup_path original s of
             (s, Inl e) \<Rightarrow> (s, Inl (WE_Write (''backup write failed: '' @ io_text e)))
           | (s, Inr _) \<Rightarrow>
               (case fs_read backup_path s of
                  (s, Inl e) \<Rightarrow> (s, Inl (WE_Io e))
                | (s, Inr backed_up) \<Rightarrow>
                    if original \<noteq> backed_up
                    then (s, Inl (WE_Write ''backup verification failed: content mismatch''))
                    else (s, Inr backup_path))))"

section \<open>The servers of a configuration\<close>

definition tick_mark :: string where
  "tick_mark = [CHR 0x60]"

definition quoted :: "string \<Rightarrow> string" where
  "quoted s = tick_mark @ s @ tick_mark"

fun as_object :: "json \<Rightarrow> (string \<times> json) list option" where
  "as_object (JObject m) = Some m"
| "as_object _ = None"

fun as_array :: "json \<Rightarrow> json list option" where
  "as_array (JArray xs) = Some xs"
| "as_array _ = None"

fun as_bool :: "json \<Rightarrow> bool option" where
  "as_bool (JBool b) = Some b"
| "as_bool _ = None"

text \<open>The four fields of a server that the adapters read; items that are no strings are skipped.\<close>

definition field_str :: "string \<Rightarrow> json \<Rightarrow> string option" where
  "field_str k server = Option.bind (jget k server) as_str"

definition server_args :: "json \<Rightarrow> string list" where
  "server_args server =
     (case Option.bind (jget ''args'' server) as_array of
        Some arr \<Rightarrow> List.map_filter as_str arr
      | None \<Rightarrow> [])"

definition server_vars :: "json \<Rightarrow> (string \<times> string) list option" where
  "server_vars server =
     map_option (List.map_filter (\<lambda>(k, v). map_option (Pair k) (as_str v)))
       (Option.bind (jget ''env'' server) as_object)"

definition server_enabled :: "json \<Rightarrow> bool" where
  "server_enabled server =
     (\<not> (case Option.bind (jget ''disabled'' server) as_bool of Some b \<Rightarrow> b | None \<Rightarrow> False))"

definition missing_key :: "string \<Rightarrow> wrap_error" where
  "missing_key key = WE_Parse (''missing or invalid '' @ quoted key @ '' key in config'')"

definition missing_command :: "string \<Rightarrow> string \<Rightarrow> wrap_error" where
  "missing_command what i = WE_Parse (what @ '' '' @ quoted i @ '' missing '' @ quoted ''command'' @ '' field'')"

definition not_an_object :: "string \<Rightarrow> wrap_error" where
  "not_an_object i = WE_Parse (''server '' @ quoted i @ '' is not a JSON object'')"

definition parse_server :: "string \<times> json \<Rightarrow> wrap_error + mcp_server_entry" where
  "parse_server = (\<lambda>(i, server).
     case field_str ''command'' server of
       None \<Rightarrow> Inl (missing_command ''server'' i)
     | Some command \<Rightarrow>
         Inr \<lparr>me_id = i, me_command = command, me_args = server_args server,
              me_env = server_vars server, me_enabled = server_enabled server\<rparr>)"

definition parse_mcp_servers_key :: "json \<Rightarrow> string \<Rightarrow> wrap_error + mcp_server_entry list" where
  "parse_mcp_servers_key config key =
     (case Option.bind (jget key config) as_object of
        None \<Rightarrow> Inl (missing_key key)
      | Some servers_obj \<Rightarrow> collect_results (map parse_server servers_obj))"

section \<open>Pointing a server at the shim\<close>

fun profile_str :: "profile \<Rightarrow> string" where
  "profile_str Production = ''production''"
| "profile_str Development = ''development''"

definition shim_args :: "shim_options \<Rightarrow> mcp_server_entry \<Rightarrow> string list" where
  "shim_args options server =
     [''shim'', ''--server-id'', me_id server, ''--governance-endpoint'', so_governance_endpoint options,
      ''--profile'', profile_str (so_profile options), ''--'', me_command server] @ me_args server"

definition shim_vars :: "shim_options \<Rightarrow> mcp_server_entry \<Rightarrow> (string \<times> json) list \<Rightarrow> (string \<times> json) list" where
  "shim_vars options server env_map =
     (let env_map' = AList.update ''THOUGHTGATE_SERVER_ID'' (JString (me_id server)) env_map in
      case so_config_path options of
        Some cfg_path \<Rightarrow> AList.update ''THOUGHTGATE_CONFIG'' (JString cfg_path) env_map'
      | None \<Rightarrow> env_map')"

text \<open>\<open>entry("env").or_insert({})\<close>; an \<open>env\<close> that is not an object stays.\<close>

definition put_shim_vars ::
  "shim_options \<Rightarrow> mcp_server_entry \<Rightarrow> (string \<times> json) list \<Rightarrow> (string \<times> json) list" where
  "put_shim_vars options server entry_obj =
     (case map_of entry_obj ''env'' of
        None \<Rightarrow> AList.update ''env'' (JObject (shim_vars options server [])) entry_obj
      | Some (JObject env_map) \<Rightarrow> AList.update ''env'' (JObject (shim_vars options server env_map)) entry_obj
      | Some _ \<Rightarrow> entry_obj)"

definition shim_entry ::
  "string \<Rightarrow> shim_options \<Rightarrow> mcp_server_entry \<Rightarrow> (string \<times> json) list \<Rightarrow> (string \<times> json) list" where
  "shim_entry shim_path options server entry_obj =
     put_shim_vars options server
       (AList.update ''args'' (JArray (map JString (shim_args options server)))
         (AList.update ''command'' (JString shim_path) entry_obj))"

definition zed_entry ::
  "string \<Rightarrow> shim_options \<Rightarrow> mcp_server_entry \<Rightarrow> (string \<times> json) list \<Rightarrow> (string \<times> json) list" where
  "zed_entry shim_path options server entry_obj =
     put_shim_vars options server
       (AList.update ''command''
         (JObject [(''path'', JString shim_path), (''args'', JArray (map JString (shim_args options server)))])
         entry_obj)"

text \<open>The loop over the servers; \<open>f\<close> changes the object of one server.\<close>

fun rewrite_servers ::
  "(mcp_server_entry \<Rightarrow> (string \<times> json) list \<Rightarrow> (string \<times> json) list) \<Rightarrow> mcp_server_entry list \<Rightarrow>
   (string \<times> json) list \<Rightarrow> wrap_error + (string \<times> json) list" where
  "rewrite_servers f [] servers_obj = Inr servers_obj"
| "rewrite_servers f (server # servers) servers_obj =
     (case map_of servers_obj (me_id server) of
        None \<Rightarrow> rewrite_servers f servers servers_obj
      | Some (JObject entry_obj) \<Rightarrow>
          rewrite_servers f servers (AList.update (me_id server) (JObject (f server entry_obj)) servers_obj)
      | Some _ \<Rightarrow> Inl (not_an_object (me_id server)))"

text \<open>A change of the servers under a key of the configuration.\<close>

definition rewrite_key ::
  "wrap_error \<Rightarrow> string \<Rightarrow> ((string \<times> json) list \<Rightarrow> wrap_error + (string \<times> json) list) \<Rightarrow> json \<Rightarrow> wrap_error + json" where
  "rewrite_key missing key f config =
     (case config of
        JObject m \<Rightarrow>
          (case Option.bind (map_of m key) as_object of
             None \<Rightarrow> Inl missing
           | Some servers_obj \<Rightarrow> map_sum id (\<lambda>x. JObject (AList.update key (JObject x) m)) (f servers_obj))
      | _ \<Rightarrow> Inl missing)"

definition rewrite_mcp_servers_key ::
  "json \<Rightarrow> string \<Rightarrow> mcp_server_entry list \<Rightarrow> string \<Rightarrow> shim_options \<Rightarrow> wrap_error + json" where
  "rewrite_mcp_servers_key config key servers shim_path options =
     rewrite_key (missing_key key) key (rewrite_servers (shim_entry shim_path options) servers) config"

section \<open>Detecting a rewritten configuration\<close>

definition is_shim_command :: "string \<Rightarrow> string \<Rightarrow> bool" where
  "is_shim_command shim_str cmd \<longleftrightarrow> cmd = shim_str \<or> file_name cmd = Some ''thoughtgate''"

definition opt_holds :: "('a \<Rightarrow> bool) \<Rightarrow> 'a option \<Rightarrow> bool" where
  "opt_holds P x = (case x of None \<Rightarrow> False | Some y \<Rightarrow> P y)"

definition wrapped_server :: "string \<Rightarrow> json \<Rightarrow> bool" where
  "wrapped_server shim_str server \<longleftrightarrow>
     opt_holds (is_shim_command shim_str) (field_str ''command'' server) \<or>
     opt_holds (is_shim_command shim_str) (Option.bind (jget ''command'' server) (field_str ''path''))"

definition detect_double_wrap :: "json \<Rightarrow> string \<Rightarrow> string \<Rightarrow> bool" where
  "detect_double_wrap config key shim_str =
     (case Option.bind (jget key config) as_object of
        None \<Rightarrow> False
      | Some servers_obj \<Rightarrow> list_ex (\<lambda>(_, server). wrapped_server shim_str server) servers_obj)"

end
