(* ===== verification/Wrap_Adapters.thy ===== *)
theory Wrap_Adapters
  imports Wrap_Config
begin

text \<open>
  The six adapters of \<open>thoughtgate/src/wrap/config_adapter/adapters.rs\<close>, each with its five operations, and
  the choice of \<open>adapter_for_agent_type\<close> (\<open>agent_launch.rs\<close>). The trait object is a record of operations;
  \<open>E\<close> carries the directories of the process.
\<close>

declare map_of_eq_Some_iff [simp del]

section \<open>Rewriting and restoring a file\<close>

definition rewrite_with ::
  "wrap_env \<Rightarrow> (json \<Rightarrow> bool) \<Rightarrow> (json \<Rightarrow> wrap_error + json) \<Rightarrow> string \<Rightarrow> fs \<Rightarrow> fs \<times> (wrap_error + string)" where
  "rewrite_with E managed change config_path s =
     (case read_config E config_path s of
        (s, Inl e) \<Rightarrow> (s, Inl e)
      | (s, Inr config) \<Rightarrow>
          if managed config then (s, Inl WE_AlreadyManaged)
          else (case backup_config config_path s of
                  (s, Inl e) \<Rightarrow> (s, Inl e)
                | (s, Inr backup_path) \<Rightarrow>
                    (case change config of
                       Inl e \<Rightarrow> (s, Inl e)
                     | Inr config' \<Rightarrow>
                         (case write_config E config_path config' s of
                            (s, Inl e) \<Rightarrow> (s, Inl e)
                          | (s, Inr _) \<Rightarrow> (s, Inr backup_path)))))"

definition standard_rewrite ::
  "wrap_env \<Rightarrow> string \<Rightarrow> string \<Rightarrow> mcp_server_entry list \<Rightarrow> string \<Rightarrow> shim_options \<Rightarrow> fs \<Rightarrow>
   fs \<times> (wrap_error + string)" where
  "standard_rewrite E config_path key servers shim_binary options s =
     rewrite_with E (\<lambda>config. detect_double_wrap config key shim_binary)
       (\<lambda>config. rewrite_mcp_servers_key config key servers shim_binary options) config_path s"

definition standard_restore :: "string \<Rightarrow> string \<Rightarrow> fs \<Rightarrow> fs \<times> (wrap_error + unit)" where
  "standard_restore config_path backup_path s =
     (case fs_read backup_path s of
        (s, Inl e) \<Rightarrow> (s, Inl (WE_Io e))
      | (s, Inr content) \<Rightarrow>
          (case atomic_write config_path content s of
             (s, Inl e) \<Rightarrow> (s, Inl (WE_Write (''restore write failed: '' @ io_text e)))
           | (s, Inr _) \<Rightarrow> (fst (fs_remove backup_path s), Inr ())))"

section \<open>The trait\<close>

record config_adapter =
  ca_agent_type :: agent_type
  ca_discover_config_path :: "wrap_env \<Rightarrow> fs \<Rightarrow> fs \<times> string option"
  ca_parse_servers :: "wrap_env \<Rightarrow> string \<Rightarrow> fs \<Rightarrow> fs \<times> (wrap_error + mcp_server_entry list)"
  ca_rewrite_config ::
    "wrap_env \<Rightarrow> string \<Rightarrow> mcp_server_entry list \<Rightarrow> string \<Rightarrow> shim_options \<Rightarrow> fs \<Rightarrow> fs \<times> (wrap_error + string)"
  ca_restore_config :: "wrap_env \<Rightarrow> string \<Rightarrow> string \<Rightarrow> fs \<Rightarrow> fs \<times> (wrap_error + unit)"

definition if_exists :: "string \<Rightarrow> fs \<Rightarrow> fs \<times> string option" where
  "if_exists path s = (case fs_exists path s of (s, b) \<Rightarrow> (s, if b then Some path else None))"

definition discover_in :: "string option \<Rightarrow> string list \<Rightarrow> fs \<Rightarrow> fs \<times> string option" where
  "discover_in dir names s =
     (case dir of None \<Rightarrow> (s, None) | Some d \<Rightarrow> if_exists (foldl path_join d names) s)"

text \<open>Reading the configuration, then a function of its value.\<close>

definition parse_with ::
  "wrap_env \<Rightarrow> (json \<Rightarrow> wrap_error + mcp_server_entry list) \<Rightarrow> string \<Rightarrow> fs \<Rightarrow>
   fs \<times> (wrap_error + mcp_server_entry list)" where
  "parse_with E f config_path s =
     (case read_config E config_path s of
        (s, Inl e) \<Rightarrow> (s, Inl e)
      | (s, Inr config) \<Rightarrow> (s, f config))"

text \<open>A second file that may override entries: silently skipped when absent or not readable.\<close>

definition upsert_entry :: "mcp_server_entry list \<Rightarrow> mcp_server_entry \<Rightarrow> mcp_server_entry list" where
  "upsert_entry entries e =
     (if me_id e \<in> me_id ` set entries
      then takeWhile (\<lambda>x. me_id x \<noteq> me_id e) entries @ e # tl (dropWhile (\<lambda>x. me_id x \<noteq> me_id e) entries)
      else entries @ [e])"

definition merge_from ::
  "wrap_env \<Rightarrow> string option \<Rightarrow> (mcp_server_entry \<Rightarrow> bool) \<Rightarrow> mcp_server_entry list \<Rightarrow> fs \<Rightarrow>
   fs \<times> mcp_server_entry list" where
  "merge_from E other keep entries s =
     (case other of
        None \<Rightarrow> (s, entries)
      | Some path \<Rightarrow>
          (case fs_exists path s of
             (s, False) \<Rightarrow> (s, entries)
           | (s, True) \<Rightarrow>
               (case read_config E path s of
                  (s, Inl _) \<Rightarrow> (s, entries)
                | (s, Inr config) \<Rightarrow>
                    (s, case parse_mcp_servers_key config ''mcpServers'' of
                          Inl _ \<Rightarrow> entries
                        | Inr others \<Rightarrow> foldl upsert_entry entries (filter keep others)))))"

section \<open>Claude Desktop\<close>

definition claude_desktop_adapter :: config_adapter where
  "claude_desktop_adapter =
     \<lparr>ca_agent_type = AT_ClaudeDesktop,
      ca_discover_config_path = (\<lambda>E. discover_in (we_config_dir E) [''Claude'', ''claude_desktop_config.json'']),
      ca_parse_servers = (\<lambda>E. parse_with E (\<lambda>config. parse_mcp_servers_key config ''mcpServers'')),
      ca_rewrite_config = (\<lambda>E p. standard_rewrite E p ''mcpServers''),
      ca_restore_config = (\<lambda>E. standard_restore)\<rparr>"

section \<open>Claude Code\<close>

definition get_project_key :: "wrap_env \<Rightarrow> string option" where
  "get_project_key E = we_cwd E"

definition project_servers :: "json \<Rightarrow> string \<Rightarrow> (string \<times> json) list option" where
  "project_servers config project_path =
     Option.bind (Option.bind (Option.bind (jget ''projects'' config) (jget project_path)) (jget ''mcpServers''))
       as_object"

definition server_type :: "string \<Rightarrow> json \<Rightarrow> string" where
  "server_type dflt server = (case field_str ''type'' server of Some t \<Rightarrow> t | None \<Rightarrow> dflt)"

definition parse_project_servers :: "json \<Rightarrow> string \<Rightarrow> wrap_error + mcp_server_entry list" where
  "parse_project_servers config project_path =
     (case project_servers config project_path of
        None \<Rightarrow> Inr []
      | Some servers_obj \<Rightarrow>
          collect_results
            (map parse_server (filter (\<lambda>(_, server). server_type ''stdio'' server = ''stdio'') servers_obj)))"

definition lists_server :: "string \<Rightarrow> json \<Rightarrow> bool" where
  "lists_server server_id v \<longleftrightarrow> as_str v = Some server_id"

definition is_mcp_json_server_enabled :: "json \<Rightarrow> string \<Rightarrow> string \<Rightarrow> bool" where
  "is_mcp_json_server_enabled config project_path server_id =
     (case Option.bind (jget ''projects'' config) (jget project_path) of
        None \<Rightarrow> True
      | Some project \<Rightarrow>
          if opt_holds (list_ex (lists_server server_id))
               (Option.bind (jget ''disabledMcpjsonServers'' project) as_array) then False
          else (case Option.bind (jget ''enabledMcpjsonServers'' project) as_array of
                  Some enabled \<Rightarrow> if enabled \<noteq> [] then list_ex (lists_server server_id) enabled else True
                | None \<Rightarrow> True))"

definition or_object :: "string \<Rightarrow> (string \<times> json) list \<Rightarrow> json" where
  "or_object k m = (case map_of m k of Some v \<Rightarrow> v | None \<Rightarrow> JObject [])"

definition rewrite_project_servers ::
  "json \<Rightarrow> string \<Rightarrow> mcp_server_entry list \<Rightarrow> string \<Rightarrow> shim_options \<Rightarrow> wrap_error + json" where
  "rewrite_project_servers config project_path servers shim_path options =
     (case as_object config of
        None \<Rightarrow> Inl (WE_Parse ''config is not a JSON object'')
      | Some c \<Rightarrow>
     (case as_object (or_object ''projects'' c) of
        None \<Rightarrow> Inl (WE_Parse (quoted ''projects'' @ '' is not a JSON object''))
      | Some projects \<Rightarrow>
     (case as_object (or_object project_path projects) of
        None \<Rightarrow> Inl (WE_Parse (''project '' @ quoted project_path @ '' is not a JSON object''))
      | Some project \<Rightarrow>
     (case as_object (or_object ''mcpServers'' project) of
        None \<Rightarrow> Inl (WE_Parse (quoted ''mcpServers'' @ '' is not a JSON object''))
      | Some servers_map \<Rightarrow>
          map_sum id
            (\<lambda>x. JObject (AList.update ''projects''
                   (JObject (AList.update project_path
                     (JObject (AList.update ''mcpServers'' (JObject x) project)) projects)) c))
            (rewrite_servers (shim_entry shim_path options) servers servers_map)))))"

definition detect_project_double_wrap :: "json \<Rightarrow> string \<Rightarrow> string \<Rightarrow> bool" where
  "detect_project_double_wrap config project_path shim_str =
     (case project_servers config project_path of
        None \<Rightarrow> False
      | Some servers_obj \<Rightarrow>
          list_ex (\<lambda>(_, server). opt_holds (is_shim_command shim_str) (field_str ''command'' server)) servers_obj)"

definition claude_code_parse_servers ::
  "wrap_env \<Rightarrow> string \<Rightarrow> fs \<Rightarrow> fs \<times> (wrap_error + mcp_server_entry list)" where
  "claude_code_parse_servers E config_path s =
     (case read_config E config_path s of
        (s, Inl e) \<Rightarrow> (s, Inl e)
      | (s, Inr config) \<Rightarrow>
          (case (case get_project_key E of None \<Rightarrow> Inr [] | Some pp \<Rightarrow> parse_project_servers config pp) of
             Inl e \<Rightarrow> (s, Inl e)
           | Inr entries \<Rightarrow>
               (case merge_from E (map_option (\<lambda>cwd. path_join cwd ''.mcp.json'') (we_cwd E))
                       (\<lambda>e. case get_project_key E of
                              None \<Rightarrow> True
                            | Some pk \<Rightarrow> is_mcp_json_server_enabled config pk (me_id e)) entries s of
                  (s, entries) \<Rightarrow>
                    (s, case collect_results (map (expand_server_entry_env (expand_dollar_brace E)) entries) of
                          Inl e \<Rightarrow> Inl e
                        | Inr entries \<Rightarrow>
                            if filter me_enabled entries = [] then Inl WE_NoServers
                            else Inr (filter me_enabled entries)))))"

definition claude_code_rewrite_config ::
  "wrap_env \<Rightarrow> string \<Rightarrow> mcp_server_entry list \<Rightarrow> string \<Rightarrow> shim_options \<Rightarrow> fs \<Rightarrow> fs \<times> (wrap_error + string)" where
  "claude_code_rewrite_config E config_path servers shim_binary options s =
     (case get_project_key E of
        None \<Rightarrow> (s, Inl (WE_Parse ''could not determine current working directory''))
      | Some project_key \<Rightarrow>
          rewrite_with E (\<lambda>config. detect_project_double_wrap config project_key shim_binary)
            (\<lambda>config. rewrite_project_servers config project_key servers shim_binary options) config_path s)"

definition claude_code_adapter :: config_adapter where
  "claude_code_adapter =
     \<lparr>ca_agent_type = AT_ClaudeCode,
      ca_discover_config_path = (\<lambda>E. discover_in (we_home_dir E) [''.claude.json'']),
      ca_parse_servers = claude_code_parse_servers,
      ca_rewrite_config = claude_code_rewrite_config,
      ca_restore_config = (\<lambda>E. standard_restore)\<rparr>"

section \<open>Cursor\<close>

definition cursor_project_path :: "wrap_env \<Rightarrow> string option" where
  "cursor_project_path E = map_option (\<lambda>cwd. path_join (path_join cwd ''.cursor'') ''mcp.json'') (we_cwd E)"

definition cursor_parse_servers :: "wrap_env \<Rightarrow> string \<Rightarrow> fs \<Rightarrow> fs \<times> (wrap_error + mcp_server_entry list)" where
  "cursor_parse_servers E config_path s =
     (case parse_with E (\<lambda>config. parse_mcp_servers_key config ''mcpServers'') config_path s of
        (s, Inl e) \<Rightarrow> (s, Inl e)
      | (s, Inr entries) \<Rightarrow>
          (case merge_from E (cursor_project_path E) (\<lambda>_. True) entries s of (s, entries) \<Rightarrow> (s, Inr entries)))"

text \<open>The configuration of the project; what goes wrong there is only logged.\<close>

definition cursor_rewrite_project ::
  "wrap_env \<Rightarrow> mcp_server_entry list \<Rightarrow> string \<Rightarrow> shim_options \<Rightarrow> fs \<Rightarrow> fs" where
  "cursor_rewrite_project E servers shim_binary options s =
     (case cursor_project_path E of
        None \<Rightarrow> s
      | Some project_path \<Rightarrow>
          (case fs_exists project_path s of
             (s, False) \<Rightarrow> s
           | (s, True) \<Rightarrow>
               (case read_config E project_path s of
                  (s, Inl _) \<Rightarrow> s
                | (s, Inr project_config) \<Rightarrow>
                    if Option.bind (jget ''mcpServers'' project_config) as_object = None then s
                    else fst (standard_rewrite E project_path ''mcpServers'' servers shim_binary options s))))"

definition cursor_rewrite_config ::
  "wrap_env \<Rightarrow> string \<Rightarrow> mcp_server_entry list \<Rightarrow> string \<Rightarrow> shim_options \<Rightarrow> fs \<Rightarrow> fs \<times> (wrap_error + string)" where
  "cursor_rewrite_config E config_path servers shim_binary options s =
     (case standard_rewrite E config_path ''mcpServers'' servers shim_binary options s of
        (s, Inl e) \<Rightarrow> (s, Inl e)
      | (s, Inr backup_path) \<Rightarrow> (cursor_rewrite_project E servers shim_binary options s, Inr backup_path))"

definition cursor_restore_config :: "wrap_env \<Rightarrow> string \<Rightarrow> string \<Rightarrow> fs \<Rightarrow> fs \<times> (wrap_error + unit)" where
  "cursor_restore_config E config_path backup_path s =
     (case standard_restore config_path backup_path s of
        (s, Inl e) \<Rightarrow> (s, Inl e)
      | (s, Inr _) \<Rightarrow>
          (case cursor_project_path E of
             None \<Rightarrow> (s, Inr ())
           | Some project_path \<Rightarrow>
               (case fs_exists (project_path @ backup_suffix) s of
                  (s, False) \<Rightarrow> (s, Inr ())
                | (s, True) \<Rightarrow> (fst (standard_restore project_path (project_path @ backup_suffix) s), Inr ()))))"

definition cursor_adapter :: config_adapter where
  "cursor_adapter =
     \<lparr>ca_agent_type = AT_Cursor,
      ca_discover_config_path = (\<lambda>E. discover_in (we_home_dir E) [''.cursor'', ''mcp.json'']),
      ca_parse_servers = cursor_parse_servers,
      ca_rewrite_config = cursor_rewrite_config,
      ca_restore_config = cursor_restore_config\<rparr>"

section \<open>VS Code\<close>

definition vscode_parse_server :: "string \<times> json \<Rightarrow> wrap_error + mcp_server_entry" where
  "vscode_parse_server = (\<lambda>(i, server).
     case field_str ''command'' server of
       None \<Rightarrow> Inl (missing_command ''stdio server'' i)
     | Some command \<Rightarrow>
         Inr \<lparr>me_id = i, me_command = command, me_args = server_args server,
              me_env = server_vars server, me_enabled = True\<rparr>)"

definition vscode_parse :: "json \<Rightarrow> wrap_error + mcp_server_entry list" where
  "vscode_parse config =
     (case Option.bind (jget ''servers'' config) as_object of
        None \<Rightarrow> Inl (WE_Parse (''missing or invalid '' @ quoted ''servers'' @ '' key in VS Code config''))
      | Some servers_obj \<Rightarrow>
          collect_results
            (map vscode_parse_server (filter (\<lambda>(_, server). server_type '''' server = ''stdio'') servers_obj)))"

definition vscode_rewrite_config ::
  "wrap_env \<Rightarrow> string \<Rightarrow> mcp_server_entry list \<Rightarrow> string \<Rightarrow> shim_options \<Rightarrow> fs \<Rightarrow> fs \<times> (wrap_error + string)" where
  "vscode_rewrite_config E config_path servers shim_binary options s =
     rewrite_with E (\<lambda>config. detect_double_wrap config ''servers'' shim_binary)
       (rewrite_key (WE_Parse (''missing '' @ quoted ''servers'' @ '' key'')) ''servers''
         (rewrite_servers (shim_entry shim_binary options) servers)) config_path s"

definition vscode_adapter :: config_adapter where
  "vscode_adapter =
     \<lparr>ca_agent_type = AT_VsCode,
      ca_discover_config_path = (\<lambda>E. discover_in (we_cwd E) [''.vscode'', ''mcp.json'']),
      ca_parse_servers = (\<lambda>E. parse_with E vscode_parse),
      ca_rewrite_config = vscode_rewrite_config,
      ca_restore_config = (\<lambda>E. standard_restore)\<rparr>"

section \<open>Windsurf\<close>

definition windsurf_parse :: "wrap_env \<Rightarrow> json \<Rightarrow> wrap_error + mcp_server_entry list" where
  "windsurf_parse E config =
     (case parse_mcp_servers_key config ''mcpServers'' of
        Inl e \<Rightarrow> Inl e
      | Inr entries \<Rightarrow> collect_results (map (expand_server_entry_env (expand_env_colon E)) entries))"

definition windsurf_adapter :: config_adapter where
  "windsurf_adapter =
     \<lparr>ca_agent_type = AT_Windsurf,
      ca_discover_config_path =
        (\<lambda>E. discover_in (we_home_dir E) [''.codeium'', ''windsurf'', ''mcp_config.json'']),
      ca_parse_servers = (\<lambda>E. parse_with E (windsurf_parse E)),
      ca_rewrite_config = (\<lambda>E p. standard_rewrite E p ''mcpServers''),
      ca_restore_config = (\<lambda>E. standard_restore)\<rparr>"

section \<open>Zed\<close>

definition zed_command :: "string \<Rightarrow> json \<Rightarrow> wrap_error + string \<times> string list" where
  "zed_command i server =
     (case jget ''command'' server of
        None \<Rightarrow> Inl (missing_command ''context server'' i)
      | Some cmd_obj \<Rightarrow>
          (case as_str cmd_obj of
             Some cmd_str \<Rightarrow> Inr (cmd_str, [])
           | None \<Rightarrow>
               (case as_object cmd_obj of
                  None \<Rightarrow> Inl (WE_Parse (''context server '' @ quoted i @ '' has invalid '' @ quoted ''command'' @
                                '' field type''))
                | Some cmd_map \<Rightarrow>
                    (case field_str ''path'' cmd_obj of
                       None \<Rightarrow> Inl (WE_Parse (''context server '' @ quoted i @ '' has command object without '' @
                                     quoted ''path''))
                     | Some path \<Rightarrow> Inr (path, server_args cmd_obj)))))"

definition zed_parse_server :: "string \<times> json \<Rightarrow> wrap_error + mcp_server_entry" where
  "zed_parse_server = (\<lambda>(i, server).
     map_sum id (\<lambda>(command, args). \<lparr>me_id = i, me_command = command, me_args = args,
                    me_env = server_vars server, me_enabled = True\<rparr>) (zed_command i server))"

definition zed_parse :: "json \<Rightarrow> wrap_error + mcp_server_entry list" where
  "zed_parse config =
     (case Option.bind (jget ''context_servers'' config) as_object of
        None \<Rightarrow> Inl (WE_Parse (''missing or invalid '' @ quoted ''context_servers'' @ '' key in Zed config''))
      | Some servers_obj \<Rightarrow> collect_results (map zed_parse_server servers_obj))"

definition zed_rewrite_config ::
  "wrap_env \<Rightarrow> string \<Rightarrow> mcp_server_entry list \<Rightarrow> string \<Rightarrow> shim_options \<Rightarrow> fs \<Rightarrow> fs \<times> (wrap_error + string)" where
  "zed_rewrite_config E config_path servers shim_binary options s =
     rewrite_with E (\<lambda>config. detect_double_wrap config ''context_servers'' shim_binary)
       (rewrite_key (WE_Parse (''missing '' @ quoted ''context_servers'' @ '' key'')) ''context_servers''
         (rewrite_servers (zed_entry shim_binary options) servers)) config_path s"

definition zed_adapter :: config_adapter where
  "zed_adapter =
     \<lparr>ca_agent_type = AT_Zed,
      ca_discover_config_path = (\<lambda>E. discover_in (we_config_dir E) [''zed'', ''settings.json'']),
      ca_parse_servers = (\<lambda>E. parse_with E zed_parse),
      ca_rewrite_config = zed_rewrite_config,
      ca_restore_config = (\<lambda>E. standard_restore)\<rparr>"

section \<open>Choosing an adapter\<close>

fun adapter_for_agent_type :: "agent_type \<Rightarrow> config_adapter" where
  "adapter_for_agent_type AT_ClaudeDesktop = claude_desktop_adapter"
| "adapter_for_agent_type AT_ClaudeCode = claude_code_adapter"
| "adapter_for_agent_type AT_Cursor = cursor_adapter"
| "adapter_for_agent_type AT_VsCode = vscode_adapter"
| "adapter_for_agent_type AT_Windsurf = windsurf_adapter"
| "adapter_for_agent_type AT_Zed = zed_adapter"
| "adapter_for_agent_type AT_Custom = claude_desktop_adapter"

end
