(* ===== verification/Capability.thy ===== *)
theory Capability
  imports List_Filtering Jsonrpc
begin

text \<open>
  Capabilities of the \<open>initialize\<close> handshake (\<open>protocol/capability.rs\<close>): what the
  upstream announces is read and cached, the gateway's own task capability is added, and the
  announcement of task status notifications is removed.
\<close>

declare map_of_eq_Some_iff [simp del]

section \<open>The cache\<close>

record capability_cache =
  cc_upstream_supports_tasks :: bool
  cc_upstream_supports_task_sse :: bool
  cc_has_initialized :: bool

definition capability_cache_new :: capability_cache where
  "capability_cache_new = \<lparr>cc_upstream_supports_tasks = False, cc_upstream_supports_task_sse = False,
     cc_has_initialized = False\<rparr>"

definition set_upstream_supports_tasks :: "bool \<Rightarrow> capability_cache \<Rightarrow> capability_cache" where
  "set_upstream_supports_tasks b c = c\<lparr>cc_upstream_supports_tasks := b, cc_has_initialized := True\<rparr>"

definition set_upstream_supports_task_sse :: "bool \<Rightarrow> capability_cache \<Rightarrow> capability_cache" where
  "set_upstream_supports_task_sse b c = c\<lparr>cc_upstream_supports_task_sse := b\<rparr>"

definition invalidate :: "capability_cache \<Rightarrow> capability_cache" where
  "invalidate c = \<lparr>cc_upstream_supports_tasks = False, cc_upstream_supports_task_sse = False,
     cc_has_initialized = False\<rparr>"

section \<open>Reading and writing capabilities\<close>

fun jpath :: "string list \<Rightarrow> json \<Rightarrow> json option" where
  "jpath [] v = Some v"
| "jpath (k # ks) v = Option.bind (jget k v) (jpath ks)"

definition bool_at :: "string list \<Rightarrow> json \<Rightarrow> bool" where
  "bool_at p v = (case jpath p v of Some (JBool b) \<Rightarrow> b | _ \<Rightarrow> False)"

definition extract_upstream_task_support :: "json \<Rightarrow> bool" where
  "extract_upstream_task_support result = bool_at [''capabilities'', ''tasks'', ''requests'', ''tools/call''] result"

definition extract_upstream_sse_support :: "json \<Rightarrow> bool" where
  "extract_upstream_sse_support result = bool_at [''capabilities'', ''notifications'', ''tasks'', ''status''] result"

text \<open>\<open>entry(k).or_insert({})\<close> followed by a change of the entry if it is an object.\<close>

definition with_entry ::
  "string \<Rightarrow> ((string \<times> json) list \<Rightarrow> (string \<times> json) list) \<Rightarrow> (string \<times> json) list \<Rightarrow> (string \<times> json) list" where
  "with_entry k f obj =
     (let v = (case map_of obj k of Some v \<Rightarrow> v | None \<Rightarrow> JObject [])
      in AList.update k (case v of JObject m \<Rightarrow> JObject (f m) | _ \<Rightarrow> v) obj)"

definition inject_task_capability :: "json \<Rightarrow> json" where
  "inject_task_capability result =
     (case result of
        JObject obj \<Rightarrow> JObject (with_entry ''capabilities'' (with_entry ''tasks'' (with_entry ''requests''
          (AList.update ''tools/call'' (JBool True)))) obj)
      | _ \<Rightarrow> result)"

definition inject_sse_capability :: "json \<Rightarrow> json" where
  "inject_sse_capability result =
     (case result of
        JObject obj \<Rightarrow> JObject (with_entry ''capabilities'' (with_entry ''notifications'' (with_entry ''tasks''
          (AList.update ''status'' (JBool True)))) obj)
      | _ \<Rightarrow> result)"

definition strip_notifications :: "(string \<times> json) list \<Rightarrow> (string \<times> json) list" where
  "strip_notifications notifications =
     (case map_of notifications ''tasks'' of
        Some (JObject tasks) \<Rightarrow>
          let tasks' = swap_remove ''status'' tasks
          in if tasks' = [] then swap_remove ''tasks'' notifications
             else AList.update ''tasks'' (JObject tasks') notifications
      | _ \<Rightarrow> notifications)"

definition strip_capabilities :: "(string \<times> json) list \<Rightarrow> (string \<times> json) list" where
  "strip_capabilities capabilities =
     (case map_of capabilities ''notifications'' of
        Some (JObject notifications) \<Rightarrow>
          let notifications' = strip_notifications notifications
          in if notifications' = [] then swap_remove ''notifications'' capabilities
             else AList.update ''notifications'' (JObject notifications') capabilities
      | _ \<Rightarrow> capabilities)"

definition strip_sse_capability :: "json \<Rightarrow> json" where
  "strip_sse_capability result =
     (case result of
        JObject obj \<Rightarrow>
          (case map_of obj ''capabilities'' of
             Some (JObject capabilities) \<Rightarrow>
               JObject (AList.update ''capabilities'' (JObject (strip_capabilities capabilities)) obj)
           | _ \<Rightarrow> result)
      | _ \<Rightarrow> result)"

section \<open>What is announced\<close>

text \<open>Keys of every object are distinct, as in any \<open>serde_json::Map\<close>.\<close>

fun json_wf :: "json \<Rightarrow> bool" where
  "json_wf (JArray vs) = (\<forall>v\<in>set vs. json_wf v)"
| "json_wf (JObject m) = (keys_distinct m \<and> (\<forall>(k, v)\<in>set m. json_wf v))"
| "json_wf _ = True"

lemma json_wf_lookup: "json_wf (JObject m) \<Longrightarrow> map_of m k = Some v \<Longrightarrow> json_wf v"
  by (auto dest: map_of_SomeD)

lemma jget_update [simp]:
  "jget k' (JObject (AList.update k v m)) = (if k' = k then Some v else jget k' (JObject m))"
  by (simp add: jget_def AList.update_conv')

lemma jget_swap_remove:
  "keys_distinct m \<Longrightarrow> jget k' (JObject (swap_remove k m)) = (if k' = k then None else jget k' (JObject m))"
  by (simp add: jget_def map_of_swap_remove)

lemma bool_at_Cons: "bool_at (k # p) v = (case jget k v of Some w \<Rightarrow> bool_at p w | None \<Rightarrow> False)"
  by (simp add: bool_at_def split: option.splits)

text \<open>A path is open if it can be extended to an object: every step is absent or an object.\<close>

fun open_path :: "string list \<Rightarrow> json \<Rightarrow> bool" where
  "open_path [] v = (\<exists>m. v = JObject m)"
| "open_path (k # ks) v =
     (case v of JObject m \<Rightarrow> (case map_of m k of None \<Rightarrow> True | Some w \<Rightarrow> open_path ks w) | _ \<Rightarrow> False)"

lemma open_path_object: "open_path ks v \<Longrightarrow> \<exists>m. v = JObject m"
  by (cases ks; cases v) auto

lemma jpath_with_entry:
  assumes "open_path (k # ks) (JObject m)" and "\<And>m'. open_path ks (JObject m') \<Longrightarrow> jpath p (JObject (f m')) = Some w"
  shows "jpath (k # p) (JObject (with_entry k f m)) = Some w"
proof (cases "map_of m k")
  case None
  then show ?thesis using assms(2) [of "[]"] by (cases ks) (auto simp: with_entry_def)
next
  case (Some v)
  then have "open_path ks v" using assms(1) by simp
  with open_path_object [OF this] Some assms(2) show ?thesis by (auto simp: with_entry_def)
qed

lemma jpath_with_entry_other:
  "k' \<noteq> k \<Longrightarrow> jpath (k' # ks) (JObject (with_entry k f m)) = jpath (k' # ks) (JObject m)"
  by (simp add: with_entry_def Let_def)

lemma inject_task_support:
  assumes "open_path [''capabilities'', ''tasks'', ''requests''] result"
  shows "extract_upstream_task_support (inject_task_capability result)"
proof -
  obtain m where m: "result = JObject m" using open_path_object [OF assms] by blast
  have s1: "jpath [''tools/call''] (JObject (AList.update ''tools/call'' (JBool True) m')) = Some (JBool True)" for m'
    by simp
  have s2: "jpath [''requests'', ''tools/call''] (JObject (with_entry ''requests''
      (AList.update ''tools/call'' (JBool True)) m')) = Some (JBool True)"
    if o: "open_path [''requests''] (JObject m')" for m' by (rule jpath_with_entry [OF o s1])
  have s3: "jpath [''tasks'', ''requests'', ''tools/call''] (JObject (with_entry ''tasks'' (with_entry ''requests''
      (AList.update ''tools/call'' (JBool True))) m')) = Some (JBool True)"
    if o: "open_path [''tasks'', ''requests''] (JObject m')" for m' by (rule jpath_with_entry [OF o s2])
  have "jpath [''capabilities'', ''tasks'', ''requests'', ''tools/call''] (inject_task_capability result) =
      Some (JBool True)"
    unfolding m inject_task_capability_def json.case by (rule jpath_with_entry [OF assms [unfolded m] s3])
  then show ?thesis by (simp add: extract_upstream_task_support_def bool_at_def)
qed

lemma bool_at_not_object: "(\<And>m. v \<noteq> JObject m) \<Longrightarrow> \<not> bool_at (k # p) v"
  by (cases v) (auto simp: bool_at_Cons jget_def)

lemma bool_at_strip_notifications:
  assumes "json_wf (JObject n)"
  shows "\<not> bool_at [''tasks'', ''status''] (JObject (strip_notifications n))"
proof (cases "map_of n ''tasks''")
  case None
  then show ?thesis by (simp add: strip_notifications_def bool_at_Cons jget_def)
next
  case (Some v)
  show ?thesis
  proof (cases "\<exists>t. v = JObject t")
    case True
    then obtain t where v: "v = JObject t" by blast
    then have "keys_distinct t" "keys_distinct n" using assms Some json_wf_lookup [of n "''tasks''"] by auto
    then show ?thesis
      using Some v by (simp add: strip_notifications_def Let_def bool_at_Cons jget_swap_remove)
  next
    case False
    then have "strip_notifications n = n" by (simp add: strip_notifications_def Some split: json.splits)
    with False Some show ?thesis by (simp add: bool_at_Cons [of "''tasks''"] jget_def bool_at_not_object)
  qed
qed

lemma bool_at_strip_capabilities:
  assumes "json_wf (JObject c)"
  shows "\<not> bool_at [''notifications'', ''tasks'', ''status''] (JObject (strip_capabilities c))"
proof (cases "map_of c ''notifications''")
  case None
  then show ?thesis by (simp add: strip_capabilities_def bool_at_Cons jget_def)
next
  case (Some v)
  show ?thesis
  proof (cases "\<exists>n. v = JObject n")
    case True
    then obtain n where v: "v = JObject n" by blast
    then have "json_wf (JObject n)" "keys_distinct c" using assms Some json_wf_lookup [of c "''notifications''"] by auto
    then show ?thesis using Some v bool_at_strip_notifications [of n]
      by (simp add: strip_capabilities_def Let_def bool_at_Cons [of "''notifications''"] jget_swap_remove)
  next
    case False
    then have "strip_capabilities c = c" by (simp add: strip_capabilities_def Some split: json.splits)
    with False Some show ?thesis by (simp add: bool_at_Cons [of "''notifications''"] jget_def bool_at_not_object)
  qed
qed

lemma strip_sse_support:
  assumes "json_wf result"
  shows "\<not> extract_upstream_sse_support (strip_sse_capability result)"
proof (cases "\<exists>m c. result = JObject m \<and> map_of m ''capabilities'' = Some (JObject c)")
  case True
  then obtain m c where m: "result = JObject m" "map_of m ''capabilities'' = Some (JObject c)" by blast
  then have "json_wf (JObject c)" using assms json_wf_lookup by blast
  with m bool_at_strip_capabilities show ?thesis
    by (simp add: extract_upstream_sse_support_def strip_sse_capability_def bool_at_Cons [of "''capabilities''"])
next
  case False
  then have "strip_sse_capability result = result"
    by (auto simp: strip_sse_capability_def split: json.splits option.splits)
  with False show ?thesis
    by (auto simp: extract_upstream_sse_support_def bool_at_Cons [of "''capabilities''"] jget_def bool_at_not_object
        split: json.splits option.splits)
qed

lemma set_alist_update: "set (AList.update k v m) \<subseteq> insert (k, v) (set m)"
  by (induction m) auto

lemma json_wf_update: "json_wf (JObject m) \<Longrightarrow> json_wf v \<Longrightarrow> json_wf (JObject (AList.update k v m))"
  using set_alist_update [of k v m] by (auto simp: distinct_update)

lemma json_wf_with_entry:
  assumes "json_wf (JObject m)" and "\<And>m'. json_wf (JObject m') \<Longrightarrow> json_wf (JObject (f m'))"
  shows "json_wf (JObject (with_entry k f m))"
proof -
  let ?v = "case map_of m k of Some v \<Rightarrow> v | None \<Rightarrow> JObject []"
  have "json_wf ?v" using json_wf_lookup [OF assms(1)] by (auto split: option.splits)
  then have "json_wf (case ?v of JObject m \<Rightarrow> JObject (f m) | v \<Rightarrow> v)"
    using assms(2) by (cases ?v) auto
  then show ?thesis unfolding with_entry_def Let_def by (intro json_wf_update assms(1)) (cases ?v; auto)
qed

lemma json_wf_inject: "json_wf result \<Longrightarrow> json_wf (inject_task_capability result)"
  by (cases result)
    (auto simp: inject_task_capability_def simp del: json_wf.simps(2) intro!: json_wf_with_entry json_wf_update)

lemma strip_keeps_task_support:
  assumes "json_wf result"
  shows "extract_upstream_task_support (strip_sse_capability result) = extract_upstream_task_support result"
proof (cases "\<exists>m c. result = JObject m \<and> map_of m ''capabilities'' = Some (JObject c)")
  case True
  then obtain m c where m: "result = JObject m" "map_of m ''capabilities'' = Some (JObject c)" by blast
  then have "keys_distinct c" using assms json_wf_lookup [of m "''capabilities''" "JObject c"] by simp
  then have "jget ''tasks'' (JObject (strip_capabilities c)) = jget ''tasks'' (JObject c)"
    by (auto simp: strip_capabilities_def Let_def jget_swap_remove split: option.split json.split)
  with m show ?thesis
    by (simp add: extract_upstream_task_support_def strip_sse_capability_def bool_at_Cons [of "''capabilities''"]
        bool_at_Cons [of "''tasks''"]) (simp add: jget_def bool_at_Cons [of "''tasks''"])
next
  case False
  then have "strip_sse_capability result = result"
    by (auto simp: strip_sse_capability_def split: json.splits option.splits)
  then show ?thesis by simp
qed

end
