(* ===== verification/Wrap_Laws.thy ===== *)
theory Wrap_Laws
  imports Wrap_Adapters Capability
begin

text \<open>
  What the adapters promise about the files. Writing is atomic: a failure at any call leaves the
  configuration as it was. A rewrite that succeeds has left the bytes it found in the backup. The locale
  \<open>config_rewriter\<close> states this contract of the trait; it is interpreted for every adapter. Then what the
  rewritten value is: every server that was parsed starts the shim, with the original command line after
  the separator, and nothing else of the configuration changes.
\<close>

declare map_of_eq_Some_iff [simp del]

section \<open>Paths of temporary files and backups\<close>

definition plain_path :: "string \<Rightarrow> bool" where
  "plain_path p \<longleftrightarrow> file_name p \<noteq> None \<and> \<not> suffix ''.tmp'' p"

lemma with_extension_tmp: "file_name p \<noteq> None \<Longrightarrow> suffix ''.tmp'' (with_extension p ''tmp'')"
  by (auto simp: with_extension_def suffix_def)

lemma plain_path_tmp: "plain_path p \<Longrightarrow> plain_path k \<Longrightarrow> k \<noteq> with_extension p ''tmp''"
  using with_extension_tmp [of p] by (auto simp: plain_path_def)

lemma strip_rev_id: "c \<noteq> CHR ''/'' \<Longrightarrow> c \<noteq> CHR ''.'' \<Longrightarrow> strip_rev (c # s) = c # s"
  by simp

lemma rev_name_backup:
  "rev_name (p @ backup_suffix) = rev backup_suffix @ takeWhile (\<lambda>c. c \<noteq> CHR ''/'') (rev p)"
  by (simp add: rev_name_def backup_suffix_def)

lemma backup_not_tmp: "\<not> suffix ''.tmp'' (p @ backup_suffix)"
  by (simp add: suffix_to_prefix backup_suffix_def)

lemma plain_backup: "plain_path (p @ backup_suffix)"
  using backup_not_tmp [of p]
  by (simp add: plain_path_def file_name_def rev_name_backup) (simp add: backup_suffix_def)

lemma backup_suffix_not_Nil [simp]: "backup_suffix \<noteq> []"
  by (simp add: backup_suffix_def)

section \<open>Atomic writes\<close>

lemma atomic_write_ok:
  assumes "atomic_write p content s = (s', Inr u)"
  shows "fs_file p s' = Some content"
  using assms
  by (auto simp: atomic_write_def Let_def fs_write_ok fs_rename_ok split: prod.splits sum.splits)

lemma atomic_write_frame:
  assumes "atomic_write p content s = (s', r)" "k \<noteq> with_extension p ''tmp''" "k \<noteq> p"
  shows "fs_file k s' = fs_file k s"
  using assms
  by (auto simp: atomic_write_def Let_def fs_write_frame fs_rename_ok fs_rename_err fs_remove_fst
      split: prod.splits sum.splits)

lemma atomic_write_err:
  assumes "atomic_write p content s = (s', Inl e)" "k \<noteq> with_extension p ''tmp''"
  shows "fs_file k s' = fs_file k s"
  using assms
  by (auto simp: atomic_write_def Let_def fs_write_frame fs_rename_ok fs_rename_err fs_remove_fst
      split: prod.splits sum.splits)

lemma write_config_ok:
  assumes "write_config E p v s = (s', Inr u)"
  shows "\<exists>text. we_pretty E v = Inr text \<and> fs_file p s' = Some text"
  using assms
  by (auto simp: write_config_def map_prod_def atomic_write_ok map_sum_Inr_iff
      split: sum.splits prod.splits)

lemma write_config_err:
  assumes "write_config E p v s = (s', Inl e)" "k \<noteq> with_extension p ''tmp''"
  shows "fs_file k s' = fs_file k s"
  using assms
  by (auto simp: write_config_def map_prod_def map_sum_Inl_iff dest: atomic_write_err
      split: sum.splits prod.splits)

lemma write_config_frame:
  assumes "write_config E p v s = (s', r)" "k \<noteq> with_extension p ''tmp''" "k \<noteq> p"
  shows "fs_file k s' = fs_file k s"
  using assms
  by (auto simp: write_config_def map_prod_def dest: atomic_write_frame
      split: sum.splits prod.splits)

lemma read_config_file: "read_config E p s = (s', r) \<Longrightarrow> fs_file k s' = fs_file k s"
  by (auto simp: read_config_def read_to_string_def fs_read_file split: prod.splits sum.splits)

lemma read_config_ok:
  assumes "read_config E p s = (s', Inr v)"
  shows "\<exists>b. fs_file p s = Some b \<and> we_utf8 E b \<and> we_parse E b = Inr v"
  using assms
  by (auto simp: read_config_def read_to_string_def map_sum_Inr_iff fs_read_ok
      split: prod.splits sum.splits if_splits)

lemma backup_config_frame:
  assumes "backup_config p s = (s', r)"
    and "k \<noteq> with_extension (p @ backup_suffix) ''tmp''" "k \<noteq> p @ backup_suffix"
  shows "fs_file k s' = fs_file k s"
  using assms
  by (auto simp: backup_config_def Let_def fs_read_file dest: atomic_write_frame
      split: prod.splits sum.splits if_splits)

lemma backup_config_keeps: "backup_config p s = (s', r) \<Longrightarrow> plain_path p \<Longrightarrow> fs_file p s' = fs_file p s"
  by (erule backup_config_frame) (simp_all add: plain_path_tmp plain_backup)

lemma write_config_keeps: "write_config E p v s = (s', Inl e) \<Longrightarrow> plain_path p \<Longrightarrow> fs_file p s' = fs_file p s"
  by (erule write_config_err) (simp add: plain_path_tmp)

lemma backup_config_ok:
  assumes "backup_config p s = (s', Inr b)"
  shows "b = p @ backup_suffix \<and> fs_file p s \<noteq> None \<and> fs_file b s' = fs_file p s"
  using assms
  by (auto simp: backup_config_def Let_def fs_read_file fs_read_ok atomic_write_ok
      split: prod.splits sum.splits if_splits)

lemma atomic_write_calm [calm]: "atomic_write p c s = (s', r) \<Longrightarrow> fs_faults s = [] \<Longrightarrow> fs_faults s' = []"
  by (auto simp: atomic_write_def Let_def calm split: prod.splits sum.splits)

lemma read_config_calm [calm]: "read_config E p s = (s', r) \<Longrightarrow> fs_faults s = [] \<Longrightarrow> fs_faults s' = []"
  by (auto simp: read_config_def read_to_string_def calm split: prod.splits sum.splits)

lemma write_config_calm [calm]: "write_config E p v s = (s', r) \<Longrightarrow> fs_faults s = [] \<Longrightarrow> fs_faults s' = []"
  by (auto simp: write_config_def map_prod_def calm split: prod.splits sum.splits)

lemma backup_config_calm [calm]: "backup_config p s = (s', r) \<Longrightarrow> fs_faults s = [] \<Longrightarrow> fs_faults s' = []"
  by (auto simp: backup_config_def Let_def calm split: prod.splits sum.splits if_splits)

section \<open>The contract of a rewrite\<close>

definition touched :: "string \<Rightarrow> string set" where
  "touched p = {p, p @ backup_suffix, with_extension p ''tmp'', with_extension (p @ backup_suffix) ''tmp''}"

lemma rewrite_with_frame:
  assumes "rewrite_with E managed change p s = (s', r)" "k \<notin> touched p"
  shows "fs_file k s' = fs_file k s"
  using assms
  by (auto simp: rewrite_with_def touched_def read_config_file backup_config_frame write_config_frame
      split: prod.splits sum.splits if_splits)

lemma rewrite_with_calm [calm]:
  "rewrite_with E managed change p s = (s', r) \<Longrightarrow> fs_faults s = [] \<Longrightarrow> fs_faults s' = []"
  by (auto simp: rewrite_with_def calm split: prod.splits sum.splits if_splits)

lemma rewrite_with_err:
  assumes "rewrite_with E managed change p s = (s', Inl e)" "plain_path p"
  shows "fs_file p s' = fs_file p s"
  using assms
  by (auto simp: rewrite_with_def read_config_file backup_config_keeps write_config_keeps
      split: prod.splits sum.splits if_splits)

lemma rewrite_with_ok:
  assumes "rewrite_with E managed change p s = (s', Inr b)" "plain_path p"
  shows "b = p @ backup_suffix" "fs_file b s' = fs_file p s"
    "\<exists>old config config' new. fs_file p s = Some old \<and> we_parse E old = Inr config \<and> \<not> managed config \<and>
       change config = Inr config' \<and> we_pretty E config' = Inr new \<and> fs_file p s' = Some new"
proof -
  from assms(1) obtain s1 config s2 config' u where
      r: "read_config E p s = (s1, Inr config)" and m: "\<not> managed config"
      and k: "backup_config p s1 = (s2, Inr b)" and c: "change config = Inr config'"
      and w: "write_config E p config' s2 = (s', Inr u)"
    by (auto simp: rewrite_with_def split: prod.splits sum.splits if_splits)
  from backup_config_ok [OF k, unfolded read_config_file [OF r]]
  have b: "b = p @ backup_suffix" and f: "fs_file b s2 = fs_file p s" by blast+
  have "fs_file b s' = fs_file b s2"
    using w b plain_path_tmp [OF assms(2) plain_backup] by (auto intro: write_config_frame)
  with f show "fs_file b s' = fs_file p s" by simp
  show "b = p @ backup_suffix" by (rule b)
  show "\<exists>old config config' new. fs_file p s = Some old \<and> we_parse E old = Inr config \<and> \<not> managed config \<and>
       change config = Inr config' \<and> we_pretty E config' = Inr new \<and> fs_file p s' = Some new"
    using read_config_ok [OF r] m c write_config_ok [OF w] by blast
qed

lemma rewrite_with_managed:
  assumes "we_parse E old = Inr config" "managed config" "fs_file p s = Some old" "we_utf8 E old"
    "fs_faults s = []"
  shows "rewrite_with E managed change p s = (s, Inl WE_AlreadyManaged)"
  using assms
  by (simp add: rewrite_with_def read_config_def read_to_string_def fs_read_def take_fault_def)

text \<open>The trait \<open>ConfigAdapter\<close> as its clients rely on it: \<open>ready\<close> is the condition on the path of the
  configuration, \<open>side\<close> the other files the operation works on.\<close>

locale config_rewriter =
  fixes rewrite :: "wrap_env \<Rightarrow> string \<Rightarrow> mcp_server_entry list \<Rightarrow> string \<Rightarrow> shim_options \<Rightarrow> fs \<Rightarrow> fs \<times> (wrap_error + string)"
    and side :: "wrap_env \<Rightarrow> string set"
  assumes failed: "plain_path p \<Longrightarrow> p \<notin> side E \<Longrightarrow> rewrite E p servers shim opts s = (s', Inl e) \<Longrightarrow>
      fs_file p s' = fs_file p s"
    and saved: "plain_path p \<Longrightarrow> p \<notin> side E \<Longrightarrow> p @ backup_suffix \<notin> side E \<Longrightarrow>
      rewrite E p servers shim opts s = (s', Inr b) \<Longrightarrow> b = p @ backup_suffix \<and> fs_file b s' = fs_file p s"
    and frame: "rewrite E p servers shim opts s = (s', r) \<Longrightarrow> k \<notin> touched p \<Longrightarrow> k \<notin> side E \<Longrightarrow>
      fs_file k s' = fs_file k s"
    and quiet: "rewrite E p servers shim opts s = (s', r) \<Longrightarrow> fs_faults s = [] \<Longrightarrow> fs_faults s' = []"
begin

text \<open>Copying the backup over the configuration undoes the rewrite.\<close>

lemma undone:
  assumes "plain_path p" "p \<notin> side E" "p @ backup_suffix \<notin> side E"
    and "rewrite E p servers shim opts s = (s', Inr b)" "fs_copy b p s' = (s'', Inr u)"
  shows "fs_file p s'' = fs_file p s"
  using saved [OF assms(1-4)] fs_copy_ok [OF assms(5), of p] by metis

end

text \<open>A rewrite of one file satisfies the contract with no other files.\<close>

lemma single_file_rewriter:
  assumes "\<And>E p servers shim opts s.
    (\<exists>managed change. rewrite E p servers shim opts s = rewrite_with E managed change p s) \<or>
    (\<exists>e. rewrite E p servers shim opts s = (s, Inl e))"
  shows "config_rewriter rewrite (\<lambda>E. {})"
proof (unfold_locales, goal_cases)
  case (1 p E servers shim opts s s' e)
  then show ?case using assms [of E p servers shim opts s] by (metis rewrite_with_err prod.inject)
next
  case (2 p E servers shim opts s s' b)
  then show ?case using assms [of E p servers shim opts s] by (metis rewrite_with_ok(1,2) prod.inject sum.distinct(1))
next
  case (3 E p servers shim opts s s' r k)
  then show ?case using assms [of E p servers shim opts s] by (metis rewrite_with_frame prod.inject)
next
  case (4 E p servers shim opts s s' r)
  then show ?case using assms [of E p servers shim opts s] by (metis rewrite_with_calm prod.inject)
qed

interpretation desktop_rw: config_rewriter "ca_rewrite_config claude_desktop_adapter" "\<lambda>E. {}"
  by (rule single_file_rewriter) (auto simp: claude_desktop_adapter_def standard_rewrite_def)

interpretation code_rw: config_rewriter "ca_rewrite_config claude_code_adapter" "\<lambda>E. {}"
  by (rule single_file_rewriter)
    (auto simp: claude_code_adapter_def claude_code_rewrite_config_def split: option.splits)

interpretation vscode_rw: config_rewriter "ca_rewrite_config vscode_adapter" "\<lambda>E. {}"
  by (rule single_file_rewriter) (auto simp: vscode_adapter_def vscode_rewrite_config_def)

interpretation windsurf_rw: config_rewriter "ca_rewrite_config windsurf_adapter" "\<lambda>E. {}"
  by (rule single_file_rewriter) (auto simp: windsurf_adapter_def standard_rewrite_def)

interpretation zed_rw: config_rewriter "ca_rewrite_config zed_adapter" "\<lambda>E. {}"
  by (rule single_file_rewriter) (auto simp: zed_adapter_def zed_rewrite_config_def)

text \<open>Cursor also rewrites the configuration of the project.\<close>

definition cursor_side :: "wrap_env \<Rightarrow> string set" where
  "cursor_side E = (case cursor_project_path E of None \<Rightarrow> {} | Some pp \<Rightarrow> touched pp)"

lemma cursor_project_frame:
  "k \<notin> cursor_side E \<Longrightarrow> fs_file k (cursor_rewrite_project E servers shim opts s) = fs_file k s"
  by (auto simp: cursor_rewrite_project_def cursor_side_def standard_rewrite_def fs_exists_file read_config_file
      rewrite_with_frame [OF prod.collapse [symmetric]] split: option.splits prod.splits bool.splits sum.splits)

lemma cursor_project_calm:
  "fs_faults s = [] \<Longrightarrow> fs_faults (cursor_rewrite_project E servers shim opts s) = []"
  by (auto simp: cursor_rewrite_project_def standard_rewrite_def calm
      rewrite_with_calm [OF prod.collapse [symmetric]] split: option.splits prod.splits bool.splits sum.splits)

interpretation cursor_rw: config_rewriter "ca_rewrite_config cursor_adapter" cursor_side
proof (unfold_locales, goal_cases)
  case (1 p E servers shim opts s s' e)
  then show ?case
    by (auto simp: cursor_adapter_def cursor_rewrite_config_def standard_rewrite_def dest: rewrite_with_err
        split: prod.splits sum.splits)
next
  case (2 p E servers shim opts s s' b)
  then obtain s1 where "standard_rewrite E p ''mcpServers'' servers shim opts s = (s1, Inr b)"
    and "s' = cursor_rewrite_project E servers shim opts s1"
    by (auto simp: cursor_adapter_def cursor_rewrite_config_def split: prod.splits sum.splits)
  with 2 show ?case
    unfolding standard_rewrite_def by (metis rewrite_with_ok(1,2) cursor_project_frame)
next
  case (3 E p servers shim opts s s' r k)
  then show ?case
    by (auto simp: cursor_adapter_def cursor_rewrite_config_def standard_rewrite_def cursor_project_frame
        dest: rewrite_with_frame split: prod.splits sum.splits)
next
  case (4 E p servers shim opts s s' r)
  then show ?case
    by (auto simp: cursor_adapter_def cursor_rewrite_config_def standard_rewrite_def calm cursor_project_calm
        split: prod.splits sum.splits)
qed

text \<open>Every adapter keeps the contract.\<close>

definition adapter_side :: "agent_type \<Rightarrow> wrap_env \<Rightarrow> string set" where
  "adapter_side t = (if t = AT_Cursor then cursor_side else (\<lambda>E. {}))"

lemma adapter_rewriter: "config_rewriter (ca_rewrite_config (adapter_for_agent_type t)) (adapter_side t)"
  by (cases t)
    (simp_all add: adapter_side_def desktop_rw.config_rewriter_axioms code_rw.config_rewriter_axioms
      cursor_rw.config_rewriter_axioms vscode_rw.config_rewriter_axioms windsurf_rw.config_rewriter_axioms
      zed_rw.config_rewriter_axioms)

interpretation any_rw: config_rewriter "ca_rewrite_config (adapter_for_agent_type t)" "adapter_side t" for t
  by (rule adapter_rewriter)

end
