(* ===== verification/Slack_Adapter.thy ===== *)
theory Slack_Adapter
  imports Engine_Flow Task_Handlers
begin

text \<open>
  The adapter for Slack (\<open>governance/approval/slack.rs\<close>): its configuration, the message it posts,
  the reactions it reads as decisions, the cache of user names, and its errors. The answers of the
  service, the clock, the pretty printer of \<open>serde_json\<close> and the date format of \<open>chrono\<close> are
  arguments. The contract between an adapter and the scheduler is the locale
  \<open>approval_adapter\<close>, interpreted by this adapter. Trace contexts are an argument of the message;
  spans are not modelled.
\<close>

declare map_of_eq_Some_iff [simp del]

section \<open>The contract of adapters\<close>

text \<open>A reference is for the task that was posted, and whoever reports an approval has evidence.\<close>

locale approval_adapter =
  fixes post :: "approval_request \<Rightarrow> adapter_error + approval_reference"
    and poll :: "approval_reference \<Rightarrow> adapter_error + poll_result option"
    and evidence :: "approval_reference \<Rightarrow> string \<Rightarrow> bool"
  assumes post_task: "post rq = Inr ref \<Longrightarrow> ar_task_id ref = aq_task_id rq"
    and approved_evidence: "poll ref = Inr (Some pr) \<Longrightarrow> po_decision pr = PollApproved \<Longrightarrow>
      evidence ref (po_decided_by pr)"
begin

lemma submitted_queued:
  assumes "submit post rq s = (s', Inr u)"
  shows "\<exists>ref. map_of (sc_references s') (aq_task_id rq) = Some ref \<and> queued s' (aq_task_id rq) ref \<and> post rq = Inr ref"
proof -
  obtain ref where r: "post rq = Inr ref" "s' = reschedule (ar_task_id ref) ref s"
    using submit_Inr [OF assms] by blast
  with post_task [OF r(1)] show ?thesis
    by (intro exI [of _ ref]) (simp add: queued_def set_insort_insert AList.update_conv')
qed

lemma executed_with_evidence:
  assumes "map_option (t_status \<circ> e_task) (map_of (s_tasks (sc_store s)) k) \<noteq> Some Executing"
    and "map_of (s_tasks (sc_store (poll_next E byte_len now_i now poll s))) k = Some e"
    and "t_status (e_task e) = Executing"
  shows "\<exists>ref a. map_of (sc_references s) k = Some ref \<and> t_approval (e_task e) = Some a \<and>
    evidence ref (a_decided_by a)"
  using poll_next_executing [OF assms] approved_evidence by metis

end

section \<open>Configuration\<close>

record slack_config =
  sk_bot_token :: string
  sk_channel :: string
  sk_approve_reaction :: string
  sk_reject_reaction :: string
  sk_api_timeout :: duration
  sk_initial_poll_interval :: duration

definition slack_config_new :: "string \<Rightarrow> string \<Rightarrow> slack_config" where
  "slack_config_new bot_token channel = \<lparr>sk_bot_token = bot_token, sk_channel = channel,
     sk_approve_reaction = ''+1'', sk_reject_reaction = ''-1'', sk_api_timeout = from_secs 10,
     sk_initial_poll_interval = from_secs 5\<rparr>"

definition slack_config_from_env :: "(string \<Rightarrow> string option) \<Rightarrow> adapter_error + slack_config" where
  "slack_config_from_env env =
     (case env ''THOUGHTGATE_SLACK_BOT_TOKEN'' of
        None \<Rightarrow> Inl AE_InvalidToken
      | Some token \<Rightarrow>
          Inr \<lparr>sk_bot_token = token,
            sk_channel = (case env ''THOUGHTGATE_SLACK_CHANNEL'' of Some c \<Rightarrow> c | None \<Rightarrow> ''#approvals''),
            sk_approve_reaction = (case env ''THOUGHTGATE_SLACK_APPROVE_REACTION'' of Some r \<Rightarrow> r | None \<Rightarrow> ''+1''),
            sk_reject_reaction = (case env ''THOUGHTGATE_SLACK_REJECT_REACTION'' of Some r \<Rightarrow> r | None \<Rightarrow> ''-1''),
            sk_api_timeout = from_secs 10,
            sk_initial_poll_interval =
              (case Option.bind (env ''THOUGHTGATE_APPROVAL_POLL_INTERVAL_SECS'') parse_usize of
                 Some n \<Rightarrow> from_secs n | None \<Rightarrow> from_secs 5)\<rparr>)"

definition with_approve_reaction :: "string \<Rightarrow> slack_config \<Rightarrow> slack_config" where
  "with_approve_reaction emoji C = C\<lparr>sk_approve_reaction := emoji\<rparr>"

definition with_reject_reaction :: "string \<Rightarrow> slack_config \<Rightarrow> slack_config" where
  "with_reject_reaction emoji C = C\<lparr>sk_reject_reaction := emoji\<rparr>"

definition with_timeout :: "duration \<Rightarrow> slack_config \<Rightarrow> slack_config" where
  "with_timeout timeout C = C\<lparr>sk_api_timeout := timeout\<rparr>"

definition with_initial_poll_interval :: "duration \<Rightarrow> slack_config \<Rightarrow> slack_config" where
  "with_initial_poll_interval interval C = C\<lparr>sk_initial_poll_interval := interval\<rparr>"

record slack_adapter =
  sl_config :: slack_config
  sl_user_cache :: "(string \<times> string) list"
  sl_pretty :: "json \<Rightarrow> string"        \<comment> \<open>\<open>serde_json::to_string_pretty\<close>\<close>
  sl_show_time :: "datetime \<Rightarrow> string"  \<comment> \<open>\<open>%Y-%m-%d %H:%M UTC\<close>\<close>

text \<open>\<open>built\<close> is the result of building the HTTP client.\<close>

definition slack_adapter_new ::
  "string + unit \<Rightarrow> (json \<Rightarrow> string) \<Rightarrow> (datetime \<Rightarrow> string) \<Rightarrow> slack_config \<Rightarrow> adapter_error + slack_adapter" where
  "slack_adapter_new built pretty show_time C =
     (case built of
        Inl e \<Rightarrow> Inl (AE_PostFailed (''Failed to build HTTP client: '' @ e) False)
      | Inr _ \<Rightarrow> Inr \<lparr>sl_config = C, sl_user_cache = [], sl_pretty = pretty, sl_show_time = show_time\<rparr>)"

section \<open>Answers of the service\<close>

datatype 'a slack_reply =
    SR_NotSent bool string             \<comment> \<open>could not connect or timed out; message\<close>
  | SR_TooManyRequests "string option" \<comment> \<open>header \<open>retry-after\<close>\<close>
  | SR_Unreadable string
  | SR_Body 'a

text \<open>The lookup of users does not look at the status.\<close>

datatype 'a plain_reply = PR_NotSent string | PR_Unreadable string | PR_Body 'a

record post_message_response =
  pm_ok :: bool
  pm_error :: "string option"
  pm_ts :: "string option"
  pm_channel :: "string option"

record slack_reaction =
  rx_name :: string
  rx_users :: "string list"

record reactions_get_response =
  rg_ok :: bool
  rg_error :: "string option"
  rg_message :: "slack_reaction list option option"

record slack_user =
  su_id :: string
  su_real_name :: "string option"
  su_profile :: "string option option"   \<comment> \<open>the display name of the profile\<close>

record user_info_response =
  ui_ok :: bool
  ui_user :: "slack_user option"

section \<open>Messages\<close>

definition utf8 :: "nat list \<Rightarrow> string" where
  "utf8 bs = map char_of bs"

definition mrkdwn :: "string \<Rightarrow> json" where
  "mrkdwn t = JObject [(''type'', JString ''mrkdwn''), (''text'', JString t)]"

definition build_approval_blocks :: "slack_adapter \<Rightarrow> approval_request \<Rightarrow> json" where
  "build_approval_blocks A rq =
     (let display_args = redact_fields (aq_tool_arguments rq) (aq_redact_fields rq);
          args_pretty = sl_pretty A display_args;
          nl = [CHR 0x0A];
          tick = [CHR 0x60]
      in JArray
       [JObject [(''type'', JString ''header''),
          (''text'', JObject [(''type'', JString ''plain_text''),
             (''text'', JString (utf8 [0xF0, 0x9F, 0x94, 0x92] @ '' Approval Required: '' @ aq_tool_name rq)),
             (''emoji'', JBool True)])],
        JObject [(''type'', JString ''section''),
          (''fields'', JArray [mrkdwn (''*Tool:* '' @ tick @ aq_tool_name rq @ tick),
             mrkdwn (''*Principal:* '' @ p_app_name (aq_principal rq))])],
        JObject [(''type'', JString ''section''),
          (''text'', mrkdwn (''*Arguments:*'' @ nl @ tick @ tick @ tick @ nl @ args_pretty @ nl @ tick @ tick @ tick))],
        JObject [(''type'', JString ''context''),
          (''elements'', JArray [mrkdwn (''React with '' @ utf8 [0xF0, 0x9F, 0x91, 0x8D] @ '' to *approve* or '' @
             utf8 [0xF0, 0x9F, 0x91, 0x8E] @ '' to *reject*'')])],
        JObject [(''type'', JString ''context''),
          (''elements'', JArray [mrkdwn (''Task ID: '' @ tick @ aq_task_id rq @ tick @ '' '' @ utf8 [0xE2, 0x80, 0xA2] @
             '' Expires: '' @ sl_show_time A (aq_expires_at rq))])]])"

definition build_cancelled_blocks :: json where
  "build_cancelled_blocks = JArray [JObject [(''type'', JString ''section''),
     (''text'', mrkdwn (utf8 [0xE2, 0x9D, 0x8C] @ '' *Cancelled* - This approval request is no longer active.''))]]"

definition post_payload :: "slack_adapter \<Rightarrow> json \<Rightarrow> approval_request \<Rightarrow> json" where
  "post_payload A trace rq = JObject [(''channel'', JString (sk_channel (sl_config A))),
     (''blocks'', build_approval_blocks A rq),
     (''metadata'', JObject [(''event_type'', JString ''thoughtgate_approval''),
        (''event_payload'', JObject [(''task_id'', JString (aq_task_id rq)), (''trace_context'', trace)])])]"

section \<open>Errors\<close>

definition handle_rate_limit :: "string option \<Rightarrow> adapter_error" where
  "handle_rate_limit header =
     AE_RateLimited (from_secs (case Option.bind header parse_usize of Some n \<Rightarrow> n | None \<Rightarrow> 60))"

definition map_slack_error :: "string \<Rightarrow> string \<Rightarrow> string option \<Rightarrow> adapter_error" where
  "map_slack_error e channel ts =
     (if e = ''channel_not_found'' then AE_ChannelNotFound channel
      else if e \<in> {''invalid_auth'', ''account_inactive'', ''token_revoked'', ''not_authed''} then AE_InvalidToken
      else if e = ''message_not_found'' then
        AE_MessageNotFound (case ts of Some t \<Rightarrow> t | None \<Rightarrow> ''unknown'')
      else if e = ''ratelimited'' then AE_RateLimited (from_secs 60)
      else AE_PostFailed e False)"

definition error_or_unknown :: "string option \<Rightarrow> string" where
  "error_or_unknown e = (case e of Some t \<Rightarrow> t | None \<Rightarrow> ''unknown'')"

section \<open>Operations\<close>

text \<open>\<open>reply\<close> is the answer of the service to a payload.\<close>

definition post_approval_request ::
  "slack_adapter \<Rightarrow> json \<Rightarrow> (json \<Rightarrow> post_message_response slack_reply) \<Rightarrow> datetime \<Rightarrow> instant \<Rightarrow> approval_request \<Rightarrow>
   adapter_error + approval_reference" where
  "post_approval_request A trace reply now now_i rq =
     (case reply (post_payload A trace rq) of
        SR_NotSent retriable e \<Rightarrow> Inl (AE_PostFailed e retriable)
      | SR_TooManyRequests header \<Rightarrow> Inl (handle_rate_limit header)
      | SR_Unreadable e \<Rightarrow> Inl (AE_PostFailed (''Failed to parse Slack response: '' @ e) False)
      | SR_Body body \<Rightarrow>
          if \<not> pm_ok body then Inl (map_slack_error (error_or_unknown (pm_error body)) (sk_channel (sl_config A)) None)
          else (case pm_ts body of
                  None \<Rightarrow> Inl (AE_PostFailed ''No timestamp in response'' False)
                | Some ts \<Rightarrow>
                    (case pm_channel body of
                       None \<Rightarrow> Inl (AE_PostFailed ''No channel in response'' False)
                     | Some channel \<Rightarrow>
                         Inr \<lparr>ar_task_id = aq_task_id rq, ar_external_id = ts, ar_channel = channel,
                              ar_posted_at = now, ar_next_poll_at = now_i + sk_initial_poll_interval (sl_config A),
                              ar_poll_count = 0\<rparr>)))"

definition first_user :: "string \<Rightarrow> slack_reaction list \<Rightarrow> (string \<times> string) option" where
  "first_user nm reactions =
     (case find (\<lambda>r. rx_name r = nm) reactions of
        Some r \<Rightarrow> (case rx_users r of u # _ \<Rightarrow> Some (u, rx_name r) | [] \<Rightarrow> None)
      | None \<Rightarrow> None)"

definition check_reactions ::
  "slack_config \<Rightarrow> slack_reaction list option \<Rightarrow> (poll_decision \<times> string \<times> string) option" where
  "check_reactions C reactions =
     (case reactions of
        None \<Rightarrow> None
      | Some rs \<Rightarrow>
          (case first_user (sk_approve_reaction C) rs of
             Some (u, emoji) \<Rightarrow> Some (PollApproved, u, emoji)
           | None \<Rightarrow>
               (case first_user (sk_reject_reaction C) rs of
                  Some (u, emoji) \<Rightarrow> Some (PollRejected, u, emoji)
                | None \<Rightarrow> None)))"

definition max_user_cache_size :: nat where
  "max_user_cache_size = 1000"

text \<open>The entries that are evicted are the first ones in the iteration order of the table, which the
  order of the list stands for.\<close>

definition cache_user :: "string \<Rightarrow> string \<Rightarrow> slack_adapter \<Rightarrow> slack_adapter" where
  "cache_user user_id name A =
     (let c = sl_user_cache A;
          c1 = (if length c \<ge> max_user_cache_size then drop (length c div 4) c else c)
      in A\<lparr>sl_user_cache := AList.update user_id name c1\<rparr>)"

definition display_name_of :: "string \<Rightarrow> slack_user option \<Rightarrow> string" where
  "display_name_of user_id user =
     (case user of
        None \<Rightarrow> user_id
      | Some u \<Rightarrow>
          (case Option.bind (su_profile u) (\<lambda>d. Option.bind d (\<lambda>n. if n \<noteq> [] then Some n else None)) of
             Some n \<Rightarrow> n
           | None \<Rightarrow> (case su_real_name u of Some n \<Rightarrow> n | None \<Rightarrow> su_id u)))"

definition get_user_display_name ::
  "(string \<Rightarrow> user_info_response plain_reply) \<Rightarrow> string \<Rightarrow> slack_adapter \<Rightarrow> slack_adapter \<times> (adapter_error + string)" where
  "get_user_display_name users_info user_id A =
     (case map_of (sl_user_cache A) user_id of
        Some name \<Rightarrow> (A, Inr name)
      | None \<Rightarrow>
          (case users_info user_id of
             PR_NotSent e \<Rightarrow> (A, Inl (AE_PollFailed (''Failed to fetch user info: '' @ e) True))
           | PR_Unreadable e \<Rightarrow> (A, Inl (AE_PollFailed (''Failed to parse user info response: '' @ e) True))
           | PR_Body body \<Rightarrow>
               if \<not> ui_ok body then (A, Inr user_id)
               else let name = display_name_of user_id (ui_user body) in (cache_user user_id name A, Inr name)))"

text \<open>\<open>get\<close> is the answer for a channel and a timestamp.\<close>

definition poll_for_decision ::
  "(string \<Rightarrow> string \<Rightarrow> reactions_get_response slack_reply) \<Rightarrow> (string \<Rightarrow> user_info_response plain_reply) \<Rightarrow> datetime \<Rightarrow>
   approval_reference \<Rightarrow> slack_adapter \<Rightarrow> slack_adapter \<times> (adapter_error + poll_result option)" where
  "poll_for_decision reactions_get users_info now ref A =
     (case reactions_get (ar_channel ref) (ar_external_id ref) of
        SR_NotSent _ e \<Rightarrow> (A, Inl (AE_PollFailed e True))
      | SR_TooManyRequests header \<Rightarrow> (A, Inl (handle_rate_limit header))
      | SR_Unreadable e \<Rightarrow> (A, Inl (AE_PollFailed (''Failed to parse reactions response: '' @ e) True))
      | SR_Body body \<Rightarrow>
          if \<not> rg_ok body then
            (A, Inl (map_slack_error (error_or_unknown (rg_error body)) (ar_channel ref) (Some (ar_external_id ref))))
          else (case check_reactions (sl_config A) (Option.bind (rg_message body) id) of
                  None \<Rightarrow> (A, Inr None)
                | Some (decision, user_id, emoji) \<Rightarrow>
                    (case get_user_display_name users_info user_id A of
                       (A', res) \<Rightarrow>
                         (A', Inr (Some \<lparr>po_decision = decision,
                            po_decided_by = (case res of Inr name \<Rightarrow> name | Inl _ \<Rightarrow> user_id),
                            po_decided_at = now, po_method = DM_Reaction emoji\<rparr>)))))"

text \<open>Cancelling updates the message and never fails.\<close>

definition cancel_approval :: "approval_reference \<Rightarrow> json \<times> (adapter_error + unit)" where
  "cancel_approval ref = (JObject [(''channel'', JString (ar_channel ref)), (''ts'', JString (ar_external_id ref)),
     (''blocks'', build_cancelled_blocks)], Inr ())"

section \<open>Decisions come from reactions\<close>

text \<open>Somebody set the approving reaction on the message of the reference; \<open>by\<close> is that user, by
  name or by identifier.\<close>

definition reacted_approving ::
  "(string \<Rightarrow> string \<Rightarrow> reactions_get_response slack_reply) \<Rightarrow> (string \<Rightarrow> user_info_response plain_reply) \<Rightarrow> slack_adapter \<Rightarrow>
   approval_reference \<Rightarrow> string \<Rightarrow> bool" where
  "reacted_approving reactions_get users_info A ref by \<longleftrightarrow>
     (\<exists>body rs r u us. reactions_get (ar_channel ref) (ar_external_id ref) = SR_Body body \<and> rg_ok body \<and>
        rg_message body = Some (Some rs) \<and> r \<in> set rs \<and> rx_name r = sk_approve_reaction (sl_config A) \<and>
        rx_users r = u # us \<and> (by = u \<or> snd (get_user_display_name users_info u A) = Inr by))"

lemma first_user_Some:
  "first_user nm rs = Some (u, emoji) \<Longrightarrow> \<exists>r us. r \<in> set rs \<and> rx_name r = nm \<and> rx_users r = u # us \<and> emoji = nm"
  by (auto simp: first_user_def find_Some_iff split: option.splits list.splits) (metis nth_mem)

lemma check_reactions_approved:
  assumes "check_reactions C m = Some (PollApproved, u, emoji)"
  shows "\<exists>rs r us. m = Some rs \<and> r \<in> set rs \<and> rx_name r = sk_approve_reaction C \<and> rx_users r = u # us"
  using assms by (auto simp: check_reactions_def split: option.splits dest!: first_user_Some)

lemma poll_for_decision_approved:
  assumes "snd (poll_for_decision reactions_get users now ref A) = Inr (Some pr)" and "po_decision pr = PollApproved"
  shows "reacted_approving reactions_get users A ref (po_decided_by pr)"
proof -
  obtain body u emoji where b: "reactions_get (ar_channel ref) (ar_external_id ref) = SR_Body body" "rg_ok body"
      "check_reactions (sl_config A) (Option.bind (rg_message body) id) = Some (PollApproved, u, emoji)"
      "po_decided_by pr = (case snd (get_user_display_name users u A) of Inr name \<Rightarrow> name | Inl _ \<Rightarrow> u)"
    using assms by (auto simp: poll_for_decision_def split: slack_reply.splits option.splits if_splits prod.splits)
  from check_reactions_approved [OF b(3)] obtain rs r us where r: "rg_message body = Some (Some rs)" "r \<in> set rs"
      "rx_name r = sk_approve_reaction (sl_config A)" "rx_users r = u # us"
    by (auto split: Option.bind_splits)
  from b(4) have "po_decided_by pr = u \<or> snd (get_user_display_name users u A) = Inr (po_decided_by pr)"
    by (auto split: sum.splits)
  with b(1,2) r show ?thesis unfolding reacted_approving_def by blast
qed

lemma post_approval_request_Inr:
  "post_approval_request A trace reply now now_i rq = Inr ref \<Longrightarrow> ar_task_id ref = aq_task_id rq"
  by (auto simp: post_approval_request_def split: slack_reply.splits if_splits option.splits)

interpretation slack: approval_adapter "post_approval_request A trace reply now now_i"
  "\<lambda>ref. snd (poll_for_decision reactions_get users_info now ref A)"
  "reacted_approving reactions_get users_info A"
  for A trace reply now now_i reactions_get users_info
  by unfold_locales (simp_all add: post_approval_request_Inr poll_for_decision_approved)

text \<open>C33: Behind every execution the scheduler starts with the Slack adapter stands a person's reaction:
  if a poll moves a task to \<open>Executing\<close>, the message posted for that task carries the configured
  approving reaction, set by at least one user, and the approval on record is attributed to the first of
  these users, by name or identifier.\<close>

theorem slack_execution_needs_reaction:
  assumes "map_option (t_status \<circ> e_task) (map_of (s_tasks (sc_store s)) k) \<noteq> Some Executing"
    and "map_of (s_tasks (sc_store (poll_next E byte_len now_i now
           (\<lambda>ref. snd (poll_for_decision reactions_get users_info now ref A)) s))) k = Some e"
    and "t_status (e_task e) = Executing"
  shows "\<exists>ref a. map_of (sc_references s) k = Some ref \<and> t_approval (e_task e) = Some a \<and>
    reacted_approving reactions_get users_info A ref (a_decided_by a)"
  using assms by (rule slack.executed_with_evidence)

definition demo_slack :: slack_adapter where
  "demo_slack = \<lparr>sl_config = slack_config_new ''t'' ''c'', sl_user_cache = [],
     sl_pretty = (\<lambda>j. case j of JObject m \<Rightarrow> concat (map (\<lambda>(k, v). k @ (case v of JString t \<Rightarrow> t | _ \<Rightarrow> ''?'')) m) | _ \<Rightarrow> ''?''),
     sl_show_time = (\<lambda>_. ''now'')\<rparr>"

definition demo_reactions :: "string \<Rightarrow> string \<Rightarrow> reactions_get_response slack_reply" where
  "demo_reactions ch ts = SR_Body \<lparr>rg_ok = True, rg_error = None,
     rg_message = Some (Some [\<lparr>rx_name = ''eyes'', rx_users = [''U1'']\<rparr>, \<lparr>rx_name = ''+1'', rx_users = [''U2'', ''U1'']\<rparr>])\<rparr>"

definition demo_users :: "string \<Rightarrow> user_info_response plain_reply" where
  "demo_users u = PR_Body \<lparr>ui_ok = True,
     ui_user = Some \<lparr>su_id = u, su_real_name = Some ''Eve'', su_profile = Some (Some [])\<rparr>\<rparr>"

definition demo_slack_poll :: "approval_reference \<Rightarrow> adapter_error + poll_result option" where
  "demo_slack_poll = (\<lambda>ref. snd (poll_for_decision demo_reactions demo_users 20 ref demo_slack))"

lemma demo_slack_poll_answer:
  "demo_slack_poll ref = Inr (Some \<lparr>po_decision = PollApproved, po_decided_by = ''Eve'', po_decided_at = 20,
     po_method = DM_Reaction ''+1''\<rparr>)"
  by (simp add: demo_slack_poll_def poll_for_decision_def demo_reactions_def demo_users_def demo_slack_def
      slack_config_new_def check_reactions_def first_user_def get_user_display_name_def display_name_of_def Let_def)

theorem slack_execution_needs_reaction_witness:
  "\<exists>ref by. map_of (sc_references demo_sched) ''2'' = Some ref \<and>
     reacted_approving demo_reactions demo_users demo_slack ref by"
proof -
  have 1: "map_option (t_status \<circ> e_task) (map_of (s_tasks (sc_store demo_sched)) ''2'') \<noteq> Some Executing"
    by code_simp
  have poll: "demo_slack_poll = (\<lambda>_. Inr (Some \<lparr>po_decision = PollApproved, po_decided_by = ''Eve'', po_decided_at = 20,
     po_method = DM_Reaction ''+1''\<rparr>))"
    by (rule ext) (rule demo_slack_poll_answer)
  have "map_option (t_status \<circ> e_task)
     (map_of (s_tasks (sc_store (poll_next demo_ext length 6 20 demo_slack_poll demo_sched))) ''2'') = Some Executing"
    unfolding poll by code_simp
  then obtain e where "map_of (s_tasks (sc_store (poll_next demo_ext length 6 20
      (\<lambda>ref. snd (poll_for_decision demo_reactions demo_users 20 ref demo_slack)) demo_sched))) ''2'' = Some e"
    "t_status (e_task e) = Executing" unfolding demo_slack_poll_def by auto
  from slack_execution_needs_reaction [OF 1 this] show ?thesis by blast
qed

section \<open>Redacted fields stay out of the message\<close>

text \<open>Replacing the value at a path, where there is one.\<close>

fun jset :: "string list \<Rightarrow> json \<Rightarrow> json \<Rightarrow> json" where
  "jset [] x v = x"
| "jset (k # ks) x v =
     (case v of
        JObject m \<Rightarrow> (case map_of m k of Some c \<Rightarrow> JObject (AList.update k (jset ks x c) m) | None \<Rightarrow> v)
      | _ \<Rightarrow> v)"

text \<open>Two values that are the same except, perhaps, at a path.\<close>

inductive differ_at :: "string list \<Rightarrow> json \<Rightarrow> json \<Rightarrow> bool" where
  at_root: "differ_at [] v w"
| same: "differ_at p v v"
| below: "differ_at ks c d \<Longrightarrow> map_of m k = Some c \<Longrightarrow> differ_at (k # ks) (JObject m) (JObject (AList.update k d m))"

inductive_cases differ_at_ConsE: "differ_at (k # ks) v w"

lemma update_update [simp]: "AList.update k x (AList.update k y m) = AList.update k x m"
  by (induction m) auto

lemma update_commute:
  "map_of m k = Some c \<Longrightarrow> map_of m j = Some e \<Longrightarrow> j \<noteq> k \<Longrightarrow>
   AList.update j x (AList.update k y m) = AList.update k y (AList.update j x m)"
  by (induction m) (auto simp: map_of_eq_Some_iff split: if_splits dest: weak_map_of_SomeI)

lemma jset_differ: "differ_at p (jset p x v) (jset p y v)"
proof (induction p arbitrary: v)
  case Nil
  show ?case by (rule at_root)
next
  case (Cons k ks)
  show ?case
  proof (cases "\<exists>m c. v = JObject m \<and> map_of m k = Some c")
    case True
    then obtain m c where v: "v = JObject m" "map_of m k = Some c" by blast
    have "differ_at (k # ks) (JObject (AList.update k (jset ks x c) m))
        (JObject (AList.update k (jset ks y c) (AList.update k (jset ks x c) m)))"
      by (rule below [OF Cons.IH]) (simp add: AList.update_conv')
    with v show ?thesis by simp
  next
    case False
    then have "jset (k # ks) x v = v" "jset (k # ks) y v = v" by (auto split: json.splits option.splits)
    then show ?thesis by (simp add: differ_at.same)
  qed
qed

lemma redact_path_Cons:
  "redact_path (JObject m) (j # js) =
     (case map_of m j of
        Some e \<Rightarrow> JObject (AList.update j (if js = [] then redacted else redact_path e js) m)
      | None \<Rightarrow> JObject m)"
  by (cases js) (auto split: option.splits simp: dom_map_of_conv_image_fst [symmetric])

text \<open>Redaction at any path keeps such a pair one; redaction at the path itself makes them equal.\<close>

lemma redact_path_differ: "differ_at p v w \<Longrightarrow> p \<noteq> [] \<Longrightarrow> differ_at p (redact_path v r) (redact_path w r)"
proof (induction arbitrary: r rule: differ_at.induct)
  case (below ks c d m k)
  show ?case
  proof (cases r)
    case Nil
    then show ?thesis using below.hyps by (simp add: differ_at.below)
  next
    case (Cons j js)
    show ?thesis
    proof (cases "j = k")
      case True
      let ?c = "if js = [] then redacted else redact_path c js"
      let ?d = "if js = [] then redacted else redact_path d js"
      have "differ_at ks ?c ?d"
        using below.IH [of js] by (cases "ks = []") (auto intro: differ_at.intros)
      then have "differ_at (k # ks) (JObject (AList.update k ?c m)) (JObject (AList.update k ?d (AList.update k ?c m)))"
        by (rule differ_at.below) (simp add: AList.update_conv')
      with Cons True below.hyps(2) show ?thesis by (simp add: redact_path_Cons AList.update_conv')
    next
      case False
      show ?thesis
      proof (cases "map_of m j")
        case None
        with Cons False below.hyps show ?thesis by (simp add: redact_path_Cons AList.update_conv' differ_at.below)
      next
        case (Some e)
        let ?m = "AList.update j (if js = [] then redacted else redact_path e js) m"
        have "differ_at (k # ks) (JObject ?m) (JObject (AList.update k d ?m))"
          using below.hyps False by (intro differ_at.below) (auto simp: AList.update_conv')
        with Cons False Some below.hyps(2) show ?thesis
          by (simp add: redact_path_Cons AList.update_conv' update_commute)
      qed
    qed
  qed
qed (auto intro: differ_at.intros)

lemma redact_path_same: "differ_at p v w \<Longrightarrow> p \<noteq> [] \<Longrightarrow> redact_path v p = redact_path w p"
  by (induction rule: differ_at.induct) (auto simp: redact_path_Cons AList.update_conv')

lemma redact_fields_same:
  assumes "differ_at (split_on (CHR ''.'') f) v w" and "f \<in> set fs"
  shows "redact_fields v fs = redact_fields w fs"
  using assms
proof (induction fs arbitrary: v w)
  case (Cons g gs)
  show ?case
  proof (cases "f = g")
    case True
    then show ?thesis using redact_path_same [OF Cons.prems(1)] by (simp add: redact_fields_def)
  next
    case False
    with Cons.prems(2) have f: "f \<in> set gs" by simp
    have "redact_fields (redact_path v (split_on (CHR ''.'') g)) gs = redact_fields (redact_path w (split_on (CHR ''.'') g)) gs"
      by (rule Cons.IH [OF _ f]) (simp add: redact_path_differ Cons.prems(1))
    moreover from f have "gs \<noteq> []" by auto
    ultimately show ?thesis by (simp add: redact_fields_def)
  qed
qed simp

text \<open>C34: What is posted to Slack does not depend on a redacted argument: for every field that the workflow
  redacts, the whole payload is the same whatever value the call has at that path, even when other
  redacted fields lie above or below it.\<close>

theorem posted_message_hides_redacted:
  assumes "field \<in> set (aq_redact_fields rq)"
  shows "post_payload A trace (rq\<lparr>aq_tool_arguments := jset (split_on (CHR ''.'') field) x args\<rparr>) =
    post_payload A trace (rq\<lparr>aq_tool_arguments := jset (split_on (CHR ''.'') field) y args\<rparr>)"
proof -
  have "redact_fields (jset (split_on (CHR ''.'') field) x args) (aq_redact_fields rq) =
      redact_fields (jset (split_on (CHR ''.'') field) y args) (aq_redact_fields rq)"
    using jset_differ assms by (rule redact_fields_same)
  then show ?thesis unfolding post_payload_def build_approval_blocks_def by simp
qed

theorem posted_message_hides_redacted_witness:
  "post_payload demo_slack JNull (demo_approval_request\<lparr>aq_redact_fields := [''auth.token''],
      aq_tool_arguments := JObject [(''auth'', JObject [(''token'', JString ''s3cret'')])]\<rparr>) =
   post_payload demo_slack JNull (demo_approval_request\<lparr>aq_redact_fields := [''auth.token''],
      aq_tool_arguments := JObject [(''auth'', JObject [(''token'', JString ''other'')])]\<rparr>)"
  using posted_message_hides_redacted [of "''auth.token''" "demo_approval_request\<lparr>aq_redact_fields := [''auth.token'']\<rparr>"
    demo_slack JNull "JString ''s3cret''" "JObject [(''auth'', JObject [(''token'', JNull)])]" "JString ''other''"]
  by (simp add: demo_approval_request_def)

section \<open>Bound of the cache\<close>

lemma length_update_le: "length (AList.update k v xs) \<le> Suc (length xs)"
  by (induction xs) auto

lemma cache_user_bound:
  assumes "length (sl_user_cache A) \<le> max_user_cache_size"
  shows "length (sl_user_cache (cache_user u n A)) \<le> max_user_cache_size"
  using assms length_update_le [of u n "if length (sl_user_cache A) \<ge> max_user_cache_size
    then drop (length (sl_user_cache A) div 4) (sl_user_cache A) else sl_user_cache A"]
  by (auto simp: cache_user_def Let_def max_user_cache_size_def split: if_splits)

text \<open>Polling keeps the cache of names within its bound, and never forgets the configuration.\<close>

lemma poll_for_decision_cache:
  assumes "length (sl_user_cache A) \<le> max_user_cache_size"
  shows "length (sl_user_cache (fst (poll_for_decision reactions_get users now ref A))) \<le> max_user_cache_size \<and>
    sl_config (fst (poll_for_decision reactions_get users now ref A)) = sl_config A"
  using assms
  by (auto simp: poll_for_decision_def get_user_display_name_def Let_def cache_user_bound
      split: slack_reply.splits option.splits prod.splits plain_reply.splits)
    (simp_all add: cache_user_def Let_def)

end
