(* ===== verification/Mock_Adapter.thy ===== *)
theory Mock_Adapter
  imports Slack_Adapter
begin

text \<open>
  The adapter used for development and tests (\<open>governance/approval/mock.rs\<close>): a request is approved, or
  rejected, after a delay and nobody is asked. It satisfies the same contract as the Slack adapter, with
  the passing of the delay as the only evidence behind an approval.
\<close>

declare map_of_eq_Some_iff [simp del]

record mock_adapter =
  mk_delay :: duration
  mk_auto_approve :: bool
  mk_post_count :: "32 word"
  mk_poll_count :: "32 word"

definition mock_new :: "duration \<Rightarrow> bool \<Rightarrow> mock_adapter" where
  "mock_new delay auto = \<lparr>mk_delay = delay, mk_auto_approve = auto, mk_post_count = 0, mk_poll_count = 0\<rparr>"

definition mock_from_env :: "(string \<Rightarrow> string) \<Rightarrow> (string \<Rightarrow> string option) \<Rightarrow> mock_adapter" where
  "mock_from_env to_lowercase env =
     mock_new
       (from_secs (case Option.bind (env ''THOUGHTGATE_MOCK_APPROVAL_DELAY_SECS'') parse_usize of
                     Some n \<Rightarrow> n | None \<Rightarrow> 5))
       (case env ''THOUGHTGATE_MOCK_AUTO_APPROVE'' of Some s \<Rightarrow> to_lowercase s \<noteq> ''false'' | None \<Rightarrow> True)"

definition instant_approve :: mock_adapter where
  "instant_approve = mock_new 0 True"

definition instant_reject :: mock_adapter where
  "instant_reject = mock_new 0 False"

definition reset_counters :: "mock_adapter \<Rightarrow> mock_adapter" where
  "reset_counters M = M\<lparr>mk_post_count := 0, mk_poll_count := 0\<rparr>"

definition mock_post ::
  "datetime \<Rightarrow> instant \<Rightarrow> approval_request \<Rightarrow> mock_adapter \<Rightarrow> mock_adapter \<times> (adapter_error + approval_reference)" where
  "mock_post now now_i rq M =
     (M\<lparr>mk_post_count := mk_post_count M + 1\<rparr>,
      Inr \<lparr>ar_task_id = aq_task_id rq, ar_external_id = ''mock_'' @ aq_task_id rq, ar_channel = ''mock_channel'',
           ar_posted_at = now, ar_next_poll_at = now_i + mk_delay M, ar_poll_count = 0\<rparr>)"

definition mock_poll ::
  "datetime \<Rightarrow> instant \<Rightarrow> approval_reference \<Rightarrow> mock_adapter \<Rightarrow> mock_adapter \<times> (adapter_error + poll_result option)" where
  "mock_poll now now_i ref M =
     (M\<lparr>mk_poll_count := mk_poll_count M + 1\<rparr>,
      if now_i < ar_next_poll_at ref then Inr None
      else Inr (Some \<lparr>po_decision = (if mk_auto_approve M then PollApproved else PollRejected),
             po_decided_by = ''mock:auto'', po_decided_at = now,
             po_method = DM_Reaction (if mk_auto_approve M then ''+1'' else ''-1'')\<rparr>))"

definition mock_cancel :: "approval_reference \<Rightarrow> mock_adapter \<Rightarrow> mock_adapter \<times> (adapter_error + unit)" where
  "mock_cancel ref M = (M, Inr ())"

definition mock_name :: string where
  "mock_name = ''mock''"

text \<open>The adapter a process decides for at its start.\<close>

datatype adapter_choice = SlackChosen slack_adapter | MockChosen mock_adapter

section \<open>The contract\<close>

interpretation mock: approval_adapter "\<lambda>rq. snd (mock_post now now_i rq M)" "\<lambda>ref. snd (mock_poll now' now_i' ref M)"
  "\<lambda>ref decider. mk_auto_approve M \<and> ar_next_poll_at ref \<le> now_i' \<and> decider = ''mock:auto''"
  for M now now_i now' now_i'
  by unfold_locales (auto simp: mock_post_def mock_poll_def split: if_splits)

end
