(* ===== verification/Mcp_Proxy.thy ===== *)
theory Mcp_Proxy
  imports Capability
begin

text \<open>
  The request path of the HTTP proxy (\<open>thoughtgate-proxy/src/mcp_handler\<close>): routing of a
  parsed request to the gates, to the task methods, to the handshake or straight to the upstream; the
  gates with their two approval modes; the legacy mode without a configuration; filtering of list
  answers. The upstream client is an argument; every definition returns the calls it makes to the
  upstream in order, besides the new state and the answer. The task store is shared by the
  evaluator, the task methods and the approval engine: it lives in \<open>ms_backend\<close>.
\<close>

declare map_of_eq_Some_iff [simp del]

section \<open>State\<close>

record rpc_response = mcp_response +
  mr_id :: "json_rpc_id option"

definition rpc_success :: "json_rpc_id option \<Rightarrow> json \<Rightarrow> rpc_response" where
  "rpc_success i v = \<lparr>mr_result = Some v, mr_error = None, mr_id = i\<rparr>"

definition task_created ::
  "json_rpc_id option \<Rightarrow> task_id \<Rightarrow> string \<Rightarrow> duration \<Rightarrow> string option \<Rightarrow> rpc_response" where
  "task_created i k status poll_interval status_message =
     rpc_success i (JObject ([(''taskId'', JString k), (''status'', JString status),
       (''pollInterval'', JNumber (PosInt (of_nat (as_millis poll_interval))))] @
       (case status_message of Some m \<Rightarrow> [(''statusMessage'', JString m)] | None \<Rightarrow> [])))"

record mcp_state =
  ms_cedar_engine :: "cedar_request \<Rightarrow> cedar_decision"
  ms_config :: "config option"
  ms_evaluator :: "evaluator option"
  ms_backend :: backend
  ms_cache :: capability_cache
  ms_blocking_approval_timeout_secs :: nat
  ms_profile :: profile
  ms_globs :: globs

datatype upstream_call = Forwarded parsed_request | Executed mcp_request

text \<open>What one request takes from its surroundings.\<close>

record proxy_env =
  pv_upstream :: "parsed_request \<Rightarrow> tg_error + rpc_response"
  pv_identity :: identity
  pv_eval :: eval_env
  pv_elapsed :: elapsed
  pv_wire :: wire

record blocking_approval =
  ba_task_id :: task_id
  ba_resource_name :: string
  ba_request_id :: "json_rpc_id option"
  ba_blocking_timeout :: duration
  ba_poll_interval :: duration

datatype gate_outcome = Immediate "tg_error + rpc_response" | BlockingApproval blocking_approval

text \<open>State, calls to the upstream, outcome; \<open>None\<close> stands for a panic.\<close>

type_synonym routed = "mcp_state \<times> upstream_call list \<times> gate_outcome option"

definition backend_engine :: "backend \<Rightarrow> approval_engine option" where
  "backend_engine b = (case b of WithEngine en \<Rightarrow> Some en | _ \<Rightarrow> None)"

definition get_source_id :: string where
  "get_source_id = ''upstream''"

definition pass :: "proxy_env \<Rightarrow> parsed_request \<Rightarrow> mcp_state \<Rightarrow> routed" where
  "pass P r s = (s, [Forwarded r], Some (Immediate (pv_upstream P r)))"

section \<open>Gates\<close>

definition validate_task_metadata ::
  "parsed_request \<Rightarrow> action \<Rightarrow> string \<Rightarrow> bool \<Rightarrow> bool \<Rightarrow> parsed_request \<times> (tg_error + bool)" where
  "validate_task_metadata r act tool_name upstream_supports_tasks has_approval_engine =
     (if act = Approve \<or> act = Policy then
        (r, if is_task_augmented r then Inr False
            else if has_approval_engine then Inr True
            else Inl (TaskRequired tool_name ''Include params.task per tools/list taskSupport annotation''))
      else
        (if is_task_augmented r \<and> \<not> upstream_supports_tasks then r\<lparr>mq_task_metadata := None\<rparr> else r, Inr False))"

definition missing_name_error :: "string \<Rightarrow> tg_error" where
  "missing_name_error m =
     InvalidParams (''Missing required field '' @
       q (if m \<in> {''tools/call'', ''prompts/get''} then ''name''
          else if m \<in> {''resources/read'', ''resources/subscribe''} then ''uri'' else ''identifier'') @
       '' in '' @ m @ '' params'')"

definition deny_error :: "string \<Rightarrow> string \<Rightarrow> evaluate_response \<Rightarrow> tg_error" where
  "deny_error resource_name source_id resp =
     (case es_deny_source resp of
        Some DS_Visibility \<Rightarrow> ToolNotExposed resource_name source_id
      | Some DS_GovernanceRule \<Rightarrow> GovernanceRuleDenied resource_name (es_reason resp)
      | _ \<Rightarrow> PolicyDenied resource_name (es_policy_id resp) (es_reason resp))"

definition infer_principal_optional :: "identity \<Rightarrow> principal option" where
  "infer_principal_optional i = (case i of Id_Principal p \<Rightarrow> Some (caller_principal p) | _ \<Rightarrow> None)"

definition gov_request :: "profile \<Rightarrow> parsed_request \<Rightarrow> evaluate_request" where
  "gov_request pr r = \<lparr>eq_server_id = get_source_id, eq_direction = AgentToServer, eq_method = mq_method r,
     eq_id = mq_id r, eq_params = mq_params r, eq_message_type = MT_Request, eq_profile = pr\<rparr>"

definition blocking_timeout_of :: "mcp_state \<Rightarrow> match_result \<Rightarrow> duration" where
  "blocking_timeout_of s m =
     (case Option.bind (mt_approval_workflow m) (\<lambda>n. Option.bind (ms_config s) (\<lambda>c. get_workflow c n)) of
        Some w \<Rightarrow> blocking_timeout_or_default w
      | None \<Rightarrow> from_secs (ms_blocking_approval_timeout_secs s))"

definition decide ::
  "proxy_env \<Rightarrow> parsed_request \<Rightarrow> string \<Rightarrow> match_result \<Rightarrow> bool \<Rightarrow> evaluate_response \<Rightarrow> mcp_state \<Rightarrow> routed" where
  "decide P r resource_name m is_blocking_mode resp s =
     (case es_decision resp of
        GD_Forward \<Rightarrow> pass P r s
      | GD_Deny \<Rightarrow> (s, [], Some (Immediate (Inl (deny_error resource_name get_source_id resp))))
      | GD_PendingApproval \<Rightarrow>
          let k = (case es_task_id resp of Some k \<Rightarrow> k | None \<Rightarrow> []);
              poll_ms = (case es_poll_interval_ms resp of Some n \<Rightarrow> n | None \<Rightarrow> 1000)
          in if is_blocking_mode then
               (case backend_engine (ms_backend s) of
                  None \<Rightarrow> (s, [], Some (Immediate (Inl (ServiceUnavailable
                            ''Approval engine not available for blocking mode''))))
                | Some _ \<Rightarrow> (s, [], Some (BlockingApproval \<lparr>ba_task_id = k, ba_resource_name = resource_name,
                    ba_request_id = mq_id r, ba_blocking_timeout = blocking_timeout_of s m,
                    ba_poll_interval = from_millis poll_ms\<rparr>)))
             else (s, [], Some (Immediate (Inr (task_created (mq_id r) k ''working'' (from_millis poll_ms)
                    (Some ''Awaiting human approval''))))))"

definition route_through_gates :: "proxy_env \<Rightarrow> parsed_request \<Rightarrow> mcp_state \<Rightarrow> routed" where
  "route_through_gates P request s =
     (case ms_evaluator s of
        None \<Rightarrow> (s, [], Some (Immediate (Inl (ServiceUnavailable ''Evaluator not configured''))))
      | Some ev \<Rightarrow>
     (case ms_config s of
        None \<Rightarrow> (s, [], Some (Immediate (Inl (ServiceUnavailable ''Configuration not loaded''))))
      | Some cfg \<Rightarrow>
     (case extract_resource_name (mq_method request) (mq_params request) of
        None \<Rightarrow> (s, [], Some (Immediate (Inl (missing_name_error (mq_method request)))))
      | Some resource_name \<Rightarrow>
          let m = governance_evaluate (ms_globs s) (cf_governance cfg) resource_name get_source_id in
          (case validate_task_metadata request (mt_action m) resource_name
                  (cc_upstream_supports_tasks (ms_cache s)) (backend_engine (ms_backend s) \<noteq> None) of
             (_, Inl e) \<Rightarrow> (s, [], Some (Immediate (Inl e)))
           | (r, Inr is_blocking_mode) \<Rightarrow>
               (case evaluate_with_principal (pv_eval P) (gov_request (ms_profile s) r)
                       (infer_principal_optional (pv_identity P)) (ev\<lparr>ev_backend := ms_backend s\<rparr>) of
                  (ev', _, None) \<Rightarrow> (s\<lparr>ms_backend := ev_backend ev'\<rparr>, [], None)
                | (ev', _, Some resp) \<Rightarrow>
                    decide P r resource_name m is_blocking_mode resp (s\<lparr>ms_backend := ev_backend ev'\<rparr>))))))"

section \<open>Legacy mode: Cedar only\<close>

definition start_approval_flow ::
  "proxy_env \<Rightarrow> parsed_request \<Rightarrow> string \<Rightarrow> match_result \<Rightarrow> mcp_state \<Rightarrow> routed" where
  "start_approval_flow P r tool_name m s =
     (case backend_engine (ms_backend s) of
        None \<Rightarrow> (s, [], Some (Immediate (Inl (ServiceUnavailable ''Approval engine not configured''))))
      | Some en \<Rightarrow>
          (case infer_principal_or_error (pv_identity P) of
             Inl e \<Rightarrow> (s, [], Some (Immediate (Inl e)))
           | Inr pp \<Rightarrow>
               let request = \<lparr>r_method = mq_method r, r_name = tool_name,
                     r_arguments = extract_arguments (mq_params r),
                     r_mcp_request_id = (case mq_id r of Some i \<Rightarrow> i | None \<Rightarrow> IdNull)\<rparr>;
                   wflow = Option.bind (mt_approval_workflow m)
                     (\<lambda>n. Option.bind (ms_config s) (\<lambda>c. get_workflow c n));
                   V = pv_eval P;
                   (en', res) = start_approval (vv_task_id V) (vv_correlation_id V) (vv_now V) (vv_post V) request
                     (caller_principal pp) (map_option timeout_or_default wflow)
                     (map_option on_timeout_or_default wflow)
                     (case Option.bind wflow hw_redact_fields of Some fs \<Rightarrow> fs | None \<Rightarrow> []) en;
                   s' = s\<lparr>ms_backend := WithEngine en'\<rparr>
               in (case res of
                     RPanic \<Rightarrow> (s', [], None)
                   | RErr e \<Rightarrow> (s', [], Some (Immediate (Inl (ServiceUnavailable
                       (''Failed to start approval: '' @ engine_error_to_string e)))))
                   | ROk a \<Rightarrow> (s', [], Some (Immediate (Inr (task_created (mq_id r) (as_task_id a)
                       (display_status (as_status a)) (as_poll_interval a) (Some ''Awaiting human approval''))))))))"

definition evaluate_with_cedar ::
  "proxy_env \<Rightarrow> parsed_request \<Rightarrow> match_result option \<Rightarrow> mcp_state \<Rightarrow> routed" where
  "evaluate_with_cedar P r m s =
     (if \<not> method_requires_gates (mq_method r) then pass P r s
      else case extract_resource_name (mq_method r) (mq_params r) of
        None \<Rightarrow> (s, [], Some (Immediate (Inl (missing_name_error (mq_method r)))))
      | Some resource_name \<Rightarrow>
          (case infer_principal_or_error (pv_identity P) of
             Inl e \<Rightarrow> (s, [], Some (Immediate (Inl e)))
           | Inr pp \<Rightarrow>
               let pid = (case Option.bind m mt_policy_id of Some i \<Rightarrow> i | None \<Rightarrow> ''default'');
                   cq = \<lparr>cq_principal = pp,
                     cq_resource = (if mq_method r = ''tools/call''
                       then CR_ToolCall resource_name get_source_id (extract_arguments (mq_params r))
                       else CR_McpMethod (mq_method r) get_source_id),
                     cq_policy_id = pid, cq_source_id = get_source_id\<rparr>
               in (case ms_cedar_engine s cq of
                     CD_Permit _ \<Rightarrow>
                       (case m of
                          Some mr \<Rightarrow> start_approval_flow P r resource_name mr s
                        | None \<Rightarrow> pass P r s)
                   | CD_Forbid reason _ \<Rightarrow>
                       (s, [], Some (Immediate (Inl (PolicyDenied resource_name (Some pid) (Some reason))))))))"

section \<open>Handshake and lists\<close>

definition handle_initialize_method :: "proxy_env \<Rightarrow> parsed_request \<Rightarrow> mcp_state \<Rightarrow> routed" where
  "handle_initialize_method P r s =
     (case pv_upstream P r of
        Inl e \<Rightarrow> (s, [Forwarded r], Some (Immediate (Inl e)))
      | Inr response \<Rightarrow>
          (case (mr_error response, mr_result response) of
             (None, Some result) \<Rightarrow>
               (s\<lparr>ms_cache := set_upstream_supports_task_sse (extract_upstream_sse_support result)
                  (set_upstream_supports_tasks (extract_upstream_task_support result) (ms_cache s))\<rparr>,
                [Forwarded r],
                Some (Immediate (Inr (rpc_success (mr_id response)
                  (strip_sse_capability (inject_task_capability result))))))
           | _ \<Rightarrow> (s, [Forwarded r], Some (Immediate (Inr response)))))"

definition is_list_method :: "string \<Rightarrow> bool" where
  "is_list_method m \<longleftrightarrow> m \<in> {''tools/list'', ''resources/list'', ''prompts/list''}"

definition with_array :: "string \<Rightarrow> (json list \<Rightarrow> json list) \<Rightarrow> json \<Rightarrow> json option" where
  "with_array k f result =
     (case result of
        JObject obj \<Rightarrow>
          (case map_of obj k of
             Some (JArray items) \<Rightarrow> Some (JObject (AList.update k (JArray (f items)) obj))
           | _ \<Rightarrow> None)
      | _ \<Rightarrow> None)"

definition filter_list_result :: "globs \<Rightarrow> config \<Rightarrow> bool \<Rightarrow> string \<Rightarrow> json \<Rightarrow> json option" where
  "filter_list_result G cfg up m result =
     (if m = ''tools/list'' then
        with_array ''tools'' (\<lambda>ts. fst (filter_and_annotate_tools G ts cfg get_source_id up)) result
      else if m = ''resources/list'' then
        with_array ''resources'' (\<lambda>rs. fst (filter_resources_by_visibility G rs cfg get_source_id)) result
      else if m = ''prompts/list'' then
        with_array ''prompts'' (\<lambda>ps. fst (filter_prompts_by_visibility G ps cfg get_source_id)) result
      else None)"

definition handle_list_method :: "proxy_env \<Rightarrow> parsed_request \<Rightarrow> mcp_state \<Rightarrow> routed" where
  "handle_list_method P r s =
     (s, [Forwarded r], Some (Immediate
       (case pv_upstream P r of
          Inl e \<Rightarrow> Inl e
        | Inr response \<Rightarrow>
            Inr (case (mr_error response, ms_config s, mr_result response) of
                   (None, Some cfg, Some result) \<Rightarrow>
                     (case filter_list_result (ms_globs s) cfg (cc_upstream_supports_tasks (ms_cache s))
                             (mq_method r) result of
                        Some new_result \<Rightarrow> rpc_success (mr_id response) new_result
                      | None \<Rightarrow> response)
                 | _ \<Rightarrow> response))))"

section \<open>Routing\<close>

definition task_method_route :: "proxy_env \<Rightarrow> task_method \<Rightarrow> parsed_request \<Rightarrow> mcp_state \<Rightarrow> routed" where
  "task_method_route P m r s =
     (case handle_task_method (pv_wire P) (pv_identity P) (vv_now (pv_eval P)) (pv_elapsed P) m
             (mcp_request.truncate r) (ms_backend s) of
        (b, sent, res) \<Rightarrow>
          (s\<lparr>ms_backend := b\<rparr>, (case sent of Some x \<Rightarrow> [Executed x] | None \<Rightarrow> []),
           Some (Immediate (case res of Inl e \<Rightarrow> Inl e | Inr (i, v) \<Rightarrow> Inr (rpc_success i v)))))"

definition route_request :: "proxy_env \<Rightarrow> parsed_request \<Rightarrow> mcp_state \<Rightarrow> routed" where
  "route_request P request s =
     (case route request of
        PolicyEvaluation r \<Rightarrow>
          if ms_config s \<noteq> None then
            (if method_requires_gates (mq_method r) then route_through_gates P r s
             else if is_list_method (mq_method r) then handle_list_method P r s
             else pass P r s)
          else evaluate_with_cedar P r None s
      | TaskHandler m r \<Rightarrow> task_method_route P m r s
      | InitializeHandler r \<Rightarrow> handle_initialize_method P r s
      | PassThrough r \<Rightarrow> pass P r s)"

section \<open>Mediation\<close>

text \<open>A governed proxy: a configuration is loaded and the evaluator was built from it, for
  production.\<close>

definition governed_by :: "config \<Rightarrow> mcp_state \<Rightarrow> bool" where
  "governed_by cfg s \<longleftrightarrow> ms_config s = Some cfg \<and>
     (case ms_evaluator s of
        None \<Rightarrow> False
      | Some ev \<Rightarrow> ev_config ev = cfg \<and> ev_globs ev = ms_globs s \<and> ev_profile ev = Production)"

text \<open>What the configuration says of a call: it names a resource that the enabled source exposes
  and whose rule says forward.\<close>

definition admitted :: "globs \<Rightarrow> config \<Rightarrow> parsed_request \<Rightarrow> bool" where
  "admitted G cfg r \<longleftrightarrow>
     (case extract_resource_name (mq_method r) (mq_params r) of
        None \<Rightarrow> False
      | Some n \<Rightarrow>
          (case get_source cfg get_source_id of
             None \<Rightarrow> False
           | Some src \<Rightarrow> so_enabled src \<and> is_visible G (source_expose src) n) \<and>
          mt_action (governance_evaluate G (cf_governance cfg) n get_source_id) = Forward)"

text \<open>The same message up to the request's internal note that it asked for a task.\<close>

definition same_message :: "parsed_request \<Rightarrow> parsed_request \<Rightarrow> bool" where
  "same_message r r' \<longleftrightarrow> mcp_request.truncate r' = mcp_request.truncate r"

lemma validate_same:
  "validate_task_metadata r act n up eng = (r', res) \<Longrightarrow>
     mq_method r' = mq_method r \<and> mq_params r' = mq_params r \<and> mq_id r' = mq_id r"
  by (auto simp: validate_task_metadata_def split: if_splits)

lemma validate_Inl: "validate_task_metadata r act n up eng = (r', Inl e) \<Longrightarrow> act = Approve \<or> act = Policy"
  by (auto simp: validate_task_metadata_def split: if_splits)

lemma same_messageI:
  "mq_method r' = mq_method r \<Longrightarrow> mq_params r' = mq_params r \<Longrightarrow> mq_id r' = mq_id r \<Longrightarrow> same_message r r'"
  by (simp add: same_message_def mcp_request.truncate_def)

lemma decide_calls:
  "decide P r n m blk resp s = (s', calls, res) \<Longrightarrow>
     calls = (if es_decision resp = GD_Forward then [Forwarded r] else [])"
  by (cases "es_decision resp") (auto simp: decide_def pass_def Let_def split: option.splits if_splits)

lemma evaluate_total_on_forward:
  assumes "gated req n" and "mt_action (rule_for ev req n) = Forward"
  shows "\<exists>ev' tr resp. evaluate_with_principal V req po ev = (ev', tr, Some resp)"
proof (cases "gate1_passes ev req n")
  case True
  with evaluate_passed [OF assms(1), of ev V po] assms(2) show ?thesis by (auto simp: later_gates_def)
next
  case False
  with evaluate_blocked [OF assms(1), of ev V po] show ?thesis by blast
qed

lemma gates_mediate:
  assumes "governed_by cfg s" and "method_requires_gates (mq_method r)"
    and "route_through_gates P r s = (s', calls, res)"
  shows "\<exists>r'. same_message r r' \<and> calls = (if admitted (ms_globs s) cfg r then [Forwarded r'] else [])"
proof (cases "extract_resource_name (mq_method r) (mq_params r)")
  case None
  with assms show ?thesis
    by (auto simp: route_through_gates_def admitted_def governed_by_def same_message_def split: option.splits)
next
  case (Some n)
  obtain ev where ev: "ms_config s = Some cfg" "ms_evaluator s = Some ev" "ev_config ev = cfg"
    "ev_globs ev = ms_globs s" "ev_profile ev = Production"
    using assms(1) by (auto simp: governed_by_def split: option.splits)
  let ?m = "governance_evaluate (ms_globs s) (cf_governance cfg) n get_source_id"
  obtain r' v where v: "validate_task_metadata r (mt_action ?m) n (cc_upstream_supports_tasks (ms_cache s))
      (backend_engine (ms_backend s) \<noteq> None) = (r', v)" by fastforce
  note same = validate_same [OF v]
  show ?thesis
  proof (cases v)
    case (Inl e)
    with validate_Inl [of r _ n] v have "mt_action ?m \<noteq> Forward" by fastforce
    with assms(3) Some ev v Inl show ?thesis
      by (auto simp: route_through_gates_def admitted_def same_message_def split: option.splits)
  next
    case (Inr blk)
    let ?ev = "ev\<lparr>ev_backend := ms_backend s\<rparr>" and ?req = "gov_request (ms_profile s) r'"
    have g: "gated ?req n" using assms(2) Some same by (simp add: gated_def gov_request_def)
    have adm: "admitted (ms_globs s) cfg r \<longleftrightarrow> gate1_passes ?ev ?req n \<and> mt_action (rule_for ?ev ?req n) = Forward"
      using Some ev by (simp add: admitted_def gate1_passes_def rule_for_def gov_request_def split: option.splits)
    obtain ev' tr ro where e: "evaluate_with_principal (pv_eval P) ?req (infer_principal_optional (pv_identity P)) ?ev
        = (ev', tr, ro)" by (metis prod_cases3)
    show ?thesis
    proof (cases ro)
      case None
      then have "\<not> admitted (ms_globs s) cfg r"
        using adm evaluate_total_on_forward [OF g, of ?ev "pv_eval P" "infer_principal_optional (pv_identity P)"] e
        by auto
      with None e assms(3) Some ev v Inr show ?thesis
        by (auto simp: route_through_gates_def same_message_def Let_def)
    next
      case (Some resp)
      have "calls = (if es_decision resp = GD_Forward then [Forwarded r'] else [])"
        using assms(3) \<open>extract_resource_name _ _ = Some n\<close> ev v Inr e Some
        by (auto simp: route_through_gates_def Let_def dest!: decide_calls)
      moreover have "es_decision resp = GD_Forward \<longleftrightarrow> admitted (ms_globs s) cfg r"
        unfolding adm using e Some ev(5) by (intro production_forward_iff [OF _ g]) auto
      ultimately show ?thesis using same same_messageI by auto
    qed
  qed
qed

lemma executed_owned:
  assumes "handle_task_method W who now el m request b = (b', Some x, res)"
  shows "\<exists>k t. m = TM_Result \<and> w_task_id W m (case mq_params request of Some p \<Rightarrow> p | None \<Rightarrow> JObject []) = Inr k \<and>
    get k (backend_store b) = Inr t \<and> owns who t"
proof -
  obtain k where k: "w_task_id W m (case mq_params request of Some p \<Rightarrow> p | None \<Rightarrow> JObject []) = Inr k"
    and v: "verify_task_principal who k (backend_store b) = Inr ()"
    and h: "handle_owned W now el m request k b = (b', Some x, res)"
    using assms by (auto simp: handle_task_method_def Let_def split: if_splits sum.splits)
  obtain t where "get k (backend_store b) = Inr t" "owns who t"
    using v verify_not_owner [of k "backend_store b" who] by fastforce
  moreover have "m = TM_Result"
    using h by (cases m) (auto simp: handle_owned_def split: prod.splits sum.splits)
  ultimately show ?thesis using k by blast
qed

lemma route_keeps:
  "route r = PolicyEvaluation r' \<Longrightarrow> r' = r" "route r = TaskHandler m r' \<Longrightarrow> r' = r"
  "route r = InitializeHandler r' \<Longrightarrow> r' = r" "route r = PassThrough r' \<Longrightarrow> r' = r"
  by (auto simp: route_def Let_def split: if_splits option.splits)

lemma route_governed: "method_requires_gates (mq_method r) \<Longrightarrow> route r = PolicyEvaluation r"
  by (auto simp: method_requires_gates_def route_def parse_task_method_def starts_with_def)

lemma route_task: "route r = TaskHandler TM_Result r' \<Longrightarrow> mq_method r = ''tasks/result''"
  by (auto simp: route_def Let_def parse_task_method_def split: if_splits option.splits)

lemma handle_list_calls: "handle_list_method P r s = (s', calls, res) \<Longrightarrow> calls = [Forwarded r]"
  by (auto simp: handle_list_method_def)

lemma handle_initialize_calls: "handle_initialize_method P r s = (s', calls, res) \<Longrightarrow> calls = [Forwarded r]"
  by (auto simp: handle_initialize_method_def split: sum.splits option.splits)

lemma same_message_refl [simp]: "same_message r r"
  by (simp add: same_message_def)

definition fetches_own_result :: "proxy_env \<Rightarrow> parsed_request \<Rightarrow> mcp_state \<Rightarrow> bool" where
  "fetches_own_result P r s \<longleftrightarrow> mq_method r = ''tasks/result'' \<and>
     (\<exists>k t. w_task_id (pv_wire P) TM_Result (case mq_params r of Some p \<Rightarrow> p | None \<Rightarrow> JObject []) = Inr k \<and>
        get k (backend_store (ms_backend s)) = Inr t \<and> owns (pv_identity P) t)"

lemma task_route_calls:
  assumes "route r = TaskHandler m r'" and "task_method_route P m r s = (s', calls, res)"
  shows "calls = [] \<or> (\<exists>x. calls = [Executed x] \<and> fetches_own_result P r s)"
proof -
  obtain b sent ans where h: "handle_task_method (pv_wire P) (pv_identity P) (vv_now (pv_eval P)) (pv_elapsed P) m
      (mcp_request.truncate r) (ms_backend s) = (b, sent, ans)" by (metis prod_cases3)
  show ?thesis
  proof (cases sent)
    case None
    with h assms(2) show ?thesis by (auto simp: task_method_route_def)
  next
    case (Some x)
    with executed_owned [of "pv_wire P" "pv_identity P" "vv_now (pv_eval P)" "pv_elapsed P" m] h
    have "m = TM_Result" "\<exists>k t. w_task_id (pv_wire P) m (case mq_params r of Some p \<Rightarrow> p | None \<Rightarrow> JObject []) = Inr k \<and>
        get k (backend_store (ms_backend s)) = Inr t \<and> owns (pv_identity P) t"
      by (fastforce simp: mcp_request.truncate_def)+
    with assms(1) route_task [of r r'] have "fetches_own_result P r s" by (simp add: fetches_own_result_def)
    with Some h assms(2) show ?thesis by (auto simp: task_method_route_def)
  qed
qed

lemma route_request_mediates:
  assumes "governed_by cfg s" and "route_request P r s = (s', calls, res)"
  shows "if method_requires_gates (mq_method r)
    then \<exists>r'. same_message r r' \<and> calls = (if admitted (ms_globs s) cfg r then [Forwarded r'] else [])
    else calls \<in> {[], [Forwarded r]} \<or> (\<exists>x. calls = [Executed x] \<and> fetches_own_result P r s)"
proof (cases "method_requires_gates (mq_method r)")
  case True
  then have "route_through_gates P r s = (s', calls, res)"
    using assms by (simp add: route_request_def route_governed governed_by_def)
  from gates_mediate [OF assms(1) True this] True show ?thesis by simp
next
  case False
  have "ms_config s \<noteq> None" using assms(1) by (simp add: governed_by_def)
  then have "calls \<in> {[], [Forwarded r]} \<or> (\<exists>x. calls = [Executed x] \<and> fetches_own_result P r s)"
    using assms(2) False route_keeps [of r] task_route_calls [of r]
    by (cases "route r") (fastforce simp: route_request_def pass_def dest: handle_list_calls handle_initialize_calls
        split: if_splits)+
  with False show ?thesis by simp
qed

lemma route_request_keeps_governed:
  assumes "governed_by cfg s" and "route_request P r s = (s', calls, res)"
  shows "governed_by cfg s' \<and> ms_globs s' = ms_globs s"
proof -
  have d: "ms_config s' = ms_config s \<and> ms_evaluator s' = ms_evaluator s \<and> ms_globs s' = ms_globs s"
    if "decide P r n m blk resp s = (s', calls, res)" for s r n m blk resp
    using that by (cases "es_decision resp") (auto simp: decide_def pass_def Let_def split: option.splits if_splits)
  have g: "ms_config s' = ms_config s \<and> ms_evaluator s' = ms_evaluator s \<and> ms_globs s' = ms_globs s"
    if "route_through_gates P r s = (s', calls, res)" for r
    using that d by (auto simp: route_through_gates_def Let_def split: option.splits prod.splits sum.splits)
  have t: "ms_config s' = ms_config s \<and> ms_evaluator s' = ms_evaluator s \<and> ms_globs s' = ms_globs s"
    if "task_method_route P m r s = (s', calls, res)" for m r
    using that by (auto simp: task_method_route_def split: prod.splits)
  have "ms_config s' = ms_config s \<and> ms_evaluator s' = ms_evaluator s \<and> ms_globs s' = ms_globs s"
    using assms g t
    by (cases "route r") (auto simp: route_request_def governed_by_def pass_def handle_list_method_def
        handle_initialize_method_def split: if_splits sum.splits option.splits)
  with assms(1) show ?thesis by (auto simp: governed_by_def split: option.splits)
qed

section \<open>Handshake\<close>

text \<open>The handshake: an \<open>initialize\<close> request goes to the upstream once; when it is answered
  with a result, the cache afterwards records what the upstream itself supports, and the client is told
  that tasks are supported (whatever the upstream announced, as long as the announced capabilities are
  objects) and never that task status notifications are.\<close>

lemma initialize_announces:
  assumes "mq_method r = ''initialize''" and "pv_upstream P r = Inr response"
    and "mr_error response = None" and "mr_result response = Some result"
    and "json_wf result" and "open_path [''capabilities'', ''tasks'', ''requests''] result"
  shows "\<exists>s' v. route_request P r s = (s', [Forwarded r], Some (Immediate (Inr (rpc_success (mr_id response) v)))) \<and>
    cc_upstream_supports_tasks (ms_cache s') = extract_upstream_task_support result \<and>
    cc_upstream_supports_task_sse (ms_cache s') = extract_upstream_sse_support result \<and>
    extract_upstream_task_support v \<and> \<not> extract_upstream_sse_support v"
proof -
  have "route r = InitializeHandler r" using assms(1) by (simp add: route_def)
  then have "\<exists>s'. route_request P r s = (s', [Forwarded r], Some (Immediate (Inr (rpc_success (mr_id response)
        (strip_sse_capability (inject_task_capability result)))))) \<and>
      cc_upstream_supports_tasks (ms_cache s') = extract_upstream_task_support result \<and>
      cc_upstream_supports_task_sse (ms_cache s') = extract_upstream_sse_support result"
    using assms(2-4) by (simp add: route_request_def handle_initialize_method_def set_upstream_supports_tasks_def
        set_upstream_supports_task_sse_def)
  with strip_keeps_task_support [OF json_wf_inject [OF assms(5)]] strip_sse_support [OF json_wf_inject [OF assms(5)]]
    inject_task_support [OF assms(6)] show ?thesis by blast
qed

definition proxy_config :: config where
  "proxy_config = demo_config\<lparr>cf_sources := map (\<lambda>s. s\<lparr>so_id := get_source_id\<rparr>) (cf_sources demo_config)\<rparr>"

definition demo_state :: mcp_state where
  "demo_state = \<lparr>ms_cedar_engine = (\<lambda>_. CD_Permit []), ms_config = Some proxy_config,
     ms_evaluator = Some (demo_evaluator (StoreOnly (store_with_metrics demo_cfg))\<lparr>ev_config := proxy_config\<rparr>),
     ms_backend = StoreOnly (store_with_metrics demo_cfg), ms_cache = capability_cache_new,
     ms_blocking_approval_timeout_secs = 300, ms_profile = Production, ms_globs = demo_globs\<rparr>"

definition demo_upstream :: "parsed_request \<Rightarrow> tg_error + rpc_response" where
  "demo_upstream r = Inr (rpc_success (mq_id r) (JObject (if mq_method r = ''initialize''
     then [(''capabilities'', JObject [(''notifications'',
        JObject [(''tasks'', JObject [(''status'', JBool True)])])])] else [])))"

definition demo_proxy_env :: proxy_env where
  "demo_proxy_env = \<lparr>pv_upstream = demo_upstream, pv_identity = demo_caller ''a'', pv_eval = demo_env,
     pv_elapsed = None, pv_wire = demo_wire\<rparr>"

definition demo_message :: "string \<Rightarrow> string \<Rightarrow> parsed_request" where
  "demo_message m tool = \<lparr>mq_id = Some (IdNumber 1), mq_method = m, mq_params = Some (JObject [(''name'', JString tool)]),
     mq_task_metadata = None, mq_correlation_id = 0\<rparr>"

end
