(* ===== verification/Principal_Inference.thy ===== *)
theory Principal_Inference
  imports Config_Loader Mcp_Proxy
begin

text \<open>
  Who the gateway acts for (\<open>policy/principal.rs\<close>): the principal of development mode, or the one of the
  Kubernetes pod, read from its environment and the mounted service account. The decoder of base64 and
  the parser of \<open>serde_json\<close> are arguments, as are the variables and files of the process.
\<close>

declare map_of_eq_Some_iff [simp del]

record identity_env =
  ie_var :: "string \<Rightarrow> string option"
  ie_read :: "string \<Rightarrow> string + string"
  ie_base64 :: "string \<Rightarrow> string option"
  ie_json :: "string \<Rightarrow> json option"

definition or_var :: "identity_env \<Rightarrow> string \<Rightarrow> string \<Rightarrow> string" where
  "or_var I name dflt = (case ie_var I name of Some v \<Rightarrow> v | None \<Rightarrow> dflt)"

definition dev_mode_principal :: "identity_env \<Rightarrow> policy_principal" where
  "dev_mode_principal I =
     \<lparr>pp_app_name = or_var I ''THOUGHTGATE_DEV_PRINCIPAL'' ''dev-app'',
      pp_namespace = or_var I ''THOUGHTGATE_DEV_NAMESPACE'' ''development'',
      pp_service_account = ''dev-sa'', pp_roles = [''dev'']\<rparr>"

definition parse_service_account_from_token :: "identity_env \<Rightarrow> string \<Rightarrow> string option" where
  "parse_service_account_from_token I token =
     (let parts = split_on (CHR ''.'') token in
      if length parts \<noteq> 3 then None
      else Option.bind (Option.bind (ie_base64 I (parts ! 1)) (ie_json I))
             (\<lambda>claims. Option.bind (jget ''kubernetes.io/serviceaccount/service-account.name'' claims) as_str))"

definition service_account_dir :: string where
  "service_account_dir = ''/var/run/secrets/kubernetes.io/serviceaccount/''"

text \<open>The error is the text of \<open>PolicyError::IdentityError\<close>.\<close>

definition kubernetes_principal :: "identity_env \<Rightarrow> string + policy_principal" where
  "kubernetes_principal I =
     (case ie_var I ''HOSTNAME'' of
        None \<Rightarrow> Inl ''HOSTNAME environment variable not set''
      | Some app_name \<Rightarrow>
          (case ie_read I (service_account_dir @ ''namespace'') of
             Inl e \<Rightarrow> Inl (''Cannot read namespace from ServiceAccount mount: '' @ e)
           | Inr ns \<Rightarrow>
               Inr \<lparr>pp_app_name = app_name, pp_namespace = trim ns,
                 pp_service_account =
                   (case ie_read I (service_account_dir @ ''token'') of
                      Inl _ \<Rightarrow> ''default''
                    | Inr token \<Rightarrow>
                        (case parse_service_account_from_token I token of Some sa \<Rightarrow> sa | None \<Rightarrow> ''default'')),
                 pp_roles = []\<rparr>))"

definition infer_principal :: "identity_env \<Rightarrow> string + policy_principal" where
  "infer_principal I =
     (if ie_var I ''THOUGHTGATE_DEV_MODE'' = Some ''true'' then Inr (dev_mode_principal I)
      else kubernetes_principal I)"

text \<open>The inference runs on a thread of its own; \<open>joined\<close> is whether the thread ended without a panic. The result is what
  \<^const>\<open>infer_principal_or_error\<close> and \<^const>\<open>infer_principal_optional\<close> go on with.\<close>

definition spawn_infer_principal :: "string + unit \<Rightarrow> identity_env \<Rightarrow> identity" where
  "spawn_infer_principal joined I =
     (case joined of
        Inl e \<Rightarrow> Id_Panic e
      | Inr _ \<Rightarrow> (case infer_principal I of Inl e \<Rightarrow> Id_Error (''Identity error: '' @ e) | Inr p \<Rightarrow> Id_Principal p))"

section \<open>Outside development mode no role is granted\<close>

lemma infer_principal_Inr:
  assumes "infer_principal I = Inr p"
  shows "ie_var I ''THOUGHTGATE_DEV_MODE'' = Some ''true'' \<and> p = dev_mode_principal I \<or>
         ie_var I ''HOSTNAME'' = Some (pp_app_name p) \<and> pp_roles p = [] \<and>
         (\<exists>ns. ie_read I (service_account_dir @ ''namespace'') = Inr ns \<and> pp_namespace p = trim ns)"
  using assms
  by (auto simp: infer_principal_def kubernetes_principal_def split: if_splits option.splits sum.splits)

text \<open>Without an identity every request that needs one is refused, and the refusal says why.\<close>

lemma identity_required:
  "infer_principal_or_error (spawn_infer_principal joined I) = Inr p \<longleftrightarrow> joined = Inr () \<and> infer_principal I = Inr p"
  by (cases joined) (auto simp: infer_principal_or_error_def spawn_infer_principal_def split: sum.splits)

end
