(* ===== verification/Wrap_Launch.thy ===== *)
theory Wrap_Launch
  imports Wrap_Laws Mock_Adapter Principal_Inference Stdio_Shim
begin

text \<open>
  The command \<open>thoughtgate wrap\<close> (\<open>wrap/config_guard.rs\<close>, \<open>wrap/agent_launch.rs\<close>, \<open>cli.rs\<close>): choose the adapter,
  parse the servers, start the governance service, lock the configuration, point the servers at the
  shim, run the agent and put the configuration back. The outside of the process (the executable's
  path, the port that is bound, other holders of the lock, the signals, the agent process, the Cedar
  engine) is an argument. The guard is dropped on every way out, so every return passes through
  \<open>guard_restore\<close>.
\<close>

declare map_of_eq_Some_iff [simp del]

section \<open>Configuration guard\<close>

record config_guard =
  cg_config_path :: string
  cg_backup_path :: "string option"
  cg_restored :: bool

text \<open>\<open>held\<close>: another process holds the lock.\<close>

definition guard_lock :: "bool \<Rightarrow> string \<Rightarrow> fs \<Rightarrow> fs \<times> (wrap_error + config_guard)" where
  "guard_lock held config_path s =
     (case fs_write (config_path @ ''.thoughtgate-lock'') [] s of
        (s, Inl e) \<Rightarrow> (s, Inl (WE_Io e))
      | (s, Inr _) \<Rightarrow>
          (s, if held then Inl WE_Locked
              else Inr \<lparr>cg_config_path = config_path, cg_backup_path = None, cg_restored = False\<rparr>))"

definition set_backup :: "string \<Rightarrow> config_guard \<Rightarrow> config_guard" where
  "set_backup backup_path g = g\<lparr>cg_backup_path := Some backup_path\<rparr>"

definition guard_new :: "bool \<Rightarrow> string \<Rightarrow> string \<Rightarrow> fs \<Rightarrow> fs \<times> (wrap_error + config_guard)" where
  "guard_new held config_path backup_path s =
     map_prod id (map_sum id (set_backup backup_path)) (guard_lock held config_path s)"

definition skip_restore :: "config_guard \<Rightarrow> config_guard" where
  "skip_restore g = g\<lparr>cg_restored := True\<rparr>"

definition guard_restore :: "config_guard \<Rightarrow> fs \<Rightarrow> fs \<times> config_guard \<times> (wrap_error + unit)" where
  "guard_restore g s =
     (if cg_restored g then (s, g, Inr ())
      else let g' = g\<lparr>cg_restored := True\<rparr> in
        case cg_backup_path g of
          None \<Rightarrow> (s, g', Inr ())
        | Some backup_path \<Rightarrow>
            (case fs_copy backup_path (cg_config_path g) s of
               (s, Inl e) \<Rightarrow> (s, g', Inl (WE_Io e))
             | (s, Inr _) \<Rightarrow> (fst (fs_remove backup_path s), g', Inr ())))"

definition guard_drop :: "config_guard \<Rightarrow> fs \<Rightarrow> fs" where
  "guard_drop g s = fst (guard_restore g s)"

section \<open>Arguments\<close>

datatype cli_profile = CLI_Production | CLI_Development

datatype cli_agent_type =
  CLI_ClaudeDesktop | CLI_ClaudeCode | CLI_Cursor | CLI_Vscode | CLI_Windsurf | CLI_Zed | CLI_Custom

fun profile_of_cli :: "cli_profile \<Rightarrow> profile" where
  "profile_of_cli CLI_Production = Production"
| "profile_of_cli CLI_Development = Development"

fun agent_type_of_cli :: "cli_agent_type \<Rightarrow> agent_type" where
  "agent_type_of_cli CLI_ClaudeDesktop = AT_ClaudeDesktop"
| "agent_type_of_cli CLI_ClaudeCode = AT_ClaudeCode"
| "agent_type_of_cli CLI_Cursor = AT_Cursor"
| "agent_type_of_cli CLI_Vscode = AT_VsCode"
| "agent_type_of_cli CLI_Windsurf = AT_Windsurf"
| "agent_type_of_cli CLI_Zed = AT_Zed"
| "agent_type_of_cli CLI_Custom = AT_Custom"

record wrap_args =
  wa_agent_type :: "cli_agent_type option"
  wa_config_path :: "string option"
  wa_profile :: cli_profile
  wa_thoughtgate_config :: string
  wa_governance_port :: "16 word"
  wa_no_restore :: bool
  wa_dry_run :: bool
  wa_verbose :: bool
  wa_command :: "string list"

text \<open>What ends the wait for the agent.\<close>

datatype agent_event = AgentExited "int option" | WaitFailed string | GotSigterm | GotSigint

record launch_env =
  ln_env :: wrap_env
  ln_current_exe :: "string option"
  ln_canonicalize :: "string \<Rightarrow> string option"
  ln_which :: "string + string"
  ln_temp_dir :: string
  ln_diff :: "string \<Rightarrow> string \<Rightarrow> string"
  ln_loader :: loader_env
  ln_identity :: identity_env
  ln_identity_joined :: "string + unit"
  ln_cedar :: "cedar_config option \<Rightarrow> string + (cedar_request \<Rightarrow> cedar_decision) \<times> policy_engine"
  ln_slack_client :: "string + unit"
  ln_slack_pretty :: "json \<Rightarrow> string"
  ln_slack_time :: "datetime \<Rightarrow> string"
  ln_ext :: ext
  ln_codec :: codec
  ln_to_lowercase :: "string \<Rightarrow> string"
  ln_bind :: "16 word \<Rightarrow> string + 16 word"
  ln_lock_held :: bool
  ln_sigterm :: "string + unit"
  ln_sigint :: "string + unit"
  ln_spawn :: "string + unit"
  ln_event :: agent_event
  ln_shutdown_posted :: bool
  ln_exit_wait :: wait_result
  ln_kill_wait :: "string + int option"

definition resolve_shim_binary :: "launch_env \<Rightarrow> stdio_error + string" where
  "resolve_shim_binary L =
     (case Option.bind (ln_current_exe L) (ln_canonicalize L) of
        Some canonical \<Rightarrow> Inr canonical
      | None \<Rightarrow>
          (case ln_which L of
             Inr p \<Rightarrow> Inr p
           | Inl e \<Rightarrow> Inl (SE_StdioIo (''could not resolve thoughtgate binary: '' @ e))))"

fun config_err_to_stdio :: "string \<Rightarrow> wrap_error \<Rightarrow> stdio_error" where
  "config_err_to_stdio config_path (WE_NotFound path) = SE_ConfigNotFound path"
| "config_err_to_stdio config_path WE_Locked = SE_ConfigLocked config_path"
| "config_err_to_stdio config_path (WE_Parse reason) = SE_ConfigParseError config_path reason"
| "config_err_to_stdio config_path (WE_Write reason) = SE_ConfigWriteError config_path reason"
| "config_err_to_stdio config_path WE_AlreadyManaged =
     SE_ConfigParseError config_path ''config already managed by ThoughtGate''"
| "config_err_to_stdio config_path WE_NoServers = SE_ConfigParseError config_path ''no stdio MCP servers found''"
| "config_err_to_stdio config_path (WE_UndefinedEnvVar name) =
     SE_ConfigParseError config_path (''undefined environment variable: '' @ name)"
| "config_err_to_stdio config_path (WE_Io e) = SE_StdioIo (io_text e)"

section \<open>Dry run\<close>

definition fs_create_dir_all :: "fs \<Rightarrow> fs \<times> (io_error + unit)" where
  "fs_create_dir_all s =
     (case take_fault s of (Fault e _, s) \<Rightarrow> (s, Inl (IoOther e)) | (NoFault, s) \<Rightarrow> (s, Inr ()))"

definition fs_remove_dir_all :: "string \<Rightarrow> fs \<Rightarrow> fs" where
  "fs_remove_dir_all d s =
     (case take_fault s of
        (Fault _ _, s) \<Rightarrow> s
      | (NoFault, s) \<Rightarrow> s\<lparr>fs_files := filter (\<lambda>(p, _). take (length d + 1) p \<noteq> d @ ''/'') (fs_files s)\<rparr>)"

text \<open>The text printed, and the exit code.\<close>

definition run_dry_run ::
  "launch_env \<Rightarrow> config_adapter \<Rightarrow> string \<Rightarrow> mcp_server_entry list \<Rightarrow> string \<Rightarrow> profile \<Rightarrow> fs \<Rightarrow>
   fs \<times> string \<times> (stdio_error + int)" where
  "run_dry_run L adapter config_path servers shim_binary prof s =
     (case read_to_string (ln_env L) config_path s of
        (s, Inl e) \<Rightarrow> (s, [], Inl (SE_StdioIo (io_text e)))
      | (s, Inr original) \<Rightarrow>
     (let temp_dir = path_join (ln_temp_dir L) ''thoughtgate-dry-run'';
          temp_config = path_join temp_dir ''config.json'' in
      case fs_create_dir_all s of
        (s, Inl e) \<Rightarrow> (s, [], Inl (SE_StdioIo (io_text e)))
      | (s, Inr _) \<Rightarrow>
     (case fs_copy config_path temp_config s of
        (s, Inl e) \<Rightarrow> (s, [], Inl (SE_StdioIo (io_text e)))
      | (s, Inr _) \<Rightarrow>
     (case ca_rewrite_config adapter (ln_env L) temp_config servers shim_binary
             \<lparr>so_server_id = [], so_governance_endpoint = ''http://127.0.0.1:0'', so_profile = prof,
              so_config_path = None\<rparr> s of
        (s, Inl e) \<Rightarrow> (s, [], Inl (config_err_to_stdio config_path e))
      | (s, Inr _) \<Rightarrow>
     (case read_to_string (ln_env L) temp_config s of
        (s, Inl e) \<Rightarrow> (s, [], Inl (SE_StdioIo (io_text e)))
      | (s, Inr rewritten) \<Rightarrow> (fs_remove_dir_all temp_dir s, ln_diff L original rewritten, Inr 0))))))"

section \<open>Governance\<close>

definition noop_upstream :: upstream where
  "noop_upstream = (\<lambda>_. U_Error (ServiceUnavailable ''Upstream forwarding not available in CLI mode''))"

definition wrap_principal :: "launch_env \<Rightarrow> principal" where
  "wrap_principal L =
     (case infer_principal_optional (spawn_infer_principal (ln_identity_joined L) (ln_identity L)) of
        Some p \<Rightarrow> p
      | None \<Rightarrow>
          principal_from_policy
            (case we_var (ln_env L) ''USER'' of Some user \<Rightarrow> user | None \<Rightarrow> ''anonymous'') ''local'' ''local'' [])"

definition choose_adapter :: "launch_env \<Rightarrow> profile \<Rightarrow> string \<Rightarrow> stdio_error + adapter_choice" where
  "choose_adapter L prof config_path =
     (case (case slack_config_from_env (we_var (ln_env L)) of
              Inl e \<Rightarrow> Inl e
            | Inr C \<Rightarrow> slack_adapter_new (ln_slack_client L) (ln_slack_pretty L) (ln_slack_time L) C) of
        Inr A \<Rightarrow> Inr (SlackChosen A)
      | Inl e \<Rightarrow>
          if prof = Production
          then Inl (SE_ConfigParseError config_path
                 (''approval adapter required in production but failed to initialize: '' @
                  adapter_error_to_string (ln_ext L) e))
          else Inr (MockChosen (mock_new (from_secs 1) True)))"

text \<open>The service, and the adapter its approvals go to when a scheduler is started.\<close>

definition setup_governance ::
  "launch_env \<Rightarrow> config option \<Rightarrow> profile \<Rightarrow> string \<Rightarrow> stdio_error + governance_service \<times> adapter_choice option" where
  "setup_governance L tg_config prof config_path =
     (case tg_config of
        None \<Rightarrow> Inr (governance_service_new, None)
      | Some cfg \<Rightarrow>
          let cedar = (case ln_cedar L (cf_cedar cfg) of Inr c \<Rightarrow> Some c | Inl _ \<Rightarrow> None);
              store = store_new (store_config_default
                        (Option.bind (we_var (ln_env L) ''THOUGHTGATE_MAX_PENDING_BYTES'') parse_usize));
              evaluator_on = (\<lambda>b. \<lparr>ev_config = cfg, ev_cedar_engine = map_option fst cedar,
                ev_principal = wrap_principal L, ev_profile = prof, ev_backend = b, ev_ext = ln_ext L,
                ev_globs = le_globs (ln_loader L)\<rparr>)
          in if requires_approval_engine cfg then
               (case choose_adapter L prof config_path of
                  Inl e \<Rightarrow> Inl e
                | Inr a \<Rightarrow>
                    Inr (with_evaluator (evaluator_on
                      (case cedar of
                         Some c \<Rightarrow> WithEngine (engine_new store (ln_ext L) (ln_codec L) noop_upstream (snd c)
                                     (engine_config_from_env parse_usize (ln_to_lowercase L) (we_var (ln_env L))))
                       | None \<Rightarrow> WithScheduler (scheduler_new store polling_config_default))), Some a))
             else Inr (with_evaluator (evaluator_on (StoreOnly store)), None))"

definition v0_2 :: version where
  "v0_2 = \<lparr>v_major = 0, v_minor = 2, v_patch = 0\<rparr>"

text \<open>A configuration that is missing or does not load leaves the service without an evaluator.\<close>

definition load_tg_config :: "launch_env \<Rightarrow> string \<Rightarrow> config option" where
  "load_tg_config L path =
     (if path = [] then None
      else if le_exists (ln_loader L) path then
        (case load_and_validate (ln_loader L) path v0_2 of
           Inr (c, _) \<Rightarrow> Some c
         | Inl _ \<Rightarrow> None)
      else None)"

section \<open>The end of the agent\<close>

definition agent_code :: "int option \<Rightarrow> int" where
  "agent_code c = (case c of Some n \<Rightarrow> n | None \<Rightarrow> 1)"

text \<open>Whether the agent had to be killed, and the exit code.\<close>

definition handle_signal_shutdown :: "launch_env \<Rightarrow> governance_service \<Rightarrow> governance_service \<times> bool \<times> int" where
  "handle_signal_shutdown L gov =
     (let gov = trigger_shutdown gov;
          gov = (if ln_shutdown_posted L then shutdown_handler gov else gov) in
      case ln_exit_wait L of
        W_Exited c \<Rightarrow> (gov, False, agent_code c)
      | W_Failed _ \<Rightarrow> (gov, False, 1)
      | W_Elapsed \<Rightarrow> (gov, True, case ln_kill_wait L of Inr c \<Rightarrow> agent_code c | Inl _ \<Rightarrow> 1))"

definition wrap_cleanup :: "governance_service \<Rightarrow> governance_service" where
  "wrap_cleanup gov = trigger_shutdown gov"

section \<open>The command\<close>

record wrap_result =
  wr_fs :: fs
  wr_printed :: string
  wr_service :: "governance_service option"
  wr_agent :: "(string \<times> string list) option"   \<comment> \<open>the agent that was started\<close>
  wr_outcome :: "(stdio_error, int) rres"

definition fails :: "fs \<Rightarrow> governance_service option \<Rightarrow> stdio_error \<Rightarrow> wrap_result" where
  "fails s gov e = \<lparr>wr_fs = s, wr_printed = [], wr_service = gov, wr_agent = None, wr_outcome = RErr e\<rparr>"

text \<open>The agent runs while the configuration is rewritten. With no command to run the program panics; the
  hook copies the backup and the guard is dropped as the stack unwinds.\<close>

definition run_agent ::
  "launch_env \<Rightarrow> wrap_args \<Rightarrow> config_guard \<Rightarrow> string \<Rightarrow> governance_service \<Rightarrow> fs \<Rightarrow> wrap_result" where
  "run_agent L args guard backup_path gov s =
     (case ln_sigterm L of
        Inl e \<Rightarrow> fails (guard_drop guard s) (Some gov) (SE_StdioIo e)
      | Inr _ \<Rightarrow>
     (case ln_sigint L of
        Inl e \<Rightarrow> fails (guard_drop guard s) (Some gov) (SE_StdioIo e)
      | Inr _ \<Rightarrow>
     (case wa_command args of
        [] \<Rightarrow> \<lparr>wr_fs = guard_drop guard (fst (fs_copy backup_path (cg_config_path guard) s)),
               wr_printed = [], wr_service = Some gov, wr_agent = None, wr_outcome = RPanic\<rparr>
      | agent_command # agent_args \<Rightarrow>
     (case ln_spawn L of
        Inl e \<Rightarrow> fails (guard_drop guard s) (Some gov) (SE_ServerSpawnError ''agent'' e)
      | Inr _ \<Rightarrow>
          let finished = (\<lambda>gov code.
                case (if wa_no_restore args then (s, guard)
                      else case guard_restore guard s of (s, g, _) \<Rightarrow> (s, g)) of
                  (s, g) \<Rightarrow>
                    \<lparr>wr_fs = guard_drop g s, wr_printed = [], wr_service = Some (wrap_cleanup gov),
                     wr_agent = Some (agent_command, agent_args), wr_outcome = ROk code\<rparr>)
          in (case ln_event L of
                AgentExited c \<Rightarrow> finished gov (agent_code c)
              | WaitFailed e \<Rightarrow>
                  \<lparr>wr_fs = guard_drop guard s, wr_printed = [], wr_service = Some gov,
                   wr_agent = Some (agent_command, agent_args), wr_outcome = RErr (SE_StdioIo e)\<rparr>
              | _ \<Rightarrow> (case handle_signal_shutdown L gov of (gov, _, code) \<Rightarrow> finished gov code))))))"

fun nat_digits :: "nat \<Rightarrow> string" where
  "nat_digits n = (if n < 10 then [char_of (48 + n)] else nat_digits (n div 10) @ [char_of (48 + n mod 10)])"

declare nat_digits.simps [simp del]

text \<open>From the moment the governance service runs: lock, rewrite, run the agent.\<close>

definition run_locked ::
  "launch_env \<Rightarrow> wrap_args \<Rightarrow> config_adapter \<Rightarrow> string \<Rightarrow> mcp_server_entry list \<Rightarrow> string \<Rightarrow> governance_service \<Rightarrow>
   16 word \<Rightarrow> fs \<Rightarrow> wrap_result" where
  "run_locked L args adapter config_path servers shim_binary gov gov_port s =
     (case guard_lock (ln_lock_held L) config_path s of
        (s, Inl e) \<Rightarrow> fails s (Some gov) (config_err_to_stdio config_path e)
      | (s, Inr guard) \<Rightarrow>
     (case ca_rewrite_config adapter (ln_env L) config_path servers shim_binary
             \<lparr>so_server_id = [], so_governance_endpoint = ''http://127.0.0.1:'' @ nat_digits (unat gov_port),
              so_profile = profile_of_cli (wa_profile args),
              so_config_path = (if wa_thoughtgate_config args = [] then None
                                else ln_canonicalize L (wa_thoughtgate_config args))\<rparr> s of
        (s, Inl e) \<Rightarrow> fails (guard_drop guard s) (Some gov) (config_err_to_stdio config_path e)
      | (s, Inr backup_path) \<Rightarrow>
          let guard = set_backup backup_path guard;
              guard = (if wa_no_restore args then skip_restore guard else guard)
          in run_agent L args guard backup_path gov s))"

definition wrap_agent_type :: "wrap_args \<Rightarrow> stdio_error + agent_type" where
  "wrap_agent_type args =
     (case wa_agent_type args of
        Some t \<Rightarrow> Inr (agent_type_of_cli t)
      | None \<Rightarrow>
          (case wa_command args of
             [] \<Rightarrow> Inl (SE_UnknownAgentType [])
           | agent_cmd # _ \<Rightarrow>
               (case detect_agent_type agent_cmd of
                  Some t \<Rightarrow> Inr t
                | None \<Rightarrow> Inl (SE_UnknownAgentType agent_cmd))))"

definition wrap_config_path ::
  "launch_env \<Rightarrow> wrap_args \<Rightarrow> config_adapter \<Rightarrow> fs \<Rightarrow> fs \<times> (stdio_error + string)" where
  "wrap_config_path L args adapter s =
     (case wa_config_path args of
        Some path \<Rightarrow>
          (case fs_exists path s of (s, b) \<Rightarrow> (s, if b then Inr path else Inl (SE_ConfigNotFound path)))
      | None \<Rightarrow>
          (case ca_discover_config_path adapter (ln_env L) s of
             (s, Some path) \<Rightarrow> (s, Inr path)
           | (s, None) \<Rightarrow> (s, Inl (SE_ConfigNotFound ''<auto-detect failed>''))))"

definition run_wrap :: "launch_env \<Rightarrow> wrap_args \<Rightarrow> fs \<Rightarrow> wrap_result" where
  "run_wrap L args s =
     (case wrap_agent_type args of
        Inl e \<Rightarrow> fails s None e
      | Inr agent_type \<Rightarrow>
     (let adapter = adapter_for_agent_type agent_type in
      case wrap_config_path L args adapter s of
        (s, Inl e) \<Rightarrow> fails s None e
      | (s, Inr config_path) \<Rightarrow>
     (case ca_parse_servers adapter (ln_env L) config_path s of
        (s, Inl e) \<Rightarrow> fails s None (config_err_to_stdio config_path e)
      | (s, Inr servers) \<Rightarrow>
     (case resolve_shim_binary L of
        Inl e \<Rightarrow> fails s None e
      | Inr shim_binary \<Rightarrow>
          if wa_dry_run args then
            (case run_dry_run L adapter config_path servers shim_binary (profile_of_cli (wa_profile args)) s of
               (s, out, r) \<Rightarrow>
                 \<lparr>wr_fs = s, wr_printed = out, wr_service = None, wr_agent = None,
                  wr_outcome = (case r of Inl e \<Rightarrow> RErr e | Inr code \<Rightarrow> ROk code)\<rparr>)
          else
     (case setup_governance L (load_tg_config L (wa_thoughtgate_config args))
             (profile_of_cli (wa_profile args)) (wa_thoughtgate_config args) of
        Inl e \<Rightarrow> fails s None e
      | Inr (gov, _) \<Rightarrow>
     (case ln_bind L (wa_governance_port args) of
        Inl e \<Rightarrow> fails s (Some gov) (SE_StdioIo e)
      | Inr gov_port \<Rightarrow>
          if gov_port = 0
          then fails s (Some gov) (SE_ServerSpawnError ''governance'' ''governance service bound to port 0'')
          else run_locked L args adapter config_path servers shim_binary gov gov_port s))))))"

end
