(* ===== verification/Shim_Run.thy ===== *)
theory Shim_Run
  imports Stdio_Theorems Wrap_Launch
begin

text \<open>
  The command \<open>thoughtgate shim\<close> (\<open>shim/proxy/mod.rs\<close>, \<open>shim/lifecycle.rs\<close>, \<open>main.rs\<close>, \<open>cli.rs\<close>): start the server,
  wait for the governance service, run the two message loops and the heartbeat at once over the same
  requests in flight, the same output and the same shutdown signal, end with the first of them, and
  shut the server down. The tasks are interleaved by a schedule; a request is recorded in a step of its
  own after its line was written to the server, as in the code.
\<close>

declare map_of_eq_Some_iff [simp del]

section \<open>A session\<close>

text \<open>The loop from the agent: reading, about to record a request, waiting for an approval that never
  comes, or ended.\<close>

datatype agent_task =
    A_Reading
  | A_Tracking "(json_rpc_id \<times> pending_request) list" line_flow
  | A_Waiting
  | A_Ended "stdio_error + unit"

record session =
  ss_agent_in :: "chunk list"
  ss_server_in :: "chunk list"
  ss_requests :: pending_requests
  ss_out :: "shim_out list"
  ss_signal :: bool
  ss_agent :: agent_task
  ss_server :: "(stdio_error + unit) option"  \<comment> \<open>the result of the loop from the server\<close>
  ss_heartbeat :: bool                        \<comment> \<open>the heartbeat runs\<close>
  ss_exited :: bool                           \<comment> \<open>the server process has ended\<close>

definition session_new :: "chunk list \<Rightarrow> chunk list \<Rightarrow> session" where
  "session_new agent_in server_in = \<lparr>ss_agent_in = agent_in, ss_server_in = server_in,
     ss_requests = pending_requests_default, ss_out = [], ss_signal = False, ss_agent = A_Reading,
     ss_server = None, ss_heartbeat = True, ss_exited = False\<rparr>"

definition track :: "(json_rpc_id \<times> pending_request) list \<Rightarrow> pending_requests \<Rightarrow> pending_requests" where
  "track ps reqs = reqs\<lparr>pq_outbound := fold (\<lambda>(i, r). AList.update i r) ps (pq_outbound reqs)\<rparr>"

fun after_line :: "line_flow \<Rightarrow> agent_task" where
  "after_line Next = A_Reading"
| "after_line Stop = A_Ended (Inr ())"
| "after_line (Abort e) = A_Ended (Inl e)"

text \<open>One line of the agent up to its output, or the recording of the request that was written.\<close>

definition agent_step :: "shim \<Rightarrow> nat \<Rightarrow> line_env \<Rightarrow> session \<Rightarrow> session" where
  "agent_step S patience L s =
     (case ss_agent s of
        A_Reading \<Rightarrow>
          if ss_signal s then s\<lparr>ss_agent := A_Ended (Inr ())\<rparr>
          else (case bounded_read_line patience max_message_bytes [] 0 (ss_agent_in s) of
                  (r, raw, cs) \<Rightarrow>
                    (let s = s\<lparr>ss_agent_in := cs\<rparr> in
                     case r of
                       Inl (FE_MessageTooLarge _) \<Rightarrow> s
                     | Inl e \<Rightarrow> s\<lparr>ss_agent := A_Ended (Inl (SE_Framing (sh_server_id S) AgentToServer e))\<rparr>
                     | Inr n \<Rightarrow>
                         if n = 0 then s\<lparr>ss_agent := A_Ended (Inr ())\<rparr>
                         else (case a2s_line S L raw pending_requests_default of
                                 None \<Rightarrow> s\<lparr>ss_agent := A_Waiting\<rparr>
                               | Some (out, reqs, sent, fl) \<Rightarrow>
                                   s\<lparr>ss_out := ss_out s @ out, ss_signal := ss_signal s \<or> sent,
                                     ss_agent := A_Tracking (pq_outbound reqs) fl\<rparr>)))
      | A_Tracking ps fl \<Rightarrow> s\<lparr>ss_requests := track ps (ss_requests s), ss_agent := after_line fl\<rparr>
      | A_Waiting \<Rightarrow> s
      | A_Ended _ \<Rightarrow> s)"

text \<open>One line of the server.\<close>

definition server_line :: "shim \<Rightarrow> nat \<Rightarrow> line_env \<Rightarrow> session \<Rightarrow> session" where
  "server_line S patience L s =
     (if ss_server s \<noteq> None then s
      else if ss_signal s then s\<lparr>ss_server := Some (Inr ())\<rparr>
      else case bounded_read_line patience max_message_bytes [] 0 (ss_server_in s) of
             (r, raw, cs) \<Rightarrow>
               (let s = s\<lparr>ss_server_in := cs\<rparr> in
                case r of
                  Inl (FE_MessageTooLarge _) \<Rightarrow> s
                | Inl e \<Rightarrow> s\<lparr>ss_server := Some (Inl (SE_Framing (sh_server_id S) ServerToAgent e))\<rparr>
                | Inr n \<Rightarrow>
                    if n = 0 then s\<lparr>ss_server := Some (Inr ())\<rparr>
                    else (case s2a_line S (ln_sent_at L) raw (ss_requests s) of
                            (out, reqs) \<Rightarrow>
                              s\<lparr>ss_out := ss_out s @ out, ss_requests := reqs,
                                ss_server := (case ln_stdout L of
                                    Inl e \<Rightarrow> if out = [] then None else Some (Inl (SE_StdioIo e))
                                  | Inr _ \<Rightarrow> None)\<rparr>)))"

definition heartbeat_step :: "tick \<Rightarrow> session \<Rightarrow> session" where
  "heartbeat_step t s =
     (if ss_heartbeat s \<and> (t = Tick_Shutdown \<longrightarrow> ss_signal s) then
        (case heartbeat_loop [t] of
           None \<Rightarrow> s
         | Some sent \<Rightarrow> s\<lparr>ss_heartbeat := False, ss_signal := ss_signal s \<or> sent\<rparr>)
      else s)"

datatype act =
    Act_Agent line_env
  | Act_Server line_env
  | Act_Heartbeat tick
  | Act_Exit

fun session_step :: "shim \<Rightarrow> nat \<Rightarrow> act \<Rightarrow> session \<Rightarrow> session" where
  "session_step S patience (Act_Agent L) s = agent_step S patience L s"
| "session_step S patience (Act_Server L) s = server_line S patience L s"
| "session_step S patience (Act_Heartbeat t) s = heartbeat_step t s"
| "session_step S patience Act_Exit s = s\<lparr>ss_exited := True\<rparr>"

definition session_run :: "shim \<Rightarrow> nat \<Rightarrow> act list \<Rightarrow> session \<Rightarrow> session" where
  "session_run S patience acts s = fold (session_step S patience) acts s"

text \<open>What \<open>select!\<close> waits for.\<close>

definition select_ready :: "session \<Rightarrow> bool" where
  "select_ready s \<longleftrightarrow>
     (\<exists>r. ss_agent s = A_Ended r) \<or> ss_server s \<noteq> None \<or> ss_exited s \<or> ss_signal s"

text \<open>The server's input is closed when the loop that owns it has ended.\<close>

definition stdin_closed :: "session \<Rightarrow> bool" where
  "stdin_closed s \<longleftrightarrow> (\<exists>r. ss_agent s = A_Ended r)"

section \<open>The command\<close>

record shim_env =
  ve_shim :: shim                     \<comment> \<open>codecs and globs; the options below are filled in\<close>
  ve_patience :: nat
  ve_var :: "string \<Rightarrow> string option"  \<comment> \<open>the environment\<close>
  ve_spawn :: "string + nat option"   \<comment> \<open>the process of the server\<close>
  ve_client :: "string + unit"
  ve_loader :: loader_env
  ve_healthz :: "nat \<Rightarrow> unit http_reply"
  ve_stdin :: bool                    \<comment> \<open>the pipes of the server are there\<close>
  ve_stdout :: bool
  ve_agent_in :: "chunk list"
  ve_server_in :: "chunk list"
  ve_before :: "act list"             \<comment> \<open>the schedule until the selection\<close>
  ve_after :: "act list"              \<comment> \<open>and while the server is shut down\<close>
  ve_closed :: wait_result
  ve_terminated :: wait_result
  ve_killed :: "string + int option"

definition scrubbed_vars :: "string list" where
  "scrubbed_vars = [''THOUGHTGATE_ACTIVE'', ''THOUGHTGATE_SERVER_ID'', ''THOUGHTGATE_GOVERNANCE_ENDPOINT'']"

definition server_env :: "(string \<Rightarrow> string option) \<Rightarrow> string \<Rightarrow> string option" where
  "server_env var name = (if name \<in> set scrubbed_vars then None else var name)"

text \<open>The configuration for the filter of listings; one that does not load leaves listings unfiltered.\<close>

definition load_list_config :: "shim_env \<Rightarrow> config option" where
  "load_list_config E =
     Option.bind (ve_var E ''THOUGHTGATE_CONFIG'')
       (\<lambda>path. if \<not> le_exists (ve_loader E) path then None
               else (case load_and_validate (ve_loader E) path v0_2 of
                       Inr (c, _) \<Rightarrow> Some c
                     | Inl _ \<Rightarrow> None))"

text \<open>What a run leaves: the server that was started (command, arguments, environment), the session, the
  signals sent to the server, whether the server was killed because its handle was dropped, and the
  outcome.\<close>

record shim_run =
  sr_server :: "(string \<times> string list \<times> (string \<Rightarrow> string option)) option"
  sr_session :: "session option"
  sr_signals :: "signal list"
  sr_dropped :: bool
  sr_outcome :: "stdio_error + int"

definition shim_of :: "shim_env \<Rightarrow> shim_options \<Rightarrow> shim" where
  "shim_of E opts = (ve_shim E)\<lparr>sh_server_id := so_server_id opts, sh_profile := so_profile opts,
     sh_config := load_list_config E\<rparr>"

text \<open>None while no branch of \<open>select!\<close> is ready at the end of the first schedule.\<close>

definition run_shim :: "shim_env \<Rightarrow> shim_options \<Rightarrow> string \<Rightarrow> string list \<Rightarrow> shim_run option" where
  "run_shim E opts server_command arguments =
     (let err = (\<lambda>reason. SE_ServerSpawnError (so_server_id opts) reason);
          started = Some (server_command, arguments, server_env (ve_var E));
          quit = (\<lambda>e. Some \<lparr>sr_server = started, sr_session = None, sr_signals = [], sr_dropped = True,
                             sr_outcome = Inl e\<rparr>)
      in case ve_spawn E of
           Inl e \<Rightarrow> Some \<lparr>sr_server = None, sr_session = None, sr_signals = [], sr_dropped = False,
                           sr_outcome = Inl (err e)\<rparr>
         | Inr pid \<Rightarrow>
         (case ve_client E of
            Inl e \<Rightarrow> quit (err (''failed to build HTTP client: '' @ e))
          | Inr _ \<Rightarrow>
         (case snd (poll_governance_healthz (ve_healthz E)) of
            Inl e \<Rightarrow> quit e
          | Inr _ \<Rightarrow>
              if \<not> ve_stdin E then quit (err ''failed to capture server stdin'')
              else if \<not> ve_stdout E then quit (err ''failed to capture server stdout'')
              else
                let s = session_run (shim_of E opts) (ve_patience E) (ve_before E)
                          (session_new (ve_agent_in E) (ve_server_in E)) in
                if \<not> select_ready s then None
                else (case shutdown_server pid (ve_closed E) (ve_terminated E) (ve_killed E) of
                        (signals, r) \<Rightarrow>
                          Some \<lparr>sr_server = started,
                            sr_session = Some (session_run (shim_of E opts) (ve_patience E) (ve_after E) s),
                            sr_signals = signals, sr_dropped = False, sr_outcome = r\<rparr>))))"

record shim_cli =
  sc_server_id :: string
  sc_governance_endpoint :: string
  sc_profile :: cli_profile
  sc_command :: "string list"

definition shim_options_of :: "shim_cli \<Rightarrow> shim_options" where
  "shim_options_of args = \<lparr>so_server_id = sc_server_id args, so_governance_endpoint = sc_governance_endpoint args,
     so_profile = profile_of_cli (sc_profile args), so_config_path = None\<rparr>"

definition run_shim_from_args :: "shim_env \<Rightarrow> shim_cli \<Rightarrow> int option" where
  "run_shim_from_args E args =
     (case sc_command args of
        [] \<Rightarrow> Some 1
      | server_command # arguments \<Rightarrow>
          map_option (\<lambda>r. case sr_outcome r of Inr code \<Rightarrow> code | Inl _ \<Rightarrow> 1)
            (run_shim E (shim_options_of args) server_command arguments))"

datatype commands = Cmd_Wrap wrap_args | Cmd_Shim shim_cli

text \<open>The exit code; a panic of the wrapper ends the process with 101.\<close>

definition thoughtgate_main :: "launch_env \<Rightarrow> shim_env \<Rightarrow> commands \<Rightarrow> fs \<Rightarrow> int option" where
  "thoughtgate_main L E cli s =
     (case cli of
        Cmd_Wrap args \<Rightarrow>
          Some (case wr_outcome (run_wrap L args s) of ROk code \<Rightarrow> code | RErr _ \<Rightarrow> 1 | RPanic \<Rightarrow> 101)
      | Cmd_Shim args \<Rightarrow> run_shim_from_args E args)"

end
