(* ===== verification/Shim_Theorems.thy ===== *)
theory Shim_Theorems
  imports Shim_Run
begin

text \<open>
  What holds of a run of the shim however its tasks are interleaved: nothing reaches the server
  without the consent of the governance service, also while the server is being shut down; a signal
  ends both loops; without a governance service no message is read. And what does not: an answer that
  overtakes the record of its request is not filtered, and the server's input stays open when the
  server's output ends first.
\<close>

declare map_of_eq_Some_iff [simp del]

section \<open>Interleaved loops\<close>

lemma session_run_Nil [simp]: "session_run S n [] s = s"
  by (simp add: session_run_def)

lemma session_run_Cons [simp]: "session_run S n (a # acts) s = session_run S n acts (session_step S n a s)"
  by (simp add: session_run_def)

lemma session_run_append: "session_run S n (as @ bs) s = session_run S n bs (session_run S n as s)"
  by (simp add: session_run_def)

text \<open>The handling of a line reads no record of a request; it adds at most one.\<close>

lemma forward_tracked_track:
  "forward_tracked S L msg fb reqs =
     (case forward_tracked S L msg fb pending_requests_default of
        (out, p, fl) \<Rightarrow> (out, track (pq_outbound p) reqs, fl))"
  by (auto simp: forward_tracked_def write_server_def track_def pending_requests_default_def
      split: option.splits sum.splits)

lemma track_default [simp]: "track (pq_outbound pending_requests_default) reqs = reqs"
  by (simp add: track_def pending_requests_default_def)

lemma handle_outcome_track:
  "handle_outcome S L msg fb k reqs r =
     (case handle_outcome S L msg fb k pending_requests_default r of
        (out, p, fl) \<Rightarrow> (out, track (pq_outbound p) reqs, fl))"
  using forward_tracked_track [of S L msg fb reqs]
  by (auto simp: handle_outcome_def Let_def split: approval_poll_result.splits prod.splits)

lemma handle_governance_track:
  "handle_governance S L msg fb reqs resp =
     map_option (\<lambda>(out, p, sent, fl). (out, track (pq_outbound p) reqs, sent, fl))
       (handle_governance S L msg fb pending_requests_default resp)"
  unfolding handle_governance_def Let_def
    forward_tracked_track [of S L msg fb reqs] handle_outcome_track [of S L msg fb _ reqs]
  by (auto split: governance_decision.splits option.splits Option.bind_splits prod.splits)

lemma a2s_line_track:
  "a2s_line S L raw reqs =
     map_option (\<lambda>(out, p, sent, fl). (out, track (pq_outbound p) reqs, sent, fl))
       (a2s_line S L raw pending_requests_default)"
  unfolding a2s_line_def govern_def Let_def handle_governance_track [of S L _ _ reqs]
  by (auto split: sum.splits prod.splits http_reply.splits)

text \<open>What one step writes to the server is carried; only steps of the loop from the agent write there.\<close>

lemma agent_step_server:
  assumes "To_Server b \<in> set (ss_out (agent_step S n L s))" and "sh_profile S = Production"
  shows "To_Server b \<in> set (ss_out s) \<or> (\<exists>raw. carried S L raw b)"
  using assms a2s_line_server [OF _ _ assms(2)]
  by (fastforce simp: agent_step_def Let_def split: agent_task.splits if_splits prod.splits sum.splits
      framing_error.splits option.splits)

lemma s2a_line_server: "To_Server b \<notin> set (fst (s2a_line S now raw reqs))"
  by (auto simp: s2a_line_def Let_def split: sum.splits message_kind.splits option.splits)

lemma server_line_server: "To_Server b \<in> set (ss_out (server_line S n L s)) \<longleftrightarrow> To_Server b \<in> set (ss_out s)"
proof -
  have "s2a_line S now raw reqs = (out, reqs') \<Longrightarrow> To_Server b \<notin> set out" for now raw reqs out reqs'
    using s2a_line_server [of b S now raw reqs] by simp
  then show ?thesis
    by (auto simp: server_line_def Let_def split: prod.splits sum.splits framing_error.splits)
qed

lemma heartbeat_step_out [simp]: "ss_out (heartbeat_step t s) = ss_out s"
  by (simp add: heartbeat_step_def split: option.splits)

lemma session_run_server:
  assumes "sh_profile S = Production"
  shows "To_Server b \<in> set (ss_out (session_run S n acts s)) \<Longrightarrow>
    To_Server b \<in> set (ss_out s) \<or> (\<exists>L raw. Act_Agent L \<in> set acts \<and> carried S L raw b)"
proof (induction acts arbitrary: s)
  case (Cons a acts)
  from Cons.IH [of "session_step S n a s"] Cons.prems
  consider "To_Server b \<in> set (ss_out (session_step S n a s))"
    | L raw where "Act_Agent L \<in> set acts" "carried S L raw b" by auto
  then show ?case
  proof cases
    case 1
    then show ?thesis
      by (cases a) (auto simp: server_line_server dest: agent_step_server [OF _ assms])
  qed auto
qed simp

lemma run_shim_session:
  assumes "run_shim E opts cmd args = Some r" and "sr_session r = Some s"
  shows "s = session_run (shim_of E opts) (ve_patience E) (ve_before E @ ve_after E)
      (session_new (ve_agent_in E) (ve_server_in E))"
    and "snd (poll_governance_healthz (ve_healthz E)) = Inr ()"
    and "sr_server r = Some (cmd, args, server_env (ve_var E))"
  using assms
  by (auto simp: run_shim_def Let_def session_run_append split: sum.splits if_splits prod.splits)

lemma shim_of_fields [simp]:
  "sh_profile (shim_of E opts) = so_profile opts" "sh_from_str (shim_of E opts) = sh_from_str (ve_shim E)"
  "sh_config (shim_of E opts) = load_list_config E"
  by (simp_all add: shim_of_def)

section \<open>Mediation\<close>


definition demo_run_env :: shim_env where
  "demo_run_env = \<lparr>ve_shim = demo_shim, ve_patience = 3, ve_var = (\<lambda>_. None), ve_spawn = Inr (Some 7),
     ve_client = Inr (), ve_loader = demo_loader, ve_healthz = (\<lambda>_. HR_Response 200 (Inr ())),
     ve_stdin = True, ve_stdout = True,
     ve_agent_in = [Data (''re''), Data (''ad'' @ [newline])], ve_server_in = [],
     ve_before = [Act_Agent demo_line_env, Act_Agent demo_line_env, Act_Agent demo_line_env], ve_after = [],
     ve_closed = W_Exited (Some 0), ve_terminated = W_Elapsed, ve_killed = Inr None\<rparr>"

definition demo_run_opts :: shim_options where
  "demo_run_opts = \<lparr>so_server_id = ''s'', so_governance_endpoint = ''u'', so_profile = Production, so_config_path = None\<rparr>"

text \<open>The lines of the demonstration, read and handled one by one.\<close>

lemma demo_shim_reads:
  "bounded_read_line 3 max_message_bytes [] 0 [Data (''re''), Data (''ad'' @ [newline])] = (Inr 5, ''read'' @ [newline], [])"
  "bounded_read_line 3 max_message_bytes [] 0 [] = (Inr 0, [], [])"
  by (simp_all add: position_def consume_def Let_def max_message_bytes_def)

lemma demo_line:
  "a2s_line demo_shim demo_line_env (''read'' @ [newline]) pending_requests_default =
   Some ([To_Server (''read'' @ [newline])],
     \<lparr>pq_outbound = [(IdNumber 1, \<lparr>pr_method = ''tools/call'', pr_sent_at = 0\<rparr>)], pq_inbound = []\<rparr>, False, Next)"
  by code_simp

lemma healthz_first: "healthy (reply 1) \<Longrightarrow> snd (poll_governance_healthz reply) = Inr ()"
  by (simp add: poll_governance_healthz_def healthz_max_attempts_def eval_nat_numeral)

lemma demo_answers:
  "ln_evaluate demo_line_env req = HR_Response st (Inr resp) \<Longrightarrow> snd (evaluate_handler demo_env req demo_service) = Some resp"
  "pe_status (ln_poll demo_line_env k) c = HR_Response st' (Inr a) \<Longrightarrow> task_status_handler k demo_service = Inr a"
  by (auto simp: demo_line_env_def split: option.splits)

lemma demo_shim_of: "shim_of demo_run_env demo_run_opts = demo_shim"
  by (simp add: shim_of_def demo_run_env_def demo_run_opts_def demo_shim_def load_list_config_def)

lemma demo_run_ends:
  "\<exists>r s. run_shim demo_run_env demo_run_opts ''srv'' [] = Some r \<and> sr_session r = Some s \<and>
     sr_outcome r = Inr 0 \<and> sr_signals r = [] \<and> To_Server (''read'' @ [newline]) \<in> set (ss_out s)"
proof -
  have h: "snd (poll_governance_healthz (ve_healthz demo_run_env)) = Inr ()"
    by (rule healthz_first) (simp add: demo_run_env_def healthy_def http_success_def)
  define s where "s = session_run demo_shim 3 [Act_Agent demo_line_env, Act_Agent demo_line_env, Act_Agent demo_line_env]
      (session_new [Data (''re''), Data (''ad'' @ [newline])] [])"
  have s: "ss_agent s = A_Ended (Inr ())" "To_Server (''read'' @ [newline]) \<in> set (ss_out s)"
    by (simp_all add: s_def session_new_def agent_step_def Let_def demo_shim_reads [simplified] demo_line [simplified])
  then have "select_ready s" by (simp add: select_ready_def)
  with h s show ?thesis
    unfolding run_shim_def demo_shim_of
    by (simp add: demo_run_env_def s_def [simplified, symmetric] Let_def shutdown_server_def exit_code_def)
qed


section \<open>The loop from the agent, alone\<close>

text \<open>Undisturbed, the steps of the session are the loop \<open>agent_to_server\<close>: its result is reached by a
  schedule of agent steps.\<close>

definition agent_acts :: "(nat \<Rightarrow> line_env) \<Rightarrow> act list \<Rightarrow> bool" where
  "agent_acts env acts \<longleftrightarrow> set acts \<subseteq> range (\<lambda>i. Act_Agent (env i))"

lemma agent_acts_simps [simp]:
  "agent_acts env []" "agent_acts env (Act_Agent (env i) # acts) \<longleftrightarrow> agent_acts env acts"
  by (auto simp: agent_acts_def)

definition reaches :: "shim \<Rightarrow> nat \<Rightarrow> (nat \<Rightarrow> line_env) \<Rightarrow> session \<Rightarrow> shim_out list \<times> pending_requests \<times> (stdio_error + unit) \<Rightarrow> bool" where
  "reaches S n env s res \<longleftrightarrow>
     (\<exists>acts s'. agent_acts env acts \<and> session_run S n acts s = s' \<and>
        ss_agent s' = A_Ended (snd (snd res)) \<and> ss_out s' = fst res \<and> ss_requests s' = fst (snd res))"

lemma reaches_ended:
  "ss_agent s = A_Ended r \<Longrightarrow> reaches S n env s (ss_out s, ss_requests s, r)"
  unfolding reaches_def by (intro exI [of _ "[]"] exI [of _ s]) simp

lemma reaches_step:
  "reaches S n env (agent_step S n (env i) s) res \<Longrightarrow> reaches S n env s res"
  unfolding reaches_def by (metis agent_acts_simps(2) session_run_Cons session_step.simps(1))

text \<open>A session whose loop from the agent reads, in the state of a round of \<open>agent_to_server\<close>.\<close>

definition reading :: "session \<Rightarrow> pending_requests \<Rightarrow> chunk list \<Rightarrow> shim_out list \<Rightarrow> bool" where
  "reading s reqs cs out \<longleftrightarrow>
     ss_agent s = A_Reading \<and> \<not> ss_signal s \<and> ss_agent_in s = cs \<and> ss_out s = out \<and> ss_requests s = reqs"

definition calm_env :: "(nat \<Rightarrow> line_env) \<Rightarrow> bool" where
  "calm_env env \<longleftrightarrow> (\<forall>i. \<not> ln_shutdown (env i) \<and> ln_meanwhile (env i) = (\<lambda>reqs. reqs))"

lemma skip_round:
  assumes "reading s reqs cs out" and "bounded_read_line n max_message_bytes [] 0 cs = (Inl (FE_MessageTooLarge k), raw, cs')"
  shows "reading (agent_step S n L s) reqs cs' out"
  using assms by (simp add: reading_def agent_step_def Let_def)

lemma last_round:
  assumes "reading s reqs cs out" and "bounded_read_line n max_message_bytes [] 0 cs = (r, raw, cs')"
    and "r = Inr 0 \<and> e = Inr () \<or>
      r = Inl f \<and> (\<forall>k. f \<noteq> FE_MessageTooLarge k) \<and> e = Inl (SE_Framing (sh_server_id S) AgentToServer f)"
  shows "reaches S n env s (out, reqs, e)"
proof (rule reaches_step [where i = 0])
  have "ss_agent (agent_step S n (env 0) s) = A_Ended e" "ss_out (agent_step S n (env 0) s) = out"
      "ss_requests (agent_step S n (env 0) s) = reqs"
    using assms by (auto simp: reading_def agent_step_def Let_def split: framing_error.split)
  then show "reaches S n env (agent_step S n (env 0) s) (out, reqs, e)" using reaches_ended by metis
qed

lemma line_round:
  assumes "reading s reqs cs out" and "bounded_read_line n max_message_bytes [] 0 cs = (Inr k, raw, cs')" and "k \<noteq> 0"
    and "a2s_line S (env i) raw reqs = Some (o1, reqs1, sent, fl)"
  shows "fl = Next \<Longrightarrow> \<not> sent \<Longrightarrow> \<exists>s'. reading s' reqs1 cs' (out @ o1) \<and>
      (\<forall>res. reaches S n env s' res \<longrightarrow> reaches S n env s res)"
    and "fl \<noteq> Next \<or> sent \<Longrightarrow>
      reaches S n env s (out @ o1, reqs1, case fl of Abort e \<Rightarrow> Inl e | _ \<Rightarrow> Inr ())"
proof -
  obtain p where p: "a2s_line S (env i) raw pending_requests_default = Some (o1, p, sent, fl)"
      "reqs1 = track (pq_outbound p) reqs"
    using assms(4) unfolding a2s_line_track [of S "env i" raw reqs] by auto
  define s' where "s' = agent_step S n (env i) (agent_step S n (env i) s)"
  have s': "s' = s\<lparr>ss_agent_in := cs', ss_out := out @ o1, ss_signal := sent, ss_requests := reqs1,
      ss_agent := after_line fl\<rparr>"
    using assms(1-3) p by (simp add: s'_def reading_def agent_step_def Let_def)
  have onwards: "reaches S n env s' res \<Longrightarrow> reaches S n env s res" for res
    unfolding s'_def by (rule reaches_step, rule reaches_step)
  show "\<exists>s'. reading s' reqs1 cs' (out @ o1) \<and> (\<forall>res. reaches S n env s' res \<longrightarrow> reaches S n env s res)"
    if "fl = Next" "\<not> sent"
    using that onwards by (intro exI [of _ s']) (simp add: s' reading_def)
  show "reaches S n env s (out @ o1, reqs1, case fl of Abort e \<Rightarrow> Inl e | _ \<Rightarrow> Inr ())" if "fl \<noteq> Next \<or> sent"
  proof (rule onwards, cases "fl = Next")
    case True
    with that have "agent_step S n (env i) s' = s'\<lparr>ss_agent := A_Ended (Inr ())\<rparr>" by (simp add: s' agent_step_def)
    then have "reaches S n env (agent_step S n (env i) s') (out @ o1, reqs1, Inr ())"
      using reaches_ended [of "s'\<lparr>ss_agent := A_Ended (Inr ())\<rparr>" "Inr ()"] by (simp add: s')
    with True show "reaches S n env s' (out @ o1, reqs1, case fl of Abort e \<Rightarrow> Inl e | _ \<Rightarrow> Inr ())"
      by (simp add: reaches_step)
  next
    case False
    then show "reaches S n env s' (out @ o1, reqs1, case fl of Abort e \<Rightarrow> Inl e | _ \<Rightarrow> Inr ())"
      using reaches_ended [of s' "case fl of Abort e \<Rightarrow> Inl e | _ \<Rightarrow> Inr ()"] by (cases fl) (simp_all add: s')
  qed
qed

lemma loop_is_schedule:
  assumes "agent_to_server S n env i reqs cs out = Some res"
  shows "calm_env env \<longrightarrow> (\<forall>s. reading s reqs cs out \<longrightarrow> reaches S n env s res)"
proof (rule agent_to_server.raw_induct [OF _ assms], goal_cases)
  case (1 loop S n env i reqs cs out res)
  show ?case
  proof (intro impI allI)
    fix s
    assume calm: "calm_env env" and s: "reading s reqs cs out"
    have ih: "loop S n env i reqs cs out = Some res \<Longrightarrow> reading s reqs cs out \<Longrightarrow> reaches S n env s res"
      for i reqs cs out s using 1(1) calm by blast
    obtain r raw cs' where read: "bounded_read_line n max_message_bytes [] 0 cs = (r, raw, cs')"
      by (cases "bounded_read_line n max_message_bytes [] 0 cs")
    note body = 1(2) [simplified read prod.case]
    consider (skip) k where "r = Inl (FE_MessageTooLarge k)"
      | (last) e where "res = (out, reqs, e)" "r = Inr 0 \<and> e = Inr () \<or> (\<exists>f. r = Inl f \<and>
          (\<forall>k. f \<noteq> FE_MessageTooLarge k) \<and> e = Inl (SE_Framing (sh_server_id S) AgentToServer f))"
      | (line) k where "r = Inr k" "k \<noteq> 0"
      using body calm by (auto simp: calm_env_def split: sum.split_asm framing_error.split_asm if_split_asm)
    then show "reaches S n env s res"
    proof cases
      case skip
      with body calm have "loop S n env (i + 1) reqs cs' out = Some res" by (simp add: calm_env_def)
      then show ?thesis using ih skip_round [OF s read [unfolded skip]] reaches_step by metis
    next
      case last
      then show ?thesis using last_round [OF s read] by blast
    next
      case line
      with body calm obtain o1 reqs1 sent fl where l: "a2s_line S (env i) raw reqs = Some (o1, reqs1, sent, fl)"
        and rest: "(case fl of Next \<Rightarrow> if sent then Some (out @ o1, reqs1, Inr ()) else loop S n env (i + 1) reqs1 cs' (out @ o1)
            | Stop \<Rightarrow> Some (out @ o1, reqs1, Inr ()) | Abort e \<Rightarrow> Some (out @ o1, reqs1, Inl e)) = Some res"
        by (auto simp: calm_env_def split: Option.bind_split_asm)
      note round = line_round [where env = env and i = i, OF s read [unfolded line] line(2) l]
      show ?thesis
      proof (cases "fl = Next \<and> \<not> sent")
        case True
        with rest have "loop S n env (i + 1) reqs1 cs' (out @ o1) = Some res" by simp
        with round(1) True ih show ?thesis by blast
      next
        case False
        with rest have "res = (out @ o1, reqs1, case fl of Abort e \<Rightarrow> Inl e | _ \<Rightarrow> Inr ())"
          by (cases fl) (auto split: if_split_asm)
        with round(2) False show ?thesis by blast
      qed
    qed
  qed
qed

section \<open>Answers that overtake the record of their request\<close>

lemma map_of_track: "map_of (pq_outbound (track [(i, rq)] reqs)) i = Some rq"
  by (simp add: track_def AList.update_conv')

lemma server_line_reads:
  assumes "ss_server s = None" and "\<not> ss_signal s" and "ln_stdout L = Inr ()" and "k \<noteq> 0"
    and "bounded_read_line n max_message_bytes [] 0 (ss_server_in s) = (Inr k, raw, cs)"
  shows "ss_out (server_line S n L s) = ss_out s @ fst (s2a_line S (ln_sent_at L) raw (ss_requests s))"
  using assms by (simp add: server_line_def Let_def split: prod.splits)

text \<open>C38: The filter of listings races with the server. A \<open>tools/list\<close> request has been written to the server
  and is about to be recorded. If the server's answer is read before the record is made, the agent gets
  it as it is, with every tool the configuration hides; if the record comes first, the tools of the
  answer are filtered and annotated. Nothing orders the two steps.\<close>

theorem overtaking_answer_unfiltered:
  assumes "ss_agent s = A_Tracking [(i, rq)] fl" and "pr_method rq = ''tools/list''"
    and "map_of (pq_outbound (ss_requests s)) i = None"
    and "ss_server s = None" and "\<not> ss_signal s" and "ln_stdout L = Inr ()" and "k \<noteq> 0"
    and "bounded_read_line n max_message_bytes [] 0 (ss_server_in s) = (Inr k, raw, cs)"
    and "sh_utf8 S raw" and "trim raw \<noteq> []"
    and "parse_stdio_message (sh_from_str S) raw = Inr msg" and "sm_kind msg = MK_Response i"
    and "sh_config S = Some cfg" and "sh_from_str S raw = Inr (JObject obj)"
    and "map_of obj ''result'' = Some (JObject res)" and "map_of res ''tools'' = Some (JArray ts)"
    and "map_of res ''resources'' = None" and "map_of res ''prompts'' = None"
  shows "ss_out (session_run S n [Act_Server L, Act_Agent L'] s) = ss_out s @ [To_Agent_Raw raw] \<and>
    ss_out (session_run S n [Act_Agent L', Act_Server L] s) = ss_out s @
      [To_Agent_Json (JObject (AList.update ''result'' (JObject (AList.update ''tools''
         (JArray (fst (filter_and_annotate_tools (sh_globs S) ts cfg (sh_server_id S) False))) res)) obj))]"
proof
  note filtered = tools_answer_filtered_iff [OF assms(9-18)]
  let ?t = "s\<lparr>ss_requests := track [(i, rq)] (ss_requests s), ss_agent := after_line fl\<rparr>"
  have agent: "agent_step S n L' s = ?t" using assms(1) by (simp add: agent_step_def)
  have kept: "ss_agent (server_line S n L s) = ss_agent s"
    by (simp add: server_line_def Let_def split: prod.splits sum.splits framing_error.splits)
  then have "ss_out (agent_step S n L' (server_line S n L s)) = ss_out (server_line S n L s)"
    using assms(1) by (simp add: agent_step_def)
  with assms(3) show "ss_out (session_run S n [Act_Server L, Act_Agent L'] s) = ss_out s @ [To_Agent_Raw raw]"
    using server_line_reads [OF assms(4-8)] filtered [of _ "ss_requests s"] by simp
  have "ss_out (server_line S n L ?t) = ss_out s @ fst (s2a_line S (ln_sent_at L) raw (track [(i, rq)] (ss_requests s)))"
    using server_line_reads [of ?t L k n raw cs S] assms(4-8) by simp
  with assms(2) show "ss_out (session_run S n [Act_Agent L', Act_Server L] s) = ss_out s @
      [To_Agent_Json (JObject (AList.update ''result'' (JObject (AList.update ''tools''
         (JArray (fst (filter_and_annotate_tools (sh_globs S) ts cfg (sh_server_id S) False))) res)) obj))]"
    unfolding filtered [of _ "track [(i, rq)] (ss_requests s)"] by (simp add: agent map_of_track)
qed

definition race_session :: session where
  "race_session = (session_new [] [Data (''x'' @ [newline])])\<lparr>ss_agent :=
     A_Tracking [(IdNumber 1, \<lparr>pr_method = ''tools/list'', pr_sent_at = 0\<rparr>)] Next\<rparr>"

theorem overtaking_answer_unfiltered_witness:
  "ss_out (session_run list_shim 3 [Act_Server demo_line_env, Act_Agent demo_line_env] race_session) =
     [To_Agent_Raw (''x'' @ [newline])] \<and>
   ss_out (session_run list_shim 3 [Act_Agent demo_line_env, Act_Server demo_line_env] race_session) \<noteq>
     [To_Agent_Raw (''x'' @ [newline])]"
proof -
  let ?raw = "''x'' @ [newline]"
  let ?res = "[(''tools'', JArray [JObject [(''name'', JString ''secret'')]])]"
  let ?obj = "[(''jsonrpc'', JString ''2.0''), (''id'', JNumber (PosInt 1)), (''result'', JObject ?res)]"
  have p: "parse_stdio_message (sh_from_str list_shim) ?raw =
      Inr \<lparr>sm_kind = MK_Response (IdNumber 1), sm_params = None, sm_raw = ?raw\<rparr>" by code_simp
  have t: "trim ?raw \<noteq> []" by code_simp
  have r: "bounded_read_line 3 max_message_bytes [] 0 (ss_server_in race_session) = (Inr 2, ?raw, [])"
    by (simp add: race_session_def session_new_def position_def consume_def Let_def max_message_bytes_def)
  have s: "ss_agent race_session = A_Tracking [(IdNumber 1, \<lparr>pr_method = ''tools/list'', pr_sent_at = 0\<rparr>)] Next"
      "map_of (pq_outbound (ss_requests race_session)) (IdNumber 1) = None" "ss_server race_session = None"
      "\<not> ss_signal race_session" "ss_out race_session = []"
    by (simp_all add: race_session_def session_new_def pending_requests_default_def)
  have l: "sh_utf8 list_shim ?raw" "sh_config list_shim = Some demo_config" "sh_from_str list_shim ?raw = Inr (JObject ?obj)"
      "ln_stdout demo_line_env = Inr ()"
    by (simp_all add: list_shim_def demo_shim_def demo_listing_def demo_line_env_def)
  from overtaking_answer_unfiltered [OF s(1) _ s(2-4) l(4) _ r l(1) t p _ l(2,3), of ?res "[JObject [(''name'', JString ''secret'')]]"]
  show ?thesis by (simp add: s(5))
qed

section \<open>The ends of a run\<close>

text \<open>Without the governance service nothing is read from the agent, and the server is killed with its
  handle; the command ends with 1.\<close>

lemma no_service_no_session:
  assumes "\<forall>k. \<not> healthy (ve_healthz E k)" and "run_shim E opts cmd args = Some r"
  shows "sr_session r = None" and "\<exists>e. sr_outcome r = Inl e" and "sr_server r = None \<or> sr_dropped r"
proof -
  have "snd (healthz_attempts (ve_healthz E) n a d) = Inl SE_GovernanceUnavailable" for n a d
    using assms(1) by (induction n arbitrary: a d) (simp_all add: case_prod_beta)
  then have "snd (poll_governance_healthz (ve_healthz E)) = Inl SE_GovernanceUnavailable"
    by (simp add: poll_governance_healthz_def)
  with assms(2) show "sr_session r = None" "\<exists>e. sr_outcome r = Inl e" "sr_server r = None \<or> sr_dropped r"
    by (auto simp: run_shim_def Let_def split: sum.splits)
qed

text \<open>A shutdown signal is never taken back, and both loops end at their next line.\<close>

lemma signal_stays: "ss_signal s \<Longrightarrow> ss_signal (session_step S n a s)"
  by (cases a) (auto simp: agent_step_def server_line_def heartbeat_step_def Let_def
      split: agent_task.splits prod.splits sum.splits framing_error.splits option.splits)

lemma signal_stays_run: "ss_signal s \<Longrightarrow> ss_signal (session_run S n acts s)"
  by (induction acts arbitrary: s) (auto intro: signal_stays)

lemma signal_ends_loops:
  assumes "ss_signal s"
  shows "ss_agent s = A_Reading \<Longrightarrow> ss_agent (agent_step S n L s) = A_Ended (Inr ())"
    and "ss_server s = None \<Longrightarrow> ss_server (server_line S n L s) = Some (Inr ())"
  using assms by (simp_all add: agent_step_def server_line_def)

text \<open>If the server's output ends first, its input is still open while the shim waits for it to exit: the
  loop from the agent goes on and may write to the server.\<close>

lemma input_open_during_shutdown:
  assumes "ss_agent s = A_Reading" and "ss_server s = None" and "\<not> ss_signal s"
    and "bounded_read_line n max_message_bytes [] 0 (ss_server_in s) = (Inr 0, raw, cs)"
    and "bounded_read_line n max_message_bytes [] 0 (ss_agent_in s) = (Inr k, line, cs')" and "k \<noteq> 0"
    and "a2s_line S L line pending_requests_default = Some (out, reqs, sent, fl)"
  shows "select_ready (server_line S n L' s)" and "\<not> stdin_closed (server_line S n L' s)"
    and "ss_out (agent_step S n L (server_line S n L' s)) = ss_out s @ out"
  using assms by (simp_all add: select_ready_def stdin_closed_def server_line_def agent_step_def Let_def)

text \<open>The path of the ThoughtGate configuration, which the wrapper puts into the environment of every server
  it rewrites, reaches the server.\<close>

lemma config_path_reaches_server:
  "server_env var ''THOUGHTGATE_CONFIG'' = var ''THOUGHTGATE_CONFIG''"
  "name \<in> set scrubbed_vars \<Longrightarrow> server_env var name = None"
  by (simp_all add: server_env_def scrubbed_vars_def)

section \<open>Settings without effect\<close>

text \<open>The handling of the agent's lines does not depend on the configuration the shim loads, so neither on its
  setting to pass trace fields upstream: the fields are always taken out.\<close>

lemma agent_lines_ignore_config: "a2s_line (S\<lparr>sh_config := c\<rparr>) L raw reqs = a2s_line S L raw reqs"
proof -
  have f: "sh_profile (S\<lparr>sh_config := c\<rparr>) = sh_profile S" "sh_server_id (S\<lparr>sh_config := c\<rparr>) = sh_server_id S"
      "sh_from_str (S\<lparr>sh_config := c\<rparr>) = sh_from_str S" "sh_to_string (S\<lparr>sh_config := c\<rparr>) = sh_to_string S"
      "sh_utf8 (S\<lparr>sh_config := c\<rparr>) = sh_utf8 S" "sh_valid_trace (S\<lparr>sh_config := c\<rparr>) = sh_valid_trace S"
    by simp_all
  have fa: "forward_allowed (S\<lparr>sh_config := c\<rparr>) L k = forward_allowed S L k" for k
    unfolding forward_allowed_def f by (rule refl)
  have ft: "forward_tracked (S\<lparr>sh_config := c\<rparr>) L m b p = forward_tracked S L m b p" for m b p
    unfolding forward_tracked_def write_server_def f by (rule refl)
  have ho: "handle_outcome (S\<lparr>sh_config := c\<rparr>) L m b k p r = handle_outcome S L m b k p r" for m b k p r
    unfolding handle_outcome_def fa ft by (rule refl)
  have hg: "handle_governance (S\<lparr>sh_config := c\<rparr>) L m b p r = handle_governance S L m b p r" for m b p r
    unfolding handle_governance_def ft ho f by (rule refl)
  show ?thesis unfolding a2s_line_def govern_def write_server_def hg eval_request_of_def f by (rule refl)
qed

end
