(* ===== verification/Cedar_Engine.thy ===== *)
theory Cedar_Engine
  imports Complex_Main Evaluator
begin

text \<open>
  The policy engine (\<open>policy/engine.rs\<close>, \<open>policy/loader.rs\<close>, \<open>policy/types.rs\<close>): where policies and schema come from,
  how a request becomes a Cedar request with its entities, what is made of the answer, and reloading. The
  \<open>cedar-policy\<close> crate (parser, validator, authorizer and the checks of its constructors) is the record \<open>cedar_lib\<close>,
  over any types of schemas and policy sets; the files, the environment and the texts that the
  build embeds are the record \<open>policy_files\<close>. Metrics and logging are not modelled.
\<close>

declare map_of_eq_Some_iff [simp del]

section \<open>Errors and sources\<close>

datatype policy_error =
    POE_Parse string             \<comment> \<open>\<open>ParseError\<close>, whose line is never known\<close>
  | POE_SchemaValidation string
  | POE_Identity string
  | POE_Cedar string
  | POE_Load string string

fun policy_error_to_string :: "policy_error \<Rightarrow> string" where
  "policy_error_to_string (POE_Parse d) = ''Policy parse error at line None: '' @ d"
| "policy_error_to_string (POE_SchemaValidation d) = ''Schema validation failed: '' @ d"
| "policy_error_to_string (POE_Identity d) = ''Identity error: '' @ d"
| "policy_error_to_string (POE_Cedar d) = ''Cedar engine error: '' @ d"
| "policy_error_to_string (POE_Load path reason) = ''failed to load policy from '' @ path @ '': '' @ reason"

datatype policy_source = PS_ConfigMap string datetime | PS_Environment datetime | PS_Embedded

section \<open>Loading\<close>

record policy_files =
  pf_var :: "string \<Rightarrow> string option"
  pf_exists :: "string \<Rightarrow> bool"
  pf_read :: "string \<Rightarrow> string + string"
  pf_now :: datetime
  pf_defaults :: string    \<comment> \<open>\<open>defaults.cedar\<close>\<close>
  pf_schema :: string      \<comment> \<open>\<open>schema.cedarschema\<close>\<close>

definition line_break :: string where
  "line_break = [CHR 0x0A]"

text \<open>The texts of the files one after the other; the break is only put after text that is not empty.\<close>

fun read_policies :: "policy_files \<Rightarrow> string list \<Rightarrow> string \<Rightarrow> policy_error + string" where
  "read_policies F [] combined = Inr combined"
| "read_policies F (p # ps) combined =
     (case pf_read F p of
        Inl e \<Rightarrow> Inl (POE_Load p e)
      | Inr content \<Rightarrow>
          read_policies F ps ((if combined = [] then [] else combined @ line_break) @ content))"

definition policy_file_path :: "policy_files \<Rightarrow> string" where
  "policy_file_path F =
     (case pf_var F ''THOUGHTGATE_POLICY_FILE'' of Some p \<Rightarrow> p | None \<Rightarrow> ''/etc/thoughtgate/policies.cedar'')"

definition load_policies_with_config ::
  "policy_files \<Rightarrow> string list option \<Rightarrow> policy_error + string \<times> policy_source" where
  "load_policies_with_config F config_paths =
     (let config_path = policy_file_path F in
      if pf_exists F config_path then
        (case pf_read F config_path of
           Inr content \<Rightarrow> Inr (content, PS_ConfigMap config_path (pf_now F))
         | Inl e \<Rightarrow> Inl (POE_Load config_path e))
      else
        (case pf_var F ''THOUGHTGATE_POLICIES'' of
           Some policy_str \<Rightarrow> Inr (policy_str, PS_Environment (pf_now F))
         | None \<Rightarrow>
             (case config_paths of
                Some (p # ps) \<Rightarrow>
                  (case read_policies F (p # ps) [] of
                     Inl e \<Rightarrow> Inl e
                   | Inr combined \<Rightarrow>
                       if combined \<noteq> [] then Inr (combined, PS_ConfigMap p (pf_now F))
                       else Inr (pf_defaults F, PS_Embedded))
              | _ \<Rightarrow> Inr (pf_defaults F, PS_Embedded))))"

definition load_policies :: "policy_files \<Rightarrow> policy_error + string \<times> policy_source" where
  "load_policies F = load_policies_with_config F None"

definition load_schema_with_config :: "policy_files \<Rightarrow> string option \<Rightarrow> policy_error + string" where
  "load_schema_with_config F config_schema =
     (let schema_path = (case pf_var F ''THOUGHTGATE_SCHEMA_FILE'' of
                           Some p \<Rightarrow> p | None \<Rightarrow> ''/etc/thoughtgate/schema.cedarschema'');
          load = (\<lambda>p. case pf_read F p of Inr content \<Rightarrow> Inr content | Inl e \<Rightarrow> Inl (POE_Load p e)) in
      if pf_exists F schema_path then load schema_path
      else (case config_schema of
              Some p \<Rightarrow> if pf_exists F p then load p else Inr (pf_schema F)
            | None \<Rightarrow> Inr (pf_schema F)))"

section \<open>What Cedar is given\<close>

datatype cedar_value =
    CV_Bool bool
  | CV_Long int          \<comment> \<open>an \<open>i64\<close>\<close>
  | CV_String string
  | CV_Set "cedar_value list"
  | CV_Record "(string \<times> cedar_value) list"

datatype entity_type = ET_App | ET_Action | ET_ToolCall | ET_McpMethod | ET_Role

type_synonym entity_uid = "entity_type \<times> string"

record cedar_entity =
  ce_uid :: entity_uid
  ce_attrs :: "(string \<times> cedar_value) list"
  ce_parents :: "entity_uid list"

record cedar_call =
  cc_principal :: entity_uid
  cc_action :: entity_uid
  cc_resource :: entity_uid
  cc_context :: "(string \<times> cedar_value) list"

text \<open>The crate. The fields ending in \<open>error\<close> are the checks of its constructors: the text of the error, if any.\<close>

record ('schema, 'policies) cedar_lib =
  cb_schema :: "string \<Rightarrow> string + 'schema"
  cb_policies :: "string \<Rightarrow> string + 'policies"
  cb_validation_errors :: "'schema \<Rightarrow> 'policies \<Rightarrow> string list"
  cb_approval_annotations :: "'policies \<Rightarrow> (string \<times> string option) list"   \<comment> \<open>identifier and annotation of each policy\<close>
  cb_entity_id_error :: "string \<Rightarrow> string option"
  cb_record_error :: "(string \<times> cedar_value) list \<Rightarrow> string option"
  cb_context_error :: "(string \<times> cedar_value) list \<Rightarrow> string option"
  cb_request_error :: "cedar_call \<Rightarrow> string option"
  cb_entity_error :: "cedar_entity \<Rightarrow> string option"
  cb_entities_error :: "cedar_entity list \<Rightarrow> string option"
  cb_is_authorized :: "cedar_call \<Rightarrow> 'policies \<Rightarrow> cedar_entity list \<Rightarrow> bool \<times> string list \<times> string list"
    \<comment> \<open>the decision, the determining policies and the errors\<close>
  cb_float_text :: "64 word \<Rightarrow> string"    \<comment> \<open>\<open>Display\<close> of \<open>f64\<close>\<close>

definition checked :: "string \<Rightarrow> string option \<Rightarrow> 'a \<Rightarrow> policy_error + 'a" where
  "checked what err x = (case err of Some e \<Rightarrow> Inl (POE_Cedar (what @ e)) | None \<Rightarrow> Inr x)"

definition entity_uid_of :: "('s, 'p) cedar_lib \<Rightarrow> string \<Rightarrow> entity_type \<Rightarrow> string \<Rightarrow> policy_error + entity_uid" where
  "entity_uid_of L what ty i = checked (''Invalid '' @ what @ '' ID: '') (cb_entity_id_error L i) (ty, i)"

section \<open>Time\<close>

record time_context =
  tx_hour :: int
  tx_day_of_week :: int
  tx_timestamp :: int

text \<open>\<open>chrono\<close> has no date for a timestamp out of its range.\<close>

definition from_timestamp :: "(int \<Rightarrow> bool) \<Rightarrow> int \<Rightarrow> time_context" where
  "from_timestamp has_date timestamp =
     (if has_date timestamp
      then \<lparr>tx_hour = timestamp mod 86400 div 3600, tx_day_of_week = (timestamp div 86400 + 4) mod 7,
            tx_timestamp = timestamp\<rparr>
      else \<lparr>tx_hour = 0, tx_day_of_week = 0, tx_timestamp = timestamp\<rparr>)"

section \<open>Arguments\<close>

definition max_json_depth :: nat where
  "max_json_depth = 64"

text \<open>The value of a finite double from its bits.\<close>

definition f64_value :: "64 word \<Rightarrow> rat" where
  "f64_value w =
     (let n = unat w; e = n div 2 ^ 52 mod 2 ^ 11; f = n mod 2 ^ 52;
          m = (if e = 0 then of_nat f / 2 ^ 1074
               else if e \<ge> 1075 then of_nat (2 ^ 52 + f) * 2 ^ (e - 1075)
               else of_nat (2 ^ 52 + f) / 2 ^ (1075 - e))
      in if n div 2 ^ 63 = 0 then m else - m)"

text \<open>\<open>f64::round\<close> goes away from zero at one half.\<close>

definition round_away :: "rat \<Rightarrow> int" where
  "round_away x = (if x \<ge> 0 then \<lfloor>x + 1 / 2\<rfloor> else - \<lfloor>- x + 1 / 2\<rfloor>)"

definition i64_max :: int where "i64_max = 2 ^ 63 - 1"
definition i64_min :: int where "i64_min = - (2 ^ 63)"

text \<open>The cast to \<open>i64\<close> saturates, and the cast back is exact but for \<open>i64::MAX\<close>, which becomes \<open>2\<^sup>6\<^sup>3\<close>.\<close>

definition float_to_long :: "64 word \<Rightarrow> int option" where
  "float_to_long w =
     (let f = f64_value w;
          rounded = max i64_min (min i64_max (round_away f));
          back = (if rounded = i64_max then 2 ^ 63 else rounded)
      in if \<bar>f - of_int back\<bar> > 1 / 2 ^ 52 then None else Some rounded)"

definition number_to_cedar :: "('s, 'p) cedar_lib \<Rightarrow> json_number \<Rightarrow> policy_error + cedar_value" where
  "number_to_cedar L n =
     (case n of
        PosInt u \<Rightarrow>
          if int (unat u) \<le> i64_max then Inr (CV_Long (int (unat u))) else Inr (CV_String (show_nat (unat u)))
      | NegInt i \<Rightarrow> Inr (CV_Long (sint i))
      | Float w \<Rightarrow>
          (case float_to_long w of
             Some i \<Rightarrow> Inr (CV_Long i)
           | None \<Rightarrow> Inl (POE_Cedar (''Float value '' @ cb_float_text L w @ '' cannot be represented as Cedar Long; '' @
                         ''fractional values are not supported in policy evaluation''))))"

function json_to_cedar_expr_depth :: "('s, 'p) cedar_lib \<Rightarrow> json \<Rightarrow> nat \<Rightarrow> policy_error + cedar_value" where
  "json_to_cedar_expr_depth L v depth =
     (if depth > max_json_depth
      then Inl (POE_Cedar (''JSON nesting depth exceeds maximum of '' @ show_nat max_json_depth))
      else case v of
        JNull \<Rightarrow> checked ''Failed to create empty record for null: '' (cb_record_error L []) (CV_Record [])
      | JBool b \<Rightarrow> Inr (CV_Bool b)
      | JNumber n \<Rightarrow> number_to_cedar L n
      | JString s \<Rightarrow> Inr (CV_String s)
      | JArray arr \<Rightarrow> map_sum id CV_Set (collect_results (map (\<lambda>x. json_to_cedar_expr_depth L x (depth + 1)) arr))
      | JObject obj \<Rightarrow>
          (case collect_results (map (\<lambda>(k, x). map_sum id (Pair k) (json_to_cedar_expr_depth L x (depth + 1))) obj) of
             Inl e \<Rightarrow> Inl e
           | Inr entries \<Rightarrow> checked ''Failed to create record: '' (cb_record_error L entries) (CV_Record entries)))"
  by pat_completeness auto
termination
  by (relation "measure (\<lambda>(L, v, d). size v)")
    (auto simp: size_obj_member size_arr_member simp del: json.size)

declare json_to_cedar_expr_depth.simps [simp del]

definition json_to_cedar_expr :: "('s, 'p) cedar_lib \<Rightarrow> json \<Rightarrow> policy_error + cedar_value" where
  "json_to_cedar_expr L v = json_to_cedar_expr_depth L v 0"

section \<open>Requests\<close>

fun resource_uid :: "('s, 'p) cedar_lib \<Rightarrow> cedar_resource \<Rightarrow> policy_error + entity_uid" where
  "resource_uid L (CR_ToolCall name _ _) = entity_uid_of L ''resource'' ET_ToolCall name"
| "resource_uid L (CR_McpMethod method _) = entity_uid_of L ''resource'' ET_McpMethod method"

definition build_context_v2 ::
  "('s, 'p) cedar_lib \<Rightarrow> time_context \<Rightarrow> cedar_request \<Rightarrow> policy_error + (string \<times> cedar_value) list" where
  "build_context_v2 L time request =
     (let time_entries = [(''hour'', CV_Long (tx_hour time)), (''day_of_week'', CV_Long (tx_day_of_week time)),
                         (''timestamp'', CV_Long (tx_timestamp time))];
          entries = [(''policy_id'', CV_String (cq_policy_id request)), (''source_id'', CV_String (cq_source_id request)),
                    (''time'', CV_Record time_entries)] in
      case checked ''Failed to create time record: '' (cb_record_error L time_entries) () of
        Inl e \<Rightarrow> Inl e
      | Inr _ \<Rightarrow> checked ''Failed to create context: '' (cb_context_error L entries) entries)"

definition make_request ::
  "('s, 'p) cedar_lib \<Rightarrow> entity_uid \<Rightarrow> entity_uid \<Rightarrow> entity_uid \<Rightarrow> (string \<times> cedar_value) list \<Rightarrow> policy_error + cedar_call" where
  "make_request L p a r context =
     (let call = \<lparr>cc_principal = p, cc_action = a, cc_resource = r, cc_context = context\<rparr> in
      checked ''Failed to create Cedar request: '' (cb_request_error L call) call)"

definition build_cedar_request_v2 ::
  "('s, 'p) cedar_lib \<Rightarrow> time_context \<Rightarrow> cedar_request \<Rightarrow> string \<Rightarrow> policy_error + cedar_call" where
  "build_cedar_request_v2 L time request action_name =
     (case entity_uid_of L ''principal'' ET_App (pp_app_name (cq_principal request)) of Inl e \<Rightarrow> Inl e | Inr p \<Rightarrow>
     (case resource_uid L (cq_resource request) of Inl e \<Rightarrow> Inl e | Inr r \<Rightarrow>
     (case entity_uid_of L ''action'' ET_Action action_name of Inl e \<Rightarrow> Inl e | Inr a \<Rightarrow>
     (case build_context_v2 L time request of Inl e \<Rightarrow> Inl e | Inr context \<Rightarrow>
        make_request L p a r context))))"

section \<open>Entities\<close>

definition role_entity :: "('s, 'p) cedar_lib \<Rightarrow> string \<Rightarrow> policy_error + cedar_entity" where
  "role_entity L role =
     (case entity_uid_of L ''role'' ET_Role role of
        Inl e \<Rightarrow> Inl e
      | Inr u \<Rightarrow>
          let x = \<lparr>ce_uid = u, ce_attrs = [(''name'', CV_String role)], ce_parents = []\<rparr>
          in checked ''Failed to create role entity: '' (cb_entity_error L x) x)"

fun resource_attrs :: "('s, 'p) cedar_lib \<Rightarrow> cedar_resource \<Rightarrow> policy_error + (string \<times> cedar_value) list" where
  "resource_attrs L (CR_ToolCall name server arguments) =
     map_sum id (\<lambda>a. [(''name'', CV_String name), (''server'', CV_String server), (''arguments'', a)])
       (json_to_cedar_expr L arguments)"
| "resource_attrs L (CR_McpMethod method server) =
     Inr [(''method'', CV_String method), (''server'', CV_String server)]"

definition build_entities_v2 :: "('s, 'p) cedar_lib \<Rightarrow> cedar_request \<Rightarrow> policy_error + cedar_entity list" where
  "build_entities_v2 L request =
     (let P = cq_principal request in
      case collect_results (map (role_entity L) (pp_roles P)) of Inl e \<Rightarrow> Inl e | Inr roles \<Rightarrow>
     (case entity_uid_of L ''principal'' ET_App (pp_app_name P) of Inl e \<Rightarrow> Inl e | Inr p \<Rightarrow>
     (let principal_entity =
            \<lparr>ce_uid = p,
             ce_attrs = [(''name'', CV_String (pp_app_name P)), (''namespace'', CV_String (pp_namespace P)),
                         (''service_account'', CV_String (pp_service_account P))],
             ce_parents = remdups (map ce_uid roles)\<rparr> in
      case checked ''Failed to create principal entity: '' (cb_entity_error L principal_entity) () of Inl e \<Rightarrow> Inl e | Inr _ \<Rightarrow>
     (case resource_attrs L (cq_resource request) of Inl e \<Rightarrow> Inl e | Inr attrs \<Rightarrow>
     (case resource_uid L (cq_resource request) of Inl e \<Rightarrow> Inl e | Inr r \<Rightarrow>
     (let resource_entity = \<lparr>ce_uid = r, ce_attrs = attrs, ce_parents = []\<rparr> in
      case checked ''Failed to create resource entity: '' (cb_entity_error L resource_entity) () of Inl e \<Rightarrow> Inl e | Inr _ \<Rightarrow>
     (let entities = roles @ [principal_entity, resource_entity] in
      checked ''Failed to create entities: '' (cb_entities_error L entities) entities)))))))"

section \<open>Annotations\<close>

type_synonym policy_annotations = "string \<rightharpoonup> string"

definition add_workflow :: "string \<Rightarrow> string \<Rightarrow> policy_annotations \<Rightarrow> policy_annotations" where
  "add_workflow policy_id workflow A = A(policy_id \<mapsto> workflow)"

fun annotation_workflow :: "policy_annotations \<Rightarrow> string list \<Rightarrow> string option" where
  "annotation_workflow A [] = None"
| "annotation_workflow A (policy_id # ps) =
     (case A policy_id of Some workflow \<Rightarrow> Some workflow | None \<Rightarrow> annotation_workflow A ps)"

definition trim_quotes :: "string \<Rightarrow> string" where
  "trim_quotes s = rev (dropWhile (\<lambda>c. c = CHR 0x22) (rev (dropWhile (\<lambda>c. c = CHR 0x22) s)))"

definition parse_annotations :: "('s, 'p) cedar_lib \<Rightarrow> 'p \<Rightarrow> policy_annotations" where
  "parse_annotations L policies =
     fold (\<lambda>(i, a) A. case a of Some workflow \<Rightarrow> add_workflow i (trim_quotes workflow) A | None \<Rightarrow> A)
       (cb_approval_annotations L policies) Map.empty"

section \<open>The engine\<close>

record 'p policy_snapshot =
  sn_policies :: 'p
  sn_annotations :: policy_annotations
  sn_source :: policy_source

record ('s, 'p) cedar_engine =
  en_snapshot :: "'p policy_snapshot"
  en_schema :: 's
  en_evaluations_v2 :: "64 word"
  en_permits :: "64 word"
  en_forbids :: "64 word"
  en_eval_time_us :: "64 word"
  en_evaluations :: "64 word"
  en_reloads :: "64 word"
  en_last_reload :: "datetime option"

definition parse_policies :: "('s, 'p) cedar_lib \<Rightarrow> string \<Rightarrow> 's \<Rightarrow> policy_error + 'p" where
  "parse_policies L policy_str schema =
     (case cb_policies L policy_str of
        Inl e \<Rightarrow> Inl (POE_Parse e)
      | Inr policies \<Rightarrow>
          let errors = cb_validation_errors L schema policies in
          if errors = [] then Inr policies else Inl (POE_SchemaValidation (join ''; '' errors)))"

definition new_with_config ::
  "('s, 'p) cedar_lib \<Rightarrow> policy_files \<Rightarrow> cedar_config option \<Rightarrow> policy_error + ('s, 'p) cedar_engine" where
  "new_with_config L F cedar =
     (case load_schema_with_config F (Option.bind cedar ced_schema) of Inl e \<Rightarrow> Inl e | Inr schema_str \<Rightarrow>
     (case cb_schema L schema_str of
        Inl e \<Rightarrow> Inl (POE_SchemaValidation (''Failed to parse schema: '' @ e))
      | Inr schema \<Rightarrow>
     (case load_policies_with_config F (map_option ced_policies cedar) of Inl e \<Rightarrow> Inl e | Inr (policy_str, source) \<Rightarrow>
     (case parse_policies L policy_str schema of Inl e \<Rightarrow> Inl e | Inr policies \<Rightarrow>
        Inr \<lparr>en_snapshot = \<lparr>sn_policies = policies, sn_annotations = parse_annotations L policies, sn_source = source\<rparr>,
             en_schema = schema, en_evaluations_v2 = 0, en_permits = 0, en_forbids = 0, en_eval_time_us = 0,
             en_evaluations = 0, en_reloads = 0, en_last_reload = None\<rparr>))))"

definition policy_source_of :: "('s, 'p) cedar_engine \<Rightarrow> policy_source" where
  "policy_source_of en = sn_source (en_snapshot en)"

fun action_name_of :: "cedar_resource \<Rightarrow> string" where
  "action_name_of (CR_ToolCall _ _ _) = ''tools/call''"
| "action_name_of (CR_McpMethod _ _) = ''mcp/method''"

definition forbid_reason :: "string list \<Rightarrow> string list \<Rightarrow> string" where
  "forbid_reason policy_ids errors =
     (if errors = [] then
        if policy_ids = [] then ''No policy permits this action (default-deny)''
        else ''Forbidden by policy: '' @ join '', '' policy_ids
      else ''Policy evaluation errors: '' @ join ''; '' errors)"

definition count_forbid :: "('s, 'p) cedar_engine \<Rightarrow> ('s, 'p) cedar_engine" where
  "count_forbid en = en\<lparr>en_forbids := en_forbids en + 1\<rparr>"

text \<open>\<open>elapsed\<close> is the time of the evaluation in microseconds.\<close>

definition evaluate_v2 ::
  "('s, 'p) cedar_lib \<Rightarrow> nat \<Rightarrow> time_context \<Rightarrow> cedar_request \<Rightarrow> ('s, 'p) cedar_engine \<Rightarrow>
   ('s, 'p) cedar_engine \<times> cedar_decision" where
  "evaluate_v2 L elapsed time request en =
     (let en = en\<lparr>en_evaluations_v2 := en_evaluations_v2 en + 1\<rparr>;
          policies = sn_policies (en_snapshot en);
          fail = (\<lambda>what e. (count_forbid en, CD_Forbid (what @ policy_error_to_string e) [])) in
      case build_cedar_request_v2 L time request (action_name_of (cq_resource request)) of
        Inl e \<Rightarrow> fail ''Failed to build request: '' e
      | Inr call \<Rightarrow>
     (case build_entities_v2 L request of
        Inl e \<Rightarrow> fail ''Failed to build entities: '' e
      | Inr entities \<Rightarrow>
          let en = en\<lparr>en_eval_time_us := en_eval_time_us en + of_nat elapsed\<rparr> in
          (case cb_is_authorized L call policies entities of
             (True, policy_ids, _) \<Rightarrow> (en\<lparr>en_permits := en_permits en + 1\<rparr>, CD_Permit policy_ids)
           | (False, policy_ids, errors) \<Rightarrow>
               (count_forbid en, CD_Forbid (forbid_reason policy_ids errors) policy_ids))))"

section \<open>The interface of version 0.1\<close>

fun policy_resource_uid :: "('s, 'p) cedar_lib \<Rightarrow> policy_resource \<Rightarrow> policy_error + entity_uid" where
  "policy_resource_uid L (PR_ToolCall name _) = entity_uid_of L ''resource'' ET_ToolCall name"
| "policy_resource_uid L (PR_McpMethod method _) = entity_uid_of L ''resource'' ET_McpMethod method"

definition grant_context ::
  "('s, 'p) cedar_lib \<Rightarrow> approval_grant option option \<Rightarrow> policy_error + (string \<times> cedar_value) list" where
  "grant_context L context =
     (case context of
        Some (Some grant) \<Rightarrow>
          let entries = [(''task_id'', CV_String (g_task_id grant)), (''approved_by'', CV_String (g_approved_by grant)),
                        (''approved_at'', CV_Long (g_approved_at grant))];
              pairs = [(''approval_grant'', CV_Record entries)] in
          (case checked ''Failed to create approval grant record: '' (cb_record_error L entries) () of
             Inl e \<Rightarrow> Inl e
           | Inr _ \<Rightarrow> checked ''Failed to create context: '' (cb_context_error L pairs) pairs)
      | _ \<Rightarrow> Inr [])"

definition build_cedar_request ::
  "('s, 'p) cedar_lib \<Rightarrow> policy_request \<Rightarrow> string \<Rightarrow> policy_error + cedar_call" where
  "build_cedar_request L request action_name =
     (case entity_uid_of L ''principal'' ET_App (pp_app_name (pq_principal request)) of Inl e \<Rightarrow> Inl e | Inr p \<Rightarrow>
     (case policy_resource_uid L (pq_resource request) of Inl e \<Rightarrow> Inl e | Inr r \<Rightarrow>
     (case entity_uid_of L ''action'' ET_Action action_name of Inl e \<Rightarrow> Inl e | Inr a \<Rightarrow>
     (case grant_context L (pq_context request) of Inl e \<Rightarrow> Inl e | Inr context \<Rightarrow>
        make_request L p a r context))))"

definition is_action_permitted :: "('s, 'p) cedar_lib \<Rightarrow> policy_request \<Rightarrow> string \<Rightarrow> 'p \<Rightarrow> bool" where
  "is_action_permitted L request action_name policies =
     (case build_cedar_request L request action_name of
        Inl _ \<Rightarrow> False
      | Inr call \<Rightarrow> fst (cb_is_authorized L call policies []))"

definition evaluate_v1 ::
  "('s, 'p) cedar_lib \<Rightarrow> policy_request \<Rightarrow> ('s, 'p) cedar_engine \<Rightarrow> ('s, 'p) cedar_engine \<times> policy_action" where
  "evaluate_v1 L request en =
     (let en = en\<lparr>en_evaluations := en_evaluations en + 1\<rparr>; policies = sn_policies (en_snapshot en) in
      (en, if is_action_permitted L request ''Forward'' policies then PA_Forward
           else if is_action_permitted L request ''Approve'' policies then PA_Approve (from_secs 300)
           else PA_Reject ''No policy permits this request''))"

section \<open>Reloading\<close>

definition apply_reload ::
  "datetime \<Rightarrow> 'p \<Rightarrow> policy_annotations \<Rightarrow> policy_source \<Rightarrow> ('s, 'p) cedar_engine \<Rightarrow> ('s, 'p) cedar_engine" where
  "apply_reload now policies annotations source en =
     en\<lparr>en_snapshot := \<lparr>sn_policies = policies, sn_annotations = annotations, sn_source = source\<rparr>,
        en_reloads := en_reloads en + 1, en_last_reload := Some now\<rparr>"

text \<open>The files as the first attempt finds them and, after a failure to parse, as the second does.\<close>

definition reload ::
  "('s, 'p) cedar_lib \<Rightarrow> policy_files \<Rightarrow> policy_files \<Rightarrow> ('s, 'p) cedar_engine \<Rightarrow>
   ('s, 'p) cedar_engine \<times> (policy_error + unit)" where
  "reload L F F' en =
     (case load_policies F of
        Inl e \<Rightarrow> (en, Inl e)
      | Inr (policy_str, source) \<Rightarrow>
          (case parse_policies L policy_str (en_schema en) of
             Inr policies \<Rightarrow> (apply_reload (pf_now F) policies (parse_annotations L policies) source en, Inr ())
           | Inl _ \<Rightarrow>
               (case load_policies F' of
                  Inl e \<Rightarrow> (en, Inl e)
                | Inr (retry_str, retry_source) \<Rightarrow>
                    (case parse_policies L retry_str (en_schema en) of
                       Inl e \<Rightarrow> (en, Inl e)
                     | Inr policies \<Rightarrow>
                         (apply_reload (pf_now F') policies (parse_annotations L policies) retry_source en, Inr ())))))"

section \<open>The gates of the engine\<close>

text \<open>What the evaluator, the proxy and the pipeline call. The counters have no influence on the decision.\<close>

definition cedar_gate ::
  "('s, 'p) cedar_lib \<Rightarrow> time_context \<Rightarrow> ('s, 'p) cedar_engine \<Rightarrow> cedar_request \<Rightarrow> cedar_decision" where
  "cedar_gate L time en request = snd (evaluate_v2 L 0 time request en)"

definition policy_gate :: "('s, 'p) cedar_lib \<Rightarrow> ('s, 'p) cedar_engine \<Rightarrow> policy_engine" where
  "policy_gate L en request = Inr (snd (evaluate_v1 L request en))"

end
