(* ===== verification/Cedar_Theorems.thy ===== *)
theory Cedar_Theorems
  imports Cedar_Engine Capability
begin

text \<open>
  What the policy engine guarantees: the conversion of arguments is total up to its limits and well typed, the gate
  permits only what the authorizer allows and otherwise fails closed, the policies in force are always a
  validated set, and the embedded policies are used only when nothing else is configured. Two
  defects: a reload forgets the policies of the configuration, and policies of version 0.2 block approved requests.
\<close>

declare map_of_eq_Some_iff [simp del]

section \<open>Arguments\<close>

function json_numbers :: "json \<Rightarrow> json_number set" where
  "json_numbers v =
     (case v of
        JNumber n \<Rightarrow> {n}
      | JArray xs \<Rightarrow> \<Union> (set (map json_numbers xs))
      | JObject m \<Rightarrow> \<Union> (set (map (\<lambda>(k, x). json_numbers x) m))
      | _ \<Rightarrow> {})"
  by pat_completeness auto
termination
  by (relation "measure size") (auto simp: size_obj_member size_arr_member simp del: json.size)

declare json_numbers.simps [simp del]

lemma json_numbers_cases [simp]:
  "json_numbers JNull = {}" "json_numbers (JBool b) = {}" "json_numbers (JNumber n) = {n}" "json_numbers (JString s) = {}"
  "json_numbers (JArray xs) = (\<Union>x\<in>set xs. json_numbers x)"
  "json_numbers (JObject m) = (\<Union>(k, x)\<in>set m. json_numbers x)"
  by (subst json_numbers.simps, simp add: case_prod_beta)+

definition representable :: "json_number \<Rightarrow> bool" where
  "representable n = (case n of Float w \<Rightarrow> float_to_long w \<noteq> None | _ \<Rightarrow> True)"

lemma size_record_member: "(k, v) \<in> set m \<Longrightarrow> size v < size (CV_Record m)"
  by (induction m) auto

lemma size_set_member: "v \<in> set xs \<Longrightarrow> size v < size (CV_Set xs)"
  by (induction xs) auto

text \<open>A Cedar value whose longs are 64-bit integers.\<close>

function longs_ok :: "cedar_value \<Rightarrow> bool" where
  "longs_ok v =
     (case v of
        CV_Long i \<Rightarrow> i64_min \<le> i \<and> i \<le> i64_max
      | CV_Set xs \<Rightarrow> list_all longs_ok xs
      | CV_Record m \<Rightarrow> list_all (\<lambda>(k, x). longs_ok x) m
      | _ \<Rightarrow> True)"
  by pat_completeness auto

termination
  by (relation "measure size") (auto simp: size_record_member size_set_member simp del: cedar_value.size)

declare longs_ok.simps [simp del]

lemma longs_ok_cases [simp]:
  "longs_ok (CV_Bool b)" "longs_ok (CV_String s)" "longs_ok (CV_Long i) \<longleftrightarrow> i64_min \<le> i \<and> i \<le> i64_max"
  "longs_ok (CV_Set xs) \<longleftrightarrow> (\<forall>x\<in>set xs. longs_ok x)"
  "longs_ok (CV_Record m) \<longleftrightarrow> (\<forall>(k, x)\<in>set m. longs_ok x)"
  by (auto simp: longs_ok.simps list_all_iff)

lemma float_to_long_range: "float_to_long w = Some i \<Longrightarrow> i64_min \<le> i \<and> i \<le> i64_max"
  by (auto simp: float_to_long_def Let_def i64_min_def i64_max_def split: if_splits)

lemma number_to_cedar_cases:
  "number_to_cedar L n = Inr c \<Longrightarrow> representable n \<and> longs_ok c"
  "number_to_cedar L n = Inl e \<Longrightarrow> \<not> representable n"
proof -
  have "longs_ok (CV_Long (sint w))" for w :: "64 word"
    using sint_greater_eq [of w] sint_less [of w] by (simp add: i64_min_def i64_max_def)
  moreover have "longs_ok (CV_Long (int (unat u)))" if "int (unat u) \<le> i64_max" for u :: "64 word"
    using that order_trans [OF _ uint_ge_0 [of u], of i64_min] by (simp add: i64_min_def del: uint_ge_0)
  ultimately show "number_to_cedar L n = Inr c \<Longrightarrow> representable n \<and> longs_ok c"
    "number_to_cedar L n = Inl e \<Longrightarrow> \<not> representable n"
    by (auto simp: number_to_cedar_def representable_def
        dest!: float_to_long_range split: json_number.splits if_splits option.splits)
qed

text \<open>The one float that is converted to another number: \<open>2\<^sup>6\<^sup>3\<close> becomes \<open>i64::MAX\<close>. All others differ by at most the tolerance.\<close>

lemma float_to_long_close:
  assumes "float_to_long w = Some i" "i \<noteq> i64_max"
  shows "\<bar>f64_value w - of_int i\<bar> \<le> 1 / 2 ^ 52"
  using assms by (auto simp: float_to_long_def Let_def split: if_splits)

lemma float_to_long_saturates:
  "float_to_long 0x43E0000000000000 = Some i64_max" "f64_value 0x43E0000000000000 = 2 ^ 63"
proof -
  show f: "f64_value 0x43E0000000000000 = 2 ^ 63" by (simp add: f64_value_def Let_def)
  have "round_away (2 ^ 63) = 2 ^ 63" by (simp add: round_away_def floor_eq_iff)
  then show "float_to_long 0x43E0000000000000 = Some i64_max"
    by (simp add: float_to_long_def f i64_max_def i64_min_def)
qed

definition records_fine :: "('s, 'p) cedar_lib \<Rightarrow> bool" where
  "records_fine L \<longleftrightarrow> (\<forall>kvs. distinct (map fst kvs) \<longrightarrow> cb_record_error L kvs = None)"

lemma json_to_cedar_simps:
  "d \<le> max_json_depth \<Longrightarrow> records_fine L \<Longrightarrow> json_to_cedar_expr_depth L JNull d = Inr (CV_Record [])"
  "d \<le> max_json_depth \<Longrightarrow> json_to_cedar_expr_depth L (JBool b) d = Inr (CV_Bool b)"
  "d \<le> max_json_depth \<Longrightarrow> json_to_cedar_expr_depth L (JNumber n) d = number_to_cedar L n"
  "d \<le> max_json_depth \<Longrightarrow> json_to_cedar_expr_depth L (JString s) d = Inr (CV_String s)"
  "d \<le> max_json_depth \<Longrightarrow> json_to_cedar_expr_depth L (JArray xs) d =
     map_sum id CV_Set (collect_results (map (\<lambda>x. json_to_cedar_expr_depth L x (d + 1)) xs))"
  "d \<le> max_json_depth \<Longrightarrow> json_to_cedar_expr_depth L (JObject m) d =
     (case collect_results (map (\<lambda>(k, x). map_sum id (Pair k) (json_to_cedar_expr_depth L x (d + 1))) m) of
        Inl e \<Rightarrow> Inl e
      | Inr entries \<Rightarrow> checked ''Failed to create record: '' (cb_record_error L entries) (CV_Record entries))"
  "max_json_depth < d \<Longrightarrow> isl (json_to_cedar_expr_depth L v d)"
  by (subst json_to_cedar_expr_depth.simps, simp add: records_fine_def checked_def)+

definition convertible :: "json \<Rightarrow> nat \<Rightarrow> bool" where
  "convertible v d \<longleftrightarrow> d + json_depth v \<le> max_json_depth \<and> (\<forall>n\<in>json_numbers v. representable n)"

lemma convertible_simps:
  "convertible (JArray xs) d \<longleftrightarrow> d \<le> max_json_depth \<and> (\<forall>x\<in>set xs. convertible x (d + 1))"
  "convertible (JObject m) d \<longleftrightarrow> d \<le> max_json_depth \<and> (\<forall>(k, x)\<in>set m. convertible x (d + 1))"
  by (auto simp: convertible_def json_depth_arr json_depth_obj foldr_max_add_le_iff)

lemma collect_keys:
  assumes "collect_results (map (\<lambda>(k, x). map_sum id (Pair k) (f x)) m) = Inr entries"
  shows "map fst entries = map fst m" "(k, c) \<in> set entries \<Longrightarrow> \<exists>x. (k, x) \<in> set m \<and> f x = Inr c"
proof -
  have eq: "map (\<lambda>(k, x). map_sum id (Pair k) (f x)) m = map Inr entries"
    using assms by (simp add: collect_results_Inr_iff)
  then have *: "list_all2 (\<lambda>(k, x) (k', c). k' = k \<and> f x = Inr c) m entries"
  proof (induction m arbitrary: entries)
    case (Cons p m)
    then show ?case by (cases p; cases "f (snd p)") (auto simp: Cons_eq_map_conv)
  qed simp
  then show "map fst entries = map fst m" by (induction rule: list_all2_induct) auto
  from * show "\<exists>x. (k, x) \<in> set m \<and> f x = Inr c" if "(k, c) \<in> set entries"
    using that by (induction rule: list_all2_induct) auto
qed

lemma conversion_depth:
  assumes "records_fine L" "json_wf v"
  shows "case json_to_cedar_expr_depth L v d of Inr c \<Rightarrow> convertible v d \<and> longs_ok c | Inl _ \<Rightarrow> \<not> convertible v d"
  using assms(2)
proof (induction v arbitrary: d rule: json_induct)
  case (Obj m)
  show ?case
  proof (cases "d \<le> max_json_depth")
    case True
    let ?f = "\<lambda>x. json_to_cedar_expr_depth L x (d + 1)"
    have IH: "case ?f x of Inr c \<Rightarrow> convertible x (d + 1) \<and> longs_ok c | Inl _ \<Rightarrow> \<not> convertible x (d + 1)"
      if "(k, x) \<in> set m" for k x
      by (rule Obj.IH [OF that]) (use Obj.prems that in auto)
    show ?thesis
    proof (cases "collect_results (map (\<lambda>(k, x). map_sum id (Pair k) (?f x)) m)")
      case (Inl e)
      then obtain k x where "(k, x) \<in> set m" "isl (?f x)"
        using collect_results_not_isl [of "map (\<lambda>(k, x). map_sum id (Pair k) (?f x)) m"] by auto
      with IH [of k x] have "\<not> convertible (JObject m) d"
        by (auto simp: convertible_simps split: sum.splits)
      with Inl True show ?thesis by (simp add: json_to_cedar_simps)
    next
      case (Inr entries)
      note keys = collect_keys [OF Inr]
      have "cb_record_error L entries = None"
        using assms(1) keys(1) Obj.prems by (simp add: records_fine_def)
      moreover have "longs_ok (CV_Record entries)" using keys(2) IH by fastforce
      moreover have n: "\<not> isl (?f x)" if "(k, x) \<in> set m" for k x
        using collect_results_not_isl [of "map (\<lambda>(k, x). map_sum id (Pair k) (?f x)) m"] Inr that by auto
      have "convertible x (d + 1)" if "(k, x) \<in> set m" for k x
        using IH [OF that] n [OF that] by (cases "?f x") simp_all
      then have "convertible (JObject m) d" using True by (auto simp: convertible_simps)
      ultimately show ?thesis using Inr True by (simp add: json_to_cedar_simps checked_def del: longs_ok_cases)
    qed
  next
    case False
    then show ?thesis using json_to_cedar_simps(7) [of d L "JObject m"] by (auto simp: convertible_simps split: sum.splits)
  qed
next
  case (Arr xs)
  show ?case
  proof (cases "d \<le> max_json_depth")
    case True
    let ?f = "\<lambda>x. json_to_cedar_expr_depth L x (d + 1)"
    have IH: "case ?f x of Inr c \<Rightarrow> convertible x (d + 1) \<and> longs_ok c | Inl _ \<Rightarrow> \<not> convertible x (d + 1)"
      if "x \<in> set xs" for x by (rule Arr.IH [OF that]) (use Arr.prems that in auto)
    show ?thesis
    proof (cases "collect_results (map ?f xs)")
      case (Inl e)
      then obtain x where "x \<in> set xs" "isl (?f x)"
        using collect_results_not_isl [of "map ?f xs"] by auto
      with IH [of x] Inl True show ?thesis by (auto simp: json_to_cedar_simps convertible_simps split: sum.splits)
    next
      case (Inr cs)
      then have eq: "map ?f xs = map Inr cs" by (simp add: collect_results_Inr_iff)
      have "convertible x (d + 1)" if "x \<in> set xs" for x
      proof -
        have "?f x \<in> Inr ` set cs" using that eq by (metis image_eqI list.set_map)
        with IH [OF that] show ?thesis by auto
      qed
      then have "convertible (JArray xs) d" using True by (auto simp: convertible_simps)
      moreover have "longs_ok c" if "c \<in> set cs" for c
      proof -
        have "Inr c \<in> ?f ` set xs" using that eq by (metis image_eqI list.set_map)
        then obtain x where "x \<in> set xs" "?f x = Inr c" by auto
        with IH [of x] show ?thesis by simp
      qed
      ultimately show ?thesis using Inr True by (simp add: json_to_cedar_simps)
    qed
  next
    case False
    then show ?thesis using json_to_cedar_simps(7) [of d L "JArray xs"] by (auto simp: convertible_simps split: sum.splits)
  qed
next
  case (Leaf v)
  show ?case
  proof (cases "d \<le> max_json_depth")
    case True
    then show ?thesis using Leaf.hyps assms(1)
      by (cases v) (auto simp: json_to_cedar_simps convertible_def json_depth_leaf
          dest: number_to_cedar_cases split: sum.splits)
  next
    case False
    then show ?thesis using json_to_cedar_simps(7) [of d L v]
      by (auto simp: convertible_def split: sum.splits)
  qed
qed


text \<open>A library whose policy sets are the lists of actions they permit.\<close>

definition demo_lib :: "(unit, string list) cedar_lib" where
  "demo_lib = \<lparr>cb_schema = (\<lambda>_. Inr ()), cb_policies = (\<lambda>s. if s = ''bad'' then Inl ''syntax'' else Inr [s]),
     cb_validation_errors = (\<lambda>_ ps. if ps = [''wrong''] then [''unknown action''] else []),
     cb_approval_annotations = (\<lambda>_. []), cb_entity_id_error = (\<lambda>_. None),
     cb_record_error = (\<lambda>kvs. if distinct (map fst kvs) then None else Some ''duplicate key''),
     cb_context_error = (\<lambda>_. None), cb_request_error = (\<lambda>_. None), cb_entity_error = (\<lambda>_. None),
     cb_entities_error = (\<lambda>_. None),
     cb_is_authorized = (\<lambda>call ps _. (snd (cc_action call) \<in> set ps, ps, [])), cb_float_text = (\<lambda>_. ''0.5'')\<rparr>"


section \<open>The gate\<close>

lemma entity_uid_of_Inr [simp]: "entity_uid_of L what ty i = Inr u \<longleftrightarrow> u = (ty, i) \<and> cb_entity_id_error L i = None"
  by (auto simp: entity_uid_of_def checked_def split: option.splits)

lemma checked_Inr [simp]: "checked what err x = Inr y \<longleftrightarrow> err = None \<and> y = x"
  by (auto simp: checked_def split: option.splits)

fun uid_of :: "cedar_resource \<Rightarrow> entity_uid" where
  "uid_of (CR_ToolCall name _ _) = (ET_ToolCall, name)"
| "uid_of (CR_McpMethod method _) = (ET_McpMethod, method)"

lemma resource_uid_Inr: "resource_uid L r = Inr u \<Longrightarrow> u = uid_of r"
  by (cases r) auto

lemma build_cedar_request_v2_Inr:
  assumes "build_cedar_request_v2 L time req a = Inr call"
  shows "cc_principal call = (ET_App, pp_app_name (cq_principal req)) \<and> cc_action call = (ET_Action, a) \<and>
    cc_resource call = uid_of (cq_resource req) \<and> map_of (cc_context call) ''policy_id'' = Some (CV_String (cq_policy_id req)) \<and>
    map_of (cc_context call) ''source_id'' = Some (CV_String (cq_source_id req))"
  using assms
  by (auto simp: build_cedar_request_v2_def build_context_v2_def make_request_def Let_def
      dest: resource_uid_Inr split: sum.splits)

lemma build_entities_v2_resource:
  assumes "build_entities_v2 L req = Inr ents"
  shows "\<exists>pre attrs. ents = pre @ [\<lparr>ce_uid = uid_of (cq_resource req), ce_attrs = attrs, ce_parents = []\<rparr>] \<and>
    resource_attrs L (cq_resource req) = Inr attrs"
  using assms unfolding build_entities_v2_def Let_def
  by (simp split: sum.split_asm add: checked_Inr) (use resource_uid_Inr in blast)

lemma build_entities_v2_Inr:
  assumes "build_entities_v2 L req = Inr ents" "cq_resource req = CR_ToolCall name server arguments"
  shows "\<exists>x args. x \<in> set ents \<and> ce_uid x = (ET_ToolCall, name) \<and> map_of (ce_attrs x) ''arguments'' = Some args \<and>
    json_to_cedar_expr L arguments = Inr args"
proof -
  obtain pre attrs where e: "ents = pre @ [\<lparr>ce_uid = uid_of (cq_resource req), ce_attrs = attrs, ce_parents = []\<rparr>]"
    "resource_attrs L (cq_resource req) = Inr attrs" using build_entities_v2_resource [OF assms(1)] by blast
  obtain args where "json_to_cedar_expr L arguments = Inr args"
    "attrs = [(''name'', CV_String name), (''server'', CV_String server), (''arguments'', args)]"
    using e(2) assms(2) by (cases "json_to_cedar_expr L arguments") auto
  with e(1) assms(2) show ?thesis
    by (intro exI [of _ "\<lparr>ce_uid = uid_of (cq_resource req), ce_attrs = attrs, ce_parents = []\<rparr>"] exI [of _ args]) simp
qed

lemma cedar_gate_permit_iff:
  "cedar_gate L time en req = CD_Permit ids \<longleftrightarrow>
   (\<exists>call ents errs. build_cedar_request_v2 L time req (action_name_of (cq_resource req)) = Inr call \<and>
      build_entities_v2 L req = Inr ents \<and> cb_is_authorized L call (sn_policies (en_snapshot en)) ents = (True, ids, errs))"
  by (auto simp: cedar_gate_def evaluate_v2_def Let_def split: sum.splits prod.splits bool.splits)

lemma evaluate_v2_decision: "snd (evaluate_v2 L elapsed time req en) = cedar_gate L time en req"
  by (auto simp: cedar_gate_def evaluate_v2_def Let_def split: sum.splits prod.splits bool.splits)

text \<open>C15: Gate 3 fails closed. In production, if the matching rule of a call defers to Cedar, the call is not denied only if the
  authorizer allowed, under the policies in force, a request with the application of the caller, the
  action and resource of the call and the policy and source of the rule; for a tool the entities then hold its complete
  arguments. An error while the request, its context or its entities are built denies the call.\<close>

theorem policy_rule_authorized:
  assumes "ev_profile ev = Production" "gated req name" "mt_action (rule_for ev req name) = Policy"
    and "ev_cedar_engine ev = Some (cedar_gate L time en)"
    and "evaluate_with_principal V req po ev = (ev', tr, Some resp)" "es_decision resp \<noteq> GD_Deny"
  shows "\<exists>call ents ids errs. cb_is_authorized L call (sn_policies (en_snapshot en)) ents = (True, ids, errs) \<and>
    cc_principal call = (ET_App, p_app_name (case po of Some p \<Rightarrow> p | None \<Rightarrow> ev_principal ev)) \<and>
    map_of (cc_context call) ''policy_id'' =
      Some (CV_String (case mt_policy_id (rule_for ev req name) of Some i \<Rightarrow> i | None \<Rightarrow> ''default'')) \<and>
    map_of (cc_context call) ''source_id'' = Some (CV_String (eq_server_id req)) \<and>
    (if eq_method req = ''tools/call''
     then cc_action call = (ET_Action, ''tools/call'') \<and> cc_resource call = (ET_ToolCall, name) \<and>
       (\<exists>x args. x \<in> set ents \<and> ce_uid x = (ET_ToolCall, name) \<and> map_of (ce_attrs x) ''arguments'' = Some args \<and>
          json_to_cedar_expr L (extract_arguments (eq_params req)) = Inr args)
     else cc_action call = (ET_Action, ''mcp/method'') \<and> cc_resource call = (ET_McpMethod, eq_method req))"
proof -
  have g1: "gate1_passes ev req name"
    using evaluate_blocked [OF assms(2), of ev V po] assms(5,6) by fastforce
  let ?p = "case po of Some p \<Rightarrow> p | None \<Rightarrow> ev_principal ev"
  let ?pid = "case mt_policy_id (rule_for ev req name) of Some i \<Rightarrow> i | None \<Rightarrow> ''default''"
  let ?cq = "cedar_request_of req name ?pid ?p"
  obtain tr1 where "later_gates V req name po ev tr1 = (ev', tr, Some resp)"
    using evaluate_passed [OF assms(2) g1, of V po] assms(5) by auto
  then have "evaluate_cedar V req name (mt_policy_id (rule_for ev req name)) (mt_approval_workflow (rule_for ev req name))
      ?p ev tr1 = (ev', tr, Some resp)"
    using assms(3) by (simp add: later_gates_def)
  then obtain ids where "cedar_gate L time en ?cq = CD_Permit ids"
    using assms(1,4,6) by (auto simp: evaluate_cedar_def Let_def split: cedar_decision.splits)
  then obtain call ents errs where c: "build_cedar_request_v2 L time ?cq (action_name_of (cq_resource ?cq)) = Inr call"
    "build_entities_v2 L ?cq = Inr ents" "cb_is_authorized L call (sn_policies (en_snapshot en)) ents = (True, ids, errs)"
    by (auto simp: cedar_gate_permit_iff)
  note r = build_cedar_request_v2_Inr [OF c(1)] and e = build_entities_v2_Inr [OF c(2)]
  show ?thesis
    by (intro exI [of _ call] exI [of _ ents] exI [of _ ids] exI [of _ errs] conjI)
      (use c(3) r e in \<open>simp_all add: cedar_request_of_def split: if_splits\<close>)
qed

section \<open>Where policies come from\<close>

lemma read_policies_empty:
  "read_policies F ps acc = Inr [] \<longleftrightarrow> acc = [] \<and> list_all (\<lambda>p. pf_read F p = Inr []) ps"
  by (induction ps arbitrary: acc) (auto simp: line_break_def split: sum.splits)

text \<open>The embedded policies, which permit everything, are in force exactly if there is no policy file, no policies in the
  environment, and the configuration names no policy files or only files that are readable and empty. A file that
  exists but cannot be read is an error, not a reason to fall back.\<close>

lemma embedded_policies_iff:
  "load_policies_with_config F paths = Inr (policy_text, PS_Embedded) \<longleftrightarrow>
   policy_text = pf_defaults F \<and> \<not> pf_exists F (policy_file_path F) \<and> pf_var F ''THOUGHTGATE_POLICIES'' = None \<and>
   (case paths of None \<Rightarrow> True | Some ps \<Rightarrow> list_all (\<lambda>p. pf_read F p = Inr []) ps)"
proof (cases paths)
  case (Some ps)
  then show ?thesis
  proof (cases ps)
    case (Cons p ps')
    have "read_policies F ps [] = Inr [] \<longleftrightarrow> list_all (\<lambda>p. pf_read F p = Inr []) ps"
      by (simp add: read_policies_empty)
    with Some Cons show ?thesis
      by (auto simp: load_policies_with_config_def Let_def simp del: read_policies.simps list.pred_inject
          split: sum.splits option.splits)
  qed (auto simp: load_policies_with_config_def Let_def split: sum.splits option.splits)
qed (auto simp: load_policies_with_config_def Let_def split: sum.splits option.splits)

section \<open>The policies in force\<close>

inductive engine_reach :: "('s, 'p) cedar_lib \<Rightarrow> ('s, 'p) cedar_engine \<Rightarrow> bool" for L where
  start: "new_with_config L F c = Inr en \<Longrightarrow> engine_reach L en"
| evaluate: "engine_reach L en \<Longrightarrow> engine_reach L (fst (evaluate_v2 L elapsed time req en))"
| evaluate_v1: "engine_reach L en \<Longrightarrow> engine_reach L (fst (evaluate_v1 L req1 en))"
| reload: "engine_reach L en \<Longrightarrow> engine_reach L (fst (reload L F F' en))"

definition engine_ok :: "('s, 'p) cedar_lib \<Rightarrow> ('s, 'p) cedar_engine \<Rightarrow> bool" where
  "engine_ok L en \<longleftrightarrow>
     (\<exists>policy_text. parse_policies L policy_text (en_schema en) = Inr (sn_policies (en_snapshot en))) \<and>
     sn_annotations (en_snapshot en) = parse_annotations L (sn_policies (en_snapshot en)) \<and>
     en_permits en + en_forbids en = en_evaluations_v2 en"

lemma parse_policies_Inr:
  "parse_policies L policy_text schema = Inr policies \<longleftrightarrow>
   cb_policies L policy_text = Inr policies \<and> cb_validation_errors L schema policies = []"
  by (auto simp: parse_policies_def Let_def split: sum.splits)

lemma reload_cases:
  obtains (failed) e where "reload L F F' en = (en, Inl e)"
  | (loaded) now policy_text policies source where
      "reload L F F' en = (apply_reload now policies (parse_annotations L policies) source en, Inr ())"
      "parse_policies L policy_text (en_schema en) = Inr policies"
proof (cases "load_policies F")
  case (Inl e)
  with failed show thesis by (simp add: reload_def)
next
  case (Inr ts)
  obtain t src where ts: "ts = (t, src)" by fastforce
  show thesis
  proof (cases "parse_policies L t (en_schema en)")
    case (Inr policies)
    with \<open>load_policies F = Inr ts\<close> ts show thesis using loaded [of "pf_now F" policies src t] by (simp add: reload_def)
  next
    case (Inl e)
    note first = \<open>load_policies F = Inr ts\<close> ts Inl
    show thesis
    proof (cases "load_policies F'")
      case (Inl e')
      with first failed show thesis by (simp add: reload_def)
    next
      case (Inr ts')
      obtain t' src' where ts': "ts' = (t', src')" by fastforce
      show thesis
      proof (cases "parse_policies L t' (en_schema en)")
        case (Inl e')
        with first Inr ts' failed show thesis by (simp add: reload_def)
      next
        case (Inr policies)
        with first \<open>load_policies F' = Inr ts'\<close> ts' show thesis
          using loaded [of "pf_now F'" policies src' t'] by (simp add: reload_def)
      qed
    qed
  qed
qed

lemma evaluate_v2_keeps:
  "en_snapshot (fst (evaluate_v2 L elapsed time req en)) = en_snapshot en"
  "en_schema (fst (evaluate_v2 L elapsed time req en)) = en_schema en"
  "en_permits en + en_forbids en = en_evaluations_v2 en \<Longrightarrow>
   en_permits (fst (evaluate_v2 L elapsed time req en)) + en_forbids (fst (evaluate_v2 L elapsed time req en)) =
   en_evaluations_v2 (fst (evaluate_v2 L elapsed time req en))"
  by (auto simp: evaluate_v2_def Let_def count_forbid_def algebra_simps split: sum.splits prod.splits bool.splits)

lemma engine_reach_ok: "engine_reach L en \<Longrightarrow> engine_ok L en"
proof (induction rule: engine_reach.induct)
  case (start F c en)
  then show ?case by (auto simp: new_with_config_def engine_ok_def split: sum.splits) blast
next
  case (evaluate en elapsed time req)
  then show ?case by (simp add: engine_ok_def evaluate_v2_keeps)
next
  case (evaluate_v1 en req)
  then show ?case by (simp add: engine_ok_def evaluate_v1_def Let_def)
next
  case (reload en F F')
  then show ?case
    by (cases rule: reload_cases [of L F F' en]) (auto simp: engine_ok_def apply_reload_def)
qed

text \<open>C26: The policies in force are always a set that parsed and passed validation against the schema, with the annotations of
  just that set, over any course of evaluations and reloads, whatever the files contain; every evaluation is
  counted once, as permitted or as forbidden; and a reload that fails changes nothing.\<close>

theorem engine_policies_valid:
  assumes "engine_reach L en"
  shows "(\<exists>policy_text. cb_policies L policy_text = Inr (sn_policies (en_snapshot en))) \<and>
    cb_validation_errors L (en_schema en) (sn_policies (en_snapshot en)) = [] \<and>
    sn_annotations (en_snapshot en) = parse_annotations L (sn_policies (en_snapshot en)) \<and>
    en_permits en + en_forbids en = en_evaluations_v2 en \<and>
    (snd (reload L F F' en) = Inr () \<or> fst (reload L F F' en) = en)"
  using engine_reach_ok [OF assms]
  by (cases rule: reload_cases [of L F F' en]) (auto simp: engine_ok_def parse_policies_Inr)

definition demo_files :: "string \<Rightarrow> policy_files" where
  "demo_files policy_text = \<lparr>pf_var = (\<lambda>_. None), pf_exists = (\<lambda>_. False), pf_read = (\<lambda>p. if p = ''own.cedar'' then Inr policy_text else Inl ''missing''),
     pf_now = 0, pf_defaults = ''Forward'', pf_schema = []\<rparr>"

definition demo_cedar_engine :: "(unit, string list) cedar_engine" where
  "demo_cedar_engine = (case new_with_config demo_lib (demo_files ''tools/call'') (Some \<lparr>ced_policies = [''own.cedar''], ced_schema = None\<rparr>) of
     Inr en \<Rightarrow> en | Inl _ \<Rightarrow> undefined)"

lemma demo_engine_new:
  "new_with_config demo_lib (demo_files ''tools/call'') (Some \<lparr>ced_policies = [''own.cedar''], ced_schema = None\<rparr>) = Inr demo_cedar_engine"
  "sn_policies (en_snapshot demo_cedar_engine) = [''tools/call'']" "sn_source (en_snapshot demo_cedar_engine) = PS_ConfigMap ''own.cedar'' 0"
  by (simp_all add: demo_cedar_engine_def new_with_config_def load_schema_with_config_def load_policies_with_config_def
      policy_file_path_def demo_files_def demo_lib_def parse_policies_def Let_def)

theorem engine_policies_valid_witness:
  "engine_reach demo_lib demo_cedar_engine \<and> cb_validation_errors demo_lib () [''tools/call''] = [] \<and>
   (snd (reload demo_lib ((demo_files [])\<lparr>pf_defaults := ''bad''\<rparr>) (demo_files []) demo_cedar_engine) = Inr () \<or>
    fst (reload demo_lib ((demo_files [])\<lparr>pf_defaults := ''bad''\<rparr>) (demo_files []) demo_cedar_engine) = demo_cedar_engine)"
proof -
  have r: "engine_reach demo_lib demo_cedar_engine" by (rule engine_reach.start [OF demo_engine_new(1)])
  from engine_policies_valid [OF r, of "(demo_files [])\<lparr>pf_defaults := ''bad''\<rparr>" "demo_files []"] r demo_engine_new(2)
  show ?thesis by simp
qed

text \<open>A rule that defers to Cedar, decided by the engine above.\<close>

definition policy_rule_evaluator :: evaluator where
  "policy_rule_evaluator = (demo_evaluator (StoreOnly (store_with_metrics demo_cfg)))
     \<lparr>ev_config := demo_config\<lparr>cf_governance := \<lparr>gv_default_action = Policy, gv_rules = []\<rparr>\<rparr>,
      ev_cedar_engine := Some (cedar_gate demo_lib (from_timestamp (\<lambda>_. True) 0) demo_cedar_engine)\<rparr>"

theorem policy_rule_authorized_witness:
  "\<exists>resp call ents ids errs. snd (snd (evaluate_with_principal demo_env (demo_call ''read'') None policy_rule_evaluator)) = Some resp \<and>
     es_decision resp = GD_PendingApproval \<and> cb_is_authorized demo_lib call [''tools/call''] ents = (True, ids, errs) \<and>
     cc_resource call = (ET_ToolCall, ''read'')"
proof -
  let ?r = "evaluate_with_principal demo_env (demo_call ''read'') None policy_rule_evaluator"
  have 1: "ev_profile policy_rule_evaluator = Production" "gated (demo_call ''read'') ''read''"
      "mt_action (rule_for policy_rule_evaluator (demo_call ''read'') ''read'') = Policy" by code_simp+
  have 2: "ev_cedar_engine policy_rule_evaluator =
      Some (cedar_gate demo_lib (from_timestamp (\<lambda>_. True) 0) demo_cedar_engine)" by (simp add: policy_rule_evaluator_def)
  have "case snd (snd ?r) of Some resp \<Rightarrow> es_decision resp = GD_PendingApproval | None \<Rightarrow> False" by code_simp
  then obtain ev' tr resp where r: "?r = (ev', tr, Some resp)" "es_decision resp = GD_PendingApproval"
    by (cases ?r) (auto split: option.splits)
  then have d: "es_decision resp \<noteq> GD_Deny" by simp
  have m: "eq_method (demo_call ''read'') = ''tools/call''" by (simp add: demo_call_def)
  from policy_rule_authorized [OF 1 2 r(1) d] obtain call ents ids errs where
    "cb_is_authorized demo_lib call (sn_policies (en_snapshot demo_cedar_engine)) ents = (True, ids, errs)"
    "cc_resource call = (ET_ToolCall, ''read'')" using m by auto
  with r show ?thesis by (auto simp: demo_engine_new(2))
qed

section \<open>Defects\<close>

text \<open>A reload reads the policy file and the environment, never the files of the configuration: an engine that was started with
  policies from the configuration runs with the embedded policies after a successful reload.\<close>

lemma reload_forgets_configuration:
  assumes "\<not> pf_exists F (policy_file_path F)" "pf_var F ''THOUGHTGATE_POLICIES'' = None"
    and "parse_policies L (pf_defaults F) (en_schema en) = Inr policies"
  shows "snd (reload L F F' en) = Inr () \<and> sn_source (en_snapshot (fst (reload L F F' en))) = PS_Embedded \<and>
    sn_policies (en_snapshot (fst (reload L F F' en))) = policies"
  using assms by (simp add: reload_def load_policies_def load_policies_with_config_def Let_def apply_reload_def)

lemma build_cedar_request_action:
  "build_cedar_request L req a = Inr call \<Longrightarrow> cc_action call = (ET_Action, a)"
  by (auto simp: build_cedar_request_def make_request_def Let_def split: sum.splits)

text \<open>C16: Policies written for version 0.2 block every approved request. Before an approved request is sent, the pipeline asks the
  engine through its old interface, whether the action Forward or Approve is permitted. If the policies permit neither,
  as those that govern only the actions of version 0.2, a valid approval by a human leads to a policy failure and
  nothing is sent, although gate 3 permits the very call.\<close>

theorem v2_policies_block_execution:
  assumes "pl_policy_engine P = policy_gate L en" "validate_approval now t a = Inr ()"
    and "\<And>call ents. snd (cc_action call) \<in> {''Forward'', ''Approve''} \<Longrightarrow>
      \<not> fst (cb_is_authorized L call (sn_policies (en_snapshot en)) ents)"
  shows "execute_approved P now t a =
    (None, P_Failure PolicyDrift ''Policy changed - request no longer permitted'' False)"
proof -
  have "\<not> is_action_permitted L req act (sn_policies (en_snapshot en))" if "act \<in> {''Forward'', ''Approve''}" for req act
    using assms(3) that build_cedar_request_action [of L req act]
    by (auto simp: is_action_permitted_def split: sum.splits)
  then have "policy_gate L en req = Inr (PA_Reject ''No policy permits this request'')" for req
    by (simp add: policy_gate_def evaluate_v1_def Let_def)
  with assms(1,2) show ?thesis by (simp add: execute_approved_def reevaluate_policy_def Let_def)
qed

theorem v2_policies_block_execution_witness:
  "cedar_gate demo_lib (from_timestamp (\<lambda>_. True) 0) demo_cedar_engine
     \<lparr>cq_principal = \<lparr>pp_app_name = ''app'', pp_namespace = [], pp_service_account = [], pp_roles = []\<rparr>,
      cq_resource = CR_ToolCall ''x'' ''upstream'' JNull, cq_policy_id = ''default'', cq_source_id = ''upstream''\<rparr> =
     CD_Permit [''tools/call''] \<and>
   execute_approved (demo_pipeline\<lparr>pl_policy_engine := policy_gate demo_lib demo_cedar_engine\<rparr>) 50 demo_task demo_approval =
     (None, P_Failure PolicyDrift ''Policy changed - request no longer permitted'' False)"
proof
  show "cedar_gate demo_lib (from_timestamp (\<lambda>_. True) 0) demo_cedar_engine
     \<lparr>cq_principal = \<lparr>pp_app_name = ''app'', pp_namespace = [], pp_service_account = [], pp_roles = []\<rparr>,
      cq_resource = CR_ToolCall ''x'' ''upstream'' JNull, cq_policy_id = ''default'', cq_source_id = ''upstream''\<rparr> =
     CD_Permit [''tools/call'']" by code_simp
  have v: "validate_approval 50 demo_task demo_approval = Inr ()" by code_simp
  show "execute_approved (demo_pipeline\<lparr>pl_policy_engine := policy_gate demo_lib demo_cedar_engine\<rparr>) 50 demo_task demo_approval =
     (None, P_Failure PolicyDrift ''Policy changed - request no longer permitted'' False)"
    by (rule v2_policies_block_execution [OF _ v]) (auto simp: demo_engine_new(2) demo_lib_def)
qed

end
