(* ===== verification/Request_Handler.thy ===== *)
theory Request_Handler
  imports Mcp_Proxy
begin

text \<open>
  Processing of a request body by the proxy: \<open>mcp_handler/request.rs\<close>,
  \<open>mcp_handler/handler_config.rs\<close>, the guard of \<open>mcp_handler/helpers.rs\<close> and the
  constructors of \<open>mcp_handler/mod.rs\<close>. Limits on the size of a body, on the bytes buffered
  by all requests and on the number of concurrent requests; single requests and batches; approvals
  that block. Bodies of answers are the JSON-RPC messages they serialize. Metrics and spans are not
  modelled.
\<close>

declare map_of_eq_Some_iff [simp del]

section \<open>Configuration\<close>

record mcp_handler_config =
  hc_max_body_size :: nat
  hc_max_concurrent_requests :: nat
  hc_max_batch_size :: nat
  hc_max_aggregate_buffer :: nat
  hc_blocking_approval_timeout_secs :: nat

definition mcp_handler_config_default :: mcp_handler_config where
  "mcp_handler_config_default = \<lparr>hc_max_body_size = 1024 * 1024, hc_max_concurrent_requests = 10000,
     hc_max_batch_size = 100, hc_max_aggregate_buffer = 512 * 1024 * 1024,
     hc_blocking_approval_timeout_secs = 300\<rparr>"

definition clamp_warn :: "nat \<Rightarrow> nat \<Rightarrow> nat \<Rightarrow> nat" where
  "clamp_warn x lo hi = (if x < lo then lo else if x > hi then hi else x)"

definition env_number :: "(string \<Rightarrow> string option) \<Rightarrow> string \<Rightarrow> nat \<Rightarrow> nat" where
  "env_number env name dflt = (case Option.bind (env name) parse_usize of Some n \<Rightarrow> n | None \<Rightarrow> dflt)"

definition mcp_handler_config_from_env :: "(string \<Rightarrow> string option) \<Rightarrow> mcp_handler_config" where
  "mcp_handler_config_from_env env =
     \<lparr>hc_max_body_size = env_number env ''THOUGHTGATE_MAX_REQUEST_BODY_BYTES'' (1024 * 1024),
      hc_max_concurrent_requests =
        clamp_warn (env_number env ''THOUGHTGATE_MAX_CONCURRENT_REQUESTS'' 10000) 1 100000,
      hc_max_batch_size = clamp_warn (env_number env ''THOUGHTGATE_MAX_BATCH_SIZE'' 100) 1 10000,
      hc_max_aggregate_buffer = env_number env ''THOUGHTGATE_MAX_AGGREGATE_BUFFER'' (512 * 1024 * 1024),
      hc_blocking_approval_timeout_secs = env_number env ''THOUGHTGATE_BLOCKING_APPROVAL_TIMEOUT_SECS'' 300\<rparr>"

section \<open>State\<close>

record handler_state =
  hs_mcp :: mcp_state
  hs_buffered_bytes :: nat
  hs_permits :: nat          \<comment> \<open>available permits of the semaphore\<close>
  hs_counter :: "64 word"    \<comment> \<open>of correlation identifiers\<close>

text \<open>What does not change: the limits, the JSON reader, the prefix of correlation identifiers and how
  they are written.\<close>

record handler =
  ha_config :: mcp_handler_config
  ha_reader :: reader
  ha_prefix :: "64 word"
  ha_uuid :: "128 word \<Rightarrow> string"

definition mcp_handler_new ::
  "(cedar_request \<Rightarrow> cedar_decision) \<Rightarrow> task_store \<Rightarrow> mcp_handler_config \<Rightarrow> globs \<Rightarrow> handler_state" where
  "mcp_handler_new cedar st C G =
     \<lparr>hs_mcp = \<lparr>ms_cedar_engine = cedar, ms_config = None, ms_evaluator = None, ms_backend = StoreOnly st,
        ms_cache = capability_cache_new,
        ms_blocking_approval_timeout_secs = hc_blocking_approval_timeout_secs C,
        ms_profile = Production, ms_globs = G\<rparr>,
      hs_buffered_bytes = 0, hs_permits = hc_max_concurrent_requests C, hs_counter = 0\<rparr>"

text \<open>The task store is the one of the approval engine when there is one.\<close>

definition with_governance ::
  "(cedar_request \<Rightarrow> cedar_decision) \<Rightarrow> ext \<Rightarrow> backend \<Rightarrow> mcp_handler_config \<Rightarrow> config option \<Rightarrow> profile \<Rightarrow> globs \<Rightarrow>
   handler_state" where
  "with_governance cedar E b C yaml_config pr G =
     \<lparr>hs_mcp = \<lparr>ms_cedar_engine = cedar, ms_config = yaml_config,
        ms_evaluator = map_option (\<lambda>cfg. \<lparr>ev_config = cfg, ev_cedar_engine = Some cedar,
          ev_principal = principal_new ''proxy'', ev_profile = pr, ev_backend = b, ev_ext = E,
          ev_globs = G\<rparr>) yaml_config,
        ms_backend = b, ms_cache = capability_cache_new,
        ms_blocking_approval_timeout_secs = hc_blocking_approval_timeout_secs C,
        ms_profile = pr, ms_globs = G\<rparr>,
      hs_buffered_bytes = 0, hs_permits = hc_max_concurrent_requests C, hs_counter = 0\<rparr>"

lemma with_governance_governed:
  "governed_by cfg (hs_mcp (with_governance cedar E b C (Some cfg) Production G))"
  by (simp add: governed_by_def with_governance_def)

section \<open>Answers\<close>

datatype http_body = Empty | Response rpc_response | Responses "rpc_response list"

datatype mcp_http = Buffered nat http_body | Streaming nat blocking_approval

text \<open>How the handling of a request ends: with a panic, not yet (an item of a batch waits for an
  approval), or with an answer.\<close>

datatype body_result = Panic | Blocked | Reply mcp_http

definition rpc_error :: "json_rpc_id option \<Rightarrow> jsonrpc_error \<Rightarrow> rpc_response" where
  "rpc_error i e = \<lparr>mr_result = None, mr_error = Some e, mr_id = i\<rparr>"

definition json_bytes :: "rpc_response \<Rightarrow> mcp_http" where
  "json_bytes response = Buffered 200 (Response response)"

definition error_bytes :: "json_rpc_id option \<Rightarrow> tg_error \<Rightarrow> string \<Rightarrow> mcp_http" where
  "error_bytes i e correlation_id = Buffered 200 (Response (rpc_error i (to_jsonrpc_error correlation_id e)))"

text \<open>An error with a correlation identifier of its own.\<close>

definition fresh_error :: "handler \<Rightarrow> tg_error \<Rightarrow> handler_state \<Rightarrow> handler_state \<times> mcp_http" where
  "fresh_error H e h =
     (h\<lparr>hs_counter := hs_counter h + 1\<rparr>,
      error_bytes None e (ha_uuid H (fast_correlation_id (ha_prefix H) (hs_counter h))))"

section \<open>One request\<close>

text \<open>Results carry the calls to the upstream.\<close>

definition handle_single_request_bytes ::
  "handler \<Rightarrow> proxy_env \<Rightarrow> parsed_request \<Rightarrow> handler_state \<Rightarrow>
   handler_state \<times> upstream_call list \<times> body_result" where
  "handle_single_request_bytes H P request h =
     (case route_request P request (hs_mcp h) of
        (s, calls, None) \<Rightarrow> (h\<lparr>hs_mcp := s\<rparr>, calls, Panic)
      | (s, calls, Some (BlockingApproval ba)) \<Rightarrow> (h\<lparr>hs_mcp := s\<rparr>, calls, Reply (Streaming 200 ba))
      | (s, calls, Some (Immediate result)) \<Rightarrow>
          (h\<lparr>hs_mcp := s\<rparr>, calls,
           Reply (if is_notification request then Buffered 204 Empty
                 else (case result of
                         Inr response \<Rightarrow> json_bytes response
                       | Inl e \<Rightarrow> error_bytes (mq_id request) e (ha_uuid H (mq_correlation_id request))))))"

section \<open>Blocking approvals\<close>

text \<open>What a blocked request waits for: the clock when it starts and the rounds of the engine's wait;
  the answer is absent while it still waits.\<close>

record batch_env =
  be_proxy :: proxy_env
  be_start :: instant
  be_rounds :: "wait_round list"

definition tool_result_value :: "wire \<Rightarrow> tool_call_result \<Rightarrow> json" where
  "tool_result_value W r =
     (case w_encode W (TR_Result r) of Inr v \<Rightarrow> v | Inl _ \<Rightarrow> JObject [(''error'', JString ''serialization failed'')])"

definition blocking_approval_sync :: "batch_env \<Rightarrow> blocking_approval \<Rightarrow> (tg_error + rpc_response) option" where
  "blocking_approval_sync B ba =
     map_option (\<lambda>result. case result of
         Inr r \<Rightarrow> Inr (rpc_success (ba_request_id ba) (tool_result_value (pv_wire (be_proxy B)) r))
       | Inl e \<Rightarrow> Inl e)
     (snd (wait_and_execute (be_start B) (ba_resource_name ba) (ba_blocking_timeout ba) (from_secs 15) False
             (be_rounds B)))"

text \<open>The last message of the stream of a blocked request: \<open>disconnected\<close> tells whether a keepalive
  could not be sent before the wait was over.\<close>

definition spawn_blocking_approval_stream ::
  "handler \<Rightarrow> batch_env \<Rightarrow> bool \<Rightarrow> blocking_approval \<Rightarrow> handler_state \<Rightarrow> handler_state \<times> rpc_response option" where
  "spawn_blocking_approval_stream H B disconnected ba h =
     (let result = (if disconnected
            then Some (Inl (ServiceUnavailable ''Client disconnected during blocking approval''))
            else snd (wait_and_execute (be_start B) (ba_resource_name ba) (ba_blocking_timeout ba) (from_secs 15)
                   False (be_rounds B)))
      in case result of
           None \<Rightarrow> (h, None)
         | Some (Inr r) \<Rightarrow>
             (h, Some (rpc_success (ba_request_id ba) (tool_result_value (pv_wire (be_proxy B)) r)))
         | Some (Inl e) \<Rightarrow>
             (h\<lparr>hs_counter := hs_counter h + 1\<rparr>,
              Some (rpc_error (ba_request_id ba)
                (to_jsonrpc_error (ha_uuid H (fast_correlation_id (ha_prefix H) (hs_counter h))) e))))"

section \<open>Batches\<close>

datatype item_answer = Panicked | Waiting | Answered "rpc_response option"

definition answer_item :: "handler \<Rightarrow> parsed_request \<Rightarrow> tg_error + rpc_response \<Rightarrow> item_answer" where
  "answer_item H request result =
     Answered (if is_notification request then None
       else Some (case result of
          Inr response \<Rightarrow> response
        | Inl e \<Rightarrow> rpc_error (mq_id request) (to_jsonrpc_error (ha_uuid H (mq_correlation_id request)) e)))"

definition handle_batch_item ::
  "handler \<Rightarrow> (batch_item \<Rightarrow> batch_env) \<Rightarrow> batch_item \<Rightarrow> handler_state \<Rightarrow>
   handler_state \<times> upstream_call list \<times> item_answer" where
  "handle_batch_item H B item h =
     (case item of
        BI_Invalid i e \<Rightarrow>
          (h\<lparr>hs_counter := hs_counter h + 1\<rparr>, [],
           Answered (Some (rpc_error i (to_jsonrpc_error
             (ha_uuid H (fast_correlation_id (ha_prefix H) (hs_counter h))) e))))
      | BI_Valid request \<Rightarrow>
          (case route_request (be_proxy (B item)) request (hs_mcp h) of
             (s, calls, None) \<Rightarrow> (h\<lparr>hs_mcp := s\<rparr>, calls, Panicked)
           | (s, calls, Some (Immediate r)) \<Rightarrow> (h\<lparr>hs_mcp := s\<rparr>, calls, answer_item H request r)
           | (s, calls, Some (BlockingApproval ba)) \<Rightarrow>
               (h\<lparr>hs_mcp := s\<rparr>, calls,
                case blocking_approval_sync (B item) ba of
                  None \<Rightarrow> Waiting
                | Some r \<Rightarrow> answer_item H request r)))"

fun handle_batch_items ::
  "handler \<Rightarrow> (batch_item \<Rightarrow> batch_env) \<Rightarrow> batch_item list \<Rightarrow> handler_state \<Rightarrow>
   handler_state \<times> upstream_call list \<times> item_answer list" where
  "handle_batch_items H B [] h = (h, [], [])"
| "handle_batch_items H B (item # items) h =
     (let (h1, calls, a) = handle_batch_item H B item h;
          (h2, calls', as) = handle_batch_items H B items h1
      in (h2, calls @ calls', a # as))"

fun item_response :: "item_answer \<Rightarrow> rpc_response list" where
  "item_response (Answered (Some r)) = [r]"
| "item_response _ = []"

definition handle_batch_request_bytes ::
  "handler \<Rightarrow> (batch_item \<Rightarrow> batch_env) \<Rightarrow> batch_item list \<Rightarrow> handler_state \<Rightarrow>
   handler_state \<times> upstream_call list \<times> body_result" where
  "handle_batch_request_bytes H B items h =
     (let (h', calls, as) = handle_batch_items H B items h;
          responses = concat (map item_response as)
      in (h', calls,
          if Panicked \<in> set as then Panic
          else if Waiting \<in> set as then Blocked
          else Reply (if responses = [] then Buffered 204 Empty else Buffered 200 (Responses responses))))"

section \<open>Admission\<close>

definition over_limit :: "mcp_handler_config \<Rightarrow> nat \<Rightarrow> nat \<Rightarrow> bool" where
  "over_limit C prev sz \<longleftrightarrow> min (prev + sz) usize_max > hc_max_aggregate_buffer C"

definition release_buffer :: "nat \<Rightarrow> handler_state \<Rightarrow> handler_state" where
  "release_buffer sz h = h\<lparr>hs_buffered_bytes := wsub (hs_buffered_bytes h) sz\<rparr>"

definition permit_count :: "mcp_handler_config \<Rightarrow> parsed_requests \<Rightarrow> tg_error + nat" where
  "permit_count C parsed =
     (case parsed of
        Single _ \<Rightarrow> Inr 1
      | Batch requests \<Rightarrow>
          if length requests > hc_max_batch_size C then
            Inl (InvalidRequest (''Batch size '' @ show_nat (length requests) @ '' exceeds maximum of '' @
              show_nat (hc_max_batch_size C)))
          else Inr (max (length requests) 1 mod 2 ^ 32))"

text \<open>Everything before the requests are handled: the answer if the body is refused, otherwise the parsed
  requests and the number of permits held.\<close>

definition enter_body ::
  "handler \<Rightarrow> string \<Rightarrow> handler_state \<Rightarrow> handler_state \<times> (mcp_http + parsed_requests \<times> nat)" where
  "enter_body H body h =
     (let C = ha_config H; sz = length body;
          refuse = (\<lambda>e h'. case fresh_error H e h' of (h'', r) \<Rightarrow> (h'', Inl r));
          refuse_counted = (\<lambda>e h'. case fresh_error H e h' of (h'', r) \<Rightarrow> (release_buffer sz h'', Inl r))
      in if sz > hc_max_body_size C then
           refuse (InvalidRequest (''Request body exceeds maximum size of '' @
             show_nat (hc_max_body_size C) @ '' bytes'')) h
         else
           let prev = hs_buffered_bytes h; h1 = h\<lparr>hs_buffered_bytes := wadd prev sz\<rparr> in
           if over_limit C prev sz then refuse (RateLimited (Some 1)) (release_buffer sz h1)
           else
             (case parse_jsonrpc (ha_reader H) (ha_prefix H) body (hs_counter h1) of
                (ctr, Inl e) \<Rightarrow> refuse_counted e (h1\<lparr>hs_counter := ctr\<rparr>)
              | (ctr, Inr parsed) \<Rightarrow>
                  let h2 = h1\<lparr>hs_counter := ctr\<rparr> in
                  (case permit_count C parsed of
                     Inl e \<Rightarrow> refuse_counted e h2
                   | Inr n \<Rightarrow>
                       if n > hs_permits h2 then refuse_counted (RateLimited (Some 1)) h2
                       else (h2\<lparr>hs_permits := hs_permits h2 - n\<rparr>, Inr (parsed, n)))))"

definition leave_body :: "string \<Rightarrow> nat \<Rightarrow> handler_state \<Rightarrow> handler_state" where
  "leave_body body n h = (release_buffer (length body) h)\<lparr>hs_permits := hs_permits h + n\<rparr>"

text \<open>The items of a batch run concurrently, up to 16 at a time: \<open>order\<close> is the order in which
  they are taken; a batch that still waits keeps its permits and its buffer.\<close>

definition handle_mcp_body_bytes ::
  "handler \<Rightarrow> (batch_item \<Rightarrow> batch_env) \<Rightarrow> (batch_item list \<Rightarrow> batch_item list) \<Rightarrow> string \<Rightarrow> handler_state \<Rightarrow>
   handler_state \<times> upstream_call list \<times> body_result" where
  "handle_mcp_body_bytes H B order body h =
     (case enter_body H body h of
        (h1, Inl r) \<Rightarrow> (h1, [], Reply r)
      | (h1, Inr (parsed, n)) \<Rightarrow>
          (case (case parsed of
                   Single request \<Rightarrow>
                     handle_single_request_bytes H (be_proxy (B (BI_Valid request))) request h1
                 | Batch items \<Rightarrow> handle_batch_request_bytes H B (order items) h1) of
             (h2, calls, res) \<Rightarrow>
               (if res = Blocked then h2 else leave_body body n h2, calls, res)))"

section \<open>Mediation\<close>

text \<open>The calls a request may lead to: for a governed method one call with the same message if the
  configuration admits it and none otherwise; for any other method at most one, which is the request
  itself, or the approved request whose result is asked for.\<close>

definition request_mediated :: "globs \<Rightarrow> config \<Rightarrow> parsed_request \<Rightarrow> upstream_call list \<Rightarrow> bool" where
  "request_mediated G cfg r calls \<longleftrightarrow>
     (if method_requires_gates (mq_method r)
      then \<exists>r'. same_message r r' \<and> calls = (if admitted G cfg r then [Forwarded r'] else [])
      else calls \<in> {[], [Forwarded r]} \<or> (\<exists>x. calls = [Executed x] \<and> mq_method r = ''tasks/result''))"

lemma route_request_mediated:
  assumes "governed_by cfg s" and "route_request P r s = (s', calls, res)"
  shows "request_mediated (ms_globs s) cfg r calls"
  using route_request_mediates [OF assms]
  by (auto simp: request_mediated_def fetches_own_result_def split: if_splits)

lemma handle_single_mediated:
  assumes "governed_by cfg (hs_mcp h)" and "handle_single_request_bytes H P r h = (h', calls, res)"
  shows "request_mediated (ms_globs (hs_mcp h)) cfg r calls"
proof -
  obtain s' cs out where r: "route_request P r (hs_mcp h) = (s', cs, out)" by (metis prod_cases3)
  then have "calls = cs" using assms(2)
    by (auto simp: handle_single_request_bytes_def split: option.splits gate_outcome.splits)
  with route_request_mediated [OF assms(1) r] show ?thesis by simp
qed

lemma handle_batch_item_mediated:
  assumes "governed_by cfg (hs_mcp h)" and "handle_batch_item H B item h = (h', calls, a)"
  shows "(case item of BI_Valid r \<Rightarrow> request_mediated (ms_globs (hs_mcp h)) cfg r calls | BI_Invalid _ _ \<Rightarrow> calls = []) \<and>
    governed_by cfg (hs_mcp h') \<and> ms_globs (hs_mcp h') = ms_globs (hs_mcp h)"
proof (cases item)
  case (BI_Invalid i e)
  then show ?thesis using assms by (auto simp: handle_batch_item_def)
next
  case (BI_Valid r)
  obtain s' cs out where r: "route_request (be_proxy (B item)) r (hs_mcp h) = (s', cs, out)" by (metis prod_cases3)
  then have "calls = cs" "hs_mcp h' = s'" using assms(2) BI_Valid
    by (auto simp: handle_batch_item_def split: option.splits gate_outcome.splits)
  with route_request_mediated [OF assms(1) r] route_request_keeps_governed [OF assms(1) r] BI_Valid
  show ?thesis by simp
qed

lemma handle_batch_items_mediated:
  assumes "governed_by cfg (hs_mcp h)" and "handle_batch_items H B items h = (h', calls, as)"
  shows "\<exists>css. calls = concat css \<and> list_all2 (request_mediated (ms_globs (hs_mcp h)) cfg) (valid_items items) css"
  using assms
proof (induction items arbitrary: h h' calls as)
  case Nil
  then show ?case by (intro exI [of _ "[]"]) simp
next
  case (Cons item items)
  obtain h1 c1 a where 1: "handle_batch_item H B item h = (h1, c1, a)" by (metis prod_cases3)
  obtain h2 c2 as' where 2: "handle_batch_items H B items h1 = (h2, c2, as')" by (metis prod_cases3)
  note m = handle_batch_item_mediated [OF Cons.prems(1) 1]
  obtain css where css: "c2 = concat css"
    "list_all2 (request_mediated (ms_globs (hs_mcp h)) cfg) (valid_items items) css"
    using Cons.IH [OF _ 2] m by auto
  have "calls = c1 @ c2" using Cons.prems(2) 1 2 by simp
  with m css show ?case
    by (cases item) (auto intro: exI [of _ css] exI [of _ "c1 # css"])
qed

lemma enter_body_mcp:
  "enter_body H body h = (h', res) \<Longrightarrow> hs_mcp h' = hs_mcp h"
  by (auto simp: enter_body_def Let_def fresh_error_def release_buffer_def split: if_splits prod.splits sum.splits)

lemma mset_valid_items: "mset xs = mset ys \<Longrightarrow> mset (valid_items xs) = mset (valid_items ys)"
proof -
  have *: "mset (valid_items xs) = image_mset (\<lambda>i. case i of BI_Valid r \<Rightarrow> r)
      (filter_mset (\<lambda>i. case i of BI_Valid _ \<Rightarrow> True | _ \<Rightarrow> False) (mset xs))" for xs
    by (induction xs rule: valid_items.induct) auto
  show "mset xs = mset ys \<Longrightarrow> mset (valid_items xs) = mset (valid_items ys)" by (simp add: *)
qed

text \<open>Complete mediation at the door of the proxy. With a configuration loaded and the
  production profile, whatever body a client sends (one request or a batch, whose items may be taken
  in any order): a refused body causes no call to the upstream, and an accepted one causes exactly
  the calls its requests are entitled to. A call to a governed method reaches the upstream, once and
  with unchanged identifier, method and parameters, if and only if it names a resource that the
  enabled source exposes and whose first matching rule says forward.\<close>

lemma body_mediated:
  assumes "governed_by cfg (hs_mcp h)" and "\<And>items. mset (order items) = mset items"
    and "handle_mcp_body_bytes H B order body h = (h', calls, res)"
  shows "case snd (enter_body H body h) of
      Inl r \<Rightarrow> calls = [] \<and> res = Reply r
    | Inr (parsed, n) \<Rightarrow> \<exists>rs css. mset rs = mset (requests_of (Inr parsed)) \<and> calls = concat css \<and>
        list_all2 (request_mediated (ms_globs (hs_mcp h)) cfg) rs css"
proof (cases "enter_body H body h")
  case (Pair h1 r)
  note keep = enter_body_mcp [OF Pair]
  show ?thesis
  proof (cases r)
    case (Inl a)
    with Pair assms(3) show ?thesis by (simp add: handle_mcp_body_bytes_def)
  next
    case (Inr b)
    then obtain parsed n where pn: "r = Inr (parsed, n)" by (cases b) auto
    show ?thesis
    proof (cases parsed)
      case (Single request)
      then obtain h2 where "handle_single_request_bytes H (be_proxy (B (BI_Valid request))) request h1 = (h2, calls, res)"
        using assms(3) Pair pn by (auto simp: handle_mcp_body_bytes_def split: prod.splits)
      from handle_single_mediated [OF _ this] assms(1) keep Pair pn Single show ?thesis
        by (auto intro!: exI [of _ "[request]"] exI [of _ "[calls]"])
    next
      case (Batch items)
      then obtain h2 as where "handle_batch_items H B (order items) h1 = (h2, calls, as)"
        using assms(3) Pair pn
        by (auto simp: handle_mcp_body_bytes_def handle_batch_request_bytes_def Let_def split: prod.splits)
      from handle_batch_items_mediated [OF _ this] assms(1) keep Pair pn Batch mset_valid_items [OF assms(2)]
      show ?thesis by (intro exI [of _ "valid_items (order items)"] conjI | simp)+
    qed
  qed
qed

definition demo_handler :: handler where
  "demo_handler = \<lparr>ha_config = mcp_handler_config_default,
     ha_reader = \<lparr>rd_raw = (\<lambda>_. Inr \<lparr>rw_jsonrpc = Some ''2.0'', rw_id = Some (IdNumber 1),
          rw_method = Some ''tools/call'', rw_params = Some (JObject [(''name'', JString ''read'')])\<rparr>),
        rd_array = (\<lambda>_. Inl ''no array''), rd_value = (\<lambda>_. Inl ''no value''), rd_from_value = (\<lambda>_. Inl ''no value'')\<rparr>,
     ha_prefix = 0, ha_uuid = (\<lambda>_. ''id'')\<rparr>"

definition demo_handler_state :: handler_state where
  "demo_handler_state = \<lparr>hs_mcp = demo_state, hs_buffered_bytes = 0, hs_permits = 10, hs_counter = 0\<rparr>"

definition demo_batch_env :: "batch_item \<Rightarrow> batch_env" where
  "demo_batch_env _ = \<lparr>be_proxy = demo_proxy_env, be_start = 0, be_rounds = []\<rparr>"

section \<open>Concurrent admission\<close>

text \<open>
  Many bodies are handled at once on the two shared counters. A body in flight has been counted and
  will be refused, has been counted and is being parsed, or holds permits. Each step is one atomic
  access to a counter: counting a body (the guard says that the bodies held at the same time fit
  into the address space), dropping one that is refused or malformed or finds no permits, acquiring
  permits, finishing.
\<close>

datatype flight = Refused nat | Counted nat | Running nat nat

record admission =
  ad_buffered :: nat
  ad_permits :: nat
  ad_flights :: "flight multiset"

fun flight_size :: "flight \<Rightarrow> nat" where
  "flight_size (Refused n) = n"
| "flight_size (Counted n) = n"
| "flight_size (Running n _) = n"

fun accepted_size :: "flight \<Rightarrow> nat" where
  "accepted_size (Refused _) = 0"
| "accepted_size f = flight_size f"

fun flight_permits :: "flight \<Rightarrow> nat" where
  "flight_permits (Running _ p) = p"
| "flight_permits _ = 0"

definition held :: "flight multiset \<Rightarrow> nat" where
  "held fs = (\<Sum>f\<in>#fs. flight_size f)"

definition admission_new :: "mcp_handler_config \<Rightarrow> admission" where
  "admission_new C = \<lparr>ad_buffered = 0, ad_permits = hc_max_concurrent_requests C, ad_flights = {#}\<rparr>"

definition drop_flight :: "flight \<Rightarrow> admission \<Rightarrow> admission" where
  "drop_flight f a = a\<lparr>ad_buffered := wsub (ad_buffered a) (flight_size f),
     ad_permits := ad_permits a + flight_permits f, ad_flights := ad_flights a - {#f#}\<rparr>"

inductive admission_step :: "mcp_handler_config \<Rightarrow> admission \<Rightarrow> admission \<Rightarrow> bool" for C where
  count: "n \<le> hc_max_body_size C \<Longrightarrow> held (ad_flights a) + n \<le> usize_max \<Longrightarrow>
    admission_step C a (a\<lparr>ad_buffered := wadd (ad_buffered a) n,
      ad_flights := add_mset (if over_limit C (ad_buffered a) n then Refused n else Counted n) (ad_flights a)\<rparr>)"
| drop: "f \<in># ad_flights a \<Longrightarrow> admission_step C a (drop_flight f a)"
| acquire: "Counted n \<in># ad_flights a \<Longrightarrow> 0 < p \<Longrightarrow> p \<le> ad_permits a \<Longrightarrow>
    admission_step C a (a\<lparr>ad_permits := ad_permits a - p,
      ad_flights := add_mset (Running n p) (ad_flights a - {#Counted n#})\<rparr>)"

definition admission_inv :: "mcp_handler_config \<Rightarrow> admission \<Rightarrow> bool" where
  "admission_inv C a \<longleftrightarrow> ad_buffered a = held (ad_flights a) \<and> held (ad_flights a) \<le> usize_max \<and>
     ad_permits a + (\<Sum>f\<in>#ad_flights a. flight_permits f) = hc_max_concurrent_requests C \<and>
     (\<Sum>f\<in>#ad_flights a. accepted_size f) \<le> hc_max_aggregate_buffer C \<and>
     (\<forall>n p. Running n p \<in># ad_flights a \<longrightarrow> 0 < p)"

lemma held_add [simp]: "held (add_mset f fs) = flight_size f + held fs" "held {#} = 0"
  by (simp_all add: held_def)

lemma accepted_le_held: "(\<Sum>f\<in>#fs. accepted_size f) \<le> held fs"
proof (induction fs)
  case (add f fs)
  then show ?case by (cases f) auto
qed simp

lemma admission_inv_count:
  assumes "admission_inv C a" and "held (ad_flights a) + n \<le> usize_max"
  shows "admission_inv C (a\<lparr>ad_buffered := wadd (ad_buffered a) n,
      ad_flights := add_mset (if over_limit C (ad_buffered a) n then Refused n else Counted n) (ad_flights a)\<rparr>)"
proof -
  have "wadd (ad_buffered a) n = ad_buffered a + n"
    using assms by (intro wadd_small) (simp add: admission_inv_def usize_mod_def)
  moreover have "\<not> over_limit C (ad_buffered a) n \<Longrightarrow>
      n + (\<Sum>f\<in>#ad_flights a. accepted_size f) \<le> hc_max_aggregate_buffer C"
    using assms accepted_le_held [of "ad_flights a"] by (auto simp: admission_inv_def over_limit_def min_def split: if_splits)
  ultimately show ?thesis using assms by (auto simp: admission_inv_def)
qed

lemma admission_inv_drop:
  assumes "admission_inv C a" and "f \<in># ad_flights a"
  shows "admission_inv C (drop_flight f a)"
proof -
  obtain fs where fs: "ad_flights a = add_mset f fs" using assms(2) by (metis insert_DiffM)
  have "wsub (ad_buffered a) (flight_size f) = held fs"
    using assms(1) fs by (subst wsub_small) (auto simp: admission_inv_def usize_mod_def)
  with assms(1) fs show ?thesis by (cases f) (auto simp: admission_inv_def drop_flight_def)
qed

lemma admission_inv_acquire:
  assumes "admission_inv C a" and "Counted n \<in># ad_flights a" and "0 < p" and "p \<le> ad_permits a"
  shows "admission_inv C (a\<lparr>ad_permits := ad_permits a - p,
      ad_flights := add_mset (Running n p) (ad_flights a - {#Counted n#})\<rparr>)"
proof -
  obtain fs where fs: "ad_flights a = add_mset (Counted n) fs" using assms(2) by (metis insert_DiffM)
  with assms show ?thesis by (auto simp: admission_inv_def)
qed

lemma admission_inv_reachable: "(admission_step C)\<^sup>*\<^sup>* (admission_new C) a \<Longrightarrow> admission_inv C a"
proof (induction rule: rtranclp_induct)
  case base
  then show ?case by (simp add: admission_inv_def admission_new_def)
next
  case (step a b)
  from step.hyps(2) step.IH show ?case
    by cases (simp_all add: admission_inv_count admission_inv_drop admission_inv_acquire)
qed

lemma running_le_permits:
  "(\<forall>n p. Running n p \<in># fs \<longrightarrow> 0 < p) \<Longrightarrow>
   size {#f \<in># fs. flight_permits f > 0#} \<le> (\<Sum>f\<in>#fs. flight_permits f)"
proof (induction fs)
  case (add f fs)
  then have "size {#f \<in># fs. flight_permits f > 0#} \<le> (\<Sum>f\<in>#fs. flight_permits f)" by auto
  then show ?case by (cases f) auto
qed simp

text \<open>The functions on one body are runs of this relation, with any other bodies in flight.\<close>

definition admission_of :: "handler_state \<Rightarrow> flight multiset \<Rightarrow> admission" where
  "admission_of h fs = \<lparr>ad_buffered = hs_buffered_bytes h, ad_permits = hs_permits h, ad_flights = fs\<rparr>"

lemma leave_body_step:
  "admission_step C (admission_of h (add_mset (Running (length body) n) fs)) (admission_of (leave_body body n h) fs)"
  using drop [of "Running (length body) n" "admission_of h (add_mset (Running (length body) n) fs)" C]
  by (simp add: admission_of_def drop_flight_def leave_body_def release_buffer_def)

lemma enter_body_counters:
  assumes "hs_buffered_bytes h + length body \<le> usize_max"
  shows "case enter_body H body h of
      (h', Inl _) \<Rightarrow> hs_buffered_bytes h' = hs_buffered_bytes h \<and> hs_permits h' = hs_permits h
    | (h', Inr (parsed, n)) \<Rightarrow> length body \<le> hc_max_body_size (ha_config H) \<and>
        \<not> over_limit (ha_config H) (hs_buffered_bytes h) (length body) \<and> permit_count (ha_config H) parsed = Inr n \<and>
        n \<le> hs_permits h \<and> hs_buffered_bytes h' = wadd (hs_buffered_bytes h) (length body) \<and>
        hs_permits h' = hs_permits h - n"
proof -
  have "wsub (wadd (hs_buffered_bytes h) (length body)) (length body) = hs_buffered_bytes h"
    using assms by (intro wsub_wadd_cancel) (simp add: usize_mod_def)
  then show ?thesis
    by (simp add: enter_body_def Let_def fresh_error_def release_buffer_def split: prod.splits sum.splits)
qed

lemma permit_count_pos: "permit_count C parsed = Inr n \<Longrightarrow> hc_max_batch_size C < 2 ^ 32 \<Longrightarrow> 0 < n"
  by (auto simp: permit_count_def split: parsed_requests.splits if_splits)

lemma enter_body_steps:
  assumes "enter_body H body h = (h', Inr (parsed, n))" and "hs_buffered_bytes h = held fs"
    and "held fs + length body \<le> usize_max" and "hc_max_batch_size (ha_config H) < 2 ^ 32"
  shows "(admission_step (ha_config H))\<^sup>*\<^sup>* (admission_of h fs) (admission_of h' (add_mset (Running (length body) n) fs))"
proof -
  let ?C = "ha_config H" and ?h1 = "h\<lparr>hs_buffered_bytes := wadd (hs_buffered_bytes h) (length body)\<rparr>"
  from enter_body_counters [of h body H] assms have e: "length body \<le> hc_max_body_size ?C"
    "\<not> over_limit ?C (hs_buffered_bytes h) (length body)" "permit_count ?C parsed = Inr n" "n \<le> hs_permits h"
    "hs_buffered_bytes h' = wadd (hs_buffered_bytes h) (length body)" "hs_permits h' = hs_permits h - n" by simp_all
  have "admission_step ?C (admission_of h fs) (admission_of ?h1 (add_mset (Counted (length body)) fs))"
    using count [of "length body" ?C "admission_of h fs"] e assms(3) by (simp add: admission_of_def)
  moreover have "admission_step ?C (admission_of ?h1 (add_mset (Counted (length body)) fs))
      (admission_of h' (add_mset (Running (length body) n) fs))"
    using acquire [of "length body" "admission_of ?h1 (add_mset (Counted (length body)) fs)" n ?C]
      permit_count_pos [OF e(3) assms(4)] e by (simp add: admission_of_def)
  ultimately show ?thesis by (blast intro: rtranclp_trans)
qed

text \<open>C20: Admission control holds under concurrency. Whatever bodies are counted, refused, admitted and
  finished in any interleaving, the byte counter is exactly the size of the bodies in flight (it never
  drifts or wraps), free permits and held permits add up to the configured number, the admitted bodies
  together stay within the aggregate limit, and no more bodies are handled at once than there are
  permits. One more body keeps this: if it is refused both counters are as before, otherwise the state
  with it in flight, and the state after it leaves, are again such states.\<close>

theorem admission_bounds:
  assumes "(admission_step (ha_config H))\<^sup>*\<^sup>* (admission_new (ha_config H)) (admission_of h fs)"
    and "hc_max_batch_size (ha_config H) < 2 ^ 32" and "held fs + length body \<le> usize_max"
  shows "hs_buffered_bytes h = held fs \<and>
    hs_permits h + (\<Sum>f\<in>#fs. flight_permits f) = hc_max_concurrent_requests (ha_config H) \<and>
    (\<Sum>f\<in>#fs. accepted_size f) \<le> hc_max_aggregate_buffer (ha_config H) \<and>
    size {#f \<in># fs. flight_permits f > 0#} \<le> hc_max_concurrent_requests (ha_config H) \<and>
    (case enter_body H body h of
       (h', Inl _) \<Rightarrow> hs_buffered_bytes h' = hs_buffered_bytes h \<and> hs_permits h' = hs_permits h
     | (h', Inr (parsed, n)) \<Rightarrow>
         (admission_step (ha_config H))\<^sup>*\<^sup>* (admission_new (ha_config H))
           (admission_of h' (add_mset (Running (length body) n) fs)) \<and>
         (admission_step (ha_config H))\<^sup>*\<^sup>* (admission_new (ha_config H)) (admission_of (leave_body body n h') fs))"
proof -
  let ?C = "ha_config H"
  have inv: "hs_buffered_bytes h = held fs" "hs_permits h + (\<Sum>f\<in>#fs. flight_permits f) = hc_max_concurrent_requests ?C"
    "(\<Sum>f\<in>#fs. accepted_size f) \<le> hc_max_aggregate_buffer ?C" "\<forall>n p. Running n p \<in># fs \<longrightarrow> 0 < p"
    using admission_inv_reachable [OF assms(1)] by (auto simp: admission_inv_def admission_of_def)
  have "size {#f \<in># fs. flight_permits f > 0#} \<le> hc_max_concurrent_requests ?C"
    using running_le_permits [OF inv(4)] inv(2) by linarith
  moreover have "case enter_body H body h of
       (h', Inl _) \<Rightarrow> hs_buffered_bytes h' = hs_buffered_bytes h \<and> hs_permits h' = hs_permits h
     | (h', Inr (parsed, n)) \<Rightarrow>
         (admission_step ?C)\<^sup>*\<^sup>* (admission_new ?C) (admission_of h' (add_mset (Running (length body) n) fs)) \<and>
         (admission_step ?C)\<^sup>*\<^sup>* (admission_new ?C) (admission_of (leave_body body n h') fs)"
  proof (cases "enter_body H body h")
    case (Pair h' res)
    show ?thesis
    proof (cases res)
      case (Inl r)
      with Pair enter_body_counters [of h body H] inv(1) assms(3) show ?thesis by simp
    next
      case (Inr x)
      then obtain parsed n where e: "enter_body H body h = (h', Inr (parsed, n))" using Pair by (cases x) auto
      have 1: "(admission_step ?C)\<^sup>*\<^sup>* (admission_new ?C) (admission_of h' (add_mset (Running (length body) n) fs))"
        using assms(1) enter_body_steps [OF e inv(1) assms(3,2)] by (rule rtranclp_trans)
      from rtranclp.rtrancl_into_rtrancl [OF this leave_body_step] 1 e show ?thesis by simp
    qed
  qed
  ultimately show ?thesis using inv(1-3) by blast
qed

theorem admission_bounds_witness:
  "\<exists>h' r. enter_body demo_handler ''{}'' (demo_handler_state\<lparr>hs_permits := 10000\<rparr>) = (h', Inr (Single r, 1)) \<and>
     (admission_step mcp_handler_config_default)\<^sup>*\<^sup>* (admission_new mcp_handler_config_default)
       (admission_of h' {#Running 2 1#})"
proof -
  let ?h = "demo_handler_state\<lparr>hs_permits := 10000\<rparr>"
  have C: "ha_config demo_handler = mcp_handler_config_default" by (simp add: demo_handler_def)
  have 1: "(admission_step (ha_config demo_handler))\<^sup>*\<^sup>* (admission_new (ha_config demo_handler)) (admission_of ?h {#})"
    by (simp add: C admission_new_def admission_of_def demo_handler_state_def mcp_handler_config_default_def)
  obtain h' r where e: "enter_body demo_handler ''{}'' ?h = (h', Inr (Single r, 1))"
    by (simp add: enter_body_def demo_handler_def demo_handler_state_def mcp_handler_config_default_def Let_def
        over_limit_def wadd_def usize_mod_def parse_jsonrpc_def is_ascii_whitespace_def parse_single_from_raw_def
        extract_task_metadata_def permit_count_def jget_def)
  have 2: "hc_max_batch_size (ha_config demo_handler) < 2 ^ 32" "held {#} + length ''{}'' \<le> usize_max"
    by (simp_all add: C mcp_handler_config_default_def)
  from admission_bounds [OF 1 2] e C show ?thesis by (auto simp: numeral_2_eq_2)
qed

end
