(* ===== verification/Lifecycle.thy ===== *)
theory Lifecycle
  imports Task_Handlers
begin

text \<open>
  The operational lifecycle (\<open>lifecycle/mod.rs\<close>, \<open>lifecycle/health.rs\<close>): configuration,
  the manager with its state, counter of active requests and cached health of the upstream, draining,
  the probes and the check of the environment. Tracking a request is two steps, a look at the state and
  an increment, so it is also modelled as a step relation of interleaved requests.
\<close>

section \<open>Configuration\<close>

datatype lifecycle_state = Starting | Ready | ShuttingDown | Stopped

fun display_lifecycle_state :: "lifecycle_state \<Rightarrow> string" where
  "display_lifecycle_state Starting = ''starting''"
| "display_lifecycle_state Ready = ''ready''"
| "display_lifecycle_state ShuttingDown = ''shutting_down''"
| "display_lifecycle_state Stopped = ''stopped''"

record lifecycle_config =
  lc_shutdown_timeout :: duration
  lc_drain_timeout :: duration
  lc_startup_timeout :: duration
  lc_require_upstream_at_startup :: bool
  lc_upstream_health_interval :: duration

definition lifecycle_config_default :: lifecycle_config where
  "lifecycle_config_default = \<lparr>lc_shutdown_timeout = from_secs 30, lc_drain_timeout = from_secs 25,
     lc_startup_timeout = from_secs 15, lc_require_upstream_at_startup = False,
     lc_upstream_health_interval = from_secs 30\<rparr>"

definition parse_duration_env :: "(string \<Rightarrow> string option) \<Rightarrow> string \<Rightarrow> duration \<Rightarrow> duration" where
  "parse_duration_env env name dflt =
     (case env name of
        Some v \<Rightarrow> (case parse_usize v of Some secs \<Rightarrow> from_secs secs | None \<Rightarrow> dflt)
      | None \<Rightarrow> dflt)"

definition to_ascii_lower :: "char \<Rightarrow> char" where
  "to_ascii_lower c = (if 65 \<le> (of_char c :: nat) \<and> (of_char c :: nat) \<le> 90 then char_of (of_char c + 32 :: nat) else c)"

definition eq_ignore_ascii_case :: "string \<Rightarrow> string \<Rightarrow> bool" where
  "eq_ignore_ascii_case s t \<longleftrightarrow> map to_ascii_lower s = map to_ascii_lower t"

text \<open>The drain timeout that is used for given timeouts. The multiplication of seconds wraps.\<close>

definition adjust_drain_timeout :: "duration \<Rightarrow> duration \<Rightarrow> duration" where
  "adjust_drain_timeout shutdown_timeout drain_timeout =
     (let min_drain = from_secs 1;
          max_drain = from_secs (as_secs shutdown_timeout - 1)
      in if drain_timeout \<ge> shutdown_timeout then
           max (min (from_secs ((as_secs shutdown_timeout * 4 mod usize_mod) div 5)) max_drain) min_drain
         else if drain_timeout > max_drain then max max_drain min_drain
         else if drain_timeout < min_drain then min_drain
         else drain_timeout)"

definition lifecycle_config_from_env :: "(string \<Rightarrow> string option) \<Rightarrow> lifecycle_config" where
  "lifecycle_config_from_env env =
     (let d = lifecycle_config_default;
          shutdown_timeout = parse_duration_env env ''THOUGHTGATE_SHUTDOWN_TIMEOUT_SECS'' (lc_shutdown_timeout d);
          drain_timeout = parse_duration_env env ''THOUGHTGATE_DRAIN_TIMEOUT_SECS'' (lc_drain_timeout d)
      in \<lparr>lc_shutdown_timeout = shutdown_timeout,
          lc_drain_timeout = adjust_drain_timeout shutdown_timeout drain_timeout,
          lc_startup_timeout = parse_duration_env env ''THOUGHTGATE_STARTUP_TIMEOUT_SECS'' (lc_startup_timeout d),
          lc_require_upstream_at_startup =
            (case env ''THOUGHTGATE_REQUIRE_UPSTREAM_AT_STARTUP'' of
               Some s \<Rightarrow> eq_ignore_ascii_case s ''true'' \<or> s = ''1''
             | None \<Rightarrow> lc_require_upstream_at_startup d),
          lc_upstream_health_interval =
            parse_duration_env env ''THOUGHTGATE_UPSTREAM_HEALTH_INTERVAL_SECS'' (lc_upstream_health_interval d)\<rparr>)"

section \<open>The manager\<close>

record upstream_health_status =
  uh_is_healthy :: bool
  uh_last_check :: instant
  uh_last_error :: "string option"

record lifecycle_manager =
  lm_state :: lifecycle_state
  lm_started_at :: instant
  lm_shutdown_token :: bool     \<comment> \<open>cancelled\<close>
  lm_active_requests :: nat
  lm_upstream_health :: upstream_health_status
  lm_config_loaded :: bool
  lm_approval_store_initialized :: bool
  lm_config :: lifecycle_config
  lm_version :: string

definition lifecycle_manager_new :: "instant \<Rightarrow> string \<Rightarrow> lifecycle_config \<Rightarrow> lifecycle_manager" where
  "lifecycle_manager_new now ver C = \<lparr>lm_state = Starting, lm_started_at = now, lm_shutdown_token = False,
     lm_active_requests = 0,
     lm_upstream_health = \<lparr>uh_is_healthy = False, uh_last_check = now, uh_last_error = Some ''Not checked yet''\<rparr>,
     lm_config_loaded = False, lm_approval_store_initialized = False, lm_config = C, lm_version = ver\<rparr>"

definition is_ready :: "lifecycle_manager \<Rightarrow> bool" where
  "is_ready M \<longleftrightarrow> lm_state M = Ready"

definition is_shutting_down :: "lifecycle_manager \<Rightarrow> bool" where
  "is_shutting_down M \<longleftrightarrow> lm_state M = ShuttingDown \<or> lm_state M = Stopped"

definition mark_ready :: "lifecycle_manager \<Rightarrow> lifecycle_manager" where
  "mark_ready M = M\<lparr>lm_state := Ready\<rparr>"

definition mark_config_loaded :: "lifecycle_manager \<Rightarrow> lifecycle_manager" where
  "mark_config_loaded M = M\<lparr>lm_config_loaded := True\<rparr>"

definition mark_approval_store_initialized :: "lifecycle_manager \<Rightarrow> lifecycle_manager" where
  "mark_approval_store_initialized M = M\<lparr>lm_approval_store_initialized := True\<rparr>"

definition update_upstream_health :: "instant \<Rightarrow> bool \<Rightarrow> string option \<Rightarrow> lifecycle_manager \<Rightarrow> lifecycle_manager" where
  "update_upstream_health now ok e M =
     M\<lparr>lm_upstream_health := \<lparr>uh_is_healthy = ok, uh_last_check = now, uh_last_error = e\<rparr>\<rparr>"

definition begin_shutdown :: "lifecycle_manager \<Rightarrow> lifecycle_manager" where
  "begin_shutdown M = M\<lparr>lm_state := ShuttingDown, lm_shutdown_token := True\<rparr>"

definition mark_stopped :: "lifecycle_manager \<Rightarrow> lifecycle_manager" where
  "mark_stopped M = M\<lparr>lm_state := Stopped\<rparr>"

text \<open>Tracking as one call; the guard it returns is dropped with \<open>drop_guard\<close>.\<close>

definition track_request :: "lifecycle_manager \<Rightarrow> lifecycle_manager \<times> bool" where
  "track_request M =
     (if is_shutting_down M then (M, False)
      else (M\<lparr>lm_active_requests := wadd (lm_active_requests M) 1\<rparr>, True))"

definition drop_guard :: "lifecycle_manager \<Rightarrow> lifecycle_manager" where
  "drop_guard M = M\<lparr>lm_active_requests := wsub (lm_active_requests M) 1\<rparr>"

text \<open>One check of the upstream: the status and how it is printed, or the error.\<close>

definition check_upstream_health ::
  "instant \<Rightarrow> (string + nat \<times> string) \<Rightarrow> lifecycle_manager \<Rightarrow> lifecycle_manager" where
  "check_upstream_health now result M =
     (case result of
        Inr (status, text) \<Rightarrow>
          if 500 \<le> status \<and> status \<le> 599 then update_upstream_health now False (Some (''HTTP '' @ text)) M
          else update_upstream_health now True None M
      | Inl e \<Rightarrow> update_upstream_health now False (Some e) M)"

section \<open>Draining\<close>

datatype drain_result = Complete | Timeout nat

text \<open>One round of the loop: the counter and the clock it reads. The loop has not ended when the rounds
  are used up.\<close>

fun drain_loop :: "instant \<Rightarrow> (nat \<times> instant) list \<Rightarrow> drain_result option" where
  "drain_loop deadline [] = None"
| "drain_loop deadline ((active, now) # rounds) =
     (if active = 0 then Some Complete
      else if now > deadline then Some (Timeout active)
      else drain_loop deadline rounds)"

definition drain_requests :: "instant \<Rightarrow> (nat \<times> instant) list \<Rightarrow> lifecycle_manager \<Rightarrow> drain_result option" where
  "drain_requests start rounds M = drain_loop (start + lc_drain_timeout (lm_config M)) rounds"

section \<open>Probes\<close>

record readiness_checks =
  rc_config_loaded :: bool
  rc_upstream_reachable :: bool
  rc_approval_store_initialized :: bool

definition readiness_checks_of :: "lifecycle_manager \<Rightarrow> readiness_checks" where
  "readiness_checks_of M = \<lparr>rc_config_loaded = lm_config_loaded M,
     rc_upstream_reachable = uh_is_healthy (lm_upstream_health M),
     rc_approval_store_initialized = lm_approval_store_initialized M\<rparr>"

definition all_pass :: "readiness_checks \<Rightarrow> bool" where
  "all_pass c \<longleftrightarrow> rc_config_loaded c \<and> rc_upstream_reachable c \<and> rc_approval_store_initialized c"

definition first_failure :: "readiness_checks \<Rightarrow> string option" where
  "first_failure c =
     (if \<not> rc_config_loaded c then Some ''config_loaded''
      else if \<not> rc_upstream_reachable c then Some ''upstream_reachable''
      else if \<not> rc_approval_store_initialized c then Some ''approval_store_initialized''
      else None)"

datatype probe_response =
    Healthy string nat                                        \<comment> \<open>version, uptime\<close>
  | Unhealthy string
  | Readiness string readiness_checks "string option"          \<comment> \<open>status, checks, reason\<close>

definition health_handler :: "instant \<Rightarrow> lifecycle_manager \<Rightarrow> nat \<times> probe_response" where
  "health_handler now M =
     (if lm_state M = Stopped then (503, Unhealthy ''service_stopped'')
      else (200, Healthy (lm_version M) (as_secs (now - lm_started_at M))))"

definition readiness_handler :: "lifecycle_manager \<Rightarrow> nat \<times> probe_response" where
  "readiness_handler M =
     (let checks = readiness_checks_of M in
      if is_shutting_down M then (503, Readiness ''not_ready'' checks (Some ''shutting_down''))
      else if all_pass checks \<and> is_ready M then (200, Readiness ''ready'' checks None)
      else (503, Readiness ''not_ready'' checks
              (case first_failure checks of
                 Some c \<Rightarrow> Some c
               | None \<Rightarrow> if \<not> is_ready M then Some (''lifecycle_state: '' @ display_lifecycle_state (lm_state M))
                         else None)))"

section \<open>The environment\<close>

definition validate_environment :: "(string \<Rightarrow> string option) \<Rightarrow> string + unit" where
  "validate_environment env =
     (let environment = (case env ''THOUGHTGATE_ENVIRONMENT'' of Some e \<Rightarrow> e | None \<Rightarrow> ''production'');
          is_production = environment \<in> {''production'', ''prod'', []}
      in if env ''THOUGHTGATE_DEV_MODE'' = Some ''true'' \<and> is_production then
           Inl (''THOUGHTGATE_DEV_MODE=true is not allowed in production. '' @
                ''Set THOUGHTGATE_ENVIRONMENT=development to use dev mode.'')
         else if env ''THOUGHTGATE_APPROVAL_ADAPTER'' = Some ''mock'' \<and> is_production then
           Inl (''THOUGHTGATE_APPROVAL_ADAPTER=mock is not allowed in production. '' @
                ''Set THOUGHTGATE_ENVIRONMENT=development to use the mock adapter.'')
         else Inr ())"

section \<open>Draining terminates\<close>

lemma drain_loop_cases:
  "drain_loop deadline rounds =
     (case find (\<lambda>(active, now). active = 0 \<or> now > deadline) rounds of
        None \<Rightarrow> None
      | Some (active, _) \<Rightarrow> Some (if active = 0 then Complete else Timeout active))"
  by (induction deadline rounds rule: drain_loop.induct) auto

lemma spaced_rounds:
  assumes "\<forall>i. Suc i < length rounds \<longrightarrow> snd (rounds ! Suc i) \<ge> snd (rounds ! i) + d" and "i < length rounds"
  shows "snd (rounds ! i) \<ge> snd (rounds ! 0) + i * d"
  using assms(2)
proof (induction i)
  case (Suc i)
  then have "snd (rounds ! Suc i) \<ge> snd (rounds ! i) + d" using assms(1) by blast
  with Suc show ?case by simp
qed simp

text \<open>Draining returns: if the rounds are at least 100 milliseconds apart, the loop ends after at
  most one round per 100 milliseconds of the drain timeout and two more, whatever the counter does; it
  reports completion exactly if the first round that ends it saw no active request, and otherwise the
  number of requests that were still active after the deadline.\<close>

lemma drain_returns:
  assumes "\<forall>i. Suc i < length rounds \<longrightarrow> snd (rounds ! Suc i) \<ge> snd (rounds ! i) + from_millis 100"
    and "length rounds \<ge> lc_drain_timeout (lm_config M) div from_millis 100 + 2"
    and "snd (rounds ! 0) \<ge> start"
  shows "\<exists>i active now. i < lc_drain_timeout (lm_config M) div from_millis 100 + 2 \<and> rounds ! i = (active, now) \<and>
    (\<forall>j<i. fst (rounds ! j) \<noteq> 0) \<and>
    drain_requests start rounds M = Some (if active = 0 then Complete else Timeout active) \<and>
    (active = 0 \<or> now > start + lc_drain_timeout (lm_config M))"
proof -
  let ?T = "lc_drain_timeout (lm_config M)" and ?d = "from_millis 100"
  let ?P = "\<lambda>(active, now). active = 0 \<or> now > start + ?T"
  let ?n = "?T div ?d + 1"
  have n: "?n < length rounds" using assms(2) by simp
  have "?T < ?n * ?d" using dividend_less_div_times [of ?d ?T] by (simp add: from_millis_def)
  moreover have "snd (rounds ! ?n) \<ge> start + ?n * ?d"
    using spaced_rounds [OF assms(1) n] assms(3) by linarith
  ultimately have p: "?P (rounds ! ?n)" by (auto simp: case_prod_beta)
  have "\<exists>x. x \<in> set rounds \<and> ?P x" by (rule exI, rule conjI [OF nth_mem [OF n] p])
  then have "find ?P rounds \<noteq> None" unfolding find_None_iff not_not .
  then obtain x where x: "find ?P rounds = Some x" by blast
  then obtain i where i: "i < length rounds" "?P (rounds ! i)" "x = rounds ! i" "\<forall>j<i. \<not> ?P (rounds ! j)"
    by (auto simp: find_Some_iff)
  have "i \<le> ?n" using i(4) p by (meson not_less)
  moreover have "\<forall>j<i. fst (rounds ! j) \<noteq> 0" using i(4) by (auto simp: case_prod_beta)
  moreover have "drain_requests start rounds M = Some (if fst x = 0 then Complete else Timeout (fst x))"
    using x by (simp add: drain_requests_def drain_loop_cases case_prod_beta)
  ultimately show ?thesis using i(2,3) by (intro exI [of _ i] exI [of _ "fst x"] exI [of _ "snd x"]) (auto simp: case_prod_beta)
qed

section \<open>Interleaved requests\<close>

text \<open>
  Requests on the manager: some have seen that the service is not shutting down and have not been
  counted yet, some hold a guard. The operations of the manager may happen at any time.
\<close>

record life =
  lf_manager :: lifecycle_manager
  lf_checked :: nat
  lf_guards :: nat

datatype life_event = E_Look | E_Count | E_Finish | E_Ready | E_Shutdown | E_Stop | E_Health instant "string + nat \<times> string"

definition life_new :: "lifecycle_manager \<Rightarrow> life" where
  "life_new M = \<lparr>lf_manager = M, lf_checked = 0, lf_guards = 0\<rparr>"

fun life_step :: "life_event \<Rightarrow> life \<Rightarrow> life option" where
  "life_step E_Look c =
     (if is_shutting_down (lf_manager c) then Some c else Some (c\<lparr>lf_checked := lf_checked c + 1\<rparr>))"
| "life_step E_Count c =
     (if lf_checked c = 0 \<or> lf_guards c \<ge> usize_max then None
      else Some (c\<lparr>lf_manager := (lf_manager c)\<lparr>lm_active_requests := wadd (lm_active_requests (lf_manager c)) 1\<rparr>,
             lf_checked := lf_checked c - 1, lf_guards := lf_guards c + 1\<rparr>))"
| "life_step E_Finish c =
     (if lf_guards c = 0 then None
      else Some (c\<lparr>lf_manager := drop_guard (lf_manager c), lf_guards := lf_guards c - 1\<rparr>))"
| "life_step E_Ready c = Some (c\<lparr>lf_manager := mark_ready (lf_manager c)\<rparr>)"
| "life_step E_Shutdown c = Some (c\<lparr>lf_manager := begin_shutdown (lf_manager c)\<rparr>)"
| "life_step E_Stop c = Some (c\<lparr>lf_manager := mark_stopped (lf_manager c)\<rparr>)"
| "life_step (E_Health now r) c = Some (c\<lparr>lf_manager := check_upstream_health now r (lf_manager c)\<rparr>)"

fun life_run :: "life_event list \<Rightarrow> life \<Rightarrow> life option" where
  "life_run [] c = Some c"
| "life_run (e # es) c = Option.bind (life_step e c) (life_run es)"

definition life_inv :: "life \<Rightarrow> bool" where
  "life_inv c \<longleftrightarrow> lm_active_requests (lf_manager c) = lf_guards c \<and> lf_guards c \<le> usize_max"

lemma health_keeps [simp]:
  "lm_active_requests (check_upstream_health now r M) = lm_active_requests M"
  "lm_state (check_upstream_health now r M) = lm_state M"
  by (auto simp: check_upstream_health_def update_upstream_health_def split: sum.splits)

lemmas manager_ops = mark_ready_def begin_shutdown_def mark_stopped_def drop_guard_def is_shutting_down_def

lemma life_step_inv: "life_step e c = Some c' \<Longrightarrow> life_inv c \<Longrightarrow> life_inv c'"
  by (cases e) (auto simp: life_inv_def manager_ops wadd_small wsub_small usize_mod_def split: if_splits)

lemma life_run_inv: "life_run es c = Some c' \<Longrightarrow> life_inv c \<Longrightarrow> life_inv c'"
  by (induction es arbitrary: c) (auto simp: life_step_inv split: bind_splits)

lemma life_step_draining:
  assumes "life_step e c = Some c'" and "e \<noteq> E_Ready" and "is_shutting_down (lf_manager c)" and "life_inv c"
  shows "is_shutting_down (lf_manager c')" "lf_checked c' + lf_guards c' \<le> lf_checked c + lf_guards c"
  using assms by (cases e; auto simp: manager_ops split: if_splits)+

lemma life_run_draining:
  "life_run es c = Some c' \<Longrightarrow> E_Ready \<notin> set es \<Longrightarrow> is_shutting_down (lf_manager c) \<Longrightarrow> life_inv c \<Longrightarrow>
   is_shutting_down (lf_manager c') \<and> lf_checked c' + lf_guards c' \<le> lf_checked c + lf_guards c"
proof (induction es arbitrary: c)
  case (Cons e es)
  then obtain c1 where 1: "life_step e c = Some c1" "life_run es c1 = Some c'" by (auto split: bind_splits)
  with Cons.prems have "e \<noteq> E_Ready" "E_Ready \<notin> set es" by auto
  with life_step_draining [OF 1(1)] Cons.prems Cons.IH [OF 1(2)] life_step_inv [OF 1(1)] show ?case by fastforce
qed simp

text \<open>Draining is sound. However requests interleave with the operations of the manager, its counter
  is exactly the number of guards held; and once the service is shutting down, if the counter is zero
  while no request stands between its look at the state and its increment, then no request is or will
  ever be active again, unless the service is marked ready anew: every later attempt is refused.\<close>

lemma drain_sound:
  assumes "life_run es (life_new (lifecycle_manager_new now ver C)) = Some c"
    and "is_shutting_down (lf_manager c)" and "lf_checked c = 0"
    and "drain_loop deadline [(lm_active_requests (lf_manager c), t)] = Some Complete"
    and "life_run es' c = Some c'" and "E_Ready \<notin> set es'"
  shows "lm_active_requests (lf_manager c) = lf_guards c \<and> lf_guards c' = 0 \<and>
    lm_active_requests (lf_manager c') = 0 \<and> track_request (lf_manager c') = (lf_manager c', False)"
proof -
  have "life_inv (life_new (lifecycle_manager_new now ver C))"
    by (simp add: life_inv_def life_new_def lifecycle_manager_new_def)
  then have i: "life_inv c" using life_run_inv assms(1) by blast
  then have g: "lf_guards c = 0" using assms(4) by (auto simp: life_inv_def split: if_splits)
  from life_run_draining [OF assms(5,6,2) i] assms(3) g life_run_inv [OF assms(5) i] i show ?thesis
    by (simp add: life_inv_def track_request_def)
qed

text \<open>The assumption on requests that stand between look and increment is needed: such a request is
  counted after draining completed.\<close>

lemma drain_misses_late_request:
  "\<exists>c c'. life_run [E_Ready, E_Look, E_Shutdown] (life_new (lifecycle_manager_new now ver C)) = Some c \<and>
     drain_loop deadline [(lm_active_requests (lf_manager c), t)] = Some Complete \<and>
     life_run [E_Count] c = Some c' \<and> lf_guards c' = 1"
  by (simp add: life_new_def lifecycle_manager_new_def manager_ops)

section \<open>The drain timeout\<close>

lemma as_secs_from_secs [simp]: "as_secs (from_secs n) = n"
  by (simp add: tg_defs)

lemma from_secs_le [simp]: "from_secs m \<le> from_secs n \<longleftrightarrow> m \<le> n" "from_secs m < from_secs n \<longleftrightarrow> m < n"
  by (simp_all add: tg_defs)

lemma from_secs_max: "max (from_secs m) (from_secs n) = from_secs (max m n)" "min (from_secs m) (from_secs n) = from_secs (min m n)"
  by (simp_all add: max_def min_def)

lemma parse_duration_env_secs: "\<exists>n. parse_duration_env env v (from_secs d) = from_secs n"
  by (auto simp: parse_duration_env_def split: option.splits)

lemma adjust_drain_secs:
  "adjust_drain_timeout (from_secs s) (from_secs d) =
     from_secs (if d \<ge> s then max (min ((s * 4 mod usize_mod) div 5) (s - 1)) 1
       else if d > s - 1 then max (s - 1) 1 else if d < 1 then 1 else d)"
  by (cases "d \<ge> s"; cases "d > s - 1"; cases "d < 1")
     (simp_all only: adjust_drain_timeout_def Let_def from_secs_le as_secs_from_secs from_secs_max if_True if_False)

text \<open>Whatever the environment says, the drain timeout is at least one second; it is below the
  shutdown timeout, as documented, exactly if the shutdown timeout is at least two seconds.\<close>

lemma drain_timeout_bounds:
  "from_secs 1 \<le> lc_drain_timeout (lifecycle_config_from_env env) \<and>
   (lc_drain_timeout (lifecycle_config_from_env env) < lc_shutdown_timeout (lifecycle_config_from_env env) \<longleftrightarrow>
    from_secs 2 \<le> lc_shutdown_timeout (lifecycle_config_from_env env))"
proof -
  obtain s d where s: "parse_duration_env env ''THOUGHTGATE_SHUTDOWN_TIMEOUT_SECS'' (from_secs 30) = from_secs s"
    and d: "parse_duration_env env ''THOUGHTGATE_DRAIN_TIMEOUT_SECS'' (from_secs 25) = from_secs d"
    using parse_duration_env_secs by metis
  show ?thesis
    unfolding lifecycle_config_from_env_def Let_def lifecycle_config_default_def lifecycle_config.simps s d
      adjust_drain_secs from_secs_le
    by (auto simp: max_def min_def split: if_splits)
qed

end
