(* ===== verification/Traffic.thy ===== *)
theory Traffic
  imports Lifecycle "HOL-Library.Sublist"
begin

text \<open>
  Telling MCP traffic from other HTTP traffic by the head of a request (\<open>thoughtgate-proxy/src/traffic.rs\<close>), with the
  normal form of paths, and the ports of the proxy (\<open>ports.rs\<close>). Header names are lower case, as the \<open>http\<close> crate
  stores them, each with its values in order.
\<close>

declare map_of_eq_Some_iff [simp del]

section \<open>Requests\<close>

type_synonym headers = "(string \<times> string list) list"

record http_request =
  hq_method :: string
  hq_uri :: string                \<comment> \<open>as a whole\<close>
  hq_scheme :: "string option"
  hq_path :: string
  hq_path_and_query :: "string option"
  hq_headers :: headers
  hq_body :: string
  hq_body_error :: "string option"  \<comment> \<open>the stream breaks after the bytes of the body\<close>

definition header_first :: "string \<Rightarrow> headers \<Rightarrow> string option" where
  "header_first name hs = (case map_of hs name of Some (v # _) \<Rightarrow> Some v | _ \<Rightarrow> None)"

text \<open>\<open>HeaderValue::to_str\<close> succeeds on visible ASCII characters, blanks and tabs.\<close>

definition visible_ascii :: "char \<Rightarrow> bool" where
  "visible_ascii c \<longleftrightarrow> 32 \<le> (of_char c :: nat) \<and> (of_char c :: nat) < 127 \<or> (of_char c :: nat) = 9"

definition header_to_str :: "string \<Rightarrow> string option" where
  "header_to_str v = (if list_all visible_ascii v then Some v else None)"

section \<open>Classification\<close>

datatype traffic_type = TT_Mcp | TT_Http

fun windows :: "nat \<Rightarrow> 'a list \<Rightarrow> 'a list list" where
  "windows n [] = []"
| "windows n (x # xs) = (if n \<le> length (x # xs) then take n (x # xs) # windows n xs else [])"

definition contains_ignore_ascii_case :: "string \<Rightarrow> string \<Rightarrow> bool" where
  "contains_ignore_ascii_case haystack needle \<longleftrightarrow>
     list_ex (\<lambda>window. eq_ignore_ascii_case window needle) (windows (length needle) haystack)"

text \<open>The loop that drops a slash after a slash.\<close>

fun collapse_slashes :: "bool \<Rightarrow> string \<Rightarrow> string" where
  "collapse_slashes prev_slash [] = []"
| "collapse_slashes prev_slash (ch # cs) =
     (if ch = CHR ''/'' then (if prev_slash then [] else ''/'') @ collapse_slashes True cs
      else ch # collapse_slashes False cs)"

definition normalize_path :: "string \<Rightarrow> string" where
  "normalize_path path =
     (let has_double_slash = list_ex (\<lambda>w. w = ''//'') (windows 2 path);
          has_trailing_slash = (length path > 1 \<and> last path = CHR ''/'')
      in if \<not> has_double_slash \<and> \<not> has_trailing_slash then path
         else let result = collapse_slashes False path
              in if length result > 1 \<and> last result = CHR ''/'' then butlast result else result)"

definition discriminate_traffic :: "http_request \<Rightarrow> traffic_type" where
  "discriminate_traffic req =
     (if hq_method req \<noteq> ''POST'' then TT_Http
      else let content_type = (case Option.bind (header_first ''content-type'' (hq_headers req)) header_to_str of
                                 Some v \<Rightarrow> v | None \<Rightarrow> [])
           in if \<not> contains_ignore_ascii_case content_type ''application/json'' then TT_Http
              else let normalized = normalize_path (hq_path req)
                   in if normalized = ''/mcp/v1'' \<or> normalized = ''/'' then TT_Mcp else TT_Http)"

definition is_mcp_request :: "http_request \<Rightarrow> bool" where
  "is_mcp_request req \<longleftrightarrow> discriminate_traffic req = TT_Mcp"

section \<open>Ports\<close>

definition default_outbound_port :: "16 word" where "default_outbound_port = 7467"
definition default_admin_port :: "16 word" where "default_admin_port = 7469"

definition parse_u16 :: "string \<Rightarrow> 16 word option" where
  "parse_u16 s = (case parse_usize s of Some n \<Rightarrow> if n < 2 ^ 16 then Some (of_nat n) else None | None \<Rightarrow> None)"

definition outbound_port :: "(string \<Rightarrow> string option) \<Rightarrow> 16 word" where
  "outbound_port env =
     (case Option.bind (env ''THOUGHTGATE_OUTBOUND_PORT'') parse_u16 of Some p \<Rightarrow> p | None \<Rightarrow> default_outbound_port)"

definition admin_port :: "(string \<Rightarrow> string option) \<Rightarrow> 16 word" where
  "admin_port env =
     (case Option.bind (env ''THOUGHTGATE_ADMIN_PORT'') parse_u16 of Some p \<Rightarrow> p | None \<Rightarrow> default_admin_port)"

definition validate_ports :: "(string \<Rightarrow> string option) \<Rightarrow> string + unit" where
  "validate_ports env =
     (let outbound = outbound_port env; admin = admin_port env in
      if outbound = admin then
        Inl (''outbound port ('' @ show_nat (unat outbound) @ '') and admin port ('' @ show_nat (unat admin) @
             '') must be different'')
      else Inr ())"

section \<open>Substring search\<close>

lemma windows_set: "0 < n \<Longrightarrow> set (windows n xs) = {w. length w = n \<and> sublist w xs}"
proof (induction xs)
  case Nil
  then show ?case by auto
next
  case (Cons x xs)
  show ?case
  proof (cases "n \<le> length (x # xs)")
    case True
    have "length w = n \<and> sublist w (x # xs) \<longleftrightarrow> w = take n (x # xs) \<or> length w = n \<and> sublist w xs" for w
      using True take_is_prefix [of n "x # xs"]
      by (auto simp: sublist_Cons_right prefix_def append_eq_conv_conj simp del: take_Cons')
    with Cons True show ?thesis by auto
  next
    case False
    then have "length w = n \<Longrightarrow> \<not> sublist w (x # xs)" for w
      by (auto dest: sublist_length_le)
    with False show ?thesis by auto
  qed
qed

lemma contains_ignore_ascii_case_iff:
  assumes "needle \<noteq> []"
  shows "contains_ignore_ascii_case s needle \<longleftrightarrow> sublist (map to_ascii_lower needle) (map to_ascii_lower s)"
proof
  assume "contains_ignore_ascii_case s needle"
  then obtain w where "sublist w s" "map to_ascii_lower w = map to_ascii_lower needle"
    using assms by (auto simp: contains_ignore_ascii_case_def list_ex_iff windows_set eq_ignore_ascii_case_def)
  then show "sublist (map to_ascii_lower needle) (map to_ascii_lower s)" by (metis map_mono_sublist)
next
  assume "sublist (map to_ascii_lower needle) (map to_ascii_lower s)"
  then obtain w where w: "sublist w s" "map to_ascii_lower needle = map to_ascii_lower w"
    using sublist_map_rightE by metis
  then have "length w = length needle" by (metis length_map)
  with w assms show "contains_ignore_ascii_case s needle"
    by (auto simp: contains_ignore_ascii_case_def list_ex_iff windows_set eq_ignore_ascii_case_def)
qed

section \<open>The normal form of a path\<close>

definition segments :: "string \<Rightarrow> string list" where
  "segments path = filter (\<lambda>s. s \<noteq> []) (split_on (CHR ''/'') path)"

definition trim_slash :: "string \<Rightarrow> string" where
  "trim_slash s = (if length s > 1 \<and> last s = CHR ''/'' then butlast s else s)"

text \<open>The fast path changes nothing: a path that needs no change is its own normal form.\<close>

lemma collapse_id:
  "\<not> sublist ''//'' p \<Longrightarrow> (b \<longrightarrow> \<not> prefix ''/'' p) \<Longrightarrow> collapse_slashes b p = p"
proof (induction p arbitrary: b)
  case (Cons c p)
  have n: "\<not> sublist ''//'' p" "c = CHR ''/'' \<longrightarrow> \<not> prefix ''/'' p"
    using Cons.prems(1) by (auto simp: sublist_Cons_right)
  show ?case using Cons.IH [OF n(1)] n(2) Cons.prems(2) by auto
qed simp

lemma normalize_path_slow: "normalize_path p = trim_slash (collapse_slashes False p)"
proof -
  have "list_ex (\<lambda>w. w = ''//'') (windows 2 p) \<longleftrightarrow> sublist ''//'' p"
    by (simp add: list_ex_iff windows_set)
  then show ?thesis
    by (auto simp: normalize_path_def Let_def trim_slash_def collapse_id)
qed

lemma collapse_first:
  "collapse_slashes False p = takeWhile (\<lambda>c. c \<noteq> CHR ''/'') p @
     (case dropWhile (\<lambda>c. c \<noteq> CHR ''/'') p of [] \<Rightarrow> [] | _ # r \<Rightarrow> CHR ''/'' # collapse_slashes True r)"
  by (induction p) auto

lemma split_on_first:
  "split_on c p = takeWhile (\<lambda>x. x \<noteq> c) p # (case dropWhile (\<lambda>x. x \<noteq> c) p of [] \<Rightarrow> [] | _ # r \<Rightarrow> split_on c r)"
  by (induction p) (auto split: list.splits)

lemma segments_first:
  "segments p = (if takeWhile (\<lambda>c. c \<noteq> CHR ''/'') p = [] then [] else [takeWhile (\<lambda>c. c \<noteq> CHR ''/'') p]) @
     (case dropWhile (\<lambda>c. c \<noteq> CHR ''/'') p of [] \<Rightarrow> [] | _ # r \<Rightarrow> segments r)"
proof (cases "dropWhile (\<lambda>c. c \<noteq> CHR ''/'') p")
  case Nil
  show ?thesis unfolding segments_def by (subst split_on_first, simp only: Nil list.case) simp
next
  case (Cons c r)
  show ?thesis unfolding segments_def by (subst split_on_first, simp only: Cons list.case) simp
qed

lemma segment_no_slash: "s \<in> set (segments p) \<Longrightarrow> s \<noteq> [] \<and> CHR ''/'' \<notin> set s"
proof (induction p rule: length_induct)
  case (1 p)
  show ?case
  proof (cases "dropWhile (\<lambda>c. c \<noteq> CHR ''/'') p")
    case Nil
    with 1 show ?thesis using segments_first [of p] by (auto split: if_splits dest: set_takeWhileD)
  next
    case (Cons c r)
    then have "length r < length p" by (metis length_dropWhile_le length_Cons Suc_le_eq)
    with 1 Cons show ?thesis
      using segments_first [of p] by (auto split: if_splits dest: set_takeWhileD)
  qed
qed

lemma last_join:
  assumes "ss \<noteq> []" "\<And>s. s \<in> set ss \<Longrightarrow> s \<noteq> []"
  shows "join sep ss \<noteq> [] \<and> last (join sep ss) = last (last ss)"
  using assms by (induction sep ss rule: join.induct) auto

lemma segments_Nil: "segments r = [] \<Longrightarrow> set r \<subseteq> {CHR ''/''}"
proof (induction r)
  case (Cons c r)
  then show ?case
    using segments_first [of "c # r"] by (auto split: if_splits)
qed simp

lemma collapse_segments:
  "collapse_slashes True p = join ''/'' (segments p) @
     (if segments p \<noteq> [] \<and> last p = CHR ''/'' then ''/'' else [])"
proof (induction p rule: length_induct)
  case (1 p)
  show ?case
  proof (cases p)
    case Nil
    then show ?thesis by (simp add: segments_def)
  next
    case (Cons c q)
    show ?thesis
    proof (cases "c = CHR ''/''")
      case True
      have "segments p = segments q" using segments_first [of p] Cons True by simp
      moreover have "collapse_slashes True q = join ''/'' (segments q) @
          (if segments q \<noteq> [] \<and> last q = CHR ''/'' then ''/'' else [])" using 1 Cons by simp
      ultimately show ?thesis using Cons True by (auto simp: segments_def)
    next
      case False
      let ?seg = "takeWhile (\<lambda>c. c \<noteq> CHR ''/'') p"
      have seg: "?seg \<noteq> []" "collapse_slashes True p = collapse_slashes False p" using Cons False by auto
      show ?thesis
      proof (cases "dropWhile (\<lambda>c. c \<noteq> CHR ''/'') p")
        case Nil
        then have "?seg = p" by (metis append_Nil2 takeWhile_dropWhile_id)
        moreover have "\<forall>x\<in>set p. x \<noteq> CHR ''/''" using Nil by (simp only: dropWhile_eq_Nil_conv)
        then have "last p \<noteq> CHR ''/''" using last_in_set [of p] Cons by blast
        ultimately show ?thesis
          using seg collapse_first [of p] segments_first [of p] by (simp only: Nil list.case) simp
      next
        case d: (Cons d r)
        have "d = CHR ''/''" using d hd_dropWhile [of "\<lambda>c. c \<noteq> CHR ''/''" p] by simp
        with d have p: "p = ?seg @ CHR ''/'' # r"
          using takeWhile_dropWhile_id [of "\<lambda>c. c \<noteq> CHR ''/''" p] by simp
        have "length r < length p"
          using d length_dropWhile_le [of "\<lambda>c. c \<noteq> CHR ''/''" p] by simp
        then have r: "collapse_slashes True r = join ''/'' (segments r) @
          (if segments r \<noteq> [] \<and> last r = CHR ''/'' then ''/'' else [])" using 1 by blast
        have sp: "segments p = ?seg # segments r" using segments_first [of p] d seg(1) by simp
        have "last p = last (?seg @ CHR ''/'' # r)" by (rule arg_cong [OF p])
        then have lp: "last p = (if r = [] then CHR ''/'' else last r)" by simp
        have cp: "collapse_slashes True p = ?seg @ CHR ''/'' # collapse_slashes True r"
          using seg(2) collapse_first [of p] d by simp
        show ?thesis
        proof (cases "segments r")
          case Nil
          then have "r \<noteq> [] \<Longrightarrow> last r = CHR ''/''" using segments_Nil [OF Nil] last_in_set [of r] by blast
          then have "last p = CHR ''/''" using lp by simp
          with Nil sp cp r show ?thesis by simp
        next
          case (Cons t ts)
          then have "r \<noteq> []" by (auto simp: segments_def)
          with Cons sp cp r lp show ?thesis by simp
        qed
      qed
    qed
  qed
qed

text \<open>The normal form is the list of the non-empty segments.\<close>

lemma normalize_path_segments: "normalize_path (CHR ''/'' # p) = CHR ''/'' # join ''/'' (segments p)"
proof (cases "segments p = []")
  case True
  then show ?thesis using collapse_segments [of p] by (simp add: normalize_path_slow trim_slash_def)
next
  case False
  then have j: "join ''/'' (segments p) \<noteq> []" "last (join ''/'' (segments p)) \<noteq> CHR ''/''"
    using last_join [OF False, of "''/''"] segment_no_slash [of _ p] last_in_set [of "last (segments p)"]
      last_in_set [OF False] by metis+
  then show ?thesis
    using collapse_segments [of p] False by (simp add: normalize_path_slow trim_slash_def)
qed

lemma join_inj:
  assumes "\<And>s. s \<in> set xs \<Longrightarrow> s \<noteq> [] \<and> CHR ''/'' \<notin> set s" "\<And>s. s \<in> set ys \<Longrightarrow> s \<noteq> [] \<and> CHR ''/'' \<notin> set s"
    and "join ''/'' xs = join ''/'' ys"
  shows "xs = ys"
proof -
  have seg: "segments (join ''/'' zs) = zs" if "\<And>s. s \<in> set zs \<Longrightarrow> s \<noteq> [] \<and> CHR ''/'' \<notin> set s" for zs
    using that
  proof (induction "''/''" zs rule: join.induct)
    case 1
    then show ?case by (simp add: segments_def)
  next
    case (2 x)
    then have "\<forall>c\<in>set x. c \<noteq> CHR ''/''" by auto
    then have "takeWhile (\<lambda>c. c \<noteq> CHR ''/'') x = x" "dropWhile (\<lambda>c. c \<noteq> CHR ''/'') x = []"
      by (simp_all only: takeWhile_eq_all_conv dropWhile_eq_Nil_conv)
    with 2 show ?case using segments_first [of x] by (simp only: list.case) simp
  next
    case (3 x y ys)
    then have tw: "takeWhile (\<lambda>c. c \<noteq> CHR ''/'') (x @ CHR ''/'' # z) = x"
      "dropWhile (\<lambda>c. c \<noteq> CHR ''/'') (x @ CHR ''/'' # z) = CHR ''/'' # z" for z
      by (auto simp: takeWhile_append dropWhile_append)
    have "x \<noteq> []" using 3 by simp
    then have "segments (x @ CHR ''/'' # z) = x # segments z" for z
      by (subst segments_first) (simp only: tw list.case if_False append.simps)
    moreover have "segments (join ''/'' (y # ys)) = y # ys"
      by (rule "3.hyps", rule "3.prems") simp
    ultimately show ?case by (simp only: join.simps append.simps)
  qed
  have "segments (join ''/'' xs) = xs" by (rule seg) (rule assms(1))
  moreover have "segments (join ''/'' ys) = ys" by (rule seg) (rule assms(2))
  ultimately show ?thesis unfolding assms(3) by (rule trans [OF sym])
qed

lemma normalize_path_eq_iff:
  assumes "\<forall>s\<in>set ss. s \<noteq> [] \<and> CHR ''/'' \<notin> set s"
  shows "normalize_path (CHR ''/'' # p) = CHR ''/'' # join ''/'' ss \<longleftrightarrow> segments p = ss"
proof
  assume "normalize_path (CHR ''/'' # p) = CHR ''/'' # join ''/'' ss"
  then have "join ''/'' (segments p) = join ''/'' ss" by (simp only: normalize_path_segments list.inject)
  then show "segments p = ss" using assms by (intro join_inj) (auto dest: segment_no_slash)
qed (simp only: normalize_path_segments)

text \<open>Exactly the POST requests whose media type contains \<open>application/json\<close>, in any case of letters, and whose path has
  the segments of \<open>/mcp/v1\<close>, or none, are taken as MCP traffic: repeated or trailing slashes in the path make no difference.\<close>

lemma mcp_traffic_iff:
  assumes "hq_path req = CHR ''/'' # p"
  shows "discriminate_traffic req = TT_Mcp \<longleftrightarrow>
    hq_method req = ''POST'' \<and>
    (\<exists>v. header_first ''content-type'' (hq_headers req) = Some v \<and> list_all visible_ascii v \<and>
         sublist ''application/json'' (map to_ascii_lower v)) \<and>
    (segments p = [''mcp'', ''v1''] \<or> segments p = [])"
proof -
  have "map to_ascii_lower ''application/json'' = ''application/json''" by code_simp
  then have c: "contains_ignore_ascii_case v ''application/json'' \<longleftrightarrow> sublist ''application/json'' (map to_ascii_lower v)" for v
    using contains_ignore_ascii_case_iff [of "''application/json''" v] by simp
  have n: "normalize_path (hq_path req) = ''/mcp/v1'' \<longleftrightarrow> segments p = [''mcp'', ''v1'']"
    "normalize_path (hq_path req) = ''/'' \<longleftrightarrow> segments p = []"
    using normalize_path_eq_iff [of "[''mcp'', ''v1'']" p] normalize_path_eq_iff [of "[]" p] assms by simp_all
  show ?thesis
    by (auto simp: discriminate_traffic_def c n header_to_str_def bind_eq_Some_conv split: option.splits if_splits)
qed

end
