(* ===== verification/Stream_Body.thy ===== *)
theory Stream_Body
  imports Traffic
begin

text \<open>
  The bodies of streamed responses: \<open>thoughtgate-proxy/src/timeout.rs\<close> bounds the time for a chunk and for the
  whole stream, \<open>proxy_body.rs\<close> counts what passes and stops on cancellation. One call of \<open>poll_frame\<close> is one step;
  the clock and what the inner body answers are arguments. An error is its text.
\<close>

declare map_of_eq_Some_iff [simp del]

datatype frame = Data string | Trailers headers

datatype 'a poll = Pending | Ready 'a

type_synonym frame_poll = "(string + frame) option poll"

section \<open>Timeouts\<close>

record timeout_config =
  tc_chunk_timeout :: duration
  tc_total_timeout :: duration

record timeout_body =
  tb_config :: timeout_config
  tb_chunk_timeout :: instant     \<comment> \<open>deadlines of the timers\<close>
  tb_total_timeout :: instant
  tb_started :: bool

definition timeout_body_new :: "instant \<Rightarrow> timeout_config \<Rightarrow> timeout_body" where
  "timeout_body_new now C =
     \<lparr>tb_config = C, tb_chunk_timeout = now + tc_chunk_timeout C, tb_total_timeout = now + tc_total_timeout C,
      tb_started = False\<rparr>"

definition start_timers :: "instant \<Rightarrow> timeout_body \<Rightarrow> timeout_body" where
  "start_timers now B =
     (if tb_started B then B
      else B\<lparr>tb_started := True, tb_total_timeout := now + tc_total_timeout (tb_config B),
             tb_chunk_timeout := now + tc_chunk_timeout (tb_config B)\<rparr>)"

text \<open>\<open>now\<close> is the time of the call, \<open>later\<close> the time at which the inner body has answered; \<open>dbg\<close> prints a duration.\<close>

definition timeout_poll ::
  "(duration \<Rightarrow> string) \<Rightarrow> instant \<Rightarrow> instant \<Rightarrow> frame_poll \<Rightarrow> timeout_body \<Rightarrow> timeout_body \<times> frame_poll" where
  "timeout_poll dbg now later inner B0 =
     (let B = start_timers now B0 in
      if tb_total_timeout B \<le> now then
        (B, Ready (Some (Inl (''Total stream timeout exceeded ('' @ dbg (tc_total_timeout (tb_config B)) @ '')''))))
      else if tb_chunk_timeout B \<le> now then
        (B, Ready (Some (Inl (''Chunk timeout exceeded ('' @ dbg (tc_chunk_timeout (tb_config B)) @ '')''))))
      else
        (case inner of
           Ready r \<Rightarrow> (B\<lparr>tb_chunk_timeout := later + tc_chunk_timeout (tb_config B)\<rparr>, Ready r)
         | Pending \<Rightarrow> (B, Pending)))"

fun timeout_run ::
  "(duration \<Rightarrow> string) \<Rightarrow> (instant \<times> instant \<times> frame_poll) list \<Rightarrow> timeout_body \<Rightarrow> timeout_body \<times> (instant \<times> frame_poll) list" where
  "timeout_run dbg [] B = (B, [])"
| "timeout_run dbg ((now, later, inner) # ps) B =
     (case timeout_poll dbg now later inner B of
        (B', r) \<Rightarrow> map_prod id (Cons (now, r)) (timeout_run dbg ps B'))"

section \<open>Counting and cancellation\<close>

record stream_metrics =
  sm_bytes_transferred :: "64 word"
  sm_chunks_count :: "64 word"
  sm_has_trailers :: bool

definition stream_metrics_new :: stream_metrics where
  "stream_metrics_new = \<lparr>sm_bytes_transferred = 0, sm_chunks_count = 0, sm_has_trailers = False\<rparr>"

definition record_bytes :: "nat \<Rightarrow> stream_metrics \<Rightarrow> stream_metrics" where
  "record_bytes n M = M\<lparr>sm_bytes_transferred := sm_bytes_transferred M + of_nat n,
                        sm_chunks_count := sm_chunks_count M + 1\<rparr>"

definition record_trailers :: "stream_metrics \<Rightarrow> stream_metrics" where
  "record_trailers M = M\<lparr>sm_has_trailers := True\<rparr>"

definition proxy_body_poll :: "bool \<Rightarrow> frame_poll \<Rightarrow> stream_metrics \<Rightarrow> stream_metrics \<times> frame_poll" where
  "proxy_body_poll cancelled inner M =
     (if cancelled then (M, Ready None)
      else (case inner of
              Ready (Some (Inr (Data d))) \<Rightarrow> (record_bytes (length d) M, inner)
            | Ready (Some (Inr (Trailers t))) \<Rightarrow> (record_trailers M, inner)
            | _ \<Rightarrow> (M, inner)))"

fun proxy_body_run :: "(bool \<times> frame_poll) list \<Rightarrow> stream_metrics \<Rightarrow> stream_metrics \<times> frame_poll list" where
  "proxy_body_run [] M = (M, [])"
| "proxy_body_run ((cancelled, inner) # ps) M =
     (case proxy_body_poll cancelled inner M of
        (M', r) \<Rightarrow> map_prod id (Cons r) (proxy_body_run ps M'))"

section \<open>Time bounds\<close>

text \<open>Whether a poll gives the frame or the end of the stream.\<close>

fun passed :: "frame_poll \<Rightarrow> bool" where
  "passed (Ready (Some (Inl _))) = False"
| "passed (Ready _) = True"
| "passed Pending = False"

lemma timeout_poll_started:
  "tb_started (fst (timeout_poll dbg now later inner B))"
  "tb_config (fst (timeout_poll dbg now later inner B)) = tb_config B"
  "tb_total_timeout (fst (timeout_poll dbg now later inner B)) =
     (if tb_started B then tb_total_timeout B else now + tc_total_timeout (tb_config B))"
  by (simp_all add: timeout_poll_def start_timers_def Let_def split: poll.splits)

lemma timeout_poll_passed:
  assumes "passed (snd (timeout_poll dbg now later inner B))"
  shows "now < tb_total_timeout (fst (timeout_poll dbg now later inner B))"
    "tb_started B \<Longrightarrow> now < tb_chunk_timeout B"
    "snd (timeout_poll dbg now later inner B) = inner"
  using assms
  by (auto simp: timeout_poll_def start_timers_def Let_def split: poll.splits if_splits)

lemma timeout_run_total:
  assumes "tb_started B" "(now, r) \<in> set (snd (timeout_run dbg ps B))" "passed r"
  shows "now < tb_total_timeout B"
  using assms
proof (induction ps arbitrary: B)
  case (Cons p ps)
  obtain t later inner where p: "p = (t, later, inner)" by (metis prod_cases3)
  obtain B' x where s: "timeout_poll dbg t later inner B = (B', x)" by fastforce
  have "tb_started B'" "tb_total_timeout B' = tb_total_timeout B"
    using timeout_poll_started [of dbg t later inner B] s Cons.prems(1) by auto
  moreover have "now = t \<and> r = x \<or> (now, r) \<in> set (snd (timeout_run dbg ps B'))"
    using Cons.prems(2) p s by simp
  ultimately show ?case
    using Cons.IH [of B'] Cons.prems(3) timeout_poll_passed(1) [of dbg t later inner B] s by auto
qed simp

text \<open>A streamed response does not outlive its limits: from the first poll on, no frame and no end of the stream is
  passed on at or after the total timeout, whatever the inner body offers and however often it is polled.\<close>

lemma stream_bounded:
  assumes "(now, r) \<in> set (snd (timeout_run dbg ((t, later, inner) # ps) (timeout_body_new t0 C)))" "passed r"
  shows "now < t + tc_total_timeout C"
proof -
  let ?B = "timeout_body_new t0 C"
  have i: "tb_config ?B = C" "\<not> tb_started ?B" by (simp_all add: timeout_body_new_def)
  obtain B' x where s: "timeout_poll dbg t later inner ?B = (B', x)" by fastforce
  have b: "tb_started B'" "tb_total_timeout B' = t + tc_total_timeout C"
    using timeout_poll_started [of dbg t later inner ?B] s i by auto
  have "now = t \<and> r = x \<or> (now, r) \<in> set (snd (timeout_run dbg ps B'))" using assms(1) s by simp
  then show ?thesis
    using timeout_run_total [OF b(1)] timeout_poll_passed(1) [of dbg t later inner ?B] assms(2) s b(2) by auto
qed

text \<open>The counters add up what was passed on.\<close>

fun data_length :: "frame_poll \<Rightarrow> nat" where
  "data_length (Ready (Some (Inr (Data d)))) = length d"
| "data_length _ = 0"

lemma proxy_body_counts:
  "sm_bytes_transferred (fst (proxy_body_run ps M)) =
   sm_bytes_transferred M + of_nat (sum_list (map data_length (snd (proxy_body_run ps M))))"
proof (induction ps arbitrary: M)
  case (Cons p ps)
  then show ?case
    by (cases p)
      (auto simp: proxy_body_poll_def record_bytes_def record_trailers_def algebra_simps
        split: poll.splits option.splits sum.splits frame.splits prod.splits)
qed simp

end
