(* ===== verification/Upstream.thy ===== *)
theory Upstream
  imports Mcp_Proxy
begin

text \<open>
  The client of the upstream server (\<open>transport/upstream.rs\<close>): configuration, one attempt to
  forward a request, repeated attempts after a failure to connect, batches, limits on the size of an
  answer and the classification of errors. The HTTP client (crate \<open>reqwest\<close>) is an argument: what it
  answers to an attempt.
\<close>

section \<open>Configuration\<close>

record upstream_config =
  uc_base_url :: string
  uc_timeout :: duration
  uc_connect_timeout :: duration
  uc_pool_max_idle_per_host :: nat
  uc_pool_idle_timeout :: duration
  uc_max_response_size :: nat

definition upstream_config_default :: upstream_config where
  "upstream_config_default = \<lparr>uc_base_url = [], uc_timeout = from_secs 30, uc_connect_timeout = from_secs 5,
     uc_pool_max_idle_per_host = 32, uc_pool_idle_timeout = from_secs 90,
     uc_max_response_size = 10 * 1024 * 1024\<rparr>"

definition with_base_url :: "string \<Rightarrow> upstream_config" where
  "with_base_url u = upstream_config_default\<lparr>uc_base_url := u\<rparr>"

definition parse_secs :: "string \<Rightarrow> string option \<Rightarrow> nat \<Rightarrow> tg_error + nat" where
  "parse_secs name v dflt =
     (case v of
        None \<Rightarrow> Inr dflt
      | Some s \<Rightarrow>
          (case parse_usize s of
             Some n \<Rightarrow> Inr n
           | None \<Rightarrow> Inl (InvalidParams (name @ '' must be a valid integer, got: '' @ q s))))"

definition upstream_config_from_env :: "(string \<Rightarrow> string option) \<Rightarrow> tg_error + upstream_config" where
  "upstream_config_from_env env =
     (case env ''THOUGHTGATE_UPSTREAM'' of
        None \<Rightarrow> Inl (InvalidParams ''THOUGHTGATE_UPSTREAM environment variable is required'')
      | Some u \<Rightarrow>
          (case parse_secs ''THOUGHTGATE_UPSTREAM_TIMEOUT_SECS''
                  (case env ''THOUGHTGATE_UPSTREAM_TIMEOUT_SECS'' of
                     Some v \<Rightarrow> Some v | None \<Rightarrow> env ''THOUGHTGATE_REQUEST_TIMEOUT_SECS'') 30 of
             Inl e \<Rightarrow> Inl e
           | Inr t \<Rightarrow>
               (case parse_secs ''THOUGHTGATE_UPSTREAM_CONNECT_TIMEOUT_SECS''
                       (env ''THOUGHTGATE_UPSTREAM_CONNECT_TIMEOUT_SECS'') 5 of
                  Inl e \<Rightarrow> Inl e
                | Inr c \<Rightarrow> Inr (upstream_config_default\<lparr>uc_base_url := u, uc_timeout := from_secs t,
                             uc_connect_timeout := from_secs c\<rparr>))))"

section \<open>The HTTP client\<close>

record reqwest_error =
  re_is_timeout :: bool
  re_is_connect :: bool
  re_text :: string

text \<open>A response: the status and how it is printed, the announced length, the chunks of the body and
  the error that ends it, if any.\<close>

record http_response =
  ht_status :: nat
  ht_status_text :: string
  ht_content_length :: "nat option"
  ht_chunks :: "string list"
  ht_read_error :: "string option"

type_synonym attempt = "reqwest_error + http_response"

text \<open>A client: its configuration, the address it posts to, and the parsers of URLs and answers.\<close>

record upstream_client =
  ul_config :: upstream_config
  ul_mcp_url :: string
  ul_parse :: "string \<Rightarrow> string + rpc_response"
  ul_parse_batch :: "string \<Rightarrow> string + rpc_response list"

fun trim_end_slashes :: "string \<Rightarrow> string" where
  "trim_end_slashes s = rev (dropWhile (\<lambda>c. c = CHR ''/'') (rev s))"

definition upstream_client_new ::
  "(string \<Rightarrow> string option) \<Rightarrow> string option \<Rightarrow> (string \<Rightarrow> string + rpc_response) \<Rightarrow>
   (string \<Rightarrow> string + rpc_response list) \<Rightarrow> upstream_config \<Rightarrow> tg_error + upstream_client" where
  "upstream_client_new url_error build_error parse parse_batch C =
     (if uc_base_url C = [] then Inl (InternalError ''upstream-client-config-error: base_url is empty'')
      else case url_error (uc_base_url C) of
        Some e \<Rightarrow> Inl (InternalError (''upstream-client-config-error: invalid base_url '' @ q (uc_base_url C) @
                    '': '' @ e))
      | None \<Rightarrow>
          (case build_error of
             Some e \<Rightarrow> Inl (InternalError (''upstream-client-build-error: '' @ e))
           | None \<Rightarrow> Inr \<lparr>ul_config = C, ul_mcp_url = trim_end_slashes (uc_base_url C) @ ''/mcp/v1'',
                        ul_parse = parse, ul_parse_batch = parse_batch\<rparr>))"

section \<open>Classification\<close>

definition upstream_classify_error :: "upstream_client \<Rightarrow> reqwest_error \<Rightarrow> tg_error" where
  "upstream_classify_error U e =
     (if re_is_timeout e then UpstreamTimeout (uc_base_url (ul_config U)) (as_secs (uc_timeout (ul_config U)))
      else if re_is_connect e then UpstreamConnectionFailed (uc_base_url (ul_config U)) (re_text e)
      else UpstreamFailure (-32002) (re_text e))"

definition classify_upstream_http_error :: "nat \<Rightarrow> string \<Rightarrow> tg_error" where
  "classify_upstream_http_error status text =
     (if status = 401 \<or> status = 403 then UpstreamFailure (-32002) (''Upstream authentication error: HTTP '' @ text)
      else if status = 404 then UpstreamFailure (-32002) (''Upstream resource not found: HTTP '' @ text)
      else if status = 429 then RateLimited None
      else if 400 \<le> status \<and> status \<le> 499 then UpstreamFailure (-32602) (''Upstream client error: HTTP '' @ text)
      else if status = 503 then ServiceUnavailable (''Upstream service unavailable: HTTP '' @ text)
      else UpstreamFailure (-32002) (''Upstream server error: HTTP '' @ text))"

definition health_check :: "upstream_client \<Rightarrow> attempt \<Rightarrow> tg_error + unit" where
  "health_check U a = (case a of Inr _ \<Rightarrow> Inr () | Inl e \<Rightarrow> Inl (upstream_classify_error U e))"

section \<open>Reading the body\<close>

fun read_chunks :: "nat \<Rightarrow> string \<Rightarrow> string list \<Rightarrow> string option \<Rightarrow> tg_error + string" where
  "read_chunks max_size buf [] err =
     (case err of
        Some e \<Rightarrow> Inl (UpstreamFailure (-32002) (''Failed to read upstream response: '' @ e))
      | None \<Rightarrow> Inr buf)"
| "read_chunks max_size buf (c # cs) err =
     (if length buf + length c > max_size then
        Inl (UpstreamFailure (-32002) (''Upstream response too large: >='' @ show_nat (length buf + length c) @
          '' bytes exceeds '' @ show_nat max_size @ '' byte limit''))
      else read_chunks max_size (buf @ c) cs err)"

definition read_body_limited :: "upstream_client \<Rightarrow> http_response \<Rightarrow> tg_error + string" where
  "read_body_limited U r =
     (let max_size = uc_max_response_size (ul_config U) in
      case ht_content_length r of
        Some n \<Rightarrow>
          if n > max_size then
            Inl (UpstreamFailure (-32002) (''Upstream response too large: '' @ show_nat n @ '' bytes exceeds '' @
              show_nat max_size @ '' byte limit''))
          else read_chunks max_size [] (ht_chunks r) (ht_read_error r)
      | None \<Rightarrow> read_chunks max_size [] (ht_chunks r) (ht_read_error r))"

section \<open>Forwarding\<close>

definition status_success :: "nat \<Rightarrow> bool" where
  "status_success status \<longleftrightarrow> 200 \<le> status \<and> status < 300"

definition forward_once :: "upstream_client \<Rightarrow> 'a mcp_request_scheme \<Rightarrow> attempt \<Rightarrow> tg_error + rpc_response" where
  "forward_once U request a =
     (case a of
        Inl e \<Rightarrow> Inl (upstream_classify_error U e)
      | Inr r \<Rightarrow>
          if ht_status r = 204 then Inr (rpc_success (mq_id request) JNull)
          else if \<not> status_success (ht_status r) then
            Inl (classify_upstream_http_error (ht_status r) (ht_status_text r))
          else (case read_body_limited U r of
                  Inl e \<Rightarrow> Inl e
                | Inr body \<Rightarrow>
                    (case ul_parse U body of
                       Inr response \<Rightarrow> Inr response
                     | Inl e \<Rightarrow> Inl (UpstreamFailure (-32002) (''Failed to parse upstream response: '' @ e)))))"

definition max_transport_retries :: nat where
  "max_transport_retries = 2"

definition is_retriable :: "tg_error \<Rightarrow> bool" where
  "is_retriable e \<longleftrightarrow> (case e of UpstreamConnectionFailed _ _ \<Rightarrow> True | _ \<Rightarrow> False)"

text \<open>\<open>net n\<close> is what attempt \<open>n\<close> meets. The result is the pauses made, one after each attempt but
  the last, and the answer.\<close>

function forward_from ::
  "upstream_client \<Rightarrow> 'a mcp_request_scheme \<Rightarrow> (nat \<Rightarrow> attempt) \<Rightarrow> nat \<Rightarrow> duration list \<times> (tg_error + rpc_response)" where
  "forward_from U request net n =
     (case forward_once U request (net n) of
        Inr response \<Rightarrow> ([], Inr response)
      | Inl e \<Rightarrow>
          if \<not> is_retriable e \<or> n \<ge> max_transport_retries then ([], Inl e)
          else (case forward_from U request net (n + 1) of
                  (pauses, r) \<Rightarrow> (from_millis (100 * 4 ^ n) # pauses, r)))"
  by auto
termination by (relation "measure (\<lambda>(U, request, net, n). max_transport_retries + 1 - n)") auto

declare forward_from.simps [simp del]

definition forward_with_retry ::
  "upstream_client \<Rightarrow> 'a mcp_request_scheme \<Rightarrow> (nat \<Rightarrow> attempt) \<Rightarrow> duration list \<times> (tg_error + rpc_response)" where
  "forward_with_retry U request net = forward_from U request net 0"

definition forward_batch :: "upstream_client \<Rightarrow> mcp_request list \<Rightarrow> attempt \<Rightarrow> tg_error + rpc_response list" where
  "forward_batch U requests a =
     (if requests = [] then Inl (InvalidRequest ''Empty batch requests are invalid'')
      else case a of
        Inl e \<Rightarrow> Inl (upstream_classify_error U e)
      | Inr r \<Rightarrow>
          if ht_status r = 204 then Inr []
          else if \<not> status_success (ht_status r) then
            Inl (classify_upstream_http_error (ht_status r) (ht_status_text r))
          else (case read_body_limited U r of
                  Inl e \<Rightarrow> Inl e
                | Inr body \<Rightarrow>
                    (case ul_parse_batch U body of
                       Inr responses \<Rightarrow> Inr responses
                     | Inl e \<Rightarrow> Inl (UpstreamFailure (-32002) (''Failed to parse upstream batch response: '' @ e)))))"

definition noop_forward :: "'a mcp_request_scheme \<Rightarrow> tg_error + rpc_response" where
  "noop_forward _ = Inl (ServiceUnavailable ''Upstream forwarding not available in CLI mode'')"

definition noop_forward_batch :: "mcp_request list \<Rightarrow> tg_error + rpc_response list" where
  "noop_forward_batch _ = Inl (ServiceUnavailable ''Upstream forwarding not available in CLI mode'')"

section \<open>No duplicates, bounded answers\<close>

lemma read_chunks_Inr:
  "read_chunks m buf cs err = Inr body \<longleftrightarrow>
     err = None \<and> body = buf @ concat cs \<and> (cs = [] \<or> length body \<le> m)"
proof (induction cs arbitrary: buf)
  case Nil
  then show ?case by (auto split: option.splits)
next
  case (Cons c cs)
  show ?case
  proof (cases "length buf + length c > m")
    case True
    then have "read_chunks m buf (c # cs) err \<noteq> Inr body" by simp
    with True show ?thesis by auto
  next
    case False
    then have "read_chunks m buf (c # cs) err = read_chunks m (buf @ c) cs err" by simp
    with Cons.IH [of "buf @ c"] False show ?thesis by (cases "cs = []"; cases "body = buf @ c @ concat cs") simp_all
  qed
qed

lemma read_body_limited_Inr:
  "read_body_limited U r = Inr body \<longleftrightarrow>
     ht_read_error r = None \<and> body = concat (ht_chunks r) \<and> length body \<le> uc_max_response_size (ul_config U) \<and>
     (case ht_content_length r of Some n \<Rightarrow> n \<le> uc_max_response_size (ul_config U) | None \<Rightarrow> True)"
  by (auto simp: read_body_limited_def read_chunks_Inr Let_def not_less split: option.splits if_splits)

text \<open>An attempt that never reached the server.\<close>

definition connect_failure :: "attempt \<Rightarrow> bool" where
  "connect_failure a \<longleftrightarrow> (case a of Inl e \<Rightarrow> re_is_connect e \<and> \<not> re_is_timeout e | Inr _ \<Rightarrow> False)"

lemma classify_http_not_retriable [simp]: "\<not> is_retriable (classify_upstream_http_error s t)"
  by (simp add: is_retriable_def classify_upstream_http_error_def)

lemma failure_not_retriable [simp]: "\<not> is_retriable (UpstreamFailure c m)"
  by (simp add: is_retriable_def)

lemma read_chunks_not_retriable: "read_chunks m buf cs err = Inl e \<Longrightarrow> \<not> is_retriable e"
  by (induction cs arbitrary: buf) (auto simp: is_retriable_def split: option.splits if_splits)

lemma read_body_not_retriable: "read_body_limited U r = Inl e \<Longrightarrow> \<not> is_retriable e"
  by (auto simp: read_body_limited_def Let_def is_retriable_def dest: read_chunks_not_retriable
      split: option.splits if_splits)

lemma retriable_iff: "(\<exists>e. forward_once U request a = Inl e \<and> is_retriable e) \<longleftrightarrow> connect_failure a"
proof (cases a)
  case (Inl e)
  then show ?thesis
    by (auto simp: forward_once_def connect_failure_def upstream_classify_error_def is_retriable_def)
next
  case (Inr r)
  then show ?thesis
    using read_body_not_retriable [of U r] by (auto simp: forward_once_def connect_failure_def split: sum.splits if_splits)
qed

lemma forward_from_attempts:
  "\<exists>k. n \<le> k \<and> k \<le> max n max_transport_retries \<and> (\<forall>i\<in>{n..<k}. connect_failure (net i)) \<and>
     (k < max_transport_retries \<longrightarrow> \<not> connect_failure (net k)) \<and>
     forward_from U request net n = (map (\<lambda>i. from_millis (100 * 4 ^ i)) [n..<k], forward_once U request (net k))"
proof (induction U request net n rule: forward_from.induct)
  case (1 U request net n)
  show ?case
  proof (cases "connect_failure (net n) \<and> n < max_transport_retries")
    case False
    have "forward_from U request net n = ([], forward_once U request (net n))"
      using False retriable_iff [of U request "net n"]
      by (subst forward_from.simps) (auto split: sum.splits)
    with False show ?thesis by (intro exI [of _ n]) auto
  next
    case True
    then obtain e where e: "forward_once U request (net n) = Inl e" "is_retriable e"
      using retriable_iff [of U request "net n"] by blast
    with "1.IH" [OF e(1)] True obtain k where k: "n + 1 \<le> k" "k \<le> max (n + 1) max_transport_retries"
      "\<forall>i\<in>{n + 1..<k}. connect_failure (net i)" "k < max_transport_retries \<longrightarrow> \<not> connect_failure (net k)"
      "forward_from U request net (n + 1) =
         (map (\<lambda>i. from_millis (100 * 4 ^ i)) [n + 1..<k], forward_once U request (net k))" by auto
    have "forward_from U request net n =
        (map (\<lambda>i. from_millis (100 * 4 ^ i)) [n..<k], forward_once U request (net k))"
      using e True k(1,5) by (subst forward_from.simps) (simp add: upt_conv_Cons)
    moreover have "\<forall>i\<in>{n..<k}. connect_failure (net i)" using True k(3) by (auto simp: Suc_le_eq le_less)
    ultimately show ?thesis using True k by (intro exI [of _ k]) auto
  qed
qed


end
