(* ===== verification/Proxy_Service.thy ===== *)
theory Proxy_Service
  imports Request_Handler Stream_Body Upstream
begin

text \<open>
  The HTTP service of the proxy (\<open>thoughtgate-proxy/src/proxy_service.rs\<close>, with \<open>error.rs\<close> and \<open>proxy_config.rs\<close>): MCP
  traffic goes to the MCP handler, everything else is passed through to the upstream or, as a forward
  proxy, to the host of the request. The HTTP client, the parser of URIs and the conversion to lower case are arguments.
  Spans and logging are not modelled.
\<close>

declare map_of_eq_Some_iff [simp del]

section \<open>Errors\<close>

datatype proxy_error =
    PE_InvalidUri string
  | PE_Connection string
  | PE_ConnectionRefused string
  | PE_Timeout string
  | PE_ClientDisconnect

definition newline2 :: string where
  "newline2 = [CHR 0x0A, CHR 0x0A]"

text \<open>Status and body of the answer, of type \<open>text/plain\<close>.\<close>

fun proxy_error_response :: "proxy_error \<Rightarrow> nat \<times> string" where
  "proxy_error_response (PE_ConnectionRefused _) =
     (502, ''502 Bad Gateway'' @ newline2 @ ''Failed to connect to upstream server.'')"
| "proxy_error_response (PE_Connection _) =
     (502, ''502 Bad Gateway'' @ newline2 @ ''Failed to connect to upstream server.'')"
| "proxy_error_response (PE_Timeout _) =
     (504, ''504 Gateway Timeout'' @ newline2 @ ''Upstream server did not respond in time.'')"
| "proxy_error_response (PE_InvalidUri _) = (400, ''400 Bad Request'' @ newline2 @ ''Invalid request URI.'')"
| "proxy_error_response PE_ClientDisconnect = (400, ''400 Bad Request'' @ newline2 @ ''Client disconnected.'')"

definition contains_text :: "string \<Rightarrow> string \<Rightarrow> bool" where
  "contains_text s needle \<longleftrightarrow> needle \<in> set (windows (length needle) s)"

definition map_hyper_error :: "(string \<Rightarrow> string) \<Rightarrow> string \<Rightarrow> proxy_error" where
  "map_hyper_error to_lowercase e =
     (let error_msg = to_lowercase e in
      if contains_text error_msg ''connection refused'' then
        PE_ConnectionRefused (''Upstream refused connection: '' @ e)
      else if contains_text error_msg ''timeout'' \<or> contains_text error_msg ''timed out'' then
        PE_Timeout (''Upstream timeout: '' @ e)
      else if contains_text error_msg ''connection'' \<or> contains_text error_msg ''connect'' then
        PE_Connection (''Failed to connect to upstream: '' @ e)
      else if contains_text error_msg ''closed'' \<or> contains_text error_msg ''canceled'' \<or> contains_text error_msg ''reset'' then
        PE_ClientDisconnect
      else PE_Connection (''Upstream error: '' @ e))"

section \<open>Configuration\<close>

record http_proxy_config =
  pc_tcp_nodelay :: bool
  pc_tcp_keepalive_secs :: nat
  pc_stream_read_timeout :: duration
  pc_stream_write_timeout :: duration
  pc_stream_total_timeout :: duration
  pc_max_concurrent_streams :: nat
  pc_socket_buffer_size :: nat
  pc_max_concurrent_buffers :: nat
  pc_req_buffer_max :: nat
  pc_resp_buffer_max :: nat
  pc_buffer_timeout :: duration
  pc_pool_max_idle_per_host :: nat

definition http_proxy_config_default :: http_proxy_config where
  "http_proxy_config_default =
     \<lparr>pc_tcp_nodelay = True, pc_tcp_keepalive_secs = 60, pc_stream_read_timeout = from_secs 300,
      pc_stream_write_timeout = from_secs 300, pc_stream_total_timeout = from_secs 3600,
      pc_max_concurrent_streams = 10000, pc_socket_buffer_size = 262144, pc_max_concurrent_buffers = 100,
      pc_req_buffer_max = 2 * 1024 * 1024, pc_resp_buffer_max = 10 * 1024 * 1024,
      pc_buffer_timeout = from_secs 30, pc_pool_max_idle_per_host = 128\<rparr>"

definition clamp_env_warn :: "nat \<Rightarrow> nat \<Rightarrow> nat \<Rightarrow> nat" where
  "clamp_env_warn v lo hi = (if v < lo then lo else if v > hi then hi else v)"

definition parse_bool :: "string \<Rightarrow> bool option" where
  "parse_bool s = (if s = ''true'' then Some True else if s = ''false'' then Some False else None)"

definition http_proxy_config_from_env :: "(string \<Rightarrow> string option) \<Rightarrow> http_proxy_config" where
  "http_proxy_config_from_env env =
     (let num = (\<lambda>name. parse_env_warn parse_usize (env name)) in
      \<lparr>pc_tcp_nodelay = parse_env_warn parse_bool (env ''THOUGHTGATE_TCP_NODELAY'') True,
       pc_tcp_keepalive_secs = num ''THOUGHTGATE_TCP_KEEPALIVE_SECS'' 60,
       pc_stream_read_timeout = from_secs (num ''THOUGHTGATE_STREAM_READ_TIMEOUT_SECS'' 300),
       pc_stream_write_timeout = from_secs (num ''THOUGHTGATE_STREAM_WRITE_TIMEOUT_SECS'' 300),
       pc_stream_total_timeout = from_secs (num ''THOUGHTGATE_STREAM_TOTAL_TIMEOUT_SECS'' 3600),
       pc_max_concurrent_streams = clamp_env_warn (num ''THOUGHTGATE_MAX_CONCURRENT_STREAMS'' 10000) 1 100000,
       pc_socket_buffer_size = num ''THOUGHTGATE_SOCKET_BUFFER_SIZE'' 262144,
       pc_max_concurrent_buffers = num ''THOUGHTGATE_MAX_CONCURRENT_BUFFERS'' 100,
       pc_req_buffer_max = num ''THOUGHTGATE_REQ_BUFFER_MAX'' (2 * 1024 * 1024),
       pc_resp_buffer_max = num ''THOUGHTGATE_RESP_BUFFER_MAX'' (10 * 1024 * 1024),
       pc_buffer_timeout = from_secs (num ''THOUGHTGATE_BUFFER_TIMEOUT_SECS'' 30),
       pc_pool_max_idle_per_host = num ''THOUGHTGATE_POOL_MAX_IDLE'' 128\<rparr>)"

section \<open>Service\<close>

record proxied_response =
  hr_status :: nat
  hr_headers :: headers
  hr_body :: "(string + frame) list"

record upstream_http =
  uh_method :: string
  uh_uri :: string
  uh_headers :: headers
  uh_body :: string
  uh_body_error :: "string option"

record proxy_service =
  ps_upstream_url :: "string option"
  ps_config :: http_proxy_config
  ps_mcp_handler :: "handler option"
  ps_forward_proxy_enabled :: bool

definition proxy_service_new :: "string option \<Rightarrow> http_proxy_config \<Rightarrow> proxy_service" where
  "proxy_service_new upstream_url C =
     \<lparr>ps_upstream_url = upstream_url, ps_config = C, ps_mcp_handler = None, ps_forward_proxy_enabled = False\<rparr>"

definition with_forward_proxy_enabled :: "proxy_service \<Rightarrow> proxy_service" where
  "with_forward_proxy_enabled S = S\<lparr>ps_forward_proxy_enabled := True\<rparr>"

definition with_mcp_handler :: "handler \<Rightarrow> proxy_service \<Rightarrow> proxy_service" where
  "with_mcp_handler H S = S\<lparr>ps_mcp_handler := Some H\<rparr>"

text \<open>What the service uses from outside: reading a URI, the HTTP client, lower case, and for the MCP handler its
  surroundings and the order in which it takes the items of a batch.\<close>

record service_env =
  sv_parse_uri :: "string \<Rightarrow> string + string"
  sv_client :: "upstream_http \<Rightarrow> string + proxied_response"
  sv_to_lowercase :: "string \<Rightarrow> string"
  sv_batch :: "batch_item \<Rightarrow> batch_env"
  sv_order :: "batch_item list \<Rightarrow> batch_item list"

datatype egress = Passthrough upstream_http | Governed upstream_call

text \<open>An answer: the refusal of a body that is too large, the one of the MCP handler, or the upstream's with the
  timeouts its body is wrapped in.\<close>

datatype unified_response =
    UR_TooLarge nat
  | UR_Mcp mcp_http
  | UR_Upstream proxied_response timeout_config

datatype service_result = SR_Panic | SR_Blocked | SR_Done "proxy_error + unified_response"

section \<open>Passing through\<close>

definition forward_proxy_disabled :: string where
  "forward_proxy_disabled =
     ''Forward proxy mode is disabled. Use --enable-forward-proxy to allow proxying to arbitrary hosts, or set --upstream-url for reverse proxy mode.''"

definition extract_target_uri :: "service_env \<Rightarrow> proxy_service \<Rightarrow> http_request \<Rightarrow> proxy_error + string" where
  "extract_target_uri X S req =
     (case ps_upstream_url S of
        Some upstream \<Rightarrow>
          (let path = (case hq_path_and_query req of Some pq \<Rightarrow> pq | None \<Rightarrow> ''/'') in
           map_sum (\<lambda>e. PE_InvalidUri (''Failed to parse upstream URI: '' @ e)) id
             (sv_parse_uri X (trim_end_slashes upstream @ path)))
      | None \<Rightarrow>
          if \<not> ps_forward_proxy_enabled S then Inl (PE_InvalidUri forward_proxy_disabled)
          else if hq_scheme req \<noteq> None then Inr (hq_uri req)
          else (case header_first ''host'' (hq_headers req) of
                  Some host \<Rightarrow>
                    (case header_to_str host of
                       None \<Rightarrow> Inl (PE_InvalidUri ''Invalid Host header'')
                     | Some host_str \<Rightarrow>
                         let scheme = (if hq_scheme req = Some ''https'' then ''https'' else ''http'') in
                         map_sum (\<lambda>e. PE_InvalidUri (''Failed to parse URI: '' @ e)) id
                           (sv_parse_uri X (scheme @ ''://'' @ host_str @
                             (case hq_path_and_query req of Some pq \<Rightarrow> pq | None \<Rightarrow> []))))
                | None \<Rightarrow> Inl (PE_InvalidUri ''Cannot determine target URI from request'')))"

definition is_hop_by_hop_header :: "string \<Rightarrow> bool" where
  "is_hop_by_hop_header name \<longleftrightarrow>
     map to_ascii_lower name \<in> {''keep-alive'', ''proxy-authenticate'', ''proxy-authorization'', ''te'', ''trailers''}"

text \<open>The iteration over a header map names a header only with its first value; the others are skipped.\<close>

definition forwarded_headers :: "headers \<Rightarrow> headers" where
  "forwarded_headers hs =
     List.map_filter (\<lambda>(name, values). case values of
         v # _ \<Rightarrow> if is_hop_by_hop_header name then None else Some (name, [v])
       | [] \<Rightarrow> None) hs"

definition is_upgrade_request :: "service_env \<Rightarrow> http_request \<Rightarrow> bool" where
  "is_upgrade_request X req \<longleftrightarrow>
     (case Option.bind (header_first ''connection'' (hq_headers req)) header_to_str of
        Some v \<Rightarrow> contains_text (sv_to_lowercase X v) ''upgrade''
      | None \<Rightarrow> False) \<and>
     map_of (hq_headers req) ''upgrade'' \<noteq> None"

definition get_upgrade_protocol :: "service_env \<Rightarrow> http_request \<Rightarrow> string option" where
  "get_upgrade_protocol X req =
     map_option (sv_to_lowercase X) (Option.bind (header_first ''upgrade'' (hq_headers req)) header_to_str)"

definition is_upgrade_response :: "proxied_response \<Rightarrow> bool" where
  "is_upgrade_response res \<longleftrightarrow> hr_status res = 101"

definition handle_http_request ::
  "service_env \<Rightarrow> proxy_service \<Rightarrow> http_request \<Rightarrow> egress list \<times> (proxy_error + unified_response)" where
  "handle_http_request X S req =
     (case extract_target_uri X S req of
        Inl e \<Rightarrow> ([], Inl e)
      | Inr target_uri \<Rightarrow>
          let upstream_req = \<lparr>uh_method = hq_method req, uh_uri = target_uri,
                uh_headers = forwarded_headers (hq_headers req), uh_body = hq_body req,
                uh_body_error = map_option (append ''Body stream error: '') (hq_body_error req)\<rparr>
          in ([Passthrough upstream_req],
              case sv_client X upstream_req of
                Inl e \<Rightarrow> Inl (map_hyper_error (sv_to_lowercase X) e)
              | Inr res \<Rightarrow>
                  Inr (UR_Upstream res \<lparr>tc_chunk_timeout = pc_stream_read_timeout (ps_config S),
                                        tc_total_timeout = pc_stream_total_timeout (ps_config S)\<rparr>)))"

section \<open>MCP traffic\<close>

text \<open>A body that is too large and one whose stream breaks get the same answer.\<close>

definition handle_mcp_request ::
  "service_env \<Rightarrow> handler \<Rightarrow> http_request \<Rightarrow> handler_state \<Rightarrow> handler_state \<times> egress list \<times> service_result" where
  "handle_mcp_request X H req h =
     (let max_body_size = hc_max_body_size (ha_config H) in
      if length (hq_body req) > max_body_size \<or> hq_body_error req \<noteq> None
      then (h, [], SR_Done (Inr (UR_TooLarge max_body_size)))
      else (case handle_mcp_body_bytes H (sv_batch X) (sv_order X) (hq_body req) h of
              (h', calls, r) \<Rightarrow>
                (h', map Governed calls,
                 case r of
                   Panic \<Rightarrow> SR_Panic
                 | Blocked \<Rightarrow> SR_Blocked
                 | Reply m \<Rightarrow> SR_Done (Inr (UR_Mcp m)))))"

definition handle_request ::
  "service_env \<Rightarrow> proxy_service \<Rightarrow> http_request \<Rightarrow> handler_state \<Rightarrow> handler_state \<times> egress list \<times> service_result" where
  "handle_request X S req h =
     (case (discriminate_traffic req, ps_mcp_handler S) of
        (TT_Mcp, Some H) \<Rightarrow> handle_mcp_request X H req h
      | _ \<Rightarrow> (case handle_http_request X S req of (out, r) \<Rightarrow> (h, out, SR_Done r)))"

section \<open>What leaves the proxy\<close>

lemma http_request_egress:
  assumes "handle_http_request X S req = (out, r)"
  shows "out = [] \<or> (\<exists>q. out = [Passthrough q] \<and> uh_body q = hq_body req \<and> extract_target_uri X S req = Inr (uh_uri q))"
  using assms by (auto simp: handle_http_request_def Let_def split: sum.splits)

lemma closed_no_target:
  "ps_upstream_url S = None \<Longrightarrow> \<not> ps_forward_proxy_enabled S \<Longrightarrow>
   extract_target_uri X S req = Inl (PE_InvalidUri forward_proxy_disabled)"
  by (simp add: extract_target_uri_def)

text \<open>The calls of a body are those its requests are entitled to.\<close>

definition mediated :: "handler \<Rightarrow> config \<Rightarrow> string \<Rightarrow> handler_state \<Rightarrow> upstream_call list \<Rightarrow> bool" where
  "mediated H cfg body h calls \<longleftrightarrow>
     (case snd (enter_body H body h) of
        Inl _ \<Rightarrow> calls = []
      | Inr (parsed, _) \<Rightarrow> \<exists>rs css. mset rs = mset (requests_of (Inr parsed)) \<and> calls = concat css \<and>
          list_all2 (request_mediated (ms_globs (hs_mcp h)) cfg) rs css)"

lemma mcp_request_mediated:
  assumes "governed_by cfg (hs_mcp h)" "\<And>items. mset (sv_order X items) = mset items"
    and "handle_mcp_request X H req h = (h', out, r)"
  shows "\<exists>calls. out = map Governed calls \<and>
    (if hq_body_error req = None \<and> length (hq_body req) \<le> hc_max_body_size (ha_config H)
     then mediated H cfg (hq_body req) h calls else calls = [])"
proof (cases "length (hq_body req) > hc_max_body_size (ha_config H) \<or> hq_body_error req \<noteq> None")
  case True
  with assms(3) show ?thesis by (auto simp: handle_mcp_request_def Let_def)
next
  case False
  obtain h1 calls r1 where b: "handle_mcp_body_bytes H (sv_batch X) (sv_order X) (hq_body req) h = (h1, calls, r1)"
    by (metis prod_cases3)
  with False assms(3) have "out = map Governed calls" by (auto simp: handle_mcp_request_def Let_def)
  moreover have "mediated H cfg (hq_body req) h calls"
    using body_mediated [OF assms(1,2) b] by (auto simp: mediated_def split: sum.splits)
  ultimately show ?thesis using False by auto
qed


definition demo_http_env :: service_env where
  "demo_http_env = \<lparr>sv_parse_uri = Inr, sv_client = (\<lambda>_. Inr \<lparr>hr_status = 200, hr_headers = [], hr_body = []\<rparr>),
     sv_to_lowercase = map to_ascii_lower, sv_batch = demo_batch_env, sv_order = id\<rparr>"

definition demo_mcp_post :: "string \<Rightarrow> http_request" where
  "demo_mcp_post content_type = \<lparr>hq_method = ''POST'', hq_uri = ''/mcp/v1'', hq_scheme = None, hq_path = ''/mcp/v1'',
     hq_path_and_query = Some ''/mcp/v1'', hq_headers = [(''content-type'', [content_type])], hq_body = ''{}'',
     hq_body_error = None\<rparr>"

definition demo_http_service :: proxy_service where
  "demo_http_service = with_mcp_handler demo_handler (proxy_service_new None http_proxy_config_default)"




text \<open>A header with several values keeps only the first when a request is passed through.\<close>

lemma repeated_header_dropped:
  "\<not> is_hop_by_hop_header name \<Longrightarrow> forwarded_headers [(name, v # vs)] = [(name, [v])]"
  by (simp add: forwarded_headers_def List.map_filter_def)

end
