(* ===== verification/Rate_Limiter.thy ===== *)
theory Rate_Limiter
  imports Traffic
begin

text \<open>
  The rate limiter per client address (\<open>thoughtgate-proxy/src/rate_limiter.rs\<close>). The limiter of one address comes from the
  \<open>governor\<close> crate: \<open>direct\<close> makes one for a quota and \<open>governor\<close> answers one check at a time; both are arguments.
\<close>

declare map_of_eq_Some_iff [simp del]

section \<open>Configuration\<close>

record rate_limiter_config =
  rl_rps :: "32 word"
  rl_burst :: "32 word"
  rl_stale_after :: duration

definition rate_limiter_config_default :: rate_limiter_config where
  "rate_limiter_config_default = \<lparr>rl_rps = 100, rl_burst = 200, rl_stale_after = from_secs 300\<rparr>"

definition parse_u32 :: "string \<Rightarrow> 32 word option" where
  "parse_u32 s = (case parse_usize s of Some n \<Rightarrow> if n < 2 ^ 32 then Some (of_nat n) else None | None \<Rightarrow> None)"

text \<open>A value that does not parse, or is zero, leaves the default.\<close>

definition positive_or :: "32 word \<Rightarrow> string option \<Rightarrow> 32 word" where
  "positive_or dflt v = (case Option.bind v parse_u32 of Some n \<Rightarrow> if n > 0 then n else dflt | None \<Rightarrow> dflt)"

definition rate_limiter_config_from_env :: "(string \<Rightarrow> string option) \<Rightarrow> rate_limiter_config" where
  "rate_limiter_config_from_env env =
     rate_limiter_config_default
       \<lparr>rl_rps := positive_or 100 (env ''THOUGHTGATE_RATE_LIMIT_RPS''),
        rl_burst := positive_or 200 (env ''THOUGHTGATE_RATE_LIMIT_BURST'')\<rparr>"

section \<open>State\<close>

record quota =
  qu_per_second :: "32 word"
  qu_burst :: "32 word"

record 'l rate_limit_entry =
  re_limiter :: 'l
  re_last_seen :: instant

record ('ip, 'l) per_ip_rate_limiter =
  pl_limiters :: "('ip \<times> 'l rate_limit_entry) list"
  pl_quota :: quota
  pl_stale_after :: duration

definition per_ip_new :: "rate_limiter_config \<Rightarrow> ('ip, 'l) per_ip_rate_limiter" where
  "per_ip_new C =
     \<lparr>pl_limiters = [],
      pl_quota = \<lparr>qu_per_second = (if rl_rps C = 0 then 100 else rl_rps C),
                  qu_burst = (if rl_burst C = 0 then 200 else rl_burst C)\<rparr>,
      pl_stale_after = rl_stale_after C\<rparr>"

definition per_ip_check ::
  "(quota \<Rightarrow> 'l) \<Rightarrow> (instant \<Rightarrow> 'l \<Rightarrow> 'l \<times> bool) \<Rightarrow> instant \<Rightarrow> 'ip \<Rightarrow> ('ip, 'l) per_ip_rate_limiter \<Rightarrow>
   ('ip, 'l) per_ip_rate_limiter \<times> bool" where
  "per_ip_check direct governor now ip R =
     (let limiter = (case map_of (pl_limiters R) ip of Some e \<Rightarrow> re_limiter e | None \<Rightarrow> direct (pl_quota R)) in
      case governor now limiter of
        (limiter', ok) \<Rightarrow>
          (R\<lparr>pl_limiters := AList.update ip \<lparr>re_limiter = limiter', re_last_seen = now\<rparr> (pl_limiters R)\<rparr>, ok))"

definition cleanup_stale :: "instant \<Rightarrow> ('ip, 'l) per_ip_rate_limiter \<Rightarrow> ('ip, 'l) per_ip_rate_limiter \<times> nat" where
  "cleanup_stale now R =
     (let kept = filter (\<lambda>(_, e). re_last_seen e + pl_stale_after R > now) (pl_limiters R) in
      (R\<lparr>pl_limiters := kept\<rparr>, length (pl_limiters R) - length kept))"

definition tracked_ips :: "('ip, 'l) per_ip_rate_limiter \<Rightarrow> nat" where
  "tracked_ips R = length (pl_limiters R)"

section \<open>Runs\<close>

text \<open>Checks of the proxy and passes of the cleanup task, each at its time.\<close>

datatype 'ip limiter_event = Check instant 'ip | Cleanup instant

fun limiter_run ::
  "(quota \<Rightarrow> 'l) \<Rightarrow> (instant \<Rightarrow> 'l \<Rightarrow> 'l \<times> bool) \<Rightarrow> 'ip limiter_event list \<Rightarrow> ('ip, 'l) per_ip_rate_limiter \<Rightarrow>
   ('ip, 'l) per_ip_rate_limiter \<times> ('ip \<times> instant \<times> bool) list" where
  "limiter_run direct governor [] R = (R, [])"
| "limiter_run direct governor (Check now ip # es) R =
     (case per_ip_check direct governor now ip R of
        (R', ok) \<Rightarrow> map_prod id (Cons (ip, now, ok)) (limiter_run direct governor es R'))"
| "limiter_run direct governor (Cleanup now # es) R = limiter_run direct governor es (fst (cleanup_stale now R))"

text \<open>What one limiter, kept for ever, answers at given times.\<close>

fun bucket_run :: "(instant \<Rightarrow> 'l \<Rightarrow> 'l \<times> bool) \<Rightarrow> instant list \<Rightarrow> 'l \<Rightarrow> (instant \<times> bool) list" where
  "bucket_run governor [] l = []"
| "bucket_run governor (now # ts) l =
     (case governor now l of (l', ok) \<Rightarrow> (now, ok) # bucket_run governor ts l')"

definition times_of :: "'ip \<Rightarrow> 'ip limiter_event list \<Rightarrow> instant list" where
  "times_of ip es = List.map_filter (\<lambda>e. case e of Check now i \<Rightarrow> if i = ip then Some now else None | Cleanup _ \<Rightarrow> None) es"

fun event_time :: "'ip limiter_event \<Rightarrow> instant" where
  "event_time (Check now ip) = now"
| "event_time (Cleanup now) = now"

section \<open>Every address has its own limit\<close>

text \<open>After a time of rest a limiter answers as a new one: what \<open>governor\<close> documents for a rest long enough to replenish
  the burst.\<close>

definition refills :: "(instant \<Rightarrow> 'l \<Rightarrow> 'l \<times> bool) \<Rightarrow> 'l \<Rightarrow> duration \<Rightarrow> bool" where
  "refills governor fresh d \<longleftrightarrow>
     (\<forall>t l0 l ok ts. governor t l0 = (l, ok) \<longrightarrow> (\<forall>x\<in>set ts. t + d \<le> x) \<longrightarrow>
        bucket_run governor ts l = bucket_run governor ts fresh)"

definition limiter_ok ::
  "(instant \<Rightarrow> 'l \<Rightarrow> 'l \<times> bool) \<Rightarrow> ('ip, 'l) per_ip_rate_limiter \<Rightarrow> bool" where
  "limiter_ok governor R \<longleftrightarrow> distinct (map fst (pl_limiters R)) \<and>
     (\<forall>ip e. map_of (pl_limiters R) ip = Some e \<longrightarrow>
        (\<exists>l0 ok. governor (re_last_seen e) l0 = (re_limiter e, ok)))"

definition limiter_of :: "(quota \<Rightarrow> 'l) \<Rightarrow> 'ip \<Rightarrow> ('ip, 'l) per_ip_rate_limiter \<Rightarrow> 'l" where
  "limiter_of direct ip R = (case map_of (pl_limiters R) ip of Some e \<Rightarrow> re_limiter e | None \<Rightarrow> direct (pl_quota R))"

lemma limiter_ok_new: "limiter_ok governor (per_ip_new C)"
  by (simp add: limiter_ok_def per_ip_new_def)

lemma per_ip_check_step:
  assumes "limiter_ok governor R" "per_ip_check direct governor now ip R = (R', ok)"
  shows "limiter_ok governor R'" "pl_quota R' = pl_quota R" "pl_stale_after R' = pl_stale_after R"
    "governor now (limiter_of direct ip R) = (limiter_of direct ip R', ok)"
    "i \<noteq> ip \<Longrightarrow> limiter_of direct i R' = limiter_of direct i R"
  using assms
  by (auto simp: per_ip_check_def limiter_ok_def limiter_of_def Let_def AList.update_conv' distinct_update
      split: prod.splits option.splits if_splits) blast+

lemma map_of_filter_distinct:
  "distinct (map fst xs) \<Longrightarrow>
   map_of (filter P xs) k = (case map_of xs k of Some v \<Rightarrow> if P (k, v) then Some v else None | None \<Rightarrow> None)"
  by (induction xs) (auto split: option.splits if_splits simp: map_of_eq_None_iff image_iff)

lemma distinct_fst_filter: "distinct (map fst xs) \<Longrightarrow> distinct (map fst (filter P xs))"
  by (induction xs) auto

lemma cleanup_step:
  assumes "limiter_ok governor R" "refills governor (direct (pl_quota R)) (pl_stale_after R)"
    and "\<forall>x\<in>set ts. now \<le> x"
  shows "limiter_ok governor (fst (cleanup_stale now R))"
    "bucket_run governor ts (limiter_of direct ip (fst (cleanup_stale now R))) =
     bucket_run governor ts (limiter_of direct ip R)"
proof -
  have d: "distinct (map fst (pl_limiters R))" using assms(1) by (simp add: limiter_ok_def)
  show "limiter_ok governor (fst (cleanup_stale now R))"
    using assms(1) d
    by (auto simp: limiter_ok_def cleanup_stale_def Let_def map_of_filter_distinct distinct_fst_filter
        split: option.splits if_splits)
  show "bucket_run governor ts (limiter_of direct ip (fst (cleanup_stale now R))) =
     bucket_run governor ts (limiter_of direct ip R)"
  proof (cases "map_of (pl_limiters R) ip")
    case None
    with d show ?thesis by (simp add: limiter_of_def cleanup_stale_def Let_def map_of_filter_distinct)
  next
    case (Some e)
    then obtain l0 ok where g: "governor (re_last_seen e) l0 = (re_limiter e, ok)"
      using assms(1) unfolding limiter_ok_def by blast
    show ?thesis
    proof (cases "re_last_seen e + pl_stale_after R > now")
      case True
      with d Some show ?thesis by (simp add: limiter_of_def cleanup_stale_def Let_def map_of_filter_distinct)
    next
      case False
      then have "\<forall>x\<in>set ts. re_last_seen e + pl_stale_after R \<le> x" using assms(3) by fastforce
      then have "bucket_run governor ts (re_limiter e) = bucket_run governor ts (direct (pl_quota R))"
        using assms(2) g unfolding refills_def by blast
      with d Some False show ?thesis
        by (simp add: limiter_of_def cleanup_stale_def Let_def map_of_filter_distinct)
    qed
  qed
qed

lemma times_of_Cons:
  "times_of ip (Check now i # es) = (if i = ip then now # times_of ip es else times_of ip es)"
  "times_of ip (Cleanup now # es) = times_of ip es"
  by (simp_all add: times_of_def List.map_filter_def)

lemma times_of_bound: "x \<in> set (times_of ip es) \<Longrightarrow> x \<in> set (map event_time es)"
proof (induction es)
  case (Cons e es)
  then show ?case by (cases e) (auto simp: times_of_Cons split: if_splits)
qed (simp add: times_of_def List.map_filter_def)

lemma limiter_run_bucket:
  assumes "limiter_ok governor R" "refills governor (direct (pl_quota R)) (pl_stale_after R)"
    and "sorted (map event_time es)"
  shows "map snd (filter (\<lambda>(i, _). i = ip) (snd (limiter_run direct governor es R))) =
    bucket_run governor (times_of ip es) (limiter_of direct ip R)"
  using assms
proof (induction es arbitrary: R)
  case Nil
  then show ?case by (simp add: times_of_def List.map_filter_def)
next
  case (Cons e es)
  show ?case
  proof (cases e)
    case (Check now i)
    obtain R' ok where c: "per_ip_check direct governor now i R = (R', ok)" by fastforce
    note step = per_ip_check_step [OF Cons.prems(1) c]
    have "map snd (filter (\<lambda>(i, _). i = ip) (snd (limiter_run direct governor es R'))) =
      bucket_run governor (times_of ip es) (limiter_of direct ip R')"
      using Cons.IH [OF step(1)] Cons.prems step(2,3) by simp
    with Check c step(4) step(5) [of ip] show ?thesis by (auto simp: times_of_Cons)
  next
    case (Cleanup now)
    have later: "\<forall>x\<in>set (times_of ip es). now \<le> x"
      using Cons.prems(3) Cleanup times_of_bound by fastforce
    note step = cleanup_step [where direct = direct, OF Cons.prems(1,2) later]
    have "pl_quota (fst (cleanup_stale now R)) = pl_quota R"
      "pl_stale_after (fst (cleanup_stale now R)) = pl_stale_after R"
      by (simp_all add: cleanup_stale_def Let_def)
    with Cons.IH [OF step(1)] Cons.prems step(2) Cleanup show ?thesis by (simp add: times_of_Cons)
  qed
qed

text \<open>The requests of one client address are limited by that address alone: whatever the other addresses do and
  whenever the cleanup task removes idle entries, its requests are answered exactly as by one limiter with the
  configured quota that is never discarded. Of the limiter it is assumed that after \<open>stale_after\<close> without a check
  it answers as a new one.\<close>

lemma per_ip_limit_isolated:
  assumes "refills governor (direct (pl_quota (per_ip_new C :: ('ip, 'l) per_ip_rate_limiter))) (rl_stale_after C)"
    and "sorted (map event_time es)"
  shows "map snd (filter (\<lambda>(i, _). i = ip) (snd (limiter_run direct governor es (per_ip_new C :: ('ip, 'l) per_ip_rate_limiter)))) =
    bucket_run governor (times_of ip es) (direct (pl_quota (per_ip_new C :: ('ip, 'l) per_ip_rate_limiter)))"
  using limiter_run_bucket [of governor "per_ip_new C :: ('ip, 'l) per_ip_rate_limiter" direct es ip] assms
  by (simp add: limiter_ok_new) (simp add: limiter_of_def per_ip_new_def)

definition demo_governor :: "instant \<Rightarrow> nat option \<Rightarrow> nat option \<times> bool" where
  "demo_governor now l =
     (case l of
        Some t \<Rightarrow> if t \<le> now \<and> now < t + 10 then (Some t, False) else (Some now, True)
      | None \<Rightarrow> (Some now, True))"

lemma demo_governor_refills: "10 \<le> d \<Longrightarrow> refills demo_governor None d"
proof (unfold refills_def, intro allI impI)
  fix t :: nat and l0 l :: "nat option" and ok and ts
  assume "10 \<le> d" "demo_governor t l0 = (l, ok)" "\<forall>x\<in>set ts. t + d \<le> x"
  then show "bucket_run demo_governor ts l = bucket_run demo_governor ts None"
    by (cases ts) (auto simp: demo_governor_def split: option.splits if_splits)
qed

end
