(* ===== verification/Proxy_Main.thy ===== *)
theory Proxy_Main
  imports Proxy_Service Rate_Limiter Mock_Adapter Upstream Config_Loader
begin

text \<open>
  The program \<open>thoughtgate-proxy\<close> (\<open>main.rs\<close>, \<open>mcp_handler/factory.rs\<close>, \<open>admin.rs\<close>, and \<open>config/defaults.rs\<close> of the core): the checks
  at startup and the parts it puts together, the loop that accepts connections under the lifecycle, the rate
  limiter and the limit on concurrent streams, and the graceful shutdown. Binding sockets, TLS, telemetry, the
  Cedar engine and the clocks are arguments. Socket options, metrics and logging are not modelled.
\<close>

declare map_of_eq_Some_iff [simp del]

section \<open>Defaults\<close>

record tg_defaults =
  td_execution_timeout :: duration
  td_shutdown_timeout :: duration
  td_drain_timeout :: duration
  td_approval_poll_interval :: duration
  td_approval_poll_max_interval :: duration
  td_health_check_interval :: duration
  td_default_approval_timeout :: duration
  td_default_task_ttl :: duration
  td_max_task_ttl :: duration
  td_task_cleanup_interval :: duration

definition tg_defaults_default :: tg_defaults where
  "tg_defaults_default =
     \<lparr>td_execution_timeout = from_secs 30, td_shutdown_timeout = from_secs 30, td_drain_timeout = from_secs 25,
      td_approval_poll_interval = from_secs 5, td_approval_poll_max_interval = from_secs 30,
      td_health_check_interval = from_secs 10, td_default_approval_timeout = from_secs 600,
      td_default_task_ttl = from_secs 600, td_max_task_ttl = from_secs 86400,
      td_task_cleanup_interval = from_secs 60\<rparr>"

definition tg_defaults_validate :: "(duration \<Rightarrow> string) \<Rightarrow> tg_defaults \<Rightarrow> string + unit" where
  "tg_defaults_validate dbg D =
     (if td_drain_timeout D \<ge> td_shutdown_timeout D then
        Inl (''drain_timeout ('' @ dbg (td_drain_timeout D) @ '') must be less than shutdown_timeout ('' @
             dbg (td_shutdown_timeout D) @ '')'')
      else if td_approval_poll_interval D \<ge> td_approval_poll_max_interval D then
        Inl (''approval_poll_interval ('' @ dbg (td_approval_poll_interval D) @
             '') must be less than approval_poll_max_interval ('' @ dbg (td_approval_poll_max_interval D) @ '')'')
      else if td_default_task_ttl D > td_max_task_ttl D then
        Inl (''default_task_ttl ('' @ dbg (td_default_task_ttl D) @ '') must be <= max_task_ttl ('' @
             dbg (td_max_task_ttl D) @ '')'')
      else Inr ())"

definition tg_defaults_from_env :: "(duration \<Rightarrow> string) \<Rightarrow> (string \<Rightarrow> string option) \<Rightarrow> string + tg_defaults" where
  "tg_defaults_from_env dbg env =
     (let secs = (\<lambda>name dflt. from_secs (parse_env_warn parse_usize (env name) dflt));
          D = \<lparr>td_execution_timeout = secs ''THOUGHTGATE_EXECUTION_TIMEOUT_SECS'' 30,
               td_shutdown_timeout = secs ''THOUGHTGATE_SHUTDOWN_TIMEOUT_SECS'' 30,
               td_drain_timeout = secs ''THOUGHTGATE_DRAIN_TIMEOUT_SECS'' 25,
               td_approval_poll_interval = secs ''THOUGHTGATE_APPROVAL_POLL_INTERVAL_SECS'' 5,
               td_approval_poll_max_interval = secs ''THOUGHTGATE_APPROVAL_POLL_MAX_INTERVAL_SECS'' 30,
               td_health_check_interval = secs ''THOUGHTGATE_HEALTH_CHECK_INTERVAL_SECS'' 10,
               td_default_approval_timeout = secs ''THOUGHTGATE_DEFAULT_APPROVAL_TIMEOUT_SECS'' 600,
               td_default_task_ttl = secs ''THOUGHTGATE_DEFAULT_TASK_TTL_SECS'' 600,
               td_max_task_ttl = secs ''THOUGHTGATE_MAX_TASK_TTL_SECS'' 86400,
               td_task_cleanup_interval = secs ''THOUGHTGATE_TASK_CLEANUP_INTERVAL_SECS'' 60\<rparr>
      in case tg_defaults_validate dbg D of Inl e \<Rightarrow> Inl e | Inr _ \<Rightarrow> Inr D)"

section \<open>Command line and surroundings\<close>

datatype proxy_cli_profile = PCLI_Production | PCLI_Development

fun profile_of_proxy_cli :: "proxy_cli_profile \<Rightarrow> profile" where
  "profile_of_proxy_cli PCLI_Production = Production"
| "profile_of_proxy_cli PCLI_Development = Development"

record proxy_cli =
  cl_bind :: string
  cl_upstream_url :: "string option"
  cl_admin_bind :: string
  cl_enable_forward_proxy :: bool
  cl_config :: "string option"
  cl_profile :: proxy_cli_profile

record main_env =
  mn_env :: "string \<Rightarrow> string option"
  mn_loader :: loader_env
  mn_version :: string
  mn_started :: instant
  mn_finished :: instant
  mn_bind :: "string \<Rightarrow> string + unit"
  mn_telemetry :: "config option \<Rightarrow> string + unit"
  mn_url_error :: "string \<Rightarrow> string option"
  mn_build_error :: "string option"
  mn_parse :: "string \<Rightarrow> string + rpc_response"
  mn_parse_batch :: "string \<Rightarrow> string + rpc_response list"
  mn_upstream :: upstream
  mn_cedar :: "cedar_config option \<Rightarrow> string + (cedar_request \<Rightarrow> cedar_decision) \<times> policy_engine"
  mn_slack_client :: "string + unit"
  mn_slack_pretty :: "json \<Rightarrow> string"
  mn_slack_time :: "datetime \<Rightarrow> string"
  mn_ext :: ext
  mn_codec :: codec
  mn_to_lowercase :: "string \<Rightarrow> string"
  mn_reader :: reader
  mn_prefix :: "64 word"
  mn_uuid :: "128 word \<Rightarrow> string"
  mn_tls :: "string + unit"
  mn_health_client :: "string + unit"
  mn_head :: "string \<Rightarrow> string + nat \<times> string"   \<comment> \<open>the status and how it is printed\<close>

section \<open>Putting the governance together\<close>

definition factory_adapter :: "main_env \<Rightarrow> tg_error + adapter_choice" where
  "factory_adapter N =
     (if mn_env N ''THOUGHTGATE_APPROVAL_ADAPTER'' = Some ''mock'' then
        Inr (MockChosen (mock_from_env (mn_to_lowercase N) (mn_env N)))
      else (case slack_config_from_env (mn_env N) of
              Inl e \<Rightarrow> Inl (ServiceUnavailable (''Failed to create Slack config: '' @ adapter_error_to_string (mn_ext N) e))
            | Inr C \<Rightarrow>
                (case slack_adapter_new (mn_slack_client N) (mn_slack_pretty N) (mn_slack_time N) C of
                   Inl e \<Rightarrow> Inl (ServiceUnavailable (''Failed to create Slack adapter: '' @ adapter_error_to_string (mn_ext N) e))
                 | Inr A \<Rightarrow> Inr (SlackChosen A))))"

text \<open>The Cedar engine, what holds the tasks, and the adapter when there is an approval engine.\<close>

definition create_governance_components ::
  "main_env \<Rightarrow> config option \<Rightarrow> tg_error + ((cedar_request \<Rightarrow> cedar_decision) \<times> backend \<times> adapter_choice option)" where
  "create_governance_components N cfg =
     (let store = store_with_metrics (store_config_default
                    (Option.bind (mn_env N ''THOUGHTGATE_MAX_PENDING_BYTES'') parse_usize)) in
      case mn_cedar N (Option.bind cfg cf_cedar) of
        Inl e \<Rightarrow> Inl (ServiceUnavailable (''Failed to create Cedar engine: '' @ e))
      | Inr (cedar, policy) \<Rightarrow>
          if (case cfg of Some c \<Rightarrow> requires_approval_engine c | None \<Rightarrow> False) then
            (case factory_adapter N of
               Inl e \<Rightarrow> Inl e
             | Inr a \<Rightarrow>
                 Inr (cedar,
                   WithEngine (engine_new store (mn_ext N) (mn_codec N) (mn_upstream N) policy
                     (engine_config_from_env parse_usize (mn_to_lowercase N) (mn_env N))), Some a))
          else Inr (cedar, StoreOnly store, None))"

definition proxy_v0_2 :: version where
  "proxy_v0_2 = \<lparr>v_major = 0, v_minor = 2, v_patch = 0\<rparr>"

definition load_yaml_config :: "main_env \<Rightarrow> proxy_cli \<Rightarrow> config_error + config option" where
  "load_yaml_config N cli =
     (case cl_config cli of
        Some path \<Rightarrow> map_sum id (Some \<circ> fst) (load_and_validate (mn_loader N) path proxy_v0_2)
      | None \<Rightarrow>
          (case find_config_file (mn_loader N) None of
             Inr found_path \<Rightarrow> map_sum id (Some \<circ> fst) (load_and_validate (mn_loader N) found_path proxy_v0_2)
           | Inl _ \<Rightarrow> Inr None))"

definition is_production :: "(string \<Rightarrow> string option) \<Rightarrow> bool" where
  "is_production env \<longleftrightarrow>
     (case env ''THOUGHTGATE_ENVIRONMENT'' of Some e \<Rightarrow> e | None \<Rightarrow> ''production'') \<in> {''production'', ''prod'', []}"

definition check_profile :: "(string \<Rightarrow> string option) \<Rightarrow> profile \<Rightarrow> string + unit" where
  "check_profile env prof =
     (if prof = Development \<and> is_production env
      then Inl (''--profile development is not allowed when THOUGHTGATE_ENVIRONMENT is production. '' @
                ''Set THOUGHTGATE_ENVIRONMENT=development to use development profile.'')
      else Inr ())"

definition verify_upstream_connectivity ::
  "main_env \<Rightarrow> proxy_cli \<Rightarrow> instant \<Rightarrow> lifecycle_manager \<Rightarrow> string + lifecycle_manager" where
  "verify_upstream_connectivity N cli now M =
     (case mn_health_client N of
        Inl e \<Rightarrow> Inl (''Failed to create health check client: '' @ e)
      | Inr _ \<Rightarrow>
     (case cl_upstream_url cli of
        None \<Rightarrow> Inr (update_upstream_health now True None M)
      | Some url \<Rightarrow>
          if lc_require_upstream_at_startup (lm_config M) then
            (case mn_head N url of
               Inr (status, status_text) \<Rightarrow>
                 if 200 \<le> status \<and> status < 400 then Inr (update_upstream_health now True None M)
                 else Inl (''Upstream '' @ url @ '' returned non-success status '' @ status_text @ '' at startup'')
             | Inl e \<Rightarrow> Inl (''Cannot connect to upstream '' @ url @ '' at startup: '' @ e))
          else Inr (update_upstream_health now True None M)))"

section \<open>Startup\<close>

record proxy_program =
  pp_service :: proxy_service
  pp_handler_state :: "handler_state option"
  pp_adapter :: "adapter_choice option"
  pp_lifecycle :: lifecycle_manager
  pp_profile :: profile

definition start_handler ::
  "main_env \<Rightarrow> profile \<Rightarrow> config option \<Rightarrow> string + (handler \<times> handler_state \<times> adapter_choice option) option" where
  "start_handler N prof yaml_config =
     (case yaml_config of
        None \<Rightarrow> Inr None
      | Some cfg \<Rightarrow>
     (case upstream_config_from_env (mn_env N) of
        Inl e \<Rightarrow> Inl (''MCP governance requires THOUGHTGATE_UPSTREAM environment variable: '' @ error_to_string e)
      | Inr uc \<Rightarrow>
     (case upstream_client_new (mn_url_error N) (mn_build_error N) (mn_parse N) (mn_parse_batch N) uc of
        Inl e \<Rightarrow> Inl (error_to_string e)
      | Inr client \<Rightarrow>
     (case create_governance_components N (Some cfg) of
        Inl e \<Rightarrow> Inl (error_to_string e)
      | Inr (cedar, b, a) \<Rightarrow>
          let C = mcp_handler_config_from_env (mn_env N) in
          Inr (Some (\<lparr>ha_config = C, ha_reader = mn_reader N, ha_prefix = mn_prefix N, ha_uuid = mn_uuid N\<rparr>,
            with_governance cedar (mn_ext N) b C (Some cfg) prof (le_globs (mn_loader N)), a))))))"

definition start_service ::
  "main_env \<Rightarrow> proxy_cli \<Rightarrow> (handler \<times> handler_state \<times> adapter_choice option) option \<Rightarrow> string + proxy_service" where
  "start_service N cli h =
     (case mn_tls N of
        Inl e \<Rightarrow> Inl e
      | Inr _ \<Rightarrow>
          let S = proxy_service_new (cl_upstream_url cli) (http_proxy_config_from_env (mn_env N));
              S = (if cl_enable_forward_proxy cli then with_forward_proxy_enabled S else S)
          in Inr (case h of Some (H, _, _) \<Rightarrow> with_mcp_handler H S | None \<Rightarrow> S))"

text \<open>\<open>dbg_error\<close> prints an error of the configuration.\<close>

definition start_proxy :: "(config_error \<Rightarrow> string) \<Rightarrow> main_env \<Rightarrow> proxy_cli \<Rightarrow> string + proxy_program" where
  "start_proxy dbg_error N cli =
     (case tg_defaults_from_env (x_debug_duration (mn_ext N)) (mn_env N) of Inl e \<Rightarrow> Inl e | Inr _ \<Rightarrow>
     (case validate_ports (mn_env N) of Inl e \<Rightarrow> Inl e | Inr _ \<Rightarrow>
     (case validate_environment (mn_env N) of Inl e \<Rightarrow> Inl e | Inr _ \<Rightarrow>
     (let prof = profile_of_proxy_cli (cl_profile cli) in
      case check_profile (mn_env N) prof of Inl e \<Rightarrow> Inl e | Inr _ \<Rightarrow>
     (let M = lifecycle_manager_new (mn_started N) (mn_version N) (lifecycle_config_from_env (mn_env N)) in
      case mn_bind N (cl_bind cli @ '':'' @ show_nat (unat (outbound_port (mn_env N)))) of Inl e \<Rightarrow> Inl e | Inr _ \<Rightarrow>
     (case load_yaml_config N cli of Inl e \<Rightarrow> Inl (dbg_error e) | Inr yaml_config \<Rightarrow>
     (case mn_telemetry N yaml_config of
        Inl e \<Rightarrow> Inl (''Failed to initialize telemetry: '' @ e)
      | Inr _ \<Rightarrow>
     (case start_handler N prof yaml_config of Inl e \<Rightarrow> Inl e | Inr h \<Rightarrow>
     (case start_service N cli h of Inl e \<Rightarrow> Inl e | Inr S \<Rightarrow>
     (case verify_upstream_connectivity N cli (mn_finished N) M of Inl e \<Rightarrow> Inl e | Inr M' \<Rightarrow>
        if mn_finished N > mn_started N + lc_startup_timeout (lm_config M')
        then Inl (''Startup timeout exceeded ('' @ show_nat (as_secs (lc_startup_timeout (lm_config M'))) @ ''s)'')
        else Inr \<lparr>pp_service = S, pp_handler_state = map_option (\<lambda>(_, st, _). st) h,
               pp_adapter = Option.bind h (\<lambda>(_, _, a). a),
               pp_lifecycle = mark_ready (mark_approval_store_initialized (mark_config_loaded M')),
               pp_profile = prof\<rparr>))))))))))"

section \<open>Connections\<close>

definition crlf :: string where
  "crlf = [CHR 0x0D, CHR 0x0A]"

text \<open>An answer written without the HTTP server.\<close>

definition raw_response :: "string \<Rightarrow> string list \<Rightarrow> string \<Rightarrow> string" where
  "raw_response status extra body =
     ''HTTP/1.1 '' @ status @ crlf @ ''Content-Type: text/plain'' @ crlf @ ''Content-Length: '' @ show_nat (length body) @ crlf @
     ''Connection: close'' @ crlf @ concat (map (\<lambda>h. h @ crlf) extra) @ crlf @ body"

definition line_feed :: string where
  "line_feed = [CHR 0x0A]"

definition response_429 :: string where
  "response_429 = raw_response ''429 Too Many Requests'' [''Retry-After: 1'']
     (''429 Too Many Requests'' @ newline2 @ ''ThoughtGate rate limit exceeded for your IP address.'' @ line_feed @
      ''Please retry your request in a moment.'')"

definition response_503 :: string where
  "response_503 = raw_response ''503 Service Unavailable'' [''Retry-After: 1'']
     (''503 Service Unavailable'' @ newline2 @ ''ThoughtGate has reached its maximum concurrent stream limit.'' @ line_feed @
      ''Please retry your request in a moment.'')"

definition response_503_shutdown :: string where
  "response_503_shutdown = raw_response ''503 Service Unavailable'' [''Retry-After: 5'']
     (''503 Service Unavailable'' @ newline2 @ ''ThoughtGate is shutting down.'' @ line_feed @
      ''Please retry your request on another instance.'')"

definition response_405 :: string where
  "response_405 = raw_response ''405 Method Not Allowed'' []
     (''405 Method Not Allowed'' @ newline2 @ ''ThoughtGate is a termination proxy for AI governance.'' @ line_feed @
      ''It requires visibility into request headers and bodies.'' @ newline2 @
      ''Send plain HTTP requests to http://127.0.0.1:'' @ show_nat (unat default_outbound_port) @ '' instead.'')"

text \<open>The first bytes of a connection decide whether it is refused; otherwise its requests are served one after the other,
  an error becoming an answer.\<close>

datatype connection_reply = CR_Raw string | CR_Response unified_response | CR_Error nat string | CR_Open

fun answer_of :: "service_result \<Rightarrow> connection_reply" where
  "answer_of (SR_Done (Inr r)) = CR_Response r"
| "answer_of (SR_Done (Inl e)) = (case proxy_error_response e of (status, message) \<Rightarrow> CR_Error status message)"
| "answer_of _ = CR_Open"

fun serve_requests ::
  "service_env \<Rightarrow> proxy_service \<Rightarrow> http_request list \<Rightarrow> handler_state \<Rightarrow> handler_state \<times> egress list \<times> connection_reply list" where
  "serve_requests X S [] h = (h, [], [])"
| "serve_requests X S (req # reqs) h =
     (case handle_request X S req h of
        (h1, out1, r) \<Rightarrow>
          if r = SR_Panic then (h1, out1, [CR_Open])
          else (case serve_requests X S reqs h1 of (h2, out2, rs) \<Rightarrow> (h2, out1 @ out2, answer_of r # rs)))"

definition handle_connection ::
  "service_env \<Rightarrow> proxy_service \<Rightarrow> string \<Rightarrow> http_request list \<Rightarrow> handler_state \<Rightarrow>
   handler_state \<times> egress list \<times> connection_reply list" where
  "handle_connection X S peeked reqs h =
     (if take 7 peeked = ''CONNECT'' then (h, [], [CR_Raw response_405]) else serve_requests X S reqs h)"

section \<open>The accept loop\<close>

record ('ip, 'l) server =
  sr_lifecycle :: lifecycle_manager
  sr_limiter :: "('ip, 'l) per_ip_rate_limiter"
  sr_permits :: nat      \<comment> \<open>available permits of the semaphore\<close>
  sr_running :: nat      \<comment> \<open>connections being served\<close>

datatype 'ip server_event =
    Accepted instant 'ip
  | AcceptFailed
  | Finished             \<comment> \<open>a connection ends or times out\<close>
  | Signalled            \<comment> \<open>\<open>SIGINT\<close> or \<open>SIGTERM\<close>\<close>
  | Stale instant

datatype verdict = V_Serve | V_Refuse string | V_None

definition server_new :: "lifecycle_manager \<Rightarrow> rate_limiter_config \<Rightarrow> http_proxy_config \<Rightarrow> ('ip, 'l) server" where
  "server_new M R C = \<lparr>sr_lifecycle = M, sr_limiter = per_ip_new R, sr_permits = pc_max_concurrent_streams C, sr_running = 0\<rparr>"

definition accept_connection ::
  "(quota \<Rightarrow> 'l) \<Rightarrow> (instant \<Rightarrow> 'l \<Rightarrow> 'l \<times> bool) \<Rightarrow> instant \<Rightarrow> 'ip \<Rightarrow> ('ip, 'l) server \<Rightarrow> ('ip, 'l) server \<times> verdict" where
  "accept_connection direct governor now ip S =
     (case track_request (sr_lifecycle S) of
        (_, False) \<Rightarrow> (S, V_Refuse response_503_shutdown)
      | (M, True) \<Rightarrow>
     (case per_ip_check direct governor now ip (sr_limiter S) of
        (R, False) \<Rightarrow> (S\<lparr>sr_limiter := R, sr_lifecycle := drop_guard M\<rparr>, V_Refuse response_429)
      | (R, True) \<Rightarrow>
          if sr_permits S = 0 then (S\<lparr>sr_limiter := R, sr_lifecycle := drop_guard M\<rparr>, V_Refuse response_503)
          else (S\<lparr>sr_limiter := R, sr_lifecycle := M, sr_permits := sr_permits S - 1,
                  sr_running := sr_running S + 1\<rparr>, V_Serve)))"

definition finish_connection :: "('ip, 'l) server \<Rightarrow> ('ip, 'l) server" where
  "finish_connection S =
     S\<lparr>sr_lifecycle := drop_guard (sr_lifecycle S), sr_permits := sr_permits S + 1, sr_running := sr_running S - 1\<rparr>"

text \<open>A connection can only end while one is being served.\<close>

fun server_step ::
  "(quota \<Rightarrow> 'l) \<Rightarrow> (instant \<Rightarrow> 'l \<Rightarrow> 'l \<times> bool) \<Rightarrow> 'ip server_event \<Rightarrow> ('ip, 'l) server \<Rightarrow> (('ip, 'l) server \<times> verdict) option" where
  "server_step direct governor (Accepted now ip) S = Some (accept_connection direct governor now ip S)"
| "server_step direct governor AcceptFailed S = Some (S, V_None)"
| "server_step direct governor Finished S = (if sr_running S = 0 then None else Some (finish_connection S, V_None))"
| "server_step direct governor Signalled S = Some (S\<lparr>sr_lifecycle := begin_shutdown (sr_lifecycle S)\<rparr>, V_None)"
| "server_step direct governor (Stale now) S = Some (S\<lparr>sr_limiter := fst (cleanup_stale now (sr_limiter S))\<rparr>, V_None)"

fun server_run ::
  "(quota \<Rightarrow> 'l) \<Rightarrow> (instant \<Rightarrow> 'l \<Rightarrow> 'l \<times> bool) \<Rightarrow> 'ip server_event list \<Rightarrow> ('ip, 'l) server \<Rightarrow>
   (('ip, 'l) server \<times> verdict list) option" where
  "server_run direct governor [] S = Some (S, [])"
| "server_run direct governor (e # es) S =
     (case server_step direct governor e S of
        None \<Rightarrow> None
      | Some (S', v) \<Rightarrow> map_option (map_prod id (Cons v)) (server_run direct governor es S'))"

section \<open>Shutdown\<close>

text \<open>\<open>rounds\<close> are the counter and the clock as the drain reads them; without an end of the drain there is no result.\<close>

definition graceful_shutdown ::
  "datetime \<Rightarrow> instant \<Rightarrow> (nat \<times> instant) list \<Rightarrow> task_store option \<Rightarrow> lifecycle_manager \<Rightarrow>
   task_store option \<times> (lifecycle_manager \<times> (string + unit)) option" where
  "graceful_shutdown now start rounds store M =
     (map_option (\<lambda>st. fst (fail_all_pending now ''service_shutdown'' st)) store,
      map_option (\<lambda>d. (mark_stopped M,
          case d of
            Complete \<Rightarrow> Inr ()
          | Timeout remaining \<Rightarrow>
              Inl (''Drain timeout exceeded with '' @ show_nat remaining @ '' remaining requests'')))
        (drain_requests start rounds M))"

section \<open>Admin server\<close>

record admin_server_config =
  as_port :: "16 word"
  as_bind_addr :: string

definition admin_server_config_default :: "(string \<Rightarrow> string option) \<Rightarrow> admin_server_config" where
  "admin_server_config_default env = \<lparr>as_port = admin_port env, as_bind_addr = ''127.0.0.1''\<rparr>"

definition admin_with_port :: "16 word \<Rightarrow> (string \<Rightarrow> string option) \<Rightarrow> admin_server_config" where
  "admin_with_port p env = (admin_server_config_default env)\<lparr>as_port := p\<rparr>"

definition bind_string :: "admin_server_config \<Rightarrow> string" where
  "bind_string C = as_bind_addr C @ '':'' @ show_nat (unat (as_port C))"

text \<open>\<open>encoded\<close> is the encoding of the registry by the \<open>prometheus_client\<close> crate.\<close>

definition metrics_handler :: "string + string \<Rightarrow> nat \<times> string option \<times> string" where
  "metrics_handler encoded =
     (case encoded of
        Inl e \<Rightarrow> (500, None, ''Failed to encode metrics: '' @ e)
      | Inr buffer \<Rightarrow> (200, Some ''application/openmetrics-text; version=1.0.0; charset=utf-8'', buffer))"

datatype admin_reply = AR_Probe nat probe_response | AR_Metrics "nat \<times> string option \<times> string" | AR_NotFound

definition admin_router :: "instant \<Rightarrow> string + string \<Rightarrow> lifecycle_manager \<Rightarrow> string \<Rightarrow> admin_reply" where
  "admin_router now encoded M path =
     (if path = ''/health'' then (case health_handler now M of (st, r) \<Rightarrow> AR_Probe st r)
      else if path = ''/ready'' then (case readiness_handler M of (st, r) \<Rightarrow> AR_Probe st r)
      else if path = ''/metrics'' then AR_Metrics (metrics_handler encoded)
      else AR_NotFound)"

end
