(* ===== verification/Proxy_Theorems.thy ===== *)
theory Proxy_Theorems
  imports Proxy_Main
begin

text \<open>
  What the program \<open>thoughtgate-proxy\<close> guarantees as a whole: connections are accounted for and bounded, none is served once the
  shutdown has begun; in a production environment it does not start with development settings; and a configuration
  that does not load prevents the start.
\<close>

declare map_of_eq_Some_iff [simp del]

section \<open>Connections\<close>

definition server_inv :: "nat \<Rightarrow> ('ip, 'l) server \<Rightarrow> bool" where
  "server_inv limit S \<longleftrightarrow> sr_permits S + sr_running S = limit \<and> lm_active_requests (sr_lifecycle S) = sr_running S"

lemma drop_tracked:
  assumes "track_request M = (M', True)" "lm_active_requests M < usize_mod - 1"
  shows "lm_active_requests M' = lm_active_requests M + 1"
    "lm_active_requests (drop_guard M') = lm_active_requests M" "lm_state (drop_guard M') = lm_state M"
  using assms wsub_wadd_cancel [of "lm_active_requests M" 1] wadd_small [of "lm_active_requests M" 1]
  by (auto simp: track_request_def drop_guard_def split: if_splits)

lemma accept_cases:
  assumes "server_inv limit S" "limit < usize_mod - 1" "accept_connection direct governor now ip S = (S', v)"
  shows "server_inv limit S'" "v = V_Serve \<Longrightarrow> \<not> is_shutting_down (sr_lifecycle S)"
    "lm_state (sr_lifecycle S') = lm_state (sr_lifecycle S)"
proof -
  have "sr_running S \<le> limit" "lm_active_requests (sr_lifecycle S) = sr_running S"
    using assms(1) by (auto simp: server_inv_def)
  then have small: "lm_active_requests (sr_lifecycle S) < usize_mod - 1" using assms(2) by simp
  show "server_inv limit S'" "v = V_Serve \<Longrightarrow> \<not> is_shutting_down (sr_lifecycle S)"
    "lm_state (sr_lifecycle S') = lm_state (sr_lifecycle S)"
  proof (atomize (full), cases "is_shutting_down (sr_lifecycle S)")
    case True
    then have "track_request (sr_lifecycle S) = (sr_lifecycle S, False)" by (simp add: track_request_def)
    with assms(1,3) show "server_inv limit S' \<and> (v = V_Serve \<longrightarrow> \<not> is_shutting_down (sr_lifecycle S)) \<and>
        lm_state (sr_lifecycle S') = lm_state (sr_lifecycle S)"
      by (auto simp: accept_connection_def)
  next
    case False
    then obtain M where t: "track_request (sr_lifecycle S) = (M, True)" "lm_state M = lm_state (sr_lifecycle S)"
      by (simp add: track_request_def)
    obtain R ok where c: "per_ip_check direct governor now ip (sr_limiter S) = (R, ok)" by fastforce
    show "server_inv limit S' \<and> (v = V_Serve \<longrightarrow> \<not> is_shutting_down (sr_lifecycle S)) \<and>
        lm_state (sr_lifecycle S') = lm_state (sr_lifecycle S)"
      using assms(1,3) t c drop_tracked [OF t(1) small] False
      by (cases ok; cases "sr_permits S = 0") (auto simp: accept_connection_def server_inv_def)
  qed
qed

lemma finish_inv:
  assumes "server_inv limit S" "limit < usize_mod - 1" "sr_running S \<noteq> 0"
  shows "server_inv limit (finish_connection S)"
  using assms wsub_small [of 1 "lm_active_requests (sr_lifecycle S)"]
  by (auto simp: server_inv_def finish_connection_def drop_guard_def)

lemma server_step_inv:
  assumes "server_inv limit S" "limit < usize_mod - 1" "server_step direct governor e S = Some (S', v)"
  shows "server_inv limit S'" "is_shutting_down (sr_lifecycle S) \<Longrightarrow> is_shutting_down (sr_lifecycle S') \<and> v \<noteq> V_Serve"
proof -
  show "server_inv limit S'"
  proof (cases e)
    case (Accepted now ip)
    with assms show ?thesis using accept_cases(1) [OF assms(1,2)] by simp
  next
    case Finished
    with assms show ?thesis using finish_inv [OF assms(1,2)] by (simp split: if_splits)
  next
    case Signalled
    with assms show ?thesis by (auto simp: server_inv_def begin_shutdown_def)
  qed (use assms in \<open>auto simp: server_inv_def\<close>)
  show "is_shutting_down (sr_lifecycle S') \<and> v \<noteq> V_Serve" if "is_shutting_down (sr_lifecycle S)"
    using assms that accept_cases(2,3) [OF assms(1,2)]
    by (cases e)
      (auto simp: is_shutting_down_def finish_connection_def drop_guard_def begin_shutdown_def split: if_splits)
qed

lemma server_run_inv:
  "server_inv limit S \<Longrightarrow> limit < usize_mod - 1 \<Longrightarrow> server_run direct governor es S = Some (S', vs) \<Longrightarrow>
   server_inv limit S' \<and> (is_shutting_down (sr_lifecycle S) \<longrightarrow> V_Serve \<notin> set vs)"
proof (induction es arbitrary: S vs)
  case (Cons e es)
  then obtain S1 v vs' where s: "server_step direct governor e S = Some (S1, v)"
    "server_run direct governor es S1 = Some (S', vs')" "vs = v # vs'"
    by (auto split: option.splits)
  with Cons.IH [OF server_step_inv(1) [OF Cons.prems(1,2) s(1)] Cons.prems(2) s(2)]
    server_step_inv(2) [OF Cons.prems(1,2) s(1)] show ?case by auto
qed simp

lemma server_run_append:
  "server_run direct governor (es @ es') S =
   (case server_run direct governor es S of
      None \<Rightarrow> None
    | Some (S1, vs) \<Rightarrow> map_option (map_prod id (append vs)) (server_run direct governor es' S1))"
proof (induction es arbitrary: S)
  case Nil
  show ?case by (cases "server_run direct governor es' S") auto
next
  case (Cons e es)
  show ?case
  proof (cases "server_step direct governor e S")
    case (Some p)
    obtain S1 v where p: "p = (S1, v)" by fastforce
    show ?thesis
    proof (cases "server_run direct governor es S1")
      case (Some q)
      obtain S2 vs where "q = (S2, vs)" by fastforce
      with Some p Cons.IH [of S1] \<open>server_step direct governor e S = Some p\<close> show ?thesis
        by (cases "server_run direct governor es' S2") auto
    qed (use p Some Cons.IH [of S1] in auto)
  qed simp
qed

lemma server_run_length: "server_run direct governor es S = Some (S', vs) \<Longrightarrow> length vs = length es"
  by (induction es arbitrary: S vs) (auto split: option.splits)

lemma max_streams_bound: "pc_max_concurrent_streams (http_proxy_config_from_env env) \<le> 100000"
  by (simp add: http_proxy_config_from_env_def Let_def clamp_env_warn_def)

lemma server_inv_new: "lm_active_requests M = 0 \<Longrightarrow> server_inv (pc_max_concurrent_streams C) (server_new M R C)"
  by (simp add: server_inv_def server_new_def)


definition demo_events :: "nat server_event list" where
  "demo_events = [Accepted 0 1, Accepted 1 1, Accepted 2 2, Finished]"


section \<open>A governed state stays governed\<close>

lemma handle_batch_items_governed:
  assumes "governed_by cfg (hs_mcp h)" and "handle_batch_items H B items h = (h', calls, as)"
  shows "governed_by cfg (hs_mcp h') \<and> ms_globs (hs_mcp h') = ms_globs (hs_mcp h)"
  using assms
proof (induction items arbitrary: h h' calls as)
  case (Cons item items)
  obtain h1 c1 a where 1: "handle_batch_item H B item h = (h1, c1, a)" by (metis prod_cases3)
  obtain h2 c2 as' where 2: "handle_batch_items H B items h1 = (h2, c2, as')" by (metis prod_cases3)
  show ?case
    using handle_batch_item_mediated [OF Cons.prems(1) 1] Cons.IH [OF _ 2] Cons.prems(2) 1 2 by simp
qed simp

lemma leave_body_mcp [simp]: "hs_mcp (leave_body body n h) = hs_mcp h"
  by (simp add: leave_body_def release_buffer_def)

lemma body_keeps_governed:
  assumes "governed_by cfg (hs_mcp h)" and "handle_mcp_body_bytes H B order body h = (h', calls, res)"
  shows "governed_by cfg (hs_mcp h') \<and> ms_globs (hs_mcp h') = ms_globs (hs_mcp h)"
proof -
  obtain h1 r where e: "enter_body H body h = (h1, r)" by fastforce
  have g: "governed_by cfg (hs_mcp h1)" "ms_globs (hs_mcp h1) = ms_globs (hs_mcp h)"
    using assms(1) enter_body_mcp [OF e] by simp_all
  have single: "governed_by cfg (hs_mcp h2) \<and> ms_globs (hs_mcp h2) = ms_globs (hs_mcp h)"
    if "handle_single_request_bytes H P request h1 = (h2, cs, x)" for P request h2 cs x
  proof -
    obtain s cs' out where s: "route_request P request (hs_mcp h1) = (s, cs', out)" by (metis prod_cases3)
    with that have "hs_mcp h2 = s"
      by (auto simp: handle_single_request_bytes_def split: option.splits gate_outcome.splits)
    with route_request_keeps_governed [OF g(1) s] g(2) show ?thesis by simp
  qed
  have batch: "governed_by cfg (hs_mcp h2) \<and> ms_globs (hs_mcp h2) = ms_globs (hs_mcp h)"
    if "handle_batch_request_bytes H B items h1 = (h2, cs, x)" for items h2 cs x
  proof -
    obtain h3 cs' as where s: "handle_batch_items H B items h1 = (h3, cs', as)" by (metis prod_cases3)
    with that have "h2 = h3" by (simp add: handle_batch_request_bytes_def Let_def)
    with handle_batch_items_governed [OF g(1) s] g(2) show ?thesis by simp
  qed
  show ?thesis
    using assms(2) e g single batch
    by (auto simp: handle_mcp_body_bytes_def split: sum.splits parsed_requests.splits prod.splits if_splits)
qed

text \<open>A call the gates may let out: of a governed method only if the configuration admits it, and the execution of an
  approved request.\<close>

definition entitled :: "globs \<Rightarrow> config \<Rightarrow> upstream_call \<Rightarrow> bool" where
  "entitled G cfg c =
     (case c of Executed _ \<Rightarrow> True | Forwarded r \<Rightarrow> method_requires_gates (mq_method r) \<longrightarrow> admitted G cfg r)"

lemma request_mediated_entitled:
  assumes "request_mediated G cfg r calls" "c \<in> set calls"
  shows "entitled G cfg c"
  using assms
  by (auto simp: request_mediated_def entitled_def admitted_def same_message_def mcp_request.truncate_def
      split: if_splits option.splits)

lemma mediated_entitled:
  assumes "list_all2 (request_mediated G cfg) rs css" "c \<in> set (concat css)"
  shows "entitled G cfg c"
  using assms by (induction rs css rule: list_all2_induct) (auto dest: request_mediated_entitled)

lemma request_entitled:
  assumes "governed_by cfg (hs_mcp h)" "\<And>items. mset (sv_order X items) = mset items"
    and "ps_mcp_handler S = Some H" "ps_upstream_url S = None" "\<not> ps_forward_proxy_enabled S"
    and "handle_request X S req h = (h', out, r)"
  shows "(\<forall>x\<in>set out. \<exists>c. x = Governed c \<and> entitled (ms_globs (hs_mcp h)) cfg c) \<and>
    governed_by cfg (hs_mcp h') \<and> ms_globs (hs_mcp h') = ms_globs (hs_mcp h)"
proof (cases "discriminate_traffic req")
  case TT_Mcp
  with assms(3,6) have m: "handle_mcp_request X H req h = (h', out, r)" by (simp add: handle_request_def)
  have k: "governed_by cfg (hs_mcp h') \<and> ms_globs (hs_mcp h') = ms_globs (hs_mcp h)"
    using m assms(1) body_keeps_governed [OF assms(1)]
    by (auto simp: handle_mcp_request_def Let_def split: if_splits prod.splits)
  obtain calls where c: "out = map Governed calls" "calls = [] \<or> mediated H cfg (hq_body req) h calls"
    using mcp_request_mediated [OF assms(1,2) m] by (auto split: if_splits)
  then have "\<forall>c\<in>set calls. entitled (ms_globs (hs_mcp h)) cfg c"
    by (auto simp: mediated_def dest: mediated_entitled split: sum.splits)
  with c k show ?thesis by auto
next
  case TT_Http
  with assms(6) have "out = []" "h' = h"
    by (simp_all add: handle_request_def handle_http_request_def closed_no_target [OF assms(4,5)] split: option.splits)
  with assms(1) show ?thesis by simp
qed

lemma serve_requests_entitled:
  assumes "governed_by cfg (hs_mcp h)" "\<And>items. mset (sv_order X items) = mset items"
    and "ps_mcp_handler S = Some H" "ps_upstream_url S = None" "\<not> ps_forward_proxy_enabled S"
    and "serve_requests X S reqs h = (h', out, rs)"
  shows "\<forall>x\<in>set out. \<exists>c. x = Governed c \<and> entitled (ms_globs (hs_mcp h)) cfg c"
  using assms(1,6)
proof (induction reqs arbitrary: h h' out rs)
  case (Cons req reqs)
  obtain h1 out1 r where 1: "handle_request X S req h = (h1, out1, r)" by (metis prod_cases3)
  obtain h2 out2 rs2 where 2: "serve_requests X S reqs h1 = (h2, out2, rs2)" by (metis prod_cases3)
  note e = request_entitled [OF Cons.prems(1) assms(2-5) 1]
  have "out = out1 \<or> out = out1 @ out2" using Cons.prems(2) 1 2 by (auto split: if_splits)
  with e Cons.IH [OF _ 2] show ?case by auto
qed simp

section \<open>Startup\<close>

lemma start_proxy_Inr:
  assumes "start_proxy dbg_error N cli = Inr P"
  shows "\<exists>y h. validate_environment (mn_env N) = Inr () \<and> check_profile (mn_env N) (pp_profile P) = Inr () \<and>
    load_yaml_config N cli = Inr y \<and> start_handler N (pp_profile P) y = Inr h \<and> start_service N cli h = Inr (pp_service P) \<and>
    pp_handler_state P = map_option (\<lambda>(_, st, _). st) h \<and> pp_adapter P = Option.bind h (\<lambda>(_, _, a). a)"
  using assms by (auto simp: start_proxy_def Let_def split: sum.splits if_splits)

lemma factory_no_mock:
  assumes "factory_adapter N = Inr a" "mn_env N ''THOUGHTGATE_APPROVAL_ADAPTER'' \<noteq> Some ''mock''"
  shows "a \<noteq> MockChosen M"
  using assms by (auto simp: factory_adapter_def split: sum.splits)

lemma start_handler_Some:
  assumes "start_handler N Production (Some cfg) = Inr h"
  shows "\<exists>H st a. h = Some (H, st, a) \<and> governed_by cfg (hs_mcp st) \<and> ms_globs (hs_mcp st) = le_globs (mn_loader N) \<and>
    (mn_env N ''THOUGHTGATE_APPROVAL_ADAPTER'' \<noteq> Some ''mock'' \<longrightarrow> (\<forall>M. a \<noteq> Some (MockChosen M)))"
proof -
  obtain cedar b a where c: "create_governance_components N (Some cfg) = Inr (cedar, b, a)"
    and h: "h = Some (\<lparr>ha_config = mcp_handler_config_from_env (mn_env N), ha_reader = mn_reader N, ha_prefix = mn_prefix N,
        ha_uuid = mn_uuid N\<rparr>, with_governance cedar (mn_ext N) b (mcp_handler_config_from_env (mn_env N)) (Some cfg) Production
          (le_globs (mn_loader N)), a)"
    using assms by (auto simp: start_handler_def Let_def split: sum.splits)
  have "mn_env N ''THOUGHTGATE_APPROVAL_ADAPTER'' \<noteq> Some ''mock'' \<Longrightarrow> a \<noteq> Some (MockChosen M)" for M
    using c factory_no_mock [of N]
    by (auto simp: create_governance_components_def Let_def split: sum.splits if_splits)
  with h show ?thesis by (simp add: with_governance_governed) (simp add: with_governance_def)
qed

lemma start_service_keeps:
  assumes "start_service N cli h = Inr S"
  shows "ps_mcp_handler S = map_option fst h" "ps_upstream_url S = cl_upstream_url cli"
    "ps_forward_proxy_enabled S = cl_enable_forward_proxy cli"
  using assms
  by (auto simp: start_service_def Let_def proxy_service_new_def with_forward_proxy_enabled_def with_mcp_handler_def
      split: sum.splits option.splits if_splits)

lemma production_checks:
  assumes "is_production env" "validate_environment env = Inr ()" "check_profile env prof = Inr ()"
  shows "env ''THOUGHTGATE_DEV_MODE'' \<noteq> Some ''true''" "env ''THOUGHTGATE_APPROVAL_ADAPTER'' \<noteq> Some ''mock''" "prof = Production"
proof -
  show "prof = Production" using assms(1,3) by (cases prof) (simp_all add: check_profile_def)
  show "env ''THOUGHTGATE_DEV_MODE'' \<noteq> Some ''true''" "env ''THOUGHTGATE_APPROVAL_ADAPTER'' \<noteq> Some ''mock''"
    using assms(2) unfolding validate_environment_def Let_def assms(1) [unfolded is_production_def, THEN eqTrueI]
    by (simp_all split: if_splits)
qed


definition demo_main_env :: main_env where
  "demo_main_env = \<lparr>mn_env = (\<lambda>n. if n = ''THOUGHTGATE_UPSTREAM'' then Some ''http://tools'' 
        else if n = ''THOUGHTGATE_SLACK_BOT_TOKEN'' then Some ''token'' else None),
     mn_loader = demo_loader, mn_version = ''0.2.0'', mn_started = 0, mn_finished = 5, mn_bind = (\<lambda>_. Inr ()),
     mn_telemetry = (\<lambda>_. Inr ()), mn_url_error = (\<lambda>_. None), mn_build_error = None, mn_parse = (\<lambda>_. Inl ''syntax''),
     mn_parse_batch = (\<lambda>_. Inl ''syntax''), mn_upstream = (\<lambda>_. U_Error (ServiceUnavailable ''down'')),
     mn_cedar = (\<lambda>_. Inr ((\<lambda>_. CD_Forbid ''no policy'' []), (\<lambda>_. Inr PA_Forward))), mn_slack_client = Inr (), mn_slack_pretty = (\<lambda>_. []),
     mn_slack_time = (\<lambda>_. []), mn_ext = demo_ext, mn_codec = pl_codec demo_pipeline, mn_to_lowercase = id, mn_reader = demo_reader,
     mn_prefix = 0, mn_uuid = (\<lambda>_. ''id''), mn_tls = Inr (), mn_health_client = Inr (), mn_head = (\<lambda>_. Inl ''refused'')\<rparr>"

definition demo_cli :: proxy_cli where
  "demo_cli = \<lparr>cl_bind = ''0.0.0.0'', cl_upstream_url = None, cl_admin_bind = ''127.0.0.1'', cl_enable_forward_proxy = False,
     cl_config = Some ''./config.yaml'', cl_profile = PCLI_Production\<rparr>"


end
