(* ===== verification/Wrap_Theorems.thy ===== *)
theory Wrap_Theorems
  imports Wrap_Launch
begin

text \<open>
  What \<open>thoughtgate wrap\<close> guarantees: the configuration of the agent is never lost, whatever call of the
  file system fails, and it is put back on every way out; a rewritten configuration starts nothing but
  the shim and is recognised as rewritten. Also what it does not: files outside the one that is
  rewritten, and a ThoughtGate configuration that does not load.
\<close>

declare map_of_eq_Some_iff [simp del]

section \<open>The guard\<close>

definition guards :: "string \<Rightarrow> string option \<Rightarrow> config_guard \<Rightarrow> fs \<Rightarrow> bool" where
  "guards p original g s \<longleftrightarrow> cg_config_path g = p \<and>
     (cg_backup_path g = None \<and> fs_file p s = original \<or>
      cg_backup_path g = Some (p @ backup_suffix) \<and> fs_file (p @ backup_suffix) s = original)"

definition kept :: "string \<Rightarrow> string option \<Rightarrow> fs \<Rightarrow> bool" where
  "kept p original s \<longleftrightarrow> fs_file p s = original \<or> fs_file (p @ backup_suffix) s = original"

lemma guards_kept: "guards p original g s \<Longrightarrow> kept p original s"
  by (auto simp: guards_def kept_def)

lemma guard_restore_kept:
  assumes "guards p original g s" "guard_restore g s = (s', g', r)"
  shows "kept p original s'"
proof (cases "cg_restored g \<or> cg_backup_path g = None")
  case True
  then have "s' = s" using assms(2) by (auto simp: guard_restore_def Let_def split: if_splits)
  with guards_kept [OF assms(1)] show ?thesis by simp
next
  case False
  then obtain b where b: "cg_backup_path g = Some b" "\<not> cg_restored g" by auto
  then have g: "b = p @ backup_suffix" "fs_file b s = original" "cg_config_path g = p" "b \<noteq> p"
    using assms(1) by (auto simp: guards_def backup_suffix_not_Nil)
  obtain s1 e where c: "fs_copy b p s = (s1, e)" by fastforce
  show ?thesis
  proof (cases e)
    case (Inl x)
    with assms(2) b c g(3) have "s' = s1" by (simp add: guard_restore_def Let_def)
    with fs_copy_frame [OF c, of b] g show ?thesis by (simp add: kept_def)
  next
    case (Inr u)
    with assms(2) b c g(3) have "s' = fst (fs_remove b s1)" by (simp add: guard_restore_def Let_def)
    with fs_copy_ok [of b p s s1 u p] c Inr g show ?thesis by (simp add: kept_def fs_remove_fst)
  qed
qed

lemma guard_restored: "guard_restore g s = (s', g', r) \<Longrightarrow> cg_restored g'"
  by (auto simp: guard_restore_def Let_def split: if_splits option.splits prod.splits sum.splits)

lemma guard_drop_restored: "cg_restored g \<Longrightarrow> guard_drop g s = s"
  by (simp add: guard_drop_def guard_restore_def)

lemma guard_drop_kept: "guards p original g s \<Longrightarrow> kept p original (guard_drop g s)"
  unfolding guard_drop_def by (metis guard_restore_kept prod.collapse)

lemma guard_restore_calm:
  assumes "guards p original g s" "\<not> cg_restored g" "fs_faults s = []" "original \<noteq> None"
  shows "fs_file p (fst (guard_restore g s)) = original"
proof (cases "cg_backup_path g")
  case None
  with assms show ?thesis by (auto simp: guards_def guard_restore_def Let_def)
next
  case (Some b)
  with assms have b: "b = p @ backup_suffix" "fs_file b s = original" "cg_config_path g = p"
    by (auto simp: guards_def)
  then obtain s1 where c: "fs_copy b p s = (s1, Inr ())"
    using fs_copy_calm_ok [OF assms(3), of b p] assms(4) by auto
  with fs_copy_ok [OF c, of p] b assms(2) Some show ?thesis
    by (simp add: guard_restore_def Let_def fs_remove_fst)
qed

lemma guard_drop_calm:
  "guards p original g s \<Longrightarrow> \<not> cg_restored g \<Longrightarrow> fs_faults s = [] \<Longrightarrow> original \<noteq> None \<Longrightarrow>
   fs_file p (guard_drop g s) = original"
  unfolding guard_drop_def by (rule guard_restore_calm)

section \<open>Running the agent\<close>

lemma panic_copy_guards:
  assumes "guards p original g s" "cg_backup_path g = Some (p @ backup_suffix)"
  shows "guards p original g (fst (fs_copy (p @ backup_suffix) (cg_config_path g) s))"
proof -
  obtain s1 r where c: "fs_copy (p @ backup_suffix) (cg_config_path g) s = (s1, r)" by fastforce
  have "cg_config_path g = p" using assms by (simp add: guards_def)
  with assms fs_copy_frame [OF c, of "p @ backup_suffix"] c show ?thesis
    by (auto simp: guards_def)
qed

lemma run_agent_kept:
  assumes "guards p original g s" "cg_backup_path g = Some (p @ backup_suffix)"
  shows "kept p original (wr_fs (run_agent L args g (p @ backup_suffix) gov s))"
proof -
  obtain s1 g1 r where r: "guard_restore g s = (s1, g1, r)" using prod_cases3 by blast
  have k: "kept p original (guard_drop g1 s1)"
    using guard_restore_kept [OF assms(1) r] guard_drop_restored [OF guard_restored [OF r]] by simp
  show ?thesis
    using assms k
    by (auto simp: run_agent_def fails_def Let_def r handle_signal_shutdown_def
        intro: guard_drop_kept panic_copy_guards
        split: sum.splits list.splits agent_event.splits wait_result.splits)
qed

lemma fs_copy_fst_calm: "fs_faults s = [] \<Longrightarrow> fs_faults (fst (fs_copy a b s)) = []"
  by (rule fs_copy_calm [OF prod.collapse [symmetric]])

lemma run_agent_restores:
  assumes "guards p original g s" "cg_backup_path g = Some (p @ backup_suffix)"
    and "\<not> cg_restored g" "fs_faults s = []" "original \<noteq> None" "\<not> wa_no_restore args"
  shows "fs_file p (wr_fs (run_agent L args g (p @ backup_suffix) gov s)) = original"
proof -
  obtain s1 g1 r where r: "guard_restore g s = (s1, g1, r)" using prod_cases3 by blast
  have d: "fs_file p (guard_drop g1 s1) = original"
    using guard_restore_calm [OF assms(1,3-5)] guard_drop_restored [OF guard_restored [OF r]] r by simp
  show ?thesis
    using d assms guard_drop_calm [OF assms(1,3-5)]
      guard_drop_calm [OF panic_copy_guards [OF assms(1,2)] assms(3) fs_copy_fst_calm [OF assms(4)] assms(5)]
    by (auto simp: run_agent_def fails_def Let_def r handle_signal_shutdown_def
        split: sum.splits list.splits agent_event.splits wait_result.splits)
qed

section \<open>Everything before the lock only reads\<close>

lemma parse_with_reads: "parse_with E f p s = (s', r) \<Longrightarrow> fs_file k s' = fs_file k s"
  by (auto simp: parse_with_def read_config_file split: prod.splits sum.splits)

lemma merge_from_reads: "merge_from E other keep entries s = (s', r) \<Longrightarrow> fs_file k s' = fs_file k s"
  by (auto simp: merge_from_def read_config_file fs_exists_file split: option.splits prod.splits bool.splits sum.splits)

lemmas adapter_defs = claude_desktop_adapter_def claude_code_adapter_def cursor_adapter_def vscode_adapter_def
  windsurf_adapter_def zed_adapter_def

lemma parse_servers_reads:
  assumes "ca_parse_servers (adapter_for_agent_type t) E p s = (s', r)"
  shows "fs_file k s' = fs_file k s"
  using assms
  by (cases t)
    (auto simp: adapter_defs parse_with_reads merge_from_reads cursor_parse_servers_def claude_code_parse_servers_def
      read_config_file split: prod.splits sum.splits option.splits)

lemma parse_with_calm [calm]: "parse_with E f p s = (s', r) \<Longrightarrow> fs_faults s = [] \<Longrightarrow> fs_faults s' = []"
  by (auto simp: parse_with_def calm split: prod.splits sum.splits)

lemma merge_from_calm [calm]:
  "merge_from E other keep entries s = (s', r) \<Longrightarrow> fs_faults s = [] \<Longrightarrow> fs_faults s' = []"
  by (auto simp: merge_from_def calm split: option.splits prod.splits bool.splits sum.splits)

lemma parse_servers_calm:
  assumes "ca_parse_servers (adapter_for_agent_type t) E p s = (s', r)" "fs_faults s = []"
  shows "fs_faults s' = []"
  using assms
  by (cases t)
    (auto simp: adapter_defs calm cursor_parse_servers_def claude_code_parse_servers_def
      split: prod.splits sum.splits option.splits)

lemma discover_in_reads: "discover_in d ns s = (s', r) \<Longrightarrow> fs_file k s' = fs_file k s"
  by (auto simp: discover_in_def if_exists_def fs_exists_file split: option.splits prod.splits)

lemma discover_in_calm [calm]: "discover_in d ns s = (s', r) \<Longrightarrow> fs_faults s = [] \<Longrightarrow> fs_faults s' = []"
  by (auto simp: discover_in_def if_exists_def calm split: option.splits prod.splits)

lemma discover_in_exists: "discover_in d ns s = (s', Some p) \<Longrightarrow> fs_file p s \<noteq> None"
  by (auto simp: discover_in_def if_exists_def dest: fs_exists_true split: option.splits prod.splits if_splits)

lemma adapter_discovers:
  "\<exists>d ns. \<forall>s. ca_discover_config_path (adapter_for_agent_type t) E s = discover_in d ns s"
  by (cases t) (auto simp: adapter_defs)

lemma wrap_config_path_reads:
  assumes "wrap_config_path L args (adapter_for_agent_type t) s = (s', r)"
  shows "fs_file k s' = fs_file k s" "fs_faults s = [] \<Longrightarrow> fs_faults s' = []"
    "r = Inr p \<Longrightarrow> fs_file p s \<noteq> None"
proof -
  obtain d ns where d: "\<And>s. ca_discover_config_path (adapter_for_agent_type t) (ln_env L) s = discover_in d ns s"
    using adapter_discovers by metis
  show "fs_file k s' = fs_file k s" "fs_faults s = [] \<Longrightarrow> fs_faults s' = []" "r = Inr p \<Longrightarrow> fs_file p s \<noteq> None"
    using assms
    by (auto simp: wrap_config_path_def d discover_in_reads fs_exists_file calm
        dest: discover_in_exists fs_exists_true split: option.splits prod.splits if_splits)
qed

section \<open>From the lock on\<close>

definition clear_of :: "agent_type \<Rightarrow> wrap_env \<Rightarrow> string \<Rightarrow> bool" where
  "clear_of t E p \<longleftrightarrow> plain_path p \<and> p \<notin> adapter_side t E \<and> p @ backup_suffix \<notin> adapter_side t E"

lemma guard_lock_cases:
  assumes "guard_lock held p s = (s1, r)"
  shows "fs_file p s1 = fs_file p s" "fs_faults s = [] \<Longrightarrow> fs_faults s1 = []"
    "r = Inr g \<Longrightarrow> g = \<lparr>cg_config_path = p, cg_backup_path = None, cg_restored = False\<rparr>"
  using assms
  by (auto simp: guard_lock_def calm fs_write_frame split: prod.splits sum.splits if_splits)

lemma run_locked_guarded:
  assumes "clear_of t (ln_env L) p"
    and "run_locked L args (adapter_for_agent_type t) p servers shim gov port s = w"
  shows "fs_file p (wr_fs w) = fs_file p s \<or>
    (\<exists>g s'. w = run_agent L args g (p @ backup_suffix) gov s' \<and> guards p (fs_file p s) g s' \<and>
       cg_backup_path g = Some (p @ backup_suffix) \<and> cg_restored g = wa_no_restore args \<and>
       (fs_faults s = [] \<longrightarrow> fs_faults s' = []))"
proof -
  obtain s1 r where l: "guard_lock (ln_lock_held L) p s = (s1, r)" by fastforce
  note lock = guard_lock_cases [OF l]
  show ?thesis
  proof (cases r)
    case (Inl e)
    with assms(2) l lock(1) show ?thesis by (auto simp: run_locked_def fails_def)
  next
    case (Inr g)
    note g = lock(3) [OF this]
    let ?opts = "\<lparr>so_server_id = [], so_governance_endpoint = ''http://127.0.0.1:'' @ nat_digits (unat port),
              so_profile = profile_of_cli (wa_profile args),
              so_config_path = (if wa_thoughtgate_config args = [] then None
                                else ln_canonicalize L (wa_thoughtgate_config args))\<rparr>"
    obtain s2 r2 where w: "ca_rewrite_config (adapter_for_agent_type t) (ln_env L) p servers shim ?opts s1 = (s2, r2)"
      by fastforce
    have w': "w = (case r2 of
          Inl e \<Rightarrow> fails (guard_drop g s2) (Some gov) (config_err_to_stdio p e)
        | Inr b \<Rightarrow> run_agent L args (if wa_no_restore args then skip_restore (set_backup b g) else set_backup b g) b gov s2)"
      using assms(2) l w Inr unfolding run_locked_def Let_def by (simp split: sum.splits)
    show ?thesis
    proof (cases r2)
      case e: (Inl e)
      have "fs_file p s2 = fs_file p s"
        using any_rw.failed [of p t "ln_env L"] assms(1) w e lock(1) by (auto simp: clear_of_def)
      then show ?thesis using w' e g by (simp add: fails_def guard_drop_def guard_restore_def Let_def)
    next
      case b: (Inr b)
      have saved: "b = p @ backup_suffix" "fs_file b s2 = fs_file p s"
        using any_rw.saved [of p t "ln_env L"] assms(1) w b lock(1) by (auto simp: clear_of_def)
      moreover have "fs_faults s = [] \<longrightarrow> fs_faults s2 = []"
        using any_rw.quiet [OF w] lock(2) by blast
      ultimately show ?thesis
        using w' b g
        by (intro disjI2 exI [of _ "if wa_no_restore args then skip_restore (set_backup b g) else set_backup b g"]
            exI [of _ s2]) (auto simp: guards_def set_backup_def skip_restore_def)
    qed
  qed
qed

section \<open>The command\<close>

lemma run_wrap_phases:
  assumes "\<not> wa_dry_run args" "wrap_agent_type args = Inr t"
    and "wrap_config_path L args (adapter_for_agent_type t) s = (s1, Inr p)"
    and "ca_parse_servers (adapter_for_agent_type t) (ln_env L) p s1 = (s2, r)"
  shows "wr_fs (run_wrap L args s) = s2 \<or>
    (\<exists>servers shim gov port. r = Inr servers \<and>
       run_wrap L args s = run_locked L args (adapter_for_agent_type t) p servers shim gov port s2)"
  using assms
  by (simp add: run_wrap_def fails_def Let_def split: sum.splits) blast

lemma run_wrap_guarded:
  assumes "\<not> wa_dry_run args" "wrap_agent_type args = Inr t"
    and "snd (wrap_config_path L args (adapter_for_agent_type t) s) = Inr p" "clear_of t (ln_env L) p"
  shows "fs_file p (wr_fs (run_wrap L args s)) = fs_file p s \<or>
    (\<exists>g s' gov. run_wrap L args s = run_agent L args g (p @ backup_suffix) gov s' \<and> guards p (fs_file p s) g s' \<and>
       cg_backup_path g = Some (p @ backup_suffix) \<and> cg_restored g = wa_no_restore args \<and>
       (fs_faults s = [] \<longrightarrow> fs_faults s' = []))"
proof -
  obtain s1 where c: "wrap_config_path L args (adapter_for_agent_type t) s = (s1, Inr p)"
    using assms(3) by (metis prod.collapse)
  obtain s2 r where ps: "ca_parse_servers (adapter_for_agent_type t) (ln_env L) p s1 = (s2, r)" by fastforce
  have f: "fs_file p s2 = fs_file p s" "fs_faults s = [] \<Longrightarrow> fs_faults s2 = []"
    using parse_servers_reads [OF ps] parse_servers_calm [OF ps] wrap_config_path_reads(1,2) [OF c] by auto
  show ?thesis
  proof (cases "wr_fs (run_wrap L args s) = s2")
    case True
    then show ?thesis using f by simp
  next
    case False
    then obtain servers shim gov port where
      w: "run_wrap L args s = run_locked L args (adapter_for_agent_type t) p servers shim gov port s2"
      using run_wrap_phases [OF assms(1,2) c ps] by blast
    show ?thesis using run_locked_guarded [OF assms(4) refl, of args servers shim gov port s2] f w by auto
  qed
qed

lemma config_path_exists:
  "snd (wrap_config_path L args (adapter_for_agent_type t) s) = Inr p \<Longrightarrow> fs_file p s \<noteq> None"
  using wrap_config_path_reads(3) by (metis prod.collapse)

definition demo_agent_config :: json where
  "demo_agent_config = JObject [(''theme'', JString ''dark''), (''mcpServers'', JObject
     [(''db'', JObject [(''command'', JString ''npx''), (''args'', JArray [JString ''server-db''])])])]"

definition demo_wrap_env :: wrap_env where
  "demo_wrap_env = \<lparr>we_var = (\<lambda>_. None), we_cwd = Some ''/w'', we_home_dir = Some ''/h'',
     we_config_dir = Some ''/c'', we_utf8 = (\<lambda>_. True),
     we_parse = (\<lambda>s. if s = ''original'' then Inr demo_agent_config else Inl ''not JSON''),
     we_pretty = (\<lambda>_. Inr ''rewritten'')\<rparr>"

definition demo_launch :: launch_env where
  "demo_launch = \<lparr>ln_env = demo_wrap_env, ln_current_exe = Some ''/b/thoughtgate'', ln_canonicalize = Some,
     ln_which = Inl ''none'', ln_temp_dir = ''/tmp'', ln_diff = (\<lambda>a b. a @ b),
     ln_loader = demo_loader\<lparr>le_exists := (\<lambda>_. False)\<rparr>,
     ln_identity = \<lparr>ie_var = (\<lambda>_. None), ie_read = (\<lambda>_. Inl ''none''), ie_base64 = (\<lambda>_. None),
       ie_json = (\<lambda>_. None)\<rparr>,
     ln_identity_joined = Inr (), ln_cedar = (\<lambda>_. Inl ''none''), ln_slack_client = Inl ''none'',
     ln_slack_pretty = (\<lambda>_. []), ln_slack_time = (\<lambda>_. []),
     ln_ext = \<lparr>x_sha256 = (\<lambda>s. s), x_to_string = (\<lambda>_. None), x_from_std = (\<lambda>_. None), x_debug_duration = (\<lambda>_. [])\<rparr>,
     ln_codec = \<lparr>cd_to_vec = (\<lambda>_. Inr ''{}''), cd_uri_error = (\<lambda>_. None), cd_parse_partial = (\<lambda>_. Inl ''none'')\<rparr>,
     ln_to_lowercase = (\<lambda>s. s), ln_bind = (\<lambda>_. Inr 4000), ln_lock_held = False,
     ln_sigterm = Inr (), ln_sigint = Inr (), ln_spawn = Inr (), ln_event = AgentExited (Some 0),
     ln_shutdown_posted = True, ln_exit_wait = W_Exited None, ln_kill_wait = Inr None\<rparr>"

definition demo_args :: wrap_args where
  "demo_args = \<lparr>wa_agent_type = None, wa_config_path = None, wa_profile = CLI_Production,
     wa_thoughtgate_config = ''thoughtgate.yaml'', wa_governance_port = 0, wa_no_restore = False,
     wa_dry_run = False, wa_verbose = False, wa_command = [''/usr/bin/claude-desktop'']\<rparr>"

definition demo_path :: string where
  "demo_path = ''/c/Claude/claude_desktop_config.json''"

definition demo_fs :: "fault list \<Rightarrow> fs" where
  "demo_fs faults = \<lparr>fs_files = [(demo_path, ''original'')], fs_faults = faults\<rparr>"

text \<open>C7: The configuration of the agent is never lost. Whichever calls of the file system fail while
  \<open>thoughtgate wrap\<close> runs, and however it ends, the bytes the configuration file held at the start are
  afterwards in that file or in its backup.\<close>

theorem wrap_never_loses_config:
  assumes "\<not> wa_dry_run args" "wrap_agent_type args = Inr t"
    and "snd (wrap_config_path L args (adapter_for_agent_type t) s) = Inr p" "clear_of t (ln_env L) p"
  shows "\<exists>original. fs_file p s = Some original \<and>
    (fs_file p (wr_fs (run_wrap L args s)) = Some original \<or>
     fs_file (p @ backup_suffix) (wr_fs (run_wrap L args s)) = Some original)"
  using run_wrap_guarded [OF assms] config_path_exists [OF assms(3)] run_agent_kept
  by (fastforce simp: kept_def)

theorem wrap_never_loses_config_witness:
  "\<exists>original. fs_file demo_path (demo_fs [NoFault, NoFault, NoFault, NoFault, Fault ''disk full'' (Some ''orig'')]) = Some original \<and>
    (fs_file demo_path (wr_fs (run_wrap demo_launch demo_args
       (demo_fs [NoFault, NoFault, NoFault, NoFault, Fault ''disk full'' (Some ''orig'')]))) = Some original \<or>
     fs_file (demo_path @ backup_suffix) (wr_fs (run_wrap demo_launch demo_args
       (demo_fs [NoFault, NoFault, NoFault, NoFault, Fault ''disk full'' (Some ''orig'')]))) = Some original)"
proof (rule wrap_never_loses_config [where t = AT_ClaudeDesktop])
  show "\<not> wa_dry_run demo_args" by code_simp
  show "wrap_agent_type demo_args = Inr AT_ClaudeDesktop" by code_simp
  show "snd (wrap_config_path demo_launch demo_args (adapter_for_agent_type AT_ClaudeDesktop)
       (demo_fs [NoFault, NoFault, NoFault, NoFault, Fault ''disk full'' (Some ''orig'')])) = Inr demo_path"
    by code_simp
  show "clear_of AT_ClaudeDesktop (ln_env demo_launch) demo_path"
    by (simp add: clear_of_def adapter_side_def) code_simp
qed

text \<open>C21: Without faults, and unless \<open>--no-restore\<close> is given, the configuration file holds its original
  bytes again when \<open>thoughtgate wrap\<close> ends: after the agent exits or is stopped by a signal, and on every error,
  before or after the rewrite.\<close>

theorem wrap_restores_config:
  assumes "\<not> wa_dry_run args" "wrap_agent_type args = Inr t"
    and "snd (wrap_config_path L args (adapter_for_agent_type t) s) = Inr p" "clear_of t (ln_env L) p"
    and "fs_faults s = []" "\<not> wa_no_restore args"
  shows "fs_file p (wr_fs (run_wrap L args s)) = fs_file p s"
  using run_wrap_guarded [OF assms(1-4)] config_path_exists [OF assms(3)] run_agent_restores assms(5,6)
  by fastforce

theorem wrap_restores_config_witness:
  "fs_file demo_path (wr_fs (run_wrap demo_launch demo_args (demo_fs []))) = fs_file demo_path (demo_fs []) \<and>
   wr_agent (run_wrap demo_launch demo_args (demo_fs [])) = Some (''/usr/bin/claude-desktop'', [])"
proof
  show "fs_file demo_path (wr_fs (run_wrap demo_launch demo_args (demo_fs []))) = fs_file demo_path (demo_fs [])"
  proof (rule wrap_restores_config [where t = AT_ClaudeDesktop])
    show "\<not> wa_dry_run demo_args" "\<not> wa_no_restore demo_args" "fs_faults (demo_fs []) = []" by code_simp+
    show "wrap_agent_type demo_args = Inr AT_ClaudeDesktop" by code_simp
    show "snd (wrap_config_path demo_launch demo_args (adapter_for_agent_type AT_ClaudeDesktop) (demo_fs [])) =
        Inr demo_path" by code_simp
    show "clear_of AT_ClaudeDesktop (ln_env demo_launch) demo_path"
      by (simp add: clear_of_def adapter_side_def) code_simp
  qed
  show "wr_agent (run_wrap demo_launch demo_args (demo_fs [])) = Some (''/usr/bin/claude-desktop'', [])"
    by code_simp
qed

end
