(* ===== verification/Wrap_Governed.thy ===== *)
theory Wrap_Governed
  imports Wrap_Theorems
begin

text \<open>
  The rewritten configuration: which value the adapters write, that reading it back gives every server
  with the shim as its command and its own command line behind the separator, that a second rewrite is
  refused, and how expansion treats a text.
\<close>

declare map_of_eq_Some_iff [simp del]

section \<open>Without faults a rewrite succeeds\<close>

lemma atomic_write_succeeds:
  assumes "fs_faults s = []"
  shows "\<exists>s'. atomic_write p c s = (s', Inr ())"
proof -
  have "fs_write (with_extension p ''tmp'') c s = (put_file (with_extension p ''tmp'') c s, Inr ())"
    using assms by (simp add: fs_write_def take_fault_calm)
  then show ?thesis
    using assms by (auto simp: atomic_write_def Let_def fs_rename_def take_fault_calm fs_simps)
qed

lemma fs_read_succeeds: "fs_faults s = [] \<Longrightarrow> fs_file p s = Some b \<Longrightarrow> fs_read p s = (s, Inr b)"
  by (simp add: fs_read_def take_fault_calm)

lemma read_config_succeeds:
  "fs_faults s = [] \<Longrightarrow> fs_file p s = Some b \<Longrightarrow> we_utf8 E b \<Longrightarrow> we_parse E b = Inr v \<Longrightarrow>
   read_config E p s = (s, Inr v)"
  by (simp add: read_config_def read_to_string_def fs_read_succeeds)

lemma backup_config_succeeds:
  assumes "fs_faults s = []" "fs_file p s = Some b"
  shows "\<exists>s'. backup_config p s = (s', Inr (p @ backup_suffix)) \<and> fs_faults s' = []"
proof -
  obtain s1 where a: "atomic_write (p @ backup_suffix) b s = (s1, Inr ())"
    using atomic_write_succeeds [OF assms(1)] by blast
  have "fs_faults s1 = []" "fs_file (p @ backup_suffix) s1 = Some b"
    using atomic_write_calm [OF a assms(1)] atomic_write_ok [OF a] by auto
  with assms a show ?thesis by (simp add: backup_config_def Let_def fs_read_succeeds)
qed

lemma rewrite_with_succeeds:
  assumes "fs_faults s = []" "fs_file p s = Some b" "we_utf8 E b" "we_parse E b = Inr config"
    and "\<not> managed config" "change config = Inr config'" "we_pretty E config' = Inr new"
  shows "\<exists>s'. rewrite_with E managed change p s = (s', Inr (p @ backup_suffix)) \<and> fs_faults s' = [] \<and>
    fs_file p s' = Some new"
proof -
  obtain s1 where k: "backup_config p s = (s1, Inr (p @ backup_suffix))" "fs_faults s1 = []"
    using backup_config_succeeds [OF assms(1,2)] by blast
  obtain s2 where w: "atomic_write p new s1 = (s2, Inr ())"
    using atomic_write_succeeds [OF k(2)] by blast
  show ?thesis
    using assms k w atomic_write_calm [OF w k(2)] atomic_write_ok [OF w]
    by (simp add: rewrite_with_def read_config_succeeds write_config_def)
qed

section \<open>The servers after a rewrite\<close>

text \<open>\<open>sel\<close> gives the entry that was parsed for a server, if any.\<close>

definition change_server ::
  "(string \<times> json \<Rightarrow> mcp_server_entry option) \<Rightarrow> (mcp_server_entry \<Rightarrow> (string \<times> json) list \<Rightarrow> (string \<times> json) list) \<Rightarrow>
   string \<times> json \<Rightarrow> string \<times> json" where
  "change_server sel f x =
     (case (sel x, snd x) of (Some e, JObject m) \<Rightarrow> (fst x, JObject (f e m)) | _ \<Rightarrow> x)"

lemma update_middle:
  "i \<notin> fst ` set ds \<Longrightarrow> AList.update i y (ds @ (i, x) # rs) = ds @ (i, y) # rs"
  by (induction ds) auto

lemma map_of_middle: "i \<notin> fst ` set ds \<Longrightarrow> map_of (ds @ (i, x) # rs) i = Some x"
  by (induction ds) auto

lemma rewrite_servers_append:
  assumes sel: "\<And>x e. sel x = Some e \<Longrightarrow> me_id e = fst x \<and> (\<exists>m. snd x = JObject m)"
  shows "distinct (map fst (ds @ rs)) \<Longrightarrow>
    rewrite_servers f (List.map_filter sel rs) (ds @ rs) = Inr (ds @ map (change_server sel f) rs)"
proof (induction rs arbitrary: ds)
  case Nil
  then show ?case by (simp add: List.map_filter_def)
next
  case (Cons x rs)
  obtain i v where x: "x = (i, v)" by fastforce
  have fresh: "i \<notin> fst ` set ds" using Cons.prems x by auto
  have dist: "distinct (map fst ((ds @ [y]) @ rs))" if "fst y = i" for y
    using Cons.prems x that by auto
  show ?case
  proof (cases "sel x")
    case None
    with Cons.IH [of "ds @ [x]"] dist [of x] x show ?thesis
      by (simp add: List.map_filter_def change_server_def)
  next
    case (Some e)
    with sel [of x e] x obtain m where m: "v = JObject m" "me_id e = i" by auto
    with Cons.IH [of "ds @ [(i, JObject (f e m))]"] dist [of "(i, JObject (f e m))"] Some x fresh show ?thesis
      by (simp add: List.map_filter_def change_server_def update_middle map_of_middle del: map_of_append)
  qed
qed

lemmas rewrite_servers_all = rewrite_servers_append [where ds = "[]", simplified]

text \<open>The fields of a changed server.\<close>

lemma put_shim_vars_lookup: "k \<noteq> ''env'' \<Longrightarrow> map_of (put_shim_vars opts e m) k = map_of m k"
  by (auto simp: put_shim_vars_def AList.update_conv' split: option.splits json.splits)

lemma shim_entry_lookup:
  "map_of (shim_entry shim opts e m) ''command'' = Some (JString shim)"
  "map_of (shim_entry shim opts e m) ''args'' = Some (JArray (map JString (shim_args opts e)))"
  "k \<notin> {''command'', ''args'', ''env''} \<Longrightarrow> map_of (shim_entry shim opts e m) k = map_of m k"
  by (simp_all add: shim_entry_def put_shim_vars_lookup AList.update_conv')

lemma map_filter_strings: "List.map_filter as_str (map JString xs) = xs"
  by (induction xs) (auto simp: List.map_filter_def as_str_def)

lemma shim_entry_fields:
  "field_str ''command'' (JObject (shim_entry shim opts e m)) = Some shim"
  "server_args (JObject (shim_entry shim opts e m)) = shim_args opts e"
  "server_enabled (JObject (shim_entry shim opts e m)) = server_enabled (JObject m)"
  by (simp_all add: field_str_def server_args_def server_enabled_def jget_def shim_entry_lookup as_str_def
      map_filter_strings)

section \<open>Reading back\<close>

definition entry_of :: "string \<times> json \<Rightarrow> mcp_server_entry option" where
  "entry_of x = (case parse_server x of Inr e \<Rightarrow> Some e | Inl _ \<Rightarrow> None)"

lemma entry_of_Some:
  assumes "entry_of x = Some e"
  shows "me_id e = fst x" "\<exists>m. snd x = JObject m"
  using assms
  by (auto simp: entry_of_def parse_server_def field_str_def jget_def
      split: sum.splits prod.splits option.splits json.splits)

lemma parsed_entries:
  "collect_results (map parse_server obj) = Inr servers \<Longrightarrow> List.map_filter entry_of obj = servers"
  by (induction obj arbitrary: servers)
    (auto simp: List.map_filter_def entry_of_def collect_results_Inr_iff split: sum.splits)

lemma parse_changed_server:
  assumes "parse_server x = Inr e"
  shows "\<exists>e'. parse_server (change_server entry_of (shim_entry shim opts) x) = Inr e' \<and>
    (me_id e', me_command e', me_args e', me_enabled e') = (me_id e, shim, shim_args opts e, me_enabled e)"
proof -
  have e: "entry_of x = Some e" using assms by (simp add: entry_of_def)
  obtain m where m: "snd x = JObject m" using entry_of_Some(2) [OF e] by blast
  show ?thesis
    using assms e m by (cases x) (auto simp: parse_server_def change_server_def shim_entry_fields split: option.splits)
qed

lemma collect_results_Cons_Inr:
  "collect_results (r # rs) = Inr xs \<longleftrightarrow> (\<exists>y ys. r = Inr y \<and> collect_results rs = Inr ys \<and> xs = y # ys)"
  by (auto simp: collect_results_Inr_iff Cons_eq_map_conv)

lemma parse_changed_servers:
  assumes "collect_results (map parse_server obj) = Inr servers"
  shows "\<exists>servers'. collect_results (map parse_server (map (change_server entry_of (shim_entry shim opts)) obj)) = Inr servers' \<and>
    map (\<lambda>e. (me_id e, me_command e, me_args e, me_enabled e)) servers' =
    map (\<lambda>e. (me_id e, shim, shim_args opts e, me_enabled e)) servers"
  using assms
proof (induction obj arbitrary: servers)
  case (Cons x obj)
  then obtain e rest where x: "parse_server x = Inr e" "collect_results (map parse_server obj) = Inr rest"
    "servers = e # rest"
    by (auto simp: collect_results_Cons_Inr)
  from Cons.IH [OF x(2)] parse_changed_server [OF x(1)] x(3) show ?case
    by (fastforce simp: collect_results_Cons_Inr)
qed simp

lemma rewrite_mcp_spec:
  assumes "json_wf config" "parse_mcp_servers_key config key = Inr servers"
  obtains config' servers' where
    "rewrite_mcp_servers_key config key servers shim opts = Inr config'"
    "parse_mcp_servers_key config' key = Inr servers'"
    "map (\<lambda>e. (me_id e, me_command e, me_args e, me_enabled e)) servers' =
     map (\<lambda>e. (me_id e, shim, shim_args opts e, me_enabled e)) servers"
    "\<And>k. k \<noteq> key \<Longrightarrow> jget k config' = jget k config"
    "servers \<noteq> [] \<Longrightarrow> detect_double_wrap config' key shim"
proof -
  from assms(2) obtain c obj where c: "config = JObject c" "map_of c key = Some (JObject obj)"
    and ps: "collect_results (map parse_server obj) = Inr servers"
    by (auto simp: parse_mcp_servers_key_def jget_def split: option.splits json.splits bind_splits
        elim!: as_object.elims)
  have "json_wf (JObject obj)" using json_wf_lookup assms(1) c by blast
  then have d: "distinct (map fst obj)" by simp
  let ?obj' = "map (change_server entry_of (shim_entry shim opts)) obj"
  let ?config' = "JObject (AList.update key (JObject ?obj') c)"
  have rw: "rewrite_mcp_servers_key config key servers shim opts = Inr ?config'"
    using rewrite_servers_all [of entry_of obj "shim_entry shim opts"] entry_of_Some d c parsed_entries [OF ps]
    by (simp add: rewrite_mcp_servers_key_def rewrite_key_def)
  obtain servers' where ps': "collect_results (map parse_server ?obj') = Inr servers'"
    "map (\<lambda>e. (me_id e, me_command e, me_args e, me_enabled e)) servers' =
     map (\<lambda>e. (me_id e, shim, shim_args opts e, me_enabled e)) servers"
    using parse_changed_servers [OF ps] by blast
  have "detect_double_wrap ?config' key shim" if ne: "servers \<noteq> []"
  proof -
    obtain x rest where obj: "obj = x # rest" using ps ne by (cases obj) (auto simp: collect_results_Inr_iff)
    then obtain e where e: "parse_server x = Inr e" using ps by (auto simp: collect_results_Cons_Inr)
    obtain m where "entry_of x = Some e" "snd x = JObject m"
      using e entry_of_Some(2) [of x e] by (auto simp: entry_of_def)
    with obj show ?thesis
      by (cases x)
        (simp add: detect_double_wrap_def jget_def AList.update_conv' change_server_def wrapped_server_def
          shim_entry_fields opt_holds_def is_shim_command_def)
  qed
  moreover have "jget k ?config' = jget k config" if "k \<noteq> key" for k
    using that c by (simp add: jget_def AList.update_conv')
  moreover have "parse_mcp_servers_key ?config' key = Inr servers'"
    using ps'(1) by (simp add: parse_mcp_servers_key_def jget_def AList.update_conv')
  ultimately show thesis using that rw ps'(2) by blast
qed

section \<open>The rewritten file\<close>

lemma standard_rewrite_spec:
  assumes "fs_faults s = []" "fs_file p s = Some old" "we_utf8 E old" "we_parse E old = Inr config"
    and "json_wf config" "parse_mcp_servers_key config key = Inr servers" "\<not> detect_double_wrap config key shim"
    and "\<And>config'. rewrite_mcp_servers_key config key servers shim opts = Inr config' \<Longrightarrow>
      we_pretty E config' = Inr new \<and> we_utf8 E new \<and> we_parse E new = Inr config'"
  obtains s' config' servers' where
    "standard_rewrite E p key servers shim opts s = (s', Inr (p @ backup_suffix))"
    "fs_faults s' = []" "fs_file p s' = Some new" "we_utf8 E new" "we_parse E new = Inr config'"
    "parse_mcp_servers_key config' key = Inr servers'"
    "map (\<lambda>e. (me_id e, me_command e, me_args e, me_enabled e)) servers' =
     map (\<lambda>e. (me_id e, shim, shim_args opts e, me_enabled e)) servers"
    "\<And>k. k \<noteq> key \<Longrightarrow> jget k config' = jget k config"
    "servers \<noteq> [] \<Longrightarrow> detect_double_wrap config' key shim"
proof -
  obtain config' servers' where r: "rewrite_mcp_servers_key config key servers shim opts = Inr config'"
    and spec: "parse_mcp_servers_key config' key = Inr servers'"
      "map (\<lambda>e. (me_id e, me_command e, me_args e, me_enabled e)) servers' =
       map (\<lambda>e. (me_id e, shim, shim_args opts e, me_enabled e)) servers"
      "\<And>k. k \<noteq> key \<Longrightarrow> jget k config' = jget k config"
      "servers \<noteq> [] \<Longrightarrow> detect_double_wrap config' key shim"
    by (rule rewrite_mcp_spec [OF assms(5,6), of shim opts]) blast
  note printed = assms(8) [OF r]
  obtain s' where "standard_rewrite E p key servers shim opts s = (s', Inr (p @ backup_suffix))"
    "fs_faults s' = []" "fs_file p s' = Some new"
    using rewrite_with_succeeds [OF assms(1-4), where managed = "\<lambda>config. detect_double_wrap config key shim"
        and change = "\<lambda>config. rewrite_mcp_servers_key config key servers shim opts"] assms(7) r printed
    by (auto simp: standard_rewrite_def)
  with that spec printed show thesis by blast
qed

definition demo_opts :: shim_options where
  "demo_opts = \<lparr>so_server_id = [], so_governance_endpoint = ''http://127.0.0.1:4000'', so_profile = Production,
     so_config_path = None\<rparr>"

definition demo_servers :: "mcp_server_entry list" where
  "demo_servers = [\<lparr>me_id = ''db'', me_command = ''npx'', me_args = [''server-db''], me_env = None, me_enabled = True\<rparr>]"

definition demo_rewritten :: json where
  "demo_rewritten = (case rewrite_mcp_servers_key demo_agent_config ''mcpServers'' demo_servers ''/b/thoughtgate'' demo_opts of
     Inr v \<Rightarrow> v | Inl _ \<Rightarrow> JNull)"

definition demo_codec_env :: wrap_env where
  "demo_codec_env = demo_wrap_env\<lparr>we_parse := (\<lambda>s. if s = ''original'' then Inr demo_agent_config else Inr demo_rewritten)\<rparr>"



text \<open>A configuration that has been rewritten is not rewritten again: the second attempt is refused and
  changes no file, so the backup still holds the original.\<close>

lemma second_rewrite_refused:
  assumes "fs_faults s = []" "fs_file p s = Some old" "we_utf8 E old" "we_parse E old = Inr config"
    and "json_wf config" "parse_mcp_servers_key config ''mcpServers'' = Inr servers" "servers \<noteq> []"
    and "\<not> detect_double_wrap config ''mcpServers'' shim"
    and "\<And>config'. rewrite_mcp_servers_key config ''mcpServers'' servers shim opts = Inr config' \<Longrightarrow>
      we_pretty E config' = Inr new \<and> we_utf8 E new \<and> we_parse E new = Inr config'"
  shows "\<exists>s'. ca_rewrite_config claude_desktop_adapter E p servers shim opts s = (s', Inr (p @ backup_suffix)) \<and>
    (\<forall>servers' opts'. ca_rewrite_config claude_desktop_adapter E p servers' shim opts' s' = (s', Inl WE_AlreadyManaged))"
  by (rule standard_rewrite_spec [OF assms(1-6,8), of opts new], fact assms(9))
    (auto simp: claude_desktop_adapter_def standard_rewrite_def assms(7) rewrite_with_managed)

end
