(* ===== verification/Wrap_Limits.thy ===== *)
theory Wrap_Limits
  imports Wrap_Governed
begin

text \<open>
  The limits of what \<open>thoughtgate wrap\<close> controls: which files it leaves alone, among them configurations that
  also start servers; what a dry run writes; and which governance a configuration gives, or fails to give.
\<close>

declare map_of_eq_Some_iff [simp del]

section \<open>Expansion\<close>

lemma not_sublist_Cons:
  "\<not> sublist xs (c # cs) \<Longrightarrow> \<not> sublist xs cs" "\<not> sublist xs (c # cs) \<Longrightarrow> \<not> prefix xs (c # cs)"
  by (auto simp: sublist_Cons_right)

text \<open>A text without a reference is its own expansion.\<close>

lemma expand_vars_plain: "\<not> sublist ''${'' s \<Longrightarrow> expand_vars var req s = Inr s"
proof (induction s)
  case (Cons c cs)
  have "\<not> (c = CHR ''$'' \<and> cs \<noteq> [] \<and> hd cs = CHR ''{'')"
    using not_sublist_Cons(2) [OF Cons.prems] by (cases cs) auto
  moreover have "expand_vars var req cs = Inr cs"
    by (rule Cons.IH [OF not_sublist_Cons(1) [OF Cons.prems]])
  ultimately show ?case
    by (subst expand_vars.simps(2), subst if_not_P) (assumption, simp del: expand_vars.simps)
qed simp

section \<open>Only the configuration is restored\<close>

lemma guard_restore_frame:
  assumes "guard_restore g s = (s', g', r)" "k \<noteq> cg_config_path g" "cg_backup_path g \<noteq> Some k"
  shows "fs_file k s' = fs_file k s"
  using assms fs_copy_frame
  by (fastforce simp: guard_restore_def Let_def fs_remove_fst
      split: if_splits option.splits prod.splits sum.splits)

lemma guard_restore_paths:
  assumes "guard_restore g s = (s', g', r)"
  shows "cg_config_path g' = cg_config_path g" "cg_backup_path g' = cg_backup_path g"
  using assms
  by (auto simp: guard_restore_def Let_def split: if_splits option.splits prod.splits sum.splits)

lemma guard_drop_frame:
  "k \<noteq> cg_config_path g \<Longrightarrow> cg_backup_path g \<noteq> Some k \<Longrightarrow> fs_file k (guard_drop g s) = fs_file k s"
  unfolding guard_drop_def by (metis guard_restore_frame prod.collapse)

text \<open>The files of a project-level configuration next to the one of the user.\<close>

definition cursor_demo_path :: string where
  "cursor_demo_path = ''/h/.cursor/mcp.json''"

definition cursor_demo_fs :: fs where
  "cursor_demo_fs = \<lparr>fs_files = [(cursor_demo_path, ''original''), (''/w/.cursor/mcp.json'', ''original'')], fs_faults = []\<rparr>"

definition cursor_demo_args :: wrap_args where
  "cursor_demo_args = demo_args\<lparr>wa_command := [''cursor'']\<rparr>"

text \<open>While and after the agent runs, only the configuration file and its backup change. What else the rewrite
  changed stays: the configuration of the project that the Cursor adapter also rewrites is still
  rewritten after \<open>thoughtgate wrap\<close> has ended.\<close>

lemma agent_run_restores_only_config:
  assumes "cg_backup_path g = Some b" "k \<noteq> cg_config_path g" "k \<noteq> b"
  shows "fs_file k (wr_fs (run_agent L args g b gov s)) = fs_file k s"
proof -
  obtain s1 g1 r where r: "guard_restore g s = (s1, g1, r)" using prod_cases3 by blast
  have "fs_file k (guard_drop g1 s1) = fs_file k s"
    using guard_restore_frame [OF r] guard_restore_paths [OF r] guard_drop_frame [of k g1 s1] assms by simp
  moreover have "fs_file k (fst (fs_copy b (cg_config_path g) s)) = fs_file k s"
    using fs_copy_frame [OF prod.collapse [symmetric]] assms(2) by blast
  ultimately show ?thesis
    using assms
    by (simp add: run_agent_def fails_def Let_def r handle_signal_shutdown_def guard_drop_frame
        split: sum.splits list.splits agent_event.splits wait_result.splits)
qed

section \<open>Servers of a project in Claude Code\<close>

definition mcp_json_fs :: fs where
  "mcp_json_fs = \<lparr>fs_files = [(''/h/.claude.json'', ''{}''), (''/w/.mcp.json'', ''original'')], fs_faults = []\<rparr>"

definition mcp_json_env :: wrap_env where
  "mcp_json_env = demo_wrap_env\<lparr>we_parse := (\<lambda>s. if s = ''original'' then Inr demo_agent_config else Inr (JObject [])),
     we_pretty := (\<lambda>_. Inr ''{}'')\<rparr>"

text \<open>The servers that Claude Code takes from the project's \<open>.mcp.json\<close> are read by the adapter but not rewritten:
  the rewrite leaves that file as it is, so the agent starts them without the shim.\<close>

lemma mcp_json_servers_not_rewritten:
  assumes "ca_rewrite_config claude_code_adapter E p servers shim opts s = (s', r)"
    and "we_cwd E = Some cwd" "path_join cwd ''.mcp.json'' \<notin> touched p"
  shows "fs_file (path_join cwd ''.mcp.json'') s' = fs_file (path_join cwd ''.mcp.json'') s"
  using code_rw.frame [OF assms(1,3)] by simp

section \<open>Dry run\<close>

definition dry_dir :: "launch_env \<Rightarrow> string" where
  "dry_dir L = path_join (ln_temp_dir L) ''thoughtgate-dry-run''"

definition in_dir :: "string \<Rightarrow> string \<Rightarrow> bool" where
  "in_dir d p \<longleftrightarrow> take (length d + 1) p = d @ ''/''"

lemma in_dirI: "in_dir d (d @ CHR ''/'' # x)"
  by (simp add: in_dir_def)

lemma with_extension_config: "with_extension (d @ ''/config.json'') ''tmp'' = d @ ''/config.tmp''"
  by (simp add: with_extension_def file_name_def rev_name_def dir_part_def stem_of_def)

lemma with_extension_config_backup:
  "with_extension (d @ ''/config.json'' @ backup_suffix) ''tmp'' = d @ ''/config.json.tmp''"
  by (simp add: with_extension_def file_name_def rev_name_def dir_part_def stem_of_def backup_suffix_def)

lemma dry_config: "path_join (dry_dir L) ''config.json'' = dry_dir L @ ''/config.json''"
  by (simp add: dry_dir_def path_join_def)

lemma touched_dry: "k \<in> touched (path_join (dry_dir L) ''config.json'') \<Longrightarrow> in_dir (dry_dir L) k"
  using with_extension_config_backup [of "dry_dir L"]
  by (auto simp: touched_def dry_config with_extension_config in_dirI)

lemma fs_remove_dir_all_frame: "\<not> in_dir d k \<Longrightarrow> fs_file k (fs_remove_dir_all d s) = fs_file k s"
proof -
  assume "\<not> in_dir d k"
  then have "map_of (filter (\<lambda>(p, _). take (length d + 1) p \<noteq> d @ ''/'') xs) k = map_of xs k"
    for xs :: "(string \<times> string) list"
    by (induction xs) (auto simp: in_dir_def)
  then show ?thesis
    by (auto simp: fs_remove_dir_all_def fs_file_def take_fault_file [unfolded fs_file_def]
        split: prod.splits fault.splits)
qed

lemma read_to_string_file: "read_to_string E p s = (s', r) \<Longrightarrow> fs_file k s' = fs_file k s"
  by (auto simp: read_to_string_def fs_read_file split: prod.splits sum.splits)

lemma fs_create_dir_all_file: "fs_create_dir_all s = (s', r) \<Longrightarrow> fs_file k s' = fs_file k s"
  by (auto simp: fs_create_dir_all_def take_fault_file split: prod.splits fault.splits)

lemma run_dry_run_frame:
  assumes "run_dry_run L (adapter_for_agent_type t) p servers shim prof s = (s', out, r)"
    and "\<not> in_dir (dry_dir L) k" "k \<notin> adapter_side t (ln_env L)"
  shows "fs_file k s' = fs_file k s"
proof -
  have t: "k \<notin> touched (path_join (dry_dir L) ''config.json'')" using touched_dry assms(2) by blast
  then have "k \<noteq> path_join (dry_dir L) ''config.json''" by (auto simp: touched_def)
  with assms t any_rw.frame [of t "ln_env L", OF _ t assms(3)] show ?thesis
    by (auto simp: run_dry_run_def Let_def dry_dir_def [symmetric] read_to_string_file fs_create_dir_all_file
        fs_copy_frame fs_remove_dir_all_frame split: prod.splits sum.splits)
qed

text \<open>A dry run writes only under its own temporary directory, whatever fails; the Cursor adapter is the exception,
  which also rewrites the configuration of the project (\<open>adapter_side\<close> names its files).\<close>

lemma dry_run_writes_only_temp:
  assumes "wa_dry_run args" "wrap_agent_type args = Inr t"
    and "\<not> in_dir (dry_dir L) k" "k \<notin> adapter_side t (ln_env L)"
  shows "fs_file k (wr_fs (run_wrap L args s)) = fs_file k s \<and> wr_agent (run_wrap L args s) = None"
proof -
  obtain s1 r where c: "wrap_config_path L args (adapter_for_agent_type t) s = (s1, r)" by fastforce
  note f = wrap_config_path_reads(1) [OF c, of k]
  show ?thesis
  proof (cases r)
    case (Inl e)
    with assms c f show ?thesis by (simp add: run_wrap_def fails_def Let_def)
  next
    case (Inr p)
    obtain s2 r2 where ps: "ca_parse_servers (adapter_for_agent_type t) (ln_env L) p s1 = (s2, r2)" by fastforce
    note f2 = parse_servers_reads [OF ps, of k]
    show ?thesis
      using assms c f Inr ps f2 run_dry_run_frame [OF _ assms(3,4)]
      by (auto simp: run_wrap_def fails_def Let_def split: sum.splits prod.splits)
  qed
qed

section \<open>Governance\<close>

text \<open>C23: A ThoughtGate configuration that exists but cannot be read, parsed or validated does not stop the wrapper, in
  any profile: the governance service starts without an evaluator and answers every request, including
  calls of tools, with permission to forward.\<close>

theorem invalid_config_forwards_everything:
  assumes "path \<noteq> []" "le_exists (ln_loader L) path" "load_and_validate (ln_loader L) path v0_2 = Inl e"
  shows "\<exists>gov. setup_governance L (load_tg_config L path) prof path = Inr (gov, None) \<and>
    (\<forall>V req. evaluate_handler V req gov = (gov, Some (forward None)))"
  using assms
  by (simp add: load_tg_config_def setup_governance_def governance_service_new_def evaluate_handler_def
      stub_response_def forward_def Let_def)

definition broken_launch :: launch_env where
  "broken_launch = demo_launch\<lparr>ln_loader := demo_loader\<lparr>le_exists := (\<lambda>_. True), le_read := (\<lambda>_. Inr [])\<rparr>\<rparr>"

theorem invalid_config_forwards_everything_witness:
  "\<exists>gov. setup_governance broken_launch (load_tg_config broken_launch ''thoughtgate.yaml'') Production ''thoughtgate.yaml'' = Inr (gov, None) \<and>
    (\<forall>V req. evaluate_handler V req gov = (gov, Some (forward None)))"
proof (rule invalid_config_forwards_everything)
  show "''thoughtgate.yaml'' \<noteq> []" by simp
  show "le_exists (ln_loader broken_launch) ''thoughtgate.yaml''" by (simp add: broken_launch_def)
  show "load_and_validate (ln_loader broken_launch) ''thoughtgate.yaml'' v0_2 = Inl CE_EmptyConfigFile"
    by (simp add: broken_launch_def load_and_validate_def load_config_def trim_def) code_simp
qed

text \<open>In production no approval is automatic: a service that needs approvals is set up with the Slack adapter or
  not at all.\<close>

lemma production_never_mocks:
  assumes "setup_governance L cfg Production path = Inr (gov, a)"
  shows "a \<noteq> Some (MockChosen M)"
  using assms
  by (auto simp: setup_governance_def choose_adapter_def Let_def split: option.splits if_splits sum.splits)

end
