(* ===== verification/Trace_Context.thy ===== *)
theory Trace_Context
  imports Traffic Config_Loader Jsonrpc
begin

text \<open>
  Trace contexts: their text form in the metadata of a Slack message and back
  (\<open>telemetry/trace_context.rs\<close>, \<open>restore_trace_context\<close> of \<open>governance/approval/slack.rs\<close>), and the headers of HTTP
  requests (\<open>telemetry/propagation.rs\<close>). Identifiers are their bytes. How the OpenTelemetry crate prints
  identifiers and keeps a trace state is an argument; slices of a text that do not end at the boundary
  of a character panic, as in Rust.
\<close>

section \<open>Types\<close>

record 'ts span_context =
  sx_trace_id :: "8 word list"
  sx_span_id :: "8 word list"
  sx_trace_flags :: "8 word"
  sx_is_remote :: bool
  sx_trace_state :: 'ts

record serialized_trace_context =
  st_traceparent :: string
  st_tracestate :: "string option"

record 'ts deserialized_context =
  dc_trace_id :: "8 word list"
  dc_span_id :: "8 word list"
  dc_trace_flags :: "8 word"
  dc_trace_state :: 'ts
  dc_recovered :: bool

text \<open>The OpenTelemetry crate, and the random identifiers that are drawn next.\<close>

record 'ts otel =
  ot_show_id :: "8 word list \<Rightarrow> string"
  ot_header :: "'ts \<Rightarrow> string"
  ot_from_key_value :: "(string \<times> string) list \<Rightarrow> 'ts option"
  ot_default :: 'ts
  ot_new_trace_id :: "8 word list"
  ot_new_span_id :: "8 word list"

section \<open>Hexadecimal numbers\<close>

definition hex_digits :: string where
  "hex_digits = ''0123456789abcdef''"

text \<open>\<open>{:02x}\<close> of a byte.\<close>

definition hex2 :: "8 word \<Rightarrow> string" where
  "hex2 b = [hex_digits ! (unat b div 16), hex_digits ! (unat b mod 16)]"

definition hex_text :: "8 word list \<Rightarrow> string" where
  "hex_text bs = concat (map hex2 bs)"

definition digit_value :: "char \<Rightarrow> nat option" where
  "digit_value c =
     (let n = of_char c :: nat in
      if 48 \<le> n \<and> n \<le> 57 then Some (n - 48)
      else if 97 \<le> n \<and> n \<le> 102 then Some (n - 87)
      else if 65 \<le> n \<and> n \<le> 70 then Some (n - 55)
      else None)"

fun hex_number :: "nat \<Rightarrow> string \<Rightarrow> nat option" where
  "hex_number acc [] = Some acc"
| "hex_number acc (c # cs) = (case digit_value c of None \<Rightarrow> None | Some d \<Rightarrow> hex_number (16 * acc + d) cs)"

text \<open>\<open>u8::from_str_radix(_, 16)\<close>: a plus sign may precede the digits.\<close>

definition u8_from_hex :: "string \<Rightarrow> 8 word option" where
  "u8_from_hex s =
     (let digits = (case s of c # d # ds \<Rightarrow> if c = CHR ''+'' then d # ds else s | _ \<Rightarrow> s) in
      if digits = [] then None
      else case hex_number 0 digits of
             None \<Rightarrow> None
           | Some v \<Rightarrow> if v < 256 then Some (of_nat v) else None)"

text \<open>A byte starts a character unless it is a continuation byte of UTF-8.\<close>

definition is_char_boundary :: "string \<Rightarrow> nat \<Rightarrow> bool" where
  "is_char_boundary s i \<longleftrightarrow>
     i = 0 \<or> i = length s \<or> i < length s \<and> \<not> (128 \<le> (of_char (s ! i) :: nat) \<and> (of_char (s ! i) :: nat) < 192)"

text \<open>The pairs from position \<open>i\<close> on, \<open>n\<close> of them; the first that is no number ends the iteration.\<close>

fun hex_pairs :: "string \<Rightarrow> nat \<Rightarrow> nat \<Rightarrow> (unit, 8 word list) rres" where
  "hex_pairs s i 0 = ROk []"
| "hex_pairs s i (Suc n) =
     (if \<not> (is_char_boundary s i \<and> is_char_boundary s (i + 2)) then RPanic
      else case u8_from_hex (take 2 (drop i s)) of
             None \<Rightarrow> RErr ()
           | Some b \<Rightarrow>
               (case hex_pairs s (i + 2) n of
                  ROk bs \<Rightarrow> ROk (b # bs)
                | RErr _ \<Rightarrow> RErr ()
                | RPanic \<Rightarrow> RPanic))"

definition hex_to_bytes :: "string \<Rightarrow> (unit, 8 word list) rres" where
  "hex_to_bytes hex = (if odd (length hex) then RErr () else hex_pairs hex 0 (length hex div 2))"

section \<open>The text form\<close>

definition serialize_span_context :: "'ts otel \<Rightarrow> 'ts span_context \<Rightarrow> serialized_trace_context" where
  "serialize_span_context T ctx =
     \<lparr>st_traceparent = ''00-'' @ ot_show_id T (sx_trace_id ctx) @ ''-'' @ ot_show_id T (sx_span_id ctx) @ ''-'' @
        hex2 (sx_trace_flags ctx),
      st_tracestate = (if ot_header T (sx_trace_state ctx) = [] then None else Some (ot_header T (sx_trace_state ctx)))\<rparr>"

definition parse_traceparent :: "string \<Rightarrow> (unit, 8 word list \<times> 8 word list \<times> 8 word) rres" where
  "parse_traceparent traceparent =
     (let parts = split_on (CHR ''-'') traceparent in
      if length parts \<noteq> 4 then RErr ()
      else if parts ! 0 \<noteq> ''00'' then RErr ()
      else if length (parts ! 1) \<noteq> 32 then RErr ()
      else case hex_to_bytes (parts ! 1) of
             RErr _ \<Rightarrow> RErr () | RPanic \<Rightarrow> RPanic
           | ROk trace_id \<Rightarrow>
      (if length trace_id \<noteq> 16 then RErr ()
       else if trace_id = replicate 16 0 then RErr ()
       else if length (parts ! 2) \<noteq> 16 then RErr ()
       else case hex_to_bytes (parts ! 2) of
              RErr _ \<Rightarrow> RErr () | RPanic \<Rightarrow> RPanic
            | ROk span_id \<Rightarrow>
       (if length span_id \<noteq> 8 then RErr ()
        else if span_id = replicate 8 0 then RErr ()
        else if length (parts ! 3) \<noteq> 2 then RErr ()
        else case u8_from_hex (parts ! 3) of
               None \<Rightarrow> RErr ()
             | Some flags \<Rightarrow> ROk (trace_id, span_id, flags))))"

definition state_pair :: "string \<Rightarrow> (string \<times> string) option" where
  "state_pair pair =
     (case dropWhile (\<lambda>c. c \<noteq> CHR ''='') pair of
        [] \<Rightarrow> None
      | _ # v \<Rightarrow>
          let key = trim (takeWhile (\<lambda>c. c \<noteq> CHR ''='') pair) in
          if key = [] then None else Some (key, trim v))"

definition parse_tracestate :: "string \<Rightarrow> (string \<times> string) list" where
  "parse_tracestate tracestate = List.map_filter state_pair (split_on (CHR '','') tracestate)"

text \<open>The errors of the parser start a new, sampled trace.\<close>

definition deserialize_span_context ::
  "'ts otel \<Rightarrow> serialized_trace_context \<Rightarrow> (unit, 'ts deserialized_context) rres" where
  "deserialize_span_context T serialized =
     (case parse_traceparent (st_traceparent serialized) of
        RPanic \<Rightarrow> RPanic
      | ROk (trace_id, span_id, flags) \<Rightarrow>
          ROk \<lparr>dc_trace_id = trace_id, dc_span_id = span_id, dc_trace_flags = flags,
            dc_trace_state = (case Option.bind (st_tracestate serialized)
                (\<lambda>ts. ot_from_key_value T (parse_tracestate ts)) of Some ts \<Rightarrow> ts | None \<Rightarrow> ot_default T),
            dc_recovered = True\<rparr>
      | RErr _ \<Rightarrow>
          ROk \<lparr>dc_trace_id = ot_new_trace_id T, dc_span_id = ot_new_span_id T, dc_trace_flags = 1,
            dc_trace_state = ot_default T, dc_recovered = False\<rparr>)"

definition restore_trace_context ::
  "'ts otel \<Rightarrow> serialized_trace_context option \<Rightarrow> (unit, 'ts span_context option \<times> bool) rres" where
  "restore_trace_context T dispatched =
     (case dispatched of
        None \<Rightarrow> ROk (None, False)
      | Some serialized \<Rightarrow>
          (case deserialize_span_context T serialized of
             ROk d \<Rightarrow>
               ROk (Some \<lparr>sx_trace_id = dc_trace_id d, sx_span_id = dc_span_id d, sx_trace_flags = dc_trace_flags d,
                      sx_is_remote = True, sx_trace_state = dc_trace_state d\<rparr>, dc_recovered d)
           | RErr e \<Rightarrow> RErr e
           | RPanic \<Rightarrow> RPanic))"

section \<open>Headers\<close>

text \<open>The checks of the crate http on names (which it puts into lower case) and values are arguments.\<close>

record header_lib =
  hl_name :: "string \<Rightarrow> string option"
  hl_value :: "string \<Rightarrow> bool"

definition header_extractor_get :: "headers \<Rightarrow> string \<Rightarrow> string option" where
  "header_extractor_get hs key = Option.bind (header_first key hs) header_to_str"

definition header_insert :: "string \<Rightarrow> string \<Rightarrow> headers \<Rightarrow> headers" where
  "header_insert name v hs = AList.update name [v] hs"

definition header_injector_set :: "header_lib \<Rightarrow> string \<times> string \<Rightarrow> headers \<Rightarrow> headers" where
  "header_injector_set H kv hs =
     (case hl_name H (fst kv) of
        None \<Rightarrow> hs
      | Some name \<Rightarrow> if hl_value H (snd kv) then header_insert name (snd kv) hs else hs)"

definition tg_prefix :: string where
  "tg_prefix = ''thoughtgate=''"

definition augment_tracestate :: "header_lib \<Rightarrow> string \<Rightarrow> headers \<Rightarrow> headers" where
  "augment_tracestate H session_id hs =
     (let tg_entry = tg_prefix @ session_id;
          new_value = (case header_first ''tracestate'' hs of
              None \<Rightarrow> tg_entry
            | Some existing \<Rightarrow>
                (case header_to_str existing of
                   None \<Rightarrow> tg_entry
                 | Some s \<Rightarrow>
                     let entries = filter (\<lambda>e. e \<noteq> [] \<and> \<not> starts_with tg_prefix e) (map trim (split_on (CHR '','') s))
                     in join '','' (tg_entry # take 31 entries)))
      in if hl_value H new_value then header_insert ''tracestate'' new_value hs else hs)"

text \<open>\<open>calls\<close> are the headers the propagator sets for the context.\<close>

definition inject_context_into_headers ::
  "header_lib \<Rightarrow> (string \<times> string) list \<Rightarrow> string option \<Rightarrow> headers \<Rightarrow> headers" where
  "inject_context_into_headers H calls session_id hs =
     (let hs = fold (header_injector_set H) calls hs in
      case session_id of Some sid \<Rightarrow> augment_tracestate H sid hs | None \<Rightarrow> hs)"

definition extract_context_from_headers :: "((string \<Rightarrow> string option) \<Rightarrow> 'cx) \<Rightarrow> headers \<Rightarrow> 'cx" where
  "extract_context_from_headers propagate hs = propagate (header_extractor_get hs)"

section \<open>Round trips\<close>

lemma length_hex_digits [simp]: "length hex_digits = 16"
  by (simp add: hex_digits_def)

lemma digit_value_hex: "k < 16 \<Longrightarrow> digit_value (hex_digits ! k) = Some k"
proof -
  have "list_all (\<lambda>k. digit_value (hex_digits ! k) = Some k) [0 ..< 16]" by code_simp
  then show "k < 16 \<Longrightarrow> digit_value (hex_digits ! k) = Some k" by (simp add: list_all_iff)
qed

lemma hex_digit_plain:
  assumes "c \<in> set hex_digits"
  shows "c \<noteq> CHR ''-'' \<and> c \<noteq> CHR ''+'' \<and> (of_char c :: nat) < 128"
proof -
  have "list_all (\<lambda>c. c \<noteq> CHR ''-'' \<and> c \<noteq> CHR ''+'' \<and> (of_char c :: nat) < 128) hex_digits" by code_simp
  with assms show ?thesis by (simp add: list_all_iff)
qed

lemma unat_byte: "unat (b :: 8 word) div 16 < 16" "unat b mod 16 < 16" "unat b < 256"
  using unsigned_less [of b, where 'a = nat] by (simp_all add: less_mult_imp_div_less)

lemma hex2_digits: "c \<in> set (hex2 b) \<Longrightarrow> c \<in> set hex_digits"
  using unat_byte [of b] by (auto simp: hex2_def)

lemma length_hex2 [simp]: "length (hex2 b) = 2"
  by (simp add: hex2_def)

lemma length_hex_text [simp]: "length (hex_text bs) = 2 * length bs"
  by (induction bs) (simp_all add: hex_text_def)

lemma hex_text_digits: "c \<in> set (hex_text bs) \<Longrightarrow> c \<in> set hex_digits"
  by (auto simp: hex_text_def dest: hex2_digits)

lemma u8_from_hex2 [simp]: "u8_from_hex (hex2 b) = Some b"
proof -
  have plus: "hex_digits ! (unat b div 16) \<noteq> CHR ''+''"
    using hex_digit_plain [of "hex_digits ! (unat b div 16)"] unat_byte [of b] by simp
  have n: "hex_number 0 (hex2 b) = Some (unat b)"
    using unat_byte [of b] by (simp add: hex2_def digit_value_hex)
  show ?thesis
    using plus n unat_byte(3) [of b] by (simp add: u8_from_hex_def hex2_def Let_def)
qed

text \<open>In a text of ASCII characters every position starts a character.\<close>

definition ascii :: "string \<Rightarrow> bool" where
  "ascii s \<longleftrightarrow> (\<forall>c \<in> set s. (of_char c :: nat) < 128)"

lemma ascii_boundary: "ascii s \<Longrightarrow> i \<le> length s \<Longrightarrow> is_char_boundary s i"
proof (cases "i = length s")
  case False
  assume "ascii s" "i \<le> length s"
  with False have "(of_char (s ! i) :: nat) < 128" unfolding ascii_def by simp
  with False \<open>i \<le> length s\<close> show ?thesis by (simp add: is_char_boundary_def)
qed (simp add: is_char_boundary_def)

lemma hex_pairs_text:
  assumes "ascii (pre @ hex_text bs)"
  shows "hex_pairs (pre @ hex_text bs) (length pre) (length bs) = ROk bs"
  using assms
proof (induction bs arbitrary: pre)
  case (Cons b bs)
  have pairs: "pre @ hex_text (b # bs) = (pre @ hex2 b) @ hex_text bs" by (simp add: hex_text_def)
  with Cons.prems have "ascii ((pre @ hex2 b) @ hex_text bs)" by simp
  from Cons.IH [OF this]
  have rest: "hex_pairs ((pre @ hex2 b) @ hex_text bs) (length pre + 2) (length bs) = ROk bs" by simp
  have "is_char_boundary ((pre @ hex2 b) @ hex_text bs) (length pre)"
      "is_char_boundary ((pre @ hex2 b) @ hex_text bs) (length pre + 2)"
    using Cons.prems unfolding pairs by (intro ascii_boundary; simp)+
  moreover have "take 2 (drop (length pre) ((pre @ hex2 b) @ hex_text bs)) = hex2 b" by simp
  ultimately show ?case using rest unfolding pairs by (simp del: append_assoc)
qed simp

lemma hex_to_bytes_text: "hex_to_bytes (hex_text bs) = ROk bs"
  using hex_pairs_text [of "[]" bs] hex_text_digits [of _ bs] hex_digit_plain
  by (auto simp: hex_to_bytes_def ascii_def)

lemma split_on_plain:
  assumes "c \<notin> set p" shows "split_on c p = [p]" and "split_on c (p @ c # r) = p # split_on c r"
  using assms by (induction p) auto

lemma parse_serialized:
  assumes "length tid = 16" and "length sid = 8"
  shows "parse_traceparent (''00-'' @ hex_text tid @ ''-'' @ hex_text sid @ ''-'' @ hex2 flags) =
    (if tid = replicate 16 0 \<or> sid = replicate 8 0 then RErr () else ROk (tid, sid, flags))"
proof -
  have no: "CHR ''-'' \<notin> set ''00''" "CHR ''-'' \<notin> set (hex_text bs)" "CHR ''-'' \<notin> set (hex2 b)" for bs b
    using hex_digit_plain [of "CHR ''-''"] hex_text_digits [of "CHR ''-''" bs] hex2_digits [of "CHR ''-''" b] by auto
  have parts: "split_on (CHR ''-'') (''00-'' @ hex_text tid @ ''-'' @ hex_text sid @ ''-'' @ hex2 flags) =
      [''00'', hex_text tid, hex_text sid, hex2 flags]"
    using no split_on_plain [of "CHR ''-''" "''00''"] by (simp add: split_on_plain)
  show ?thesis
    unfolding parse_traceparent_def parts Let_def using assms by (simp add: hex_to_bytes_text)
qed

text \<open>The entries of a trace state as the standard allows them.\<close>

definition plain_entry :: "string \<times> string \<Rightarrow> bool" where
  "plain_entry kv \<longleftrightarrow>
     fst kv \<noteq> [] \<and> trim (fst kv) = fst kv \<and> trim (snd kv) = snd kv \<and>
     CHR ''='' \<notin> set (fst kv) \<and> CHR '','' \<notin> set (fst kv) \<and> CHR '','' \<notin> set (snd kv)"

definition entry_text :: "string \<times> string \<Rightarrow> string" where
  "entry_text kv = fst kv @ ''='' @ snd kv"

lemma state_pair_entry:
  assumes "plain_entry kv" shows "state_pair (entry_text kv) = Some kv"
proof -
  have "c \<noteq> CHR ''=''" if "c \<in> set (fst kv)" for c using assms that by (auto simp: plain_entry_def)
  then have "takeWhile (\<lambda>c. c \<noteq> CHR ''='') (entry_text kv) = fst kv"
      "dropWhile (\<lambda>c. c \<noteq> CHR ''='') (entry_text kv) = CHR ''='' # snd kv"
    unfolding entry_text_def by (simp_all add: takeWhile_append2 dropWhile_append2)
  with assms show ?thesis by (simp add: state_pair_def plain_entry_def Let_def)
qed

lemma split_on_join:
  assumes "ss \<noteq> []" and "\<forall>s \<in> set ss. c \<notin> set s"
  shows "split_on c (join [c] ss) = ss"
  using assms by (induction "[c]" ss rule: join.induct) (auto simp: split_on_plain)

lemma parse_tracestate_entries:
  assumes "\<forall>kv \<in> set kvs. plain_entry kv"
  shows "parse_tracestate (join '','' (map entry_text kvs)) = kvs"
proof (cases "kvs = []")
  case True
  then show ?thesis by (simp add: parse_tracestate_def state_pair_def List.map_filter_def)
next
  case False
  have "\<forall>s \<in> set (map entry_text kvs). CHR '','' \<notin> set s"
    using assms by (auto simp: plain_entry_def entry_text_def)
  with False have "split_on (CHR '','') (join '','' (map entry_text kvs)) = map entry_text kvs"
    by (intro split_on_join) simp_all
  with assms show ?thesis
    by (simp add: parse_tracestate_def List.map_filter_def state_pair_entry comp_def cong: map_cong filter_cong)
qed

text \<open>The trace context stored with an approval request is the one restored at the decision: for
  identifiers that are not all zero, and a trace state with the entries the standard allows, reading
  back the written form gives the same trace, span, flags and state, marked as recovered. The crate
  prints identifiers as lower-case hexadecimal digits and a trace state as its entries, and keeps valid
  entries.\<close>

lemma trace_context_roundtrip:
  assumes "ot_show_id T = hex_text"
    and "ot_header T (sx_trace_state c) = join '','' (map entry_text kvs)" and "\<forall>kv \<in> set kvs. plain_entry kv"
    and "ot_from_key_value T kvs = Some (sx_trace_state c)" and "kvs = [] \<longrightarrow> sx_trace_state c = ot_default T"
    and "length (sx_trace_id c) = 16" and "sx_trace_id c \<noteq> replicate 16 0"
    and "length (sx_span_id c) = 8" and "sx_span_id c \<noteq> replicate 8 0"
  shows "restore_trace_context T (Some (serialize_span_context T c)) = ROk (Some (c\<lparr>sx_is_remote := True\<rparr>), True)"
proof -
  have head: "ot_header T (sx_trace_state c) = [] \<longleftrightarrow> kvs = []"
  proof
    assume e: "ot_header T (sx_trace_state c) = []"
    show "kvs = []"
    proof (rule ccontr)
      assume "kvs \<noteq> []"
      then obtain kv rest where "kvs = kv # rest" by (cases kvs) auto
      with e assms(2) show False by (cases rest) (auto simp: entry_text_def)
    qed
  qed (use assms(2) in simp)
  have state: "(case Option.bind (st_tracestate (serialize_span_context T c))
      (\<lambda>ts. ot_from_key_value T (parse_tracestate ts)) of Some ts \<Rightarrow> ts | None \<Rightarrow> ot_default T) = sx_trace_state c"
    using head assms(2,4,5) parse_tracestate_entries [OF assms(3)] by (simp add: serialize_span_context_def)
  have "parse_traceparent (st_traceparent (serialize_span_context T c)) =
      ROk (sx_trace_id c, sx_span_id c, sx_trace_flags c)"
    using parse_serialized [OF assms(6,8)] assms(1,7,9) by (simp add: serialize_span_context_def)
  with state show ?thesis
    by (simp add: restore_trace_context_def deserialize_span_context_def)
qed

definition demo_otel :: "(string \<times> string) list otel" where
  "demo_otel = \<lparr>ot_show_id = hex_text, ot_header = (\<lambda>kvs. join '','' (map entry_text kvs)),
     ot_from_key_value = Some, ot_default = [], ot_new_trace_id = replicate 16 1, ot_new_span_id = replicate 8 1\<rparr>"

definition demo_span :: "(string \<times> string) list span_context" where
  "demo_span = \<lparr>sx_trace_id = replicate 15 0 @ [171], sx_span_id = [255, 0, 0, 0, 0, 0, 0, 1], sx_trace_flags = 1,
     sx_is_remote = False, sx_trace_state = [(''a'', ''1''), (''b'', ''2=3'')]\<rparr>"

lemma trace_context_demo:
  "restore_trace_context demo_otel (Some (serialize_span_context demo_otel demo_span)) =
     ROk (Some (demo_span\<lparr>sx_is_remote := True\<rparr>), True)"
proof (rule trace_context_roundtrip [where kvs = "[(''a'', ''1''), (''b'', ''2=3'')]"])
  show "\<forall>kv \<in> set [(''a'', ''1''), (''b'', ''2=3'')]. plain_entry kv" by code_simp
  show "sx_trace_id demo_span \<noteq> replicate 16 0" "sx_span_id demo_span \<noteq> replicate 8 0" by code_simp+
qed (simp_all add: demo_otel_def demo_span_def)

section \<open>Contexts that are not recovered\<close>

text \<open>A span with the invalid context, whose identifiers are zero, as a tracer that does nothing makes it, is stored
  like any other; at the decision it is reported as corrupted and a new trace is made up.\<close>

lemma invalid_context_not_recovered:
  assumes "ot_show_id T = hex_text" and "length (sx_trace_id c) = 16" and "length (sx_span_id c) = 8"
    and "sx_trace_id c = replicate 16 0 \<or> sx_span_id c = replicate 8 0"
  shows "restore_trace_context T (Some (serialize_span_context T c)) =
    ROk (Some \<lparr>sx_trace_id = ot_new_trace_id T, sx_span_id = ot_new_span_id T, sx_trace_flags = 1,
      sx_is_remote = True, sx_trace_state = ot_default T\<rparr>, False)"
proof -
  have "parse_traceparent (st_traceparent (serialize_span_context T c)) = RErr ()"
    using parse_serialized [OF assms(2,3)] assms(1,4) by (simp add: serialize_span_context_def)
  then show ?thesis by (simp add: restore_trace_context_def deserialize_span_context_def)
qed

text \<open>A header of ASCII characters never makes the parser panic; other ones can.\<close>

lemma hex_pairs_ascii: "ascii s \<Longrightarrow> i + 2 * n \<le> length s \<Longrightarrow> hex_pairs s i n \<noteq> RPanic"
  by (induction n arbitrary: i) (auto simp: ascii_boundary split: option.splits rres.splits)

lemma hex_to_bytes_ascii: "ascii s \<Longrightarrow> hex_to_bytes s \<noteq> RPanic"
  using hex_pairs_ascii [of s 0 "length s div 2"] by (simp add: hex_to_bytes_def)

lemma split_on_subset: "p \<in> set (split_on c s) \<Longrightarrow> set p \<subseteq> set s"
  by (induction s arbitrary: p) (fastforce split: list.splits if_splits)+

lemma parse_ascii_no_panic:
  assumes "ascii s" shows "parse_traceparent s \<noteq> RPanic"
proof -
  have "hex_to_bytes (split_on (CHR ''-'') s ! i) \<noteq> RPanic" if "length (split_on (CHR ''-'') s) = 4" "i < 4" for i
    using that split_on_subset [of "split_on (CHR ''-'') s ! i" "CHR ''-''" s] assms
    by (intro hex_to_bytes_ascii) (auto simp: ascii_def)
  from this [of 1] this [of 2] show ?thesis
    by (auto simp: parse_traceparent_def Let_def split: rres.splits option.splits)
qed

lemma multibyte_header_panics:
  "parse_traceparent (''00-a'' @ [CHR 0xC3, CHR 0xA9] @ replicate 29 (CHR ''a'') @ ''-'' @ replicate 16 (CHR ''1'') @ ''-01'') = RPanic"
  by code_simp

text \<open>A sign is accepted where the format has two digits.\<close>

lemma sign_accepted:
  "parse_traceparent (''00-'' @ replicate 32 (CHR ''a'') @ ''-'' @ replicate 16 (CHR ''1'') @ ''-+1'') =
     ROk (replicate 16 0xAA, replicate 8 0x11, 1)"
  by code_simp

section \<open>The entry of the session\<close>

definition state_entries :: "string \<Rightarrow> string list" where
  "state_entries s = filter (\<lambda>e. e \<noteq> []) (map trim (split_on (CHR '','') s))"

lemma header_first_insert [simp]: "header_first name (header_insert name v hs) = Some v"
  by (simp add: header_first_def header_insert_def AList.update_conv')

lemma header_first_insert_other: "k \<noteq> name \<Longrightarrow> header_first k (header_insert name v hs) = header_first k hs"
  by (simp add: header_first_def header_insert_def AList.update_conv')

lemma take_filter_split:
  "filter (\<lambda>e. e \<noteq> [] \<and> \<not> starts_with p e) es = filter (\<lambda>e. \<not> starts_with p e) (filter (\<lambda>e. e \<noteq> []) es)"
  by (simp add: conj_commute)

text \<open>After the session was added, the trace state starts with its entry, followed by at most 31 of the
  other entries in their order, and no older entry of the session; other headers are as they were.\<close>

lemma augmented_tracestate:
  assumes "header_first ''tracestate'' hs = Some old" and "header_to_str old = Some s"
    and "hl_value H (join '','' ((tg_prefix @ sid) # take 31 (filter (\<lambda>e. \<not> starts_with tg_prefix e) (state_entries s))))"
  shows "header_first ''tracestate'' (augment_tracestate H sid hs) =
      Some (join '','' ((tg_prefix @ sid) # take 31 (filter (\<lambda>e. \<not> starts_with tg_prefix e) (state_entries s))))"
    and "name \<noteq> ''tracestate'' \<Longrightarrow> header_first name (augment_tracestate H sid hs) = header_first name hs"
  using assms by (simp_all add: augment_tracestate_def Let_def state_entries_def take_filter_split header_first_insert_other
      del: filter_filter)

end
