(* ===== verification/Metrics.thy ===== *)
theory Metrics
  imports TG_Prelude
begin

text \<open>
  The metrics of \<open>telemetry/prom_metrics.rs\<close> with the limiter of \<open>telemetry/cardinality.rs\<close>. An operation is the
  calls it makes on the registered metrics of the crate prometheus-client, with their labels; the state
  is that of the two limiters. Times and sizes (\<open>f64\<close>) are passed through.
\<close>

section \<open>Labels\<close>

datatype http_labels =
    RequestLabels string string string   \<comment> \<open>method, tool, status\<close>
  | DecisionLabels string string         \<comment> \<open>gate, outcome\<close>
  | ErrorLabels string string            \<comment> \<open>error type, method\<close>
  | CedarEvalLabels string string        \<comment> \<open>decision, policy\<close>
  | ApprovalLabels string string         \<comment> \<open>channel, outcome\<close>
  | UpstreamLabels string string         \<comment> \<open>target, status code\<close>
  | DurationLabels string string         \<comment> \<open>method, tool\<close>
  | CedarDurationLabels string           \<comment> \<open>decision\<close>
  | TargetLabels string                  \<comment> \<open>target\<close>
  | PayloadLabels string string          \<comment> \<open>direction, method\<close>
  | TransportLabels string               \<comment> \<open>transport\<close>
  | UpstreamHealthLabels string          \<comment> \<open>status\<close>

datatype stdio_labels =
    StdioMessageLabels string string string    \<comment> \<open>server, direction, method\<close>
  | StdioDecisionLabels string string string   \<comment> \<open>server, decision, profile\<close>
  | StdioErrorLabels string string             \<comment> \<open>server, error type\<close>
  | StdioServerLabels string                   \<comment> \<open>server\<close>
  | StdioApprovalLabels string string          \<comment> \<open>server, outcome\<close>
  | StdioServerStateLabels string string       \<comment> \<open>server, state\<close>

datatype governance_labels =
    LifecycleStateLabels string
  | StatusLabels string
  | RuleMatchLabels string
  | BlockingApprovalLabels string
  | TaskTypeLabels string
  | TaskCreatedLabels string
  | TaskCompletedLabels string string          \<comment> \<open>task type, outcome\<close>

datatype labels = L_None | L_Http http_labels | L_Stdio stdio_labels | L_Gov governance_labels

text \<open>The calls: increments of counters and gauges, observations of histograms, settings of gauges.\<close>

datatype 'f metric_call =
    M_Inc string labels nat
  | M_Observe string labels 'f
  | M_Set string labels int
  | M_Move string labels int

fun call_labels :: "'f metric_call \<Rightarrow> labels" where
  "call_labels (M_Inc _ l _) = l"
| "call_labels (M_Observe _ l _) = l"
| "call_labels (M_Set _ l _) = l"
| "call_labels (M_Move _ l _) = l"

section \<open>Registration\<close>

text \<open>Bucket bounds in hundredths of their unit.\<close>

definition request_duration_buckets :: "nat list" where
  "request_duration_buckets = [100, 200, 500, 1000, 2500, 5000, 10000, 25000, 50000, 100000, 500000]"

definition cedar_buckets :: "nat list" where
  "cedar_buckets = [1, 5, 10, 25, 50, 100, 500, 1000]"

definition upstream_buckets :: "nat list" where
  "upstream_buckets = [100, 500, 1000, 2500, 5000, 10000, 25000, 50000, 100000, 500000, 1000000]"

definition approval_buckets :: "nat list" where
  "approval_buckets = [100, 500, 1000, 3000, 6000, 30000, 90000, 180000, 360000]"

definition payload_buckets :: "nat list" where
  "payload_buckets = [12800, 51200, 102400, 409600, 1638400, 6553600, 26214400, 104857600]"

definition stdio_approval_buckets :: "nat list" where
  "stdio_approval_buckets = [100, 500, 1000, 3000, 6000, 30000, 90000, 180000, 360000]"

datatype metric_kind = K_Counter | K_Histogram "nat list" | K_Gauge

definition counter_metrics :: "(string \<times> metric_kind) list" where
  "counter_metrics =
     [(''thoughtgate_requests_total'', K_Counter), (''thoughtgate_decisions_total'', K_Counter),
      (''thoughtgate_errors_total'', K_Counter), (''thoughtgate_cedar_evaluations_total'', K_Counter),
      (''thoughtgate_approval_requests_total'', K_Counter), (''thoughtgate_upstream_requests_total'', K_Counter),
      (''thoughtgate_tasks_created_total'', K_Counter), (''thoughtgate_tasks_completed_total'', K_Counter)]"

definition histogram_metrics :: "(string \<times> metric_kind) list" where
  "histogram_metrics =
     [(''thoughtgate_request_duration_ms'', K_Histogram request_duration_buckets),
      (''thoughtgate_cedar_evaluation_duration_ms'', K_Histogram cedar_buckets),
      (''thoughtgate_upstream_duration_ms'', K_Histogram upstream_buckets),
      (''thoughtgate_approval_wait_duration_s'', K_Histogram approval_buckets),
      (''thoughtgate_request_payload_size_bytes'', K_Histogram payload_buckets),
      (''thoughtgate_blocking_approvals_total'', K_Counter),
      (''thoughtgate_blocking_hold_duration_seconds'', K_Histogram approval_buckets)]"

definition gauge_metrics :: "(string \<times> metric_kind) list" where
  "gauge_metrics =
     [(''thoughtgate_connections_active'', K_Gauge), (''thoughtgate_tasks_pending'', K_Gauge),
      (''thoughtgate_cedar_policies_loaded'', K_Gauge), (''thoughtgate_uptime_seconds'', K_Gauge),
      (''thoughtgate_config_reload_timestamp'', K_Gauge)]"

definition lifecycle_metrics :: "(string \<times> metric_kind) list" where
  "lifecycle_metrics =
     [(''thoughtgate_upstream_health'', K_Gauge), (''thoughtgate_startup_duration_seconds'', K_Gauge),
      (''thoughtgate_active_requests'', K_Gauge), (''thoughtgate_drain_timeout_total'', K_Counter),
      (''thoughtgate_lifecycle_state'', K_Gauge), (''thoughtgate_shutdown_duration_seconds'', K_Gauge),
      (''thoughtgate_approvals_cancelled_shutdown'', K_Counter), (''thoughtgate_cedar_reload_total'', K_Counter),
      (''thoughtgate_config_load_total'', K_Counter), (''thoughtgate_rule_matches_total'', K_Counter)]"

definition stdio_metrics :: "(string \<times> metric_kind) list" where
  "stdio_metrics =
     [(''thoughtgate_stdio_messages_total'', K_Counter), (''thoughtgate_stdio_governance_decisions_total'', K_Counter),
      (''thoughtgate_stdio_framing_errors_total'', K_Counter), (''thoughtgate_stdio_active_servers'', K_Gauge),
      (''thoughtgate_stdio_server_state'', K_Gauge),
      (''thoughtgate_stdio_approval_latency_seconds'', K_Histogram stdio_approval_buckets),
      (''thoughtgate_stdio_approval_outcomes_total'', K_Counter),
      (''thoughtgate_stdio_approval_duration_seconds'', K_Histogram stdio_approval_buckets)]"

definition registered_metrics :: "(string \<times> metric_kind) list" where
  "registered_metrics = counter_metrics @ histogram_metrics @ gauge_metrics @ lifecycle_metrics @ stdio_metrics"

section \<open>The limiter\<close>

record cardinality_limiter =
  cl_known :: "string list"
  cl_max_values :: nat

definition limiter_new :: "nat \<Rightarrow> cardinality_limiter" where
  "limiter_new max_values = \<lparr>cl_known = [], cl_max_values = max_values\<rparr>"

definition other_label :: string where
  "other_label = ''__other__''"

definition limiter_resolve :: "string \<Rightarrow> cardinality_limiter \<Rightarrow> cardinality_limiter \<times> string" where
  "limiter_resolve v l =
     (if v \<in> set (cl_known l) then (l, v)
      else if length (cl_known l) < cl_max_values l then (l\<lparr>cl_known := v # cl_known l\<rparr>, v)
      else (l, other_label))"

record thought_gate_metrics =
  tm_tool_name_limiter :: cardinality_limiter
  tm_server_id_limiter :: cardinality_limiter

definition metrics_new :: thought_gate_metrics where
  "metrics_new = \<lparr>tm_tool_name_limiter = limiter_new 200, tm_server_id_limiter = limiter_new 50\<rparr>"

section \<open>Recording\<close>

definition resolve_tool :: "string option \<Rightarrow> thought_gate_metrics \<Rightarrow> thought_gate_metrics \<times> string" where
  "resolve_tool tool_name m =
     (case tool_name of
        None \<Rightarrow> (m, ''none'')
      | Some t \<Rightarrow> (case limiter_resolve t (tm_tool_name_limiter m) of (l, v) \<Rightarrow> (m\<lparr>tm_tool_name_limiter := l\<rparr>, v)))"

definition resolve_server :: "string \<Rightarrow> thought_gate_metrics \<Rightarrow> thought_gate_metrics \<times> string" where
  "resolve_server server_id m =
     (case limiter_resolve server_id (tm_server_id_limiter m) of (l, v) \<Rightarrow> (m\<lparr>tm_server_id_limiter := l\<rparr>, v))"

type_synonym 'f recording = "thought_gate_metrics \<times> 'f metric_call list"

definition record_request :: "string \<Rightarrow> string option \<Rightarrow> string \<Rightarrow> thought_gate_metrics \<Rightarrow> 'f recording" where
  "record_request meth tool_name status m =
     (case resolve_tool tool_name m of (m, tool) \<Rightarrow>
        (m, [M_Inc ''thoughtgate_requests_total'' (L_Http (RequestLabels meth tool status)) 1]))"

definition record_request_duration :: "string \<Rightarrow> string option \<Rightarrow> 'f \<Rightarrow> thought_gate_metrics \<Rightarrow> 'f recording" where
  "record_request_duration meth tool_name duration_ms m =
     (case resolve_tool tool_name m of (m, tool) \<Rightarrow>
        (m, [M_Observe ''thoughtgate_request_duration_ms'' (L_Http (DurationLabels meth tool)) duration_ms]))"

definition record_cedar_eval :: "string \<Rightarrow> string \<Rightarrow> 'f \<Rightarrow> 'f metric_call list" where
  "record_cedar_eval decision policy_id duration_ms =
     [M_Inc ''thoughtgate_cedar_evaluations_total'' (L_Http (CedarEvalLabels decision policy_id)) 1,
      M_Observe ''thoughtgate_cedar_evaluation_duration_ms'' (L_Http (CedarDurationLabels decision)) duration_ms]"

definition record_gate_decision :: "string \<Rightarrow> string \<Rightarrow> 'f metric_call list" where
  "record_gate_decision gate outcome = [M_Inc ''thoughtgate_decisions_total'' (L_Http (DecisionLabels gate outcome)) 1]"

definition record_error :: "string \<Rightarrow> string \<Rightarrow> 'f metric_call list" where
  "record_error error_type meth = [M_Inc ''thoughtgate_errors_total'' (L_Http (ErrorLabels error_type meth)) 1]"

definition record_upstream_request :: "string \<Rightarrow> string \<Rightarrow> 'f \<Rightarrow> 'f metric_call list" where
  "record_upstream_request target status_code duration_ms =
     [M_Inc ''thoughtgate_upstream_requests_total'' (L_Http (UpstreamLabels target status_code)) 1,
      M_Observe ''thoughtgate_upstream_duration_ms'' (L_Http (TargetLabels target)) duration_ms]"

definition record_payload_size :: "string \<Rightarrow> string \<Rightarrow> 'f \<Rightarrow> 'f metric_call list" where
  "record_payload_size direction meth size_bytes =
     [M_Observe ''thoughtgate_request_payload_size_bytes'' (L_Http (PayloadLabels direction meth)) size_bytes]"

definition record_approval_request :: "string \<Rightarrow> string \<Rightarrow> 'f metric_call list" where
  "record_approval_request channel outcome =
     [M_Inc ''thoughtgate_approval_requests_total'' (L_Http (ApprovalLabels channel outcome)) 1]"

definition record_approval_wait_duration :: "string \<Rightarrow> string \<Rightarrow> 'f \<Rightarrow> 'f metric_call list" where
  "record_approval_wait_duration channel outcome duration_secs =
     [M_Observe ''thoughtgate_approval_wait_duration_s'' (L_Http (ApprovalLabels channel outcome)) duration_secs]"

definition record_blocking_approval_completed :: "string \<Rightarrow> 'f \<Rightarrow> 'f metric_call list" where
  "record_blocking_approval_completed outcome secs =
     [M_Inc ''thoughtgate_blocking_approvals_total'' (L_Gov (BlockingApprovalLabels outcome)) 1,
      M_Observe ''thoughtgate_blocking_hold_duration_seconds'' (L_Gov (BlockingApprovalLabels outcome)) secs]"

definition record_task_created :: "string \<Rightarrow> 'f metric_call list" where
  "record_task_created task_type = [M_Inc ''thoughtgate_tasks_created_total'' (L_Gov (TaskCreatedLabels task_type)) 1]"

definition record_task_completed :: "string \<Rightarrow> string \<Rightarrow> 'f metric_call list" where
  "record_task_completed task_type outcome =
     [M_Inc ''thoughtgate_tasks_completed_total'' (L_Gov (TaskCompletedLabels task_type outcome)) 1]"

definition set_cedar_policies_loaded :: "int \<Rightarrow> 'f metric_call list" where
  "set_cedar_policies_loaded n = [M_Set ''thoughtgate_cedar_policies_loaded'' L_None n]"

definition record_config_reload :: "int \<Rightarrow> 'f metric_call list" where
  "record_config_reload timestamp = [M_Set ''thoughtgate_config_reload_timestamp'' L_None timestamp]"

definition set_upstream_health :: "bool \<Rightarrow> 'f metric_call list" where
  "set_upstream_health is_healthy =
     [M_Set ''thoughtgate_upstream_health'' (L_Http (UpstreamHealthLabels ''healthy'')) (if is_healthy then 1 else 0),
      M_Set ''thoughtgate_upstream_health'' (L_Http (UpstreamHealthLabels ''unhealthy'')) (if is_healthy then 0 else 1)]"

text \<open>\<open>secs\<close> is the duration cut to an integer.\<close>

definition record_startup_duration :: "int \<Rightarrow> 'f metric_call list" where
  "record_startup_duration secs = [M_Set ''thoughtgate_startup_duration_seconds'' L_None secs]"

definition record_drain_timeout :: "'f metric_call list" where
  "record_drain_timeout = [M_Inc ''thoughtgate_drain_timeout_total'' L_None 1]"

definition set_lifecycle_state :: "string \<Rightarrow> 'f metric_call list" where
  "set_lifecycle_state state =
     map (\<lambda>s. M_Set ''thoughtgate_lifecycle_state'' (L_Gov (LifecycleStateLabels s)) (if s = state then 1 else 0))
       [''starting'', ''ready'', ''shutting_down'', ''stopped'']"

definition record_shutdown_duration :: "int \<Rightarrow> 'f metric_call list" where
  "record_shutdown_duration secs = [M_Set ''thoughtgate_shutdown_duration_seconds'' L_None secs]"

definition record_approvals_cancelled_shutdown :: "nat \<Rightarrow> 'f metric_call list" where
  "record_approvals_cancelled_shutdown n = [M_Inc ''thoughtgate_approvals_cancelled_shutdown'' L_None n]"

definition record_cedar_reload :: "string \<Rightarrow> 'f metric_call list" where
  "record_cedar_reload status = [M_Inc ''thoughtgate_cedar_reload_total'' (L_Gov (StatusLabels status)) 1]"

definition record_config_load :: "string \<Rightarrow> 'f metric_call list" where
  "record_config_load status = [M_Inc ''thoughtgate_config_load_total'' (L_Gov (StatusLabels status)) 1]"

definition record_rule_match :: "string \<Rightarrow> 'f metric_call list" where
  "record_rule_match action = [M_Inc ''thoughtgate_rule_matches_total'' (L_Gov (RuleMatchLabels action)) 1]"

definition record_stdio_message :: "string \<Rightarrow> string \<Rightarrow> string \<Rightarrow> thought_gate_metrics \<Rightarrow> 'f recording" where
  "record_stdio_message server_id direction meth m =
     (case resolve_server server_id m of (m, sid) \<Rightarrow>
        (m, [M_Inc ''thoughtgate_stdio_messages_total'' (L_Stdio (StdioMessageLabels sid direction meth)) 1]))"

definition record_stdio_governance_decision :: "string \<Rightarrow> string \<Rightarrow> string \<Rightarrow> thought_gate_metrics \<Rightarrow> 'f recording" where
  "record_stdio_governance_decision server_id decision prof m =
     (case resolve_server server_id m of (m, sid) \<Rightarrow>
        (m, [M_Inc ''thoughtgate_stdio_governance_decisions_total'' (L_Stdio (StdioDecisionLabels sid decision prof)) 1]))"

definition record_stdio_framing_error :: "string \<Rightarrow> string \<Rightarrow> thought_gate_metrics \<Rightarrow> 'f recording" where
  "record_stdio_framing_error server_id error_type m =
     (case resolve_server server_id m of (m, sid) \<Rightarrow>
        (m, [M_Inc ''thoughtgate_stdio_framing_errors_total'' (L_Stdio (StdioErrorLabels sid error_type)) 1]))"

definition increment_stdio_active_servers :: "'f metric_call list" where
  "increment_stdio_active_servers = [M_Move ''thoughtgate_stdio_active_servers'' L_None 1]"

definition decrement_stdio_active_servers :: "'f metric_call list" where
  "decrement_stdio_active_servers = [M_Move ''thoughtgate_stdio_active_servers'' L_None (-1)]"

definition stdio_states :: "string list" where
  "stdio_states = [''starting'', ''running'', ''exited'', ''signalled'', ''failed_to_start'']"

definition set_stdio_server_state :: "string \<Rightarrow> string \<Rightarrow> thought_gate_metrics \<Rightarrow> 'f recording" where
  "set_stdio_server_state server_id state m =
     (case resolve_server server_id m of (m, sid) \<Rightarrow>
        (m, map (\<lambda>s. M_Set ''thoughtgate_stdio_server_state'' (L_Stdio (StdioServerStateLabels sid s)) (if s = state then 1 else 0))
              stdio_states))"

definition record_stdio_approval_latency :: "string \<Rightarrow> 'f \<Rightarrow> thought_gate_metrics \<Rightarrow> 'f recording" where
  "record_stdio_approval_latency server_id secs m =
     (case resolve_server server_id m of (m, sid) \<Rightarrow>
        (m, [M_Observe ''thoughtgate_stdio_approval_latency_seconds'' (L_Stdio (StdioServerLabels sid)) secs]))"

definition record_stdio_approval_outcome :: "string \<Rightarrow> string \<Rightarrow> 'f \<Rightarrow> thought_gate_metrics \<Rightarrow> 'f recording" where
  "record_stdio_approval_outcome server_id outcome secs m =
     (case resolve_server server_id m of (m, sid) \<Rightarrow>
        (m, [M_Inc ''thoughtgate_stdio_approval_outcomes_total'' (L_Stdio (StdioApprovalLabels sid outcome)) 1,
             M_Observe ''thoughtgate_stdio_approval_duration_seconds'' (L_Stdio (StdioApprovalLabels sid outcome)) secs]))"

section \<open>Courses of recordings\<close>

inductive metric_step :: "thought_gate_metrics \<Rightarrow> 'f metric_call list \<Rightarrow> thought_gate_metrics \<Rightarrow> bool" where
  request: "record_request meth tool status m = (m', cs) \<Longrightarrow> metric_step m cs m'"
| request_duration: "record_request_duration meth tool f m = (m', cs) \<Longrightarrow> metric_step m cs m'"
| cedar_eval: "metric_step m (record_cedar_eval d p f) m"
| gate_decision: "metric_step m (record_gate_decision g oc) m"
| error: "metric_step m (record_error e meth) m"
| upstream_request: "metric_step m (record_upstream_request t sc f) m"
| payload_size: "metric_step m (record_payload_size d meth f) m"
| approval_request: "metric_step m (record_approval_request ch oc) m"
| approval_wait: "metric_step m (record_approval_wait_duration ch oc f) m"
| blocking_completed: "metric_step m (record_blocking_approval_completed oc f) m"
| task_created: "metric_step m (record_task_created t) m"
| task_completed: "metric_step m (record_task_completed t oc) m"
| policies_loaded: "metric_step m (set_cedar_policies_loaded n) m"
| config_reload: "metric_step m (record_config_reload n) m"
| upstream_health: "metric_step m (set_upstream_health b) m"
| startup_duration: "metric_step m (record_startup_duration n) m"
| drain_timeout: "metric_step m record_drain_timeout m"
| lifecycle_state: "metric_step m (set_lifecycle_state s) m"
| shutdown_duration: "metric_step m (record_shutdown_duration n) m"
| approvals_cancelled: "metric_step m (record_approvals_cancelled_shutdown k) m"
| cedar_reload: "metric_step m (record_cedar_reload s) m"
| config_load: "metric_step m (record_config_load s) m"
| rule_match: "metric_step m (record_rule_match a) m"
| stdio_message: "record_stdio_message sid d meth m = (m', cs) \<Longrightarrow> metric_step m cs m'"
| stdio_decision: "record_stdio_governance_decision sid d p m = (m', cs) \<Longrightarrow> metric_step m cs m'"
| stdio_framing_error: "record_stdio_framing_error sid e m = (m', cs) \<Longrightarrow> metric_step m cs m'"
| server_started: "metric_step m increment_stdio_active_servers m"
| server_stopped: "metric_step m decrement_stdio_active_servers m"
| server_state: "set_stdio_server_state sid s m = (m', cs) \<Longrightarrow> metric_step m cs m'"
| approval_latency: "record_stdio_approval_latency sid f m = (m', cs) \<Longrightarrow> metric_step m cs m'"
| approval_outcome: "record_stdio_approval_outcome sid oc f m = (m', cs) \<Longrightarrow> metric_step m cs m'"

inductive metric_run :: "thought_gate_metrics \<Rightarrow> 'f metric_call list \<Rightarrow> thought_gate_metrics \<Rightarrow> bool" where
  start: "metric_run m [] m"
| extend: "metric_run m cs m' \<Longrightarrow> metric_step m' cs' m'' \<Longrightarrow> metric_run m (cs @ cs') m''"

lemmas recording_defs = record_request_def record_request_duration_def record_cedar_eval_def record_gate_decision_def
  record_error_def record_upstream_request_def record_payload_size_def record_approval_request_def
  record_approval_wait_duration_def record_blocking_approval_completed_def record_task_created_def
  record_task_completed_def set_cedar_policies_loaded_def record_config_reload_def set_upstream_health_def
  record_startup_duration_def record_drain_timeout_def set_lifecycle_state_def record_shutdown_duration_def
  record_approvals_cancelled_shutdown_def record_cedar_reload_def record_config_load_def record_rule_match_def
  record_stdio_message_def record_stdio_governance_decision_def record_stdio_framing_error_def
  increment_stdio_active_servers_def decrement_stdio_active_servers_def set_stdio_server_state_def stdio_states_def
  record_stdio_approval_latency_def record_stdio_approval_outcome_def

section \<open>Bounded labels\<close>

fun tool_label :: "labels \<Rightarrow> string option" where
  "tool_label (L_Http (RequestLabels _ t _)) = Some t"
| "tool_label (L_Http (DurationLabels _ t)) = Some t"
| "tool_label _ = None"

fun stdio_server :: "stdio_labels \<Rightarrow> string" where
  "stdio_server (StdioMessageLabels s _ _) = s"
| "stdio_server (StdioDecisionLabels s _ _) = s"
| "stdio_server (StdioErrorLabels s _) = s"
| "stdio_server (StdioServerLabels s) = s"
| "stdio_server (StdioApprovalLabels s _) = s"
| "stdio_server (StdioServerStateLabels s _) = s"

definition tools_of :: "'f metric_call list \<Rightarrow> string set" where
  "tools_of cs = {t. \<exists>c \<in> set cs. tool_label (call_labels c) = Some t}"

definition servers_of :: "'f metric_call list \<Rightarrow> string set" where
  "servers_of cs = {s. \<exists>c \<in> set cs. \<exists>l. call_labels c = L_Stdio l \<and> s = stdio_server l}"

definition limiter_ok :: "cardinality_limiter \<Rightarrow> bool" where
  "limiter_ok l \<longleftrightarrow> distinct (cl_known l) \<and> length (cl_known l) \<le> cl_max_values l"

lemma limiter_resolve_ok:
  assumes "limiter_resolve v l = (l', r)"
  shows "limiter_ok l \<Longrightarrow> limiter_ok l'" and "set (cl_known l) \<subseteq> set (cl_known l')"
    and "cl_max_values l' = cl_max_values l" and "r \<in> insert other_label (set (cl_known l'))"
  using assms by (auto simp: limiter_resolve_def limiter_ok_def split: if_splits)

text \<open>What a step keeps: the limiters stay within bounds and every label they gave out is known or the
  common one.\<close>

definition within :: "thought_gate_metrics \<Rightarrow> 'f metric_call list \<Rightarrow> bool" where
  "within m cs \<longleftrightarrow>
     limiter_ok (tm_tool_name_limiter m) \<and> cl_max_values (tm_tool_name_limiter m) = 200 \<and>
     limiter_ok (tm_server_id_limiter m) \<and> cl_max_values (tm_server_id_limiter m) = 50 \<and>
     tools_of cs \<subseteq> insert ''none'' (insert other_label (set (cl_known (tm_tool_name_limiter m)))) \<and>
     servers_of cs \<subseteq> insert other_label (set (cl_known (tm_server_id_limiter m)))"

lemma labels_append [simp]:
  "tools_of (cs @ cs') = tools_of cs \<union> tools_of cs'" "servers_of (cs @ cs') = servers_of cs \<union> servers_of cs'"
  "tools_of [] = {}" "servers_of [] = {}"
  by (auto simp: tools_of_def servers_of_def)

lemma within_tool:
  assumes "within m cs" and "resolve_tool t m = (m', r)" and "tools_of cs' \<subseteq> {r}" and "servers_of cs' = {}"
  shows "within m' (cs @ cs')"
  using assms
  by (auto simp: within_def resolve_tool_def split: option.splits prod.splits dest: limiter_resolve_ok) (blast dest: limiter_resolve_ok)+

lemma within_server:
  assumes "within m cs" and "resolve_server s m = (m', r)" and "servers_of cs' \<subseteq> {r}" and "tools_of cs' = {}"
  shows "within m' (cs @ cs')"
  using assms
  by (auto simp: within_def resolve_server_def split: prod.splits dest: limiter_resolve_ok) (blast dest: limiter_resolve_ok)+

lemma within_stateless:
  "within m cs \<Longrightarrow> tools_of cs' = {} \<Longrightarrow> servers_of cs' = {} \<Longrightarrow> within m (cs @ cs')"
  by (simp add: within_def)

lemma labels_Cons [simp]:
  "tools_of (c # cs) = set_option (tool_label (call_labels c)) \<union> tools_of cs"
  "servers_of (c # cs) = (case call_labels c of L_Stdio l \<Rightarrow> {stdio_server l} | _ \<Rightarrow> {}) \<union> servers_of cs"
  by (auto simp: tools_of_def servers_of_def split: labels.splits)

text \<open>Each operation uses at most one of the limiters, and that once.\<close>

lemma metric_step_limiter:
  assumes "metric_step m cs m'"
  shows "m' = m \<and> tools_of cs = {} \<and> servers_of cs = {} \<or>
    (\<exists>t r. resolve_tool t m = (m', r) \<and> tools_of cs \<subseteq> {r} \<and> servers_of cs = {}) \<or>
    (\<exists>s r. resolve_server s m = (m', r) \<and> servers_of cs \<subseteq> {r} \<and> tools_of cs = {})"
  using assms
  by (cases rule: metric_step.cases) (auto simp: recording_defs split: prod.splits)

lemma metric_step_within:
  "metric_step m cs' m' \<Longrightarrow> within m cs \<Longrightarrow> within m' (cs @ cs')"
  using metric_step_limiter [of m cs' m'] within_stateless within_tool within_server by metis

lemma metric_run_within:
  fixes cs :: "'f metric_call list"
  shows "metric_run m cs m' \<Longrightarrow> within m ([] :: 'f metric_call list) \<Longrightarrow> within m' cs"
  by (induction rule: metric_run.induct) (auto intro: metric_step_within)

lemma card_insert2: "card (insert x (insert y (set ks))) \<le> length ks + 2"
  using card_length [of "x # y # ks"] by simp

text \<open>C40: Over any course of recordings, the labels taken from names of tools and of servers have a bounded
  number of values: at most 202 tool names (200 known ones, the common one for all others, and the one
  for requests without a tool) and at most 51 servers.\<close>

theorem metric_labels_bounded:
  assumes "metric_run metrics_new (cs :: 'f metric_call list) m"
  shows "card (tools_of cs) \<le> 202 \<and> card (servers_of cs) \<le> 51"
proof -
  have "within metrics_new ([] :: 'f metric_call list)"
    by (simp add: within_def metrics_new_def limiter_new_def limiter_ok_def)
  with assms have w: "within m cs" by (rule metric_run_within)
  let ?t = "cl_known (tm_tool_name_limiter m)" and ?s = "cl_known (tm_server_id_limiter m)"
  have "card (tools_of cs) \<le> card (insert ''none'' (insert other_label (set ?t)))"
      "card (servers_of cs) \<le> card (insert other_label (set ?s))"
    using w by (simp_all add: within_def card_mono)
  moreover have "card (insert other_label (set ?s)) \<le> Suc (length ?s)"
    using card_length [of "other_label # ?s"] by simp
  moreover have "length ?t \<le> 200" "length ?s \<le> 50" using w by (simp_all add: within_def limiter_ok_def)
  ultimately show ?thesis using card_insert2 [of "''none''" other_label ?t] by linarith
qed

text \<open>The method of a request, which the client chooses, is not limited: \<open>n\<close> requests can make \<open>n\<close> series.\<close>

definition probe :: "nat \<Rightarrow> string" where
  "probe n = replicate n (CHR ''x'')"

lemma method_series_unbounded:
  "\<exists>(cs :: nat metric_call list) m. metric_run metrics_new cs m \<and> card (call_labels ` set cs) = n"
proof -
  let ?c = "\<lambda>k. M_Inc ''thoughtgate_requests_total'' (L_Http (RequestLabels (probe k) ''none'' ''error'')) 1 :: nat metric_call"
  have "metric_run metrics_new (map ?c [0 ..< n]) metrics_new"
  proof (induction n)
    case (Suc n)
    have "metric_step metrics_new [?c n] metrics_new"
      by (rule metric_step.request [of "probe n" None "''error''"]) (simp add: record_request_def resolve_tool_def)
    from metric_run.extend [OF Suc this] show ?case by simp
  qed (simp add: metric_run.start)
  moreover have "card (call_labels ` set (map ?c [0 ..< n])) = n"
  proof -
    let ?l = "\<lambda>k. L_Http (RequestLabels (probe k) ''none'' ''error'')"
    have "call_labels ` set (map ?c [0 ..< n]) = ?l ` {0 ..< n}" by (simp add: image_image)
    moreover have "inj_on ?l {0 ..< n}" by (auto simp: inj_on_def probe_def replicate_eq_replicate)
    ultimately show ?thesis by (simp only: card_image card_atLeastLessThan diff_zero)
  qed
  ultimately show ?thesis by blast
qed

theorem metric_labels_bounded_witness:
  "metric_run metrics_new ([] @ [M_Inc ''thoughtgate_decisions_total'' (L_Http (DecisionLabels ''gate1'' ''pass'')) 1 :: nat metric_call]) metrics_new \<and>
   card (tools_of [M_Inc ''thoughtgate_decisions_total'' (L_Http (DecisionLabels ''gate1'' ''pass'')) 1 :: nat metric_call]) \<le> 202"
proof -
  have r: "metric_run metrics_new ([] @ [M_Inc ''thoughtgate_decisions_total'' (L_Http (DecisionLabels ''gate1'' ''pass'')) 1 :: nat metric_call]) metrics_new"
    by (rule metric_run.extend [OF metric_run.start], fold record_gate_decision_def) (rule metric_step.gate_decision)
  from metric_labels_bounded [OF r] r show ?thesis by simp
qed

section \<open>Names and states\<close>

lemma registered_distinct: "distinct (map fst registered_metrics)"
  by code_simp

lemmas registered_defs = registered_metrics_def counter_metrics_def histogram_metrics_def gauge_metrics_def
  lifecycle_metrics_def stdio_metrics_def

lemma buckets_increase: "(n, K_Histogram bs) \<in> set registered_metrics \<Longrightarrow> sorted_wrt (<) bs"
  by (auto simp: registered_defs request_duration_buckets_def cedar_buckets_def upstream_buckets_def
      approval_buckets_def payload_buckets_def stdio_approval_buckets_def)

text \<open>The gauges that stand for a state show exactly one state.\<close>

lemma server_state_exclusive:
  assumes "set_stdio_server_state sid st m = (m', cs)" and "st \<in> set stdio_states"
  shows "\<exists>!l. M_Set ''thoughtgate_stdio_server_state'' l 1 \<in> set cs"
  using assms by (auto simp: set_stdio_server_state_def stdio_states_def split: prod.splits)

end
