(* ===== verification/Request_Logging.thy ===== *)
theory Request_Logging
  imports Proxy_Service
begin

text \<open>
  The logging of HTTP requests (\<open>logging_layer.rs\<close>): the span of a request, the events of its callbacks and the
  form in which headers appear in them. The level of the log is an argument.
\<close>

section \<open>Headers in the log\<close>

definition sensitive_headers :: "string list" where
  "sensitive_headers =
     [''authorization'', ''cookie'', ''x-api-key'', ''x-auth-token'', ''proxy-authorization'', ''set-cookie'']"

definition is_sensitive :: "string \<Rightarrow> bool" where
  "is_sensitive name \<longleftrightarrow> list_ex (\<lambda>sensitive. eq_ignore_ascii_case name sensitive) sensitive_headers"

definition max_headers_to_log :: nat where "max_headers_to_log = 50"
definition max_value_len :: nat where "max_value_len = 1024"

definition shown_value :: "string \<Rightarrow> string" where
  "shown_value v =
     (case header_to_str v of
        Some s \<Rightarrow>
          if length s \<le> max_value_len then s
          else take max_value_len s @ ''... ('' @ show_nat (length s) @ '' bytes)''
      | None \<Rightarrow> ''<binary: '' @ show_nat (length v) @ '' bytes>'')"

text \<open>A header with several values appears once for each.\<close>

definition header_pairs :: "headers \<Rightarrow> (string \<times> string) list" where
  "header_pairs hs = concat (map (\<lambda>(name, vs). map (Pair name) vs) hs)"

fun shown_entry :: "string \<times> string \<Rightarrow> string \<times> string" where
  "shown_entry (name, v) = (name, if is_sensitive name then ''[REDACTED]'' else shown_value v)"

definition sanitize_headers :: "headers \<Rightarrow> (string \<times> string) list" where
  "sanitize_headers hs =
     (let ps = header_pairs hs in
      map shown_entry (take max_headers_to_log ps) @
      (if length ps > max_headers_to_log
       then [(''...'', ''('' @ show_nat (length ps - max_headers_to_log) @ '' more headers)'')] else []))"

section \<open>Spans and events\<close>

record log_span =
  ls_method :: string
  ls_uri :: string
  ls_version :: string
  ls_request_id :: string

datatype log_event =
    Request_Received string string                          \<comment> \<open>method, URI\<close>
  | Request_Details string "(string \<times> string) list"       \<comment> \<open>version, headers\<close>
  | Response_Sent nat nat                                   \<comment> \<open>status, milliseconds\<close>
  | Response_Details string "(string \<times> string) list"
  | Request_Failed string nat                               \<comment> \<open>classification, milliseconds\<close>

text \<open>\<open>fresh\<close> is the identifier that is drawn if the request has none.\<close>

definition make_span :: "string \<Rightarrow> string \<Rightarrow> http_request \<Rightarrow> log_span" where
  "make_span fresh version req =
     \<lparr>ls_method = hq_method req, ls_uri = hq_uri req, ls_version = version,
      ls_request_id = (case Option.bind (header_first ''x-request-id'' (hq_headers req)) header_to_str of
          Some s \<Rightarrow> s | None \<Rightarrow> fresh)\<rparr>"

definition on_request :: "bool \<Rightarrow> string \<Rightarrow> http_request \<Rightarrow> log_event list" where
  "on_request debug version req =
     Request_Received (hq_method req) (hq_uri req) #
     (if debug then [Request_Details version (sanitize_headers (hq_headers req))] else [])"

definition on_response :: "bool \<Rightarrow> string \<Rightarrow> nat \<Rightarrow> proxied_response \<Rightarrow> log_event list" where
  "on_response debug version latency_ms resp =
     Response_Sent (hr_status resp) latency_ms #
     (if debug then [Response_Details version (sanitize_headers (hr_headers resp))] else [])"

definition on_failure :: "string \<Rightarrow> nat \<Rightarrow> log_event list" where
  "on_failure failure latency_ms = [Request_Failed failure latency_ms]"

section \<open>What the log hides\<close>

text \<open>The names of headers that carry credentials, in any mix of upper and lower case.\<close>

definition credential_name :: "string \<Rightarrow> bool" where
  "credential_name name \<longleftrightarrow> map to_ascii_lower name \<in>
     {''authorization'', ''cookie'', ''x-api-key'', ''x-auth-token'', ''proxy-authorization'', ''set-cookie''}"

lemma is_sensitive_iff: "is_sensitive name \<longleftrightarrow> credential_name name"
proof -
  have low: "list_all (\<lambda>s. map to_ascii_lower s = s) sensitive_headers" by code_simp
  then have "is_sensitive name \<longleftrightarrow> map to_ascii_lower name \<in> set sensitive_headers"
    by (auto simp: is_sensitive_def eq_ignore_ascii_case_def list_ex_iff list_all_iff)
  then show ?thesis by (auto simp: credential_name_def sensitive_headers_def)
qed

text \<open>Two header maps that agree but for the values of credentials.\<close>

definition agree_but_secrets :: "headers \<Rightarrow> headers \<Rightarrow> bool" where
  "agree_but_secrets hs hs' \<longleftrightarrow>
     list_all2 (\<lambda>(n, vs) (n', vs'). n = n' \<and> (if credential_name n then length vs = length vs' else vs = vs')) hs hs'"

lemma shown_pairs_agree:
  "agree_but_secrets hs hs' \<Longrightarrow> map shown_entry (header_pairs hs) = map shown_entry (header_pairs hs')"
  unfolding agree_but_secrets_def
proof (induction rule: list_all2_induct)
  case (Cons h hs h' hs')
  obtain n vs vs' where h: "h = (n, vs)" "h' = (n, vs')"
      "if credential_name n then length vs = length vs' else vs = vs'"
    using Cons.hyps(1) by (auto split: prod.splits)
  then have "map (shown_entry \<circ> Pair n) vs = map (shown_entry \<circ> Pair n) vs'"
    by (auto simp: map_replicate_const comp_def is_sensitive_iff split: if_splits)
  with h Cons.IH show ?case by (simp add: header_pairs_def)
qed (simp add: header_pairs_def)

lemma header_first_agree:
  "agree_but_secrets hs hs' \<Longrightarrow> \<not> credential_name name \<Longrightarrow> header_first name hs = header_first name hs'"
  unfolding agree_but_secrets_def header_first_def
  by (induction rule: list_all2_induct) (auto split: if_splits)

lemma sanitize_headers_agree:
  assumes "agree_but_secrets hs hs'"
  shows "sanitize_headers hs = sanitize_headers hs'"
proof -
  note same = shown_pairs_agree [OF assms]
  then have "length (header_pairs hs) = length (header_pairs hs')" by (metis length_map)
  with same show ?thesis by (simp add: sanitize_headers_def Let_def take_map [symmetric])
qed

text \<open>C39: The log hides credentials: whatever values the sensitive headers of a request or a response have, and
  however their names are written, the span and every event of the log are the same, at every level.\<close>

theorem log_hides_secrets:
  assumes "agree_but_secrets (hq_headers req) hs" and "agree_but_secrets (hr_headers resp) hs'"
  shows "make_span fresh v (req\<lparr>hq_headers := hs\<rparr>) = make_span fresh v req \<and>
    on_request debug v (req\<lparr>hq_headers := hs\<rparr>) = on_request debug v req \<and>
    on_response debug v ms (resp\<lparr>hr_headers := hs'\<rparr>) = on_response debug v ms resp"
proof -
  have "\<not> credential_name ''x-request-id''" by code_simp
  with header_first_agree [OF assms(1)] sanitize_headers_agree [OF assms(1)] sanitize_headers_agree [OF assms(2)]
  show ?thesis by (simp add: make_span_def on_request_def on_response_def)
qed

definition logged_request :: http_request where
  "logged_request = (demo_mcp_post ''text/plain'')\<lparr>hq_headers := [(''Authorization'', [''Bearer a'']), (''accept'', [''x''])]\<rparr>"

definition logged_response :: proxied_response where
  "logged_response = \<lparr>hr_status = 200, hr_headers = [(''Set-Cookie'', [''s=1''])], hr_body = []\<rparr>"

theorem log_hides_secrets_witness:
  "on_request True ''HTTP/1.1'' (logged_request\<lparr>hq_headers := [(''Authorization'', [''Bearer b'']), (''accept'', [''x''])]\<rparr>) =
     on_request True ''HTTP/1.1'' logged_request \<and>
   on_response True ''HTTP/1.1'' 5 (logged_response\<lparr>hr_headers := [(''Set-Cookie'', [''s=2''])]\<rparr>) =
     on_response True ''HTTP/1.1'' 5 logged_response"
proof -
  have s: "credential_name ''Authorization''" "credential_name ''Set-Cookie''" by code_simp+
  have a: "agree_but_secrets (hq_headers logged_request) [(''Authorization'', [''Bearer b'']), (''accept'', [''x''])]"
      "agree_but_secrets (hr_headers logged_response) [(''Set-Cookie'', [''s=2''])]"
    using s by (simp_all add: agree_but_secrets_def logged_request_def logged_response_def)
  from log_hides_secrets [OF a, of "[]" "''HTTP/1.1''" True 5] show ?thesis by blast
qed

lemma log_bounded: "length (sanitize_headers hs) \<le> max_headers_to_log + 1"
  by (simp add: sanitize_headers_def Let_def)

end
