(* ===== verification/Protocol_Types.thy ===== *)
theory Protocol_Types
  imports Task_Handlers Jsonrpc Pipeline Traffic
begin

text \<open>
  The remaining types of the protocol: identifiers, status names and the builders of the messages of the task
  methods (\<open>protocol/task.rs\<close>, \<open>protocol/methods.rs\<close>), and the types of the inspector interface (\<open>inspector.rs\<close>)
  with the inspector that approves everything. Derived (de)serializers are not modelled.
\<close>

section \<open>Task identifiers\<close>

definition task_id_body_length :: nat where
  "task_id_body_length = 21"

text \<open>\<open>uuid\<close> is the random UUID as 32 hexadecimal digits; the slice panics if it is shorter.\<close>

definition task_id_new :: "string \<Rightarrow> (unit, task_id) rres" where
  "task_id_new uuid =
     (if length uuid < task_id_body_length then RPanic
      else ROk (task_id_prefix @ take task_id_body_length uuid))"

definition task_id_from_raw :: "string \<Rightarrow> task_id" where
  "task_id_from_raw s = s"

section \<open>Status names\<close>

definition sep1686_from_str :: "string \<Rightarrow> string + sep1686_status" where
  "sep1686_from_str s =
     (if s = ''working'' then Inr S_Working
      else if s = ''input_required'' then Inr S_InputRequired
      else if s = ''completed'' then Inr S_Completed
      else if s = ''failed'' then Inr S_Failed
      else if s = ''cancelled'' then Inr S_Cancelled
      else Inl (''Invalid SEP-1686 status: '' @ q s))"

text \<open>The serialized form is a string; only a string is read.\<close>

definition sep1686_serialize :: "sep1686_status \<Rightarrow> json" where
  "sep1686_serialize s = JString (display_sep1686 s)"

definition sep1686_deserialize :: "json \<Rightarrow> string + sep1686_status" where
  "sep1686_deserialize v =
     (case v of JString s \<Rightarrow> sep1686_from_str s | _ \<Rightarrow> Inl ''expected a SEP-1686 status string'')"

section \<open>Builders\<close>

definition metadata_new :: "task_id \<Rightarrow> sep1686_status \<Rightarrow> task_metadata" where
  "metadata_new task_id status =
     \<lparr>md_task_id = task_id, md_status = status, md_status_message = None, md_poll_interval = None\<rparr>"

definition with_message :: "string \<Rightarrow> task_metadata \<Rightarrow> task_metadata" where
  "with_message message md = md\<lparr>md_status_message := Some message\<rparr>"

definition with_poll_interval :: "nat \<Rightarrow> task_metadata \<Rightarrow> task_metadata" where
  "with_poll_interval interval_ms md = md\<lparr>md_poll_interval := Some interval_ms\<rparr>"

record sep1686_task_result =
  rs_content :: json
  rs_is_error :: bool

definition result_success :: "json \<Rightarrow> sep1686_task_result" where
  "result_success content = \<lparr>rs_content = content, rs_is_error = False\<rparr>"

definition result_error :: "json \<Rightarrow> sep1686_task_result" where
  "result_error content = \<lparr>rs_content = content, rs_is_error = True\<rparr>"

definition list_entry_new :: "task_id \<Rightarrow> sep1686_status \<Rightarrow> datetime \<Rightarrow> string \<Rightarrow> task_list_entry" where
  "list_entry_new task_id status created_at tool_name =
     \<lparr>tl_task_id = task_id, tl_status = status, tl_created_at = created_at, tl_tool_name = tool_name\<rparr>"

record sep1686_task_request =
  rq_ttl :: "nat option"

definition request_with_ttl :: "nat \<Rightarrow> sep1686_task_request" where
  "request_with_ttl ttl_ms = \<lparr>rq_ttl = Some ttl_ms\<rparr>"

text \<open>\<open>Duration::from_millis\<close>, in nanoseconds.\<close>

definition ttl_duration :: "sep1686_task_request \<Rightarrow> duration option" where
  "ttl_duration r = map_option (\<lambda>ms. ms * 1000000) (rq_ttl r)"

definition list_response_new :: "task_list_entry list \<Rightarrow> tasks_list_response" where
  "list_response_new tasks = \<lparr>lr_tasks = tasks, lr_next_cursor = None\<rparr>"

definition with_next_cursor :: "string \<Rightarrow> tasks_list_response \<Rightarrow> tasks_list_response" where
  "with_next_cursor cursor r = r\<lparr>lr_next_cursor := Some cursor\<rparr>"

definition has_more :: "tasks_list_response \<Rightarrow> bool" where
  "has_more r \<longleftrightarrow> lr_next_cursor r \<noteq> None"

definition cancel_response_new :: "task_id \<Rightarrow> tasks_cancel_response" where
  "cancel_response_new task_id = \<lparr>cr_task_id = task_id, cr_status = S_Cancelled\<rparr>"

section \<open>Inspectors\<close>

datatype inspection_error = Insp_Failed string string | Insp_Panicked string

fun inspection_error_to_string :: "inspection_error \<Rightarrow> string" where
  "inspection_error_to_string (Insp_Failed name reason) = ''Inspector '' @ q name @ '' failed: '' @ reason"
| "inspection_error_to_string (Insp_Panicked name) = ''Inspector '' @ q name @ '' panicked''"

datatype decision = D_Approve | D_Modify string | D_Reject nat

definition is_approve :: "decision \<Rightarrow> bool" where "is_approve d \<longleftrightarrow> d = D_Approve"
definition is_modify :: "decision \<Rightarrow> bool" where "is_modify d = (case d of D_Modify _ \<Rightarrow> True | _ \<Rightarrow> False)"
definition is_reject :: "decision \<Rightarrow> bool" where "is_reject d = (case d of D_Reject _ \<Rightarrow> True | _ \<Rightarrow> False)"

record request_parts =
  rp_method :: string
  rp_uri :: string
  rp_headers :: headers

record response_parts =
  xp_status :: nat
  xp_headers :: headers

datatype inspection_context = IC_Request request_parts | IC_Response response_parts

fun ctx_is_request :: "inspection_context \<Rightarrow> bool" where
  "ctx_is_request (IC_Request _) = True"
| "ctx_is_request (IC_Response _) = False"

fun ctx_headers :: "inspection_context \<Rightarrow> headers" where
  "ctx_headers (IC_Request p) = rp_headers p"
| "ctx_headers (IC_Response p) = xp_headers p"

fun ctx_uri :: "inspection_context \<Rightarrow> string option" where
  "ctx_uri (IC_Request p) = Some (rp_uri p)"
| "ctx_uri (IC_Response _) = None"

fun ctx_method :: "inspection_context \<Rightarrow> string option" where
  "ctx_method (IC_Request p) = Some (rp_method p)"
| "ctx_method (IC_Response _) = None"

fun ctx_status :: "inspection_context \<Rightarrow> nat option" where
  "ctx_status (IC_Request _) = None"
| "ctx_status (IC_Response p) = Some (xp_status p)"

definition noop_inspect :: "string \<Rightarrow> inspection_context \<Rightarrow> inspection_error + decision" where
  "noop_inspect body ctx = Inr D_Approve"

text \<open>An implementation of the interface in the chain of the pipeline, which shows it the bytes of the call as the
  body of a made-up request; \<open>in_time\<close> says whether it answers before the timeout and
  \<open>show_status\<close> how the crate http prints a status.\<close>

definition pipeline_context :: "string \<Rightarrow> inspection_context" where
  "pipeline_context uri =
     IC_Request \<lparr>rp_method = ''POST'', rp_uri = uri, rp_headers = [(''content-type'', [''application/json''])]\<rparr>"

definition as_inspector ::
  "string \<Rightarrow> (string \<Rightarrow> bool) \<Rightarrow> (nat \<Rightarrow> string) \<Rightarrow>
   (string \<Rightarrow> inspection_context \<Rightarrow> inspection_error + decision) \<Rightarrow> inspector" where
  "as_inspector name in_time show_status inspect =
     \<lparr>insp_name = name,
      insp_inspect = (\<lambda>uri bytes.
        if \<not> in_time bytes then I_Timeout
        else case inspect bytes (pipeline_context uri) of
               Inl e \<Rightarrow> I_Error (inspection_error_to_string e)
             | Inr D_Approve \<Rightarrow> I_Approve
             | Inr (D_Modify b) \<Rightarrow> I_Modify b
             | Inr (D_Reject s) \<Rightarrow> I_Reject (show_status s))\<rparr>"

section \<open>Properties\<close>

lemma new_task_id_owned:
  "length uuid = 32 \<Longrightarrow> \<exists>k. task_id_new uuid = ROk k \<and> is_thoughtgate_owned k \<and> length k = 24"
  by (simp add: task_id_new_def is_thoughtgate_owned_def task_id_prefix_def task_id_body_length_def)

text \<open>Reading a status gives back exactly what writing made of it, and nothing else is a status.\<close>

lemma sep1686_roundtrip: "sep1686_deserialize (sep1686_serialize s) = Inr s"
  by (cases s) (simp_all add: sep1686_serialize_def sep1686_deserialize_def sep1686_from_str_def)

lemma sep1686_deserialize_iff: "sep1686_deserialize v = Inr s \<longleftrightarrow> v = sep1686_serialize s"
proof
  assume "sep1686_deserialize v = Inr s"
  then show "v = sep1686_serialize s"
    by (auto simp: sep1686_deserialize_def sep1686_serialize_def sep1686_from_str_def split: json.splits if_splits)
qed (simp add: sep1686_roundtrip)

lemma list_pages_cursor:
  "has_more (with_next_cursor c r)" "\<not> has_more (list_response_new ts)"
  by (simp_all add: has_more_def with_next_cursor_def list_response_new_def)

text \<open>Inspectors that approve everything leave a request as it is, if it can be written at all.\<close>

lemma noop_chain:
  assumes "\<forall>i \<in> set is. \<exists>name f. i = as_inspector name (\<lambda>_. True) f noop_inspect"
    and "call_bytes C r = Inr bs" and "cd_uri_error C (''/'' @ r_method r) = None"
  shows "run_inspector_chain C cfg is r = Inr r"
  using assms(1)
proof (induction "is")
  case (Cons i "is")
  then obtain name f where "i = as_inspector name (\<lambda>_. True) f noop_inspect" by auto
  then have "run_inspector C cfg i r = Inr r"
    using assms(2,3) by (simp add: run_inspector_def as_inspector_def noop_inspect_def Let_def)
  with Cons show ?case by simp
qed simp

end
