(* ===== verification/Telemetry.thy ===== *)
theory Telemetry
  imports Config_Loader
begin

text \<open>
  Spans and their configuration (\<open>telemetry/spans.rs\<close>, \<open>telemetry/mod.rs\<close>). A span is what is handed to the
  OpenTelemetry crate: its name, kind, attributes, links and parent, then the calls that finish it.
  Floating-point numbers are passed through; the exporter and the provider are the crate's.
\<close>

section \<open>Configuration\<close>

record batch_settings =
  bs_max_queue_size :: nat
  bs_max_export_batch_size :: nat
  bs_scheduled_delay :: duration
  bs_export_timeout :: duration

record tracing_config =
  tc_enabled :: bool
  tc_otlp_endpoint :: "string option"
  tc_service_name :: string
  tc_resource_attributes :: "(string \<times> string) list"
  tc_otlp_headers :: "(string \<times> string) list"
  tc_sample_rate :: "64 word"     \<comment> \<open>the bits of an \<open>f64\<close>\<close>
  tc_batch :: batch_settings

definition f64_one :: "64 word" where "f64_one = 0x3FF0000000000000"

definition batch_settings_default :: batch_settings where
  "batch_settings_default = \<lparr>bs_max_queue_size = 2048, bs_max_export_batch_size = 512,
     bs_scheduled_delay = TG_Prelude.from_millis 5000, bs_export_timeout = TG_Prelude.from_millis 30000\<rparr>"

definition tracing_config_default :: tracing_config where
  "tracing_config_default = \<lparr>tc_enabled = False, tc_otlp_endpoint = None, tc_service_name = ''thoughtgate'',
     tc_resource_attributes = [], tc_otlp_headers = [], tc_sample_rate = f64_one, tc_batch = batch_settings_default\<rparr>"

definition tracing_config_from_env :: "(string \<Rightarrow> string option) \<Rightarrow> tracing_config" where
  "tracing_config_from_env var =
     \<lparr>tc_enabled = (case var ''THOUGHTGATE_TELEMETRY_ENABLED'' of Some v \<Rightarrow> v = ''true'' \<or> v = ''1'' | None \<Rightarrow> False),
      tc_otlp_endpoint = var ''OTEL_EXPORTER_OTLP_ENDPOINT'',
      tc_service_name = (case var ''OTEL_SERVICE_NAME'' of Some s \<Rightarrow> s | None \<Rightarrow> ''thoughtgate''),
      tc_resource_attributes = [], tc_otlp_headers = [], tc_sample_rate = f64_one, tc_batch = batch_settings_default\<rparr>"

definition env_attributes :: "(string \<times> string) list" where
  "env_attributes =
     [(''K8S_NAMESPACE'', ''k8s.namespace.name''), (''K8S_POD_NAME'', ''k8s.pod.name''),
      (''K8S_NODE_NAME'', ''k8s.node.name''), (''DEPLOY_ENV'', ''deployment.environment'')]"

definition telemetry_yaml_default :: telemetry_config where
  "telemetry_yaml_default = \<lparr>te_enabled = False, te_otlp = None, te_sampling = None, te_batch = None,
     te_resource = None, te_propagate_upstream = None\<rparr>"

definition tracing_config_from_yaml ::
  "(string \<Rightarrow> string option) \<Rightarrow> telemetry_config option \<Rightarrow> tracing_config" where
  "tracing_config_from_yaml var yaml_opt =
     (let yaml = (case yaml_opt of Some y \<Rightarrow> y | None \<Rightarrow> telemetry_yaml_default);
          attrs = fold (\<lambda>(env_var, attr_name) m. case var env_var of Some v \<Rightarrow> AList.update attr_name v m | None \<Rightarrow> m)
            env_attributes (case te_resource yaml of Some r \<Rightarrow> r | None \<Rightarrow> [])
      in \<lparr>tc_enabled = te_enabled yaml,
          tc_otlp_endpoint = (case var ''OTEL_EXPORTER_OTLP_ENDPOINT'' of
              Some e \<Rightarrow> Some e | None \<Rightarrow> map_option ot_endpoint (te_otlp yaml)),
          tc_service_name = (case map_of attrs ''service.name'' of
              Some s \<Rightarrow> s
            | None \<Rightarrow> (case var ''OTEL_SERVICE_NAME'' of Some s \<Rightarrow> s | None \<Rightarrow> ''thoughtgate'')),
          tc_resource_attributes = attrs,
          tc_otlp_headers = (case te_otlp yaml of Some ot \<Rightarrow> ot_headers ot | None \<Rightarrow> []),
          tc_sample_rate = (case te_sampling yaml of Some sa \<Rightarrow> sa_success_sample_rate sa | None \<Rightarrow> f64_one),
          tc_batch = (case te_batch yaml of
              None \<Rightarrow> batch_settings_default
            | Some b \<Rightarrow> \<lparr>bs_max_queue_size = bc_max_queue_size b, bs_max_export_batch_size = bc_max_export_batch_size b,
                bs_scheduled_delay = TG_Prelude.from_millis (bc_scheduled_delay_ms b),
                bs_export_timeout = TG_Prelude.from_millis (bc_export_timeout_ms b)\<rparr>)\<rparr>)"

datatype telemetry_error = TLE_ExporterBuild string | TLE_Shutdown string

fun telemetry_error_to_string :: "telemetry_error \<Rightarrow> string" where
  "telemetry_error_to_string (TLE_ExporterBuild r) = ''failed to build OTLP exporter: '' @ r"
| "telemetry_error_to_string (TLE_Shutdown r) = ''tracer provider shutdown failed: '' @ r"

datatype sampler = AlwaysOn | AlwaysOff | TraceIdRatioBased "64 word"

text \<open>Comparisons of an \<open>f64\<close> with one and zero, on its bits.\<close>

definition f64_ge_one :: "64 word \<Rightarrow> bool" where
  "f64_ge_one x \<longleftrightarrow> f64_one \<le> x \<and> x \<le> 0x7FF0000000000000"

definition f64_le_zero :: "64 word \<Rightarrow> bool" where
  "f64_le_zero x \<longleftrightarrow> x = 0 \<or> 0x8000000000000000 \<le> x \<and> x \<le> 0xFFF0000000000000"

definition sampler_for :: "64 word \<Rightarrow> sampler" where
  "sampler_for rate = (if f64_ge_one rate then AlwaysOn else if f64_le_zero rate then AlwaysOff else TraceIdRatioBased rate)"

text \<open>What the provider is built from: the resource and, if spans are exported, the exporter, the batch
  processor (queue, batch, delay) and the sampler.\<close>

record tracer_provider =
  tp_service_name :: string
  tp_attributes :: "(string \<times> string) list"
  tp_export :: "(string option \<times> (string \<times> string) list \<times> (nat \<times> nat \<times> duration) \<times> sampler) option"

definition init_telemetry :: "(string option \<times> (string \<times> string) list \<Rightarrow> string + unit) \<Rightarrow> tracing_config \<Rightarrow> telemetry_error + tracer_provider" where
  "init_telemetry build_exporter config =
     (let provider = (\<lambda>ex. \<lparr>tp_service_name = tc_service_name config, tp_attributes = tc_resource_attributes config,
                            tp_export = ex\<rparr>) in
      if tc_enabled config then
        (case build_exporter (tc_otlp_endpoint config, tc_otlp_headers config) of
           Inl e \<Rightarrow> Inl (TLE_ExporterBuild e)
         | Inr _ \<Rightarrow> Inr (provider (Some (tc_otlp_endpoint config, tc_otlp_headers config,
             (bs_max_queue_size (tc_batch config), bs_max_export_batch_size (tc_batch config), bs_scheduled_delay (tc_batch config)),
             sampler_for (tc_sample_rate config)))))
      else Inr (provider None))"

definition telemetry_shutdown :: "string + unit \<Rightarrow> telemetry_error + unit" where
  "telemetry_shutdown r = (case r of Inl e \<Rightarrow> Inl (TLE_Shutdown e) | Inr u \<Rightarrow> Inr u)"

section \<open>Spans\<close>

datatype 'f attr_value = AV_String string | AV_Bool bool | AV_Int int | AV_Float 'f

datatype span_kind = SK_Server | SK_Producer | SK_Consumer | SK_Internal

record ('f, 'cx, 'sc) span_start =
  sp_name :: string
  sp_kind :: span_kind
  sp_attributes :: "(string \<times> 'f attr_value) list"
  sp_links :: "'sc list"
  sp_parent :: "'cx option"

datatype 'f span_call =
    Set_Attribute string "'f attr_value"
  | Set_Status_Ok
  | Set_Status_Error string
  | Add_Event string "(string \<times> 'f attr_value) list"
  | End_Span

text \<open>An attribute that is there only if its value is.\<close>

definition opt_attr :: "string \<Rightarrow> ('a \<Rightarrow> 'f attr_value) \<Rightarrow> 'a option \<Rightarrow> (string \<times> 'f attr_value) list" where
  "opt_attr key f v = (case v of Some x \<Rightarrow> [(key, f x)] | None \<Rightarrow> [])"

datatype mcp_message_type = MMT_Request | MMT_Notification

fun message_type_str :: "mcp_message_type \<Rightarrow> string" where
  "message_type_str MMT_Request = ''request''"
| "message_type_str MMT_Notification = ''notification''"

record 'cx mcp_span_data =
  ms_method :: string
  ms_message_type :: mcp_message_type
  ms_message_id :: "string option"
  ms_correlation_id :: string
  ms_tool_name :: "string option"
  ms_session_id :: "string option"
  ms_parent_context :: "'cx option"

definition derive_operation_name :: "string \<Rightarrow> string" where
  "derive_operation_name m =
     (if m = ''tools/call'' then ''execute_tool''
      else if m = ''sampling/createMessage'' then ''chat''
      else if m = ''resources/read'' then ''read_resource''
      else if m = ''resources/list'' then ''list_resources''
      else if m = ''tools/list'' then ''list_tools''
      else if m = ''prompts/list'' then ''list_prompts''
      else if m = ''prompts/get'' then ''get_prompt''
      else ''mcp_request'')"

definition start_mcp_span :: "'cx mcp_span_data \<Rightarrow> ('f, 'cx, 'sc) span_start" where
  "start_mcp_span d =
     \<lparr>sp_name = ms_method d, sp_kind = SK_Server,
      sp_attributes =
        [(''mcp.method.name'', AV_String (ms_method d)),
         (''mcp.message.type'', AV_String (message_type_str (ms_message_type d))),
         (''thoughtgate.request_id'', AV_String (ms_correlation_id d)),
         (''gen_ai.operation.name'', AV_String (derive_operation_name (ms_method d)))] @
        opt_attr ''mcp.message.id'' AV_String (ms_message_id d) @
        opt_attr ''gen_ai.tool.name'' AV_String (ms_tool_name d) @
        opt_attr ''mcp.session.id'' AV_String (ms_session_id d),
      sp_links = [], sp_parent = ms_parent_context d\<rparr>"

definition set_opt :: "string \<Rightarrow> ('a \<Rightarrow> 'f attr_value) \<Rightarrow> 'a option \<Rightarrow> 'f span_call list" where
  "set_opt key f v = map (\<lambda>(k, x). Set_Attribute k x) (opt_attr key f v)"

definition finish_mcp_span :: "bool \<Rightarrow> int option \<Rightarrow> string option \<Rightarrow> 'f span_call list" where
  "finish_mcp_span is_error error_code error_type =
     Set_Attribute ''mcp.result.is_error'' (AV_Bool is_error) #
     (if is_error then
        set_opt ''mcp.error.code'' AV_Int error_code @ set_opt ''error.type'' AV_String error_type @
        [Set_Status_Error ''MCP request failed'']
      else [Set_Status_Ok])"

record 'sc approval_dispatch_data =
  ad_task_id :: string
  ad_channel :: string
  ad_target :: "string option"
  ad_timeout_secs :: "64 word option"
  ad_link_to :: "'sc option"

text \<open>The seconds are read as a signed number.\<close>

definition start_approval_dispatch_span :: "'sc approval_dispatch_data \<Rightarrow> ('f, 'cx, 'sc) span_start" where
  "start_approval_dispatch_span d =
     \<lparr>sp_name = ''thoughtgate.approval.dispatch'', sp_kind = SK_Producer,
      sp_attributes =
        [(''thoughtgate.task.id'', AV_String (ad_task_id d)), (''thoughtgate.approval.channel'', AV_String (ad_channel d))] @
        opt_attr ''thoughtgate.approval.target'' AV_String (ad_target d) @
        opt_attr ''thoughtgate.approval.timeout_s'' (\<lambda>t. AV_Int (sint t)) (ad_timeout_secs d),
      sp_links = (case ad_link_to d of Some l \<Rightarrow> [l] | None \<Rightarrow> []), sp_parent = None\<rparr>"

record 'sc approval_callback_data =
  ak_task_id :: string
  ak_channel :: string
  ak_trace_context_recovered :: bool
  ak_link_to :: "'sc option"

definition start_approval_callback_span :: "'sc approval_callback_data \<Rightarrow> ('f, 'cx, 'sc) span_start" where
  "start_approval_callback_span d =
     \<lparr>sp_name = ''thoughtgate.approval.callback'', sp_kind = SK_Consumer,
      sp_attributes =
        [(''thoughtgate.task.id'', AV_String (ak_task_id d)), (''thoughtgate.approval.channel'', AV_String (ak_channel d)),
         (''thoughtgate.trace_context.recovered'', AV_Bool (ak_trace_context_recovered d))],
      sp_links = (case ak_link_to d of Some l \<Rightarrow> [l] | None \<Rightarrow> []), sp_parent = None\<rparr>"

definition finish_approval_callback_span :: "string \<Rightarrow> string \<Rightarrow> 'f \<Rightarrow> 'f span_call list" where
  "finish_approval_callback_span decision approver latency_secs =
     [Set_Attribute ''thoughtgate.approval.decision'' (AV_String decision),
      Set_Attribute ''thoughtgate.approval.user'' (AV_String approver),
      Set_Attribute ''thoughtgate.approval.latency_s'' (AV_Float latency_secs), Set_Status_Ok]"

definition start_gateway_decision_span :: "string \<Rightarrow> string \<Rightarrow> 'cx \<Rightarrow> ('f, 'cx, 'sc) span_start" where
  "start_gateway_decision_span request_id upstream_target parent =
     \<lparr>sp_name = ''thoughtgate.decision'', sp_kind = SK_Internal,
      sp_attributes = [(''thoughtgate.request_id'', AV_String request_id),
        (''thoughtgate.upstream.target'', AV_String upstream_target)],
      sp_links = [], sp_parent = Some parent\<rparr>"

record gate_outcomes =
  go_visibility :: "string option"
  go_governance :: "string option"
  go_cedar :: "string option"
  go_approval :: "string option"
  go_governance_rule_id :: "string option"
  go_policy_evaluated :: bool

definition finish_gateway_decision_span :: "gate_outcomes \<Rightarrow> 'f option \<Rightarrow> 'f span_call list" where
  "finish_gateway_decision_span outcomes upstream_latency_ms =
     set_opt ''thoughtgate.gate.visibility'' AV_String (go_visibility outcomes) @
     set_opt ''thoughtgate.gate.governance'' AV_String (go_governance outcomes) @
     set_opt ''thoughtgate.gate.cedar'' AV_String (go_cedar outcomes) @
     set_opt ''thoughtgate.gate.approval'' AV_String (go_approval outcomes) @
     set_opt ''thoughtgate.governance.rule_id'' AV_String (go_governance_rule_id outcomes) @
     [Set_Attribute ''thoughtgate.policy.evaluated'' (AV_Bool (go_policy_evaluated outcomes))] @
     set_opt ''thoughtgate.upstream.latency_ms'' AV_Float upstream_latency_ms @ [Set_Status_Ok, End_Span]"

record cedar_span_data =
  cs_tool_name :: string
  cs_policy_id :: "string option"
  cs_principal_type :: string
  cs_principal_id :: string
  cs_action :: string
  cs_resource_type :: string
  cs_resource_id :: string

definition start_cedar_span :: "cedar_span_data \<Rightarrow> 'cx \<Rightarrow> ('f, 'cx, 'sc) span_start" where
  "start_cedar_span d parent =
     \<lparr>sp_name = ''cedar.evaluate'', sp_kind = SK_Internal,
      sp_attributes =
        [(''cedar.tool_name'', AV_String (cs_tool_name d)), (''cedar.principal.type'', AV_String (cs_principal_type d)),
         (''cedar.principal.id'', AV_String (cs_principal_id d)), (''cedar.action'', AV_String (cs_action d)),
         (''cedar.resource.type'', AV_String (cs_resource_type d)), (''cedar.resource.id'', AV_String (cs_resource_id d))] @
        opt_attr ''cedar.policy_id'' AV_String (cs_policy_id d),
      sp_links = [], sp_parent = Some parent\<rparr>"

definition finish_cedar_span :: "string \<Rightarrow> string \<Rightarrow> 'f \<Rightarrow> string option \<Rightarrow> 'f span_call list" where
  "finish_cedar_span decision policy_id duration_ms denial_reason =
     [Set_Attribute ''cedar.decision'' (AV_String decision), Set_Attribute ''cedar.policy_id'' (AV_String policy_id),
      Set_Attribute ''cedar.duration_ms'' (AV_Float duration_ms)] @
     (case denial_reason of
        Some reason \<Rightarrow> [Add_Event ''cedar.denial'' [(''cedar.violation.reason'', AV_String reason)]]
      | None \<Rightarrow> []) @
     [Set_Status_Ok, End_Span]"

section \<open>Properties\<close>

text \<open>Within the configurations that validation lets through, sampling is exact at both ends.\<close>

lemma sampler_of_valid_rate:
  assumes "in_unit_interval rate"
  shows "sampler_for rate = (if rate = f64_one then AlwaysOn
    else if rate = 0 \<or> rate = 0x8000000000000000 then AlwaysOff else TraceIdRatioBased rate)"
proof -
  have le: "rate \<le> 0x3FF0000000000000 \<or> rate = 0x8000000000000000" using assms by (simp add: in_unit_interval_def)
  have ge: "f64_ge_one rate \<longleftrightarrow> rate = f64_one"
    using le by (auto simp: f64_ge_one_def f64_one_def)
  have "f64_le_zero rate \<longleftrightarrow> rate = 0 \<or> rate = 0x8000000000000000"
  proof -
    have "\<not> 0x8000000000000000 \<le> rate" if "rate \<le> 0x3FF0000000000000"
      using that by (auto dest: order.trans)
    with le show ?thesis by (auto simp: f64_le_zero_def)
  qed
  with ge show ?thesis by (simp add: sampler_for_def)
qed

text \<open>The timeout of exports, which is validated, has no effect.\<close>

lemma export_timeout_ignored:
  "init_telemetry b (c\<lparr>tc_batch := (tc_batch c)\<lparr>bs_export_timeout := t\<rparr>\<rparr>) = init_telemetry b c"
  by (simp add: init_telemetry_def Let_def split: sum.split)

text \<open>No key occurs twice among the attributes of a new span.\<close>

lemma start_attributes_distinct:
  "distinct (map fst (sp_attributes (start_mcp_span d)))"
  "distinct (map fst (sp_attributes (start_approval_dispatch_span d')))"
  "distinct (map fst (sp_attributes (start_cedar_span d'' cx)))"
  by (auto simp: start_mcp_span_def start_approval_dispatch_span_def start_cedar_span_def opt_attr_def split: option.splits)

end
