(* ===== verification/Wire_Forms.thy ===== *)
theory Wire_Forms
  imports Proxy_Main Telemetry
begin

text \<open>
  Forms in which values are read and written by hand-written code: identifiers of JSON-RPC
  (\<open>transport/jsonrpc.rs\<close>), durations and warnings of the configuration (\<open>config/duration_format.rs\<close>,
  \<open>config/error.rs\<close>), the debug output of requests (\<open>transport/jsonrpc.rs\<close>, \<open>approval/mod.rs\<close>); and the parts of
  the proxy program around its startup: telemetry, the timeout of requests and the signals
  (\<open>thoughtgate-proxy/src/main.rs\<close>).
\<close>

section \<open>Identifiers\<close>

definition id_deserialize :: "json \<Rightarrow> string + json_rpc_id" where
  "id_deserialize v =
     (case v of
        JNumber n \<Rightarrow>
          (case as_i64 n of Some i \<Rightarrow> Inr (IdNumber i) | None \<Rightarrow> Inl ''JSON-RPC ID must be integer, not float'')
      | JString s \<Rightarrow> Inr (IdString s)
      | JNull \<Rightarrow> Inr IdNull
      | _ \<Rightarrow> Inl ''JSON-RPC ID must be string, integer, or null'')"

datatype 'a maybe_null = MN_Absent | MN_Null | MN_Present 'a

definition maybe_null_deserialize :: "(json \<Rightarrow> string + 'a) \<Rightarrow> json \<Rightarrow> string + 'a maybe_null" where
  "maybe_null_deserialize T v =
     (if v = JNull then Inr MN_Null
      else case T v of Inr x \<Rightarrow> Inr (MN_Present x) | Inl e \<Rightarrow> Inl e)"

definition deserialize_optional_id :: "json \<Rightarrow> string + json_rpc_id option" where
  "deserialize_optional_id v =
     (case maybe_null_deserialize id_deserialize v of
        Inl e \<Rightarrow> Inl e
      | Inr MN_Absent \<Rightarrow> Inr None
      | Inr MN_Null \<Rightarrow> Inr (Some IdNull)
      | Inr (MN_Present i) \<Rightarrow> Inr (Some i))"

text \<open>The field \<open>id\<close> of a request: the default if it is absent, otherwise what its deserializer makes of it.\<close>

definition id_field :: "(string \<times> json) list \<Rightarrow> string + json_rpc_id option" where
  "id_field m = (case map_of m ''id'' of None \<Rightarrow> Inr None | Some v \<Rightarrow> deserialize_optional_id v)"

text \<open>An error response as a line; \<open>to_string\<close> is the serializer, with a fixed form if it fails.\<close>

definition error_response_string ::
  "(json_rpc_id option \<Rightarrow> jsonrpc_error \<Rightarrow> string option) \<Rightarrow> json_rpc_id \<Rightarrow> tg_error \<Rightarrow> string \<Rightarrow> string" where
  "error_response_string to_string i e correlation_id =
     (case to_string (Some i) (to_jsonrpc_error correlation_id e) of
        Some s \<Rightarrow> s
      | None \<Rightarrow>
          ''{\"jsonrpc\":\"2.0\",\"id\":null,\"error\":{\"code\":'' @ show_int (to_jsonrpc_code e) @
          '',\"message\":\"'' @ error_to_string e @ ''\"}}'')"

section \<open>Durations\<close>

text \<open>The crates \<open>humantime\<close> and \<open>iso8601_duration\<close>.\<close>

record 'd duration_lib =
  dl_humantime :: "string \<Rightarrow> duration option"
  dl_iso8601 :: "string \<Rightarrow> 'd option"
  dl_to_std :: "'d \<Rightarrow> duration option"
  dl_format :: "duration \<Rightarrow> string"

definition parse_duration :: "'d duration_lib \<Rightarrow> string \<Rightarrow> string + duration" where
  "parse_duration D s =
     (case dl_humantime D s of
        Some d \<Rightarrow> Inr d
      | None \<Rightarrow>
          (case Option.bind (dl_iso8601 D s) (dl_to_std D) of
             Some d \<Rightarrow> Inr d
           | None \<Rightarrow> Inl (''invalid duration '' @ q s @ '': expected humantime (10m) or ISO 8601 (PT10M)'')))"

text \<open>A field that is no text is refused by \<open>serde\<close>, with a message of its own.\<close>

definition duration_deserialize :: "'d duration_lib \<Rightarrow> (json \<Rightarrow> string) \<Rightarrow> json \<Rightarrow> string + duration" where
  "duration_deserialize D refused v =
     (case v of JString s \<Rightarrow> parse_duration D s | _ \<Rightarrow> Inl (refused v))"

definition duration_deserialize_option ::
  "'d duration_lib \<Rightarrow> (json \<Rightarrow> string) \<Rightarrow> json \<Rightarrow> string + duration option" where
  "duration_deserialize_option D refused v =
     (case v of
        JNull \<Rightarrow> Inr None
      | JString s \<Rightarrow> map_sum id Some (parse_duration D s)
      | _ \<Rightarrow> Inl (refused v))"

definition duration_serialize :: "'d duration_lib \<Rightarrow> duration \<Rightarrow> json" where
  "duration_serialize D d = JString (dl_format D d)"

definition duration_serialize_option :: "'d duration_lib \<Rightarrow> duration option \<Rightarrow> json" where
  "duration_serialize_option D opt = (case opt of Some d \<Rightarrow> JString (dl_format D d) | None \<Rightarrow> JNull)"

section \<open>Configuration\<close>

fun warning_to_string :: "validation_warning \<Rightarrow> string" where
  "warning_to_string (PolicyIdWithoutPolicyAction pattern) =
     ''rule '' @ q pattern @ '' has policy_id but action is not '' @ q ''policy''"
| "warning_to_string (PatternMatchesNothing pattern) = ''glob pattern '' @ q pattern @ '' may match no tools''"
| "warning_to_string (PerWorkflowSlackNotSupported workflow) =
     ''workflow '' @ q workflow @ '' specifies per-workflow Slack settings (token_env, mention, or non-default channel) '' @
     ''which are not yet supported; global THOUGHTGATE_SLACK_* env vars will be used''"

definition sampling_config_default :: sampling_config where
  "sampling_config_default = \<lparr>sa_strategy = ''head'', sa_success_sample_rate = f64_one\<rparr>"

definition batch_config_default :: batch_config where
  "batch_config_default = \<lparr>bc_max_queue_size = 2048, bc_max_export_batch_size = 512,
     bc_scheduled_delay_ms = 5000, bc_export_timeout_ms = 30000\<rparr>"

section \<open>Debug output\<close>

text \<open>What the debug form of a request shows: its fields in order, each printed by its own type.\<close>

record request_debug =
  rd_id :: "json_rpc_id option"
  rd_method :: string
  rd_params :: "string option"
  rd_task_metadata :: "duration option option"
  rd_correlation_id :: "128 word"

definition mcp_request_debug :: "parsed_request \<Rightarrow> request_debug" where
  "mcp_request_debug r = \<lparr>rd_id = mq_id r, rd_method = mq_method r,
     rd_params = map_option (\<lambda>_. ''<redacted>'') (mq_params r),
     rd_task_metadata = mq_task_metadata r, rd_correlation_id = mq_correlation_id r\<rparr>"

record approval_debug =
  ab_task_id :: task_id
  ab_tool_name :: string
  ab_tool_arguments :: string
  ab_principal :: principal
  ab_expires_at :: datetime
  ab_created_at :: datetime
  ab_correlation_id :: string
  ab_request_span_context :: "string option"

text \<open>\<open>ids\<close> are the printed identifiers of the span context, if the request has one.\<close>

definition approval_request_debug :: "(string \<times> string) option \<Rightarrow> approval_request \<Rightarrow> approval_debug" where
  "approval_request_debug ids r = \<lparr>ab_task_id = aq_task_id r, ab_tool_name = aq_tool_name r,
     ab_tool_arguments = ''[REDACTED]'', ab_principal = aq_principal r, ab_expires_at = aq_expires_at r,
     ab_created_at = aq_created_at r, ab_correlation_id = aq_correlation_id r,
     ab_request_span_context = map_option (\<lambda>(t, s). ''trace_id='' @ t @ '', span_id='' @ s) ids\<rparr>"

section \<open>Around the startup of the proxy\<close>

definition start_telemetry ::
  "(string option \<times> (string \<times> string) list \<Rightarrow> string + unit) \<Rightarrow> (string \<Rightarrow> string option) \<Rightarrow>
   config option \<Rightarrow> string + tracer_provider" where
  "start_telemetry build_exporter var yaml_config =
     map_sum telemetry_error_to_string id
       (init_telemetry build_exporter (tracing_config_from_yaml var (Option.bind yaml_config cf_telemetry)))"

definition request_timeout :: "(string \<Rightarrow> string option) \<Rightarrow> duration" where
  "request_timeout var =
     TG_Prelude.from_secs (case var ''THOUGHTGATE_REQUEST_TIMEOUT_SECS'' of
        Some val \<Rightarrow> (case parse_usize val of Some secs \<Rightarrow> secs | None \<Rightarrow> 300)
      | None \<Rightarrow> 300)"

datatype proxy_signal = SIGINT | SIGTERM | SIGQUIT

text \<open>The lifecycle after a signal, whether the token of the accept loop is cancelled, and the exit code if the process
  ends at once.\<close>

fun on_signal :: "proxy_signal \<Rightarrow> lifecycle_manager \<Rightarrow> lifecycle_manager \<times> bool \<times> int option" where
  "on_signal SIGINT M = (begin_shutdown M, True, None)"
| "on_signal SIGTERM M = (begin_shutdown M, True, None)"
| "on_signal SIGQUIT M = (mark_stopped M, False, Some 1)"

section \<open>Properties\<close>

text \<open>The deserializer of identifiers agrees with the one used for batches and for the classification of stdio
  messages, and what is assumed of the reader of whole requests is what the deserializer of the field computes.\<close>

lemma id_deserialize_iff: "id_deserialize v = Inr i \<longleftrightarrow> parse_id v = Some i"
  by (cases v) (auto simp: id_deserialize_def split: option.splits)

lemma optional_id: "deserialize_optional_id v = (case id_deserialize v of Inl e \<Rightarrow> Inl e | Inr i \<Rightarrow> Inr (Some i))"
  by (auto simp: deserialize_optional_id_def maybe_null_deserialize_def id_deserialize_def split: sum.splits)

lemma id_field_reads:
  "case id_field m of
     Inr i \<Rightarrow> (case map_of m ''id'' of None \<Rightarrow> True | Some v \<Rightarrow> parse_id v \<noteq> None) \<and> rw_id (raw_of m) = i
   | Inl e \<Rightarrow> \<not> fields_ok m"
proof (cases "map_of m ''id''")
  case (Some v)
  show ?thesis
  proof (cases "id_deserialize v")
    case (Inl e)
    then have "parse_id v = None" using id_deserialize_iff [of v] by (cases "parse_id v") auto
    with Some Inl show ?thesis by (simp add: id_field_def optional_id fields_ok_def)
  next
    case (Inr i)
    then have "parse_id v = Some i" by (simp add: id_deserialize_iff)
    with Some Inr show ?thesis by (simp add: id_field_def optional_id raw_of_def)
  qed
qed (simp add: id_field_def raw_of_def)

text \<open>Only an absent identifier makes a notification; an identifier that is null is kept and answered.\<close>

lemma notification_iff_no_id: "id_field m = Inr None \<longleftrightarrow> map_of m ''id'' = None"
  by (auto simp: id_field_def optional_id split: option.splits sum.splits)

text \<open>An identifier that is written is read back.\<close>

lemma id_field_roundtrip:
  "id_in_range i \<Longrightarrow> map_of m ''id'' = Some (id_to_value i) \<Longrightarrow> id_field m = Inr (Some i)"
  using id_deserialize_iff [of "id_to_value i" i] by (simp add: id_field_def optional_id id_roundtrip)

text \<open>Durations survive a file, if \<open>humantime\<close> reads what it writes.\<close>

lemma duration_roundtrip:
  assumes "\<forall>d. opt = Some d \<longrightarrow> dl_humantime D (dl_format D d) = Some d"
  shows "duration_deserialize_option D refused (duration_serialize_option D opt) = Inr opt"
  using assms by (cases opt) (simp_all add: duration_deserialize_option_def duration_serialize_option_def parse_duration_def)

text \<open>The two tables of defaults agree: a section of the configuration with default values means the same as none.\<close>

lemma telemetry_defaults_agree:
  "tracing_config_from_yaml var (Some (y\<lparr>te_sampling := Some sampling_config_default, te_batch := Some batch_config_default\<rparr>)) =
   tracing_config_from_yaml var (Some (y\<lparr>te_sampling := None, te_batch := None\<rparr>))"
  by (cases "var ''OTEL_EXPORTER_OTLP_ENDPOINT''")
    (simp_all add: tracing_config_from_yaml_def Let_def sampling_config_default_def batch_config_default_def
      batch_settings_default_def)

text \<open>Debug output shows nothing of parameters and arguments.\<close>

lemma debug_hides_params:
  "mcp_request_debug (r\<lparr>mq_params := Some v\<rparr>) = mcp_request_debug (r\<lparr>mq_params := Some w\<rparr>)"
  "approval_request_debug ids (a\<lparr>aq_tool_arguments := v\<rparr>) = approval_request_debug ids a"
  by (simp_all add: mcp_request_debug_def approval_request_debug_def)

text \<open>Telemetry that is not enabled does not keep the proxy from starting.\<close>

lemma disabled_telemetry_starts:
  assumes "case yaml_config of Some c \<Rightarrow> (case cf_telemetry c of Some t \<Rightarrow> \<not> te_enabled t | None \<Rightarrow> True) | None \<Rightarrow> True"
  shows "\<exists>p. start_telemetry build var yaml_config = Inr p \<and> tp_export p = None"
proof -
  have "\<not> tc_enabled (tracing_config_from_yaml var (Option.bind yaml_config cf_telemetry))"
    using assms by (auto simp: tracing_config_from_yaml_def Let_def telemetry_yaml_default_def split: option.splits)
  then show ?thesis by (simp add: start_telemetry_def init_telemetry_def)
qed

text \<open>After any signal the gateway takes no further request.\<close>

lemma signal_refuses_requests: "snd (track_request (fst (on_signal g M))) = False"
  by (cases g) (simp_all add: track_request_def begin_shutdown_def mark_stopped_def is_shutting_down_def)

end
