(* ===== verification/Spec2Isabelle.thy ===== *)
theory Spec2Isabelle
  imports Engine_Once Store_Theorems2 Shim_Theorems Cedar_Theorems Proxy_Theorems Wrap_Limits
    Trace_Context Metrics Request_Logging Protocol_Types Wire_Forms
begin

text \<open>
  ThoughtGate is a gateway between agents and MCP servers. Every call an agent makes passes four
  gates: what a source exposes, governance rules, a Cedar policy, a human approval. A call that needs a
  decision becomes a task; an approval request is posted to a messaging service and polled; the
  approved request is executed upstream when the agent asks for its result. This development models
  the crates \<open>thoughtgate-core\<close> (\<open>src/thoughtgate-core/src\<close>), \<open>thoughtgate-proxy\<close>
  (\<open>src/thoughtgate-proxy/src\<close>) and \<open>thoughtgate\<close> (\<open>src/thoughtgate/src\<close>), and proves what makes
  them correct. An agent reaches a server in two ways: over HTTP through the proxy, which runs the gates
  itself, and over stdio through a shim, which asks the governance service and waits for its decisions. The
  command \<open>thoughtgate wrap\<close> puts the shims in place: it rewrites the configuration of an agent, runs
  the agent next to a governance service and restores the configuration.

  \<^bold>\<open>Conventions.\<close> A struct is a record, an enum a datatype, a map an association list with
  distinct keys. Operations take the state and return it updated; errors are values of sum types, a
  panic is a value of its own. Times and durations are nanoseconds; every clock reading, fresh
  identifier and answer of an outside service is an argument. Counters of type \<open>usize\<close> wrap modulo
  \<open>2 ^ 64\<close> (\<open>wadd\<close>, \<open>wsub\<close>); bit-level code uses words. Texts are UTF-8 bytes.
  Metrics, spans and log output have theories of their own; the other components are modelled without the
  calls that record them.

  \<^bold>\<open>Theories.\<close>
  \<^item> \<open>TG_Prelude\<close>, \<open>TG_Json\<close>: durations, atomic counters, totals over tables, sequences of results;
    JSON values with the canonical form, and redaction (\<open>approval/redact.rs\<close>).
  \<^item> \<open>Task_Status\<close>, \<open>Task_Core\<close>: the status machine and tasks (\<open>governance/task/status.rs\<close>,
    \<open>types.rs\<close>, \<open>error.rs\<close>, \<open>helpers.rs\<close>).
  \<^item> \<open>Task_Store\<close>: the table of tasks with its reserved slots and bytes (\<open>task/store.rs\<close>), one
    definition per operation. \<open>Task_Store_Inv\<close> has the invariant and the reachable stores,
    \<open>Task_Store_Props\<close> what a step does to a row. The laws they rest on are locales of the prelude
    (\<open>keyed_total\<close> for totals over tables, \<open>op_system\<close> for sequences of operations, \<open>row_pass\<close> and
    \<open>counted_pass\<close> for passes over all rows), interpreted on the store's operations.
    \<open>Store_Theorems\<close>, \<open>Store_Theorems2\<close> have the results: counters are exact, tasks evolve along the
    state machine, creation, decisions, expiry, cleanup, cancellation.
  \<^item> \<open>TG_Error\<close>: the error type and what a client sees of it (\<open>error/mod.rs\<close>, \<open>error/jsonrpc.rs\<close>).
  \<^item> \<open>Pipeline\<close>: inspectors before the approval, and the execution of an approved request
    (\<open>governance/pipeline.rs\<close>).
  \<^item> \<open>Scheduler\<close>: polling for decisions (\<open>approval/mod.rs\<close>, \<open>approval/scheduler.rs\<close>), its loop as a
    step relation.
  \<^item> \<open>Engine\<close>, \<open>Engine_Flow\<close>, \<open>Engine_Once\<close>: the approval engine (\<open>governance/engine.rs\<close>); a call
    as a whole, the blocking wait over any list of rounds, and interleaved calls as a step relation.
  \<^item> \<open>Config_Schema\<close>, \<open>Config_Loader\<close>: the configuration (\<open>config/schema.rs\<close>, \<open>error.rs\<close>,
    \<open>loader.rs\<close>) with a declarative specification of usable configurations that validation implements.
  \<^item> \<open>Evaluator\<close>: the four gates (\<open>governance/evaluator.rs\<close>, \<open>api.rs\<close>).
  \<^item> \<open>Task_Handlers\<close>, \<open>Task_Methods\<close>: the task methods of the protocol and their isolation between
    principals (\<open>governance/handlers.rs\<close>, \<open>mcp_handler/task_methods.rs\<close>). The fuel of
    \<open>list_pages\<close> is the number of pages, \<open>n div 20 + 1\<close> for \<open>n\<close> tasks, proved to be enough.
  \<^item> \<open>List_Filtering\<close>: lists of tools, resources and prompts (\<open>governance/list_filtering.rs\<close>).
  \<^item> \<open>Jsonrpc\<close>: messages (\<open>transport/jsonrpc.rs\<close>, \<open>jsonrpc.rs\<close>) and routing (\<open>transport/router.rs\<close>).
  \<^item> \<open>Capability\<close>: the handshake's capabilities (\<open>protocol/capability.rs\<close>).
  \<^item> \<open>Mcp_Proxy\<close>: the route of one request through the proxy (\<open>mcp_handler/mod.rs\<close>,
    \<open>gate_routing.rs\<close>, \<open>cedar_eval.rs\<close>, \<open>capabilities.rs\<close>); every definition returns the calls it
    makes to the upstream.
  \<^item> \<open>Request_Handler\<close>: bodies, batches and admission (\<open>mcp_handler/request.rs\<close>,
    \<open>handler_config.rs\<close>); concurrent admission as a step relation on the shared counters.
  \<^item> \<open>Upstream\<close>: the HTTP client of the upstream (\<open>transport/upstream.rs\<close>): what is retried, bounded
    bodies, batches.
  \<^item> \<open>Lifecycle\<close>: states of the process, request tracking, draining and the probes
    (\<open>lifecycle/mod.rs\<close>, \<open>lifecycle/health.rs\<close>), with the interleaving of requests and drain as a step
    function; the drain loop is a recursion over the readings of its clock.
  \<^item> \<open>Slack_Adapter\<close>: messages, reactions and decisions (\<open>approval/slack.rs\<close>). The locale
    \<open>approval_adapter\<close> says what the scheduler relies on in an adapter; Slack interprets it.
  \<^item> \<open>Governance_Service\<close>: the service the shims ask (\<open>governance/service.rs\<close>).
  \<^item> \<open>Stdio_Framing\<close>, \<open>Stdio_Shim\<close>, \<open>Stdio_Theorems\<close>: the line reader and parser
    (\<open>shim/ndjson.rs\<close>, \<open>shim/proxy/helpers.rs\<close>), both message loops, the wait for approvals, heartbeats
    and shutdown (\<open>shim/proxy\<close>), and what they guarantee. The loops are partial functions with value
    \<open>None\<close> for not returning; that they return is proved. The locale \<open>governance_contract\<close> says what
    the shim relies on in the service; the service's handlers interpret it.
  \<^item> \<open>Shim_Run\<close>, \<open>Shim_Theorems\<close>: the command \<open>thoughtgate shim\<close> as a whole (\<open>shim/proxy/mod.rs\<close>,
    \<open>main.rs\<close>, \<open>cli.rs\<close>). The two loops and the heartbeat are interleaved by a schedule, an
    arbitrary list of steps over the shared requests, output and signal; recording a request is a step of its
    own, as it is in the code. Results: everything that reaches the server is governed under every schedule, a
    schedule of only one loop is that loop, the race between the record and a fast answer, and how a session
    ends.
  \<^item> \<open>Cedar_Engine\<close>, \<open>Cedar_Theorems\<close>: the policy engine (\<open>policy/engine.rs\<close>, \<open>policy/loader.rs\<close>,
    \<open>policy/types.rs\<close>) over the \<open>cedar-policy\<close> crate as an argument: where policies come from, what Cedar
    is given, that the gate fails closed, and reloading as a step relation.
  \<^item> \<open>Principal_Inference\<close>: who the gateway acts for (\<open>policy/principal.rs\<close>). \<open>Mock_Adapter\<close>: the adapter that
    decides by itself (\<open>approval/mock.rs\<close>), a second interpretation of \<open>approval_adapter\<close>.
  \<^item> \<open>Traffic\<close>, \<open>Rate_Limiter\<close>, \<open>Stream_Body\<close>: which requests are MCP (\<open>traffic.rs\<close>, \<open>ports.rs\<close>), the limiter per
    client address (\<open>rate_limiter.rs\<close>), timeouts and counters of streamed bodies (\<open>timeout.rs\<close>,
    \<open>proxy_body.rs\<close>).
  \<^item> \<open>Proxy_Service\<close>: one HTTP request through the proxy (\<open>proxy_service.rs\<close>, \<open>proxy_config.rs\<close>, \<open>error.rs\<close>);
    what leaves the proxy is part of the result. \<open>Proxy_Main\<close>: startup, connections, the accept loop and shutdown
    (\<open>main.rs\<close>, \<open>admin.rs\<close>, \<open>mcp_handler/factory.rs\<close>, \<open>config/defaults.rs\<close>). \<open>Proxy_Theorems\<close>: what the
    program guarantees as a whole.
  \<^item> \<open>Wrap_Files\<close>, \<open>Wrap_Config\<close>, \<open>Wrap_Adapters\<close>: a file system whose calls may fail at every point, and the
    reading, rewriting and restoring of configurations for six agents (\<open>wrap/config_adapter\<close>). \<open>Wrap_Laws\<close>: the
    locale \<open>config_rewriter\<close> says what the wrapper relies on in an adapter (the backup is written before
    the file and holds its bytes, nothing else changes); it is interpreted on all adapters. \<open>Wrap_Launch\<close>: the guard and
    the command (\<open>wrap/config_guard.rs\<close>, \<open>wrap/agent_launch.rs\<close>). \<open>Wrap_Theorems\<close>, \<open>Wrap_Governed\<close>,
    \<open>Wrap_Limits\<close>: that no configuration is lost, that it is restored, that every server starts the shim, and
    where these guarantees end.
  \<^item> \<open>Protocol_Types\<close>: the builders and status names of the task protocol (\<open>protocol/task.rs\<close>,
    \<open>protocol/methods.rs\<close>) and the types of the inspector interface (\<open>inspector.rs\<close>), with an implementation of the
    interface as an inspector of the pipeline.
  \<^item> \<open>Wire_Forms\<close>: identifiers, durations, warnings and debug output as hand-written code reads and writes them
    (\<open>transport/jsonrpc.rs\<close>, \<open>config/duration_format.rs\<close>), and telemetry, timeouts and signals at the startup of
    the proxy; what \<open>Jsonrpc\<close> assumes the reader of requests does with identifiers is what they compute.
  \<^item> \<open>Trace_Context\<close>: span contexts in their stored form and in HTTP headers (\<open>telemetry/trace_context.rs\<close>,
    \<open>telemetry/propagation.rs\<close>), down to the parser of hexadecimal bytes; what is written is read back.
    \<open>Metrics\<close>: every recording operation with the limiter of its labels (\<open>telemetry/prom_metrics.rs\<close>,
    \<open>telemetry/cardinality.rs\<close>), a run as a step relation over the limiters. \<open>Telemetry\<close>: configuration,
    sampling and the spans (\<open>telemetry/mod.rs\<close>, \<open>telemetry/spans.rs\<close>). \<open>Request_Logging\<close>: what the log shows of a
    request (\<open>logging_layer.rs\<close>).

  \<^bold>\<open>What is not modelled, and why.\<close> The \<open>cedar-policy\<close> crate, the glob matcher, the JSON, YAML and URL
  parsers, the HTTP client and server, the token bucket of \<open>governor\<close> and the messaging service are code
  outside the repository: they are arguments, with what is relied on as named hypotheses. So are OpenTelemetry and
  Prometheus, which receive the spans and the metrics; where the other components record them is not part
  of their models, since no decision depends on it. The deserializers \<open>serde\<close> derives and the command line parser
  \<open>clap\<close> derives are generated code. Sockets, TLS, processes and signals are input and output, whose outcomes are
  arguments. Tests, benchmarks and fuzz targets are no part of the program.
\<close>

end
